(* ===== verification/Prelude.thy ===== *)
theory Prelude
  imports Main "HOL-Library.Word" "HOL-Library.Char_ord" "HOL-Library.List_Lexorder"
begin

text \<open>
  The vocabulary shared by every component.

  \<^item> Machine types: \<open>u64\<close> is Go's \<open>uint64\<close>, \<open>int64\<close> its conversion to \<open>int64\<close> (two's
    complement), \<open>MaxDurableValue\<close> the largest value a PostgreSQL BIGINT can hold. Times are
    integers (nanoseconds since the Unix epoch); \<open>zero_time\<close> is Go's zero \<open>time.Time\<close>.
  \<^item> Go strings are byte sequences, here \<open>string\<close>; the character classes of the validators.
  \<^item> Tables are lists of rows. \<open>update_where\<close> and \<open>count_where\<close> are SQL's UPDATE ... WHERE and
    its affected-row count; \<open>table_le\<close> says how a table may evolve: rows are appended, never
    deleted, and every old row is related to its new version.
  \<^item> A database transaction is a function \<open>'s \<Rightarrow> 'e + 'a \<times> 's\<close>: an error rolls everything
    back, a result carries the new state. \<open>tx_rel\<close> says that a transaction only moves the state
    along a relation; the locale \<open>tx_preorder\<close> lifts that from the steps to whole transactions.
\<close>

named_theorems tx_defs "the transaction combinators, to be unfolded"
named_theorems tx_rel_rules "rules that establish a step relation of a transaction"

section \<open>Machine values\<close>

type_synonym u64 = "64 word"
type_synonym byte = "8 word"
type_synonym time = int

definition zero_time :: time where
  "zero_time = -62135596800 * 10 ^ 9"

text \<open>\<open>t.Truncate(time.Microsecond)\<close>, the resolution of TIMESTAMPTZ.\<close>

definition truncate_us :: "time \<Rightarrow> time" where
  "truncate_us t = t - t mod 1000"

definition MaxDurableValue :: u64 where
  "MaxDurableValue = drop_bit 1 (-1)"

definition int64 :: "u64 \<Rightarrow> int" where
  "int64 w = sint w"

definition uint64 :: "int \<Rightarrow> u64" where
  "uint64 i = word_of_int i"

lemma MaxDurableValue_eq: "MaxDurableValue = 9223372036854775807"
  unfolding MaxDurableValue_def by code_simp

lemma unat_MaxDurableValue: "unat MaxDurableValue = 2 ^ 63 - 1"
  by (simp add: MaxDurableValue_eq)

text \<open>Below the durable bound the conversion to \<open>int64\<close> is the value itself.\<close>

lemma int64_durable:
  assumes "w \<le> MaxDurableValue"
  shows "int64 w = uint w"
proof -
  have "uint w \<le> uint MaxDurableValue" using assms by (simp add: word_le_def)
  then have "uint w < 2 ^ 63" by (simp add: MaxDurableValue_eq)
  moreover have "- (2 ^ 63) \<le> uint w" by (rule order_trans [of _ 0]) simp_all
  ultimately have "signed_take_bit 63 (uint w) = uint w"
    by (intro signed_take_bit_int_eq_self)
  then have "sint w = uint w" by (simp add: sint_uint)
  then show ?thesis by (simp add: int64_def)
qed

lemma int64_inj [simp]: "int64 v = int64 w \<longleftrightarrow> v = w"
  by (auto simp: int64_def intro: signed_word_eqI)

lemma uint64_int64 [simp]: "uint64 (int64 w) = w"
  by (simp add: uint64_def int64_def)

lemma int64_uint64:
  assumes "0 \<le> i" and "i \<le> 9223372036854775807"
  shows "int64 (uint64 i) = i"
  using assms by (simp add: int64_def uint64_def sint_uint uint_word_of_int
      take_bit_int_eq_self signed_take_bit_int_eq_self)

lemma int64_0 [simp]: "int64 0 = 0" and int64_1 [simp]: "int64 1 = 1"
  by (simp_all add: int64_def)

section \<open>Go strings\<close>

definition is_lower :: "char \<Rightarrow> bool" where
  "is_lower c \<longleftrightarrow> CHR ''a'' \<le> c \<and> c \<le> CHR ''z''"

definition is_upper :: "char \<Rightarrow> bool" where
  "is_upper c \<longleftrightarrow> CHR ''A'' \<le> c \<and> c \<le> CHR ''Z''"

definition is_digit :: "char \<Rightarrow> bool" where
  "is_digit c \<longleftrightarrow> CHR ''0'' \<le> c \<and> c \<le> CHR ''9''"

definition is_lower_hex :: "char \<Rightarrow> bool" where
  "is_lower_hex c \<longleftrightarrow> is_digit c \<or> CHR ''a'' \<le> c \<and> c \<le> CHR ''f''"

definition is_ascii :: "char \<Rightarrow> bool" where
  "is_ascii c \<longleftrightarrow> of_char c < (128 :: nat)"

lemma of_char_lt_256: "(of_char c :: nat) < 256"
proof -
  have "(of_char c :: nat) mod 256 = of_char (char_of (of_char c :: nat))" by (simp only: of_char_of)
  also have "\<dots> = of_char c" by simp
  finally have "(of_char c :: nat) = of_char c mod 256" ..
  moreover have "\<dots> < 256" by simp
  ultimately show ?thesis by linarith
qed

lemmas char_class_defs = is_lower_def is_upper_def is_digit_def is_lower_hex_def

lemma char_class_ascii:
  "is_lower c \<Longrightarrow> is_ascii c" "is_upper c \<Longrightarrow> is_ascii c" "is_digit c \<Longrightarrow> is_ascii c"
  by (simp_all add: char_class_defs is_ascii_def less_eq_char_def)

text \<open>\<open>string(n)\<close> in base 10, as \<open>strconv.FormatUint\<close> and \<open>%d\<close> print it.\<close>

fun dec_nat :: "nat \<Rightarrow> string" where
  "dec_nat n = (if n < 10 then [char_of (48 + n)] else dec_nat (n div 10) @ [char_of (48 + n mod 10)])"

declare dec_nat.simps [simp del]

definition dec_u64 :: "u64 \<Rightarrow> string" where
  "dec_u64 w = dec_nat (unat w)"

definition dec_digit :: "char \<Rightarrow> nat" where
  "dec_digit c = of_char c - 48"

definition dec_value :: "string \<Rightarrow> nat" where
  "dec_value s = foldl (\<lambda>v c. 10 * v + dec_digit c) 0 s"

lemma dec_value_snoc [simp]: "dec_value (s @ [c]) = 10 * dec_value s + dec_digit c"
  by (simp add: dec_value_def)

lemma dec_digit_char_of [simp]: "n < 10 \<Longrightarrow> dec_digit (char_of (48 + n)) = n"
  by (simp add: dec_digit_def)

lemma dec_value_dec_nat [simp]: "dec_value (dec_nat n) = n"
proof (induction n rule: dec_nat.induct)
  case (1 n)
  show ?case
  proof (cases "n < 10")
    case True
    then have "dec_nat n = [] @ [char_of (48 + n)]" by (subst dec_nat.simps) simp
    then show ?thesis using True by (simp only: dec_value_snoc) (simp add: dec_value_def)
  next
    case False
    then have "dec_nat n = dec_nat (n div 10) @ [char_of (48 + n mod 10)]"
      by (subst dec_nat.simps) simp
    then show ?thesis using 1 False by simp
  qed
qed

lemma dec_nat_inj: "dec_nat m = dec_nat n \<longleftrightarrow> m = n"
  by (metis dec_value_dec_nat)

lemma dec_u64_inj: "dec_u64 v = dec_u64 w \<longleftrightarrow> v = w"
  by (simp add: dec_u64_def dec_nat_inj word_unat_eq_iff)

lemma dec_nat_digits: "c \<in> set (dec_nat n) \<Longrightarrow> is_digit c"
proof (induction n arbitrary: c rule: dec_nat.induct)
  case (1 n)
  have digit: "is_digit (char_of (48 + k))" if "k < 10" for k :: nat
    using that by (simp add: is_digit_def less_eq_char_def)
  show ?case
  proof (cases "n < 10")
    case True
    with "1.prems" have "c = char_of (48 + n)" by (subst (asm) dec_nat.simps) simp
    then show ?thesis using digit True by simp
  next
    case False
    with "1.prems" have "c \<in> set (dec_nat (n div 10)) \<or> c = char_of (48 + n mod 10)"
      by (subst (asm) dec_nat.simps) auto
    then show ?thesis using "1.IH" False digit [of "n mod 10"] by auto
  qed
qed

section \<open>Guard chains\<close>

text \<open>
  Validators are chains of early returns. These equations read off what an accepting run has
  passed, one guard at a time, without splitting the chain into cases.
\<close>

lemma guard_Inr: "(if b then Inl e else r) = Inr u \<longleftrightarrow> \<not> b \<and> r = Inr u"
  by simp

lemma bind_Inr: "(case r of Inl e \<Rightarrow> Inl e | Inr x \<Rightarrow> k x) = Inr u \<longleftrightarrow> (\<exists>x. r = Inr x \<and> k x = Inr u)"
  by (cases r) auto

lemmas guard_chain = guard_Inr bind_Inr

section \<open>Tables\<close>

definition update_where :: "('r \<Rightarrow> bool) \<Rightarrow> ('r \<Rightarrow> 'r) \<Rightarrow> 'r list \<Rightarrow> 'r list" where
  "update_where P f rows = map (\<lambda>r. if P r then f r else r) rows"

definition count_where :: "('r \<Rightarrow> bool) \<Rightarrow> 'r list \<Rightarrow> nat" where
  "count_where P rows = length (filter P rows)"

lemma find_append: "find P (xs @ ys) = (case find P xs of None \<Rightarrow> find P ys | Some x \<Rightarrow> Some x)"
  by (induction xs) auto

lemma length_update_where [simp]: "length (update_where P f rows) = length rows"
  by (simp add: update_where_def)

lemma update_where_Nil [simp]: "update_where P f [] = []"
  by (simp add: update_where_def)

lemma update_where_Cons [simp]:
  "update_where P f (r # rows) = (if P r then f r else r) # update_where P f rows"
  by (simp add: update_where_def)

lemma update_where_append [simp]:
  "update_where P f (xs @ ys) = update_where P f xs @ update_where P f ys"
  by (simp add: update_where_def)

lemma set_update_where:
  "set (update_where P f rows) = f ` {r \<in> set rows. P r} \<union> {r \<in> set rows. \<not> P r}"
  by (auto simp: update_where_def)

lemma in_update_whereE:
  assumes "r \<in> set (update_where P f rows)"
  obtains (old) "r \<in> set rows" "\<not> P r" | (new) r0 where "r0 \<in> set rows" "P r0" "r = f r0"
  using assms by (auto simp: set_update_where)

lemma map_update_where:
  "(\<And>r. r \<in> set rows \<Longrightarrow> P r \<Longrightarrow> g (f r) = g r) \<Longrightarrow> map g (update_where P f rows) = map g rows"
  by (auto simp: update_where_def)

lemma filter_update_where:
  "(\<And>r. r \<in> set rows \<Longrightarrow> P r \<Longrightarrow> Q (f r) = Q r) \<Longrightarrow>
   filter Q (update_where P f rows) = update_where P f (filter Q rows)"
  by (induction rows) auto

lemma update_where_cong:
  "(\<And>r. r \<in> set rows \<Longrightarrow> P r = Q r) \<Longrightarrow> (\<And>r. r \<in> set rows \<Longrightarrow> Q r \<Longrightarrow> f r = g r) \<Longrightarrow>
   update_where P f rows = update_where Q g rows"
  by (auto simp: update_where_def)

lemma update_where_idle: "(\<And>r. r \<in> set rows \<Longrightarrow> P r \<Longrightarrow> f r = r) \<Longrightarrow> update_where P f rows = rows"
  by (induction rows) auto

lemma find_Some_iff_in:
  "find P rows = Some r \<Longrightarrow> r \<in> set rows \<and> P r"
  by (induction rows) (auto split: if_splits)

lemma find_None_iff_in: "find P rows = None \<longleftrightarrow> (\<forall>r \<in> set rows. \<not> P r)"
  by (induction rows) auto

lemma find_is_Some: "r \<in> set rows \<Longrightarrow> P r \<Longrightarrow> \<exists>r'. find P rows = Some r'"
  by (induction rows) auto

text \<open>A primary key: at most one row per value of the key column.\<close>

definition unique_by :: "('r \<Rightarrow> 'k) \<Rightarrow> 'r list \<Rightarrow> bool" where
  "unique_by key rows \<longleftrightarrow> distinct (map key rows)"

lemma unique_byD:
  "unique_by key rows \<Longrightarrow> r \<in> set rows \<Longrightarrow> r' \<in> set rows \<Longrightarrow> key r = key r' \<Longrightarrow> r = r'"
  by (simp add: unique_by_def distinct_map inj_on_def)

lemma unique_by_update_where:
  "(\<And>r. P r \<Longrightarrow> key (f r) = key r) \<Longrightarrow>
   unique_by key (update_where P f rows) \<longleftrightarrow> unique_by key rows"
  by (simp add: unique_by_def map_update_where)

lemma unique_by_snoc:
  "unique_by key (rows @ [r]) \<longleftrightarrow> unique_by key rows \<and> (\<forall>r' \<in> set rows. key r' \<noteq> key r)"
  by (auto simp: unique_by_def image_iff)

lemma unique_by_Nil [simp]: "unique_by key []"
  by (simp add: unique_by_def)

lemma find_unique:
  "unique_by key rows \<Longrightarrow> r \<in> set rows \<Longrightarrow> key r = k \<Longrightarrow> find (\<lambda>r. key r = k) rows = Some r"
proof (induction rows)
  case (Cons a rows)
  then show ?case by (auto simp: unique_by_def)
qed simp

text \<open>How a table evolves: every row stays at its place, related by \<open>Q\<close>; rows are only appended.\<close>

definition table_le :: "('r \<Rightarrow> 'r \<Rightarrow> bool) \<Rightarrow> 'r list \<Rightarrow> 'r list \<Rightarrow> bool" where
  "table_le Q xs ys \<longleftrightarrow> list_all2 Q xs (take (length xs) ys)"

lemma table_le_refl: "(\<And>r. Q r r) \<Longrightarrow> table_le Q xs xs"
  by (simp add: table_le_def list_all2_refl)

lemma table_le_length: "table_le Q xs ys \<Longrightarrow> length xs \<le> length ys"
  by (auto simp: table_le_def dest: list_all2_lengthD)

lemma table_le_trans:
  assumes Q: "\<And>a b c. Q a b \<Longrightarrow> Q b c \<Longrightarrow> Q a c"
    and xy: "table_le Q xs ys" and yz: "table_le Q ys zs"
  shows "table_le Q xs zs"
proof -
  let ?n = "length xs"
  have n: "?n \<le> length ys" using xy by (rule table_le_length)
  from yz have "list_all2 Q (take ?n ys) (take ?n (take (length ys) zs))"
    unfolding table_le_def by (rule list_all2_takeI)
  then have "list_all2 Q (take ?n ys) (take ?n zs)" using n by (simp add: min_absorb1)
  with xy show ?thesis unfolding table_le_def
    by (rule list_all2_trans [rotated]) (rule Q)
qed

lemma table_le_update_where:
  "(\<And>r. Q r r) \<Longrightarrow> (\<And>r. P r \<Longrightarrow> Q r (f r)) \<Longrightarrow> table_le Q xs (update_where P f xs)"
  by (auto simp: table_le_def update_where_def list_all2_conv_all_nth)

lemma table_le_append: "(\<And>r. Q r r) \<Longrightarrow> table_le Q xs (xs @ ys)"
  by (simp add: table_le_def list_all2_refl)

lemma table_le_row:
  assumes "table_le Q xs ys" and "r \<in> set xs"
  obtains r' where "r' \<in> set ys" and "Q r r'"
proof -
  from assms(2) obtain i where i: "i < length xs" "r = xs ! i" by (auto simp: in_set_conv_nth)
  with assms(1) have "Q (xs ! i) (take (length xs) ys ! i)"
    by (auto simp: table_le_def list_all2_conv_all_nth)
  moreover have "i < length ys" using i(1) table_le_length [OF assms(1)] by simp
  ultimately show thesis using that [of "ys ! i"] i by simp
qed

section \<open>Transactions\<close>

type_synonym ('s, 'e, 'a) tx = "'s \<Rightarrow> 'e + 'a \<times> 's"

definition tx_return :: "'a \<Rightarrow> ('s, 'e, 'a) tx" where
  [tx_defs]: "tx_return x = (\<lambda>d. Inr (x, d))"

definition tx_fail :: "'e \<Rightarrow> ('s, 'e, 'a) tx" where
  [tx_defs]: "tx_fail e = (\<lambda>d. Inl e)"

definition tx_bind :: "('s, 'e, 'a) tx \<Rightarrow> ('a \<Rightarrow> ('s, 'e, 'b) tx) \<Rightarrow> ('s, 'e, 'b) tx" where
  [tx_defs]: "tx_bind m k = (\<lambda>d. case m d of Inl e \<Rightarrow> Inl e | Inr (x, d') \<Rightarrow> k x d')"

definition tx_seq :: "('s, 'e, 'a) tx \<Rightarrow> ('s, 'e, 'b) tx \<Rightarrow> ('s, 'e, 'b) tx" where
  [tx_defs]: "tx_seq m k = tx_bind m (\<lambda>_. k)"

text \<open>\<open>if !cond { return err }\<close>\<close>

definition tx_guard :: "bool \<Rightarrow> 'e \<Rightarrow> ('s, 'e, unit) tx" where
  [tx_defs]: "tx_guard b e = (if b then tx_return () else tx_fail e)"

text \<open>A query, and a query whose missing row is the error \<open>e\<close>.\<close>

definition tx_get :: "('s \<Rightarrow> 'a) \<Rightarrow> ('s, 'e, 'a) tx" where
  [tx_defs]: "tx_get q = (\<lambda>d. Inr (q d, d))"

definition tx_row :: "('s \<Rightarrow> 'a option) \<Rightarrow> 'e \<Rightarrow> ('s, 'e, 'a) tx" where
  [tx_defs]: "tx_row q e = (\<lambda>d. case q d of None \<Rightarrow> Inl e | Some r \<Rightarrow> Inr (r, d))"

definition tx_modify :: "('s \<Rightarrow> 's) \<Rightarrow> ('s, 'e, unit) tx" where
  [tx_defs]: "tx_modify f = (\<lambda>d. Inr ((), f d))"

text \<open>A value that is already an error or a result.\<close>

definition tx_lift :: "'e + 'a \<Rightarrow> ('s, 'e, 'a) tx" where
  [tx_defs]: "tx_lift r = (case r of Inl e \<Rightarrow> tx_fail e | Inr x \<Rightarrow> tx_return x)"

text \<open>\<open>for _, item := range items { if err := f(item); err != nil { return err } }\<close>\<close>

fun tx_each :: "('a \<Rightarrow> ('s, 'e, unit) tx) \<Rightarrow> 'a list \<Rightarrow> ('s, 'e, unit) tx" where
  "tx_each f [] = tx_return ()"
| "tx_each f (x # xs) = tx_seq (f x) (tx_each f xs)"

text \<open>A block of statements run for their effect, and an error translated on its way out.\<close>

fun tx_block :: "('s, 'e, unit) tx list \<Rightarrow> ('s, 'e, unit) tx" where
  "tx_block [] = tx_return ()"
| "tx_block (m # ms) = tx_seq m (tx_block ms)"

definition tx_map_error :: "('e \<Rightarrow> 'e) \<Rightarrow> ('s, 'e, 'a) tx \<Rightarrow> ('s, 'e, 'a) tx" where
  [tx_defs]: "tx_map_error g m = (\<lambda>d. case m d of Inl e \<Rightarrow> Inl (g e) | Inr r \<Rightarrow> Inr r)"

lemma tx_bind_Inr:
  "tx_bind m k d = Inr r \<longleftrightarrow> (\<exists>x d1. m d = Inr (x, d1) \<and> k x d1 = Inr r)"
  by (auto simp: tx_bind_def split: sum.splits prod.splits)

lemma tx_seq_Inr:
  "tx_seq m k d = Inr r \<longleftrightarrow> (\<exists>x d1. m d = Inr (x, d1) \<and> k d1 = Inr r)"
  by (auto simp: tx_seq_def tx_bind_Inr)

lemma tx_guard_Inr: "tx_guard b e d = Inr r \<longleftrightarrow> b \<and> r = ((), d)"
  by (auto simp: tx_defs)

lemma tx_get_Inr: "tx_get q d = Inr r \<longleftrightarrow> r = (q d, d)"
  by (auto simp: tx_defs)

lemma tx_row_Inr: "tx_row q e d = Inr r \<longleftrightarrow> (\<exists>x. q d = Some x \<and> r = (x, d))"
  by (auto simp: tx_defs split: option.splits)

lemma tx_modify_Inr: "tx_modify f d = Inr r \<longleftrightarrow> r = ((), f d)"
  by (auto simp: tx_defs)

lemma tx_return_Inr: "tx_return x d = Inr r \<longleftrightarrow> r = (x, d)"
  by (auto simp: tx_defs)

lemma tx_fail_Inr: "tx_fail e d = Inr r \<longleftrightarrow> False"
  by (simp add: tx_defs)

lemma tx_lift_Inr: "tx_lift m d = Inr r \<longleftrightarrow> (\<exists>x. m = Inr x \<and> r = (x, d))"
  by (auto simp: tx_defs split: sum.splits)

lemma tx_map_error_Inr: "tx_map_error g m d = Inr r \<longleftrightarrow> m d = Inr r"
  by (auto simp: tx_defs split: sum.splits)

lemmas tx_Inr = tx_map_error_Inr tx_bind_Inr tx_seq_Inr tx_guard_Inr tx_get_Inr tx_row_Inr tx_modify_Inr
  tx_return_Inr tx_fail_Inr tx_lift_Inr

text \<open>The steps of a transaction, forwards: for evaluation on a concrete state.\<close>

lemma tx_bind_step: "m d = Inr (x, d') \<Longrightarrow> tx_bind m k d = k x d'"
  by (simp add: tx_bind_def)

lemma tx_bind_error: "m d = Inl e \<Longrightarrow> tx_bind m k d = Inl e"
  by (simp add: tx_bind_def)

definition tx_rel :: "('s \<Rightarrow> 's \<Rightarrow> bool) \<Rightarrow> ('s, 'e, 'a) tx \<Rightarrow> bool" where
  "tx_rel R m \<longleftrightarrow> (\<forall>d x d'. m d = Inr (x, d') \<longrightarrow> R d d')"

lemma tx_relI: "(\<And>d x d'. m d = Inr (x, d') \<Longrightarrow> R d d') \<Longrightarrow> tx_rel R m"
  by (auto simp: tx_rel_def)

lemma tx_relD: "tx_rel R m \<Longrightarrow> m d = Inr (x, d') \<Longrightarrow> R d d'"
  by (auto simp: tx_rel_def)

text \<open>
  The interface of a step relation: reflexive and transitive. Whatever relation the steps of a
  transaction respect, the transaction respects, whichever branches it takes.
\<close>

locale tx_preorder =
  fixes R :: "'s \<Rightarrow> 's \<Rightarrow> bool"
  assumes refl_step: "R d d"
    and trans_step: "R d d' \<Longrightarrow> R d' d'' \<Longrightarrow> R d d''"
begin

lemma rel_return: "tx_rel R (tx_return x)"
  by (rule tx_relI) (auto simp: tx_Inr refl_step)

lemma rel_fail: "tx_rel R (tx_fail e)"
  by (rule tx_relI) (auto simp: tx_Inr)

lemma rel_guard: "tx_rel R (tx_guard b e)"
  by (rule tx_relI) (auto simp: tx_Inr refl_step)

lemma rel_get: "tx_rel R (tx_get q)"
  by (rule tx_relI) (auto simp: tx_Inr refl_step)

lemma rel_row: "tx_rel R (tx_row q e)"
  by (rule tx_relI) (auto simp: tx_Inr refl_step)

lemma rel_lift: "tx_rel R (tx_lift m)"
  by (rule tx_relI) (auto simp: tx_Inr refl_step)

lemma rel_modify: "(\<And>d. R d (f d)) \<Longrightarrow> tx_rel R (tx_modify f)"
  by (rule tx_relI) (auto simp: tx_Inr)

lemma rel_bind: "tx_rel R m \<Longrightarrow> (\<And>x. tx_rel R (k x)) \<Longrightarrow> tx_rel R (tx_bind m k)"
  by (rule tx_relI) (auto simp: tx_Inr dest!: tx_relD intro: trans_step)

lemma rel_seq: "tx_rel R m \<Longrightarrow> tx_rel R k \<Longrightarrow> tx_rel R (tx_seq m k)"
  by (simp add: tx_seq_def rel_bind)

lemma rel_if: "(b \<Longrightarrow> tx_rel R m) \<Longrightarrow> (\<not> b \<Longrightarrow> tx_rel R k) \<Longrightarrow> tx_rel R (if b then m else k)"
  by simp

lemma rel_option:
  "(x = None \<Longrightarrow> tx_rel R m) \<Longrightarrow> (\<And>y. x = Some y \<Longrightarrow> tx_rel R (k y)) \<Longrightarrow>
   tx_rel R (case x of None \<Rightarrow> m | Some y \<Rightarrow> k y)"
  by (simp split: option.splits)

lemma rel_prod: "(\<And>a b. x = (a, b) \<Longrightarrow> tx_rel R (k a b)) \<Longrightarrow> tx_rel R (case x of (a, b) \<Rightarrow> k a b)"
  by (simp split: prod.splits)

lemma rel_each: "(\<And>x. tx_rel R (f x)) \<Longrightarrow> tx_rel R (tx_each f xs)"
  by (induction xs) (simp_all add: rel_return rel_seq)

lemma rel_block_Nil: "tx_rel R (tx_block [])"
  by (simp add: rel_return)

lemma rel_block_Cons: "tx_rel R m \<Longrightarrow> tx_rel R (tx_block ms) \<Longrightarrow> tx_rel R (tx_block (m # ms))"
  by (simp add: rel_seq)

lemma rel_case_list:
  "tx_rel R m \<Longrightarrow> (\<And>y ys. x = y # ys \<Longrightarrow> tx_rel R (k y ys)) \<Longrightarrow> tx_rel R (case x of [] \<Rightarrow> m | y # ys \<Rightarrow> k y ys)"
  by (simp split: list.splits)

lemma rel_map_error: "tx_rel R m \<Longrightarrow> tx_rel R (tx_map_error g m)"
  by (rule tx_relI) (auto simp: tx_Inr dest: tx_relD)

lemmas rel_intros = rel_block_Nil rel_block_Cons rel_case_list rel_map_error rel_return rel_fail rel_guard rel_get rel_row rel_lift rel_bind rel_seq
  rel_if rel_option rel_prod rel_each

end

end
