(* ===== verification/Sha256.thy ===== *)
theory Sha256
  imports Prelude
begin

text \<open>
  SHA-256 (FIPS 180-4), the function Go's \<open>crypto/sha256.Sum256\<close> computes. The store and the
  private protocol use it for request hashes and derived identities. Every later theory treats
  \<open>sum256\<close> as an opaque 32-byte function; the definition is here so that nothing about it is
  assumed, and \<open>sum256_abc\<close> checks it against the standard's test vector.
\<close>

unbundle bit_operations_syntax

type_synonym u32 = "32 word"

definition sha_K :: "u32 list" where
  "sha_K =
    [1116352408, 1899447441, 3049323471, 3921009573, 961987163, 1508970993, 2453635748,
     2870763221, 3624381080, 310598401, 607225278, 1426881987, 1925078388, 2162078206,
     2614888103, 3248222580, 3835390401, 4022224774, 264347078, 604807628, 770255983,
     1249150122, 1555081692, 1996064986, 2554220882, 2821834349, 2952996808, 3210313671,
     3336571891, 3584528711, 113926993, 338241895, 666307205, 773529912, 1294757372,
     1396182291, 1695183700, 1986661051, 2177026350, 2456956037, 2730485921, 2820302411,
     3259730800, 3345764771, 3516065817, 3600352804, 4094571909, 275423344, 430227734,
     506948616, 659060556, 883997877, 958139571, 1322822218, 1537002063, 1747873779,
     1955562222, 2024104815, 2227730452, 2361852424, 2428436474, 2756734187, 3204031479,
     3329325298]"

definition sha_H0 :: "u32 list" where
  "sha_H0 =
    [1779033703, 3144134277, 1013904242, 2773480762, 1359893119, 2600822924, 528734635,
     1541459225]"

definition be32 :: "byte \<Rightarrow> byte \<Rightarrow> byte \<Rightarrow> byte \<Rightarrow> u32" where
  "be32 a b c d = push_bit 24 (ucast a) OR push_bit 16 (ucast b) OR push_bit 8 (ucast c) OR ucast d"

fun words_of :: "byte list \<Rightarrow> u32 list" where
  "words_of (a # b # c # d # r) = be32 a b c d # words_of r"
| "words_of _ = []"

definition bytes_of_u32 :: "u32 \<Rightarrow> byte list" where
  "bytes_of_u32 w = [ucast (drop_bit 24 w), ucast (drop_bit 16 w), ucast (drop_bit 8 w), ucast w]"

definition bytes_of_u64 :: "64 word \<Rightarrow> byte list" where
  "bytes_of_u64 w = map (\<lambda>i. ucast (drop_bit (8 * i) w)) [7, 6, 5, 4, 3, 2, 1, 0]"

definition sha_pad :: "byte list \<Rightarrow> byte list" where
  "sha_pad m = m @ [0x80] @ replicate ((119 - length m mod 64) mod 64) 0
     @ bytes_of_u64 (word_of_nat (8 * length m))"

definition ssig0 :: "u32 \<Rightarrow> u32" where
  "ssig0 x = word_rotr 7 x XOR word_rotr 18 x XOR drop_bit 3 x"
definition ssig1 :: "u32 \<Rightarrow> u32" where
  "ssig1 x = word_rotr 17 x XOR word_rotr 19 x XOR drop_bit 10 x"
definition bsig0 :: "u32 \<Rightarrow> u32" where
  "bsig0 x = word_rotr 2 x XOR word_rotr 13 x XOR word_rotr 22 x"
definition bsig1 :: "u32 \<Rightarrow> u32" where
  "bsig1 x = word_rotr 6 x XOR word_rotr 11 x XOR word_rotr 25 x"

text \<open>The message schedule, newest word first.\<close>

fun sha_extend :: "nat \<Rightarrow> u32 list \<Rightarrow> u32 list" where
  "sha_extend 0 ws = ws"
| "sha_extend (Suc n) ws = sha_extend n ((ssig1 (ws ! 1) + ws ! 6 + ssig0 (ws ! 14) + ws ! 15) # ws)"

fun sha_round :: "u32 list \<Rightarrow> u32 \<times> u32 \<Rightarrow> u32 list" where
  "sha_round [a, b, c, d, e, f, g, h] (k, w) =
     (let t1 = h + bsig1 e + ((e AND f) XOR (NOT e AND g)) + k + w;
          t2 = bsig0 a + ((a AND b) XOR (a AND c) XOR (b AND c))
      in [t1 + t2, a, b, c, d + t1, e, f, g])"
| "sha_round s _ = s"

definition sha_block :: "u32 list \<Rightarrow> u32 list \<Rightarrow> u32 list" where
  "sha_block H ws = map2 (+) H (foldl sha_round H (zip sha_K (rev (sha_extend 48 (rev ws)))))"

fun sha_blocks :: "u32 list \<Rightarrow> u32 list list \<Rightarrow> u32 list" where
  "sha_blocks H [] = H"
| "sha_blocks H (b # bs) = sha_blocks (sha_block H b) bs"

fun chunks16 :: "nat \<Rightarrow> u32 list \<Rightarrow> u32 list list" where
  "chunks16 0 _ = []"
| "chunks16 (Suc n) ws = take 16 ws # chunks16 n (drop 16 ws)"

definition sum256 :: "byte list \<Rightarrow> byte list" where
  "sum256 m = (let ws = words_of (sha_pad m)
     in concat (map bytes_of_u32 (sha_blocks sha_H0 (chunks16 (length ws div 16) ws))))"

lemma length_sha_round [simp]: "length (sha_round H kw) = length H"
  by (cases "(H, kw)" rule: sha_round.cases) (simp_all add: Let_def)

lemma length_foldl_sha_round [simp]: "length (foldl sha_round H kws) = length H"
  by (induction kws arbitrary: H) simp_all

lemma length_sha_block [simp]: "length (sha_block H ws) = length H"
  by (simp add: sha_block_def)

lemma length_sha_blocks [simp]: "length (sha_blocks H bs) = length H"
  by (induction bs arbitrary: H) simp_all

lemma length_concat_bytes_of_u32: "length (concat (map bytes_of_u32 ws)) = 4 * length ws"
  by (induction ws) (simp_all add: bytes_of_u32_def)

lemma length_sum256 [simp]: "length (sum256 m) = 32"
  by (simp add: sum256_def Let_def length_concat_bytes_of_u32 sha_H0_def)

lemma sum256_abc:
  "sum256 [0x61, 0x62, 0x63] =
     [0xba, 0x78, 0x16, 0xbf, 0x8f, 0x01, 0xcf, 0xea, 0x41, 0x41, 0x40, 0xde, 0x5d, 0xae, 0x22, 0x23,
      0xb0, 0x03, 0x61, 0xa3, 0x96, 0x17, 0x7a, 0x9c, 0xb4, 0x10, 0xff, 0x61, 0xf2, 0x00, 0x15, 0xad]"
  by code_simp

section \<open>Hashing Go strings\<close>

definition bytes_of_string :: "string \<Rightarrow> byte list" where
  "bytes_of_string s = map of_char s"

definition sha256_string :: "string \<Rightarrow> byte list" where
  "sha256_string s = sum256 (bytes_of_string s)"

lemma length_sha256_string [simp]: "length (sha256_string s) = 32"
  by (simp add: sha256_string_def)

lemma of_char_byte_inj: "(of_char c :: byte) = of_char c' \<longleftrightarrow> c = c'"
proof
  assume eq: "(of_char c :: byte) = of_char c'"
  have cnv: "(of_char x :: byte) = word_of_nat (of_char x)" for x
    by (simp add: of_nat_of_char)
  from eq have "unat (word_of_nat (of_char c) :: byte) = unat (word_of_nat (of_char c') :: byte)"
    by (simp only: cnv)
  then have "(of_char c :: nat) = of_char c'"
    using of_char_lt_256 [of c] of_char_lt_256 [of c'] by (simp add: unat_of_nat)
  then show "c = c'" by simp
qed simp

lemma bytes_of_string_inj [simp]: "bytes_of_string s = bytes_of_string t \<longleftrightarrow> s = t"
  unfolding bytes_of_string_def
  by (rule inj_map_eq_map) (auto intro: injI simp: of_char_byte_inj)

lemma bytes_of_string_append [simp]:
  "bytes_of_string (s @ t) = bytes_of_string s @ bytes_of_string t"
  by (simp add: bytes_of_string_def)

section \<open>Hexadecimal and UUID text\<close>

definition hex_digit :: "nat \<Rightarrow> char" where
  "hex_digit n = (if n < 10 then char_of (48 + n) else char_of (87 + n))"

definition hex_byte :: "byte \<Rightarrow> string" where
  "hex_byte b = [hex_digit (unat (drop_bit 4 b)), hex_digit (unat (b AND 15))]"

text \<open>\<open>hex.EncodeToString\<close>\<close>

definition hex_encode :: "byte list \<Rightarrow> string" where
  "hex_encode bs = concat (map hex_byte bs)"

lemma hex_digit_lower: "n < 16 \<Longrightarrow> is_lower_hex (hex_digit n)"
  by (auto simp: hex_digit_def is_lower_hex_def is_digit_def less_eq_char_def)

lemma unat_hi_nibble: "unat (drop_bit 4 (b :: byte)) < 16"
proof -
  have "unat b < 2 ^ LENGTH(8)" by (rule unsigned_less)
  then have "unat b < 256" by simp
  then show ?thesis by (simp add: drop_bit_eq_div unat_div)
qed

lemma unat_lo_nibble: "unat (b AND (15 :: byte)) < 16"
  using word_and_le1 [of b 15] by (simp add: word_le_nat_alt)

lemma length_hex_encode [simp]: "length (hex_encode bs) = 2 * length bs"
  by (induction bs) (simp_all add: hex_encode_def hex_byte_def)

lemma hex_encode_lower: "c \<in> set (hex_encode bs) \<Longrightarrow> is_lower_hex c"
  by (auto simp: hex_encode_def hex_byte_def intro!: hex_digit_lower unat_hi_nibble unat_lo_nibble)

lemma hex_digit_inj: "m < 16 \<Longrightarrow> n < 16 \<Longrightarrow> hex_digit m = hex_digit n \<longleftrightarrow> m = n"
  by (auto simp: hex_digit_def dest!: arg_cong [where f = "of_char :: char \<Rightarrow> nat"] split: if_splits)

end
