(* ===== verification/Runner_Contract.thy ===== *)
theory Runner_Contract
  imports Sha256 Go_Text
begin

text \<open>
  The provider-neutral contract of \<open>backend/internal/runner/runner.go\<close> and the identities of
  \<open>runnerprotocol/v1/identity.go\<close>: the reference types, the error sentinels, the operation-key
  validator, derived allocation and session identities, and the validation of verification
  receipts.

  The lemmas show that every derived identity is a well-formed UUID under both validators of the
  code base, and that a receipt that passes validation is bound to exactly the request it
  answers: operation, allocation, problem, deadline, verdict, evidence and controller fence.
\<close>

unbundle bit_operations_syntax

section \<open>Reference types and errors\<close>

record session_ref =
  SessionID :: string
  Generation :: u64

record problem_ref =
  ProblemID :: string
  Revision :: string

record catalog_selection =
  SelGeneration :: u64
  SelProblem :: problem_ref

record allocation_ref =
  AllocID :: string
  AllocSession :: session_ref
  AllocProvider :: string

record controller_fence =
  FenceProviderID :: string
  FenceEpoch :: u64

text \<open>
  The sentinels of the package. A wrapped sentinel (\<open>fmt.Errorf("%w: ...", ErrX)\<close>) is the
  sentinel; \<open>ErrLifecycleConflict\<close> keeps the fixed part of its message. \<open>ErrText\<close> is an
  unclassified \<open>errors.New\<close>, \<open>ErrDB\<close> a wrapped driver error (a missing row, a violated
  constraint, a failed commit).
\<close>

datatype runner_error =
    ErrIdempotencyConflict
  | ErrActiveSession
  | ErrGenerationStale
  | ErrAllocationNotFound
  | ErrLifecycleConflict string
  | ErrSessionExpired
  | ErrControllerFenced
  | ErrOperationOutcomeUnknown
  | ErrCatalogSelectionStale
  | ErrControllerAuthorityUnavailable
  | ErrLifecycleNotFoundOrForbidden
  | ErrLifecycleCursorUnavailable
  | ErrContextCanceled
  | ErrText string
  | ErrDB string

definition ProviderLocalDocker :: string where
  "ProviderLocalDocker = ''local-docker''"

definition ControllerFence_valid :: "controller_fence \<Rightarrow> bool" where
  "ControllerFence_valid f \<longleftrightarrow>
     FenceProviderID f \<noteq> '''' \<and> FenceEpoch f > 0 \<and> FenceEpoch f \<le> MaxDurableValue"

section \<open>Operation keys\<close>

definition op_key_char :: "char \<Rightarrow> bool" where
  "op_key_char c \<longleftrightarrow> is_upper c \<or> is_lower c \<or> is_digit c \<or>
     c = CHR ''.'' \<or> c = CHR ''_'' \<or> c = CHR '':'' \<or> c = CHR ''-''"

text \<open>\<open>^[A-Za-z0-9._:-]{1,128}$\<close>\<close>

definition providerOperationKeyPattern :: "string \<Rightarrow> bool" where
  "providerOperationKeyPattern s \<longleftrightarrow> 1 \<le> length s \<and> length s \<le> 128 \<and> list_all op_key_char s"

definition ValidateProviderOperationKey :: "string \<Rightarrow> bool" where
  "ValidateProviderOperationKey value \<longleftrightarrow> \<not> (length value > 128 \<or> \<not> providerOperationKeyPattern value)"

section \<open>Identities\<close>

definition uuid_text :: "byte list \<Rightarrow> string" where
  "uuid_text b =
     (let encoded = hex_encode b
      in take 8 encoded @ ''-'' @ take 4 (drop 8 encoded) @ ''-'' @ take 4 (drop 12 encoded) @ ''-'' @
         take 4 (drop 16 encoded) @ ''-'' @ drop 20 encoded)"

definition uuidFromDigest :: "string \<Rightarrow> string" where
  "uuidFromDigest value =
     (let b = take 16 (sha256_string value);
          b = b[6 := (b ! 6 AND 0x0f) OR 0x50];
          b = b[8 := (b ! 8 AND 0x3f) OR 0x80]
      in uuid_text b)"

definition NUL :: string where
  "NUL = [CHR 0x00]"

definition AllocationIDForSession :: "session_ref \<Rightarrow> string" where
  "AllocationIDForSession ref =
     uuidFromDigest (''k8s-quiz/allocation/v1'' @ NUL @ SessionID ref @ NUL @ dec_u64 (Generation ref))"

definition SessionIDForOperation :: "string \<Rightarrow> string \<Rightarrow> string" where
  "SessionIDForOperation userID idempotencyKey =
     uuidFromDigest (''k8s-quiz/session/v1'' @ NUL @ userID @ NUL @ idempotencyKey)"

text \<open>A version-4 UUID from 16 random bytes.\<close>

definition newUUID :: "byte list \<Rightarrow> string" where
  "newUUID b =
     (let b = b[6 := (b ! 6 AND 0x0f) OR 0x40];
          b = b[8 := (b ! 8 AND 0x3f) OR 0x80]
      in uuid_text b)"

definition SetupIdempotencyKey :: "allocation_ref \<Rightarrow> string" where
  "SetupIdempotencyKey ref = ''setup:'' @ AllocID ref"

text \<open>
  The two UUID validators: \<open>uuidPattern\<close> of \<open>runnerprotocol/v1/validation.go\<close> and
  \<open>validLifecycleUUID\<close> of \<open>lifecycle.go\<close>.
\<close>

definition uuidPattern :: "(char \<Rightarrow> bool) list" where
  "uuidPattern =
     replicate 8 is_lower_hex @ [\<lambda>c. c = CHR ''-''] @
     replicate 4 is_lower_hex @ [\<lambda>c. c = CHR ''-''] @
     [\<lambda>c. CHR ''1'' \<le> c \<and> c \<le> CHR ''5''] @ replicate 3 is_lower_hex @ [\<lambda>c. c = CHR ''-''] @
     [\<lambda>c. c = CHR ''8'' \<or> c = CHR ''9'' \<or> c = CHR ''a'' \<or> c = CHR ''b''] @ replicate 3 is_lower_hex @
     [\<lambda>c. c = CHR ''-''] @ replicate 12 is_lower_hex"

definition uuidPattern_match :: "string \<Rightarrow> bool" where
  "uuidPattern_match s \<longleftrightarrow> list_all2 (\<lambda>p c. p c) uuidPattern s"

definition is_hex :: "char \<Rightarrow> bool" where
  "is_hex c \<longleftrightarrow> is_digit c \<or> CHR ''a'' \<le> c \<and> c \<le> CHR ''f'' \<or> CHR ''A'' \<le> c \<and> c \<le> CHR ''F''"

definition validLifecycleUUID :: "string \<Rightarrow> bool" where
  "validLifecycleUUID value \<longleftrightarrow>
     length value = 36 \<and>
     list_all (\<lambda>i. if i \<in> {8, 13, 18, 23} then value ! i = CHR ''-'' else is_hex (value ! i)) [0..<36]"

lemma is_lower_hex_is_hex: "is_lower_hex c \<Longrightarrow> is_hex c"
  by (auto simp: is_lower_hex_def is_hex_def)

section \<open>Verification receipts\<close>

record public_feedback =
  FbCode :: string
  FbMessage :: string

record verify_request =
  VrAllocation :: allocation_ref
  VrProblem :: problem_ref
  VrIdempotencyKey :: string
  VrDeadline :: time

record verification_receipt =
  RcSchema :: string
  RcOperationID :: string
  RcAllocation :: allocation_ref
  RcProblem :: problem_ref
  RcDeadline :: time
  RcStatus :: string
  RcFeedback :: public_feedback
  RcEvidenceDigest :: string
  RcVerifierArtifactDigest :: string
  RcVerifierExecutionID :: string
  RcStartedAt :: time
  RcFinishedAt :: time
  RcAssurance :: string
  RcControllerFence :: controller_fence
  RcAttestation :: string

record verify_result =
  RsStatus :: string
  RsFeedback :: public_feedback
  RsEvidence :: string
  RsReceipt :: verification_receipt

definition VerificationReceiptSchema :: string where
  "VerificationReceiptSchema = ''k8s-quiz.verification-receipt/v1''"

definition PublicFeedbackForStatus :: "string \<Rightarrow> runner_error + public_feedback" where
  "PublicFeedbackForStatus status =
     (if status = ''passed'' then
        Inr \<lparr>FbCode = ''verification_passed'', FbMessage = ''Verification passed.''\<rparr>
      else if status = ''failed'' then
        Inr \<lparr>FbCode = ''verification_failed'', FbMessage = ''Verification did not pass.''\<rparr>
      else if status = ''needs_grading'' then
        Inr \<lparr>FbCode = ''evidence_collected'', FbMessage = ''Verification evidence was collected.''\<rparr>
      else Inl (ErrText ''unknown verify status''))"

definition VerifyEvidenceDigest :: "string \<Rightarrow> string" where
  "VerifyEvidenceDigest evidence = ''sha256:'' @ hex_encode (sha256_string evidence)"

text \<open>\<open>^sha256:[0-9a-f]{64}$\<close>\<close>

definition sha256ContentIDPattern :: "string \<Rightarrow> bool" where
  "sha256ContentIDPattern s \<longleftrightarrow>
     take 7 s = ''sha256:'' \<and> length s = 71 \<and> list_all is_lower_hex (drop 7 s)"

definition ValidateVerifyRequest :: "verify_request \<Rightarrow> runner_error + unit" where
  "ValidateVerifyRequest request =
     (if AllocID (VrAllocation request) = '''' \<or> SessionID (AllocSession (VrAllocation request)) = '''' \<or>
         Generation (AllocSession (VrAllocation request)) = 0 \<or> AllocProvider (VrAllocation request) = ''''
      then Inl (ErrText ''verify allocation identity is incomplete'')
      else if ProblemID (VrProblem request) = '''' \<or> Revision (VrProblem request) = ''''
      then Inl (ErrText ''verify problem identity is incomplete'')
      else if \<not> ValidateProviderOperationKey (VrIdempotencyKey request)
      then Inl (ErrText ''verify idempotency key is invalid'')
      else if VrDeadline request = zero_time
      then Inl (ErrText ''verify deadline is required'')
      else Inr ())"

definition ValidateVerifyResult :: "verify_request \<Rightarrow> verify_result \<Rightarrow> runner_error + unit" where
  "ValidateVerifyResult request result =
     (case ValidateVerifyRequest request of Inl e \<Rightarrow> Inl e | Inr _ \<Rightarrow>
      case PublicFeedbackForStatus (RsStatus result) of Inl e \<Rightarrow> Inl e | Inr feedback \<Rightarrow>
      let receipt = RsReceipt result in
      if RsFeedback result \<noteq> feedback
      then Inl (ErrText ''verify result contains non-approved public feedback'')
      else if RcSchema receipt \<noteq> VerificationReceiptSchema
      then Inl (ErrText ''verify receipt schema is invalid'')
      else if RcOperationID receipt \<noteq> VrIdempotencyKey request
      then Inl (ErrText ''verify receipt operation does not match request'')
      else if RcAllocation receipt \<noteq> VrAllocation request
      then Inl (ErrText ''verify receipt allocation does not match request'')
      else if RcProblem receipt \<noteq> VrProblem request
      then Inl (ErrText ''verify receipt problem does not match request'')
      else if RcDeadline receipt \<noteq> VrDeadline request
      then Inl (ErrText ''verify receipt deadline does not match request'')
      else if RcStatus receipt \<noteq> RsStatus result \<or> RcFeedback receipt \<noteq> RsFeedback result
      then Inl (ErrText ''verify receipt verdict does not match result'')
      else if RcEvidenceDigest receipt \<noteq> VerifyEvidenceDigest (RsEvidence result)
      then Inl (ErrText ''verify receipt evidence digest does not match result'')
      else if \<not> sha256ContentIDPattern (RcVerifierArtifactDigest receipt)
      then Inl (ErrText ''verify receipt verifier artifact digest is invalid'')
      else if RcVerifierExecutionID receipt = '''' \<or> length (RcVerifierExecutionID receipt) > 128
      then Inl (ErrText ''verify receipt execution identity is invalid'')
      else if RcStartedAt receipt = zero_time \<or> RcFinishedAt receipt = zero_time \<or>
              RcFinishedAt receipt < RcStartedAt receipt
      then Inl (ErrText ''verify receipt execution interval is invalid'')
      else if RcFinishedAt receipt > VrDeadline request
      then Inl (ErrText ''verify receipt finished after the request deadline'')
      else if \<not> valid_utf8 (FbMessage (RsFeedback result)) \<or> length (FbMessage (RsFeedback result)) > 1024
      then Inl (ErrText ''verify public feedback is invalid'')
      else
        let expectedAssurance =
              (if AllocProvider (VrAllocation request) = ProviderLocalDocker
               then ''development_guest'' else ''trusted_external'')
        in if RcAssurance receipt \<noteq> expectedAssurance
           then Inl (ErrText ''verify assurance is invalid for provider'')
           else if RcAssurance receipt = ''trusted_external'' then
             (if RsStatus result = ''needs_grading''
              then Inl (ErrText ''trusted verifier must return a terminal grade'')
              else if RcAttestation receipt = '''' \<or> length (RcAttestation receipt) > 4096
              then Inl (ErrText ''trusted verify receipt attestation is missing or invalid'')
              else Inr ())
           else if RcAttestation receipt \<noteq> ''''
           then Inl (ErrText ''development guest verifier cannot claim an attestation'')
           else Inr ())"

definition ValidateVerifyAuthority ::
  "verify_request \<Rightarrow> verify_result \<Rightarrow> controller_fence \<Rightarrow> runner_error + unit" where
  "ValidateVerifyAuthority request result fence =
     (case ValidateVerifyResult request result of Inl e \<Rightarrow> Inl e | Inr _ \<Rightarrow>
      if FenceProviderID fence = '''' \<or> FenceEpoch fence = 0 \<or> RcControllerFence (RsReceipt result) \<noteq> fence
      then Inl (ErrText ''verify receipt controller fence does not match authority'')
      else Inr ())"

section \<open>Derived identities are well-formed\<close>

lemma version_nibble:
  "drop_bit 4 ((x AND 0x0f) OR 0x50) = (5 :: byte)" "drop_bit 4 ((x AND 0x0f) OR 0x40) = (4 :: byte)"
  by (rule bit_word_eqI; simp add: bit_simps)+

lemma variant_nibble: "drop_bit 4 ((y AND 0x3f) OR 0x80) \<in> {8, 9, 10, 11 :: byte}"
proof -
  have eq: "drop_bit 4 ((y AND 0x3f) OR 0x80) = 8 OR (drop_bit 4 y AND (3 :: byte))"
    by (rule bit_word_eqI) (auto simp: bit_simps)
  have "unat (drop_bit 4 y AND (3 :: byte)) \<le> 3"
    using word_and_le1 [of "drop_bit 4 y" 3] by (simp add: word_le_nat_alt)
  then have "unat (drop_bit 4 y AND (3 :: byte)) \<in> {0, 1, 2, 3}" by auto
  then have "word_of_nat (unat (drop_bit 4 y AND (3 :: byte))) \<in> {0, 1, 2, 3 :: byte}"
    by (elim insertE) simp_all
  then have "drop_bit 4 y AND (3 :: byte) \<in> {0, 1, 2, 3}" by simp
  then show ?thesis by (auto simp: eq)
qed

lemma hex_nibbles_lower:
  "is_lower_hex (hex_digit (unat (drop_bit 4 (b :: byte))))"
  "is_lower_hex (hex_digit (unat (b AND (15 :: byte))))"
  by (rule hex_digit_lower, rule unat_hi_nibble, rule hex_digit_lower, rule unat_lo_nibble)

text \<open>The text with its 32 digits made explicit.\<close>

definition uuid_layout :: "string \<Rightarrow> string" where
  "uuid_layout h = take 8 h @ ''-'' @ take 4 (drop 8 h) @ ''-'' @ take 4 (drop 12 h) @ ''-'' @
     take 4 (drop 16 h) @ ''-'' @ drop 20 h"

lemma match_replicate:
  "list_all2 (\<lambda>p c. p c) (replicate n P) xs \<longleftrightarrow> length xs = n \<and> list_all P xs"
  by (auto simp: list_all2_conv_all_nth list_all_length)

lemma uuid_layout_shape:
  assumes len: "length h = 32" and hex: "list_all is_lower_hex h"
    and ver: "CHR ''1'' \<le> h ! 12 \<and> h ! 12 \<le> CHR ''5''"
    and var: "h ! 16 = CHR ''8'' \<or> h ! 16 = CHR ''9'' \<or> h ! 16 = CHR ''a'' \<or> h ! 16 = CHR ''b''"
  shows "uuidPattern_match (uuid_layout h)"
proof -
  have lower: "list_all is_lower_hex (take n (drop k h))" for n k
    using hex by (auto simp: list_all_iff dest: in_set_takeD in_set_dropD)
  have lower': "list_all is_lower_hex (drop k h)" "list_all is_lower_hex (take k h)" for k
    using hex by (auto simp: list_all_iff dest: in_set_takeD in_set_dropD)
  have cut: "take 4 (drop k h) = [h ! k] @ take 3 (drop (Suc k) h)" if "k < 32" for k
    using that len by (simp add: take_Suc_conv_app_nth numeral_eq_Suc flip: Cons_nth_drop_Suc)
  have cuts: "take 4 (drop 12 h) = [h ! 12] @ take 3 (drop 13 h)"
      "take 4 (drop 16 h) = [h ! 16] @ take 3 (drop 17 h)"
    using cut [of 12] cut [of 16] by simp_all
  show ?thesis
    unfolding uuidPattern_match_def uuidPattern_def uuid_layout_def cuts append_assoc
    by (intro list_all2_appendI) (simp_all add: match_replicate len lower lower' ver var)
qed

lemma nth_hex_encode:
  "i < length b \<Longrightarrow> hex_encode b ! (2 * i) = hex_digit (unat (drop_bit 4 (b ! i)))"
proof (induction b arbitrary: i)
  case (Cons a b)
  then show ?case by (cases i) (simp_all add: hex_encode_def hex_byte_def)
qed simp

lemma uuid_text_shape:
  assumes len: "length b = 16"
    and ver: "drop_bit 4 (b ! 6) \<in> {4, 5}" and var: "drop_bit 4 (b ! 8) \<in> {8, 9, 10, 11}"
  shows "uuidPattern_match (uuid_text b)"
proof -
  let ?h = "hex_encode b"
  have "?h ! 12 = hex_digit (unat (drop_bit 4 (b ! 6)))" "?h ! 16 = hex_digit (unat (drop_bit 4 (b ! 8)))"
    using nth_hex_encode [of 6 b] nth_hex_encode [of 8 b] len by simp_all
  moreover have "hex_digit 4 = CHR ''4''" "hex_digit 5 = CHR ''5''" "hex_digit 8 = CHR ''8''"
      "hex_digit 9 = CHR ''9''" "hex_digit 10 = CHR ''a''" "hex_digit 11 = CHR ''b''"
    by code_simp+
  ultimately have d: "?h ! 12 \<in> {CHR ''4'', CHR ''5''}"
      "?h ! 16 \<in> {CHR ''8'', CHR ''9'', CHR ''a'', CHR ''b''}"
    using ver var by auto
  have "uuidPattern_match (uuid_layout ?h)"
  proof (rule uuid_layout_shape)
    show "length ?h = 32" using len by simp
    show "list_all is_lower_hex ?h" by (auto simp: list_all_iff intro: hex_encode_lower)
    show "CHR ''1'' \<le> ?h ! 12 \<and> ?h ! 12 \<le> CHR ''5''" using d(1) by auto
    show "?h ! 16 = CHR ''8'' \<or> ?h ! 16 = CHR ''9'' \<or> ?h ! 16 = CHR ''a'' \<or> ?h ! 16 = CHR ''b''"
      using d(2) by simp
  qed
  then show ?thesis by (simp add: uuid_text_def uuid_layout_def Let_def)
qed

lemma uuidFromDigest_shape: "uuidPattern_match (uuidFromDigest v)"
proof -
  have "length (take 16 (sha256_string v)) = 16" by simp
  then show ?thesis
    unfolding uuidFromDigest_def Let_def
    by (intro uuid_text_shape) (use variant_nibble in \<open>simp_all add: version_nibble\<close>)
qed

lemma newUUID_shape: "length b = 16 \<Longrightarrow> uuidPattern_match (newUUID b)"
  unfolding newUUID_def Let_def
  by (intro uuid_text_shape) (use variant_nibble in \<open>simp_all add: version_nibble\<close>)

text \<open>Whatever the protocol's pattern accepts, the lifecycle reader accepts.\<close>

lemma uuidPattern_validLifecycleUUID:
  assumes "uuidPattern_match s"
  shows "validLifecycleUUID s"
proof -
  let ?q = "\<lambda>i c. if i \<in> {8, 13, 18, 23 :: nat} then c = CHR ''-'' else is_hex c"
  have up: "[0..<36] = [0, 1, 2, 3, 4, 5, 6, 7, 8, 9, 10, 11, 12, 13, 14, 15, 16, 17, 18, 19, 20, 21,
      22, 23, 24, 25, 26, 27, 28, 29, 30, 31, 32, 33, 34, 35 :: nat]"
    by (simp add: upt_rec)
  have digit: "CHR ''1'' \<le> c \<Longrightarrow> c \<le> CHR ''5'' \<Longrightarrow> is_hex c" for c
    by (simp add: is_hex_def is_digit_def less_eq_char_def)
  have ab: "is_hex (CHR ''8'')" "is_hex (CHR ''9'')" "is_hex (CHR ''a'')" "is_hex (CHR ''b'')"
    by (simp_all add: is_hex_def is_digit_def)
  have imp: "list_all2 (\<lambda>p i. \<forall>c. p c \<longrightarrow> ?q i c) uuidPattern [0..<36]"
    unfolding up uuidPattern_def
    by (simp add: eval_nat_numeral is_lower_hex_is_hex digit ab)
  have len: "length s = 36"
    using assms list_all2_lengthD [OF imp]
    by (auto simp: uuidPattern_match_def dest!: list_all2_lengthD)
  have "?q i (s ! i)" if "i < 36" for i
    using assms imp that list_all2_nthD2 [OF imp, of i]
    by (auto simp: uuidPattern_match_def list_all2_conv_all_nth)
  then show ?thesis
    by (auto simp: validLifecycleUUID_def len list_all_iff)
qed

section \<open>What a validated receipt guarantees\<close>

lemma VerifyEvidenceDigest_pattern: "sha256ContentIDPattern (VerifyEvidenceDigest e)"
  by (simp add: sha256ContentIDPattern_def VerifyEvidenceDigest_def list_all_iff hex_encode_lower)

text \<open>The subject a receipt must repeat, and the conditions on its execution.\<close>

definition request_complete :: "verify_request \<Rightarrow> bool" where
  "request_complete q \<longleftrightarrow>
     AllocID (VrAllocation q) \<noteq> '''' \<and> SessionID (AllocSession (VrAllocation q)) \<noteq> '''' \<and>
     Generation (AllocSession (VrAllocation q)) \<noteq> 0 \<and> AllocProvider (VrAllocation q) \<noteq> '''' \<and>
     ProblemID (VrProblem q) \<noteq> '''' \<and> Revision (VrProblem q) \<noteq> '''' \<and>
     ValidateProviderOperationKey (VrIdempotencyKey q) \<and> VrDeadline q \<noteq> zero_time"

definition receipt_subject :: "verify_request \<Rightarrow> verify_result \<Rightarrow> bool" where
  "receipt_subject q s \<longleftrightarrow>
     (let c = RsReceipt s in
      RcSchema c = VerificationReceiptSchema \<and> RcOperationID c = VrIdempotencyKey q \<and>
      RcAllocation c = VrAllocation q \<and> RcProblem c = VrProblem q \<and> RcDeadline c = VrDeadline q \<and>
      RcStatus c = RsStatus s \<and> RcFeedback c = RsFeedback s \<and>
      PublicFeedbackForStatus (RsStatus s) = Inr (RsFeedback s) \<and>
      RcEvidenceDigest c = VerifyEvidenceDigest (RsEvidence s))"

definition receipt_bound :: "verify_request \<Rightarrow> verify_result \<Rightarrow> controller_fence \<Rightarrow> bool" where
  "receipt_bound q s f \<longleftrightarrow>
     receipt_subject q s \<and>
     (RcControllerFence (RsReceipt s) = f \<and> FenceProviderID f \<noteq> '''' \<and> FenceEpoch f \<noteq> 0)"

definition receipt_executed :: "verify_request \<Rightarrow> verification_receipt \<Rightarrow> bool" where
  "receipt_executed q c \<longleftrightarrow>
     sha256ContentIDPattern (RcVerifierArtifactDigest c) \<and>
     RcVerifierExecutionID c \<noteq> '''' \<and> length (RcVerifierExecutionID c) \<le> 128 \<and>
     RcStartedAt c \<noteq> zero_time \<and> RcFinishedAt c \<noteq> zero_time \<and>
     RcStartedAt c \<le> RcFinishedAt c \<and> RcFinishedAt c \<le> VrDeadline q"

definition receipt_assured :: "verify_request \<Rightarrow> verify_result \<Rightarrow> bool" where
  "receipt_assured q s \<longleftrightarrow>
     (let c = RsReceipt s in
      if AllocProvider (VrAllocation q) = ProviderLocalDocker
      then RcAssurance c = ''development_guest'' \<and> RcAttestation c = ''''
      else RcAssurance c = ''trusted_external'' \<and> RsStatus s \<noteq> ''needs_grading'' \<and>
           RcAttestation c \<noteq> '''' \<and> length (RcAttestation c) \<le> 4096)"

lemma approved_feedback_short:
  "PublicFeedbackForStatus st = Inr fb \<Longrightarrow> valid_utf8 (FbMessage fb) \<and> length (FbMessage fb) \<le> 1024"
  by (auto simp: PublicFeedbackForStatus_def is_ascii_def intro!: valid_utf8_ascii split: if_splits)

lemma ValidateVerifyRequest_Inr: "ValidateVerifyRequest q = Inr u \<longleftrightarrow> request_complete q"
  by (cases u) (auto simp: ValidateVerifyRequest_def request_complete_def)

lemma ValidateVerifyResult_Inr:
  "ValidateVerifyResult q s = Inr u \<longleftrightarrow>
     request_complete q \<and> receipt_subject q s \<and> receipt_executed q (RsReceipt s) \<and> receipt_assured q s"
proof (cases "PublicFeedbackForStatus (RsStatus s) = Inr (RsFeedback s)")
  case True
  show ?thesis
    unfolding ValidateVerifyResult_def Let_def guard_chain True ValidateVerifyRequest_Inr
    using approved_feedback_short [OF True]
    by (cases "AllocProvider (VrAllocation q) = ProviderLocalDocker")
      (auto simp: guard_chain True receipt_subject_def receipt_executed_def receipt_assured_def Let_def)
next
  case False
  then show ?thesis
    unfolding ValidateVerifyResult_def Let_def guard_chain
    by (auto simp: receipt_subject_def Let_def)
qed

text \<open>
  \<open>ValidateVerifyAuthority\<close> accepts a result exactly when the request is complete, the receipt
  repeats the subject of the request and the verdict of the result under the fence, the execution ends
  before the deadline and the assurance fits the provider.
\<close>

lemma ValidateVerifyAuthority_iff:
  "ValidateVerifyAuthority q s f = Inr () \<longleftrightarrow>
     request_complete q \<and> receipt_bound q s f \<and> receipt_executed q (RsReceipt s) \<and> receipt_assured q s"
  by (auto simp: ValidateVerifyAuthority_def guard_chain ValidateVerifyResult_Inr receipt_bound_def)

text \<open>C23. A verification receipt cannot be replayed. If \<open>ValidateVerifyAuthority\<close> accepts two results
  that carry the same receipt, then both answer the same request (operation key, allocation,
  generation, problem and deadline) under the same controller fence, with the same verdict, the same
  public feedback and evidence of the same digest; a non-local verdict is a terminal grade with an
  attestation, finished before the deadline.\<close>

theorem receipt_not_replayable:
  assumes "ValidateVerifyAuthority q s f = Inr ()" and "ValidateVerifyAuthority q' s' f' = Inr ()"
    and "RsReceipt s' = RsReceipt s"
  shows "q' = q \<and> f' = f \<and> RsStatus s' = RsStatus s \<and> RsFeedback s' = RsFeedback s \<and>
    VerifyEvidenceDigest (RsEvidence s') = VerifyEvidenceDigest (RsEvidence s) \<and>
    RcFinishedAt (RsReceipt s) \<le> VrDeadline q \<and>
    (AllocProvider (VrAllocation q) \<noteq> ProviderLocalDocker \<longrightarrow>
      RsStatus s \<in> {''passed'', ''failed''} \<and> RcAttestation (RsReceipt s) \<noteq> '''')"
proof -
  note acc = assms(1,2) [unfolded ValidateVerifyAuthority_iff]
  have "VrAllocation q' = VrAllocation q" "VrProblem q' = VrProblem q" "VrIdempotencyKey q' = VrIdempotencyKey q"
    "VrDeadline q' = VrDeadline q"
    using acc assms(3) by (auto simp: receipt_bound_def receipt_subject_def Let_def)
  then have "q' = q" by (cases q, cases q') simp
  moreover have "RsStatus s \<in> {''passed'', ''failed'', ''needs_grading''}"
    using acc by (auto simp: receipt_bound_def receipt_subject_def PublicFeedbackForStatus_def Let_def split: if_splits)
  ultimately show ?thesis
    using acc assms(3)
    by (auto simp: receipt_bound_def receipt_subject_def receipt_executed_def receipt_assured_def Let_def)
qed

text \<open>A grade by the trusted external verifier.\<close>

definition demo_request :: verify_request where
  "demo_request = \<lparr>VrAllocation = \<lparr>AllocID = ''a1'', AllocSession = \<lparr>SessionID = ''s1'', Generation = 1\<rparr>,
       AllocProvider = ''home-proxmox''\<rparr>,
     VrProblem = \<lparr>ProblemID = ''p1'', Revision = ''r1''\<rparr>, VrIdempotencyKey = ''verify-1'', VrDeadline = 900\<rparr>"

definition demo_verdict :: verify_result where
  "demo_verdict = \<lparr>RsStatus = ''passed'',
     RsFeedback = \<lparr>FbCode = ''verification_passed'', FbMessage = ''Verification passed.''\<rparr>, RsEvidence = ''ok'',
     RsReceipt = \<lparr>RcSchema = VerificationReceiptSchema, RcOperationID = ''verify-1'', RcAllocation = VrAllocation demo_request,
       RcProblem = VrProblem demo_request, RcDeadline = 900, RcStatus = ''passed'',
       RcFeedback = \<lparr>FbCode = ''verification_passed'', FbMessage = ''Verification passed.''\<rparr>,
       RcEvidenceDigest = VerifyEvidenceDigest ''ok'', RcVerifierArtifactDigest = VerifyEvidenceDigest ''verifier'',
       RcVerifierExecutionID = ''exec-1'', RcStartedAt = 100, RcFinishedAt = 200, RcAssurance = ''trusted_external'',
       RcControllerFence = \<lparr>FenceProviderID = ''home'', FenceEpoch = 7\<rparr>, RcAttestation = ''signed''\<rparr>\<rparr>"

lemma demo_verdict_accepted:
  "ValidateVerifyAuthority demo_request demo_verdict \<lparr>FenceProviderID = ''home'', FenceEpoch = 7\<rparr> = Inr ()"
  by (simp add: ValidateVerifyAuthority_iff request_complete_def receipt_bound_def receipt_subject_def
      receipt_executed_def receipt_assured_def demo_request_def demo_verdict_def ValidateProviderOperationKey_def
      providerOperationKeyPattern_def op_key_char_def char_class_defs zero_time_def PublicFeedbackForStatus_def
      VerifyEvidenceDigest_pattern ProviderLocalDocker_def)

theorem receipt_not_replayable_witness:
  "ValidateVerifyAuthority demo_request demo_verdict \<lparr>FenceProviderID = ''home'', FenceEpoch = 7\<rparr> = Inr () \<and>
   RcFinishedAt (RsReceipt demo_verdict) \<le> VrDeadline demo_request \<and> RcAttestation (RsReceipt demo_verdict) \<noteq> ''''"
  using receipt_not_replayable [OF demo_verdict_accepted demo_verdict_accepted refl] demo_verdict_accepted
  by (simp add: demo_request_def ProviderLocalDocker_def)

text \<open>C24. Every derived allocation identity and every derived session identity is a well-formed
  lower-case UUID: the private protocol's pattern and the lifecycle reader both accept it.\<close>

theorem derived_identity_wellformed:
  "uuidPattern_match (AllocationIDForSession ref) \<and> validLifecycleUUID (AllocationIDForSession ref) \<and>
   uuidPattern_match (SessionIDForOperation userID key) \<and> validLifecycleUUID (SessionIDForOperation userID key)"
  by (simp add: AllocationIDForSession_def SessionIDForOperation_def uuidFromDigest_shape
      uuidPattern_validLifecycleUUID)

end
