(* ===== verification/Authority.thy ===== *)
theory Authority
  imports Runner_Contract
begin

text \<open>
  \<open>backend/internal/runner/authority.go\<close>: the process-local mirror of the controller lease
  (\<open>AuthorityGate\<close>) and the wrapper that checks it around every provider call
  (\<open>AuthorityRunner\<close>).

  A gate is a value of \<open>authority_gate option\<close>, \<open>None\<close> being the nil pointer the methods accept.
  Its two contexts are represented by whether they are cancelled. Every method runs under the
  gate's mutex, so it is one step; \<open>gate_step\<close> is the step relation of the gate and other
  goroutines may take any number of steps between two checks of a call.

  A provider call is therefore modelled over the gates it sees: at the first check, at the check
  after the cancellation hook is registered, and at the check after the provider returned. The
  outcome also records whether the provider was called.
\<close>

section \<open>The gate\<close>

datatype authority_state = AuthorityRecovering | AuthorityReady | AuthorityDraining | AuthorityFenced

record authority_gate =
  gate_state :: authority_state
  gate_cause :: "runner_error option"
  work_cancelled :: bool
  authority_cancelled :: bool

definition NewAuthorityGate :: "authority_gate option" where
  "NewAuthorityGate = Some \<lparr>gate_state = AuthorityRecovering, gate_cause = None,
     work_cancelled = False, authority_cancelled = False\<rparr>"

definition Activate :: "authority_gate option \<Rightarrow> (runner_error + unit) \<times> authority_gate option" where
  "Activate g =
     (case g of
        None \<Rightarrow> (Inl (ErrText ''runner authority gate is required''), None)
      | Some a \<Rightarrow>
          (case gate_state a of
             AuthorityRecovering \<Rightarrow> (Inr (), Some (a\<lparr>gate_state := AuthorityReady\<rparr>))
           | AuthorityReady \<Rightarrow> (Inr (), Some a)
           | _ \<Rightarrow> (Inl ErrControllerAuthorityUnavailable, Some a)))"

definition BeginDrain :: "authority_gate option \<Rightarrow> authority_gate option" where
  "BeginDrain g =
     (case g of
        None \<Rightarrow> None
      | Some a \<Rightarrow>
          Some (if gate_state a = AuthorityRecovering \<or> gate_state a = AuthorityReady
                then a\<lparr>gate_state := AuthorityDraining, work_cancelled := True\<rparr> else a))"

definition Fence :: "runner_error option \<Rightarrow> authority_gate option \<Rightarrow> authority_gate option" where
  "Fence cause g =
     (case g of
        None \<Rightarrow> None
      | Some a \<Rightarrow>
          Some (if gate_state a \<noteq> AuthorityFenced
                then a\<lparr>gate_state := AuthorityFenced, gate_cause := cause,
                       work_cancelled := True, authority_cancelled := True\<rparr>
                else a))"

definition State :: "authority_gate option \<Rightarrow> authority_state" where
  "State g = (case g of None \<Rightarrow> AuthorityFenced | Some a \<Rightarrow> gate_state a)"

definition Cause :: "authority_gate option \<Rightarrow> runner_error option" where
  "Cause g = (case g of None \<Rightarrow> Some ErrControllerAuthorityUnavailable | Some a \<Rightarrow> gate_cause a)"

definition Ready :: "authority_gate option \<Rightarrow> bool" where
  "Ready g \<longleftrightarrow> g \<noteq> None \<and> State g = AuthorityReady"

text \<open>Whether the context a method returns is cancelled; a nil gate returns a cancelled one.\<close>

definition Context_done :: "authority_gate option \<Rightarrow> bool" where
  "Context_done g = (case g of None \<Rightarrow> True | Some a \<Rightarrow> work_cancelled a)"

definition authorityContext_done :: "authority_gate option \<Rightarrow> bool" where
  "authorityContext_done g = (case g of None \<Rightarrow> True | Some a \<Rightarrow> authority_cancelled a)"

definition checkRecovery :: "authority_gate option \<Rightarrow> runner_error + unit" where
  "checkRecovery g =
     (case g of
        None \<Rightarrow> Inl ErrControllerAuthorityUnavailable
      | Some a \<Rightarrow> if gate_state a \<noteq> AuthorityRecovering then Inl ErrControllerAuthorityUnavailable else Inr ())"

definition check :: "bool \<Rightarrow> authority_gate option \<Rightarrow> runner_error + unit" where
  "check allowDrain g =
     (case g of
        None \<Rightarrow> Inl ErrControllerAuthorityUnavailable
      | Some a \<Rightarrow>
          if gate_state a = AuthorityReady \<or> allowDrain \<and> gate_state a = AuthorityDraining
          then Inr () else Inl ErrControllerAuthorityUnavailable)"

section \<open>The gate as a state machine\<close>

inductive gate_step :: "authority_gate option \<Rightarrow> authority_gate option \<Rightarrow> bool" where
  activate: "gate_step g (snd (Activate g))"
| drain: "gate_step g (BeginDrain g)"
| fence: "gate_step g (Fence cause g)"

inductive gate_steps :: "authority_gate option \<Rightarrow> authority_gate option \<Rightarrow> bool" where
  stay: "gate_steps g g"
| step: "gate_steps g h \<Longrightarrow> gate_step h k \<Longrightarrow> gate_steps g k"

inductive_cases gate_stepE: "gate_step g h"

fun state_rank :: "authority_state \<Rightarrow> nat" where
  "state_rank AuthorityRecovering = 0"
| "state_rank AuthorityReady = 1"
| "state_rank AuthorityDraining = 2"
| "state_rank AuthorityFenced = 3"

text \<open>The contexts follow the state: work stops with draining, authority only with the fence.\<close>

definition gate_inv :: "authority_gate option \<Rightarrow> bool" where
  "gate_inv g \<longleftrightarrow>
     (Context_done g \<longleftrightarrow> State g \<in> {AuthorityDraining, AuthorityFenced}) \<and>
     (authorityContext_done g \<longleftrightarrow> State g = AuthorityFenced)"

lemmas gate_defs = Activate_def BeginDrain_def Fence_def State_def Context_done_def
  authorityContext_done_def check_def checkRecovery_def Ready_def

lemma gate_step_rank: "gate_step g h \<Longrightarrow> state_rank (State g) \<le> state_rank (State h)"
  by (cases g; cases "gate_state (the g)") (auto elim!: gate_stepE simp: gate_defs)

lemma gate_step_inv: "gate_step g h \<Longrightarrow> gate_inv g \<Longrightarrow> gate_inv h"
  by (cases g; cases "gate_state (the g)") (auto elim!: gate_stepE simp: gate_defs gate_inv_def)

lemma gate_steps_rank: "gate_steps g h \<Longrightarrow> state_rank (State g) \<le> state_rank (State h)"
  by (induction rule: gate_steps.induct) (auto dest: gate_step_rank)

lemma gate_steps_inv: "gate_steps g h \<Longrightarrow> gate_inv g \<Longrightarrow> gate_inv h"
  by (induction rule: gate_steps.induct) (auto dest: gate_step_inv)

lemma gate_inv_new: "gate_inv NewAuthorityGate"
  by (simp add: gate_inv_def NewAuthorityGate_def gate_defs)

lemma state_rank_inj: "state_rank s = state_rank t \<longleftrightarrow> s = t"
  by (cases s; cases t) simp_all

lemma gate_steps_between:
  "gate_steps g h \<Longrightarrow> gate_steps h k \<Longrightarrow> State g = State k \<Longrightarrow> State h = State g"
  by (metis gate_steps_rank le_antisym state_rank_inj)

lemma check_Inr:
  "check allowDrain g = Inr u \<longleftrightarrow> State g = AuthorityReady \<or> allowDrain \<and> State g = AuthorityDraining"
  by (cases g; cases u) (auto simp: gate_defs)

lemma checkRecovery_Inr: "checkRecovery g = Inr u \<longleftrightarrow> State g = AuthorityRecovering"
  by (cases g; cases u) (auto simp: gate_defs)

section \<open>Calls through the gate\<close>

record 'a call_outcome =
  call_result :: "runner_error + 'a"
  provider_called :: bool

definition not_called :: "runner_error \<Rightarrow> 'a call_outcome" where
  "not_called e = \<lparr>call_result = Inl e, provider_called = False\<rparr>"

definition was_called :: "runner_error + 'a \<Rightarrow> 'a call_outcome" where
  "was_called r = \<lparr>call_result = r, provider_called = True\<rparr>"

text \<open>
  \<open>activeContext\<close>, \<open>destroyContext\<close> and \<open>recoveryContext\<close> differ only in the check they make, before
  and after registering the cancellation hook; \<open>postActive\<close>, \<open>postDestroy\<close> and \<open>postRecovery\<close> make
  the same check again and then report the call context's own error. \<open>ctxErr\<close> says whether that
  context is cancelled by then.
\<close>

definition enter :: "(authority_gate option \<Rightarrow> runner_error + unit) \<Rightarrow>
    authority_gate option \<Rightarrow> authority_gate option \<Rightarrow> runner_error + unit" where
  "enter chk g0 g1 = (case chk g0 of Inl e \<Rightarrow> Inl e | Inr _ \<Rightarrow> chk g1)"

definition post :: "(authority_gate option \<Rightarrow> runner_error + unit) \<Rightarrow>
    authority_gate option \<Rightarrow> bool \<Rightarrow> runner_error + unit" where
  "post chk g2 ctxErr =
     (case chk g2 of Inl e \<Rightarrow> Inl e | Inr _ \<Rightarrow> if ctxErr then Inl ErrContextCanceled else Inr ())"

definition activeContext where
  "activeContext g0 g1 = enter (check False) g0 g1"

definition destroyContext where
  "destroyContext g0 g1 = enter (check True) g0 g1"

definition RecoveryContext where
  "RecoveryContext g0 g1 = enter checkRecovery g0 g1"

definition postActive where
  "postActive g2 ctxErr = post (check False) g2 ctxErr"

definition postDestroy where
  "postDestroy g2 ctxErr = post (check True) g2 ctxErr"

definition postRecovery where
  "postRecovery g2 ctxErr = post checkRecovery g2 ctxErr"

text \<open>
  The shape every wrapper method has: no context, no call; after the call the authority is checked
  again before the provider's answer (\<open>call\<close>) is passed on.
\<close>

definition guarded_call :: "runner_error + unit \<Rightarrow> runner_error + unit \<Rightarrow> runner_error + 'a \<Rightarrow> 'a call_outcome" where
  "guarded_call ctx pst call =
     (case ctx of
        Inl e \<Rightarrow> not_called e
      | Inr _ \<Rightarrow> (case pst of Inl e \<Rightarrow> was_called (Inl e) | Inr _ \<Rightarrow> was_called call))"

definition CreateSession :: "authority_gate option \<Rightarrow> authority_gate option \<Rightarrow> authority_gate option \<Rightarrow> bool \<Rightarrow>
    runner_error + allocation_ref \<Rightarrow> allocation_ref call_outcome" where
  "CreateSession g0 g1 g2 ctxErr call = guarded_call (activeContext g0 g1) (postActive g2 ctxErr) call"

definition WaitReady :: "authority_gate option \<Rightarrow> authority_gate option \<Rightarrow> authority_gate option \<Rightarrow> bool \<Rightarrow>
    runner_error + unit \<Rightarrow> unit call_outcome" where
  "WaitReady g0 g1 g2 ctxErr call = guarded_call (activeContext g0 g1) (postActive g2 ctxErr) call"

definition SetupSession :: "authority_gate option \<Rightarrow> authority_gate option \<Rightarrow> authority_gate option \<Rightarrow> bool \<Rightarrow>
    runner_error + unit \<Rightarrow> unit call_outcome" where
  "SetupSession g0 g1 g2 ctxErr call = guarded_call (activeContext g0 g1) (postActive g2 ctxErr) call"

definition GetSession :: "authority_gate option \<Rightarrow> authority_gate option \<Rightarrow> authority_gate option \<Rightarrow> bool \<Rightarrow>
    runner_error + (allocation_ref \<times> string) \<Rightarrow> (allocation_ref \<times> string) call_outcome" where
  "GetSession g0 g1 g2 ctxErr call = guarded_call (activeContext g0 g1) (postActive g2 ctxErr) call"

definition DestroySession :: "authority_gate option \<Rightarrow> authority_gate option \<Rightarrow> authority_gate option \<Rightarrow> bool \<Rightarrow>
    runner_error + unit \<Rightarrow> unit call_outcome" where
  "DestroySession g0 g1 g2 ctxErr call = guarded_call (destroyContext g0 g1) (postDestroy g2 ctxErr) call"

definition Reconcile :: "authority_gate option \<Rightarrow> authority_gate option \<Rightarrow> authority_gate option \<Rightarrow> bool \<Rightarrow>
    runner_error + 'a \<Rightarrow> 'a call_outcome" where
  "Reconcile g0 g1 g2 ctxErr call = guarded_call (activeContext g0 g1) (postActive g2 ctxErr) call"

definition ReconcileRecovery :: "authority_gate option \<Rightarrow> authority_gate option \<Rightarrow> authority_gate option \<Rightarrow> bool \<Rightarrow>
    runner_error + 'a \<Rightarrow> 'a call_outcome" where
  "ReconcileRecovery g0 g1 g2 ctxErr call = guarded_call (RecoveryContext g0 g1) (postRecovery g2 ctxErr) call"

definition CreateSessionRecovery :: "authority_gate option \<Rightarrow> authority_gate option \<Rightarrow> authority_gate option \<Rightarrow> bool \<Rightarrow>
    runner_error + allocation_ref \<Rightarrow> allocation_ref call_outcome" where
  "CreateSessionRecovery g0 g1 g2 ctxErr call = guarded_call (RecoveryContext g0 g1) (postRecovery g2 ctxErr) call"

definition WaitReadyRecovery :: "authority_gate option \<Rightarrow> authority_gate option \<Rightarrow> authority_gate option \<Rightarrow> bool \<Rightarrow>
    runner_error + unit \<Rightarrow> unit call_outcome" where
  "WaitReadyRecovery g0 g1 g2 ctxErr call = guarded_call (RecoveryContext g0 g1) (postRecovery g2 ctxErr) call"

definition SetupSessionRecovery :: "authority_gate option \<Rightarrow> authority_gate option \<Rightarrow> authority_gate option \<Rightarrow> bool \<Rightarrow>
    runner_error + unit \<Rightarrow> unit call_outcome" where
  "SetupSessionRecovery g0 g1 g2 ctxErr call = guarded_call (RecoveryContext g0 g1) (postRecovery g2 ctxErr) call"

definition GetSessionRecovery :: "authority_gate option \<Rightarrow> authority_gate option \<Rightarrow> authority_gate option \<Rightarrow> bool \<Rightarrow>
    runner_error + (allocation_ref \<times> string) \<Rightarrow> (allocation_ref \<times> string) call_outcome" where
  "GetSessionRecovery g0 g1 g2 ctxErr call = guarded_call (RecoveryContext g0 g1) (postRecovery g2 ctxErr) call"

definition DestroySessionRecovery :: "authority_gate option \<Rightarrow> authority_gate option \<Rightarrow> authority_gate option \<Rightarrow> bool \<Rightarrow>
    runner_error + unit \<Rightarrow> unit call_outcome" where
  "DestroySessionRecovery g0 g1 g2 ctxErr call = guarded_call (RecoveryContext g0 g1) (postRecovery g2 ctxErr) call"

text \<open>The constructor: a local provider has no attestation verifier, every other one needs one.\<close>

record authority_runner =
  ar_kind :: string
  ar_fence :: controller_fence
  ar_attestation :: "(verify_request \<Rightarrow> verification_receipt \<Rightarrow> runner_error + unit) option"

definition newAuthorityRunner :: "string option \<Rightarrow> authority_gate option \<Rightarrow> controller_fence \<Rightarrow>
    (verify_request \<Rightarrow> verification_receipt \<Rightarrow> runner_error + unit) option \<Rightarrow> runner_error + authority_runner" where
  "newAuthorityRunner inner gate fence verifier =
     (case inner of
        None \<Rightarrow> Inl (ErrText ''authority runner requires runner and gate'')
      | Some kind \<Rightarrow>
          if gate = None then Inl (ErrText ''authority runner requires runner and gate'')
          else if FenceProviderID fence = '''' \<or> FenceEpoch fence = 0 \<or> FenceEpoch fence > MaxDurableValue
          then Inl (ErrText ''authority runner requires a valid controller fence'')
          else if kind = ProviderLocalDocker \<and> verifier \<noteq> None
          then Inl (ErrText ''local Docker authority runner cannot accept a trusted attestation verifier'')
          else if kind \<noteq> ProviderLocalDocker \<and> verifier = None
          then Inl (ErrText ''non-local authority runner requires cryptographic attestation verification'')
          else Inr \<lparr>ar_kind = kind, ar_fence = fence, ar_attestation = verifier\<rparr>)"

definition NewAuthorityRunner where
  "NewAuthorityRunner inner gate fence = newAuthorityRunner inner gate fence None"

definition NewTrustedAuthorityRunner where
  "NewTrustedAuthorityRunner inner gate fence verifier =
     (if verifier = None then Inl (ErrText ''trusted authority runner requires an attestation verifier'')
      else newAuthorityRunner inner gate fence verifier)"

text \<open>
  \<open>VerifySession\<close> sees a fourth gate: after the attestation of a non-local receipt is checked.
\<close>

definition VerifySession :: "authority_runner \<Rightarrow> verify_request \<Rightarrow>
    authority_gate option \<Rightarrow> authority_gate option \<Rightarrow> authority_gate option \<Rightarrow> bool \<Rightarrow>
    authority_gate option \<Rightarrow> bool \<Rightarrow> runner_error + verify_result \<Rightarrow> verify_result call_outcome" where
  "VerifySession r request g0 g1 g2 ctxErr g3 ctxErr' call =
     (case ValidateVerifyRequest request of Inl e \<Rightarrow> not_called e | Inr _ \<Rightarrow>
      if AllocProvider (VrAllocation request) \<noteq> ar_kind r then not_called ErrAllocationNotFound
      else case activeContext g0 g1 of Inl e \<Rightarrow> not_called e | Inr _ \<Rightarrow>
      was_called
        (case postActive g2 ctxErr of Inl e \<Rightarrow> Inl e | Inr _ \<Rightarrow>
         case call of Inl e \<Rightarrow> Inl e | Inr result \<Rightarrow>
         case ValidateVerifyAuthority request result (ar_fence r) of Inl e \<Rightarrow> Inl e | Inr _ \<Rightarrow>
         if ar_kind r \<noteq> ProviderLocalDocker then
           (case ar_attestation r of
              None \<Rightarrow> Inl (ErrText ''trusted verify attestation verifier is unavailable'')
            | Some verify \<Rightarrow>
                (case verify request (RsReceipt result) of Inl e \<Rightarrow> Inl e | Inr _ \<Rightarrow>
                 case postActive g3 ctxErr' of Inl e \<Rightarrow> Inl e | Inr _ \<Rightarrow> Inr result))
         else Inr result))"

text \<open>\<open>OpenTerminal\<close>: the terminal handle, and whether the wrapper closed it again.\<close>

record 't terminal_outcome =
  term_result :: "runner_error + 't"
  term_opened :: bool
  term_closed :: bool

definition OpenTerminal :: "authority_gate option \<Rightarrow> authority_gate option \<Rightarrow> authority_gate option \<Rightarrow>
    bool \<Rightarrow> runner_error + 't \<Rightarrow> 't terminal_outcome" where
  "OpenTerminal g0 g1 g2 ctxErr call =
     (case activeContext g0 g1 of
        Inl e \<Rightarrow> \<lparr>term_result = Inl e, term_opened = False, term_closed = False\<rparr>
      | Inr _ \<Rightarrow>
          (case call of
             Inl e \<Rightarrow> \<lparr>term_result = Inl e, term_opened = False, term_closed = False\<rparr>
           | Inr t \<Rightarrow>
               (case postActive g2 ctxErr of
                  Inl _ \<Rightarrow> \<lparr>term_result = Inl ErrControllerAuthorityUnavailable,
                             term_opened = True, term_closed = True\<rparr>
                | Inr _ \<Rightarrow> \<lparr>term_result = Inr t, term_opened = True, term_closed = False\<rparr>)))"

text \<open>
  \<open>authorityTerminal.Close\<close>: the first call cancels the call context and closes the wrapped
  terminal; later calls return the first error. \<open>closes\<close> counts the closes that reach the
  wrapped terminal.
\<close>

record authority_terminal =
  at_closed :: bool
  at_cancelled :: bool
  at_err :: "runner_error option"
  closes :: nat

definition authorityTerminal_Close :: "runner_error option \<Rightarrow> authority_terminal \<Rightarrow>
    runner_error option \<times> authority_terminal" where
  "authorityTerminal_Close inner t =
     (let t' = (if at_closed t then t
                else t\<lparr>at_closed := True, at_cancelled := True, at_err := inner, closes := Suc (closes t)\<rparr>)
      in (at_err t', t'))"

section \<open>Properties\<close>

lemma enter_Inr: "enter chk g0 g1 = Inr u \<longleftrightarrow> chk g0 = Inr () \<and> chk g1 = Inr ()"
  by (cases u) (auto simp: enter_def split: sum.splits)

lemma post_Inr: "post chk g2 c = Inr u \<longleftrightarrow> chk g2 = Inr () \<and> \<not> c"
  by (cases u) (auto simp: post_def split: sum.splits)

lemma guarded_call_success:
  "call_result (guarded_call ctx pst call) = Inr x \<longleftrightarrow> ctx = Inr () \<and> pst = Inr () \<and> call = Inr x"
  by (auto simp: guarded_call_def not_called_def was_called_def split: sum.splits)

lemma guarded_call_called: "provider_called (guarded_call ctx pst call) \<longleftrightarrow> ctx = Inr ()"
  by (auto simp: guarded_call_def not_called_def was_called_def split: sum.splits)

lemmas context_defs = activeContext_def destroyContext_def RecoveryContext_def
  postActive_def postDestroy_def postRecovery_def

lemmas wrapper_defs = CreateSession_def WaitReady_def SetupSession_def GetSession_def
  DestroySession_def Reconcile_def ReconcileRecovery_def CreateSessionRecovery_def
  WaitReadyRecovery_def SetupSessionRecovery_def GetSessionRecovery_def DestroySessionRecovery_def

text \<open>C25. The gate only moves forward. Whatever sequence of \<open>Activate\<close>, \<open>BeginDrain\<close> and \<open>Fence\<close>
  calls it goes through from its creation, its state never returns to an earlier one, a fenced
  gate stays fenced with its first cause, the work context is cancelled exactly in the draining
  and fenced states, and the authority context exactly in the fenced state.\<close>

theorem gate_monotonic:
  assumes "gate_steps NewAuthorityGate g" and "gate_steps g h"
  shows "state_rank (State g) \<le> state_rank (State h) \<and>
    (State g = AuthorityFenced \<longrightarrow> h = g) \<and>
    (Context_done h \<longleftrightarrow> State h \<in> {AuthorityDraining, AuthorityFenced}) \<and>
    (authorityContext_done h \<longleftrightarrow> State h = AuthorityFenced)"
proof -
  have "gate_inv h"
    using gate_steps_inv [OF assms(1) gate_inv_new] gate_steps_inv [OF assms(2)] by blast
  moreover have "State g = AuthorityFenced \<longrightarrow> h = g" using assms(2)
  proof (induction rule: gate_steps.induct)
    case (step g h k)
    then show ?case by (cases h) (auto elim!: gate_stepE simp: gate_defs)
  qed simp
  ultimately show ?thesis
    using gate_steps_rank [OF assms(2)] unfolding gate_inv_def by blast
qed

theorem gate_monotonic_witness:
  "state_rank (State NewAuthorityGate) \<le> state_rank (State (Fence None NewAuthorityGate)) \<and>
   Fence (Some ErrControllerFenced) (Fence None NewAuthorityGate) = Fence None NewAuthorityGate \<and>
   Context_done (Fence None NewAuthorityGate) \<and> authorityContext_done (Fence None NewAuthorityGate)"
proof -
  let ?f = "Fence None NewAuthorityGate"
  have one: "gate_steps NewAuthorityGate NewAuthorityGate" by (rule gate_steps.stay)
  have two: "gate_steps NewAuthorityGate ?f" by (rule gate_steps.step [OF one]) (rule gate_step.fence)
  have three: "gate_steps ?f (Fence (Some ErrControllerFenced) ?f)"
    by (rule gate_steps.step [OF gate_steps.stay]) (rule gate_step.fence)
  have fenced: "State ?f = AuthorityFenced" by (simp add: gate_defs NewAuthorityGate_def)
  show ?thesis
    using gate_monotonic [OF one two] gate_monotonic [OF two three] fenced by simp
qed


definition ready_gate :: "authority_gate option" where
  "ready_gate = snd (Activate NewAuthorityGate)"


text \<open>The gate decides whether the provider is touched at all. An ordinary call reaches the
  provider only when both checks found the gate ready, so a recovering, draining, fenced or nil
  gate keeps every create, setup, verify, terminal and reconcile call away from it; destroy is the
  only call a draining gate lets through, and a fenced or nil gate lets nothing through.\<close>

theorem provider_reached_iff:
  "(provider_called (CreateSession g0 g1 g2 c call) \<longleftrightarrow>
      State g0 = AuthorityReady \<and> State g1 = AuthorityReady) \<and>
   (provider_called (DestroySession g0 g1 g2 c dcall) \<longleftrightarrow>
      State g0 \<in> {AuthorityReady, AuthorityDraining} \<and> State g1 \<in> {AuthorityReady, AuthorityDraining}) \<and>
   (provider_called (DestroySessionRecovery g0 g1 g2 c dcall) \<longleftrightarrow>
      State g0 = AuthorityRecovering \<and> State g1 = AuthorityRecovering) \<and>
   (provider_called (VerifySession r q g0 g1 g2 c g3 c' vcall) \<longleftrightarrow>
      request_complete q \<and> AllocProvider (VrAllocation q) = ar_kind r \<and>
      State g0 = AuthorityReady \<and> State g1 = AuthorityReady) \<and>
   (term_opened (OpenTerminal g0 g1 g2 c tcall) \<longleftrightarrow>
      State g0 = AuthorityReady \<and> State g1 = AuthorityReady \<and> (\<exists>t. tcall = Inr t))"
proof -
  have verify: "provider_called (VerifySession r q g0 g1 g2 c g3 c' vcall) \<longleftrightarrow>
      ValidateVerifyRequest q = Inr () \<and> AllocProvider (VrAllocation q) = ar_kind r \<and>
      activeContext g0 g1 = Inr ()"
    by (simp add: VerifySession_def not_called_def was_called_def split: sum.splits)
  have terminal: "term_opened (OpenTerminal g0 g1 g2 c tcall) \<longleftrightarrow>
      activeContext g0 g1 = Inr () \<and> (\<exists>t. tcall = Inr t)"
    by (simp add: OpenTerminal_def split: sum.splits)
  show ?thesis
    by (auto simp: wrapper_defs context_defs guarded_call_called verify terminal enter_Inr check_Inr
        checkRecovery_Inr ValidateVerifyRequest_Inr)
qed

text \<open>C27. A verification verdict leaves the wrapper only after its receipt passed
  \<open>ValidateVerifyAuthority\<close> under the runner's own fence and, for a provider other than local
  Docker, after the attestation verifier accepted it while the gate was still ready. A terminal
  that the gate no longer covers when it opens is closed again and never handed out.\<close>

theorem verdict_is_authenticated:
  assumes "call_result (VerifySession r q g0 g1 g2 c g3 c' call) = Inr result"
  shows "ValidateVerifyAuthority q result (ar_fence r) = Inr () \<and> call = Inr result \<and>
    State g2 = AuthorityReady \<and>
    (ar_kind r \<noteq> ProviderLocalDocker \<longrightarrow>
      (\<exists>verify. ar_attestation r = Some verify \<and> verify q (RsReceipt result) = Inr ()) \<and>
      State g3 = AuthorityReady)"
  using assms
  by (auto simp: VerifySession_def not_called_def was_called_def postActive_def post_Inr check_Inr
      split: sum.splits if_splits option.splits)

text \<open>A ready gate, a non-local runner and a verifier that knows the attestation of the demonstration grade.\<close>

definition demo_runner :: authority_runner where
  "demo_runner = \<lparr>ar_kind = ''home-proxmox'', ar_fence = \<lparr>FenceProviderID = ''home'', FenceEpoch = 7\<rparr>,
     ar_attestation = Some (\<lambda>q c. if RcAttestation c = ''signed'' then Inr () else Inl (ErrText ''attestation''))\<rparr>"

theorem verdict_is_authenticated_witness:
  "call_result (VerifySession demo_runner demo_request ready_gate ready_gate ready_gate False ready_gate False
     (Inr demo_verdict)) = Inr demo_verdict \<and>
   ValidateVerifyAuthority demo_request demo_verdict (ar_fence demo_runner) = Inr ()"
proof -
  have ready: "State ready_gate = AuthorityReady"
    by (simp add: gate_defs ready_gate_def NewAuthorityGate_def)
  have gate: "activeContext ready_gate ready_gate = Inr ()" "postActive ready_gate False = Inr ()"
    by (simp_all add: context_defs postActive_def enter_Inr post_Inr check_Inr ready)
  have request: "ValidateVerifyRequest demo_request = Inr ()"
    using demo_verdict_accepted by (simp add: ValidateVerifyRequest_Inr ValidateVerifyAuthority_iff)
  have parts: "AllocProvider (VrAllocation demo_request) = ar_kind demo_runner" "ar_kind demo_runner \<noteq> ProviderLocalDocker"
    "ar_fence demo_runner = \<lparr>FenceProviderID = ''home'', FenceEpoch = 7\<rparr>"
    "ar_attestation demo_runner = Some (\<lambda>q c. if RcAttestation c = ''signed'' then Inr () else Inl (ErrText ''attestation''))"
    "RcAttestation (RsReceipt demo_verdict) = ''signed''"
    by (simp_all add: demo_runner_def demo_request_def demo_verdict_def ProviderLocalDocker_def)
  have "call_result (VerifySession demo_runner demo_request ready_gate ready_gate ready_gate False ready_gate False
     (Inr demo_verdict)) = Inr demo_verdict"
    unfolding VerifySession_def was_called_def using gate request parts demo_verdict_accepted by simp
  from verdict_is_authenticated [OF this] this show ?thesis by blast
qed

end
