(* ===== verification/Store_Schema.thy ===== *)
theory Store_Schema
  imports Runner_Contract "HOL-Library.Product_Lexorder"
begin

text \<open>
  The durable tables of the runner lifecycle (\<open>backend/migrations/006..014\<close>) and the statements the
  store executes on them.

  \<^item> One record per row type, its columns named as in SQL. The pure audit columns
    (\<open>updated_at\<close>, \<open>lock_version\<close>, \<open>last_observed_at\<close>) are written by every statement and read by
    none, and are left out; so is \<open>external_id\<close>, which nothing writes. UUID columns hold their
    text: a parameter that is not a UUID matches no row.
  \<^item> \<open>schema\<close> lists the constraints of the migrations by name. A statement (\<open>sql_exec\<close> and the
    UPDATE and INSERT forms over it) computes the new tables and fails with the name of the first
    violated constraint, as PostgreSQL does; the deferred foreign key is checked by the commit.
  \<^item> A call runs one transaction (\<open>run_tx\<close>): an error rolls it back; the commit itself can succeed,
    fail with the transaction rolled back, or fail with the transaction applied
    (\<open>CommitLost\<close>: the connection died after COMMIT was sent). \<open>lockControllerEpochTx\<close> takes the
    epoch row's lock first in every mutating transaction, so transactions of one provider are
    serial and each is one step of the model.
  \<^item> \<open>tx_env\<close> is what a transaction takes from the server: \<open>NOW()\<close>, the reading of
    \<open>clock_timestamp()\<close>, the values of \<open>gen_random_uuid()\<close> and the fate of the commit.
\<close>

section \<open>JSON documents\<close>

text \<open>The documents the store writes are flat objects.\<close>

datatype json = JBool bool | JNum nat | JStr string

type_synonym json_doc = "(string \<times> json) list"

fun marshal_value :: "json \<Rightarrow> string" where
  "marshal_value (JBool b) = (if b then ''true'' else ''false'')"
| "marshal_value (JNum n) = dec_nat n"
| "marshal_value (JStr s) = json_string s"

fun marshal_fields :: "json_doc \<Rightarrow> string" where
  "marshal_fields [] = ''''"
| "marshal_fields [(k, v)] = json_string k @ '':'' @ marshal_value v"
| "marshal_fields ((k, v) # rest) = json_string k @ '':'' @ marshal_value v @ '','' @ marshal_fields rest"

definition marshal :: "json_doc \<Rightarrow> string" where
  "marshal doc = ''{'' @ marshal_fields doc @ ''}''"

text \<open>Equality after both documents went through a map and back: the order of keys is irrelevant.\<close>

definition equalJSON :: "json_doc \<Rightarrow> json_doc \<Rightarrow> bool" where
  "equalJSON left right \<longleftrightarrow> sort_key fst left = sort_key fst right"

definition maxDurableJSONBytes :: nat where
  "maxDurableJSONBytes = 16 * 1024"

definition boundedEventPayload :: "json_doc \<Rightarrow> runner_error + json_doc" where
  "boundedEventPayload doc =
     (if length (marshal doc) > maxDurableJSONBytes
      then Inl (ErrText ''durable lifecycle event payload exceeds the persisted bound'') else Inr doc)"

lemma equalJSON_refl [simp]: "equalJSON doc doc"
  by (simp add: equalJSON_def)

section \<open>Rows\<close>

record session_row =
  s_id :: string
  s_user_id :: string
  s_problem_id :: string
  s_problem_revision :: string
  s_catalog_generation :: "int option"
  s_current_generation :: int
  s_state :: string
  s_desired_state :: string
  s_queued_at :: time
  s_started_at :: "time option"
  s_expires_at :: time
  s_finished_at :: "time option"
  s_created_at :: time

record allocation_row =
  a_id :: string
  a_session_id :: string
  a_generation :: int
  a_provider_kind :: string
  a_provider_id :: string
  a_resource_profile :: string
  a_desired_state :: string
  a_observed_state :: string
  a_expires_at :: time
  a_failure_code :: "string option"
  a_failure_message :: "string option"
  a_last_event_sequence :: int
  a_created_at :: time

record operation_row =
  o_id :: string
  o_allocation_id :: string
  o_provider_id :: string
  o_kind :: string
  o_idempotency_key :: string
  o_request_hash :: "byte list"
  o_state :: string
  o_error_code :: "string option"
  o_error_message :: "string option"
  o_result_metadata :: json_doc
  o_attempt_count :: int
  o_next_attempt_at :: "time option"
  o_lease_token :: "string option"
  o_lease_owner :: "string option"
  o_lease_expires_at :: "time option"
  o_started_at :: "time option"
  o_completed_at :: "time option"
  o_created_at :: time

record event_row =
  e_allocation_id :: string
  e_sequence :: int
  e_type :: string
  e_reason_code :: "string option"
  e_message :: string
  e_payload :: json_doc
  e_key :: "string option"
  e_created_at :: time

record attempt_row =
  t_id :: string
  t_user_id :: string
  t_problem_id :: string
  t_status :: string
  t_started_at :: time
  t_finished_at :: "time option"
  t_duration_seconds :: "int option"
  t_verify_log :: string
  t_session_id :: string
  t_generation :: int

record db =
  users :: "string list"
  sessions :: "session_row list"
  allocations :: "allocation_row list"
  operations :: "operation_row list"
  events :: "event_row list"
  attempts :: "attempt_row list"
  epochs :: "(string \<times> int) list"
  catalog_head :: "int option"
  catalog_entries :: "(int \<times> string \<times> string) list"
  problem_artifacts :: "(string \<times> string) list"

section \<open>Constraints\<close>

definition pg_text :: "string \<Rightarrow> bool" where
  "pg_text s \<longleftrightarrow> CHR 0x00 \<notin> set s"

fun pg_json :: "json \<Rightarrow> bool" where
  "pg_json (JStr s) = pg_text s"
| "pg_json _ = True"

definition session_check :: "session_row \<Rightarrow> bool" where
  "session_check s \<longleftrightarrow>
     s_problem_revision s \<noteq> '''' \<and> s_current_generation s > 0 \<and>
     s_state s \<in> {''queued'', ''provisioning'', ''booting'', ''setting_up'', ''ready'', ''verifying'',
       ''completed'', ''failed'', ''timed_out'', ''provider_lost'', ''destroying'', ''destroyed''} \<and>
     s_desired_state s \<in> {''active'', ''absent''} \<and> s_expires_at s > s_queued_at s \<and>
     (case s_finished_at s of None \<Rightarrow> True | Some t \<Rightarrow> t \<ge> s_queued_at s)"

definition allocation_check :: "allocation_row \<Rightarrow> bool" where
  "allocation_check a \<longleftrightarrow>
     a_generation a > 0 \<and> a_provider_kind a \<in> {''local-docker'', ''home-proxmox'', ''cloud''} \<and>
     a_provider_id a \<noteq> '''' \<and> a_resource_profile a \<noteq> '''' \<and>
     a_desired_state a \<in> {''active'', ''absent''} \<and>
     a_observed_state a \<in> {''unknown'', ''provisioning'', ''running'', ''stopped'', ''deleting'', ''absent'', ''error''} \<and>
     a_last_event_sequence a \<ge> 0"

definition operation_check :: "operation_row \<Rightarrow> bool" where
  "operation_check r \<longleftrightarrow>
     o_kind r \<in> {''create'', ''verify'', ''destroy'', ''end''} \<and> o_idempotency_key r \<noteq> '''' \<and>
     length (o_request_hash r) = 32 \<and>
     o_state r \<in> {''pending'', ''running'', ''succeeded'', ''failed'', ''cleanup_required'', ''cancelled''} \<and>
     list_all (\<lambda>(k, v). pg_json v) (o_result_metadata r) \<and> o_attempt_count r \<ge> 0"

definition lease_shape :: "operation_row \<Rightarrow> bool" where
  "lease_shape r \<longleftrightarrow>
     o_lease_token r = None \<and> o_lease_owner r = None \<and> o_lease_expires_at r = None \<or>
     o_lease_token r \<noteq> None \<and> o_lease_owner r \<noteq> None \<and> o_lease_expires_at r \<noteq> None"

definition completion_shape :: "operation_row \<Rightarrow> bool" where
  "completion_shape r \<longleftrightarrow>
     o_state r \<in> {''succeeded'', ''failed'', ''cancelled''} \<and> o_completed_at r \<noteq> None \<or>
     o_state r \<in> {''pending'', ''running'', ''cleanup_required''} \<and> o_completed_at r = None"

definition event_check :: "event_row \<Rightarrow> bool" where
  "event_check e \<longleftrightarrow>
     e_sequence e > 0 \<and>
     e_type e \<in> {''allocation_reserved'', ''vm_created'', ''guest_connected'', ''booting'', ''setup_running'',
       ''ready'', ''terminal_opened'', ''terminal_closed'', ''verify_started'', ''verify_finished'',
       ''reset_requested'', ''timeout_warning'', ''failed'', ''timed_out'', ''provider_lost'', ''destroying'',
       ''destroyed'', ''cleanup_required'', ''predecessor_destroyed''} \<and>
     pg_text (e_message e) \<and> list_all (\<lambda>(k, v). pg_json v) (e_payload e) \<and> e_key e \<noteq> Some ''''"

definition attempt_check :: "attempt_row \<Rightarrow> bool" where
  "attempt_check t \<longleftrightarrow> t_generation t > 0 \<and> pg_text (t_verify_log t)"

definition active_session :: "session_row \<Rightarrow> bool" where
  "active_session s \<longleftrightarrow> s_desired_state s = ''active''"

definition active_allocation :: "allocation_row \<Rightarrow> bool" where
  "active_allocation a \<longleftrightarrow> a_desired_state a = ''active''"

definition running_verify :: "operation_row \<Rightarrow> bool" where
  "running_verify r \<longleftrightarrow> o_kind r = ''verify'' \<and> o_state r = ''running''"

definition in_progress :: "attempt_row \<Rightarrow> bool" where
  "in_progress t \<longleftrightarrow> t_status t = ''in_progress''"

text \<open>
  The immediate constraints in the order PostgreSQL reports them for one inserted row: CHECK, then
  the unique indexes in the order of their creation, then foreign keys.
\<close>

definition schema :: "(string \<times> (db \<Rightarrow> bool)) list" where
  "schema =
    [(''sessions_check'', \<lambda>d. list_all session_check (sessions d)),
     (''sessions_pkey'', \<lambda>d. unique_by s_id (sessions d)),
     (''sessions_one_active_per_user'', \<lambda>d. unique_by s_user_id (filter active_session (sessions d))),
     (''sessions_user_id_fkey'', \<lambda>d. list_all (\<lambda>s. s_user_id s \<in> set (users d)) (sessions d)),
     (''runner_allocations_check'', \<lambda>d. list_all allocation_check (allocations d)),
     (''runner_allocations_pkey'', \<lambda>d. unique_by a_id (allocations d)),
     (''runner_allocations_session_id_generation_key'',
        \<lambda>d. unique_by (\<lambda>a. (a_session_id a, a_generation a)) (allocations d)),
     (''runner_allocations_one_active_generation'',
        \<lambda>d. unique_by a_session_id (filter active_allocation (allocations d))),
     (''runner_allocations_session_id_fkey'',
        \<lambda>d. list_all (\<lambda>a. a_session_id a \<in> set (map s_id (sessions d))) (allocations d)),
     (''runner_operations_check'', \<lambda>d. list_all operation_check (operations d)),
     (''runner_operations_lease_shape'', \<lambda>d. list_all lease_shape (operations d)),
     (''runner_operations_completion_shape'', \<lambda>d. list_all completion_shape (operations d)),
     (''runner_operations_pkey'', \<lambda>d. unique_by o_id (operations d)),
     (''runner_operations_provider_id_idempotency_key_key'',
        \<lambda>d. unique_by (\<lambda>r. (o_provider_id r, o_idempotency_key r)) (operations d)),
     (''runner_operations_one_running_verify_per_allocation'',
        \<lambda>d. unique_by o_allocation_id (filter running_verify (operations d))),
     (''runner_operations_allocation_provider_fk'',
        \<lambda>d. list_all (\<lambda>r. (o_allocation_id r, o_provider_id r) \<in> set (map (\<lambda>a. (a_id a, a_provider_id a)) (allocations d)))
              (operations d)),
     (''session_events_check'', \<lambda>d. list_all event_check (events d)),
     (''session_events_pkey'', \<lambda>d. unique_by (\<lambda>e. (e_allocation_id e, e_sequence e)) (events d)),
     (''session_events_allocation_event_key'',
        \<lambda>d. unique_by (\<lambda>e. (e_allocation_id e, e_key e)) (filter (\<lambda>e. e_key e \<noteq> None) (events d))),
     (''session_events_allocation_id_fkey'',
        \<lambda>d. list_all (\<lambda>e. e_allocation_id e \<in> set (map a_id (allocations d))) (events d)),
     (''attempts_check'', \<lambda>d. list_all attempt_check (attempts d)),
     (''attempts_pkey'', \<lambda>d. unique_by t_id (attempts d)),
     (''attempts_one_per_durable_session'', \<lambda>d. unique_by (\<lambda>t. (t_session_id t, t_generation t)) (attempts d)),
     (''attempts_one_active_durable_per_user'', \<lambda>d. unique_by t_user_id (filter in_progress (attempts d))),
     (''attempts_session_allocation_fk'',
        \<lambda>d. list_all (\<lambda>t. (t_session_id t, t_generation t) \<in>
                set (map (\<lambda>a. (a_session_id a, a_generation a)) (allocations d))) (attempts d))]"

definition schema_ok :: "db \<Rightarrow> bool" where
  "schema_ok d \<longleftrightarrow> list_all (\<lambda>(name, ok). ok d) schema"

text \<open>The deferred constraint \<open>sessions_current_allocation_fk\<close>.\<close>

definition deferred_ok :: "db \<Rightarrow> bool" where
  "deferred_ok d \<longleftrightarrow>
     list_all (\<lambda>s. (s_id s, s_current_generation s) \<in>
        set (map (\<lambda>a. (a_session_id a, a_generation a)) (allocations d))) (sessions d)"

section \<open>Statements\<close>

type_synonym 'a stmt = "(db, runner_error, 'a) tx"

definition sql_exec :: "(db \<Rightarrow> db) \<Rightarrow> unit stmt" where
  "sql_exec f = (\<lambda>d. case find (\<lambda>(name, ok). \<not> ok (f d)) schema of
     Some (name, _) \<Rightarrow> Inl (ErrDB name) | None \<Rightarrow> Inr ((), f d))"

text \<open>UPDATE ... WHERE, with the affected-row count.\<close>

definition update_sessions :: "(session_row \<Rightarrow> bool) \<Rightarrow> (session_row \<Rightarrow> session_row) \<Rightarrow> nat stmt" where
  "update_sessions P f = tx_bind (tx_get (\<lambda>d. count_where P (sessions d))) (\<lambda>n.
     tx_seq (sql_exec (\<lambda>d. d\<lparr>sessions := update_where P f (sessions d)\<rparr>)) (tx_return n))"

definition update_allocations :: "(allocation_row \<Rightarrow> bool) \<Rightarrow> (allocation_row \<Rightarrow> allocation_row) \<Rightarrow> nat stmt" where
  "update_allocations P f = tx_bind (tx_get (\<lambda>d. count_where P (allocations d))) (\<lambda>n.
     tx_seq (sql_exec (\<lambda>d. d\<lparr>allocations := update_where P f (allocations d)\<rparr>)) (tx_return n))"

definition update_operations :: "(operation_row \<Rightarrow> bool) \<Rightarrow> (operation_row \<Rightarrow> operation_row) \<Rightarrow> nat stmt" where
  "update_operations P f = tx_bind (tx_get (\<lambda>d. count_where P (operations d))) (\<lambda>n.
     tx_seq (sql_exec (\<lambda>d. d\<lparr>operations := update_where P f (operations d)\<rparr>)) (tx_return n))"

definition update_attempts :: "(attempt_row \<Rightarrow> bool) \<Rightarrow> (attempt_row \<Rightarrow> attempt_row) \<Rightarrow> nat stmt" where
  "update_attempts P f = tx_bind (tx_get (\<lambda>d. count_where P (attempts d))) (\<lambda>n.
     tx_seq (sql_exec (\<lambda>d. d\<lparr>attempts := update_where P f (attempts d)\<rparr>)) (tx_return n))"

text \<open>
  INSERT. The trigger \<open>sessions_catalog_selection_guard\<close> admits a session only when its selection is
  in the artifact-bound current head.
\<close>

definition insert_session :: "session_row \<Rightarrow> unit stmt" where
  "insert_session s =
     tx_seq (tx_bind (tx_get (\<lambda>d.
         s_catalog_generation s \<noteq> None \<and> catalog_head d = s_catalog_generation s \<and>
         (the (s_catalog_generation s), s_problem_id s, s_problem_revision s) \<in> set (catalog_entries d) \<and>
         (s_problem_id s, s_problem_revision s) \<in> set (problem_artifacts d)))
       (\<lambda>ok. tx_guard ok (ErrDB ''sessions_catalog_selection_guard'')))
     (sql_exec (\<lambda>d. d\<lparr>sessions := sessions d @ [s]\<rparr>))"

definition insert_allocation :: "allocation_row \<Rightarrow> unit stmt" where
  "insert_allocation a = sql_exec (\<lambda>d. d\<lparr>allocations := allocations d @ [a]\<rparr>)"

definition insert_operation :: "operation_row \<Rightarrow> unit stmt" where
  "insert_operation r = sql_exec (\<lambda>d. d\<lparr>operations := operations d @ [r]\<rparr>)"

definition insert_events :: "event_row list \<Rightarrow> unit stmt" where
  "insert_events es = sql_exec (\<lambda>d. d\<lparr>events := events d @ es\<rparr>)"

definition insert_attempt :: "attempt_row \<Rightarrow> unit stmt" where
  "insert_attempt t = sql_exec (\<lambda>d. d\<lparr>attempts := attempts d @ [t]\<rparr>)"

section \<open>Transactions of a call\<close>

datatype commit_outcome = Committed | CommitRolledBack | CommitLost

record tx_env =
  env_now :: time
  env_clock :: time
  env_op_id :: "nat \<Rightarrow> string"
  env_attempt_id :: string
  env_lease_token :: string
  env_commit :: commit_outcome
  env_lookup_fails :: bool

definition commit_error :: runner_error where
  "commit_error = ErrDB ''commit''"

text \<open>
  The database after COMMIT was sent, and whether the client saw it succeed. \<open>run_tx_or\<close> passes a
  failed commit to a reconciliation that may query the database again.
\<close>

definition run_tx_or :: "tx_env \<Rightarrow> ('a \<Rightarrow> db \<Rightarrow> runner_error + 'a) \<Rightarrow> 'a stmt \<Rightarrow> db \<Rightarrow> (runner_error + 'a) \<times> db" where
  "run_tx_or env reconcile m d =
     (case m d of
        Inl e \<Rightarrow> (Inl e, d)
      | Inr (x, d') \<Rightarrow>
          if \<not> deferred_ok d' then (reconcile x d, d)
          else (case env_commit env of
                  Committed \<Rightarrow> (Inr x, d')
                | CommitRolledBack \<Rightarrow> (reconcile x d, d)
                | CommitLost \<Rightarrow> (reconcile x d', d')))"

definition run_tx :: "tx_env \<Rightarrow> 'a stmt \<Rightarrow> db \<Rightarrow> (runner_error + 'a) \<times> db" where
  "run_tx env = run_tx_or env (\<lambda>_ _. Inl commit_error)"

text \<open>A read-only transaction or a plain query leaves the database alone.\<close>

definition run_query :: "'a stmt \<Rightarrow> db \<Rightarrow> runner_error + 'a" where
  "run_query m d = (case m d of Inl e \<Rightarrow> Inl e | Inr (x, _) \<Rightarrow> Inr x)"

section \<open>What a successful statement did\<close>

lemma sql_exec_Inr: "sql_exec f d = Inr r \<longleftrightarrow> schema_ok (f d) \<and> r = ((), f d)"
proof -
  have "find (\<lambda>(name, ok). \<not> ok (f d)) schema = None \<longleftrightarrow> schema_ok (f d)"
    by (auto simp: find_None_iff_in schema_ok_def list_all_iff)
  then show ?thesis
    by (auto simp: sql_exec_def split: option.splits prod.splits)
qed

lemma update_sessions_Inr:
  "update_sessions P f d = Inr r \<longleftrightarrow>
     schema_ok (d\<lparr>sessions := update_where P f (sessions d)\<rparr>) \<and>
     r = (count_where P (sessions d), d\<lparr>sessions := update_where P f (sessions d)\<rparr>)"
  by (auto simp: update_sessions_def tx_Inr sql_exec_Inr)

lemma update_allocations_Inr:
  "update_allocations P f d = Inr r \<longleftrightarrow>
     schema_ok (d\<lparr>allocations := update_where P f (allocations d)\<rparr>) \<and>
     r = (count_where P (allocations d), d\<lparr>allocations := update_where P f (allocations d)\<rparr>)"
  by (auto simp: update_allocations_def tx_Inr sql_exec_Inr)

lemma update_operations_Inr:
  "update_operations P f d = Inr r \<longleftrightarrow>
     schema_ok (d\<lparr>operations := update_where P f (operations d)\<rparr>) \<and>
     r = (count_where P (operations d), d\<lparr>operations := update_where P f (operations d)\<rparr>)"
  by (auto simp: update_operations_def tx_Inr sql_exec_Inr)

lemma update_attempts_Inr:
  "update_attempts P f d = Inr r \<longleftrightarrow>
     schema_ok (d\<lparr>attempts := update_where P f (attempts d)\<rparr>) \<and>
     r = (count_where P (attempts d), d\<lparr>attempts := update_where P f (attempts d)\<rparr>)"
  by (auto simp: update_attempts_def tx_Inr sql_exec_Inr)

lemma insert_session_Inr:
  "insert_session s d = Inr r \<longleftrightarrow>
     s_catalog_generation s \<noteq> None \<and> catalog_head d = s_catalog_generation s \<and>
     (the (s_catalog_generation s), s_problem_id s, s_problem_revision s) \<in> set (catalog_entries d) \<and>
     (s_problem_id s, s_problem_revision s) \<in> set (problem_artifacts d) \<and>
     schema_ok (d\<lparr>sessions := sessions d @ [s]\<rparr>) \<and> r = ((), d\<lparr>sessions := sessions d @ [s]\<rparr>)"
  by (auto simp: insert_session_def tx_Inr sql_exec_Inr)

lemma insert_allocation_Inr:
  "insert_allocation a d = Inr r \<longleftrightarrow>
     schema_ok (d\<lparr>allocations := allocations d @ [a]\<rparr>) \<and> r = ((), d\<lparr>allocations := allocations d @ [a]\<rparr>)"
  by (simp add: insert_allocation_def sql_exec_Inr)

lemma insert_operation_Inr:
  "insert_operation q d = Inr r \<longleftrightarrow>
     schema_ok (d\<lparr>operations := operations d @ [q]\<rparr>) \<and> r = ((), d\<lparr>operations := operations d @ [q]\<rparr>)"
  by (simp add: insert_operation_def sql_exec_Inr)

lemma insert_events_Inr:
  "insert_events es d = Inr r \<longleftrightarrow>
     schema_ok (d\<lparr>events := events d @ es\<rparr>) \<and> r = ((), d\<lparr>events := events d @ es\<rparr>)"
  by (simp add: insert_events_def sql_exec_Inr)

lemma insert_attempt_Inr:
  "insert_attempt t d = Inr r \<longleftrightarrow>
     schema_ok (d\<lparr>attempts := attempts d @ [t]\<rparr>) \<and> r = ((), d\<lparr>attempts := attempts d @ [t]\<rparr>)"
  by (simp add: insert_attempt_def sql_exec_Inr)

lemmas sql_Inr = sql_exec_Inr update_sessions_Inr update_allocations_Inr update_operations_Inr
  update_attempts_Inr insert_session_Inr insert_allocation_Inr insert_operation_Inr
  insert_events_Inr insert_attempt_Inr

lemma schema_okD:
  assumes "schema_ok d"
  shows "list_all session_check (sessions d)" and "unique_by s_id (sessions d)"
    and "unique_by s_user_id (filter active_session (sessions d))"
    and "list_all allocation_check (allocations d)"
    and "unique_by a_id (allocations d)"
    and "unique_by (\<lambda>a. (a_session_id a, a_generation a)) (allocations d)"
    and "unique_by a_session_id (filter active_allocation (allocations d))"
    and "list_all (\<lambda>a. a_session_id a \<in> set (map s_id (sessions d))) (allocations d)"
    and "list_all operation_check (operations d)" and "list_all lease_shape (operations d)"
    and "list_all completion_shape (operations d)"
    and "unique_by o_id (operations d)"
    and "unique_by (\<lambda>r. (o_provider_id r, o_idempotency_key r)) (operations d)"
    and "unique_by o_allocation_id (filter running_verify (operations d))"
    and "list_all (\<lambda>r. (o_allocation_id r, o_provider_id r) \<in>
           set (map (\<lambda>a. (a_id a, a_provider_id a)) (allocations d))) (operations d)"
    and "list_all event_check (events d)"
    and "unique_by (\<lambda>e. (e_allocation_id e, e_sequence e)) (events d)"
    and "unique_by (\<lambda>e. (e_allocation_id e, e_key e)) (filter (\<lambda>e. e_key e \<noteq> None) (events d))"
    and "list_all (\<lambda>e. e_allocation_id e \<in> set (map a_id (allocations d))) (events d)"
    and "list_all attempt_check (attempts d)" and "unique_by t_id (attempts d)"
    and "unique_by (\<lambda>t. (t_session_id t, t_generation t)) (attempts d)"
    and "unique_by t_user_id (filter in_progress (attempts d))"
    and "list_all (\<lambda>t. (t_session_id t, t_generation t) \<in>
           set (map (\<lambda>a. (a_session_id a, a_generation a)) (allocations d))) (attempts d)"
  using assms unfolding schema_ok_def schema_def by simp_all

end
