(* ===== verification/Store_Base.thy ===== *)
theory Store_Base
  imports Store_Schema
begin

text \<open>
  The helpers every durable transition shares: the controller fence of a store, the exact
  allocation lock, the event log (\<open>appendEventTx\<close>, \<open>ensureEventTx\<close>, \<open>ensureKeyedEventTx\<close>), the destroy
  operation and the terminal outcome, from \<open>postgres_store.go\<close> and \<open>postgres_lifecycle.go\<close> of
  \<open>backend/internal/runner\<close>.
\<close>

section \<open>The store and its fence\<close>

text \<open>\<open>PostgresStore\<close>; \<open>has_db\<close> is \<open>db != nil\<close>. The pool itself is the database argument of each call.\<close>

record postgres_store =
  st_fence :: controller_fence

definition NewPostgresStore :: "bool \<Rightarrow> controller_fence \<Rightarrow> runner_error + postgres_store" where
  "NewPostgresStore has_db fence =
     (if \<not> has_db then Inl (ErrText ''runner postgres store requires a database pool'')
      else if FenceProviderID fence = '''' \<or> length (FenceProviderID fence) > 128 \<or>
              FenceEpoch fence = 0 \<or> FenceEpoch fence > MaxDurableValue
      then Inl (ErrText ''runner postgres store requires a valid controller fence'')
      else Inr \<lparr>st_fence = fence\<rparr>)"

definition lockControllerEpochTx :: "postgres_store \<Rightarrow> unit stmt" where
  "lockControllerEpochTx s =
     tx_bind (tx_row (\<lambda>d. map_of (epochs d) (FenceProviderID (st_fence s))) ErrControllerFenced) (\<lambda>epoch.
     tx_guard (\<not> (epoch \<le> 0 \<or> uint64 epoch \<noteq> FenceEpoch (st_fence s))) ErrControllerFenced)"

definition requireProvider :: "postgres_store \<Rightarrow> string \<Rightarrow> runner_error + unit" where
  "requireProvider s providerID =
     (if providerID \<noteq> FenceProviderID (st_fence s) then Inl ErrControllerFenced else Inr ())"

definition SessionRef :: "string \<Rightarrow> u64 \<Rightarrow> session_ref" where
  "SessionRef i g = \<lparr>SessionID = i, Generation = g\<rparr>"

definition AllocationRef :: "string \<Rightarrow> session_ref \<Rightarrow> string \<Rightarrow> allocation_ref" where
  "AllocationRef i s p = \<lparr>AllocID = i, AllocSession = s, AllocProvider = p\<rparr>"

section \<open>Row lookups\<close>

definition session_by_id :: "string \<Rightarrow> db \<Rightarrow> session_row option" where
  "session_by_id i d = find (\<lambda>s. s_id s = i) (sessions d)"

definition allocation_by_id :: "string \<Rightarrow> db \<Rightarrow> allocation_row option" where
  "allocation_by_id i d = find (\<lambda>a. a_id a = i) (allocations d)"

definition allocation_of :: "string \<Rightarrow> int \<Rightarrow> db \<Rightarrow> allocation_row option" where
  "allocation_of sid g d = find (\<lambda>a. a_session_id a = sid \<and> a_generation a = g) (allocations d)"

definition operation_by_key :: "string \<Rightarrow> string \<Rightarrow> db \<Rightarrow> operation_row option" where
  "operation_by_key providerID key d =
     find (\<lambda>r. o_provider_id r = providerID \<and> o_idempotency_key r = key) (operations d)"

definition operation_of :: "string \<Rightarrow> string \<Rightarrow> string \<Rightarrow> db \<Rightarrow> operation_row option" where
  "operation_of allocationID providerID kind d =
     find (\<lambda>r. o_allocation_id r = allocationID \<and> o_provider_id r = providerID \<and> o_kind r = kind) (operations d)"

definition attempt_of :: "string \<Rightarrow> int \<Rightarrow> db \<Rightarrow> attempt_row option" where
  "attempt_of sid g d = find (\<lambda>t. t_session_id t = sid \<and> t_generation t = g) (attempts d)"

definition lease_active :: "tx_env \<Rightarrow> operation_row \<Rightarrow> bool" where
  "lease_active env r = (case o_lease_expires_at r of None \<Rightarrow> False | Some t \<Rightarrow> t > env_clock env)"

text \<open>\<open>GREATEST(0,EXTRACT(EPOCH FROM (NOW()-started_at))::int)\<close>: seconds, rounded to nearest.\<close>

definition elapsed_seconds :: "tx_env \<Rightarrow> time \<Rightarrow> int" where
  "elapsed_seconds env started = max 0 ((env_now env - started + 500000000) div 1000000000)"

definition coalesce :: "'a option \<Rightarrow> 'a \<Rightarrow> 'a option" where
  "coalesce x y = (case x of None \<Rightarrow> Some y | Some z \<Rightarrow> Some z)"

lemmas row_lookup_defs = session_by_id_def allocation_by_id_def allocation_of_def
  operation_by_key_def operation_of_def attempt_of_def

section \<open>The exact allocation\<close>

definition ref_incomplete :: "allocation_ref \<Rightarrow> bool" where
  "ref_incomplete ref \<longleftrightarrow> AllocID ref = '''' \<or> SessionID (AllocSession ref) = '''' \<or>
     Generation (AllocSession ref) = 0 \<or> AllocProvider ref = ''''"

abbreviation ref_gen :: "allocation_ref \<Rightarrow> int" where
  "ref_gen ref \<equiv> int64 (Generation (AllocSession ref))"

abbreviation ref_sid :: "allocation_ref \<Rightarrow> string" where
  "ref_sid ref \<equiv> SessionID (AllocSession ref)"

definition row_matches_ref :: "allocation_row \<Rightarrow> allocation_ref \<Rightarrow> bool" where
  "row_matches_ref a ref \<longleftrightarrow>
     a_session_id a = ref_sid ref \<and> a_generation a = ref_gen ref \<and> a_provider_kind a = AllocProvider ref"

definition lockExactAllocation :: "allocation_ref \<Rightarrow> string stmt" where
  "lockExactAllocation ref =
     tx_seq (tx_guard (\<not> ref_incomplete ref) ErrAllocationNotFound)
     (tx_bind (tx_row (allocation_by_id (AllocID ref)) ErrAllocationNotFound) (\<lambda>a.
      tx_seq (tx_guard (row_matches_ref a ref) ErrAllocationNotFound)
      (tx_return (a_provider_id a))))"

text \<open>\<open>lockControllerEpochTx\<close>, \<open>lockExactAllocation\<close> and \<open>requireProvider\<close>, in that order.\<close>

definition enter_exact :: "postgres_store \<Rightarrow> allocation_ref \<Rightarrow> string stmt" where
  "enter_exact s ref =
     tx_seq (lockControllerEpochTx s)
     (tx_bind (lockExactAllocation ref) (\<lambda>providerID.
      tx_seq (tx_lift (requireProvider s providerID)) (tx_return providerID)))"

section \<open>The event log\<close>

definition nullif_empty :: "string \<Rightarrow> string option" where
  "nullif_empty v = (if v = '''' then None else Some v)"

text \<open>\<open>UPDATE runner_allocations SET last_event_sequence=last_event_sequence+1 ... RETURNING\<close>\<close>

definition reserve_sequence :: "string \<Rightarrow> int stmt" where
  "reserve_sequence allocationID =
     tx_seq (update_allocations (\<lambda>a. a_id a = allocationID)
               (\<lambda>a. a\<lparr>a_last_event_sequence := a_last_event_sequence a + 1\<rparr>))
     (tx_bind (tx_row (allocation_by_id allocationID) (ErrDB ''no rows'')) (\<lambda>a.
      tx_return (a_last_event_sequence a)))"

text \<open>The counter increment and the insert that uses it; \<open>key\<close> is NULL for an unkeyed event.\<close>

definition logged_event :: "tx_env \<Rightarrow> string \<Rightarrow> int \<Rightarrow> string option \<Rightarrow> string \<Rightarrow> string \<Rightarrow> string \<Rightarrow> json_doc \<Rightarrow> event_row" where
  "logged_event env allocationID n key eventType reasonCode message payload =
     \<lparr>e_allocation_id = allocationID, e_sequence = n, e_type = eventType,
      e_reason_code = nullif_empty reasonCode, e_message = message, e_payload = payload,
      e_key = key, e_created_at = env_now env\<rparr>"

definition log_event :: "tx_env \<Rightarrow> string \<Rightarrow> string option \<Rightarrow> string \<Rightarrow> string \<Rightarrow> string \<Rightarrow> json_doc \<Rightarrow> int stmt" where
  "log_event env allocationID key eventType reasonCode message payload =
     tx_bind (reserve_sequence allocationID) (\<lambda>n.
     tx_seq (insert_events [logged_event env allocationID n key eventType reasonCode message payload])
     (tx_return n))"

definition appendEventTx :: "tx_env \<Rightarrow> string \<Rightarrow> string \<Rightarrow> string \<Rightarrow> string \<Rightarrow> u64 stmt" where
  "appendEventTx env allocationID eventType reasonCode message =
     tx_bind (log_event env allocationID None eventType (boundedDurableCode reasonCode)
                (boundedDurableMessage message) []) (\<lambda>n. tx_return (uint64 n))"

definition has_event :: "string \<Rightarrow> string \<Rightarrow> db \<Rightarrow> bool" where
  "has_event allocationID eventType d =
     list_ex (\<lambda>e. e_allocation_id e = allocationID \<and> e_type e = eventType) (events d)"

definition ensureEventTx :: "tx_env \<Rightarrow> string \<Rightarrow> string \<Rightarrow> string \<Rightarrow> string \<Rightarrow> bool stmt" where
  "ensureEventTx env allocationID eventType reasonCode message =
     tx_bind (tx_get (has_event allocationID eventType)) (\<lambda>exists.
     if exists then tx_return False
     else tx_seq (appendEventTx env allocationID eventType reasonCode message) (tx_return True))"

text \<open>The same, for its effect only.\<close>

definition ensure_event :: "tx_env \<Rightarrow> string \<Rightarrow> string \<Rightarrow> string \<Rightarrow> string \<Rightarrow> unit stmt" where
  "ensure_event env allocationID eventType reasonCode message =
     tx_seq (ensureEventTx env allocationID eventType reasonCode message) (tx_return ())"

definition ensureKeyedEventTx ::
  "tx_env \<Rightarrow> string \<Rightarrow> string \<Rightarrow> string \<Rightarrow> string \<Rightarrow> string \<Rightarrow> json_doc \<Rightarrow> bool stmt" where
  "ensureKeyedEventTx env allocationID eventKey eventType reasonCode message payload =
     tx_seq (tx_guard (\<not> (eventKey = '''' \<or> length eventKey > 255))
               (ErrText ''durable lifecycle event key is invalid''))
     (tx_seq (tx_guard (length (marshal payload) \<le> maxDurableJSONBytes)
               (ErrText ''durable lifecycle event payload is invalid or exceeds the persisted bound''))
     (tx_bind (tx_get (\<lambda>d. find (\<lambda>e. e_allocation_id e = allocationID \<and> e_key e = Some eventKey) (events d))) (\<lambda>stored.
      case stored of
        Some e \<Rightarrow> tx_seq (tx_guard (\<not> (e_type e \<noteq> eventType \<or> \<not> equalJSON (e_payload e) payload)) ErrIdempotencyConflict)
                  (tx_return False)
      | None \<Rightarrow> tx_seq (log_event env allocationID (Some eventKey) eventType (boundedDurableCode reasonCode)
                          (boundedDurableMessage message) payload) (tx_return True))))"

definition ensure_keyed_event ::
  "tx_env \<Rightarrow> string \<Rightarrow> string \<Rightarrow> string \<Rightarrow> string \<Rightarrow> string \<Rightarrow> json_doc \<Rightarrow> unit stmt" where
  "ensure_keyed_event env allocationID eventKey eventType reasonCode message payload =
     tx_seq (ensureKeyedEventTx env allocationID eventKey eventType reasonCode message payload) (tx_return ())"

section \<open>Terminal outcomes\<close>

text \<open>The reason of the first \<open>destroying\<close> event, if there is one.\<close>

definition destroyOutcomeTx :: "string \<Rightarrow> string option stmt" where
  "destroyOutcomeTx allocationID = tx_get (\<lambda>d.
     case sort_key e_sequence (filter (\<lambda>e. e_allocation_id e = allocationID \<and> e_type e = ''destroying'') (events d)) of
       [] \<Rightarrow> None
     | e # _ \<Rightarrow> Some (case e_reason_code e of None \<Rightarrow> '''' | Some r \<Rightarrow> r))"

definition attemptStatusTx :: "session_ref \<Rightarrow> string stmt" where
  "attemptStatusTx ref =
     tx_bind (tx_row (attempt_of (SessionID ref) (int64 (Generation ref)))
                (ErrLifecycleConflict ''durable attempt is missing'')) (\<lambda>t. tx_return (t_status t))"

definition destroy_hash :: "string \<Rightarrow> string \<Rightarrow> byte list" where
  "destroy_hash allocationID providerID =
     sha256_string (''k8s-quiz/destroy/v1'' @ NUL @ allocationID @ NUL @ providerID)"

text \<open>The columns an INSERT leaves to their defaults.\<close>

definition new_operation :: "tx_env \<Rightarrow> string \<Rightarrow> string \<Rightarrow> string \<Rightarrow> string \<Rightarrow> string \<Rightarrow> byte list \<Rightarrow> string \<Rightarrow>
    time option \<Rightarrow> operation_row" where
  "new_operation env oid allocationID providerID kind key hash state started =
     \<lparr>o_id = oid, o_allocation_id = allocationID, o_provider_id = providerID, o_kind = kind,
      o_idempotency_key = key, o_request_hash = hash, o_state = state, o_error_code = None,
      o_error_message = None, o_result_metadata = [], o_attempt_count = 0, o_next_attempt_at = None,
      o_lease_token = None, o_lease_owner = None, o_lease_expires_at = None, o_started_at = started,
      o_completed_at = None, o_created_at = env_now env\<rparr>"

definition fresh_operation :: "tx_env \<Rightarrow> string \<Rightarrow> string \<Rightarrow> string \<Rightarrow> string \<Rightarrow> byte list \<Rightarrow> string \<Rightarrow>
    time option \<Rightarrow> string stmt" where
  "fresh_operation env allocationID providerID kind key hash state started =
     tx_bind (tx_get (\<lambda>d. env_op_id env (length (operations d)))) (\<lambda>oid.
     tx_seq (insert_operation (new_operation env oid allocationID providerID kind key hash state started))
     (tx_return oid))"

definition ensureDestroyOperationTx :: "tx_env \<Rightarrow> string \<Rightarrow> string \<Rightarrow> string stmt" where
  "ensureDestroyOperationTx env allocationID providerID =
     (let key = ''destroy:'' @ allocationID;
          hash = destroy_hash allocationID providerID
      in tx_bind (tx_get (operation_by_key providerID key)) (\<lambda>stored.
         case stored of
           None \<Rightarrow> fresh_operation env allocationID providerID ''destroy'' key hash ''pending'' None
         | Some r \<Rightarrow>
             tx_seq (tx_guard (\<not> (o_allocation_id r \<noteq> allocationID \<or> o_kind r \<noteq> ''destroy'' \<or> o_request_hash r \<noteq> hash))
                       ErrIdempotencyConflict)
             (tx_return (o_id r))))"

definition ensure_destroy :: "tx_env \<Rightarrow> string \<Rightarrow> string \<Rightarrow> unit stmt" where
  "ensure_destroy env allocationID providerID =
     tx_seq (ensureDestroyOperationTx env allocationID providerID) (tx_return ())"

definition canonicalTerminalOutcome :: "string \<Rightarrow> string \<Rightarrow> runner_error + string" where
  "canonicalTerminalOutcome outcome attemptStatus =
     (if outcome = ''completed'' then
        (if attemptStatus \<noteq> ''success'' then Inl (ErrText ''completed session requires success attempt status'') else Inr outcome)
      else if outcome = ''failed'' then
        (if attemptStatus \<noteq> ''failed'' then Inl (ErrText ''failed session requires failed attempt status'') else Inr outcome)
      else if outcome = ''timed_out'' then
        (if attemptStatus \<noteq> ''timeout'' then Inl (ErrText ''timed out session requires timeout attempt status'') else Inr outcome)
      else if outcome = ''provider_lost'' then
        (if attemptStatus \<noteq> ''failed'' then Inl (ErrText ''provider lost session requires failed attempt status'') else Inr outcome)
      else Inl (ErrText ''invalid durable terminal outcome''))"

definition terminalEventType :: "string \<Rightarrow> string" where
  "terminalEventType outcome =
     (if outcome \<in> {''failed'', ''timed_out'', ''provider_lost''} then outcome else '''')"

section \<open>Statements the transitions repeat\<close>

text \<open>Desired absent; an allocation already observed absent stays so, any other is being deleted.\<close>

definition allocation_leaving :: "allocation_row \<Rightarrow> allocation_row" where
  "allocation_leaving a = a\<lparr>a_desired_state := ''absent'',
     a_observed_state := (if a_observed_state a = ''absent'' then ''absent'' else ''deleting'')\<rparr>"

text \<open>Absence proven.\<close>

definition allocation_gone :: "allocation_row \<Rightarrow> allocation_row" where
  "allocation_gone a = a\<lparr>a_desired_state := ''absent'', a_observed_state := ''absent'',
     a_failure_code := None, a_failure_message := None\<rparr>"

definition session_terminal :: "tx_env \<Rightarrow> string \<Rightarrow> session_row \<Rightarrow> session_row" where
  "session_terminal env state s = s\<lparr>s_state := state, s_desired_state := ''absent'',
     s_finished_at := coalesce (s_finished_at s) (env_now env)\<rparr>"

definition attempt_terminal :: "tx_env \<Rightarrow> string \<Rightarrow> string \<Rightarrow> attempt_row \<Rightarrow> attempt_row" where
  "attempt_terminal env status log t = t\<lparr>t_status := status,
     t_finished_at := coalesce (t_finished_at t) (env_now env),
     t_duration_seconds := coalesce (t_duration_seconds t) (elapsed_seconds env (t_started_at t)),
     t_verify_log := (if t_verify_log t = '''' then log else t_verify_log t)\<rparr>"

definition open_attempt :: "string \<Rightarrow> int \<Rightarrow> attempt_row \<Rightarrow> bool" where
  "open_attempt sid g t \<longleftrightarrow> t_session_id t = sid \<and> t_generation t = g \<and> t_status t = ''in_progress''"

definition clear_lease :: "operation_row \<Rightarrow> operation_row" where
  "clear_lease r = r\<lparr>o_lease_token := None, o_lease_owner := None, o_lease_expires_at := None\<rparr>"

definition operation_succeeded :: "tx_env \<Rightarrow> operation_row \<Rightarrow> operation_row" where
  "operation_succeeded env r = (clear_lease r)\<lparr>o_state := ''succeeded'',
     o_completed_at := coalesce (o_completed_at r) (env_now env), o_error_code := None, o_error_message := None\<rparr>"

text \<open>An \<open>Exec\<close> whose affected-row count is not looked at.\<close>

definition exec_any :: "nat stmt \<Rightarrow> unit stmt" where
  "exec_any m = tx_seq m (tx_return ())"

text \<open>\<open>if tag.RowsAffected() != 1 { return err }\<close>\<close>

definition exec_one :: "nat stmt \<Rightarrow> runner_error \<Rightarrow> unit stmt" where
  "exec_one m e = tx_bind m (\<lambda>n. tx_guard (n = 1) e)"

lemma exec_Inr: "exec_any m d = Inr r \<longleftrightarrow> (\<exists>n d'. m d = Inr (n, d') \<and> r = ((), d'))"
  by (auto simp: exec_any_def tx_Inr)

lemma exec_one_Inr: "exec_one m e d = Inr r \<longleftrightarrow> (\<exists>d'. m d = Inr (1, d') \<and> r = ((), d'))"
  by (auto simp: exec_one_def tx_Inr)

section \<open>What the guards and queries say\<close>

definition epoch_current :: "postgres_store \<Rightarrow> db \<Rightarrow> bool" where
  "epoch_current s d \<longleftrightarrow>
     (case map_of (epochs d) (FenceProviderID (st_fence s)) of None \<Rightarrow> False
      | Some epoch \<Rightarrow> epoch > 0 \<and> uint64 epoch = FenceEpoch (st_fence s))"

lemma lock_epoch_Inr: "lockControllerEpochTx s d = Inr r \<longleftrightarrow> epoch_current s d \<and> r = ((), d)"
  by (auto simp: lockControllerEpochTx_def epoch_current_def tx_Inr split: option.splits)

lemma lock_exact_Inr:
  "lockExactAllocation ref d = Inr r \<longleftrightarrow>
     \<not> ref_incomplete ref \<and> (\<exists>a. allocation_by_id (AllocID ref) d = Some a \<and> row_matches_ref a ref \<and>
     r = (a_provider_id a, d))"
  by (auto simp: lockExactAllocation_def tx_Inr)

lemma requireProvider_Inr: "requireProvider s p = Inr u \<longleftrightarrow> p = FenceProviderID (st_fence s)"
  by (auto simp: requireProvider_def)

lemma enter_exact_Inr:
  "enter_exact s ref d = Inr r \<longleftrightarrow>
     epoch_current s d \<and> \<not> ref_incomplete ref \<and>
     (\<exists>a. allocation_by_id (AllocID ref) d = Some a \<and> row_matches_ref a ref \<and>
          a_provider_id a = FenceProviderID (st_fence s) \<and> r = (a_provider_id a, d))"
  by (auto simp: enter_exact_def tx_Inr lock_epoch_Inr lock_exact_Inr requireProvider_Inr)

lemma attempt_status_Inr:
  "attemptStatusTx ref d = Inr r \<longleftrightarrow>
     (\<exists>t. attempt_of (SessionID ref) (int64 (Generation ref)) d = Some t \<and> r = (t_status t, d))"
  by (auto simp: attemptStatusTx_def tx_Inr)

definition bump_sequence :: "string \<Rightarrow> allocation_row list \<Rightarrow> allocation_row list" where
  "bump_sequence i = update_where (\<lambda>a. a_id a = i) (\<lambda>a. a\<lparr>a_last_event_sequence := a_last_event_sequence a + 1\<rparr>)"

lemma log_event_Inr:
  "log_event env i k ty rc msg doc d = Inr r \<longleftrightarrow>
     schema_ok (d\<lparr>allocations := bump_sequence i (allocations d)\<rparr>) \<and>
     (\<exists>a. find (\<lambda>a. a_id a = i) (bump_sequence i (allocations d)) = Some a \<and>
        (let d' = d\<lparr>allocations := bump_sequence i (allocations d),
             events := events d @ [logged_event env i (a_last_event_sequence a) k ty rc msg doc]\<rparr>
         in schema_ok d' \<and> r = (a_last_event_sequence a, d')))"
  by (auto simp: log_event_def reserve_sequence_def tx_Inr sql_Inr allocation_by_id_def bump_sequence_def Let_def)

lemmas guard_Inrs = lock_epoch_Inr lock_exact_Inr requireProvider_Inr enter_exact_Inr attempt_status_Inr

end
