(* ===== verification/Store_Reserve.thy ===== *)
theory Store_Reserve
  imports Store_Base
begin

text \<open>
  Reservations: \<open>postgres_store.go\<close> (\<open>ReserveSession\<close>, the replay loader, the event append and replay)
  and \<open>postgres_reset.go\<close> (\<open>ReserveReset\<close>). A reservation writes the session, its allocation, the
  create operation, the first event and the attempt in one transaction; a reset retires the old
  generation and reserves the next one in one transaction.
\<close>

section \<open>Values\<close>

record durable_session =
  ds_ID :: string
  ds_UserID :: string
  ds_Selection :: catalog_selection
  ds_CurrentGeneration :: u64
  ds_State :: string
  ds_DesiredState :: string
  ds_QueuedAt :: time
  ds_ExpiresAt :: time

record durable_allocation =
  da_Ref :: allocation_ref
  da_ProviderID :: string
  da_ResourceProfile :: string
  da_DesiredState :: string
  da_ObservedState :: string
  da_ExpiresAt :: time
  da_LastEventSequence :: u64

record durable_operation =
  do_ID :: string
  do_AllocationID :: string
  do_ProviderID :: string
  do_Kind :: string
  do_IdempotencyKey :: string
  do_RequestHash :: "byte list"
  do_State :: string

record durable_event =
  de_AllocationID :: string
  de_Sequence :: u64
  de_Type :: string
  de_ReasonCode :: string
  de_Message :: string
  de_Payload :: json_doc
  de_CreatedAt :: time

record session_reservation =
  rv_Session :: durable_session
  rv_Allocation :: durable_allocation
  rv_Operation :: durable_operation
  rv_Event :: durable_event
  rv_AttemptID :: string
  rv_AttemptStatus :: string

record reserve_session_params =
  rp_SessionID :: string
  rp_UserID :: string
  rp_Selection :: catalog_selection
  rp_Provider :: string
  rp_ProviderID :: string
  rp_ResourceProfile :: string
  rp_ExpiresAt :: time
  rp_IdempotencyKey :: string

record reserve_reset_params =
  rr_Expected :: session_ref
  rr_UserID :: string
  rr_Provider :: string
  rr_ProviderID :: string
  rr_IdempotencyKey :: string

record reset_reservation =
  rs_Old :: allocation_ref
  rs_New :: session_reservation

definition initialGeneration :: u64 where
  "initialGeneration = 1"

section \<open>Validation and request hashes\<close>

definition validateReservation :: "reserve_session_params \<Rightarrow> runner_error + unit" where
  "validateReservation p =
     (if rp_UserID p = '''' then Inl (ErrText ''runner reservation user id is required'')
      else if SelGeneration (rp_Selection p) = 0 \<or> SelGeneration (rp_Selection p) > MaxDurableValue
      then Inl (ErrText ''runner reservation catalog generation is required'')
      else if ProblemID (SelProblem (rp_Selection p)) = '''' \<or> Revision (SelProblem (rp_Selection p)) = ''''
      then Inl (ErrText ''runner reservation approved problem is required'')
      else if rp_Provider p = '''' then Inl (ErrText ''runner reservation provider kind is required'')
      else if rp_ProviderID p = '''' \<or> length (rp_ProviderID p) > 128
      then Inl (ErrText ''runner reservation provider id is invalid'')
      else if rp_ResourceProfile p = '''' \<or> length (rp_ResourceProfile p) > 64
      then Inl (ErrText ''runner reservation resource profile is invalid'')
      else if rp_ExpiresAt p = zero_time then Inl (ErrText ''runner reservation expiry is required'')
      else if \<not> ValidateProviderOperationKey (rp_IdempotencyKey p)
      then Inl (ErrText ''runner reservation idempotency key is invalid'')
      else Inr ())"

text \<open>\<open>CatalogSelection\<close> has no field tags, so its JSON members carry the Go field names.\<close>

definition marshal_selection :: "catalog_selection \<Rightarrow> string" where
  "marshal_selection sel =
     ''{'' @ json_string ''Generation'' @ '':'' @ dec_u64 (SelGeneration sel) @ '','' @
     json_string ''Problem'' @ '':'' @
       marshal [(''ID'', JStr (ProblemID (SelProblem sel))), (''Revision'', JStr (Revision (SelProblem sel)))] @ ''}''"

text \<open>\<open>strconv\<close> of a signed integer.\<close>

definition dec_int :: "int \<Rightarrow> string" where
  "dec_int i = (if i < 0 then ''-'' @ dec_nat (nat (- i)) else dec_nat (nat i))"

definition json_members :: "(string \<times> string) list \<Rightarrow> string" where
  "json_members ms = ''{'' @ concat (map (\<lambda>(k, v). json_string k @ '':'' @ v @ '','') (butlast ms)) @
     (case last ms of (k, v) \<Rightarrow> json_string k @ '':'' @ v) @ ''}''"

definition hashReservation :: "reserve_session_params \<Rightarrow> string \<Rightarrow> byte list" where
  "hashReservation p allocationID = sha256_string (json_members
     [(''schema'', json_string ''k8s-quiz.runner-create/v2''),
      (''allocation_id'', json_string allocationID),
      (''session_id'', json_string (rp_SessionID p)),
      (''generation'', dec_u64 initialGeneration),
      (''user_id'', json_string (rp_UserID p)),
      (''selection'', marshal_selection (rp_Selection p)),
      (''provider'', json_string (rp_Provider p)),
      (''provider_id'', json_string (rp_ProviderID p)),
      (''resource_profile'', json_string (rp_ResourceProfile p)),
      (''expires_at_unix_ns'', dec_int (rp_ExpiresAt p))])"

definition validateResetReservation :: "reserve_reset_params \<Rightarrow> runner_error + unit" where
  "validateResetReservation p =
     (if SessionID (rr_Expected p) = '''' \<or> Generation (rr_Expected p) = 0 \<or>
         Generation (rr_Expected p) \<ge> MaxDurableValue
      then Inl (ErrText ''runner reset expected session is invalid'')
      else if rr_UserID p = '''' then Inl (ErrText ''runner reset user id is required'')
      else if rr_Provider p = '''' then Inl (ErrText ''runner reset provider kind is required'')
      else if rr_ProviderID p = '''' \<or> length (rr_ProviderID p) > 128
      then Inl (ErrText ''runner reset provider id is invalid'')
      else if \<not> ValidateProviderOperationKey (rr_IdempotencyKey p)
      then Inl (ErrText ''runner reset idempotency key is invalid'')
      else Inr ())"

definition hashResetReservation :: "reserve_reset_params \<Rightarrow> string \<Rightarrow> catalog_selection \<Rightarrow> byte list" where
  "hashResetReservation p nextAllocationID selection = sha256_string (json_members
     [(''schema'', json_string ''k8s-quiz.runner-reset/v2''),
      (''session_id'', json_string (SessionID (rr_Expected p))),
      (''source_generation'', dec_u64 (Generation (rr_Expected p))),
      (''next_allocation_id'', json_string nextAllocationID),
      (''user_id'', json_string (rr_UserID p)),
      (''selection'', marshal_selection selection),
      (''provider'', json_string (rr_Provider p)),
      (''provider_id'', json_string (rr_ProviderID p))])"

definition mapReservationError :: "runner_error \<Rightarrow> runner_error" where
  "mapReservationError e =
     (case e of
        ErrDB name \<Rightarrow>
          if name = ''sessions_one_active_per_user'' \<or> name = ''attempts_one_active_durable_per_user''
          then ErrActiveSession
          else if name = ''runner_operations_provider_id_idempotency_key_key'' then ErrIdempotencyConflict
          else ErrDB name
      | _ \<Rightarrow> e)"

section \<open>Replay\<close>

text \<open>
  The join of \<open>loadReservationByOperation\<close>. Each join is on a unique key, so it is a chain of
  lookups; a missing partner is a missing row.
\<close>

definition reservation_join ::
  "string \<Rightarrow> string \<Rightarrow> db \<Rightarrow> (session_row \<times> allocation_row \<times> operation_row \<times> event_row \<times> attempt_row) option" where
  "reservation_join providerID key d =
     Option.bind (operation_by_key providerID key d) (\<lambda>r.
     Option.bind (find (\<lambda>a. a_id a = o_allocation_id r \<and> a_provider_id a = o_provider_id r) (allocations d)) (\<lambda>a.
     Option.bind (session_by_id (a_session_id a) d) (\<lambda>s.
     Option.bind (find (\<lambda>e. e_allocation_id e = a_id a \<and> e_sequence e = 1) (events d)) (\<lambda>e.
     Option.bind (attempt_of (a_session_id a) (a_generation a) d) (\<lambda>t.
     Some (s, a, r, e, t))))))"

definition reservation_of_rows ::
  "session_row \<Rightarrow> allocation_row \<Rightarrow> operation_row \<Rightarrow> event_row \<Rightarrow> attempt_row \<Rightarrow> session_reservation" where
  "reservation_of_rows s a r e t =
     \<lparr>rv_Session = \<lparr>ds_ID = s_id s, ds_UserID = s_user_id s,
        ds_Selection = \<lparr>SelGeneration = uint64 (the (s_catalog_generation s)),
          SelProblem = \<lparr>ProblemID = s_problem_id s, Revision = s_problem_revision s\<rparr>\<rparr>,
        ds_CurrentGeneration = uint64 (s_current_generation s), ds_State = s_state s,
        ds_DesiredState = s_desired_state s, ds_QueuedAt = s_queued_at s, ds_ExpiresAt = s_expires_at s\<rparr>,
      rv_Allocation = \<lparr>da_Ref = AllocationRef (a_id a) (SessionRef (s_id s) (uint64 (a_generation a))) (a_provider_kind a),
        da_ProviderID = a_provider_id a, da_ResourceProfile = a_resource_profile a,
        da_DesiredState = a_desired_state a, da_ObservedState = a_observed_state a,
        da_ExpiresAt = a_expires_at a, da_LastEventSequence = uint64 (a_last_event_sequence a)\<rparr>,
      rv_Operation = \<lparr>do_ID = o_id r, do_AllocationID = o_allocation_id r, do_ProviderID = o_provider_id r,
        do_Kind = o_kind r, do_IdempotencyKey = o_idempotency_key r, do_RequestHash = o_request_hash r,
        do_State = o_state r\<rparr>,
      rv_Event = \<lparr>de_AllocationID = e_allocation_id e, de_Sequence = uint64 (e_sequence e), de_Type = e_type e,
        de_ReasonCode = (case e_reason_code e of None \<Rightarrow> '''' | Some c \<Rightarrow> c), de_Message = e_message e,
        de_Payload = e_payload e, de_CreatedAt = e_created_at e\<rparr>,
      rv_AttemptID = t_id t, rv_AttemptStatus = t_status t\<rparr>"

definition loadReservationByOperation :: "string \<Rightarrow> string \<Rightarrow> session_reservation option stmt" where
  "loadReservationByOperation providerID key =
     tx_bind (tx_get (reservation_join providerID key)) (\<lambda>row.
     case row of
       None \<Rightarrow> tx_return None
     | Some (s, a, r, e, t) \<Rightarrow>
         tx_seq (tx_guard (length (o_request_hash r) = 32) (ErrText ''stored runner request hash has invalid length''))
         (tx_seq (tx_guard (\<not> (s_catalog_generation s = None \<or> the (s_catalog_generation s) \<le> 0))
            (ErrLifecycleConflict ''stored runner reservation has no verified catalog selection''))
         (tx_seq (tx_guard (\<not> (s_current_generation s \<le> 0 \<or> a_generation a \<le> 0 \<or> a_last_event_sequence a \<le> 0 \<or>
              e_sequence e \<noteq> 1))
            (ErrText ''stored runner reservation has invalid generation or event sequence''))
         (tx_return (Some (reservation_of_rows s a r e t))))))"

definition FindReservation :: "string \<Rightarrow> string \<Rightarrow> db \<Rightarrow> runner_error + session_reservation option" where
  "FindReservation providerID idempotencyKey d =
     (if providerID = '''' \<or> idempotencyKey = ''''
      then Inl (ErrText ''runner reservation lookup requires provider and idempotency key'')
      else run_query (loadReservationByOperation providerID idempotencyKey) d)"

definition validateActiveRecoveryReservation :: "session_reservation \<Rightarrow> string \<Rightarrow> runner_error + unit" where
  "validateActiveRecoveryReservation v providerID =
     (let ref = da_Ref (rv_Allocation v); sess = rv_Session v in
      if ds_ID sess = '''' \<or> ds_UserID sess = '''' \<or> SelGeneration (ds_Selection sess) = 0 \<or>
         ProblemID (SelProblem (ds_Selection sess)) = '''' \<or> Revision (SelProblem (ds_Selection sess)) = '''' \<or>
         ds_CurrentGeneration sess = 0 \<or> SessionID (AllocSession ref) \<noteq> ds_ID sess \<or>
         Generation (AllocSession ref) \<noteq> ds_CurrentGeneration sess \<or>
         da_ProviderID (rv_Allocation v) \<noteq> providerID \<or> do_ProviderID (rv_Operation v) \<noteq> providerID \<or>
         do_AllocationID (rv_Operation v) \<noteq> AllocID ref \<or> do_Kind (rv_Operation v) \<noteq> ''create'' \<or>
         ds_DesiredState sess \<noteq> ''active'' \<or> da_DesiredState (rv_Allocation v) \<noteq> ''active'' \<or>
         rv_AttemptID v = '''' \<or> rv_AttemptStatus v \<noteq> ''in_progress''
      then Inl (ErrLifecycleConflict ''active recovery reservation has contradictory identity or desired state'')
      else if ds_State sess \<notin> {''queued'', ''provisioning'', ''booting'', ''setting_up'', ''ready'', ''verifying''}
      then Inl (ErrLifecycleConflict ''active recovery session state'')
      else if do_State (rv_Operation v) \<notin> {''pending'', ''running'', ''succeeded''}
      then Inl (ErrLifecycleConflict ''active recovery create operation state'')
      else Inr ())"

text \<open>The keys of the active reservations of a provider, in queue order.\<close>

definition active_reservation_keys :: "string \<Rightarrow> db \<Rightarrow> string list" where
  "active_reservation_keys providerID d =
     concat (map (\<lambda>s.
       concat (map (\<lambda>a. map o_idempotency_key
            (filter (\<lambda>r. o_allocation_id r = a_id a \<and> o_provider_id r = a_provider_id a \<and> o_kind r = ''create'') (operations d)))
         (filter (\<lambda>a. a_session_id a = s_id s \<and> a_generation a = s_current_generation s \<and>
                      a_provider_id a = providerID) (allocations d))))
       (sort_key (\<lambda>s. (s_queued_at s, s_id s)) (filter active_session (sessions d))))"

fun load_reservations :: "string \<Rightarrow> string list \<Rightarrow> session_reservation list stmt" where
  "load_reservations providerID [] = tx_return []"
| "load_reservations providerID (key # keys) =
     tx_bind (loadReservationByOperation providerID key) (\<lambda>found.
     tx_bind (tx_row (\<lambda>_. found) (ErrLifecycleConflict ''active reservation disappeared from snapshot'')) (\<lambda>v.
     tx_seq (tx_lift (validateActiveRecoveryReservation v providerID))
     (tx_bind (load_reservations providerID keys) (\<lambda>vs. tx_return (v # vs)))))"

definition ListActiveReservations :: "postgres_store \<Rightarrow> string \<Rightarrow> db \<Rightarrow> runner_error + session_reservation list" where
  "ListActiveReservations st providerID d =
     (case requireProvider st providerID of Inl e \<Rightarrow> Inl e | Inr _ \<Rightarrow>
      run_query (load_reservations providerID (active_reservation_keys providerID d)) d)"

section \<open>Reserve\<close>

definition validateCatalogSelectionTx :: "catalog_selection \<Rightarrow> unit stmt" where
  "validateCatalogSelectionTx sel =
     tx_bind (tx_get (\<lambda>d. catalog_head d = Some (int64 (SelGeneration sel)) \<and>
       (int64 (SelGeneration sel), ProblemID (SelProblem sel), Revision (SelProblem sel)) \<in> set (catalog_entries d)))
     (\<lambda>exists. tx_guard exists ErrCatalogSelectionStale)"

definition lock_user :: "string \<Rightarrow> runner_error \<Rightarrow> unit stmt" where
  "lock_user userID e = tx_bind (tx_get (\<lambda>d. userID \<in> set (users d))) (\<lambda>found. tx_guard found e)"

definition new_event :: "string \<Rightarrow> int \<Rightarrow> string \<Rightarrow> string \<Rightarrow> string \<Rightarrow> time \<Rightarrow> event_row" where
  "new_event allocationID n eventType reason message t =
     \<lparr>e_allocation_id = allocationID, e_sequence = n, e_type = eventType, e_reason_code = Some reason,
      e_message = message, e_payload = [], e_key = None, e_created_at = t\<rparr>"

definition new_allocation :: "tx_env \<Rightarrow> string \<Rightarrow> string \<Rightarrow> int \<Rightarrow> string \<Rightarrow> string \<Rightarrow> string \<Rightarrow> time \<Rightarrow> int \<Rightarrow> allocation_row" where
  "new_allocation env allocationID sid g kind providerID profile expires lastSequence =
     \<lparr>a_id = allocationID, a_session_id = sid, a_generation = g, a_provider_kind = kind,
      a_provider_id = providerID, a_resource_profile = profile, a_desired_state = ''active'',
      a_observed_state = ''unknown'', a_expires_at = expires, a_failure_code = None, a_failure_message = None,
      a_last_event_sequence = lastSequence, a_created_at = env_now env\<rparr>"

definition new_attempt :: "string \<Rightarrow> string \<Rightarrow> string \<Rightarrow> time \<Rightarrow> string \<Rightarrow> int \<Rightarrow> attempt_row" where
  "new_attempt tid userID problemID started sid g =
     \<lparr>t_id = tid, t_user_id = userID, t_problem_id = problemID, t_status = ''in_progress'', t_started_at = started,
      t_finished_at = None, t_duration_seconds = None, t_verify_log = '''', t_session_id = sid, t_generation = g\<rparr>"

definition reservationValue ::
  "reserve_session_params \<Rightarrow> string \<Rightarrow> string \<Rightarrow> byte list \<Rightarrow> time \<Rightarrow> session_reservation" where
  "reservationValue p allocationID operationID requestHash queuedAt =
     (let sessionRef = SessionRef (rp_SessionID p) initialGeneration in
     \<lparr>rv_Session = \<lparr>ds_ID = rp_SessionID p, ds_UserID = rp_UserID p, ds_Selection = rp_Selection p,
        ds_CurrentGeneration = initialGeneration, ds_State = ''queued'', ds_DesiredState = ''active'',
        ds_QueuedAt = queuedAt, ds_ExpiresAt = rp_ExpiresAt p\<rparr>,
      rv_Allocation = \<lparr>da_Ref = AllocationRef allocationID sessionRef (rp_Provider p),
        da_ProviderID = rp_ProviderID p, da_ResourceProfile = rp_ResourceProfile p,
        da_DesiredState = ''active'', da_ObservedState = ''unknown'', da_ExpiresAt = rp_ExpiresAt p,
        da_LastEventSequence = 1\<rparr>,
      rv_Operation = \<lparr>do_ID = operationID, do_AllocationID = allocationID, do_ProviderID = rp_ProviderID p,
        do_Kind = ''create'', do_IdempotencyKey = rp_IdempotencyKey p, do_RequestHash = requestHash,
        do_State = ''pending''\<rparr>,
      rv_Event = \<lparr>de_AllocationID = allocationID, de_Sequence = 1, de_Type = ''allocation_reserved'',
        de_ReasonCode = ''create_requested'', de_Message = ''Environment reservation accepted.'',
        de_Payload = [], de_CreatedAt = queuedAt\<rparr>,
      rv_AttemptID = rp_SessionID p, rv_AttemptStatus = ''in_progress''\<rparr>)"

text \<open>The fresh path of the transaction, after the replay lookup found nothing.\<close>

definition reserve_rows :: "tx_env \<Rightarrow> reserve_session_params \<Rightarrow> string \<Rightarrow> byte list \<Rightarrow> session_reservation stmt" where
  "reserve_rows env p allocationID requestHash =
     (let queuedAt = env_now env; expiresAt = rp_ExpiresAt p; sel = rp_Selection p in
     tx_seq (tx_guard (expiresAt > queuedAt) (ErrText ''runner reservation expiry must be in the future''))
     (tx_seq (tx_map_error mapReservationError (insert_session
        \<lparr>s_id = rp_SessionID p, s_user_id = rp_UserID p, s_problem_id = ProblemID (SelProblem sel),
         s_problem_revision = Revision (SelProblem sel), s_catalog_generation = Some (int64 (SelGeneration sel)),
         s_current_generation = int64 initialGeneration, s_state = ''queued'', s_desired_state = ''active'',
         s_queued_at = queuedAt, s_started_at = None, s_expires_at = expiresAt, s_finished_at = None,
         s_created_at = env_now env\<rparr>))
     (tx_seq (tx_map_error mapReservationError (insert_allocation
        (new_allocation env allocationID (rp_SessionID p) (int64 initialGeneration) (rp_Provider p)
           (rp_ProviderID p) (rp_ResourceProfile p) expiresAt 1)))
     (tx_bind (tx_map_error mapReservationError (fresh_operation env allocationID (rp_ProviderID p) ''create''
        (rp_IdempotencyKey p) requestHash ''pending'' None)) (\<lambda>operationID.
      tx_seq (insert_events [new_event allocationID 1 ''allocation_reserved'' ''create_requested''
                ''Environment reservation accepted.'' queuedAt])
     (tx_seq (tx_map_error mapReservationError (insert_attempt
        (new_attempt (rp_SessionID p) (rp_UserID p) (ProblemID (SelProblem sel)) queuedAt (rp_SessionID p)
           (int64 initialGeneration))))
     (tx_return (reservationValue p allocationID operationID requestHash queuedAt))))))))"

definition reserve_tx :: "postgres_store \<Rightarrow> tx_env \<Rightarrow> reserve_session_params \<Rightarrow> session_reservation stmt" where
  "reserve_tx st env p =
     (let allocationID = AllocationIDForSession (SessionRef (rp_SessionID p) initialGeneration);
          requestHash = hashReservation p allocationID in
     tx_seq (lockControllerEpochTx st)
     (tx_seq (lock_user (rp_UserID p) (ErrDB ''lock runner session user''))
     (tx_bind (loadReservationByOperation (rp_ProviderID p) (rp_IdempotencyKey p)) (\<lambda>replay.
      case replay of
        Some v \<Rightarrow>
          tx_seq (tx_guard (\<not> (AllocID (da_Ref (rv_Allocation v)) \<noteq> allocationID \<or> do_Kind (rv_Operation v) \<noteq> ''create'' \<or>
              do_RequestHash (rv_Operation v) \<noteq> requestHash)) ErrIdempotencyConflict)
          (tx_return v)
      | None \<Rightarrow>
          tx_seq (validateCatalogSelectionTx (rp_Selection p)) (reserve_rows env p allocationID requestHash)))))"

text \<open>The defaults and the canonical expiry; \<open>uuid\<close> is what \<open>newUUID\<close> returned.\<close>

definition complete_params :: "string \<Rightarrow> reserve_session_params \<Rightarrow> reserve_session_params" where
  "complete_params uuid p =
     (let p = (if rp_SessionID p = '''' then p\<lparr>rp_SessionID := uuid\<rparr> else p) in
      if rp_IdempotencyKey p = ''''
      then p\<lparr>rp_IdempotencyKey := ''create:'' @ rp_SessionID p @ '':'' @ dec_u64 initialGeneration\<rparr> else p)"

definition ReserveSession :: "postgres_store \<Rightarrow> tx_env \<Rightarrow> string \<Rightarrow> reserve_session_params \<Rightarrow> db \<Rightarrow>
    (runner_error + session_reservation) \<times> db" where
  "ReserveSession st env uuid params d =
     (case requireProvider st (rp_ProviderID params) of Inl e \<Rightarrow> (Inl e, d) | Inr _ \<Rightarrow>
      let p = complete_params uuid params in
      case validateReservation p of Inl e \<Rightarrow> (Inl e, d) | Inr _ \<Rightarrow>
      let p = p\<lparr>rp_ExpiresAt := truncate_us (rp_ExpiresAt p)\<rparr> in
      run_tx env (reserve_tx st env p) d)"

section \<open>Reset\<close>

definition nextSession :: "session_ref \<Rightarrow> session_ref" where
  "nextSession expected = SessionRef (SessionID expected) (Generation expected + 1)"

definition reset_old_ref :: "reserve_reset_params \<Rightarrow> allocation_ref" where
  "reset_old_ref p = AllocationRef (AllocationIDForSession (rr_Expected p)) (rr_Expected p) (rr_Provider p)"

definition reset_replay :: "reserve_reset_params \<Rightarrow> session_reservation \<Rightarrow> reset_reservation stmt" where
  "reset_replay p v =
     (let next = nextSession (rr_Expected p); nextAllocationID = AllocationIDForSession next;
          requestHash = hashResetReservation p nextAllocationID (ds_Selection (rv_Session v)) in
      tx_seq (tx_guard (\<not> (ds_ID (rv_Session v) \<noteq> SessionID (rr_Expected p) \<or>
          AllocID (da_Ref (rv_Allocation v)) \<noteq> nextAllocationID \<or> AllocSession (da_Ref (rv_Allocation v)) \<noteq> next \<or>
          do_Kind (rv_Operation v) \<noteq> ''create'' \<or> do_RequestHash (rv_Operation v) \<noteq> requestHash)) ErrIdempotencyConflict)
      (tx_return \<lparr>rs_Old = reset_old_ref p, rs_New = v\<rparr>))"

text \<open>The guards on the source generation; returns its provider id and resource profile.\<close>

definition reset_source_guards :: "tx_env \<Rightarrow> reserve_reset_params \<Rightarrow> session_row \<Rightarrow> (string \<times> string) stmt" where
  "reset_source_guards env p s =
     (let g = int64 (Generation (rr_Expected p)); old = reset_old_ref p in
     tx_seq (tx_guard (\<not> (s_current_generation s \<noteq> g \<or> s_desired_state s \<noteq> ''active'')) ErrGenerationStale)
     (tx_seq (tx_guard (s_state s = ''ready'') (ErrLifecycleConflict ''reset source session state''))
     (tx_seq (tx_guard (s_expires_at s > env_now env) ErrSessionExpired)
     (tx_bind (lockExactAllocation old) (\<lambda>providerID.
      tx_seq (tx_guard (providerID = rr_ProviderID p) (ErrLifecycleConflict ''reset provider id changed''))
     (tx_bind (tx_row (allocation_by_id (AllocID old)) (ErrDB ''read durable reset source'')) (\<lambda>a.
      tx_seq (tx_guard (a_desired_state a = ''active'') (ErrLifecycleConflict ''reset source is already desired absent''))
     (tx_seq (tx_guard (a_observed_state a = ''running'') (ErrLifecycleConflict ''reset source allocation state''))
     (tx_bind (tx_row (operation_of (AllocID old) providerID ''create'')
        (ErrLifecycleConflict ''reset source create operation is missing'')) (\<lambda>r.
      tx_seq (tx_guard (o_state r = ''succeeded'') (ErrLifecycleConflict ''reset source create operation state''))
     (tx_bind (tx_get (\<lambda>d. count_where (\<lambda>a. a_session_id a = SessionID (rr_Expected p) \<and> a_generation a < g \<and>
          (a_desired_state a \<noteq> ''absent'' \<or> a_observed_state a \<noteq> ''absent'')) (allocations d))) (\<lambda>older.
      tx_seq (tx_guard (older = 0) (ErrLifecycleConflict ''older allocation(s) are not absent''))
     (tx_bind (attemptStatusTx (rr_Expected p)) (\<lambda>status.
      tx_seq (tx_guard (status = ''in_progress'') (ErrLifecycleConflict ''reset source attempt is already terminal''))
     (tx_return (providerID, a_resource_profile a))))))))))))))))"

definition attempt_reset :: "tx_env \<Rightarrow> attempt_row \<Rightarrow> attempt_row" where
  "attempt_reset env t = t\<lparr>t_status := ''failed'', t_finished_at := Some (env_now env),
     t_duration_seconds := Some (elapsed_seconds env (t_started_at t)),
     t_verify_log := (if t_verify_log t = '''' then ''environment reset by user'' else t_verify_log t)\<rparr>"

text \<open>The cleanup intent for the old generation.\<close>

definition retire_source :: "tx_env \<Rightarrow> reserve_reset_params \<Rightarrow> string \<Rightarrow> unit stmt" where
  "retire_source env p providerID =
     (let g = int64 (Generation (rr_Expected p)); sid = SessionID (rr_Expected p); oldID = AllocID (reset_old_ref p) in
     tx_block
      [exec_one (update_attempts (open_attempt sid g) (attempt_reset env))
         (ErrLifecycleConflict ''reset source attempt lost transition authority''),
       exec_one (update_allocations (\<lambda>a. a_id a = oldID \<and> a_desired_state a = ''active'') allocation_leaving)
         (ErrLifecycleConflict ''reset source lost transition authority''),
       ensure_destroy env oldID providerID,
       ensure_event env oldID ''reset_requested'' ''user_reset'' ''Replacement environment requested.'',
       ensure_event env oldID ''destroying'' ''reset'' ''Previous environment cleanup started.''])"

text \<open>The replacement generation.\<close>

definition reserve_replacement :: "tx_env \<Rightarrow> reserve_reset_params \<Rightarrow> session_row \<Rightarrow> string \<Rightarrow> byte list \<Rightarrow> string stmt" where
  "reserve_replacement env p s profile requestHash =
     (let next = nextSession (rr_Expected p); nextID = AllocationIDForSession next; sid = SessionID (rr_Expected p);
          g = int64 (Generation (rr_Expected p)); g' = int64 (Generation next) in
     tx_seq (tx_map_error mapReservationError (insert_allocation
        (new_allocation env nextID sid g' (rr_Provider p) (rr_ProviderID p) profile (s_expires_at s) 2)))
     (tx_bind (tx_map_error mapReservationError (fresh_operation env nextID (rr_ProviderID p) ''create''
        (rr_IdempotencyKey p) requestHash ''pending'' None)) (\<lambda>operationID.
      tx_seq (insert_events
        [new_event nextID 1 ''allocation_reserved'' ''reset_replacement'' ''Replacement environment reserved.'' (env_now env),
         new_event nextID 2 ''reset_requested'' ''user_reset'' ''Replacement environment requested.'' (env_now env)])
     (tx_seq (exec_one (update_sessions
          (\<lambda>x. s_id x = sid \<and> s_current_generation x = g \<and> s_desired_state x = ''active'')
          (\<lambda>x. x\<lparr>s_current_generation := g', s_state := ''queued'', s_desired_state := ''active'',
                  s_started_at := None, s_finished_at := None\<rparr>)) ErrGenerationStale)
     (tx_seq (tx_map_error mapReservationError (insert_attempt
        (new_attempt (env_attempt_id env) (rr_UserID p) (s_problem_id s) (env_now env) sid g')))
     (tx_return operationID))))))"

definition reset_value :: "tx_env \<Rightarrow> reserve_reset_params \<Rightarrow> session_row \<Rightarrow> catalog_selection \<Rightarrow> string \<Rightarrow> byte list \<Rightarrow>
    string \<Rightarrow> reset_reservation" where
  "reset_value env p s selection profile requestHash operationID =
     (let next = nextSession (rr_Expected p); nextID = AllocationIDForSession next in
     \<lparr>rs_Old = reset_old_ref p,
      rs_New = \<lparr>rv_Session = \<lparr>ds_ID = SessionID (rr_Expected p), ds_UserID = rr_UserID p, ds_Selection = selection,
          ds_CurrentGeneration = Generation next, ds_State = ''queued'', ds_DesiredState = ''active'',
          ds_QueuedAt = s_queued_at s, ds_ExpiresAt = s_expires_at s\<rparr>,
        rv_Allocation = \<lparr>da_Ref = AllocationRef nextID next (rr_Provider p), da_ProviderID = rr_ProviderID p,
          da_ResourceProfile = profile, da_DesiredState = ''active'', da_ObservedState = ''unknown'',
          da_ExpiresAt = s_expires_at s, da_LastEventSequence = 2\<rparr>,
        rv_Operation = \<lparr>do_ID = operationID, do_AllocationID = nextID, do_ProviderID = rr_ProviderID p,
          do_Kind = ''create'', do_IdempotencyKey = rr_IdempotencyKey p, do_RequestHash = requestHash,
          do_State = ''pending''\<rparr>,
        rv_Event = \<lparr>de_AllocationID = nextID, de_Sequence = 1, de_Type = ''allocation_reserved'',
          de_ReasonCode = ''reset_replacement'', de_Message = ''Replacement environment reserved.'',
          de_Payload = [], de_CreatedAt = env_now env\<rparr>,
        rv_AttemptID = env_attempt_id env, rv_AttemptStatus = ''in_progress''\<rparr>\<rparr>)"

definition reset_fresh :: "tx_env \<Rightarrow> reserve_reset_params \<Rightarrow> reset_reservation stmt" where
  "reset_fresh env p =
     tx_bind (tx_row (\<lambda>d. find (\<lambda>s. s_id s = SessionID (rr_Expected p) \<and> s_user_id s = rr_UserID p) (sessions d))
        ErrAllocationNotFound) (\<lambda>s.
     tx_seq (tx_guard (\<not> (s_catalog_generation s = None \<or> the (s_catalog_generation s) \<le> 0 \<or>
          s_problem_id s = '''' \<or> s_problem_revision s = ''''))
        (ErrLifecycleConflict ''reset source has no verified catalog selection''))
     (let selection = \<lparr>SelGeneration = uint64 (the (s_catalog_generation s)),
            SelProblem = \<lparr>ProblemID = s_problem_id s, Revision = s_problem_revision s\<rparr>\<rparr>;
          requestHash = hashResetReservation p (AllocationIDForSession (nextSession (rr_Expected p))) selection in
      tx_bind (reset_source_guards env p s) (\<lambda>(providerID, profile).
      tx_seq (retire_source env p providerID)
      (tx_bind (reserve_replacement env p s profile requestHash) (\<lambda>operationID.
       tx_return (reset_value env p s selection profile requestHash operationID))))))"

definition reset_tx :: "postgres_store \<Rightarrow> tx_env \<Rightarrow> reserve_reset_params \<Rightarrow> reset_reservation stmt" where
  "reset_tx st env p =
     tx_seq (lockControllerEpochTx st)
     (tx_seq (lock_user (rr_UserID p) (ErrDB ''lock runner reset user''))
     (tx_bind (loadReservationByOperation (rr_ProviderID p) (rr_IdempotencyKey p)) (\<lambda>replay.
      case replay of Some v \<Rightarrow> reset_replay p v | None \<Rightarrow> reset_fresh env p)))"

definition ReserveReset :: "postgres_store \<Rightarrow> tx_env \<Rightarrow> reserve_reset_params \<Rightarrow> db \<Rightarrow>
    (runner_error + reset_reservation) \<times> db" where
  "ReserveReset st env p d =
     (case requireProvider st (rr_ProviderID p) of Inl e \<Rightarrow> (Inl e, d) | Inr _ \<Rightarrow>
      case validateResetReservation p of Inl e \<Rightarrow> (Inl e, d) | Inr _ \<Rightarrow>
      run_tx env (reset_tx st env p) d)"

section \<open>Appending and reading events\<close>

text \<open>
  A payload is the text the caller passed together with the document it parses to (\<open>None\<close> when it is
  not valid JSON).
\<close>

definition append_event_tx :: "postgres_store \<Rightarrow> tx_env \<Rightarrow> string \<Rightarrow> string \<Rightarrow> string \<Rightarrow> string \<Rightarrow> json_doc \<Rightarrow> durable_event stmt" where
  "append_event_tx st env allocationID eventType reasonCode message doc =
     tx_seq (lockControllerEpochTx st)
     (tx_bind (tx_row (allocation_by_id allocationID) (ErrDB ''load runner event provider'')) (\<lambda>a.
      tx_seq (tx_lift (requireProvider st (a_provider_id a)))
     (tx_bind (log_event env allocationID None eventType reasonCode message doc) (\<lambda>n.
      tx_return \<lparr>de_AllocationID = allocationID, de_Sequence = uint64 n, de_Type = eventType,
        de_ReasonCode = reasonCode, de_Message = message, de_Payload = doc, de_CreatedAt = env_now env\<rparr>))))"

definition AppendEvent :: "postgres_store \<Rightarrow> tx_env \<Rightarrow> string \<Rightarrow> string \<Rightarrow> string \<Rightarrow> string \<Rightarrow>
    string \<times> json_doc option \<Rightarrow> db \<Rightarrow> (runner_error + durable_event) \<times> db" where
  "AppendEvent st env allocationID eventType reasonCode message payload d =
     (if allocationID = '''' \<or> eventType = '''' then (Inl (ErrText ''allocation id and event type are required''), d)
      else if length reasonCode > 64 \<or> length message > 1024
      then (Inl (ErrText ''runner event text exceeds the persisted bound''), d)
      else let (raw, parsed) = (if fst payload = '''' then (''{}'', Some []) else payload) in
        case parsed of None \<Rightarrow> (Inl (ErrText ''runner event payload is not valid JSON''), d)
        | Some doc \<Rightarrow>
            if length raw > maxDurableJSONBytes
            then (Inl (ErrText ''runner event payload exceeds the persisted bound''), d)
            else run_tx env (append_event_tx st env allocationID eventType reasonCode message doc) d)"

definition event_of_row :: "event_row \<Rightarrow> durable_event" where
  "event_of_row e =
     \<lparr>de_AllocationID = e_allocation_id e, de_Sequence = uint64 (e_sequence e), de_Type = e_type e,
      de_ReasonCode = (case e_reason_code e of None \<Rightarrow> '''' | Some c \<Rightarrow> c), de_Message = e_message e,
      de_Payload = e_payload e, de_CreatedAt = e_created_at e\<rparr>"

definition ReadEvents :: "string \<Rightarrow> u64 \<Rightarrow> int \<Rightarrow> db \<Rightarrow> runner_error + durable_event list" where
  "ReadEvents allocationID after limit d =
     (if allocationID = '''' \<or> limit \<le> 0 \<or> limit > 1000 then Inl (ErrText ''invalid runner event replay request'')
      else Inr (map event_of_row (take (nat limit)
        (sort_key e_sequence (filter (\<lambda>e. e_allocation_id e = allocationID \<and> e_sequence e > int64 after) (events d))))))"

end
