(* ===== verification/Store_Lifecycle.thy ===== *)
theory Store_Lifecycle
  imports Store_Reserve
begin

text \<open>
  The lifecycle transitions of \<open>postgres_lifecycle.go\<close> (all but verification): create success and
  failure, setup, ready, the destroy request, proven absence, and the convergence of a local
  restart; and the work claims of \<open>postgres_work.go\<close> that the claimed forms take.
\<close>

section \<open>Work claims\<close>

record destroy_work_claim =
  dw_OperationID :: string
  dw_LeaseToken :: string
  dw_LeaseOwner :: string
  dw_Ref :: allocation_ref
  dw_Attempt :: int
  dw_LeaseExpiresAt :: time
  dw_Pending :: bool
  dw_Completed :: bool

record create_work_claim =
  cw_OperationID :: string
  cw_LeaseToken :: string
  cw_LeaseOwner :: string
  cw_Reservation :: session_reservation
  cw_Attempt :: int
  cw_LeaseExpiresAt :: time

definition validateDestroyClaim :: "destroy_work_claim \<Rightarrow> runner_error + unit" where
  "validateDestroyClaim c =
     (if dw_Pending c then Inl (ErrText ''pending destroy work observation is not a mutation claim'')
      else if dw_Completed c then
        (if dw_OperationID c = '''' \<or> ref_incomplete (dw_Ref c)
         then Inl (ErrText ''completed destroy work replay is invalid'') else Inr ())
      else if dw_OperationID c = '''' \<or> dw_LeaseToken c = '''' \<or> dw_LeaseOwner c = '''' \<or>
              dw_LeaseExpiresAt c = zero_time \<or> ref_incomplete (dw_Ref c) \<or> dw_Attempt c \<le> 0
      then Inl (ErrText ''destroy work claim is invalid'') else Inr ())"

definition validateCreateClaim :: "create_work_claim \<Rightarrow> runner_error + unit" where
  "validateCreateClaim c =
     (if cw_OperationID c = '''' \<or> cw_LeaseToken c = '''' \<or> cw_LeaseOwner c = '''' \<or>
         cw_LeaseExpiresAt c = zero_time \<or> cw_Attempt c \<le> 0 \<or>
         do_ID (rv_Operation (cw_Reservation c)) \<noteq> cw_OperationID c \<or>
         ref_incomplete (da_Ref (rv_Allocation (cw_Reservation c)))
      then Inl (ErrText ''create work claim is invalid'') else Inr ())"

text \<open>\<open>claim != nil\<close> and the row is still the one it leased.\<close>

definition claim_current :: "tx_env \<Rightarrow> string \<Rightarrow> string \<Rightarrow> operation_row \<Rightarrow> bool" where
  "claim_current env operationID token r \<longleftrightarrow>
     \<not> (o_id r \<noteq> operationID \<or> o_state r \<noteq> ''running'' \<or> o_lease_token r = None \<or>
        o_lease_token r \<noteq> Some token \<or> \<not> lease_active env r)"

section \<open>Create\<close>

definition create_succeeded_rows :: "tx_env \<Rightarrow> allocation_ref \<Rightarrow> string \<Rightarrow> unit stmt" where
  "create_succeeded_rows env ref providerID = tx_block
     [exec_one (update_operations
        (\<lambda>r. o_allocation_id r = AllocID ref \<and> o_provider_id r = providerID \<and> o_kind r = ''create'' \<and>
              o_state r \<in> {''pending'', ''running''})
        (\<lambda>r. (clear_lease r)\<lparr>o_state := ''succeeded'', o_completed_at := Some (env_now env), o_error_code := None,
                o_error_message := None, o_next_attempt_at := None\<rparr>))
        (ErrText ''durable create operation is not completable''),
      exec_any (update_allocations (\<lambda>a. a_id a = AllocID ref \<and> a_desired_state a = ''active'')
        (\<lambda>a. a\<lparr>a_observed_state := (if a_observed_state a = ''unknown'' then ''provisioning'' else a_observed_state a),
                a_failure_code := None, a_failure_message := None\<rparr>)),
      exec_any (update_sessions
        (\<lambda>s. s_id s = ref_sid ref \<and> s_current_generation s = ref_gen ref \<and> s_desired_state s = ''active'')
        (\<lambda>s. s\<lparr>s_state := (if s_state s \<in> {''queued'', ''provisioning''} then ''booting'' else s_state s),
                s_started_at := coalesce (s_started_at s) (env_now env)\<rparr>)),
      ensure_event env (AllocID ref) ''vm_created'' ''provider_created'' ''Execution environment was created.'']"

text \<open>
  The guards of the create transitions up to the state check: either the work is already done
  (\<open>replay\<close> is the operation state an exact replay finds), or the transition may run.
\<close>

definition create_admission :: "tx_env \<Rightarrow> allocation_ref \<Rightarrow> string \<Rightarrow> create_work_claim option \<Rightarrow> string \<Rightarrow> bool stmt" where
  "create_admission env ref providerID claim replay =
     tx_bind (tx_row (operation_of (AllocID ref) providerID ''create'')
        (ErrLifecycleConflict ''durable create operation is missing'')) (\<lambda>r.
     case claim of
       Some c \<Rightarrow>
         tx_seq (tx_guard (claim_current env (cw_OperationID c) (cw_LeaseToken c) r)
                   (ErrLifecycleConflict ''create work claim is no longer current''))
         (tx_return False)
     | None \<Rightarrow>
         if o_state r = replay then tx_return True
         else tx_seq (tx_guard (\<not> lease_active env r) (ErrLifecycleConflict ''create operation is leased by a worker''))
              (tx_seq (tx_guard (o_state r \<in> {''pending'', ''running''}) (ErrLifecycleConflict ''create operation state''))
              (tx_return False)))"

text \<open>\<open>currentGeneration != ... || sessionDesired != "active" || allocationDesired != "active"\<close>\<close>

definition require_current :: "allocation_ref \<Rightarrow> (session_row \<times> allocation_row) stmt" where
  "require_current ref =
     tx_bind (tx_row (session_by_id (ref_sid ref)) (ErrDB ''lock durable session'')) (\<lambda>s.
     tx_bind (tx_row (allocation_by_id (AllocID ref)) (ErrDB ''read durable allocation'')) (\<lambda>a.
     tx_seq (tx_guard (\<not> (s_current_generation s \<noteq> ref_gen ref \<or> s_desired_state s \<noteq> ''active'' \<or>
               a_desired_state a \<noteq> ''active'')) ErrGenerationStale)
     (tx_return (s, a))))"

definition create_succeeded_tx :: "postgres_store \<Rightarrow> tx_env \<Rightarrow> allocation_ref \<Rightarrow> create_work_claim option \<Rightarrow> unit stmt" where
  "create_succeeded_tx st env ref claim =
     tx_bind (enter_exact st ref) (\<lambda>providerID.
     tx_bind (create_admission env ref providerID claim ''succeeded'') (\<lambda>replay.
     if replay then tx_return () else
     tx_bind (require_current ref) (\<lambda>(s, a).
     tx_seq (tx_guard (s_state s \<in> {''queued'', ''provisioning'', ''booting'', ''setting_up'', ''ready''})
        (ErrLifecycleConflict ''session cannot accept create success''))
     (tx_seq (tx_guard (\<not> (a_observed_state a \<noteq> ''unknown'' \<and> a_observed_state a \<noteq> ''provisioning'' \<and>
          a_observed_state a \<noteq> ''running'')) (ErrLifecycleConflict ''allocation cannot accept create success''))
     (create_succeeded_rows env ref providerID)))))"

definition markCreateSucceeded :: "postgres_store \<Rightarrow> tx_env \<Rightarrow> allocation_ref \<Rightarrow> create_work_claim option \<Rightarrow> db \<Rightarrow>
    (runner_error + unit) \<times> db" where
  "markCreateSucceeded st env ref claim d = run_tx env (create_succeeded_tx st env ref claim) d"

definition MarkCreateSucceeded where
  "MarkCreateSucceeded st env ref d = markCreateSucceeded st env ref None d"

definition MarkClaimedCreateSucceeded where
  "MarkClaimedCreateSucceeded st env claim d =
     (case validateCreateClaim claim of Inl e \<Rightarrow> (Inl e, d) | Inr _ \<Rightarrow>
      markCreateSucceeded st env (da_Ref (rv_Allocation (cw_Reservation claim))) (Some claim) d)"

definition create_failed_rows :: "tx_env \<Rightarrow> allocation_ref \<Rightarrow> string \<Rightarrow> string \<Rightarrow> string \<Rightarrow> unit stmt" where
  "create_failed_rows env ref providerID code message = tx_block
     [exec_one (update_operations
        (\<lambda>r. o_allocation_id r = AllocID ref \<and> o_provider_id r = providerID \<and> o_kind r = ''create'' \<and>
              o_state r \<in> {''pending'', ''running''})
        (\<lambda>r. (clear_lease r)\<lparr>o_state := ''cleanup_required'', o_error_code := Some code, o_error_message := Some message,
                o_completed_at := None, o_next_attempt_at := None\<rparr>))
        (ErrLifecycleConflict ''durable create failure lost transition authority''),
      exec_any (update_allocations (\<lambda>a. a_id a = AllocID ref)
        (\<lambda>a. a\<lparr>a_desired_state := ''absent'', a_observed_state := ''error'', a_failure_code := Some code,
                a_failure_message := Some message\<rparr>)),
      exec_any (update_sessions (\<lambda>s. s_id s = ref_sid ref \<and> s_current_generation s = ref_gen ref)
        (session_terminal env ''failed'')),
      exec_any (update_attempts (open_attempt (ref_sid ref) (ref_gen ref)) (attempt_terminal env ''failed'' message)),
      ensure_destroy env (AllocID ref) providerID,
      ensure_event env (AllocID ref) ''failed'' code ''Environment creation failed.'',
      ensure_event env (AllocID ref) ''cleanup_required'' code ''Environment cleanup is pending.'']"

definition create_failed_tx :: "postgres_store \<Rightarrow> tx_env \<Rightarrow> allocation_ref \<Rightarrow> string \<Rightarrow> string \<Rightarrow>
    create_work_claim option \<Rightarrow> unit stmt" where
  "create_failed_tx st env ref code message claim =
     tx_bind (enter_exact st ref) (\<lambda>providerID.
     tx_bind (create_admission env ref providerID claim ''cleanup_required'') (\<lambda>replay.
     if replay then tx_return () else
     tx_seq (require_current ref) (create_failed_rows env ref providerID code message)))"

definition markCreateFailed :: "postgres_store \<Rightarrow> tx_env \<Rightarrow> allocation_ref \<Rightarrow> string \<Rightarrow> string \<Rightarrow>
    create_work_claim option \<Rightarrow> db \<Rightarrow> (runner_error + unit) \<times> db" where
  "markCreateFailed st env ref code message claim d =
     (let code = boundedDurableCode (if code = '''' then ''provider_create_failed'' else code);
          message = boundedDurableMessage message
      in run_tx env (create_failed_tx st env ref code message claim) d)"

definition MarkCreateFailed where
  "MarkCreateFailed st env ref code message d = markCreateFailed st env ref code message None d"

definition MarkClaimedCreateFailed where
  "MarkClaimedCreateFailed st env claim code message d =
     (case validateCreateClaim claim of Inl e \<Rightarrow> (Inl e, d) | Inr _ \<Rightarrow>
      markCreateFailed st env (da_Ref (rv_Allocation (cw_Reservation claim))) code message (Some claim) d)"

section \<open>Setup and ready\<close>

definition ready_tx :: "postgres_store \<Rightarrow> tx_env \<Rightarrow> allocation_ref \<Rightarrow> unit stmt" where
  "ready_tx st env ref =
     tx_bind (enter_exact st ref) (\<lambda>providerID.
     tx_bind (tx_row (\<lambda>d. find (\<lambda>s. s_id s = ref_sid ref \<and> s_current_generation s = ref_gen ref) (sessions d))
        ErrGenerationStale) (\<lambda>s.
     tx_seq (tx_guard (s_desired_state s = ''active'') ErrGenerationStale)
     (tx_bind (tx_row (allocation_by_id (AllocID ref)) (ErrDB ''read durable allocation ready transition'')) (\<lambda>a.
      tx_seq (tx_guard (a_desired_state a = ''active'') ErrGenerationStale)
     (tx_bind (tx_row (\<lambda>d. find (\<lambda>r. o_allocation_id r = AllocID ref \<and> o_kind r = ''create'') (operations d))
        (ErrDB ''lock durable create operation for ready transition'')) (\<lambda>r.
      tx_seq (tx_guard (o_state r = ''succeeded'') (ErrLifecycleConflict ''create operation state before ready''))
     (if s_state s = ''ready'' then tx_return () else
      tx_seq (tx_guard (\<not> (s_state s \<noteq> ''booting'' \<and> s_state s \<noteq> ''setting_up'' \<and> s_state s \<noteq> ''provisioning''))
        (ErrText ''durable session cannot become ready''))
     (tx_block
       [exec_any (update_sessions (\<lambda>x. s_id x = ref_sid ref) (\<lambda>x. x\<lparr>s_state := ''ready''\<rparr>)),
        exec_any (update_allocations (\<lambda>x. a_id x = AllocID ref) (\<lambda>x. x\<lparr>a_observed_state := ''running''\<rparr>)),
        ensure_event env (AllocID ref) ''ready'' ''setup_complete'' ''Environment ready.'']))))))))"

definition MarkReady :: "postgres_store \<Rightarrow> tx_env \<Rightarrow> allocation_ref \<Rightarrow> db \<Rightarrow> (runner_error + unit) \<times> db" where
  "MarkReady st env ref d = run_tx env (ready_tx st env ref) d"

definition setting_up_tx :: "postgres_store \<Rightarrow> tx_env \<Rightarrow> allocation_ref \<Rightarrow> unit stmt" where
  "setting_up_tx st env ref =
     tx_bind (enter_exact st ref) (\<lambda>providerID.
     tx_bind (tx_row (session_by_id (ref_sid ref)) (ErrDB ''lock durable session setting up transition'')) (\<lambda>s.
     tx_seq (tx_guard (s_current_generation s = ref_gen ref) ErrGenerationStale)
     (tx_bind (tx_row (allocation_by_id (AllocID ref)) (ErrDB ''read durable allocation setting up transition'')) (\<lambda>a.
      tx_seq (tx_guard (\<not> (s_desired_state s \<noteq> ''active'' \<or> a_desired_state a \<noteq> ''active'')) ErrGenerationStale)
     (tx_bind (tx_row (operation_of (AllocID ref) providerID ''create'')
        (ErrDB ''lock durable create operation for setting up transition'')) (\<lambda>r.
      tx_seq (tx_guard (o_state r = ''succeeded'') (ErrLifecycleConflict ''create operation state before setup''))
     (tx_seq
        (if s_state s \<in> {''setting_up'', ''ready'', ''verifying''} then tx_return ()
         else if s_state s \<in> {''booting'', ''provisioning''}
         then exec_any (update_sessions (\<lambda>x. s_id x = ref_sid ref) (\<lambda>x. x\<lparr>s_state := ''setting_up''\<rparr>))
         else tx_fail (ErrLifecycleConflict ''session cannot start setup''))
     (tx_bind (ensureEventTx env (AllocID ref) ''setup_running'' ''setup_started'' ''Environment setup started.'') (\<lambda>inserted.
      tx_guard (\<not> (s_state s \<in> {''ready'', ''verifying''} \<and> inserted))
        (ErrLifecycleConflict ''setup event was missing after session advanced''))))))))))"

definition MarkSettingUp :: "postgres_store \<Rightarrow> tx_env \<Rightarrow> allocation_ref \<Rightarrow> db \<Rightarrow> (runner_error + unit) \<times> db" where
  "MarkSettingUp st env ref d = run_tx env (setting_up_tx st env ref) d"

section \<open>Destroy\<close>

text \<open>The changes to the current generation: the attempt, then the session outcome.\<close>

definition destroy_current :: "tx_env \<Rightarrow> allocation_ref \<Rightarrow> string \<Rightarrow> string \<Rightarrow> string \<Rightarrow> string option \<Rightarrow> session_row \<Rightarrow> unit stmt" where
  "destroy_current env ref canonical attemptStatus verifyLog existing s =
     tx_seq
       (if existing \<noteq> None then tx_return ()
        else if s_state s \<in> {''completed'', ''failed'', ''timed_out'', ''provider_lost''}
        then tx_guard (s_state s = canonical) (ErrLifecycleConflict ''session outcome is already recorded'')
        else tx_guard (s_state s \<notin> {''destroying'', ''destroyed''}) (ErrLifecycleConflict ''terminal outcome evidence is missing''))
     (tx_bind (attemptStatusTx (AllocSession ref)) (\<lambda>attemptState.
      tx_seq (tx_guard (\<not> (attemptState \<noteq> ''in_progress'' \<and> attemptState \<noteq> attemptStatus))
        (ErrLifecycleConflict ''attempt outcome is already recorded''))
     (tx_seq
       (if attemptState = ''in_progress'' then
          exec_one (update_attempts (open_attempt (ref_sid ref) (ref_gen ref)) (attempt_terminal env attemptStatus verifyLog))
            (ErrLifecycleConflict ''terminal attempt lost transition authority'')
        else tx_return ())
       (if existing = None then
          exec_one (update_sessions (\<lambda>x. s_id x = ref_sid ref \<and> s_current_generation x = ref_gen ref)
            (session_terminal env canonical)) ErrGenerationStale
        else tx_guard (s_desired_state s \<noteq> ''active'') (ErrLifecycleConflict ''terminal event exists while session remains active'')))))"

definition destroy_tx :: "postgres_store \<Rightarrow> tx_env \<Rightarrow> allocation_ref \<Rightarrow> string \<Rightarrow> string \<Rightarrow> string \<Rightarrow> unit stmt" where
  "destroy_tx st env ref canonical attemptStatus verifyLog =
     tx_bind (enter_exact st ref) (\<lambda>providerID.
     tx_bind (tx_row (session_by_id (ref_sid ref)) (ErrDB ''lock durable session destroy request'')) (\<lambda>s.
     tx_bind (destroyOutcomeTx (AllocID ref)) (\<lambda>existing.
     let isCurrent = (s_current_generation s = ref_gen ref) in
     tx_seq (tx_guard (existing = None \<or> existing = Some canonical) (ErrLifecycleConflict ''terminal outcome is already recorded''))
     (tx_block
       [if isCurrent then destroy_current env ref canonical attemptStatus verifyLog existing s else tx_return (),
        exec_any (update_allocations (\<lambda>a. a_id a = AllocID ref \<and> a_desired_state a \<noteq> ''absent'') allocation_leaving),
        ensure_destroy env (AllocID ref) providerID,
        if isCurrent \<and> terminalEventType canonical \<noteq> ''''
        then ensure_event env (AllocID ref) (terminalEventType canonical) canonical ''Environment ended.''
        else tx_return (),
        ensure_event env (AllocID ref) ''destroying'' canonical ''Environment cleanup started.'']))))"

definition RequestDestroy :: "postgres_store \<Rightarrow> tx_env \<Rightarrow> allocation_ref \<Rightarrow> string \<Rightarrow> string \<Rightarrow> string \<Rightarrow> db \<Rightarrow>
    (runner_error + unit) \<times> db" where
  "RequestDestroy st env ref outcome attemptStatus verifyLog d =
     (case canonicalTerminalOutcome outcome attemptStatus of Inl e \<Rightarrow> (Inl e, d) | Inr canonical \<Rightarrow>
      run_tx env (destroy_tx st env ref canonical attemptStatus (boundedDurableMessage verifyLog)) d)"

text \<open>An older generation's disappearance enters the current generation's stream.\<close>

definition cleanup_pending :: "string \<Rightarrow> int \<Rightarrow> string \<Rightarrow> db \<Rightarrow> bool" where
  "cleanup_pending sid current desired d =
     list_ex (\<lambda>a. a_session_id a = sid \<and> (desired = ''absent'' \<or> a_generation a < current) \<and>
        (a_desired_state a \<noteq> ''absent'' \<or> a_observed_state a \<noteq> ''absent'')) (allocations d)"

definition predecessor_destroyed :: "tx_env \<Rightarrow> allocation_ref \<Rightarrow> session_row \<Rightarrow> unit stmt" where
  "predecessor_destroyed env ref s =
     tx_bind (tx_row (allocation_of (ref_sid ref) (s_current_generation s))
        (ErrDB ''resolve current allocation after predecessor cleanup'')) (\<lambda>current.
     tx_bind (tx_get (cleanup_pending (ref_sid ref) (s_current_generation s) (s_desired_state s))) (\<lambda>pending.
     tx_bind (tx_lift (boundedEventPayload [(''cleanup_pending'', JBool pending),
        (''predecessor_generation'', JNum (unat (Generation (AllocSession ref))))])) (\<lambda>payload.
     ensure_keyed_event env (a_id current) (''predecessor-destroyed:'' @ AllocID ref) ''predecessor_destroyed''
       ''absence_proven'' ''Previous environment cleanup completed.'' payload)))"

definition destroyed_rows :: "tx_env \<Rightarrow> allocation_ref \<Rightarrow> string \<Rightarrow> string \<Rightarrow> unit stmt" where
  "destroyed_rows env ref providerID observed = tx_block
     [if observed \<noteq> ''absent''
      then exec_any (update_allocations (\<lambda>a. a_id a = AllocID ref) allocation_gone) else tx_return (),
      exec_any (update_operations
        (\<lambda>r. o_allocation_id r = AllocID ref \<and> o_provider_id r = providerID \<and> o_kind r = ''create'' \<and>
              o_state r \<in> {''pending'', ''running'', ''cleanup_required''})
        (\<lambda>r. (clear_lease r)\<lparr>o_state := ''failed'', o_completed_at := coalesce (o_completed_at r) (env_now env),
                o_error_code := coalesce (o_error_code r) ''allocation_destroyed'',
                o_error_message := coalesce (o_error_message r) ''allocation was destroyed before create completed'',
                o_next_attempt_at := None\<rparr>)),
      exec_one (update_operations
        (\<lambda>r. o_allocation_id r = AllocID ref \<and> o_provider_id r = providerID \<and> o_kind r = ''destroy'' \<and>
              o_state r \<in> {''pending'', ''running'', ''cleanup_required'', ''succeeded''})
        (\<lambda>r. (operation_succeeded env r)\<lparr>o_next_attempt_at := None\<rparr>))
        (ErrLifecycleConflict ''durable destroy operation lost transition authority'')]"

definition destroyed_tx :: "postgres_store \<Rightarrow> tx_env \<Rightarrow> allocation_ref \<Rightarrow> destroy_work_claim option \<Rightarrow> unit stmt" where
  "destroyed_tx st env ref claim =
     tx_bind (enter_exact st ref) (\<lambda>providerID.
     tx_bind (tx_row (allocation_by_id (AllocID ref)) (ErrDB ''lock durable destroyed target'')) (\<lambda>a.
     tx_seq (tx_guard (a_desired_state a = ''absent'') (ErrLifecycleConflict ''destroy was not requested''))
     (tx_bind (tx_row (operation_of (AllocID ref) providerID ''destroy'')
        (ErrLifecycleConflict ''durable destroy operation is missing'')) (\<lambda>r.
      tx_seq (tx_guard (o_state r \<in> {''pending'', ''running'', ''cleanup_required'', ''succeeded''})
        (ErrLifecycleConflict ''destroy operation state''))
     (tx_seq (case claim of
          None \<Rightarrow> tx_guard (\<not> lease_active env r) (ErrLifecycleConflict ''destroy operation is leased by a worker'')
        | Some c \<Rightarrow> tx_guard (claim_current env (dw_OperationID c) (dw_LeaseToken c) r)
                     (ErrLifecycleConflict ''destroy work claim is no longer current''))
     (tx_seq (destroyed_rows env ref providerID (a_observed_state a))
     (tx_bind (tx_row (session_by_id (ref_sid ref)) (ErrDB ''lock durable session after allocation absence'')) (\<lambda>s.
      tx_seq (tx_guard (s_current_generation s \<ge> ref_gen ref)
        (ErrLifecycleConflict ''destroyed generation is newer than the session''))
     (tx_block
       [if s_current_generation s > ref_gen ref then predecessor_destroyed env ref s else tx_return (),
        exec_any (update_sessions (\<lambda>x. s_id x = ref_sid ref \<and> s_current_generation x = ref_gen ref)
          (session_terminal env ''destroyed'')),
        ensure_event env (AllocID ref) ''destroyed'' ''absence_proven'' ''Environment cleanup completed.''])))))))))"

definition markDestroyed :: "postgres_store \<Rightarrow> tx_env \<Rightarrow> allocation_ref \<Rightarrow> destroy_work_claim option \<Rightarrow> db \<Rightarrow>
    (runner_error + unit) \<times> db" where
  "markDestroyed st env ref claim d = run_tx env (destroyed_tx st env ref claim) d"

definition MarkDestroyed where
  "MarkDestroyed st env ref d = markDestroyed st env ref None d"

definition MarkClaimedDestroyed where
  "MarkClaimedDestroyed st env claim d =
     (case validateDestroyClaim claim of Inl e \<Rightarrow> (Inl e, d) | Inr _ \<Rightarrow>
      markDestroyed st env (dw_Ref claim) (Some claim) d)"

section \<open>Local restart\<close>

record local_recovery_allocation =
  lr_Ref :: allocation_ref
  lr_Selection :: catalog_selection
  lr_ResourceProfile :: string

text \<open>One scanned row; a row that lacks provenance fails the whole snapshot.\<close>

definition recovery_of_row :: "db \<Rightarrow> allocation_row \<Rightarrow> (runner_error + local_recovery_allocation) option" where
  "recovery_of_row d a =
     (case session_by_id (a_session_id a) d of
        None \<Rightarrow> None
      | Some s \<Rightarrow> Some
         (if a_generation a \<le> 0 \<or> s_catalog_generation s = None \<or> the (s_catalog_generation s) \<le> 0 \<or>
             a_id a = '''' \<or> a_session_id a = '''' \<or> s_problem_id s = '''' \<or> s_problem_revision s = '''' \<or>
             a_resource_profile a = ''''
          then Inl (ErrText ''local restart allocation lacks trusted catalog or resource provenance'')
          else Inr \<lparr>lr_Ref = AllocationRef (a_id a) (SessionRef (a_session_id a) (uint64 (a_generation a))) (a_provider_kind a),
                 lr_Selection = \<lparr>SelGeneration = uint64 (the (s_catalog_generation s)),
                   SelProblem = \<lparr>ProblemID = s_problem_id s, Revision = s_problem_revision s\<rparr>\<rparr>,
                 lr_ResourceProfile = a_resource_profile a\<rparr>))"

fun sequence_results :: "('e + 'a) list \<Rightarrow> 'e + 'a list" where
  "sequence_results [] = Inr []"
| "sequence_results (r # rs) =
     (case r of Inl e \<Rightarrow> Inl e | Inr x \<Rightarrow> (case sequence_results rs of Inl e \<Rightarrow> Inl e | Inr xs \<Rightarrow> Inr (x # xs)))"

definition SnapshotLocalRecovery :: "postgres_store \<Rightarrow> string \<Rightarrow> db \<Rightarrow> runner_error + local_recovery_allocation list" where
  "SnapshotLocalRecovery st providerID d =
     (if providerID = '''' then Inl (ErrText ''local restart recovery requires a provider id'')
      else case requireProvider st providerID of Inl e \<Rightarrow> Inl e | Inr _ \<Rightarrow>
      sequence_results (List.map_filter (recovery_of_row d)
        (sort_key (\<lambda>a. (a_created_at a, a_id a)) (filter (\<lambda>a. a_provider_id a = providerID \<and>
           (a_desired_state a \<noteq> ''absent'' \<or> a_observed_state a \<noteq> ''absent'')) (allocations d)))))"

definition converge_rows :: "tx_env \<Rightarrow> allocation_ref \<Rightarrow> string \<Rightarrow> bool \<Rightarrow> bool \<Rightarrow> unit stmt" where
  "converge_rows env ref providerID isCurrent causedFailure = tx_block
     [exec_any (update_allocations (\<lambda>a. a_id a = AllocID ref) allocation_gone),
      if isCurrent
      then exec_any (update_sessions (\<lambda>s. s_id s = ref_sid ref \<and> s_current_generation s = ref_gen ref)
             (session_terminal env ''destroyed''))
      else tx_return (),
      if causedFailure
      then exec_any (update_attempts (open_attempt (ref_sid ref) (ref_gen ref))
             (attempt_terminal env ''failed'' ''control plane restarted; local development environment was removed''))
      else tx_return (),
      exec_any (update_operations
        (\<lambda>r. o_allocation_id r = AllocID ref \<and> o_provider_id r = providerID \<and>
              o_state r \<in> {''pending'', ''running'', ''cleanup_required''})
        (\<lambda>r. (clear_lease r)\<lparr>o_state := (if o_kind r = ''destroy'' then ''succeeded'' else ''failed''),
                o_error_code := (if o_kind r = ''destroy'' then None else Some ''control_plane_restarted''),
                o_error_message := (if o_kind r = ''destroy'' then None
                   else Some ''local development allocation removed during restart recovery''),
                o_completed_at := coalesce (o_completed_at r) (env_now env)\<rparr>)),
      ensure_destroy env (AllocID ref) providerID,
      exec_any (update_operations
        (\<lambda>r. o_allocation_id r = AllocID ref \<and> o_provider_id r = providerID \<and> o_kind r = ''destroy'' \<and>
              o_state r \<in> {''pending'', ''running'', ''cleanup_required'', ''succeeded''})
        (operation_succeeded env)),
      if causedFailure
      then ensure_event env (AllocID ref) ''failed'' ''control_plane_restarted''
             ''Local development environment ended during server restart.''
      else tx_return (),
      ensure_event env (AllocID ref) ''destroyed'' ''scoped_reconcile_absent''
        ''Local development environment cleanup completed.'']"

definition provenance_changed :: "session_row \<Rightarrow> allocation_row \<Rightarrow> local_recovery_allocation \<Rightarrow> bool" where
  "provenance_changed s a recovery \<longleftrightarrow>
     s_catalog_generation s = None \<or> the (s_catalog_generation s) \<le> 0 \<or>
     uint64 (the (s_catalog_generation s)) \<noteq> SelGeneration (lr_Selection recovery) \<or>
     s_problem_id s \<noteq> ProblemID (SelProblem (lr_Selection recovery)) \<or>
     s_problem_revision s \<noteq> Revision (SelProblem (lr_Selection recovery)) \<or>
     a_resource_profile a \<noteq> lr_ResourceProfile recovery"

definition converge_tx :: "postgres_store \<Rightarrow> tx_env \<Rightarrow> string \<Rightarrow> local_recovery_allocation \<Rightarrow> unit stmt" where
  "converge_tx st env expectedProviderID recovery =
     (let ref = lr_Ref recovery in
     tx_seq (lockControllerEpochTx st)
     (tx_bind (lockExactAllocation ref) (\<lambda>providerID.
      tx_seq (tx_guard (providerID = expectedProviderID) (ErrLifecycleConflict ''allocation belongs to another provider''))
     (tx_seq (tx_lift (requireProvider st providerID))
     (tx_bind (tx_row (allocation_by_id (AllocID ref)) (ErrDB ''no rows'')) (\<lambda>a.
      tx_bind (tx_row (session_by_id (ref_sid ref)) (ErrDB ''no rows'')) (\<lambda>s.
      tx_seq (tx_guard (\<not> provenance_changed s a recovery) (ErrLifecycleConflict ''local restart provenance changed''))
     (if a_observed_state a = ''absent'' \<and> a_desired_state a = ''absent'' then tx_return () else
      let isCurrent = (s_current_generation s = ref_gen ref) in
      tx_bind (if isCurrent
               then tx_bind (attemptStatusTx (AllocSession ref)) (\<lambda>status. tx_return (status = ''in_progress''))
               else tx_return False) (\<lambda>causedFailure.
      converge_rows env ref providerID isCurrent causedFailure)))))))))"

definition convergeOneLocalRestart :: "postgres_store \<Rightarrow> tx_env \<Rightarrow> string \<Rightarrow> local_recovery_allocation \<Rightarrow> db \<Rightarrow>
    (runner_error + unit) \<times> db" where
  "convergeOneLocalRestart st env expectedProviderID recovery d =
     (case requireProvider st expectedProviderID of Inl e \<Rightarrow> (Inl e, d) | Inr _ \<Rightarrow>
      run_tx env (converge_tx st env expectedProviderID recovery) d)"

text \<open>
  The loop keeps going after an error; the result is the number converged and the errors. Each row
  is a transaction of its own: \<open>env n\<close> is the environment of the one with \<open>n\<close> rows still to follow.
\<close>

fun converge_snapshot :: "postgres_store \<Rightarrow> (nat \<Rightarrow> tx_env) \<Rightarrow> string \<Rightarrow> local_recovery_allocation list \<Rightarrow> db \<Rightarrow>
    (nat \<times> runner_error list) \<times> db" where
  "converge_snapshot st env providerID [] d = ((0, []), d)"
| "converge_snapshot st env providerID (recovery # rest) d =
     (if AllocProvider (lr_Ref recovery) \<noteq> ProviderLocalDocker
      then (case converge_snapshot st env providerID rest d of ((n, es), d') \<Rightarrow>
              ((n, ErrText ''refuse local restart convergence for provider'' # es), d'))
      else (case convergeOneLocalRestart st (env (length rest)) providerID recovery d of
              (Inl e, d1) \<Rightarrow> (case converge_snapshot st env providerID rest d1 of ((n, es), d') \<Rightarrow> ((n, e # es), d'))
            | (Inr _, d1) \<Rightarrow> (case converge_snapshot st env providerID rest d1 of ((n, es), d') \<Rightarrow> ((Suc n, es), d'))))"

definition ConvergeLocalRestartSnapshot :: "postgres_store \<Rightarrow> (nat \<Rightarrow> tx_env) \<Rightarrow> string \<Rightarrow> local_recovery_allocation list \<Rightarrow> db \<Rightarrow>
    (nat \<times> runner_error list) \<times> db" where
  "ConvergeLocalRestartSnapshot st env providerID snapshot d =
     (case requireProvider st providerID of Inl e \<Rightarrow> ((0, [e]), d) | Inr _ \<Rightarrow>
      converge_snapshot st env providerID snapshot d)"

end
