(* ===== verification/Store_Verify.thy ===== *)
theory Store_Verify
  imports Store_Lifecycle
begin

text \<open>
  Verification: the durable operation that admits one provider execution per client operation
  (\<open>BeginVerify\<close>, \<open>RecordVerifyFinished\<close>, \<open>RecordVerifyInfrastructureFailure\<close>, \<open>LookupVerify\<close> of
  \<open>postgres_lifecycle.go\<close>) and the choice grading of \<open>postgres_choice.go\<close>, with the reconciliation of
  an ambiguous commit.
\<close>

section \<open>Values\<close>

datatype verify_decision_kind = VerifyExecute | VerifyResume | VerifyGradeReplay | VerifyInfrastructureReplay

record verify_decision =
  vd_Kind :: verify_decision_kind
  vd_Session :: session_ref
  vd_Success :: bool
  vd_Log :: string
  vd_ErrorCode :: string

definition AllowsProviderCall :: "verify_decision \<Rightarrow> bool" where
  "AllowsProviderCall v \<longleftrightarrow> vd_Kind v = VerifyExecute"

definition decision :: "verify_decision_kind \<Rightarrow> session_ref \<Rightarrow> verify_decision" where
  "decision kind ref = \<lparr>vd_Kind = kind, vd_Session = ref, vd_Success = False, vd_Log = '''', vd_ErrorCode = ''''\<rparr>"

record verify_identity =
  vi_operationID :: string
  vi_idempotencyKey :: string
  vi_requestHash :: "byte list"

definition startedEventKey :: "verify_identity \<Rightarrow> string" where
  "startedEventKey v = vi_idempotencyKey v @ '':started''"

definition finishedEventKey :: "verify_identity \<Rightarrow> string" where
  "finishedEventKey v = vi_idempotencyKey v @ '':finished''"

record verify_result_metadata =
  vm_Success :: "bool option"
  vm_Log :: "string option"
  vm_InfrastructureError :: bool
  vm_Code :: string

text \<open>The struct's JSON form (every field is \<open>omitempty\<close>) and its decoding.\<close>

definition metadata_doc :: "verify_result_metadata \<Rightarrow> json_doc" where
  "metadata_doc r =
     (case vm_Success r of None \<Rightarrow> [] | Some b \<Rightarrow> [(''success'', JBool b)]) @
     (case vm_Log r of None \<Rightarrow> [] | Some l \<Rightarrow> [(''log'', JStr l)]) @
     (if vm_InfrastructureError r then [(''infrastructure_error'', JBool True)] else []) @
     (if vm_Code r \<noteq> '''' then [(''code'', JStr (vm_Code r))] else [])"

definition unmarshal_metadata :: "json_doc \<Rightarrow> verify_result_metadata option" where
  "unmarshal_metadata doc =
     Option.bind (case map_of doc ''success'' of
        None \<Rightarrow> Some None | Some (JBool b) \<Rightarrow> Some (Some b) | _ \<Rightarrow> None) (\<lambda>success.
     Option.bind (case map_of doc ''log'' of
        None \<Rightarrow> Some None | Some (JStr l) \<Rightarrow> Some (Some l) | _ \<Rightarrow> None) (\<lambda>log.
     Option.bind (case map_of doc ''infrastructure_error'' of
        None \<Rightarrow> Some False | Some (JBool b) \<Rightarrow> Some b | _ \<Rightarrow> None) (\<lambda>infra.
     Option.bind (case map_of doc ''code'' of
        None \<Rightarrow> Some '''' | Some (JStr c) \<Rightarrow> Some c | _ \<Rightarrow> None) (\<lambda>code.
     Some \<lparr>vm_Success = success, vm_Log = log, vm_InfrastructureError = infra, vm_Code = code\<rparr>))))"

definition gradeSucceeded :: "verify_result_metadata \<Rightarrow> bool" where
  "gradeSucceeded r \<longleftrightarrow> vm_Success r = Some True"

definition verifyLog_of :: "verify_result_metadata \<Rightarrow> string" where
  "verifyLog_of r = (case vm_Log r of None \<Rightarrow> '''' | Some l \<Rightarrow> l)"

definition grade_metadata :: "bool \<Rightarrow> string \<Rightarrow> verify_result_metadata" where
  "grade_metadata success log =
     \<lparr>vm_Success = Some success, vm_Log = Some log, vm_InfrastructureError = False, vm_Code = ''''\<rparr>"

definition infrastructure_metadata :: "string \<Rightarrow> verify_result_metadata" where
  "infrastructure_metadata code =
     \<lparr>vm_Success = None, vm_Log = None, vm_InfrastructureError = True, vm_Code = code\<rparr>"

definition safe_code_char :: "char \<Rightarrow> bool" where
  "safe_code_char c \<longleftrightarrow> is_lower c \<or> is_digit c \<or> c = CHR ''_'' \<or> c = CHR ''-'' \<or> c = CHR ''.''"

definition safeVerifyInfrastructureCode :: "string \<Rightarrow> string" where
  "safeVerifyInfrastructureCode code =
     (if code = '''' \<or> length code > 64 then ''verify_infrastructure_failure''
      else if \<not> list_all safe_code_char code then ''verify_infrastructure_failure''
      else code)"

section \<open>Identity\<close>

text \<open>The character loop of both functions; bytes above ASCII never pass it.\<close>

definition identity_char :: "char \<Rightarrow> bool" where
  "identity_char c \<longleftrightarrow> is_lower c \<or> is_upper c \<or> is_digit c \<or>
     c = CHR ''-'' \<or> c = CHR ''_'' \<or> c = CHR ''.'' \<or> c = CHR '':''"

definition verifyIdempotencyKey :: "string \<Rightarrow> string \<Rightarrow> runner_error + string" where
  "verifyIdempotencyKey userID operationID =
     (if userID = '''' \<or> length userID > 128 then Inl (ErrText ''verify user id is invalid'')
      else if length operationID < 8 \<or> length operationID > 128
      then Inl (ErrText ''verify operation id must be between 8 and 128 characters'')
      else if \<not> list_all identity_char (userID @ operationID)
      then Inl (ErrText ''verify identity contains an unsafe character'')
      else let key = ''verify-user:'' @ userID @ '':'' @ operationID
           in if \<not> ValidateProviderOperationKey key
              then Inl (ErrText ''verify idempotency key exceeds the provider bound'')
              else Inr key)"

definition newVerifyIdentity :: "allocation_ref \<Rightarrow> string \<Rightarrow> string \<Rightarrow> runner_error + verify_identity" where
  "newVerifyIdentity ref userID operationID =
     (if userID = '''' \<or> length userID > 128 then Inl (ErrText ''verify user id is invalid'')
      else if length operationID < 8 \<or> length operationID > 128
      then Inl (ErrText ''verify operation id must be between 8 and 128 characters'')
      else if \<not> list_all identity_char operationID
      then Inl (ErrText ''verify operation id contains an unsafe character'')
      else if ref_incomplete ref then Inl ErrAllocationNotFound
      else case verifyIdempotencyKey userID operationID of Inl e \<Rightarrow> Inl e | Inr key \<Rightarrow>
      Inr \<lparr>vi_operationID = operationID, vi_idempotencyKey = key,
           vi_requestHash = sha256_string (''k8s-quiz/verify/v2'' @ NUL @ userID @ NUL @ AllocID ref @ NUL @
             dec_u64 (Generation (AllocSession ref)) @ NUL @ SessionID (AllocSession ref) @ NUL @
             AllocProvider ref @ NUL @ operationID)\<rparr>)"

record choice_submission =
  ch_Session :: session_ref
  ch_ProblemID :: string
  ch_OperationID :: string
  ch_ChoiceID :: string

definition newChoiceIdentity :: "allocation_ref \<Rightarrow> string \<Rightarrow> choice_submission \<Rightarrow> runner_error + verify_identity" where
  "newChoiceIdentity ref userID sub =
     (if ref_incomplete ref then Inl ErrAllocationNotFound
      else if ch_Session sub \<noteq> AllocSession ref \<or> ch_ProblemID sub = '''' \<or> length (ch_ProblemID sub) > 255
      then Inl ErrIdempotencyConflict
      else if ch_ChoiceID sub = '''' \<or> length (ch_ChoiceID sub) > 128 \<or> \<not> valid_utf8 (ch_ChoiceID sub)
      then Inl (ErrText ''choice id is invalid'')
      else case verifyIdempotencyKey userID (ch_OperationID sub) of Inl e \<Rightarrow> Inl e | Inr key \<Rightarrow>
      Inr \<lparr>vi_operationID = ch_OperationID sub, vi_idempotencyKey = key,
           vi_requestHash = sha256_string (json_members
             [(''schema'', json_string ''k8s-quiz/choice-verification/v1''), (''user_id'', json_string userID),
              (''allocation_id'', json_string (AllocID ref)), (''provider'', json_string (AllocProvider ref)),
              (''problem_id'', json_string (ch_ProblemID sub)),
              (''session_id'', json_string (SessionID (ch_Session sub))),
              (''generation'', dec_u64 (Generation (ch_Session sub))), (''kind'', json_string ''choice''),
              (''operation_id'', json_string (ch_OperationID sub)), (''choice_id'', json_string (ch_ChoiceID sub))])\<rparr>)"

section \<open>Stored decisions\<close>

definition storedVerifyDecision :: "session_ref \<Rightarrow> string \<Rightarrow> string \<Rightarrow> json_doc \<Rightarrow> runner_error + verify_decision" where
  "storedVerifyDecision ref state errorCode storedResult =
     (if state = ''running'' then Inr (decision VerifyResume ref)
      else if state = ''succeeded'' then
        (case unmarshal_metadata storedResult of
           None \<Rightarrow> Inl (ErrLifecycleConflict ''durable verify grade result is invalid'')
         | Some r \<Rightarrow>
             if vm_Success r = None \<or> vm_Log r = None \<or> vm_InfrastructureError r
             then Inl (ErrLifecycleConflict ''durable verify grade result is invalid'')
             else Inr ((decision VerifyGradeReplay ref)
                    \<lparr>vd_Success := the (vm_Success r), vd_Log := boundedDurableMessage (the (vm_Log r))\<rparr>))
      else if state = ''failed'' then
        (case unmarshal_metadata storedResult of
           None \<Rightarrow> Inl (ErrLifecycleConflict ''durable verify infrastructure result is invalid'')
         | Some r \<Rightarrow>
             if \<not> vm_InfrastructureError r \<or> vm_Success r \<noteq> None \<or> vm_Code r = ''''
             then Inl (ErrLifecycleConflict ''durable verify infrastructure result is invalid'')
             else let code = safeVerifyInfrastructureCode (vm_Code r) in
               if code \<noteq> vm_Code r \<or> errorCode \<noteq> code
               then Inl (ErrLifecycleConflict ''durable verify infrastructure code is inconsistent'')
               else Inr ((decision VerifyInfrastructureReplay ref)\<lparr>vd_ErrorCode := code\<rparr>))
      else Inl (ErrLifecycleConflict ''verify operation state''))"

definition error_text :: "operation_row \<Rightarrow> string" where
  "error_text r = (case o_error_code r of None \<Rightarrow> '''' | Some c \<Rightarrow> c)"

definition ref_of_row :: "allocation_row \<Rightarrow> allocation_ref" where
  "ref_of_row a = AllocationRef (a_id a) (SessionRef (a_session_id a) (uint64 (a_generation a))) (a_provider_kind a)"

text \<open>The join of an operation with its allocation and the session of the user.\<close>

definition user_operation :: "string \<Rightarrow> string \<Rightarrow> string \<Rightarrow> db \<Rightarrow> (operation_row \<times> allocation_row \<times> session_row) option" where
  "user_operation providerID key userID d =
     Option.bind (operation_by_key providerID key d) (\<lambda>r.
     Option.bind (find (\<lambda>a. a_id a = o_allocation_id r \<and> a_provider_id a = o_provider_id r) (allocations d)) (\<lambda>a.
     Option.bind (find (\<lambda>s. s_id s = a_session_id a \<and> s_user_id s = userID) (sessions d)) (\<lambda>s.
     Some (r, a, s))))"

text \<open>The newest active session of the user.\<close>

definition current_active :: "string \<Rightarrow> db \<Rightarrow> session_row option" where
  "current_active userID d =
     (case rev (sort_key (\<lambda>s. (s_queued_at s, s_created_at s, s_id s))
             (filter (\<lambda>s. s_user_id s = userID \<and> active_session s) (sessions d))) of
        [] \<Rightarrow> None | s # _ \<Rightarrow> Some s)"

definition lookupVerify :: "postgres_store \<Rightarrow> string \<Rightarrow> string \<Rightarrow> bool \<Rightarrow> db \<Rightarrow> runner_error + verify_decision option" where
  "lookupVerify st userID operationID requireCurrent d =
     (case verifyIdempotencyKey userID operationID of Inl e \<Rightarrow> Inl e | Inr key \<Rightarrow>
      case user_operation (FenceProviderID (st_fence st)) key userID d of None \<Rightarrow> Inr None
      | Some (r, a, s) \<Rightarrow>
          (case newVerifyIdentity (ref_of_row a) userID operationID of Inl e \<Rightarrow> Inl e | Inr identity \<Rightarrow>
           if o_kind r \<noteq> ''verify'' \<or> o_request_hash r \<noteq> vi_requestHash identity then Inl ErrIdempotencyConflict
           else if requireCurrent \<and> (case current_active userID d of None \<Rightarrow> False
                  | Some c \<Rightarrow> s_id c \<noteq> '''' \<and> (s_id c \<noteq> a_session_id a \<or> s_current_generation c \<noteq> ref_gen (ref_of_row a)))
           then Inl ErrIdempotencyConflict
           else (case storedVerifyDecision (AllocSession (ref_of_row a)) (o_state r) (error_text r) (o_result_metadata r) of
                   Inl e \<Rightarrow> Inl e | Inr v \<Rightarrow> Inr (Some v))))"

definition LookupVerify where
  "LookupVerify st userID operationID d = lookupVerify st userID operationID True d"

section \<open>Begin\<close>

definition ensureVerifyOperationTx :: "tx_env \<Rightarrow> allocation_ref \<Rightarrow> string \<Rightarrow> verify_identity \<Rightarrow> (string \<times> bool) stmt" where
  "ensureVerifyOperationTx env ref providerID identity =
     tx_bind (tx_get (operation_by_key providerID (vi_idempotencyKey identity))) (\<lambda>stored.
     case stored of
       None \<Rightarrow>
         tx_seq (fresh_operation env (AllocID ref) providerID ''verify'' (vi_idempotencyKey identity)
                   (vi_requestHash identity) ''running'' (Some (env_now env)))
         (tx_return (''running'', False))
     | Some r \<Rightarrow>
         tx_seq (tx_guard (\<not> (o_allocation_id r \<noteq> AllocID ref \<or> o_kind r \<noteq> ''verify'' \<or>
                   o_request_hash r \<noteq> vi_requestHash identity)) ErrIdempotencyConflict)
         (tx_return (o_state r, True)))"

definition loadVerifyDecisionTx :: "allocation_ref \<Rightarrow> string \<Rightarrow> verify_identity \<Rightarrow> verify_decision stmt" where
  "loadVerifyDecisionTx ref providerID identity =
     tx_bind (tx_row (operation_by_key providerID (vi_idempotencyKey identity)) (ErrDB ''load durable verify decision'')) (\<lambda>r.
     tx_seq (tx_guard (\<not> (o_allocation_id r \<noteq> AllocID ref \<or> o_kind r \<noteq> ''verify'' \<or>
               o_request_hash r \<noteq> vi_requestHash identity)) ErrIdempotencyConflict)
     (tx_lift (storedVerifyDecision (AllocSession ref) (o_state r) (error_text r) (o_result_metadata r))))"

text \<open>What a new operation adds once its row is inserted.\<close>

definition start_verify :: "tx_env \<Rightarrow> allocation_ref \<Rightarrow> verify_identity \<Rightarrow> session_row \<Rightarrow> allocation_row \<Rightarrow>
    (verify_decision \<times> bool) stmt" where
  "start_verify env ref identity s a =
     tx_seq (tx_guard (\<not> (s_desired_state s \<noteq> ''active'' \<or> a_desired_state a \<noteq> ''active'')) ErrGenerationStale)
     (tx_seq (tx_guard (a_observed_state a = ''running'') (ErrLifecycleConflict ''allocation state before verify''))
     (tx_seq (tx_guard (s_state s = ''ready'') (ErrLifecycleConflict ''session cannot start verify''))
     (tx_bind (attemptStatusTx (AllocSession ref)) (\<lambda>status.
      tx_seq (tx_guard (status = ''in_progress'') (ErrLifecycleConflict ''attempt state before verify''))
     (tx_seq (exec_any (update_sessions (\<lambda>x. s_id x = ref_sid ref) (\<lambda>x. x\<lparr>s_state := ''verifying''\<rparr>)))
     (tx_bind (tx_lift (boundedEventPayload [(''operation_id'', JStr (vi_operationID identity))])) (\<lambda>payload.
      tx_seq (ensure_keyed_event env (AllocID ref) (startedEventKey identity) ''verify_started'' ''verify_requested''
                ''Verification started.'' payload)
      (tx_return (decision VerifyExecute (AllocSession ref), False)))))))))"

text \<open>The result also says whether it is a replay, which the reconciliation needs.\<close>

definition begin_verify_tx :: "postgres_store \<Rightarrow> tx_env \<Rightarrow> string \<Rightarrow> allocation_ref \<Rightarrow> verify_identity \<Rightarrow>
    (verify_decision \<times> bool) stmt" where
  "begin_verify_tx st env userID ref identity =
     tx_bind (enter_exact st ref) (\<lambda>providerID.
     tx_bind (tx_row (session_by_id (ref_sid ref)) (ErrDB ''lock durable session verify start'')) (\<lambda>s.
     tx_seq (tx_guard (s_user_id s = userID) ErrIdempotencyConflict)
     (tx_seq (tx_guard (s_current_generation s = ref_gen ref) ErrGenerationStale)
     (tx_bind (tx_row (allocation_by_id (AllocID ref)) (ErrDB ''read durable allocation verify start'')) (\<lambda>a.
      tx_bind (ensureVerifyOperationTx env ref providerID identity) (\<lambda>(_, found).
      if found then
        tx_bind (loadVerifyDecisionTx ref providerID identity) (\<lambda>v. tx_return (v, True))
      else start_verify env ref identity s a))))))"

text \<open>What the caller does after a COMMIT it did not see succeed; \<open>env_lookup_fails\<close> is a failing query.\<close>

definition reconcileVerifyBeginCommit :: "postgres_store \<Rightarrow> tx_env \<Rightarrow> string \<Rightarrow> string \<Rightarrow> verify_decision \<times> bool \<Rightarrow> db \<Rightarrow>
    runner_error + verify_decision \<times> bool" where
  "reconcileVerifyBeginCommit st env userID operationID expected d =
     (if env_lookup_fails env then Inl ErrOperationOutcomeUnknown
      else case lookupVerify st userID operationID False d of
        Inl e \<Rightarrow> Inl ErrOperationOutcomeUnknown
      | Inr None \<Rightarrow> Inl commit_error
      | Inr (Some actual) \<Rightarrow>
          if snd expected then Inr (actual, True)
          else if vd_Kind actual \<noteq> VerifyResume \<or> vd_Session actual \<noteq> vd_Session (fst expected)
          then Inl ErrOperationOutcomeUnknown
          else Inr expected)"

definition BeginVerify :: "postgres_store \<Rightarrow> tx_env \<Rightarrow> string \<Rightarrow> allocation_ref \<Rightarrow> string \<Rightarrow> db \<Rightarrow>
    (runner_error + verify_decision) \<times> db" where
  "BeginVerify st env userID ref operationID d =
     (case newVerifyIdentity ref userID operationID of Inl e \<Rightarrow> (Inl e, d) | Inr identity \<Rightarrow>
      case run_tx_or env (reconcileVerifyBeginCommit st env userID operationID)
             (begin_verify_tx st env userID ref identity) d of
        (Inl e, d') \<Rightarrow> (Inl e, d') | (Inr v, d') \<Rightarrow> (Inr (fst v), d'))"

section \<open>Finish\<close>

definition verifyUserID :: "allocation_ref \<Rightarrow> db \<Rightarrow> runner_error + string" where
  "verifyUserID ref d =
     (if ref_incomplete ref then Inl ErrAllocationNotFound
      else case find (\<lambda>a. a_id a = AllocID ref \<and> row_matches_ref a ref) (allocations d) of
        None \<Rightarrow> Inl ErrAllocationNotFound
      | Some a \<Rightarrow> (case session_by_id (a_session_id a) d of None \<Rightarrow> Inl ErrAllocationNotFound | Some s \<Rightarrow> Inr (s_user_id s)))"

text \<open>\<open>UPDATE runner_operations ... WHERE provider_id=$1 AND idempotency_key=$2 AND state='running'\<close>\<close>

definition finish_operation :: "tx_env \<Rightarrow> string \<Rightarrow> string \<Rightarrow> string \<Rightarrow> string option \<Rightarrow> json_doc \<Rightarrow> unit stmt" where
  "finish_operation env providerID key state code doc = exec_any (update_operations
     (\<lambda>r. o_provider_id r = providerID \<and> o_idempotency_key r = key \<and> o_state r = ''running'')
     (\<lambda>r. r\<lparr>o_state := state, o_completed_at := Some (env_now env), o_error_code := code, o_error_message := None,
             o_result_metadata := doc\<rparr>))"

text \<open>
  What a passing grade adds: the attempt, the session and the allocation become terminal and the
  destroy operation is reserved. \<open>RecordChoice\<close> does the same.
\<close>

definition attempt_success :: "tx_env \<Rightarrow> string \<Rightarrow> attempt_row \<Rightarrow> attempt_row" where
  "attempt_success env log t = t\<lparr>t_status := ''success'', t_finished_at := Some (env_now env),
     t_duration_seconds := Some (elapsed_seconds env (t_started_at t)), t_verify_log := log\<rparr>"

definition grade_passed :: "tx_env \<Rightarrow> allocation_ref \<Rightarrow> string \<Rightarrow> string \<Rightarrow> unit stmt" where
  "grade_passed env ref providerID log = tx_block
     [exec_any (update_attempts (open_attempt (ref_sid ref) (ref_gen ref)) (attempt_success env log)),
      exec_any (update_sessions (\<lambda>s. s_id s = ref_sid ref)
        (\<lambda>s. s\<lparr>s_state := ''completed'', s_desired_state := ''absent'', s_finished_at := Some (env_now env)\<rparr>)),
      exec_any (update_allocations (\<lambda>a. a_id a = AllocID ref) allocation_leaving),
      ensure_destroy env (AllocID ref) providerID]"

definition grade_failed :: "allocation_ref \<Rightarrow> string \<Rightarrow> unit stmt" where
  "grade_failed ref log =
     exec_any (update_attempts (open_attempt (ref_sid ref) (ref_gen ref)) (\<lambda>t. t\<lparr>t_verify_log := log\<rparr>))"

definition restore_ready :: "allocation_ref \<Rightarrow> unit stmt" where
  "restore_ready ref = exec_any (update_sessions (\<lambda>s. s_id s = ref_sid ref) (\<lambda>s. s\<lparr>s_state := ''ready''\<rparr>))"

definition verify_result_rows :: "tx_env \<Rightarrow> allocation_ref \<Rightarrow> string \<Rightarrow> verify_identity \<Rightarrow> verify_result_metadata \<Rightarrow>
    json_doc \<Rightarrow> unit stmt" where
  "verify_result_rows env ref providerID identity result doc = tx_block
     [if vm_InfrastructureError result then tx_block
        [finish_operation env providerID (vi_idempotencyKey identity) ''failed'' (Some (vm_Code result)) doc,
         restore_ready ref]
      else tx_block
        [finish_operation env providerID (vi_idempotencyKey identity) ''succeeded'' None doc,
         if gradeSucceeded result then grade_passed env ref providerID (verifyLog_of result)
         else tx_block [grade_failed ref (verifyLog_of result), restore_ready ref]],
      ensure_keyed_event env (AllocID ref) (finishedEventKey identity) ''verify_finished''
        (if vm_InfrastructureError result then vm_Code result
         else if gradeSucceeded result then ''grade_passed'' else ''grade_failed'')
        (if vm_InfrastructureError result then ''Verification could not be completed.'' else ''Verification finished.'') doc,
      if gradeSucceeded result
      then ensure_event env (AllocID ref) ''destroying'' ''completed'' ''Environment cleanup started.'' else tx_return ()]"

definition verify_result_tx :: "postgres_store \<Rightarrow> tx_env \<Rightarrow> allocation_ref \<Rightarrow> verify_identity \<Rightarrow> verify_result_metadata \<Rightarrow>
    json_doc \<Rightarrow> unit stmt" where
  "verify_result_tx st env ref identity result doc =
     tx_bind (enter_exact st ref) (\<lambda>providerID.
     tx_bind (tx_row (session_by_id (ref_sid ref)) (ErrDB ''lock durable session verify result'')) (\<lambda>s.
     tx_seq (tx_guard (s_current_generation s = ref_gen ref) ErrGenerationStale)
     (tx_bind (tx_row (operation_by_key providerID (vi_idempotencyKey identity))
        (ErrLifecycleConflict ''durable verify operation is missing'')) (\<lambda>r.
      tx_seq (tx_guard (\<not> (o_allocation_id r \<noteq> AllocID ref \<or> o_kind r \<noteq> ''verify'' \<or>
                o_request_hash r \<noteq> vi_requestHash identity)) ErrIdempotencyConflict)
     (if o_state r = (if vm_InfrastructureError result then ''failed'' else ''succeeded'')
      then tx_guard (equalJSON (o_result_metadata r) doc) ErrIdempotencyConflict
      else
        tx_seq (tx_guard (o_state r = ''running'') (ErrLifecycleConflict ''verify operation is already terminal''))
        (tx_seq (tx_guard (\<not> (s_state s \<noteq> ''verifying'' \<or> s_desired_state s \<noteq> ''active''))
          (ErrLifecycleConflict ''session cannot finish verify''))
        (tx_bind (attemptStatusTx (AllocSession ref)) (\<lambda>status.
         tx_seq (tx_guard (status = ''in_progress'') (ErrLifecycleConflict ''attempt state before verify result''))
         (verify_result_rows env ref providerID identity result doc)))))))))"

definition reconcileVerifyResultCommit :: "postgres_store \<Rightarrow> tx_env \<Rightarrow> string \<Rightarrow> string \<Rightarrow> verify_result_metadata \<Rightarrow> db \<Rightarrow>
    runner_error + unit" where
  "reconcileVerifyResultCommit st env userID operationID expected d =
     (if env_lookup_fails env then Inl ErrOperationOutcomeUnknown
      else case lookupVerify st userID operationID False d of
        Inl e \<Rightarrow> Inl ErrOperationOutcomeUnknown
      | Inr None \<Rightarrow> Inl commit_error
      | Inr (Some actual) \<Rightarrow>
          if vm_InfrastructureError expected then
            (if vd_Kind actual = VerifyInfrastructureReplay \<and> vd_ErrorCode actual = vm_Code expected
             then Inr () else Inl ErrOperationOutcomeUnknown)
          else if vm_Success expected \<noteq> None \<and> vm_Log expected \<noteq> None \<and> vd_Kind actual = VerifyGradeReplay \<and>
                  vd_Success actual = the (vm_Success expected) \<and>
                  vd_Log actual = boundedDurableMessage (the (vm_Log expected))
          then Inr () else Inl ErrOperationOutcomeUnknown)"

definition recordVerifyResult :: "postgres_store \<Rightarrow> tx_env \<Rightarrow> allocation_ref \<Rightarrow> string \<Rightarrow> verify_identity \<Rightarrow>
    verify_result_metadata \<Rightarrow> json_doc \<Rightarrow> db \<Rightarrow> (runner_error + unit) \<times> db" where
  "recordVerifyResult st env ref userID identity result doc d =
     run_tx_or env (\<lambda>_. reconcileVerifyResultCommit st env userID (vi_operationID identity) result)
       (verify_result_tx st env ref identity result doc) d"

text \<open>The shared prefix of the two public methods.\<close>

definition record_verify :: "postgres_store \<Rightarrow> tx_env \<Rightarrow> allocation_ref \<Rightarrow> string \<Rightarrow> verify_result_metadata \<Rightarrow> db \<Rightarrow>
    (runner_error + unit) \<times> db" where
  "record_verify st env ref operationID result d =
     (case verifyUserID ref d of Inl e \<Rightarrow> (Inl e, d) | Inr userID \<Rightarrow>
      case newVerifyIdentity ref userID operationID of Inl e \<Rightarrow> (Inl e, d) | Inr identity \<Rightarrow>
      case boundedEventPayload (metadata_doc result) of Inl e \<Rightarrow> (Inl e, d) | Inr doc \<Rightarrow>
      recordVerifyResult st env ref userID identity result doc d)"

definition RecordVerifyFinished where
  "RecordVerifyFinished st env ref operationID success verifyLog d =
     record_verify st env ref operationID (grade_metadata success (boundedDurableMessage verifyLog)) d"

definition RecordVerifyInfrastructureFailure where
  "RecordVerifyInfrastructureFailure st env ref operationID code d =
     record_verify st env ref operationID (infrastructure_metadata (safeVerifyInfrastructureCode code)) d"

section \<open>Choice\<close>

definition rejectChoiceReplayAfterSessionAdvance :: "string \<Rightarrow> session_ref \<Rightarrow> unit stmt" where
  "rejectChoiceReplayAfterSessionAdvance userID expected =
     tx_bind (tx_get (\<lambda>d. find (\<lambda>s. s_user_id s = userID \<and> active_session s) (sessions d))) (\<lambda>active.
     case active of None \<Rightarrow> tx_return ()
     | Some s \<Rightarrow> tx_guard (\<not> (s_id s \<noteq> SessionID expected \<or> s_current_generation s \<noteq> int64 (Generation expected)))
                  ErrIdempotencyConflict)"

definition lookup_choice_tx :: "postgres_store \<Rightarrow> string \<Rightarrow> choice_submission \<Rightarrow> string \<Rightarrow> bool \<Rightarrow> verify_decision option stmt" where
  "lookup_choice_tx st userID sub key requireCurrent =
     tx_bind (tx_get (\<lambda>d. userID \<in> set (users d))) (\<lambda>known.
     if \<not> known then tx_return None else
     tx_bind (tx_get (user_operation (FenceProviderID (st_fence st)) key userID)) (\<lambda>row.
     case row of None \<Rightarrow> tx_return None
     | Some (r, a, s) \<Rightarrow>
         tx_seq (tx_guard (\<not> (AllocSession (ref_of_row a) \<noteq> ch_Session sub \<or> s_problem_id s \<noteq> ch_ProblemID sub \<or>
                   o_kind r \<noteq> ''verify'')) ErrIdempotencyConflict)
         (tx_bind (tx_lift (newChoiceIdentity (ref_of_row a) userID sub)) (\<lambda>identity.
          tx_seq (tx_guard (o_request_hash r = vi_requestHash identity) ErrIdempotencyConflict)
         (tx_bind (tx_lift (storedVerifyDecision (AllocSession (ref_of_row a)) (o_state r) (error_text r)
                      (o_result_metadata r))) (\<lambda>v.
          tx_seq (if requireCurrent then rejectChoiceReplayAfterSessionAdvance userID (AllocSession (ref_of_row a))
                  else tx_return ())
          (tx_return (Some v))))))))"

definition lookupChoice :: "postgres_store \<Rightarrow> string \<Rightarrow> choice_submission \<Rightarrow> bool \<Rightarrow> db \<Rightarrow> runner_error + verify_decision option" where
  "lookupChoice st userID sub requireCurrent d =
     (case verifyIdempotencyKey userID (ch_OperationID sub) of Inl e \<Rightarrow> Inl e | Inr key \<Rightarrow>
      run_query (lookup_choice_tx st userID sub key requireCurrent) d)"

definition LookupChoice where
  "LookupChoice st userID sub d = lookupChoice st userID sub True d"

definition choice_rows :: "tx_env \<Rightarrow> allocation_ref \<Rightarrow> string \<Rightarrow> verify_identity \<Rightarrow> bool \<Rightarrow> string \<Rightarrow> json_doc \<Rightarrow> unit stmt" where
  "choice_rows env ref providerID identity success log doc =
     tx_bind (tx_lift (boundedEventPayload [(''operation_id'', JStr (vi_operationID identity))])) (\<lambda>started.
     tx_block
       [ensure_keyed_event env (AllocID ref) (startedEventKey identity) ''verify_started'' ''choice_submitted''
          ''Verification started.'' started,
        finish_operation env providerID (vi_idempotencyKey identity) ''succeeded'' None doc,
        if success then grade_passed env ref providerID log else grade_failed ref log,
        ensure_keyed_event env (AllocID ref) (finishedEventKey identity) ''verify_finished''
          (if success then ''grade_passed'' else ''grade_failed'') ''Verification finished.'' doc,
        if success then ensure_event env (AllocID ref) ''destroying'' ''completed'' ''Environment cleanup started.''
        else tx_return ()])"

definition choice_tx :: "postgres_store \<Rightarrow> tx_env \<Rightarrow> string \<Rightarrow> allocation_ref \<Rightarrow> choice_submission \<Rightarrow> verify_identity \<Rightarrow>
    bool \<Rightarrow> string \<Rightarrow> json_doc \<Rightarrow> verify_decision stmt" where
  "choice_tx st env userID ref sub identity success log doc =
     (let sid = SessionID (ch_Session sub); g = int64 (Generation (ch_Session sub)) in
     tx_seq (lockControllerEpochTx st)
     (tx_seq (lock_user userID ErrIdempotencyConflict)
     (tx_bind (tx_row (session_by_id sid) ErrGenerationStale) (\<lambda>s.
      tx_seq (tx_guard (\<not> (s_user_id s \<noteq> userID \<or> s_problem_id s \<noteq> ch_ProblemID sub)) ErrIdempotencyConflict)
     (tx_seq (tx_guard (s_current_generation s = g) ErrGenerationStale)
     (tx_bind (tx_row (allocation_of sid g) ErrGenerationStale) (\<lambda>a.
      tx_seq (tx_guard (AllocationRef (a_id a) (ch_Session sub) (a_provider_kind a) = ref) ErrIdempotencyConflict)
     (tx_seq (tx_lift (requireProvider st (a_provider_id a)))
     (tx_bind (ensureVerifyOperationTx env ref (a_provider_id a) identity) (\<lambda>(_, found).
      if found then
        tx_bind (loadVerifyDecisionTx ref (a_provider_id a) identity) (\<lambda>v.
        tx_seq (rejectChoiceReplayAfterSessionAdvance userID (AllocSession ref)) (tx_return v))
      else
        tx_seq (tx_guard (\<not> (s_desired_state s \<noteq> ''active'' \<or> a_desired_state a \<noteq> ''active'')) ErrGenerationStale)
        (tx_seq (tx_guard (\<not> (s_state s \<noteq> ''ready'' \<or> a_observed_state a \<noteq> ''running''))
          (ErrLifecycleConflict ''session cannot grade choice''))
        (tx_bind (attemptStatusTx (ch_Session sub)) (\<lambda>status.
         tx_seq (tx_guard (status = ''in_progress'') (ErrLifecycleConflict ''attempt state before choice grade''))
        (tx_seq (choice_rows env ref (a_provider_id a) identity success log doc)
        (tx_return ((decision VerifyGradeReplay (ch_Session sub))\<lparr>vd_Success := success, vd_Log := log\<rparr>))))))))))))))))"

definition reconcileChoiceCommit :: "postgres_store \<Rightarrow> tx_env \<Rightarrow> string \<Rightarrow> choice_submission \<Rightarrow> verify_decision \<Rightarrow> db \<Rightarrow>
    runner_error + verify_decision" where
  "reconcileChoiceCommit st env userID sub expected d =
     (if env_lookup_fails env then Inl ErrOperationOutcomeUnknown
      else case lookupChoice st userID sub False d of
        Inl e \<Rightarrow> Inl ErrOperationOutcomeUnknown
      | Inr None \<Rightarrow> Inl commit_error
      | Inr (Some actual) \<Rightarrow>
          if vd_Kind actual = vd_Kind expected \<and> vd_Session actual = vd_Session expected \<and>
             vd_Success actual = vd_Success expected \<and> vd_Log actual = vd_Log expected
          then Inr actual else Inl ErrOperationOutcomeUnknown)"

definition RecordChoice :: "postgres_store \<Rightarrow> tx_env \<Rightarrow> string \<Rightarrow> allocation_ref \<Rightarrow> choice_submission \<Rightarrow> bool \<Rightarrow> string \<Rightarrow> db \<Rightarrow>
    (runner_error + verify_decision) \<times> db" where
  "RecordChoice st env userID ref sub success verifyLog d =
     (if ch_Session sub \<noteq> AllocSession ref then (Inl ErrIdempotencyConflict, d)
      else case newChoiceIdentity ref userID sub of Inl e \<Rightarrow> (Inl e, d) | Inr identity \<Rightarrow>
      let log = boundedDurableMessage verifyLog in
      case boundedEventPayload (metadata_doc (grade_metadata success log)) of Inl e \<Rightarrow> (Inl e, d) | Inr doc \<Rightarrow>
      run_tx_or env (reconcileChoiceCommit st env userID sub)
        (choice_tx st env userID ref sub identity success log doc) d)"

end
