(* ===== verification/Store_Work.thy ===== *)
theory Store_Work
  imports Store_Verify
begin

text \<open>
  \<open>postgres_work.go\<close>: recovery of the previous controller's leases and interrupted verifications, the
  leased claims of destroy and create work, and the retry of a failed destroy.
\<close>

definition minDestroyLease :: int where "minDestroyLease = 10 ^ 9"
definition maxDestroyLease :: int where "maxDestroyLease = 5 * 60 * 10 ^ 9"
definition maxDestroyRetry :: int where "maxDestroyRetry = 15 * 60 * 10 ^ 9"

text \<open>\<open>clock_timestamp()+(d.Milliseconds()*INTERVAL '1 millisecond')\<close> for a non-negative duration.\<close>

definition clock_plus_ms :: "tx_env \<Rightarrow> int \<Rightarrow> time" where
  "clock_plus_ms env duration = env_clock env + (duration div 10 ^ 6) * 10 ^ 6"

section \<open>Recovery\<close>

record interrupted_verify =
  iv_operationID :: string
  iv_idempotencyKey :: string
  iv_allocationID :: string
  iv_sessionID :: string
  iv_generation :: int
  iv_sessionState :: string
  iv_sessionDesired :: string
  iv_allocationDesired :: string

definition interrupted_of :: "db \<Rightarrow> operation_row \<Rightarrow> interrupted_verify option" where
  "interrupted_of d r =
     Option.bind (find (\<lambda>a. a_id a = o_allocation_id r \<and> a_provider_id a = o_provider_id r) (allocations d)) (\<lambda>a.
     Option.bind (session_by_id (a_session_id a) d) (\<lambda>s.
     Some \<lparr>iv_operationID = o_id r, iv_idempotencyKey = o_idempotency_key r, iv_allocationID = a_id a,
           iv_sessionID = a_session_id a, iv_generation = a_generation a, iv_sessionState = s_state s,
           iv_sessionDesired = s_desired_state s, iv_allocationDesired = a_desired_state a\<rparr>))"

definition interrupted_verifications :: "string \<Rightarrow> db \<Rightarrow> interrupted_verify list" where
  "interrupted_verifications providerID d =
     List.map_filter (interrupted_of d) (sort_key (\<lambda>r. (o_created_at r, o_id r))
       (filter (\<lambda>r. o_provider_id r = providerID \<and> running_verify r) (operations d)))"

definition interrupted_contradictory :: "interrupted_verify \<Rightarrow> bool" where
  "interrupted_contradictory v \<longleftrightarrow>
     iv_generation v \<le> 0 \<or> iv_sessionState v \<noteq> ''verifying'' \<or> iv_sessionDesired v \<noteq> ''active'' \<or>
     iv_allocationDesired v \<noteq> ''active''"

definition converge_interrupted :: "tx_env \<Rightarrow> json_doc \<Rightarrow> interrupted_verify \<Rightarrow> unit stmt" where
  "converge_interrupted env payload v = tx_block
     [tx_guard (\<not> interrupted_contradictory v) (ErrLifecycleConflict ''interrupted verify has contradictory lifecycle''),
      tx_guard (length (iv_idempotencyKey v) + length '':finished'' \<le> 255)
        (ErrLifecycleConflict ''interrupted verify event key exceeds bound''),
      exec_one (update_operations (\<lambda>r. o_id r = iv_operationID v \<and> o_state r = ''running'')
        (\<lambda>r. r\<lparr>o_state := ''failed'', o_completed_at := Some (env_now env), o_error_code := Some ''controller_restarted'',
                o_error_message := None, o_result_metadata := payload\<rparr>))
        (ErrLifecycleConflict ''interrupted verify lost transition authority''),
      exec_one (update_sessions (\<lambda>s. s_id s = iv_sessionID v \<and> s_current_generation s = iv_generation v \<and>
            s_state s = ''verifying'' \<and> s_desired_state s = ''active'') (\<lambda>s. s\<lparr>s_state := ''ready''\<rparr>))
        (ErrLifecycleConflict ''interrupted verify session lost transition authority''),
      ensure_keyed_event env (iv_allocationID v) (iv_idempotencyKey v @ '':finished'') ''verify_finished''
        ''controller_restarted'' ''Verification was interrupted by a controller restart.'' payload]"

definition convergeInterruptedVerificationsTx :: "tx_env \<Rightarrow> string \<Rightarrow> unit stmt" where
  "convergeInterruptedVerificationsTx env providerID =
     tx_bind (tx_get (interrupted_verifications providerID)) (\<lambda>interrupted.
     tx_seq (tx_guard (distinct (map iv_allocationID interrupted))
        (ErrLifecycleConflict ''allocation has multiple running verify operations''))
     (tx_bind (tx_lift (boundedEventPayload (metadata_doc (infrastructure_metadata ''controller_restarted'')))) (\<lambda>payload.
      tx_each (converge_interrupted env payload) interrupted)))"

definition release_lease :: "operation_row \<Rightarrow> operation_row" where
  "release_lease r = (clear_lease r)\<lparr>
     o_state := (if o_kind r = ''destroy'' \<and> o_state r = ''running'' then ''cleanup_required''
                 else if o_kind r = ''create'' \<and> o_state r = ''running'' then ''pending'' else o_state r),
     o_next_attempt_at := (if o_kind r \<in> {''create'', ''destroy''} then None else o_next_attempt_at r)\<rparr>"

definition prepare_recovery_tx :: "postgres_store \<Rightarrow> tx_env \<Rightarrow> string \<Rightarrow> unit stmt" where
  "prepare_recovery_tx st env providerID = tx_block
     [lockControllerEpochTx st,
      convergeInterruptedVerificationsTx env providerID,
      exec_any (update_operations (\<lambda>r. o_provider_id r = providerID \<and> o_kind r \<in> {''create'', ''destroy''} \<and>
        o_state r \<in> {''pending'', ''running'', ''cleanup_required''}) release_lease)]"

definition PrepareRecoveryWork :: "postgres_store \<Rightarrow> tx_env \<Rightarrow> string \<Rightarrow> db \<Rightarrow> (runner_error + unit) \<times> db" where
  "PrepareRecoveryWork st env providerID d =
     (case requireProvider st providerID of Inl e \<Rightarrow> (Inl e, d) | Inr _ \<Rightarrow>
      run_tx env (prepare_recovery_tx st env providerID) d)"

section \<open>Destroy claims\<close>

definition lease_expired :: "tx_env \<Rightarrow> operation_row \<Rightarrow> bool" where
  "lease_expired env r = (case o_lease_expires_at r of None \<Rightarrow> True | Some t \<Rightarrow> t \<le> env_clock env)"

definition destroy_candidate :: "tx_env \<Rightarrow> string \<Rightarrow> string \<Rightarrow> db \<Rightarrow> operation_row \<Rightarrow> bool" where
  "destroy_candidate env providerID allocationID d r \<longleftrightarrow>
     o_provider_id r = providerID \<and> o_kind r = ''destroy'' \<and>
     o_state r \<in> {''pending'', ''running'', ''cleanup_required''} \<and>
     (case o_next_attempt_at r of None \<Rightarrow> True | Some t \<Rightarrow> t \<le> env_clock env) \<and> lease_expired env r \<and>
     list_ex (\<lambda>a. a_id a = o_allocation_id r \<and> a_provider_id a = o_provider_id r \<and>
        (allocationID = '''' \<or> a_id a = allocationID) \<and> a_desired_state a = ''absent'') (allocations d)"

definition claimed_row :: "tx_env \<Rightarrow> string \<Rightarrow> int \<Rightarrow> operation_row \<Rightarrow> operation_row" where
  "claimed_row env owner lease r = r\<lparr>o_state := ''running'', o_lease_token := Some (env_lease_token env),
     o_lease_owner := Some owner, o_lease_expires_at := Some (clock_plus_ms env lease),
     o_attempt_count := o_attempt_count r + 1, o_started_at := coalesce (o_started_at r) (env_clock env),
     o_next_attempt_at := None, o_error_code := None, o_error_message := None\<rparr>"

definition empty_claim :: "destroy_work_claim" where
  "empty_claim = \<lparr>dw_OperationID = '''', dw_LeaseToken = '''', dw_LeaseOwner = '''',
     dw_Ref = AllocationRef '''' (SessionRef '''' 0) '''', dw_Attempt = 0, dw_LeaseExpiresAt = zero_time,
     dw_Pending = False, dw_Completed = False\<rparr>"

text \<open>What an exact caller sees when nothing was claimable: completed work, pending work or nothing.\<close>

definition destroy_observation :: "string \<Rightarrow> string \<Rightarrow> db \<Rightarrow> destroy_work_claim option" where
  "destroy_observation providerID allocationID d =
     (if allocationID = '''' then None
      else case find (\<lambda>r. o_provider_id r = providerID \<and> o_allocation_id r = allocationID \<and> o_kind r = ''destroy'' \<and>
              list_ex (\<lambda>a. a_id a = o_allocation_id r \<and> a_provider_id a = o_provider_id r) (allocations d)) (operations d) of
        None \<Rightarrow> None
      | Some r \<Rightarrow>
          (case allocation_by_id allocationID d of None \<Rightarrow> None
           | Some a \<Rightarrow>
               if a_generation a > 0 \<and> o_state r = ''succeeded'' \<and> a_desired_state a = ''absent'' \<and> a_observed_state a = ''absent''
               then Some (empty_claim\<lparr>dw_OperationID := o_id r, dw_Ref := ref_of_row a, dw_Completed := True\<rparr>)
               else if a_generation a > 0 \<and> a_desired_state a = ''absent'' \<and> a_observed_state a \<noteq> ''absent'' \<and>
                       o_state r \<in> {''pending'', ''running'', ''cleanup_required''}
               then Some (empty_claim\<lparr>dw_OperationID := o_id r, dw_Ref := ref_of_row a, dw_Pending := True\<rparr>)
               else None))"

definition claim_destroy_tx :: "postgres_store \<Rightarrow> tx_env \<Rightarrow> string \<Rightarrow> string \<Rightarrow> string \<Rightarrow> int \<Rightarrow> destroy_work_claim option stmt" where
  "claim_destroy_tx st env providerID allocationID owner lease =
     tx_seq (lockControllerEpochTx st)
     (tx_bind (tx_get (\<lambda>d. sort_key (\<lambda>r. (case o_next_attempt_at r of None \<Rightarrow> o_created_at r | Some t \<Rightarrow> t, o_created_at r, o_id r))
                 (filter (destroy_candidate env providerID allocationID d) (operations d)))) (\<lambda>candidates.
      case candidates of
        [] \<Rightarrow> tx_get (destroy_observation providerID allocationID)
      | c # _ \<Rightarrow>
          tx_seq (exec_any (update_operations (\<lambda>r. o_id r = o_id c) (claimed_row env owner lease)))
          (tx_bind (tx_row (\<lambda>d. find (\<lambda>a. a_id a = o_allocation_id c \<and> a_provider_id a = o_provider_id c) (allocations d))
             (ErrDB ''no rows'')) (\<lambda>a.
           tx_seq (tx_guard (a_generation a > 0) (ErrText ''claimed destroy operation has invalid generation''))
           (tx_return (Some \<lparr>dw_OperationID = o_id c, dw_LeaseToken = env_lease_token env, dw_LeaseOwner = owner,
              dw_Ref = ref_of_row a, dw_Attempt = o_attempt_count c + 1, dw_LeaseExpiresAt = clock_plus_ms env lease,
              dw_Pending = False, dw_Completed = False\<rparr>))))))"

definition ClaimDestroyWork :: "postgres_store \<Rightarrow> tx_env \<Rightarrow> string \<Rightarrow> string \<Rightarrow> string \<Rightarrow> int \<Rightarrow> db \<Rightarrow>
    (runner_error + destroy_work_claim option) \<times> db" where
  "ClaimDestroyWork st env providerID allocationID owner lease d =
     (case requireProvider st providerID of Inl e \<Rightarrow> (Inl e, d) | Inr _ \<Rightarrow>
      if owner = '''' \<or> length owner > 128 then (Inl (ErrText ''destroy work owner is invalid''), d)
      else if length allocationID > 128 then (Inl (ErrText ''destroy work allocation id is invalid''), d)
      else if lease < minDestroyLease \<or> lease > maxDestroyLease
      then (Inl (ErrText ''destroy work lease is outside the allowed bound''), d)
      else run_tx env (claim_destroy_tx st env providerID allocationID owner lease) d)"

definition retry_destroy_tx :: "postgres_store \<Rightarrow> tx_env \<Rightarrow> destroy_work_claim \<Rightarrow> string \<Rightarrow> int \<Rightarrow> unit stmt" where
  "retry_destroy_tx st env claim cause retryAfter =
     tx_bind (enter_exact st (dw_Ref claim)) (\<lambda>providerID. tx_block
       [exec_one (update_operations
          (\<lambda>r. o_id r = dw_OperationID claim \<and> o_allocation_id r = AllocID (dw_Ref claim) \<and> o_provider_id r = providerID \<and>
                o_kind r = ''destroy'' \<and> o_state r = ''running'' \<and> o_lease_token r = Some (dw_LeaseToken claim) \<and>
                lease_active env r)
          (\<lambda>r. (clear_lease r)\<lparr>o_state := ''cleanup_required'', o_error_code := Some ''provider_destroy_failed'',
                  o_error_message := Some (boundedDurableMessage cause),
                  o_next_attempt_at := Some (clock_plus_ms env retryAfter)\<rparr>))
          (ErrLifecycleConflict ''destroy work claim is no longer current''),
        ensure_event env (AllocID (dw_Ref claim)) ''cleanup_required'' ''provider_destroy_failed''
          ''Environment cleanup will be retried.''])"

definition RetryDestroyWork :: "postgres_store \<Rightarrow> tx_env \<Rightarrow> destroy_work_claim \<Rightarrow> string option \<Rightarrow> int \<Rightarrow> db \<Rightarrow>
    (runner_error + unit) \<times> db" where
  "RetryDestroyWork st env claim cause retryAfter d =
     (case validateDestroyClaim claim of Inl e \<Rightarrow> (Inl e, d) | Inr _ \<Rightarrow>
      case cause of None \<Rightarrow> (Inl (ErrText ''destroy work retry requires a cause''), d)
      | Some text \<Rightarrow>
          if retryAfter < 0 \<or> retryAfter > maxDestroyRetry
          then (Inl (ErrText ''destroy work retry delay is outside the allowed bound''), d)
          else run_tx env (retry_destroy_tx st env claim text retryAfter) d)"

section \<open>Create claims\<close>

text \<open>Every generation before \<open>g\<close> of the session is desired and observed absent.\<close>

definition prior_absent :: "string \<Rightarrow> int \<Rightarrow> db \<Rightarrow> bool" where
  "prior_absent sid g d \<longleftrightarrow>
     \<not> list_ex (\<lambda>p. a_session_id p = sid \<and> a_generation p < g \<and>
         (a_desired_state p \<noteq> ''absent'' \<or> a_observed_state p \<noteq> ''absent'')) (allocations d)"

definition create_candidate :: "tx_env \<Rightarrow> string \<Rightarrow> string \<Rightarrow> int \<Rightarrow> db \<Rightarrow> operation_row \<Rightarrow> bool" where
  "create_candidate env providerID operationID minimumGeneration d r \<longleftrightarrow>
     o_provider_id r = providerID \<and> o_kind r = ''create'' \<and> (operationID = '''' \<or> o_id r = operationID) \<and>
     o_state r \<in> {''pending'', ''running''} \<and> lease_expired env r \<and>
     list_ex (\<lambda>a. a_id a = o_allocation_id r \<and> a_provider_id a = o_provider_id r \<and> a_generation a > minimumGeneration \<and>
        a_desired_state a = ''active'' \<and> a_observed_state a \<in> {''unknown'', ''provisioning''} \<and>
        list_ex (\<lambda>s. s_id s = a_session_id a \<and> s_current_generation s = a_generation a \<and> s_desired_state s = ''active'')
          (sessions d) \<and>
        prior_absent (a_session_id a) (a_generation a) d) (allocations d)"

definition claim_create_tx :: "postgres_store \<Rightarrow> tx_env \<Rightarrow> string \<Rightarrow> string \<Rightarrow> string \<Rightarrow> int \<Rightarrow> bool \<Rightarrow> create_work_claim option stmt" where
  "claim_create_tx st env providerID operationID owner lease resetOnly =
     tx_seq (lockControllerEpochTx st)
     (tx_bind (tx_get (\<lambda>d. sort_key (\<lambda>r. (o_created_at r, o_id r))
         (filter (create_candidate env providerID operationID (if resetOnly then 1 else 0) d) (operations d)))) (\<lambda>candidates.
      case candidates of
        [] \<Rightarrow> tx_return None
      | c # _ \<Rightarrow>
          tx_seq (exec_any (update_operations (\<lambda>r. o_id r = o_id c) (claimed_row env owner lease)))
          (tx_bind (loadReservationByOperation providerID (o_idempotency_key c)) (\<lambda>found.
           tx_bind (tx_row (\<lambda>_. found) (ErrLifecycleConflict ''claimed create reservation is missing'')) (\<lambda>v.
           tx_seq (tx_guard (do_ID (rv_Operation v) = o_id c) (ErrLifecycleConflict ''claimed create reservation is missing''))
           (tx_return (Some \<lparr>cw_OperationID = o_id c, cw_LeaseToken = env_lease_token env, cw_LeaseOwner = owner,
              cw_Reservation = v, cw_Attempt = o_attempt_count c + 1, cw_LeaseExpiresAt = clock_plus_ms env lease\<rparr>)))))))"

definition claimProvisionableCreate :: "postgres_store \<Rightarrow> tx_env \<Rightarrow> string \<Rightarrow> string \<Rightarrow> string \<Rightarrow> int \<Rightarrow> bool \<Rightarrow> db \<Rightarrow>
    (runner_error + create_work_claim option) \<times> db" where
  "claimProvisionableCreate st env providerID operationID owner lease resetOnly d =
     (case requireProvider st providerID of Inl e \<Rightarrow> (Inl e, d) | Inr _ \<Rightarrow>
      if owner = '''' \<or> length owner > 128 then (Inl (ErrText ''create work owner is invalid''), d)
      else if length operationID > 128 then (Inl (ErrText ''create work operation id is invalid''), d)
      else if lease < minDestroyLease \<or> lease > maxDestroyLease
      then (Inl (ErrText ''create work lease is outside the allowed bound''), d)
      else run_tx env (claim_create_tx st env providerID operationID owner lease resetOnly) d)"

definition ClaimProvisionableCreate where
  "ClaimProvisionableCreate st env providerID operationID owner lease d =
     claimProvisionableCreate st env providerID operationID owner lease False d"

definition ClaimProvisionableReset where
  "ClaimProvisionableReset st env providerID operationID owner lease d =
     claimProvisionableCreate st env providerID operationID owner lease True d"

section \<open>The replacement of a destroyed allocation\<close>

definition replacement_row :: "allocation_ref \<Rightarrow> db \<Rightarrow> (allocation_row \<times> session_row \<times> operation_row) option" where
  "replacement_row ref d =
     Option.bind (find (\<lambda>a. a_id a = AllocID ref \<and> row_matches_ref a ref \<and> a_desired_state a = ''absent'' \<and>
        a_observed_state a = ''absent'') (allocations d)) (\<lambda>old.
     Option.bind (find (\<lambda>s. s_id s = a_session_id old \<and> s_current_generation s = a_generation old + 1 \<and>
        s_desired_state s = ''active'') (sessions d)) (\<lambda>s.
     Option.bind (find (\<lambda>a. a_session_id a = a_session_id old \<and> a_generation a = a_generation old + 1 \<and>
        a_provider_id a = a_provider_id old \<and> a_desired_state a = ''active'' \<and>
        a_observed_state a \<in> {''unknown'', ''provisioning''} \<and>
        prior_absent (a_session_id old) (a_generation a) d) (allocations d)) (\<lambda>new.
     Option.bind (find (\<lambda>r. o_allocation_id r = a_id new \<and> o_provider_id r = a_provider_id new \<and> o_kind r = ''create'' \<and>
        o_state r = ''pending'') (operations d)) (\<lambda>r.
     Some (old, s, r)))))"

definition find_replacement_tx :: "postgres_store \<Rightarrow> allocation_ref \<Rightarrow> session_reservation option stmt" where
  "find_replacement_tx st destroyed =
     tx_bind (tx_get (replacement_row destroyed)) (\<lambda>row.
     case row of None \<Rightarrow> tx_return None
     | Some (old, s, r) \<Rightarrow>
         tx_seq (tx_lift (requireProvider st (a_provider_id old)))
         (tx_seq (tx_guard (\<not> (a_generation old \<noteq> ref_gen destroyed \<or> s_current_generation s \<noteq> a_generation old + 1)) ErrGenerationStale)
         (tx_bind (loadReservationByOperation (a_provider_id old) (o_idempotency_key r)) (\<lambda>found.
          tx_bind (tx_row (\<lambda>_. found) (ErrLifecycleConflict ''replacement reservation disappeared'')) (\<lambda>v.
          tx_return (Some v))))))"

definition FindProvisionableReplacement :: "postgres_store \<Rightarrow> allocation_ref \<Rightarrow> db \<Rightarrow> runner_error + session_reservation option" where
  "FindProvisionableReplacement st destroyed d =
     (if ref_incomplete destroyed then Inl ErrAllocationNotFound
      else run_query (find_replacement_tx st destroyed) d)"

end
