(* ===== verification/Store_End.thy ===== *)
theory Store_End
  imports Store_Verify
begin

text \<open>
  \<open>postgres_end.go\<close>: one logical end operation per client operation. The first transaction marks
  every generation desired absent and reserves every destroy operation; a replay completes the
  operation once every allocation is absent and every destroy operation succeeded.
\<close>

datatype end_state = EndPending | EndCompleted

record end_decision =
  ed_Session :: session_ref
  ed_State :: end_state
  ed_Pending :: "allocation_ref list"

record end_identity =
  ei_idempotencyKey :: string
  ei_requestHash :: "byte list"

definition newEndIdentity :: "string \<Rightarrow> session_ref \<Rightarrow> string \<Rightarrow> runner_error + end_identity" where
  "newEndIdentity userID expected operationID =
     (if SessionID expected = '''' \<or> Generation expected = 0 then Inl (ErrText ''end session identity is invalid'')
      else case verifyIdempotencyKey userID operationID of Inl e \<Rightarrow> Inl e | Inr key \<Rightarrow>
      Inr \<lparr>ei_idempotencyKey = key,
           ei_requestHash = sha256_string (''k8s-quiz/end/v1'' @ NUL @ userID @ NUL @ SessionID expected @ NUL @
             dec_u64 (Generation expected) @ NUL @ operationID)\<rparr>)"

definition loadEndOperationTx :: "string \<Rightarrow> string \<Rightarrow> session_ref \<Rightarrow> end_identity \<Rightarrow> string option stmt" where
  "loadEndOperationTx providerID userID expected identity =
     tx_bind (tx_get (\<lambda>d.
        Option.bind (operation_by_key providerID (ei_idempotencyKey identity) d) (\<lambda>r.
        Option.bind (find (\<lambda>a. a_id a = o_allocation_id r \<and> a_provider_id a = o_provider_id r) (allocations d)) (\<lambda>a.
        Option.bind (session_by_id (a_session_id a) d) (\<lambda>s. Some (r, a, s)))))) (\<lambda>row.
     case row of None \<Rightarrow> tx_return None
     | Some (r, a, s) \<Rightarrow>
         tx_seq (tx_guard (\<not> (s_user_id s \<noteq> userID \<or> a_session_id a \<noteq> SessionID expected \<or>
            a_generation a \<noteq> int64 (Generation expected) \<or> o_kind r \<noteq> ''end'' \<or>
            o_request_hash r \<noteq> ei_requestHash identity)) ErrIdempotencyConflict)
         (tx_return (Some (o_id r))))"

section \<open>The first transaction\<close>

text \<open>The allocation chain of a session, oldest generation first.\<close>

definition allocation_chain :: "string \<Rightarrow> db \<Rightarrow> allocation_row list" where
  "allocation_chain sid d = sort_key a_generation (filter (\<lambda>a. a_session_id a = sid) (allocations d))"

definition end_allocation :: "tx_env \<Rightarrow> string \<Rightarrow> allocation_row \<Rightarrow> unit stmt" where
  "end_allocation env providerID item =
     tx_seq (exec_any (update_allocations (\<lambda>a. a_id a = a_id item) allocation_leaving))
     (tx_bind (ensureDestroyOperationTx env (a_id item) providerID) (\<lambda>destroyOperationID. tx_block
       [if a_observed_state item = ''absent''
        then exec_any (update_operations (\<lambda>r. o_id r = destroyOperationID)
               (\<lambda>r. (operation_succeeded env r)\<lparr>o_next_attempt_at := None\<rparr>))
        else tx_return (),
        ensure_event env (a_id item) ''destroying'' ''failed'' ''Environment cleanup started.'']))"

definition createEndOperationTx :: "tx_env \<Rightarrow> string \<Rightarrow> string \<Rightarrow> session_ref \<Rightarrow> end_identity \<Rightarrow> string stmt" where
  "createEndOperationTx env providerID userID expected identity =
     (let sid = SessionID expected; g = int64 (Generation expected) in
     tx_bind (tx_row (\<lambda>d. find (\<lambda>s. s_id s = sid \<and> s_user_id s = userID) (sessions d)) ErrAllocationNotFound) (\<lambda>s.
     tx_seq (tx_guard (\<not> (s_current_generation s \<noteq> g \<or> s_desired_state s \<noteq> ''active'')) ErrGenerationStale)
     (tx_bind (tx_row (allocation_of sid g) (ErrDB ''lock exact end allocation'')) (\<lambda>current.
      tx_seq (tx_guard (a_provider_id current = providerID) (ErrLifecycleConflict ''end allocation provider changed''))
     (tx_bind (tx_map_error mapReservationError (fresh_operation env (a_id current) providerID ''end''
        (ei_idempotencyKey identity) (ei_requestHash identity) ''pending'' None)) (\<lambda>endOperationID.
      tx_seq (exec_any (update_attempts (open_attempt sid g) (attempt_terminal env ''failed'' ''environment ended by user'')))
     (tx_seq (exec_one (update_sessions
          (\<lambda>x. s_id x = sid \<and> s_user_id x = userID \<and> s_current_generation x = g \<and> s_desired_state x = ''active'')
          (session_terminal env ''failed'')) ErrGenerationStale)
     (tx_bind (tx_get (allocation_chain sid)) (\<lambda>chain.
      tx_seq (tx_guard (list_all (\<lambda>a. \<not> (a_generation a \<le> 0 \<or> a_provider_id a \<noteq> providerID)) chain)
        (ErrLifecycleConflict ''end allocation chain changed provider''))
     (tx_seq (tx_guard (chain \<noteq> []) (ErrLifecycleConflict ''end session has no allocations''))
     (tx_seq (ensure_event env (a_id current) ''failed'' ''failed'' ''Environment ended.'')
     (tx_seq (tx_each (end_allocation env providerID) chain)
     (tx_return endOperationID)))))))))))))"

section \<open>Completion\<close>

text \<open>The allocations of the chain whose absence is not yet proven by a succeeded destroy operation.\<close>

fun end_remaining :: "string \<Rightarrow> allocation_ref list \<Rightarrow> allocation_ref list stmt" where
  "end_remaining providerID [] = tx_return []"
| "end_remaining providerID (ref # refs) =
     tx_bind (tx_row (\<lambda>d. Option.bind (find (\<lambda>a. a_id a = AllocID ref \<and> a_provider_id a = providerID) (allocations d)) (\<lambda>a.
        Option.bind (find (\<lambda>r. o_allocation_id r = a_id a \<and> o_provider_id r = a_provider_id a \<and> o_kind r = ''destroy'')
          (operations d)) (\<lambda>r. Some (a_observed_state a, o_state r))))
        (ErrLifecycleConflict ''end destroy operation is missing'')) (\<lambda>(observed, destroyState).
     tx_bind (end_remaining providerID refs) (\<lambda>rest.
     tx_return (if observed \<noteq> ''absent'' \<or> destroyState \<noteq> ''succeeded'' then ref # rest else rest)))"

definition end_ref :: "session_ref \<Rightarrow> allocation_row \<Rightarrow> allocation_ref" where
  "end_ref expected a =
     AllocationRef (a_id a) (SessionRef (SessionID expected) (uint64 (a_generation a))) (a_provider_kind a)"

definition reconcileEndOperationTx :: "tx_env \<Rightarrow> string \<Rightarrow> string \<Rightarrow> session_ref \<Rightarrow> end_decision stmt" where
  "reconcileEndOperationTx env providerID endOperationID expected =
     tx_bind (tx_row (\<lambda>d. find (\<lambda>r. o_id r = endOperationID \<and> o_provider_id r = providerID \<and> o_kind r = ''end'') (operations d))
        (ErrDB ''lock durable end operation'')) (\<lambda>r.
     tx_seq (tx_guard (\<not> (o_state r \<noteq> ''pending'' \<and> o_state r \<noteq> ''succeeded'')) (ErrLifecycleConflict ''end operation state''))
     (tx_bind (tx_get (allocation_chain (SessionID expected))) (\<lambda>chain.
      tx_seq (tx_guard (list_all (\<lambda>a. \<not> (a_generation a \<le> 0 \<or> a_provider_id a \<noteq> providerID \<or> a_desired_state a \<noteq> ''absent'')) chain)
        (ErrLifecycleConflict ''end allocation chain is incomplete''))
     (tx_seq (tx_guard (chain \<noteq> []) (ErrLifecycleConflict ''end session has no allocations''))
     (tx_bind (end_remaining providerID (map (end_ref expected) chain)) (\<lambda>remaining.
      if remaining = [] then
        tx_seq (if o_state r = ''pending'' then
                  exec_one (update_operations (\<lambda>x. o_id x = endOperationID \<and> o_state x = ''pending'')
                    (\<lambda>x. x\<lparr>o_state := ''succeeded'', o_completed_at := Some (env_now env)\<rparr>))
                    (ErrLifecycleConflict ''end completion lost authority'')
                else tx_return ())
        (tx_return \<lparr>ed_Session = expected, ed_State = EndCompleted, ed_Pending = []\<rparr>)
      else
        tx_seq (tx_guard (o_state r \<noteq> ''succeeded'') (ErrLifecycleConflict ''completed end operation has outstanding allocations''))
        (tx_return \<lparr>ed_Session = expected, ed_State = EndPending, ed_Pending = remaining\<rparr>)))))))"

definition end_tx :: "postgres_store \<Rightarrow> tx_env \<Rightarrow> string \<Rightarrow> session_ref \<Rightarrow> end_identity \<Rightarrow> end_decision stmt" where
  "end_tx st env userID expected identity =
     (let providerID = FenceProviderID (st_fence st) in
     tx_seq (lockControllerEpochTx st)
     (tx_seq (lock_user userID ErrAllocationNotFound)
     (tx_bind (loadEndOperationTx providerID userID expected identity) (\<lambda>found.
      tx_bind (case found of Some oid \<Rightarrow> tx_return oid
               | None \<Rightarrow> createEndOperationTx env providerID userID expected identity) (\<lambda>operationID.
      reconcileEndOperationTx env providerID operationID expected)))))"

section \<open>Reconciliation of the commit\<close>

definition destroy_state_of :: "allocation_row \<Rightarrow> db \<Rightarrow> string" where
  "destroy_state_of a d = (case operation_of (a_id a) (a_provider_id a) ''destroy'' d of None \<Rightarrow> '''' | Some r \<Rightarrow> o_state r)"

definition readEndOperationTx :: "string \<Rightarrow> string \<Rightarrow> session_ref \<Rightarrow> end_decision stmt" where
  "readEndOperationTx providerID endOperationID expected =
     tx_bind (tx_row (\<lambda>d. find (\<lambda>r. o_id r = endOperationID \<and> o_provider_id r = providerID \<and> o_kind r = ''end'') (operations d))
        (ErrDB ''read durable end operation'')) (\<lambda>r.
     tx_seq (tx_guard (\<not> (o_state r \<noteq> ''pending'' \<and> o_state r \<noteq> ''succeeded'')) (ErrLifecycleConflict ''end operation state''))
     (tx_bind (tx_get (\<lambda>d. map (\<lambda>a. (a, destroy_state_of a d)) (allocation_chain (SessionID expected) d))) (\<lambda>chain.
      tx_seq (tx_guard (list_all (\<lambda>(a, ds). \<not> (a_generation a \<le> 0 \<or> a_provider_id a \<noteq> providerID \<or>
            a_desired_state a \<noteq> ''absent'' \<or> ds = '''')) chain) (ErrLifecycleConflict ''end reconciliation chain is incomplete''))
     (tx_seq (tx_guard (chain \<noteq> []) (ErrLifecycleConflict ''end session has no allocations''))
     (let pending = map (\<lambda>(a, ds). end_ref expected a)
            (filter (\<lambda>(a, ds). a_observed_state a \<noteq> ''absent'' \<or> ds \<noteq> ''succeeded'') chain) in
      if pending = [] then
        tx_seq (tx_guard (o_state r = ''succeeded'') (ErrLifecycleConflict ''end completion is not committed''))
        (tx_return \<lparr>ed_Session = expected, ed_State = EndCompleted, ed_Pending = []\<rparr>)
      else
        tx_seq (tx_guard (o_state r \<noteq> ''succeeded'') (ErrLifecycleConflict ''completed end operation has outstanding allocations''))
        (tx_return \<lparr>ed_Session = expected, ed_State = EndPending, ed_Pending = pending\<rparr>))))))"

definition lookupEndOperation :: "postgres_store \<Rightarrow> string \<Rightarrow> session_ref \<Rightarrow> end_identity \<Rightarrow> db \<Rightarrow> runner_error + end_decision option" where
  "lookupEndOperation st userID expected identity d =
     run_query (tx_bind (loadEndOperationTx (FenceProviderID (st_fence st)) userID expected identity) (\<lambda>found.
       case found of None \<Rightarrow> tx_return None
       | Some oid \<Rightarrow> tx_bind (readEndOperationTx (FenceProviderID (st_fence st)) oid expected) (\<lambda>v. tx_return (Some v)))) d"

definition sameAllocationRefs :: "allocation_ref list \<Rightarrow> allocation_ref list \<Rightarrow> bool" where
  "sameAllocationRefs left right \<longleftrightarrow> length left = length right \<and> list_all2 (=) left right"

definition reconcileEndCommit :: "postgres_store \<Rightarrow> tx_env \<Rightarrow> string \<Rightarrow> session_ref \<Rightarrow> end_identity \<Rightarrow> end_decision \<Rightarrow> db \<Rightarrow>
    runner_error + end_decision" where
  "reconcileEndCommit st env userID expected identity expectedDecision d =
     (if env_lookup_fails env then Inl ErrOperationOutcomeUnknown
      else case lookupEndOperation st userID expected identity d of
        Inl e \<Rightarrow> Inl ErrOperationOutcomeUnknown
      | Inr None \<Rightarrow> Inl commit_error
      | Inr (Some v) \<Rightarrow>
          if ed_Session v = expected \<and> ed_State v = ed_State expectedDecision \<and>
             sameAllocationRefs (ed_Pending v) (ed_Pending expectedDecision)
          then Inr v else Inl ErrOperationOutcomeUnknown)"

definition RequestEnd :: "postgres_store \<Rightarrow> tx_env \<Rightarrow> string \<Rightarrow> session_ref \<Rightarrow> string \<Rightarrow> db \<Rightarrow>
    (runner_error + end_decision) \<times> db" where
  "RequestEnd st env userID expected operationID d =
     (case newEndIdentity userID expected operationID of Inl e \<Rightarrow> (Inl e, d) | Inr identity \<Rightarrow>
      run_tx_or env (reconcileEndCommit st env userID expected identity) (end_tx st env userID expected identity) d)"

end
