(* ===== verification/Store_History.thy ===== *)
theory Store_History
  imports Store_Work Store_End
begin

text \<open>
  What a transaction may do to the rows that exist: \<open>store_le\<close>. Rows are never deleted; identity
  columns never change; generations only grow; desired absent, a succeeded operation with its
  result, and a finished attempt are final; events are immutable; users, epochs and the catalog are
  not touched. The relation is a \<open>tx_preorder\<close>, and every transaction of the store respects it.
\<close>

section \<open>Row relations\<close>

definition session_le :: "session_row \<Rightarrow> session_row \<Rightarrow> bool" where
  "session_le s s' \<longleftrightarrow>
     s_id s' = s_id s \<and> s_user_id s' = s_user_id s \<and> s_problem_id s' = s_problem_id s \<and>
     s_problem_revision s' = s_problem_revision s \<and> s_catalog_generation s' = s_catalog_generation s \<and>
     s_queued_at s' = s_queued_at s \<and> s_expires_at s' = s_expires_at s \<and> s_created_at s' = s_created_at s \<and>
     s_current_generation s \<le> s_current_generation s' \<and>
     (s_desired_state s = ''absent'' \<longrightarrow>
        s_desired_state s' = ''absent'' \<and> s_current_generation s' = s_current_generation s)"

definition allocation_le :: "allocation_row \<Rightarrow> allocation_row \<Rightarrow> bool" where
  "allocation_le a a' \<longleftrightarrow>
     a_id a' = a_id a \<and> a_session_id a' = a_session_id a \<and> a_generation a' = a_generation a \<and>
     a_provider_kind a' = a_provider_kind a \<and> a_provider_id a' = a_provider_id a \<and>
     a_resource_profile a' = a_resource_profile a \<and> a_expires_at a' = a_expires_at a \<and>
     a_created_at a' = a_created_at a \<and> a_last_event_sequence a \<le> a_last_event_sequence a' \<and>
     (a_desired_state a = ''absent'' \<longrightarrow> a_desired_state a' = ''absent'')"

definition operation_le :: "operation_row \<Rightarrow> operation_row \<Rightarrow> bool" where
  "operation_le r r' \<longleftrightarrow>
     o_id r' = o_id r \<and> o_allocation_id r' = o_allocation_id r \<and> o_provider_id r' = o_provider_id r \<and>
     o_kind r' = o_kind r \<and> o_idempotency_key r' = o_idempotency_key r \<and> o_request_hash r' = o_request_hash r \<and>
     o_created_at r' = o_created_at r \<and> o_attempt_count r \<le> o_attempt_count r' \<and>
     (o_state r = ''succeeded'' \<longrightarrow> o_state r' = ''succeeded'' \<and> o_result_metadata r' = o_result_metadata r)"

definition attempt_le :: "attempt_row \<Rightarrow> attempt_row \<Rightarrow> bool" where
  "attempt_le t t' \<longleftrightarrow>
     t_id t' = t_id t \<and> t_user_id t' = t_user_id t \<and> t_problem_id t' = t_problem_id t \<and>
     t_started_at t' = t_started_at t \<and> t_session_id t' = t_session_id t \<and> t_generation t' = t_generation t \<and>
     (t_status t \<noteq> ''in_progress'' \<longrightarrow> t' = t)"

definition rows_le :: "db \<Rightarrow> db \<Rightarrow> bool" where
  "rows_le d d' \<longleftrightarrow>
     table_le session_le (sessions d) (sessions d') \<and> table_le allocation_le (allocations d) (allocations d') \<and>
     table_le operation_le (operations d) (operations d') \<and> table_le (=) (events d) (events d') \<and>
     table_le attempt_le (attempts d) (attempts d')"

definition store_le :: "db \<Rightarrow> db \<Rightarrow> bool" where
  "store_le d d' \<longleftrightarrow>
     rows_le d d' \<and> users d' = users d \<and> epochs d' = epochs d \<and> catalog_head d' = catalog_head d \<and>
     catalog_entries d' = catalog_entries d \<and> problem_artifacts d' = problem_artifacts d"

lemma row_le_refl [simp]: "session_le s s" "allocation_le a a" "operation_le r r" "attempt_le t t"
  by (simp_all add: session_le_def allocation_le_def operation_le_def attempt_le_def)

lemma session_le_trans: "session_le a b \<Longrightarrow> session_le b c \<Longrightarrow> session_le a c"
  by (auto simp: session_le_def)

lemma allocation_le_trans: "allocation_le a b \<Longrightarrow> allocation_le b c \<Longrightarrow> allocation_le a c"
  by (auto simp: allocation_le_def)

lemma operation_le_trans: "operation_le a b \<Longrightarrow> operation_le b c \<Longrightarrow> operation_le a c"
  by (auto simp: operation_le_def)

lemma attempt_le_trans: "attempt_le a b \<Longrightarrow> attempt_le b c \<Longrightarrow> attempt_le a c"
  by (auto simp: attempt_le_def)

interpretation rows: tx_preorder rows_le
proof
  show "rows_le d d" for d by (simp add: rows_le_def table_le_refl)
  show "rows_le d d''" if "rows_le d d'" "rows_le d' d''" for d d' d''
    using that unfolding rows_le_def
    by (auto intro: table_le_trans [OF session_le_trans] table_le_trans [OF allocation_le_trans]
        table_le_trans [OF operation_le_trans] table_le_trans [OF attempt_le_trans]
        table_le_trans [where Q = "(=)"])
qed

interpretation history: tx_preorder store_le
  by unfold_locales (auto simp: store_le_def rows.refl_step intro: rows.trans_step)

section \<open>Statements\<close>

named_theorems le_intros "rules that put a transaction inside store_le"

lemma le_update_sessions [le_intros]:
  "(\<And>s. P s \<Longrightarrow> session_le s (f s)) \<Longrightarrow> tx_rel store_le (update_sessions P f)"
  by (rule tx_relI) (auto simp: sql_Inr store_le_def rows_le_def table_le_refl table_le_update_where)

lemma le_update_allocations [le_intros]:
  "(\<And>a. P a \<Longrightarrow> allocation_le a (f a)) \<Longrightarrow> tx_rel store_le (update_allocations P f)"
  by (rule tx_relI) (auto simp: sql_Inr store_le_def rows_le_def table_le_refl table_le_update_where)

lemma le_update_operations [le_intros]:
  "(\<And>r. P r \<Longrightarrow> operation_le r (f r)) \<Longrightarrow> tx_rel store_le (update_operations P f)"
  by (rule tx_relI) (auto simp: sql_Inr store_le_def rows_le_def table_le_refl table_le_update_where)

lemma le_update_attempts [le_intros]:
  "(\<And>t. P t \<Longrightarrow> attempt_le t (f t)) \<Longrightarrow> tx_rel store_le (update_attempts P f)"
  by (rule tx_relI) (auto simp: sql_Inr store_le_def rows_le_def table_le_refl table_le_update_where)

lemma le_inserts [le_intros]:
  "tx_rel store_le (insert_session s)" "tx_rel store_le (insert_allocation a)"
  "tx_rel store_le (insert_operation r)" "tx_rel store_le (insert_events es)" "tx_rel store_le (insert_attempt t)"
  by (rule tx_relI, auto simp: sql_Inr store_le_def rows_le_def table_le_refl table_le_append)+

lemma le_exec [le_intros]: "tx_rel store_le m \<Longrightarrow> tx_rel store_le (exec_any m)"
  "tx_rel store_le m \<Longrightarrow> tx_rel store_le (exec_one m e)"
  unfolding exec_any_def exec_one_def by (intro history.rel_intros; assumption)+

lemmas row_le_defs = session_le_def allocation_le_def operation_le_def attempt_le_def
lemmas row_change_defs = allocation_leaving_def allocation_gone_def session_terminal_def attempt_terminal_def
  clear_lease_def operation_succeeded_def open_attempt_def attempt_reset_def attempt_success_def release_lease_def

section \<open>Helpers\<close>

lemma le_base [le_intros]:
  "tx_rel store_le (lockControllerEpochTx st)" "tx_rel store_le (lockExactAllocation ref)"
  "tx_rel store_le (destroyOutcomeTx i)" "tx_rel store_le (attemptStatusTx sref)"
  unfolding lockControllerEpochTx_def lockExactAllocation_def destroyOutcomeTx_def attemptStatusTx_def
  by (intro history.rel_intros)+

lemma le_enter [le_intros]: "tx_rel store_le (enter_exact st ref)" "tx_rel store_le (lock_user u e)"
  unfolding enter_exact_def lock_user_def by (intro history.rel_intros le_intros)+

lemma le_log_event [le_intros]: "tx_rel store_le (log_event env i k ty rc msg doc)"
  unfolding log_event_def reserve_sequence_def
  by (intro history.rel_intros le_intros) (simp add: row_le_defs)

lemma le_events [le_intros]:
  "tx_rel store_le (ensureEventTx env i ty rc msg)" "tx_rel store_le (ensure_event env i ty rc msg)"
  "tx_rel store_le (ensureKeyedEventTx env i k ty rc msg doc)" "tx_rel store_le (ensure_keyed_event env i k ty rc msg doc)"
  unfolding ensure_event_def ensureEventTx_def appendEventTx_def ensure_keyed_event_def ensureKeyedEventTx_def
  by (intro history.rel_intros le_intros)+

lemma le_operations [le_intros]:
  "tx_rel store_le (fresh_operation env i p k key h s t)" "tx_rel store_le (ensureDestroyOperationTx env i p)"
  "tx_rel store_le (ensure_destroy env i p)"
  unfolding ensure_destroy_def ensureDestroyOperationTx_def fresh_operation_def Let_def
  by (intro history.rel_intros le_intros)+

lemma le_load [le_intros]: "tx_rel store_le (loadReservationByOperation p k)"
  "tx_rel store_le (validateCatalogSelectionTx sel)"
  unfolding loadReservationByOperation_def validateCatalogSelectionTx_def by (intro history.rel_intros)+

section \<open>Transactions\<close>

lemma le_reserve: "tx_rel store_le (reserve_tx st env p)"
  unfolding reserve_tx_def reserve_rows_def Let_def by (intro history.rel_intros le_intros)

lemma int64_next:
  assumes "Generation ref < MaxDurableValue"
  shows "int64 (Generation (nextSession ref)) = int64 (Generation ref) + 1"
proof -
  let ?g = "Generation ref"
  have "uint ?g < 2 ^ 63 - 1" using assms by (simp add: word_less_def MaxDurableValue_eq)
  then have eq: "uint (?g + 1) = uint ?g + 1" by (simp add: uint_word_ariths(1) take_bit_int_eq_self)
  then have "?g + 1 \<le> MaxDurableValue" "?g \<le> MaxDurableValue"
    using \<open>uint ?g < 2 ^ 63 - 1\<close> by (simp_all add: word_le_def MaxDurableValue_eq)
  then show ?thesis by (simp add: nextSession_def SessionRef_def int64_durable eq)
qed

lemma validateResetReservation_bound:
  "validateResetReservation p = Inr u \<Longrightarrow> Generation (rr_Expected p) < MaxDurableValue"
  by (auto simp: validateResetReservation_def split: if_splits)

lemma le_retire: "tx_rel store_le (retire_source env p i)"
  unfolding retire_source_def Let_def
  by (intro history.rel_intros le_intros) (auto simp: row_le_defs row_change_defs)

lemma le_reset:
  assumes "Generation (rr_Expected p) < MaxDurableValue"
  shows "tx_rel store_le (reset_tx st env p)"
  unfolding reset_tx_def reset_replay_def reset_fresh_def reset_source_guards_def reserve_replacement_def Let_def
  by (intro history.rel_intros le_intros le_retire) (auto simp: row_le_defs int64_next [OF assms])

lemma le_append: "tx_rel store_le (append_event_tx st env i ty rc msg doc)"
  unfolding append_event_tx_def by (intro history.rel_intros le_intros)

lemma le_admission [le_intros]: "tx_rel store_le (create_admission env ref p c s)" "tx_rel store_le (require_current ref)"
  unfolding create_admission_def require_current_def by (intro history.rel_intros)+

lemma le_create_succeeded: "tx_rel store_le (create_succeeded_tx st env ref c)"
  unfolding create_succeeded_tx_def create_succeeded_rows_def
  by (intro history.rel_intros le_intros) (auto simp: row_le_defs row_change_defs)

lemma le_create_failed: "tx_rel store_le (create_failed_tx st env ref code msg c)"
  unfolding create_failed_tx_def create_failed_rows_def
  by (intro history.rel_intros le_intros) (auto simp: row_le_defs row_change_defs)

lemma le_ready: "tx_rel store_le (ready_tx st env ref)"
  unfolding ready_tx_def by (intro history.rel_intros le_intros) (auto simp: row_le_defs)

lemma le_setting_up: "tx_rel store_le (setting_up_tx st env ref)"
  unfolding setting_up_tx_def by (intro history.rel_intros le_intros) (auto simp: row_le_defs)

lemma le_destroy: "tx_rel store_le (destroy_tx st env ref o' a l)"
  unfolding destroy_tx_def destroy_current_def Let_def
  by (intro history.rel_intros le_intros) (auto simp: row_le_defs row_change_defs)

lemma le_destroyed: "tx_rel store_le (destroyed_tx st env ref c)"
  unfolding destroyed_tx_def destroyed_rows_def predecessor_destroyed_def
  by (intro history.rel_intros le_intros) (auto simp: row_le_defs row_change_defs)

lemma le_converge: "tx_rel store_le (converge_tx st env p rec)"
  unfolding converge_tx_def converge_rows_def Let_def
  by (intro history.rel_intros le_intros) (auto simp: row_le_defs row_change_defs)

lemma le_verify_operation [le_intros]:
  "tx_rel store_le (ensureVerifyOperationTx env ref p i)" "tx_rel store_le (loadVerifyDecisionTx ref p i)"
  unfolding ensureVerifyOperationTx_def loadVerifyDecisionTx_def by (intro history.rel_intros le_intros)+

lemma le_start_verify [le_intros]: "tx_rel store_le (start_verify env ref i s a)"
  unfolding start_verify_def by (intro history.rel_intros le_intros) (auto simp: row_le_defs)

lemma le_begin_verify: "tx_rel store_le (begin_verify_tx st env u ref i)"
  unfolding begin_verify_tx_def by (intro history.rel_intros le_intros)

lemma le_finish [le_intros]:
  "tx_rel store_le (finish_operation env p k s c doc)" "tx_rel store_le (grade_passed env ref p l)"
  "tx_rel store_le (grade_failed ref l)" "tx_rel store_le (restore_ready ref)"
  unfolding finish_operation_def grade_passed_def grade_failed_def restore_ready_def
  by (intro history.rel_intros le_intros; auto simp: row_le_defs row_change_defs)+

lemma le_verify_result: "tx_rel store_le (verify_result_tx st env ref i r doc)"
  unfolding verify_result_tx_def verify_result_rows_def by (intro history.rel_intros le_intros)

lemma le_choice: "tx_rel store_le (choice_tx st env u ref sub i s l doc)"
  unfolding choice_tx_def choice_rows_def rejectChoiceReplayAfterSessionAdvance_def Let_def
  by (intro history.rel_intros le_intros)

lemma le_prepare: "tx_rel store_le (prepare_recovery_tx st env p)"
  unfolding prepare_recovery_tx_def convergeInterruptedVerificationsTx_def converge_interrupted_def
  by (intro history.rel_intros le_intros) (auto simp: row_le_defs row_change_defs)

lemma le_retry: "tx_rel store_le (retry_destroy_tx st env c t n)"
  unfolding retry_destroy_tx_def
  by (intro history.rel_intros le_intros) (auto simp: row_le_defs row_change_defs)

lemma le_end_remaining [le_intros]: "tx_rel store_le (end_remaining p refs)"
  by (induction refs) (auto intro!: history.rel_intros)

lemma le_end: "tx_rel store_le (end_tx st env u ref i)"
  unfolding end_tx_def loadEndOperationTx_def createEndOperationTx_def end_allocation_def
    reconcileEndOperationTx_def Let_def
  by (intro history.rel_intros le_intros) (auto simp: row_le_defs row_change_defs)

text \<open>
  A claim updates by operation id. The candidate it selected is unfinished and ids are unique, so
  the row it updates is that candidate.
\<close>

lemma le_claim_update:
  assumes "c \<in> set (operations d)" and "o_state c \<noteq> ''succeeded''"
    and upd: "update_operations (\<lambda>r. o_id r = o_id c) (claimed_row env owner lease) d = Inr (n, d')"
  shows "store_le d d'"
proof -
  let ?ops = "update_where (\<lambda>r. o_id r = o_id c) (claimed_row env owner lease) (operations d)"
  have d': "d' = d\<lparr>operations := ?ops\<rparr>" and ok: "schema_ok (d\<lparr>operations := ?ops\<rparr>)"
    using upd by (auto simp: sql_Inr)
  have "unique_by o_id ?ops" using schema_okD(12) [OF ok] by simp
  then have uniq: "unique_by o_id (operations d)"
    by (subst (asm) unique_by_update_where) (auto simp: claimed_row_def)
  have only: "r = c" if "r \<in> set (operations d)" "o_id r = o_id c" for r
    using unique_byD [OF uniq that(1) assms(1)] that(2) by simp
  have "?ops = update_where (\<lambda>r. o_id r = o_id c \<and> o_state r \<noteq> ''succeeded'') (claimed_row env owner lease) (operations d)"
    using assms(2) by (intro update_where_cong) (auto dest: only)
  then show ?thesis unfolding d'
    by (auto simp: store_le_def rows_le_def table_le_refl claimed_row_def row_le_defs intro!: table_le_update_where)
qed

lemma candidate_in:
  assumes "sort_key k (filter P rows) = c # cs"
  shows "c \<in> set rows" and "P c"
proof -
  have "c \<in> set (sort_key k (filter P rows))" by (simp add: assms)
  then show "c \<in> set rows" "P c" by auto
qed

lemma le_claim_destroy: "tx_rel store_le (claim_destroy_tx st env p i owner lease)"
proof (rule tx_relI)
  fix d x d' assume run: "claim_destroy_tx st env p i owner lease d = Inr (x, d')"
  show "store_le d d'"
  proof (cases "sort_key (\<lambda>r. (case o_next_attempt_at r of None \<Rightarrow> o_created_at r | Some t \<Rightarrow> t, o_created_at r, o_id r))
      (filter (destroy_candidate env p i d) (operations d))")
    case Nil
    with run show ?thesis by (auto simp: claim_destroy_tx_def tx_Inr guard_Inrs history.refl_step)
  next
    case (Cons c cs)
    with run obtain n where "update_operations (\<lambda>r. o_id r = o_id c) (claimed_row env owner lease) d = Inr (n, d')"
      by (auto simp: claim_destroy_tx_def tx_Inr guard_Inrs exec_Inr)
    then show ?thesis
      using candidate_in [OF Cons] by (intro le_claim_update) (auto simp: destroy_candidate_def)
  qed
qed

lemma load_reservation_state: "loadReservationByOperation p k d = Inr (x, d') \<Longrightarrow> d' = d"
  by (auto simp: loadReservationByOperation_def tx_Inr split: option.splits)

lemma le_claim_create: "tx_rel store_le (claim_create_tx st env p i owner lease resetOnly)"
proof (rule tx_relI)
  fix d x d' assume run: "claim_create_tx st env p i owner lease resetOnly d = Inr (x, d')"
  let ?min = "if resetOnly then 1 else 0 :: int"
  show "store_le d d'"
  proof (cases "sort_key (\<lambda>r. (o_created_at r, o_id r)) (filter (create_candidate env p i ?min d) (operations d))")
    case Nil
    with run show ?thesis by (auto simp: claim_create_tx_def tx_Inr guard_Inrs history.refl_step)
  next
    case (Cons c cs)
    with run obtain n where "update_operations (\<lambda>r. o_id r = o_id c) (claimed_row env owner lease) d = Inr (n, d')"
      by (auto simp: claim_create_tx_def tx_Inr guard_Inrs exec_Inr dest!: load_reservation_state)
    then show ?thesis
      using candidate_in [OF Cons] by (intro le_claim_update) (auto simp: create_candidate_def)
  qed
qed

end
