(* ===== verification/Store_Events.thy ===== *)
theory Store_Events
  imports Store_History
begin

text \<open>
  The event log of an allocation is gapless: its sequence numbers are exactly 1 to the allocation's
  counter, in the order of insertion. \<open>log_step\<close> says that a transaction keeps this together with
  the schema; it is a \<open>tx_preorder\<close>, and every transaction of the store respects it.
\<close>

section \<open>The invariant\<close>

definition sequences_of :: "string \<Rightarrow> db \<Rightarrow> int list" where
  "sequences_of i d = map e_sequence (filter (\<lambda>e. e_allocation_id e = i) (events d))"

definition allocation_gapless :: "db \<Rightarrow> allocation_row \<Rightarrow> bool" where
  "allocation_gapless d a \<longleftrightarrow>
     a_last_event_sequence a \<ge> 0 \<and> sequences_of (a_id a) d = [1..a_last_event_sequence a]"

definition gapless :: "db \<Rightarrow> bool" where
  "gapless d \<longleftrightarrow> list_all (allocation_gapless d) (allocations d)"

definition log_inv :: "db \<Rightarrow> bool" where
  "log_inv d \<longleftrightarrow> schema_ok d \<and> gapless d"

definition log_step :: "db \<Rightarrow> db \<Rightarrow> bool" where
  "log_step d d' \<longleftrightarrow> (log_inv d \<longrightarrow> log_inv d')"

interpretation log: tx_preorder log_step
  by unfold_locales (auto simp: log_step_def)

section \<open>Statements\<close>

named_theorems log_intros "rules that put a transaction inside log_step"

lemma sequences_of_other_tables [simp]:
  "sequences_of i (d\<lparr>sessions := x1\<rparr>) = sequences_of i d" "sequences_of i (d\<lparr>allocations := x2\<rparr>) = sequences_of i d"
  "sequences_of i (d\<lparr>operations := x3\<rparr>) = sequences_of i d" "sequences_of i (d\<lparr>attempts := x4\<rparr>) = sequences_of i d"
  by (simp_all add: sequences_of_def)

lemma sequences_of_append:
  "sequences_of i (d\<lparr>events := events d @ es\<rparr>) =
     sequences_of i d @ map e_sequence (filter (\<lambda>e. e_allocation_id e = i) es)"
  by (simp add: sequences_of_def)

lemma allocation_gapless_other_tables [simp]:
  "allocation_gapless (d\<lparr>sessions := x1\<rparr>) = allocation_gapless d"
  "allocation_gapless (d\<lparr>allocations := x2\<rparr>) = allocation_gapless d"
  "allocation_gapless (d\<lparr>operations := x3\<rparr>) = allocation_gapless d"
  "allocation_gapless (d\<lparr>attempts := x4\<rparr>) = allocation_gapless d"
  by (simp_all add: allocation_gapless_def fun_eq_iff)

lemma log_other_tables [log_intros]:
  "tx_rel log_step (update_sessions PS fs)" "tx_rel log_step (update_operations PO fo)"
  "tx_rel log_step (update_attempts PT ft)" "tx_rel log_step (insert_session s)"
  "tx_rel log_step (insert_operation r)" "tx_rel log_step (insert_attempt t)"
  by (rule tx_relI, auto simp: sql_Inr log_step_def log_inv_def gapless_def)+

lemma log_update_allocations [log_intros]:
  "(\<And>a. P a \<Longrightarrow> a_id (f a) = a_id a \<and> a_last_event_sequence (f a) = a_last_event_sequence a) \<Longrightarrow>
   tx_rel log_step (update_allocations P f)"
  by (rule tx_relI)
    (auto simp: sql_Inr log_step_def log_inv_def gapless_def allocation_gapless_def list_all_iff set_update_where)

lemma log_exec [log_intros]: "tx_rel log_step m \<Longrightarrow> tx_rel log_step (exec_any m)"
  "tx_rel log_step m \<Longrightarrow> tx_rel log_step (exec_one m e)"
  unfolding exec_any_def exec_one_def by (intro log.rel_intros; assumption)+

text \<open>The counter increment and the insert together.\<close>

lemma log_log_event [log_intros]: "tx_rel log_step (log_event env i k ty rc msg doc)"
proof (rule tx_relI)
  fix d n d' assume run: "log_event env i k ty rc msg doc d = Inr (n, d')"
  let ?allocs = "bump_sequence i (allocations d)"
  from run obtain a where a: "find (\<lambda>a. a_id a = i) ?allocs = Some a" and n: "n = a_last_event_sequence a"
    and d': "d' = d\<lparr>allocations := ?allocs, events := events d @ [logged_event env i n k ty rc msg doc]\<rparr>"
    and ok: "schema_ok d'"
    by (auto simp: log_event_Inr Let_def)
  note e = logged_event_def
  show "log_step d d'" unfolding log_step_def
  proof
    assume inv: "log_inv d"
    then have uniq: "unique_by a_id (allocations d)" and gap: "\<And>x. x \<in> set (allocations d) \<Longrightarrow> allocation_gapless d x"
      by (auto simp: log_inv_def gapless_def list_all_iff intro: schema_okD)
    have a_in: "a \<in> set (bump_sequence i (allocations d))" and a_id: "a_id a = i"
      using find_Some_iff_in [OF a] by simp_all
    obtain b where b: "b \<in> set (allocations d)" "a_id b = i" and n': "n = a_last_event_sequence b + 1"
      using a_in [unfolded bump_sequence_def]
    proof (cases rule: in_update_whereE)
      case old
      then show ?thesis using a_id by simp
    next
      case (new b)
      then show ?thesis using that [of b] n by simp
    qed
    have pos: "a_last_event_sequence b \<ge> 0" and sb: "sequences_of i d = [1..a_last_event_sequence b]"
      using gap [OF b(1)] b(2) by (auto simp: allocation_gapless_def)
    have seq_i: "sequences_of i d' = [1..n]"
    proof -
      have "sequences_of i d' = sequences_of i d @ [n]" by (simp add: d' sequences_of_def e)
      also have "\<dots> = [1..n]" using pos upto_rec2 [of 1 n] by (simp add: sb n')
      finally show ?thesis .
    qed
    have seq_other: "sequences_of j d' = sequences_of j d" if "j \<noteq> i" for j
      using that by (simp add: d' sequences_of_def e)
    have "allocation_gapless d' x" if "x \<in> set ?allocs" for x
      using that [unfolded bump_sequence_def]
    proof (cases rule: in_update_whereE)
      case old
      then show ?thesis using gap [OF old(1)] seq_other [of "a_id x"] by (auto simp: allocation_gapless_def)
    next
      case (new x0)
      then have "x0 = b" using unique_byD [OF uniq new(1) b(1)] b(2) by simp
      then show ?thesis using new b(2) pos seq_i n' by (simp add: allocation_gapless_def)
    qed
    with ok show "log_inv d'" by (simp add: log_inv_def gapless_def list_all_iff d')
  qed
qed

text \<open>A new allocation, its create operation and its first events.\<close>

lemma log_new_allocation:
  assumes a: "a_last_event_sequence a = int (length es)"
    and es: "map e_sequence es = [1..int (length es)]" "list_all (\<lambda>e. e_allocation_id e = a_id a) es"
    and k: "\<And>oid. tx_rel log_step (k oid)"
  shows "tx_rel log_step (tx_seq (tx_map_error g (insert_allocation a))
     (tx_bind (tx_map_error g (fresh_operation env i p kind key h s t)) (\<lambda>oid. tx_seq (insert_events es) (k oid))))"
proof (rule tx_relI)
  fix d x d'
  assume "tx_seq (tx_map_error g (insert_allocation a))
     (tx_bind (tx_map_error g (fresh_operation env i p kind key h s t)) (\<lambda>oid. tx_seq (insert_events es) (k oid))) d = Inr (x, d')"
  then obtain oid r d1 where ok1: "schema_ok (d\<lparr>allocations := allocations d @ [a]\<rparr>)"
    and d1: "d1 = d\<lparr>allocations := allocations d @ [a], operations := operations d @ [r], events := events d @ es\<rparr>"
    and ok2: "schema_ok d1" and run: "k oid d1 = Inr (x, d')"
    by (auto simp: tx_Inr sql_Inr fresh_operation_def)
  have "log_step d d1" unfolding log_step_def
  proof
    assume inv: "log_inv d"
    have new: "\<forall>b \<in> set (allocations d). a_id b \<noteq> a_id a"
      using schema_okD(5) [OF ok1] by (auto simp: unique_by_snoc)
    have "e_allocation_id e \<noteq> a_id a" if "e \<in> set (events d)" for e
      using inv new that schema_okD(19) [of d] by (auto simp: log_inv_def list_all_iff)
    then have none: "sequences_of (a_id a) d = []" by (auto simp: sequences_of_def filter_empty_conv)
    have all: "filter (\<lambda>e. e_allocation_id e = a_id a) es = es"
      using es(2) by (simp add: list_all_iff)
    have "allocation_gapless d1 a"
      using a es all none by (simp add: allocation_gapless_def d1 sequences_of_def)
    moreover have "allocation_gapless d1 b" if b: "b \<in> set (allocations d)" for b
    proof -
      have "filter (\<lambda>e. e_allocation_id e = a_id b) es = []"
        using es(2) new b by (auto simp: filter_empty_conv list_all_iff)
      then show ?thesis using inv b by (simp add: allocation_gapless_def d1 sequences_of_def log_inv_def gapless_def list_all_iff)
    qed
    ultimately show "log_inv d1" using ok2 by (simp add: log_inv_def gapless_def list_all_iff d1)
  qed
  then show "log_step d d'" using tx_relD [OF k run] by (rule log.trans_step)
qed

section \<open>Transactions\<close>

lemma log_base [log_intros]:
  "tx_rel log_step (lockControllerEpochTx st)" "tx_rel log_step (lockExactAllocation ref)"
  "tx_rel log_step (destroyOutcomeTx i)" "tx_rel log_step (attemptStatusTx sref)"
  unfolding lockControllerEpochTx_def lockExactAllocation_def destroyOutcomeTx_def attemptStatusTx_def
  by (intro log.rel_intros)+

lemma log_enter [log_intros]: "tx_rel log_step (enter_exact st ref)" "tx_rel log_step (lock_user u e)"
  unfolding enter_exact_def lock_user_def by (intro log.rel_intros log_intros)+

lemma log_events [log_intros]:
  "tx_rel log_step (ensureEventTx env i ty rc msg)" "tx_rel log_step (ensure_event env i ty rc msg)"
  "tx_rel log_step (ensureKeyedEventTx env i k ty rc msg doc)" "tx_rel log_step (ensure_keyed_event env i k ty rc msg doc)"
  unfolding ensure_event_def ensureEventTx_def appendEventTx_def ensure_keyed_event_def ensureKeyedEventTx_def
  by (intro log.rel_intros log_intros)+

lemma log_operations [log_intros]:
  "tx_rel log_step (fresh_operation env i p k key h s t)" "tx_rel log_step (ensureDestroyOperationTx env i p)"
  "tx_rel log_step (ensure_destroy env i p)"
  unfolding ensure_destroy_def ensureDestroyOperationTx_def fresh_operation_def Let_def
  by (intro log.rel_intros log_intros)+

lemma log_load [log_intros]: "tx_rel log_step (loadReservationByOperation p k)"
  "tx_rel log_step (validateCatalogSelectionTx sel)" "tx_rel log_step (create_admission env ref p c s)"
  "tx_rel log_step (require_current ref)"
  unfolding loadReservationByOperation_def validateCatalogSelectionTx_def create_admission_def require_current_def
  by (intro log.rel_intros)+

lemma log_finish [log_intros]:
  "tx_rel log_step (finish_operation env p k s c doc)" "tx_rel log_step (grade_passed env ref p l)"
  "tx_rel log_step (grade_failed ref l)" "tx_rel log_step (restore_ready ref)"
  "tx_rel log_step (ensureVerifyOperationTx env ref p i)" "tx_rel log_step (loadVerifyDecisionTx ref p i)"
  unfolding finish_operation_def grade_passed_def grade_failed_def restore_ready_def
    ensureVerifyOperationTx_def loadVerifyDecisionTx_def
  by (intro log.rel_intros log_intros; simp add: row_change_defs)+

lemma new_events_shape:
  "map e_sequence [new_event i 1 ty rc msg t] = [1..int (length [new_event i 1 ty rc msg t])]"
  "map e_sequence [new_event i 1 ty rc msg t, new_event i 2 ty' rc' msg' t'] =
     [1..int (length [new_event i 1 ty rc msg t, new_event i 2 ty' rc' msg' t'])]"
  by (simp_all add: new_event_def upto.simps)

lemma log_reserve: "tx_rel log_step (reserve_tx st env p)"
  unfolding reserve_tx_def reserve_rows_def Let_def
  by (intro log_new_allocation log.rel_intros log_intros new_events_shape)
    (simp_all add: new_allocation_def new_event_def)

lemma log_reset: "tx_rel log_step (reset_tx st env p)"
  unfolding reset_tx_def reset_replay_def reset_fresh_def reset_source_guards_def retire_source_def
    reserve_replacement_def Let_def
  by (intro log_new_allocation log.rel_intros log_intros new_events_shape)
    (simp_all add: new_allocation_def new_event_def row_change_defs)

lemma log_append: "tx_rel log_step (append_event_tx st env i ty rc msg doc)"
  unfolding append_event_tx_def by (intro log.rel_intros log_intros)

lemma log_create: "tx_rel log_step (create_succeeded_tx st env ref c)" "tx_rel log_step (create_failed_tx st env ref code msg c)"
  unfolding create_succeeded_tx_def create_succeeded_rows_def create_failed_tx_def create_failed_rows_def
  by (intro log.rel_intros log_intros; simp add: row_change_defs)+

lemma log_setup: "tx_rel log_step (ready_tx st env ref)" "tx_rel log_step (setting_up_tx st env ref)"
  unfolding ready_tx_def setting_up_tx_def by (intro log.rel_intros log_intros; simp)+

lemma log_destroy: "tx_rel log_step (destroy_tx st env ref out a l)" "tx_rel log_step (destroyed_tx st env ref c')"
  unfolding destroy_tx_def destroy_current_def destroyed_tx_def destroyed_rows_def predecessor_destroyed_def Let_def
  by (intro log.rel_intros log_intros; simp add: row_change_defs)+

lemma log_converge: "tx_rel log_step (converge_tx st env p rec)"
  unfolding converge_tx_def converge_rows_def Let_def
  by (intro log.rel_intros log_intros) (simp_all add: row_change_defs)

lemma log_verify:
  "tx_rel log_step (begin_verify_tx st env u ref i)" "tx_rel log_step (verify_result_tx st env ref i r doc)"
  "tx_rel log_step (choice_tx st env u ref sub i s l doc)"
  unfolding begin_verify_tx_def start_verify_def verify_result_tx_def verify_result_rows_def choice_tx_def choice_rows_def
    rejectChoiceReplayAfterSessionAdvance_def Let_def
  by (intro log.rel_intros log_intros)+

lemma log_work:
  "tx_rel log_step (prepare_recovery_tx st env p)" "tx_rel log_step (retry_destroy_tx st env c t n)"
  "tx_rel log_step (claim_destroy_tx st env p i owner lease)"
  "tx_rel log_step (claim_create_tx st env p i owner lease resetOnly)"
  unfolding prepare_recovery_tx_def convergeInterruptedVerificationsTx_def converge_interrupted_def
    retry_destroy_tx_def claim_destroy_tx_def claim_create_tx_def
  by (intro log.rel_intros log_intros)+

lemma log_end_remaining [log_intros]: "tx_rel log_step (end_remaining p refs)"
  by (induction refs) (auto intro!: log.rel_intros)

lemma log_end: "tx_rel log_step (end_tx st env u ref i)"
  unfolding end_tx_def loadEndOperationTx_def createEndOperationTx_def end_allocation_def
    reconcileEndOperationTx_def Let_def
  by (intro log.rel_intros log_intros) (simp_all add: row_change_defs)

end
