(* ===== verification/Store_System.thy ===== *)
theory Store_System
  imports Store_Events
begin

text \<open>
  The store as a whole: one constructor per mutating public method (\<open>store_call\<close>), its execution
  (\<open>store_exec\<close>), and the runs of the system (\<open>store_reach\<close>): any controller of any epoch issues any
  call with any commit outcome, a new lease increments a provider's epoch, users appear and catalogs
  are published.

  What holds for every call is proved from the transactions' relations: a fenced store changes
  nothing and never succeeds; history is kept (\<open>store_le\<close>); the event logs stay gapless.
\<close>

section \<open>Calls\<close>

datatype store_call =
    CReserveSession string reserve_session_params
  | CReserveReset reserve_reset_params
  | CAppendEvent string string string string "string \<times> json_doc option"
  | CMarkCreateSucceeded allocation_ref
  | CMarkClaimedCreateSucceeded create_work_claim
  | CMarkCreateFailed allocation_ref string string
  | CMarkClaimedCreateFailed create_work_claim string string
  | CMarkSettingUp allocation_ref
  | CMarkReady allocation_ref
  | CBeginVerify string allocation_ref string
  | CRecordVerifyFinished allocation_ref string bool string
  | CRecordVerifyInfrastructureFailure allocation_ref string string
  | CRecordChoice string allocation_ref choice_submission bool string
  | CRequestDestroy allocation_ref string string string
  | CMarkDestroyed allocation_ref
  | CMarkClaimedDestroyed destroy_work_claim
  | CConvergeOneLocalRestart string local_recovery_allocation
  | CPrepareRecoveryWork string
  | CClaimDestroyWork string string string int
  | CRetryDestroyWork destroy_work_claim "string option" int
  | CClaimProvisionableCreate string string string int bool
  | CRequestEnd string session_ref string

definition call_outcome_of :: "(runner_error + 'a) \<times> db \<Rightarrow> (runner_error + unit) \<times> db" where
  "call_outcome_of r = (case r of (Inl e, d) \<Rightarrow> (Inl e, d) | (Inr _, d) \<Rightarrow> (Inr (), d))"

fun store_exec :: "postgres_store \<Rightarrow> tx_env \<Rightarrow> store_call \<Rightarrow> db \<Rightarrow> (runner_error + unit) \<times> db" where
  "store_exec st env (CReserveSession uuid p) d = call_outcome_of (ReserveSession st env uuid p d)"
| "store_exec st env (CReserveReset p) d = call_outcome_of (ReserveReset st env p d)"
| "store_exec st env (CAppendEvent i ty rc msg payload) d = call_outcome_of (AppendEvent st env i ty rc msg payload d)"
| "store_exec st env (CMarkCreateSucceeded ref) d = call_outcome_of (MarkCreateSucceeded st env ref d)"
| "store_exec st env (CMarkClaimedCreateSucceeded c) d = call_outcome_of (MarkClaimedCreateSucceeded st env c d)"
| "store_exec st env (CMarkCreateFailed ref code msg) d = call_outcome_of (MarkCreateFailed st env ref code msg d)"
| "store_exec st env (CMarkClaimedCreateFailed c code msg) d = call_outcome_of (MarkClaimedCreateFailed st env c code msg d)"
| "store_exec st env (CMarkSettingUp ref) d = call_outcome_of (MarkSettingUp st env ref d)"
| "store_exec st env (CMarkReady ref) d = call_outcome_of (MarkReady st env ref d)"
| "store_exec st env (CBeginVerify u ref op) d = call_outcome_of (BeginVerify st env u ref op d)"
| "store_exec st env (CRecordVerifyFinished ref op ok log) d = call_outcome_of (RecordVerifyFinished st env ref op ok log d)"
| "store_exec st env (CRecordVerifyInfrastructureFailure ref op code) d =
     call_outcome_of (RecordVerifyInfrastructureFailure st env ref op code d)"
| "store_exec st env (CRecordChoice u ref sub ok log) d = call_outcome_of (RecordChoice st env u ref sub ok log d)"
| "store_exec st env (CRequestDestroy ref out status log) d = call_outcome_of (RequestDestroy st env ref out status log d)"
| "store_exec st env (CMarkDestroyed ref) d = call_outcome_of (MarkDestroyed st env ref d)"
| "store_exec st env (CMarkClaimedDestroyed c) d = call_outcome_of (MarkClaimedDestroyed st env c d)"
| "store_exec st env (CConvergeOneLocalRestart p r) d = call_outcome_of (convergeOneLocalRestart st env p r d)"
| "store_exec st env (CPrepareRecoveryWork p) d = call_outcome_of (PrepareRecoveryWork st env p d)"
| "store_exec st env (CClaimDestroyWork p i owner lease) d = call_outcome_of (ClaimDestroyWork st env p i owner lease d)"
| "store_exec st env (CRetryDestroyWork c cause delay) d = call_outcome_of (RetryDestroyWork st env c cause delay d)"
| "store_exec st env (CClaimProvisionableCreate p i owner lease resetOnly) d =
     call_outcome_of (claimProvisionableCreate st env p i owner lease resetOnly d)"
| "store_exec st env (CRequestEnd u ref op) d = call_outcome_of (RequestEnd st env u ref op d)"

section \<open>A call is a transaction\<close>

lemma snd_call_outcome [simp]: "snd (call_outcome_of r) = snd r"
  by (auto simp: call_outcome_of_def split: prod.splits sum.splits)

lemma snd_run_tx_or:
  assumes "\<And>d. R d d" and "tx_rel R m"
  shows "R d (snd (run_tx_or env rec m d))"
  using assms tx_relD [OF assms(2)]
  by (auto simp: run_tx_or_def split: sum.splits prod.splits commit_outcome.splits)

lemma snd_run_tx:
  assumes "\<And>d. R d d" and "tx_rel R m"
  shows "R d (snd (run_tx env m d))"
  unfolding run_tx_def by (rule snd_run_tx_or [OF assms])

text \<open>The results the store records: an infrastructure failure, or a grade with its log.\<close>

definition recordable :: "verify_result_metadata \<Rightarrow> bool" where
  "recordable vm \<longleftrightarrow> vm_InfrastructureError vm \<or> vm = grade_metadata (gradeSucceeded vm) (verifyLog_of vm)"

lemma recordable_results [simp]: "recordable (grade_metadata ok l)" "recordable (infrastructure_metadata c)"
  by (simp_all add: recordable_def grade_metadata_def infrastructure_metadata_def gradeSucceeded_def verifyLog_of_def)

lemma boundedEventPayload_same: "boundedEventPayload doc = Inr doc' \<Longrightarrow> doc' = doc"
  by (simp add: boundedEventPayload_def split: if_splits)

text \<open>
  The transactions of the store under a relation: the interface between the per-transaction proofs
  and the calls. Whoever shows that each transaction respects \<open>R\<close> gets every call.
\<close>

locale store_relation = tx_preorder R for R :: "db \<Rightarrow> db \<Rightarrow> bool" +
  assumes reserve: "tx_rel R (reserve_tx st env p)"
    and reset: "Generation (rr_Expected q) < MaxDurableValue \<Longrightarrow> tx_rel R (reset_tx st env q)"
    and append: "tx_rel R (append_event_tx st env i ty rc msg doc)"
    and create_succeeded: "tx_rel R (create_succeeded_tx st env ref c)"
    and create_failed: "tx_rel R (create_failed_tx st env ref code msg c)"
    and setting_up: "tx_rel R (setting_up_tx st env ref)"
    and ready: "tx_rel R (ready_tx st env ref)"
    and begin_verify: "tx_rel R (begin_verify_tx st env u ref vi)"
    and verify_result: "recordable vm \<Longrightarrow> doc = metadata_doc vm \<Longrightarrow> tx_rel R (verify_result_tx st env ref vi vm doc)"
    and choice: "doc = metadata_doc (grade_metadata ok l) \<Longrightarrow> tx_rel R (choice_tx st env u ref sub vi ok l doc)"
    and destroy: "canonicalTerminalOutcome out status = Inr out \<Longrightarrow> tx_rel R (destroy_tx st env ref out status l)"
    and destroyed: "tx_rel R (destroyed_tx st env ref dc)"
    and converge: "tx_rel R (converge_tx st env pid lr)"
    and prepare: "tx_rel R (prepare_recovery_tx st env pid)"
    and claim_destroy: "tx_rel R (claim_destroy_tx st env pid i owner lease)"
    and retry: "tx_rel R (retry_destroy_tx st env dw cause delay)"
    and claim_create: "tx_rel R (claim_create_tx st env pid i owner lease resetOnly)"
    and end_op: "tx_rel R (end_tx st env u sref ei)"
begin

lemma run_rules:
  "tx_rel R m \<Longrightarrow> R d (snd (run_tx_or env rec m d))" "tx_rel R m' \<Longrightarrow> R d (snd (run_tx env m' d))"
  by (rule snd_run_tx_or, rule refl_step, assumption) (rule snd_run_tx, rule refl_step, assumption)

lemma markCreate: "R d (snd (markCreateSucceeded st env ref c d))" "R d (snd (markCreateFailed st env ref code msg c d))"
  unfolding markCreateSucceeded_def markCreateFailed_def Let_def
  by (rule run_rules create_succeeded create_failed)+

lemma mark_destroyed: "R d (snd (markDestroyed st env ref c d))"
  unfolding markDestroyed_def by (rule run_rules destroyed)+

lemma canonical_self: "canonicalTerminalOutcome out status = Inr c \<Longrightarrow> c = out"
  by (auto simp: canonicalTerminalOutcome_def split: if_splits)

lemma record_verify_step: "recordable vm \<Longrightarrow> R d (snd (record_verify st env ref op vm d))"
  by (auto simp: record_verify_def recordVerifyResult_def refl_step dest: boundedEventPayload_same
      intro!: run_rules(1) verify_result split: sum.splits)

lemma begin_verify_step: "R d (snd (BeginVerify st env u ref op d))"
proof -
  have "R d (snd (run_tx_or env rec (begin_verify_tx st env u ref vi) d))" for rec vi
    by (rule run_rules begin_verify)+
  then show ?thesis
    by (auto simp: BeginVerify_def refl_step split: sum.splits prod.splits) (metis snd_conv)+
qed

theorem exec_step: "R d (snd (store_exec st env c d))"
proof (cases c)
  case (CReserveSession u p)
  then show ?thesis by (auto simp: ReserveSession_def Let_def refl_step intro: run_rules reserve split: sum.splits)
next
  case (CReserveReset p)
  then show ?thesis
    by (auto simp: ReserveReset_def refl_step intro!: run_rules reset validateResetReservation_bound split: sum.splits)
next
  case (CAppendEvent i ty rc msg payload)
  then show ?thesis
    by (auto simp: AppendEvent_def refl_step intro: run_rules append split: prod.splits option.splits)
next
  case (CRequestDestroy ref out status log)
  then show ?thesis
    by (auto simp: RequestDestroy_def refl_step dest: canonical_self intro!: run_rules destroy split: sum.splits)
next
  case (CRecordChoice u ref sub ok log)
  then show ?thesis
    by (auto simp: RecordChoice_def Let_def refl_step dest: boundedEventPayload_same intro!: run_rules(1) choice
        split: sum.splits)
next
  case (CRequestEnd u ref op)
  then show ?thesis by (auto simp: RequestEnd_def refl_step intro: run_rules(1) end_op split: sum.splits)
qed (auto simp: MarkCreateSucceeded_def MarkClaimedCreateSucceeded_def MarkCreateFailed_def
    MarkClaimedCreateFailed_def MarkSettingUp_def MarkReady_def RecordVerifyFinished_def
    RecordVerifyInfrastructureFailure_def MarkDestroyed_def MarkClaimedDestroyed_def convergeOneLocalRestart_def
    PrepareRecoveryWork_def ClaimDestroyWork_def RetryDestroyWork_def claimProvisionableCreate_def refl_step
    markCreate mark_destroyed record_verify_step begin_verify_step
    intro: run_rules(2) setting_up ready converge prepare claim_destroy retry claim_create
    split: sum.splits option.splits)

end

interpretation history: store_relation store_le
  by unfold_locales
    (rule le_reserve le_reset le_append le_create_succeeded le_create_failed le_setting_up le_ready le_begin_verify
      le_verify_result le_choice le_destroy le_destroyed le_converge le_prepare le_claim_destroy le_retry
      le_claim_create le_end | assumption)+

interpretation log: store_relation log_step
  by unfold_locales
    (rule log_reserve log_reset log_append log_create log_setup log_verify log_destroy log_converge log_work log_end)+

section \<open>A fenced store\<close>

lemma lock_epoch_fenced: "\<not> epoch_current st d \<Longrightarrow> lockControllerEpochTx st d = Inl ErrControllerFenced"
  by (auto simp: lockControllerEpochTx_def epoch_current_def tx_defs split: option.splits)

lemma tx_Inl_intros:
  "m d = Inl e \<Longrightarrow> tx_seq m k d = Inl e" "m d = Inl e \<Longrightarrow> tx_bind m k' d = Inl e"
  "m0 d = Inl e \<Longrightarrow> tx_block (m0 # ms) d = Inl e"
  by (simp_all add: tx_defs)

lemma enter_exact_fenced: "\<not> epoch_current st d \<Longrightarrow> enter_exact st ref d = Inl ErrControllerFenced"
  unfolding enter_exact_def by (intro tx_Inl_intros lock_epoch_fenced)

lemma tx_fenced:
  assumes "\<not> epoch_current st d"
  shows "reserve_tx st env p d = Inl ErrControllerFenced" "reset_tx st env q d = Inl ErrControllerFenced"
    "append_event_tx st env i ty rc msg doc d = Inl ErrControllerFenced"
    "create_succeeded_tx st env ref c d = Inl ErrControllerFenced"
    "create_failed_tx st env ref code msg c d = Inl ErrControllerFenced"
    "setting_up_tx st env ref d = Inl ErrControllerFenced" "ready_tx st env ref d = Inl ErrControllerFenced"
    "begin_verify_tx st env u ref vi d = Inl ErrControllerFenced"
    "verify_result_tx st env ref vi vm doc d = Inl ErrControllerFenced"
    "choice_tx st env u ref sub vi ok l doc d = Inl ErrControllerFenced"
    "destroy_tx st env ref out status l d = Inl ErrControllerFenced"
    "destroyed_tx st env ref dc d = Inl ErrControllerFenced" "converge_tx st env pid lr d = Inl ErrControllerFenced"
    "prepare_recovery_tx st env pid d = Inl ErrControllerFenced"
    "claim_destroy_tx st env pid i owner lease d = Inl ErrControllerFenced"
    "retry_destroy_tx st env dw cause delay d = Inl ErrControllerFenced"
    "claim_create_tx st env pid i owner lease resetOnly d = Inl ErrControllerFenced"
    "end_tx st env u sref ei d = Inl ErrControllerFenced"
  unfolding reserve_tx_def reset_tx_def append_event_tx_def create_succeeded_tx_def create_failed_tx_def
    setting_up_tx_def ready_tx_def begin_verify_tx_def verify_result_tx_def choice_tx_def destroy_tx_def
    destroyed_tx_def converge_tx_def prepare_recovery_tx_def claim_destroy_tx_def retry_destroy_tx_def
    claim_create_tx_def end_tx_def Let_def
  by (intro tx_Inl_intros lock_epoch_fenced enter_exact_fenced assms)+

lemma run_fenced: "m d = Inl e \<Longrightarrow> run_tx env m d = (Inl e, d)" "m' d = Inl e \<Longrightarrow> run_tx_or env rec m' d = (Inl e, d)"
  by (simp_all add: run_tx_def run_tx_or_def)

lemmas store_call_defs = ReserveSession_def ReserveReset_def AppendEvent_def MarkCreateSucceeded_def
  MarkClaimedCreateSucceeded_def markCreateSucceeded_def MarkCreateFailed_def MarkClaimedCreateFailed_def
  markCreateFailed_def MarkSettingUp_def MarkReady_def BeginVerify_def RecordVerifyFinished_def
  RecordVerifyInfrastructureFailure_def record_verify_def recordVerifyResult_def RecordChoice_def
  RequestDestroy_def MarkDestroyed_def MarkClaimedDestroyed_def markDestroyed_def convergeOneLocalRestart_def
  PrepareRecoveryWork_def ClaimDestroyWork_def RetryDestroyWork_def claimProvisionableCreate_def RequestEnd_def

lemma exec_fenced:
  assumes "\<not> epoch_current st d"
  shows "\<exists>e. store_exec st env c d = (Inl e, d)"
  by (cases c)
    (auto simp: store_call_defs call_outcome_of_def Let_def run_fenced tx_fenced [OF assms]
      split: sum.splits option.splits prod.splits)

section \<open>Runs\<close>

text \<open>A new lease of a provider, from \<open>acquireControllerLease\<close>: epoch 1, or one more than before.\<close>

definition issue_epoch :: "string \<Rightarrow> db \<Rightarrow> db" where
  "issue_epoch providerID d =
     (case map_of (epochs d) providerID of
        None \<Rightarrow> d\<lparr>epochs := (providerID, 1) # epochs d\<rparr>
      | Some epoch \<Rightarrow>
          if epoch < 9223372036854775807
          then d\<lparr>epochs := map (\<lambda>(p, e). if p = providerID then (p, e + 1) else (p, e)) (epochs d)\<rparr> else d)"

inductive store_step :: "db \<Rightarrow> db \<Rightarrow> bool" where
  call: "store_step d (snd (store_exec st env c d))"
| lease: "store_step d (issue_epoch providerID d)"
| user: "store_step d (d\<lparr>users := u # users d\<rparr>)"
| publish: "store_step d (d\<lparr>catalog_head := h, catalog_entries := ces, problem_artifacts := pas\<rparr>)"

inductive store_run :: "db \<Rightarrow> db \<Rightarrow> bool" where
  stay: "store_run d d"
| step: "store_run d d' \<Longrightarrow> store_step d' d'' \<Longrightarrow> store_run d d''"

inductive_cases store_stepE: "store_step d d'"

definition empty_db :: db where
  "empty_db = \<lparr>users = [], sessions = [], allocations = [], operations = [], events = [], attempts = [],
     epochs = [], catalog_head = None, catalog_entries = [], problem_artifacts = []\<rparr>"

lemma rows_le_frame [simp]:
  "rows_le d (d\<lparr>users := x1\<rparr>)" "rows_le d (d\<lparr>epochs := x2\<rparr>)"
  "rows_le d (d\<lparr>catalog_head := x3, catalog_entries := x4, problem_artifacts := x5\<rparr>)" "rows_le d (issue_epoch p d)"
  by (auto simp: rows_le_def table_le_refl issue_epoch_def split: option.splits)

lemma schema_ok_frame:
  "schema_ok d \<Longrightarrow> schema_ok (d\<lparr>users := u # users d\<rparr>)" "schema_ok d \<Longrightarrow> schema_ok (d\<lparr>epochs := x2\<rparr>)"
  "schema_ok d \<Longrightarrow> schema_ok (d\<lparr>catalog_head := x3, catalog_entries := x4, problem_artifacts := x5\<rparr>)"
  "schema_ok d \<Longrightarrow> schema_ok (issue_epoch p d)"
  by (auto simp: schema_ok_def schema_def list_all_iff issue_epoch_def split: option.splits)

lemma gapless_frame:
  "gapless d \<Longrightarrow> gapless (d\<lparr>users := x1\<rparr>)" "gapless d \<Longrightarrow> gapless (d\<lparr>epochs := x2\<rparr>)"
  "gapless d \<Longrightarrow> gapless (d\<lparr>catalog_head := x3, catalog_entries := x4, problem_artifacts := x5\<rparr>)"
  "gapless d \<Longrightarrow> gapless (issue_epoch p d)"
  by (auto simp: gapless_def allocation_gapless_def sequences_of_def list_all_iff issue_epoch_def split: option.splits)

lemma store_step_rows: "store_step d d' \<Longrightarrow> rows_le d d'"
  using history.exec_step by (auto elim!: store_stepE simp: store_le_def)

lemma store_step_log: "store_step d d' \<Longrightarrow> log_inv d \<Longrightarrow> log_inv d'"
  using log.exec_step
  by (auto elim!: store_stepE simp: log_step_def log_inv_def intro: schema_ok_frame gapless_frame)

lemma store_run_rows: "store_run d d' \<Longrightarrow> rows_le d d'"
  by (induction rule: store_run.induct) (auto intro: rows.refl_step rows.trans_step dest: store_step_rows)

lemma store_run_log: "store_run d d' \<Longrightarrow> log_inv d \<Longrightarrow> log_inv d'"
  by (induction rule: store_run.induct) (auto dest: store_step_log)

lemma empty_log_inv: "log_inv empty_db"
  by (simp add: log_inv_def gapless_def schema_ok_def schema_def empty_db_def)

lemma store_run_trans: "store_run d d' \<Longrightarrow> store_run d' d'' \<Longrightarrow> store_run d d''"
  by (rotate_tac, induction rule: store_run.induct) (auto intro: store_run.intros)

end
