(* ===== verification/Store_Demo.thy ===== *)
theory Store_Demo
  imports Store_System
begin

text \<open>
  Concrete states of the durable store, small enough to evaluate: one user, one session of
  generation 1 with its allocation, create operation, first event and attempt, under a controller of
  epoch 1. The witnesses of the properties run the model on them.
\<close>

definition demo_store :: postgres_store where
  "demo_store = \<lparr>st_fence = \<lparr>FenceProviderID = ''local'', FenceEpoch = 1\<rparr>\<rparr>"

definition demo_env :: tx_env where
  "demo_env = \<lparr>env_now = 100, env_clock = 100, env_op_id = (\<lambda>n. ''op-'' @ replicate n CHR ''i''), env_attempt_id = ''attempt-2'',
     env_lease_token = ''token-1'', env_commit = Committed, env_lookup_fails = False\<rparr>"

definition demo_ref :: allocation_ref where
  "demo_ref = AllocationRef ''a1'' (SessionRef ''s1'' 1) ''local-docker''"

definition demo_session :: "string \<Rightarrow> string \<Rightarrow> session_row" where
  "demo_session state desired =
     \<lparr>s_id = ''s1'', s_user_id = ''u1'', s_problem_id = ''p1'', s_problem_revision = ''r1'', s_catalog_generation = Some 1,
      s_current_generation = 1, s_state = state, s_desired_state = desired, s_queued_at = 10, s_started_at = None,
      s_expires_at = 1000, s_finished_at = None, s_created_at = 10\<rparr>"

definition demo_allocation :: "string \<Rightarrow> string \<Rightarrow> int \<Rightarrow> allocation_row" where
  "demo_allocation desired observed n =
     \<lparr>a_id = ''a1'', a_session_id = ''s1'', a_generation = 1, a_provider_kind = ''local-docker'', a_provider_id = ''local'',
      a_resource_profile = ''small'', a_desired_state = desired, a_observed_state = observed, a_expires_at = 1000,
      a_failure_code = None, a_failure_message = None, a_last_event_sequence = n, a_created_at = 10\<rparr>"

definition demo_operation :: "string \<Rightarrow> string \<Rightarrow> string \<Rightarrow> byte list \<Rightarrow> string \<Rightarrow> operation_row" where
  "demo_operation oid kind key hash state =
     \<lparr>o_id = oid, o_allocation_id = ''a1'', o_provider_id = ''local'', o_kind = kind, o_idempotency_key = key,
      o_request_hash = hash, o_state = state, o_error_code = None, o_error_message = None, o_result_metadata = [],
      o_attempt_count = 0, o_next_attempt_at = None, o_lease_token = None, o_lease_owner = None,
      o_lease_expires_at = None, o_started_at = None,
      o_completed_at = (if state \<in> {''succeeded'', ''failed''} then Some 50 else None), o_created_at = 10\<rparr>"

definition demo_event :: "int \<Rightarrow> string \<Rightarrow> string \<Rightarrow> event_row" where
  "demo_event n eventType reason = new_event ''a1'' n eventType reason ''text'' 10"

definition demo_attempt :: "string \<Rightarrow> attempt_row" where
  "demo_attempt status = (new_attempt ''s1'' ''u1'' ''p1'' 10 ''s1'' 1)\<lparr>t_status := status\<rparr>"

definition demo_db :: "session_row \<Rightarrow> allocation_row \<Rightarrow> operation_row list \<Rightarrow> event_row list \<Rightarrow> attempt_row \<Rightarrow> db" where
  "demo_db s a ops evs t =
     \<lparr>users = [''u1''], sessions = [s], allocations = [a], operations = ops, events = evs, attempts = [t],
      epochs = [(''local'', 1)], catalog_head = Some 1, catalog_entries = [(1, ''p1'', ''r1'')],
      problem_artifacts = [(''p1'', ''r1'')]\<rparr>"

definition demo_create :: "string \<Rightarrow> operation_row" where
  "demo_create state = demo_operation ''op-c'' ''create'' ''create:s1:1'' (sha256_string ''create'') state"

text \<open>A session that is ready: its environment runs and its attempt is in progress.\<close>

definition demo_ready :: db where
  "demo_ready = demo_db (demo_session ''ready'' ''active'') (demo_allocation ''active'' ''running'' 1)
     [demo_create ''succeeded''] [demo_event 1 ''allocation_reserved'' ''create_requested''] (demo_attempt ''in_progress'')"

lemmas demo_row_defs = demo_store_def demo_env_def demo_ref_def demo_session_def demo_allocation_def
  demo_operation_def demo_event_def new_event_def demo_attempt_def new_attempt_def demo_db_def demo_create_def
lemmas demo_schema_defs = schema_ok_def schema_def session_check_def allocation_check_def operation_check_def
  lease_shape_def completion_shape_def event_check_def attempt_check_def active_session_def
  active_allocation_def running_verify_def in_progress_def unique_by_def pg_text_def

text \<open>Forward evaluation: a statement whose resulting state satisfies the schema.\<close>

lemma sql_exec_ok: "schema_ok (f d) \<Longrightarrow> sql_exec f d = Inr ((), f d)"
  by (simp add: sql_exec_Inr)

lemmas demo_statement_defs = update_sessions_def update_allocations_def update_operations_def update_attempts_def
  insert_session_def insert_allocation_def insert_operation_def insert_events_def insert_attempt_def
  exec_any_def exec_one_def fresh_operation_def new_operation_def log_event_def reserve_sequence_def logged_event_def
  count_where_def

lemmas demo_guard_defs = lockControllerEpochTx_def lockExactAllocation_def requireProvider_def enter_exact_def
  ref_incomplete_def row_matches_ref_def lock_user_def attemptStatusTx_def uint64_def AllocationRef_def SessionRef_def
  row_lookup_defs

lemmas demo_eval = tx_defs sql_exec_ok demo_statement_defs demo_guard_defs demo_schema_defs demo_row_defs

lemma demo_ready_ok: "log_inv demo_ready"
  by (simp add: log_inv_def demo_ready_def demo_row_defs demo_schema_defs gapless_def allocation_gapless_def
      sequences_of_def)

lemma demo_epoch: "epoch_current demo_store demo_ready"
  by (simp add: epoch_current_def demo_ready_def demo_row_defs uint64_def)

end
