(* ===== verification/Store_Coherence.thy ===== *)
theory Store_Coherence
  imports Store_System
begin

text \<open>
  The desired states of a session, its allocations and its attempts agree: an allocation is desired
  active exactly when it is the current generation of an active session, and an attempt is in
  progress exactly when it is the attempt of the current generation of an active session
  (\<open>coherent\<close>). Every call keeps this, whatever the commit does.

  Three relations carry the proofs. \<open>core_same\<close>: nothing the invariant reads has changed.
  \<open>frame_out sid X\<close>: only session \<open>sid\<close>, the allocations in \<open>X\<close> and the attempts of \<open>sid\<close> may have.
  \<open>shrink\<close>: rows of these tables only move forward and none was added, so what is inactive stays so.
  A terminal transition then needs one fact of its own: at the end, session \<open>sid\<close> is \<open>closed\<close>.
\<close>

section \<open>The invariant\<close>

definition allocation_agrees :: "session_row \<Rightarrow> allocation_row \<Rightarrow> bool" where
  "allocation_agrees s a \<longleftrightarrow>
     (a_session_id a = s_id s \<longrightarrow>
        (active_allocation a \<longleftrightarrow> active_session s \<and> a_generation a = s_current_generation s))"

definition attempt_agrees :: "session_row \<Rightarrow> attempt_row \<Rightarrow> bool" where
  "attempt_agrees s t \<longleftrightarrow>
     (t_session_id t = s_id s \<longrightarrow>
        (in_progress t \<longleftrightarrow> active_session s \<and> t_generation t = s_current_generation s))"

definition coherent :: "db \<Rightarrow> bool" where
  "coherent d \<longleftrightarrow> list_all (\<lambda>s.
     list_all (allocation_agrees s) (allocations d) \<and> list_all (attempt_agrees s) (attempts d)) (sessions d)"

lemma coherentD:
  assumes "coherent d" and "s \<in> set (sessions d)"
  shows "a \<in> set (allocations d) \<Longrightarrow> allocation_agrees s a" and "t \<in> set (attempts d) \<Longrightarrow> attempt_agrees s t"
  using assms by (simp_all add: coherent_def list_all_iff)

lemma coherentI:
  assumes "\<And>s a. s \<in> set (sessions d) \<Longrightarrow> a \<in> set (allocations d) \<Longrightarrow> allocation_agrees s a"
    and "\<And>s t. s \<in> set (sessions d) \<Longrightarrow> t \<in> set (attempts d) \<Longrightarrow> attempt_agrees s t"
  shows "coherent d"
  using assms by (simp add: coherent_def list_all_iff)

section \<open>Relations\<close>

definition s_core :: "session_row \<Rightarrow> string \<times> int \<times> bool" where
  "s_core s = (s_id s, s_current_generation s, active_session s)"

definition a_core :: "allocation_row \<Rightarrow> string \<times> string \<times> int \<times> bool" where
  "a_core a = (a_id a, a_session_id a, a_generation a, active_allocation a)"

definition t_core :: "attempt_row \<Rightarrow> string \<times> int \<times> bool" where
  "t_core t = (t_session_id t, t_generation t, in_progress t)"

definition core_same :: "db \<Rightarrow> db \<Rightarrow> bool" where
  "core_same d d' \<longleftrightarrow> (schema_ok d \<longrightarrow> schema_ok d') \<and> map s_core (sessions d') = map s_core (sessions d) \<and>
     map a_core (allocations d') = map a_core (allocations d) \<and> map t_core (attempts d') = map t_core (attempts d)"

definition frame_out :: "string \<Rightarrow> string set \<Rightarrow> db \<Rightarrow> db \<Rightarrow> bool" where
  "frame_out sid X d d' \<longleftrightarrow>
     map (\<lambda>a. (a_id a, a_session_id a)) (allocations d') = map (\<lambda>a. (a_id a, a_session_id a)) (allocations d) \<and>
     map s_core (filter (\<lambda>s. s_id s \<noteq> sid) (sessions d')) = map s_core (filter (\<lambda>s. s_id s \<noteq> sid) (sessions d)) \<and>
     map a_core (filter (\<lambda>a. a_id a \<notin> X) (allocations d')) = map a_core (filter (\<lambda>a. a_id a \<notin> X) (allocations d)) \<and>
     map t_core (filter (\<lambda>t. t_session_id t \<noteq> sid) (attempts d')) = map t_core (filter (\<lambda>t. t_session_id t \<noteq> sid) (attempts d))"

definition shrink :: "db \<Rightarrow> db \<Rightarrow> bool" where
  "shrink d d' \<longleftrightarrow> list_all2 session_le (sessions d) (sessions d') \<and>
     list_all2 allocation_le (allocations d) (allocations d') \<and> list_all2 attempt_le (attempts d) (attempts d')"

interpretation core: tx_preorder core_same
  by unfold_locales (auto simp: core_same_def)

interpretation frame: tx_preorder "frame_out sid X" for sid X
  by unfold_locales (auto simp: frame_out_def)

interpretation shrink: tx_preorder shrink
  by unfold_locales (auto simp: shrink_def list_all2_refl
      intro: list_all2_trans [OF session_le_trans] list_all2_trans [OF allocation_le_trans] list_all2_trans [OF attempt_le_trans])

named_theorems core_intros "rules that put a transaction inside core_same"
named_theorems frame_intros "rules that put a transaction inside frame_out"
named_theorems shrink_intros "rules that put a transaction inside shrink"

lemma map_filter_cong:
  assumes "map g xs = map g ys" and P: "\<And>x. P x = Q (g x)"
  shows "map g (filter P xs) = map g (filter P ys)"
proof -
  have "map g (filter P zs) = filter Q (map g zs)" for zs
    by (induction zs) (simp_all add: P)
  with assms(1) show ?thesis by simp
qed

lemma map_factor: "map g xs = map g ys \<Longrightarrow> (\<And>x. h x = k (g x)) \<Longrightarrow> map h xs = map h ys"
proof -
  assume eq: "map g xs = map g ys" and h: "\<And>x. h x = k (g x)"
  have "map h zs = map k (map g zs)" for zs by (simp add: h)
  with eq show "map h xs = map h ys" by (simp only:)
qed

lemma core_same_frame: "core_same d d' \<Longrightarrow> frame_out sid X d d'"
  unfolding frame_out_def core_same_def
  by (auto intro: map_filter_cong [where Q = "\<lambda>x. fst x \<noteq> sid"] map_filter_cong [where Q = "\<lambda>x. fst x \<notin> X"]
      map_factor [where g = a_core and k = "\<lambda>(i, s, _). (i, s)"] simp: s_core_def a_core_def t_core_def)

lemma core_rel_frame: "tx_rel core_same m \<Longrightarrow> tx_rel (frame_out sid X) m"
  by (rule tx_relI) (auto dest: tx_relD intro: core_same_frame)

section \<open>Statements\<close>

lemma core_update_sessions [core_intros]:
  "(\<And>s. P s \<Longrightarrow> s_core (f s) = s_core s) \<Longrightarrow> tx_rel core_same (update_sessions P f)"
  by (rule tx_relI) (auto simp: sql_Inr core_same_def intro: map_update_where)

lemma core_update_allocations [core_intros]:
  "(\<And>a. P a \<Longrightarrow> a_core (f a) = a_core a) \<Longrightarrow> tx_rel core_same (update_allocations P f)"
  by (rule tx_relI) (auto simp: sql_Inr core_same_def intro: map_update_where)

lemma core_update_attempts [core_intros]:
  "(\<And>t. P t \<Longrightarrow> t_core (f t) = t_core t) \<Longrightarrow> tx_rel core_same (update_attempts P f)"
  by (rule tx_relI) (auto simp: sql_Inr core_same_def intro: map_update_where)

lemma core_neutral [core_intros]:
  "tx_rel core_same (update_operations P f)" "tx_rel core_same (insert_operation r)" "tx_rel core_same (insert_events es)"
  by (rule tx_relI, auto simp: sql_Inr core_same_def)+

lemma core_exec [core_intros]: "tx_rel core_same m \<Longrightarrow> tx_rel core_same (exec_any m)"
  "tx_rel core_same m \<Longrightarrow> tx_rel core_same (exec_one m e)"
  unfolding exec_any_def exec_one_def by (intro core.rel_intros; assumption)+

lemma frame_update_sessions [frame_intros]:
  "(\<And>s. P s \<Longrightarrow> s_id s = sid \<and> s_id (f s) = sid) \<Longrightarrow> tx_rel (frame_out sid X) (update_sessions P f)"
  by (rule tx_relI) (auto simp: sql_Inr frame_out_def filter_update_where intro!: map_update_where)

lemma frame_update_allocations [frame_intros]:
  "(\<And>a. P a \<Longrightarrow> a_id a \<in> X \<and> a_id (f a) = a_id a \<and> a_session_id (f a) = a_session_id a) \<Longrightarrow>
   tx_rel (frame_out sid X) (update_allocations P f)"
  by (rule tx_relI) (auto simp: sql_Inr frame_out_def filter_update_where intro!: map_update_where)

lemma frame_update_attempts [frame_intros]:
  "(\<And>t. P t \<Longrightarrow> t_session_id t = sid \<and> t_session_id (f t) = sid) \<Longrightarrow> tx_rel (frame_out sid X) (update_attempts P f)"
  by (rule tx_relI) (auto simp: sql_Inr frame_out_def filter_update_where intro!: map_update_where)

lemma frame_exec [frame_intros]: "tx_rel (frame_out sid X) m \<Longrightarrow> tx_rel (frame_out sid X) (exec_any m)"
  "tx_rel (frame_out sid X) m \<Longrightarrow> tx_rel (frame_out sid X) (exec_one m e)"
  unfolding exec_any_def exec_one_def by (intro frame.rel_intros; assumption)+

lemma shrink_updates [shrink_intros]:
  "(\<And>s. PS s \<Longrightarrow> session_le s (fs s)) \<Longrightarrow> tx_rel shrink (update_sessions PS fs)"
  "(\<And>a. PA a \<Longrightarrow> allocation_le a (fa a)) \<Longrightarrow> tx_rel shrink (update_allocations PA fa)"
  "(\<And>t. PT t \<Longrightarrow> attempt_le t (ft t)) \<Longrightarrow> tx_rel shrink (update_attempts PT ft)"
  "tx_rel shrink (update_operations PO fo)" "tx_rel shrink (insert_operation r)" "tx_rel shrink (insert_events es)"
  by (rule tx_relI, auto simp: sql_Inr shrink_def list_all2_refl update_where_def list_all2_map2 list_all2_same)+

lemma shrink_exec [shrink_intros]: "tx_rel shrink m \<Longrightarrow> tx_rel shrink (exec_any m)"
  "tx_rel shrink m \<Longrightarrow> tx_rel shrink (exec_one m e)"
  unfolding exec_any_def exec_one_def by (intro shrink.rel_intros; assumption)+

section \<open>Using the relations\<close>

lemma core_same_coherent:
  assumes "core_same d d'" and "coherent d"
  shows "coherent d'"
proof -
  let ?ok = "\<lambda>S A T. list_all (\<lambda>(i, g, b). list_all (\<lambda>(_, i', g', b'). i' = i \<longrightarrow> (b' \<longleftrightarrow> b \<and> g' = g)) A \<and>
      list_all (\<lambda>(i', g', b'). i' = i \<longrightarrow> (b' \<longleftrightarrow> b \<and> g' = g)) T) S"
  have "coherent e \<longleftrightarrow> ?ok (map s_core (sessions e)) (map a_core (allocations e)) (map t_core (attempts e))" for e
    by (simp add: coherent_def list_all_iff s_core_def a_core_def t_core_def allocation_agrees_def attempt_agrees_def)
  with assms show ?thesis by (simp only: core_same_def)
qed

definition closed_session :: "string \<Rightarrow> db \<Rightarrow> bool" where
  "closed_session sid d \<longleftrightarrow> list_all (\<lambda>s. s_id s = sid \<longrightarrow> \<not> active_session s) (sessions d)"

definition closed_allocations :: "string \<Rightarrow> db \<Rightarrow> bool" where
  "closed_allocations sid d \<longleftrightarrow> list_all (\<lambda>a. a_session_id a = sid \<longrightarrow> \<not> active_allocation a) (allocations d)"

definition closed_attempts :: "string \<Rightarrow> db \<Rightarrow> bool" where
  "closed_attempts sid d \<longleftrightarrow> list_all (\<lambda>t. t_session_id t = sid \<longrightarrow> \<not> in_progress t) (attempts d)"

definition closed :: "string \<Rightarrow> db \<Rightarrow> bool" where
  "closed sid d \<longleftrightarrow> closed_session sid d \<and> closed_allocations sid d \<and> closed_attempts sid d"

lemma list_all_forward:
  "list_all2 Q xs ys \<Longrightarrow> list_all P xs \<Longrightarrow> (\<And>x y. x \<in> set xs \<Longrightarrow> Q x y \<Longrightarrow> P x \<Longrightarrow> P' y) \<Longrightarrow> list_all P' ys"
  by (fastforce simp: list_all_length list_all2_conv_all_nth in_set_conv_nth)

lemma inactive_iff:
  "session_check s \<Longrightarrow> \<not> active_session s \<longleftrightarrow> s_desired_state s = ''absent''"
  "allocation_check a \<Longrightarrow> \<not> active_allocation a \<longleftrightarrow> a_desired_state a = ''absent''"
  by (auto simp: session_check_def allocation_check_def active_session_def active_allocation_def)

lemma shrink_closed:
  assumes "shrink d d'" and "schema_ok d"
  shows "closed_session sid d \<Longrightarrow> closed_session sid d'" and "closed_allocations sid d \<Longrightarrow> closed_allocations sid d'"
    and "closed_attempts sid d \<Longrightarrow> closed_attempts sid d'"
proof -
  have ck: "\<And>s. s \<in> set (sessions d) \<Longrightarrow> session_check s" "\<And>a. a \<in> set (allocations d) \<Longrightarrow> allocation_check a"
    using schema_okD(1,4) [OF assms(2)] by (auto simp: list_all_iff)
  show "closed_session sid d'" if "closed_session sid d"
    unfolding closed_session_def using assms(1) that
    by (auto simp: shrink_def closed_session_def session_le_def active_session_def dest!: ck(1) inactive_iff(1)
        elim!: list_all_forward)
  show "closed_allocations sid d'" if "closed_allocations sid d"
    unfolding closed_allocations_def using assms(1) that
    by (auto simp: shrink_def closed_allocations_def allocation_le_def active_allocation_def dest!: ck(2) inactive_iff(2)
        elim!: list_all_forward)
  show "closed_attempts sid d'" if "closed_attempts sid d"
    unfolding closed_attempts_def using assms(1) that
    by (auto simp: shrink_def closed_attempts_def attempt_le_def in_progress_def elim!: list_all_forward)
qed

lemma frame_agrees:
  assumes coh: "coherent d" and fr: "frame_out sid X d d'" and s: "s \<in> set (sessions d')" "s_id s \<noteq> sid"
  shows "a \<in> set (allocations d') \<Longrightarrow> a_id a \<notin> X \<Longrightarrow> allocation_agrees s a"
    and "t \<in> set (attempts d') \<Longrightarrow> attempt_agrees s t"
proof -
  have "s_core s \<in> set (map s_core (filter (\<lambda>s. s_id s \<noteq> sid) (sessions d')))" using s by auto
  then obtain s0 where s0: "s0 \<in> set (sessions d)" "s_core s0 = s_core s" using fr unfolding frame_out_def by auto
  show "allocation_agrees s a" if "a \<in> set (allocations d')" "a_id a \<notin> X"
  proof -
    have "a_core a \<in> set (map a_core (filter (\<lambda>a. a_id a \<notin> X) (allocations d')))" using that by auto
    then obtain a0 where "a0 \<in> set (allocations d)" "a_core a0 = a_core a" using fr unfolding frame_out_def by auto
    with s0 show ?thesis using coherentD(1) [OF coh, of s0 a0] by (simp add: allocation_agrees_def s_core_def a_core_def)
  qed
  show "attempt_agrees s t" if "t \<in> set (attempts d')"
  proof (cases "t_session_id t = sid")
    case False
    then have "t_core t \<in> set (map t_core (filter (\<lambda>t. t_session_id t \<noteq> sid) (attempts d')))" using that by auto
    then obtain t0 where "t0 \<in> set (attempts d)" "t_core t0 = t_core t" using fr unfolding frame_out_def by auto
    with s0 show ?thesis using coherentD(2) [OF coh, of s0 t0] by (simp add: attempt_agrees_def s_core_def t_core_def)
  qed (use s in \<open>simp add: attempt_agrees_def\<close>)
qed

lemma coherent_close:
  assumes coh: "coherent d" and fr: "frame_out sid X d d'" and cl: "closed sid d'"
    and X: "\<And>a. a \<in> set (allocations d) \<Longrightarrow> a_id a \<in> X \<Longrightarrow> a_session_id a = sid"
  shows "coherent d'"
proof (rule coherentI)
  fix s a assume s: "s \<in> set (sessions d')" and a: "a \<in> set (allocations d')"
  show "allocation_agrees s a"
  proof (cases "s_id s = sid \<or> a_session_id a \<noteq> s_id s")
    case True
    then show ?thesis using cl s a
      by (auto simp: allocation_agrees_def closed_def closed_session_def closed_allocations_def list_all_iff)
  next
    case False
    have "(a_id a, a_session_id a) \<in> set (map (\<lambda>a. (a_id a, a_session_id a)) (allocations d'))"
      using a by simp
    then have "(a_id a, a_session_id a) \<in> set (map (\<lambda>a. (a_id a, a_session_id a)) (allocations d))"
      using fr by (simp only: frame_out_def)
    then have "a_id a \<notin> X" using X False by auto
    with False show ?thesis using frame_agrees(1) [OF coh fr s _ a] by simp
  qed
next
  fix s t assume s: "s \<in> set (sessions d')" and t: "t \<in> set (attempts d')"
  show "attempt_agrees s t"
  proof (cases "s_id s = sid")
    case True
    then show ?thesis using cl s t
      by (auto simp: attempt_agrees_def closed_def closed_session_def closed_attempts_def list_all_iff)
  next
    case False
    then show ?thesis using frame_agrees(2) [OF coh fr s _ t] by simp
  qed
qed

section \<open>Helpers\<close>

lemma core_base [core_intros]:
  "tx_rel core_same (lockControllerEpochTx st)" "tx_rel core_same (lockExactAllocation ref)"
  "tx_rel core_same (destroyOutcomeTx i)" "tx_rel core_same (attemptStatusTx sref)"
  unfolding lockControllerEpochTx_def lockExactAllocation_def destroyOutcomeTx_def attemptStatusTx_def
  by (intro core.rel_intros)+

lemma core_log [core_intros]: "tx_rel core_same (log_event env i k ty rc msg doc)"
  unfolding log_event_def reserve_sequence_def
  by (intro core.rel_intros core_intros) (simp add: a_core_def active_allocation_def)

lemma core_events [core_intros]:
  "tx_rel core_same (enter_exact st ref)" "tx_rel core_same (lock_user u e)"
  "tx_rel core_same (ensureEventTx env i ty rc msg)" "tx_rel core_same (ensure_event env i ty rc msg)"
  "tx_rel core_same (ensureKeyedEventTx env i k ty rc msg doc)" "tx_rel core_same (ensure_keyed_event env i k ty rc msg doc)"
  unfolding enter_exact_def lock_user_def ensure_event_def ensureEventTx_def appendEventTx_def ensure_keyed_event_def
    ensureKeyedEventTx_def
  by (intro core.rel_intros core_intros)+

lemma core_operations [core_intros]:
  "tx_rel core_same (fresh_operation env i p k key h s t)" "tx_rel core_same (ensureDestroyOperationTx env i p)"
  "tx_rel core_same (ensure_destroy env i p)" "tx_rel core_same (loadReservationByOperation p k)"
  "tx_rel core_same (create_admission env ref p c s)" "tx_rel core_same (require_current ref)"
  "tx_rel core_same (ensureVerifyOperationTx env ref p vi)" "tx_rel core_same (loadVerifyDecisionTx ref p vi)"
  "tx_rel core_same (finish_operation env p k s c' doc)" "tx_rel core_same (restore_ready ref)"
  "tx_rel core_same (grade_failed ref l)"
  unfolding ensure_destroy_def ensureDestroyOperationTx_def fresh_operation_def Let_def loadReservationByOperation_def
    create_admission_def require_current_def ensureVerifyOperationTx_def loadVerifyDecisionTx_def finish_operation_def
    restore_ready_def grade_failed_def
  by (intro core.rel_intros core_intros; simp add: s_core_def t_core_def active_session_def in_progress_def)+

lemma core_shrink_log [shrink_intros]: "tx_rel shrink (log_event env i k ty rc msg doc)"
  unfolding log_event_def reserve_sequence_def
  by (intro shrink.rel_intros shrink_intros) (simp add: allocation_le_def)

lemma shrink_helpers [shrink_intros]:
  "tx_rel shrink (ensureEventTx env i ty rc msg)" "tx_rel shrink (ensure_event env i ty rc msg)"
  "tx_rel shrink (ensureKeyedEventTx env i k ty rc msg doc)" "tx_rel shrink (ensure_keyed_event env i k ty rc msg doc)"
  "tx_rel shrink (fresh_operation env i p k key h s t)" "tx_rel shrink (ensureDestroyOperationTx env i p)"
  "tx_rel shrink (ensure_destroy env i p)" "tx_rel shrink (attemptStatusTx sref)"
  unfolding ensure_event_def ensureEventTx_def appendEventTx_def ensure_keyed_event_def ensureKeyedEventTx_def
    ensure_destroy_def ensureDestroyOperationTx_def fresh_operation_def attemptStatusTx_def Let_def
  by (intro shrink.rel_intros shrink_intros)+

section \<open>Transitions that keep every desired state\<close>

lemma core_nonterminal:
  "tx_rel core_same (append_event_tx st env i ty rc msg doc)" "tx_rel core_same (create_succeeded_tx st env ref c)"
  "tx_rel core_same (setting_up_tx st env ref)" "tx_rel core_same (ready_tx st env ref)"
  "tx_rel core_same (begin_verify_tx st env u ref vi)" "tx_rel core_same (prepare_recovery_tx st env pid)"
  "tx_rel core_same (retry_destroy_tx st env dw cause delay)" "tx_rel core_same (claim_destroy_tx st env pid i owner lease)"
  "tx_rel core_same (claim_create_tx st env pid i owner lease resetOnly)"
  unfolding append_event_tx_def create_succeeded_tx_def create_succeeded_rows_def setting_up_tx_def ready_tx_def
    begin_verify_tx_def start_verify_def prepare_recovery_tx_def convergeInterruptedVerificationsTx_def converge_interrupted_def
    retry_destroy_tx_def claim_destroy_tx_def claim_create_tx_def
  by (intro core.rel_intros core_intros; simp add: s_core_def a_core_def active_session_def active_allocation_def)+

section \<open>Closing a session\<close>

text \<open>
  \<open>closing sid g aid fs fa ft\<close> follows a transaction that closes session \<open>sid\<close> at generation \<open>g\<close>,
  whose allocation is \<open>aid\<close>; the flags say which of its three parts are closed by now.
\<close>

definition closing :: "string \<Rightarrow> int \<Rightarrow> string \<Rightarrow> bool \<Rightarrow> bool \<Rightarrow> bool \<Rightarrow> db \<Rightarrow> bool" where
  "closing sid g aid fs fa ft d \<longleftrightarrow>
     schema_ok d \<and> list_all (\<lambda>s. s_id s = sid \<longrightarrow> s_current_generation s = g) (sessions d) \<and>
     list_all (\<lambda>a. a_session_id a = sid \<and> active_allocation a \<longrightarrow> a_id a = aid) (allocations d) \<and>
     list_all (\<lambda>t. t_session_id t = sid \<and> in_progress t \<longrightarrow> t_generation t = g) (attempts d) \<and>
     (fs \<longrightarrow> closed_session sid d) \<and> (fa \<longrightarrow> closed_allocations sid d) \<and> (ft \<longrightarrow> closed_attempts sid d)"

definition tx_hoare :: "(db \<Rightarrow> bool) \<Rightarrow> 'a stmt \<Rightarrow> (db \<Rightarrow> bool) \<Rightarrow> bool" where
  "tx_hoare P m Q \<longleftrightarrow> (\<forall>d x d'. P d \<longrightarrow> m d = Inr (x, d') \<longrightarrow> Q d')"

lemma hoareI: "(\<And>d x d'. P d \<Longrightarrow> m d = Inr (x, d') \<Longrightarrow> Q d') \<Longrightarrow> tx_hoare P m Q"
  by (auto simp: tx_hoare_def)

lemma hoareD: "tx_hoare P m Q \<Longrightarrow> m d = Inr (x, d') \<Longrightarrow> P d \<Longrightarrow> Q d'"
  by (auto simp: tx_hoare_def)

lemma hoare_steps:
  "tx_hoare P (tx_return x) P" "tx_hoare P (tx_guard b e) P" "tx_hoare P (tx_block []) P" "tx_hoare P (tx_fail e) P"
  "tx_hoare P m Q \<Longrightarrow> tx_hoare Q (tx_block ms) R \<Longrightarrow> tx_hoare P (tx_block (m # ms)) R"
  "tx_hoare P n Q \<Longrightarrow> tx_hoare Q k R \<Longrightarrow> tx_hoare P (tx_seq n k) R"
  "tx_hoare P n Q \<Longrightarrow> (\<And>x. tx_hoare Q (k' x) R) \<Longrightarrow> tx_hoare P (tx_bind n k') R"
  by (auto simp: tx_hoare_def tx_Inr)

named_theorems closing_intros "rules that follow a closing transaction"

lemma list_all_core:
  "map c xs = map c ys \<Longrightarrow> (\<And>x. P x = P' (c x)) \<Longrightarrow> list_all P xs = list_all P ys"
proof -
  assume eq: "map c xs = map c ys" and P: "\<And>x. P x = P' (c x)"
  have "list_all P zs = list_all P' (map c zs)" for zs by (simp add: list_all_iff P)
  with eq show ?thesis by (simp only:)
qed

lemma core_same_closing:
  assumes "core_same d d'" and "closing sid g aid fs fa ft d"
  shows "closing sid g aid fs fa ft d'"
proof -
  have eqs: "map s_core (sessions d') = map s_core (sessions d)" "map a_core (allocations d') = map a_core (allocations d)"
    "map t_core (attempts d') = map t_core (attempts d)"
    using assms(1) by (simp_all add: core_same_def)
  have "list_all (\<lambda>s. s_id s = sid \<longrightarrow> s_current_generation s = g) (sessions d') =
      list_all (\<lambda>s. s_id s = sid \<longrightarrow> s_current_generation s = g) (sessions d)"
    by (rule list_all_core [OF eqs(1), where P' = "\<lambda>(i, g', b). i = sid \<longrightarrow> g' = g"]) (simp add: s_core_def)
  moreover have "closed_session sid d' = closed_session sid d" unfolding closed_session_def
    by (rule list_all_core [OF eqs(1), where P' = "\<lambda>(i, g', b). i = sid \<longrightarrow> \<not> b"]) (simp add: s_core_def)
  moreover have "list_all (\<lambda>a. a_session_id a = sid \<and> active_allocation a \<longrightarrow> a_id a = aid) (allocations d') =
      list_all (\<lambda>a. a_session_id a = sid \<and> active_allocation a \<longrightarrow> a_id a = aid) (allocations d)"
    by (rule list_all_core [OF eqs(2), where P' = "\<lambda>(i, j, g', b). j = sid \<and> b \<longrightarrow> i = aid"]) (simp add: a_core_def)
  moreover have "closed_allocations sid d' = closed_allocations sid d" unfolding closed_allocations_def
    by (rule list_all_core [OF eqs(2), where P' = "\<lambda>(i, j, g', b). j = sid \<longrightarrow> \<not> b"]) (simp add: a_core_def)
  moreover have "list_all (\<lambda>t. t_session_id t = sid \<and> in_progress t \<longrightarrow> t_generation t = g) (attempts d') =
      list_all (\<lambda>t. t_session_id t = sid \<and> in_progress t \<longrightarrow> t_generation t = g) (attempts d)"
    by (rule list_all_core [OF eqs(3), where P' = "\<lambda>(i, g', b). i = sid \<and> b \<longrightarrow> g' = g"]) (simp add: t_core_def)
  moreover have "closed_attempts sid d' = closed_attempts sid d" unfolding closed_attempts_def
    by (rule list_all_core [OF eqs(3), where P' = "\<lambda>(i, g', b). i = sid \<longrightarrow> \<not> b"]) (simp add: t_core_def)
  ultimately show ?thesis using assms by (simp add: closing_def core_same_def)
qed

lemma closing_neutral [closing_intros]:
  "tx_rel core_same m \<Longrightarrow> tx_hoare (closing sid g aid fs fa ft) m (closing sid g aid fs fa ft)"
  by (rule hoareI) (auto dest: tx_relD intro: core_same_closing)

lemma closing_sessions [closing_intros]:
  assumes "\<And>s. s_id s = sid \<Longrightarrow> s_current_generation s = g \<Longrightarrow> active_session s \<Longrightarrow> P s"
    and "\<And>s. P s \<Longrightarrow> s_id (f s) = s_id s \<and> s_current_generation (f s) = s_current_generation s \<and> \<not> active_session (f s)"
  shows "tx_hoare (closing sid g aid fs fa ft) (update_sessions P f) (closing sid g aid True fa ft)"
  using assms by (auto intro!: hoareI simp: sql_Inr closing_def closed_session_def closed_allocations_def
      closed_attempts_def list_all_iff set_update_where)

lemma closing_allocations [closing_intros]:
  assumes "\<And>a. a_id a = aid \<Longrightarrow> active_allocation a \<Longrightarrow> P a"
    and "\<And>a. P a \<Longrightarrow> a_id (f a) = a_id a \<and> a_session_id (f a) = a_session_id a \<and> \<not> active_allocation (f a)"
  shows "tx_hoare (closing sid g aid fs fa ft) (update_allocations P f) (closing sid g aid fs True ft)"
  using assms by (fastforce intro!: hoareI simp: sql_Inr closing_def closed_session_def closed_allocations_def
      closed_attempts_def list_all_iff set_update_where)

lemma closing_attempts [closing_intros]:
  assumes "\<And>t. t_session_id t = sid \<Longrightarrow> t_generation t = g \<Longrightarrow> in_progress t \<Longrightarrow> P t"
    and "\<And>t. P t \<Longrightarrow> t_session_id (f t) = t_session_id t \<and> t_generation (f t) = t_generation t \<and> \<not> in_progress (f t)"
  shows "tx_hoare (closing sid g aid fs fa ft) (update_attempts P f) (closing sid g aid fs fa True)"
  using assms by (auto intro!: hoareI simp: sql_Inr closing_def closed_session_def closed_allocations_def
      closed_attempts_def list_all_iff set_update_where)

lemma closing_exec [closing_intros]: "tx_hoare P m Q \<Longrightarrow> tx_hoare P (exec_any m) Q"
  "tx_hoare P m Q \<Longrightarrow> tx_hoare P (exec_one m e) Q"
  unfolding exec_any_def exec_one_def by (auto simp: tx_hoare_def tx_Inr)

lemmas closing_rules = closing_exec closing_sessions closing_allocations closing_attempts hoare_steps
  closing_neutral core_intros
lemmas frame_rules = frame.rel_intros frame_intros core_rel_frame core_intros
lemmas active_defs = row_change_defs active_session_def active_allocation_def in_progress_def

lemma find_session: "session_by_id i d = Some s \<Longrightarrow> s \<in> set (sessions d) \<and> s_id s = i"
  by (auto simp: session_by_id_def dest: find_Some_iff_in)

lemma find_allocation: "allocation_by_id i d = Some a \<Longrightarrow> a \<in> set (allocations d) \<and> a_id a = i"
  by (auto simp: allocation_by_id_def dest: find_Some_iff_in)

lemma find_attempt: "attempt_of i g d = Some t \<Longrightarrow> t \<in> set (attempts d) \<and> t_session_id t = i \<and> t_generation t = g"
  by (auto simp: attempt_of_def dest: find_Some_iff_in)

lemma unique_rows:
  assumes "schema_ok d"
  shows "s \<in> set (sessions d) \<Longrightarrow> s' \<in> set (sessions d) \<Longrightarrow> s_id s' = s_id s \<Longrightarrow> s' = s"
    and "a \<in> set (allocations d) \<Longrightarrow> a' \<in> set (allocations d) \<Longrightarrow> a_id a' = a_id a \<Longrightarrow> a' = a"
    and "a \<in> set (allocations d) \<Longrightarrow> a' \<in> set (allocations d) \<Longrightarrow> a_session_id a' = a_session_id a \<Longrightarrow>
      a_generation a' = a_generation a \<Longrightarrow> a' = a"
    and "t \<in> set (attempts d) \<Longrightarrow> t' \<in> set (attempts d) \<Longrightarrow> t_session_id t' = t_session_id t \<Longrightarrow>
      t_generation t' = t_generation t \<Longrightarrow> t' = t"
  using unique_byD [OF schema_okD(2) [OF assms]] unique_byD [OF schema_okD(5) [OF assms]]
    unique_byD [OF schema_okD(6) [OF assms]] unique_byD [OF schema_okD(22) [OF assms]]
  by auto

lemma closing_start:
  assumes ok: "schema_ok d" and coh: "coherent d"
    and s: "s \<in> set (sessions d)" "s_id s = sid" "s_current_generation s = g"
    and a: "a \<in> set (allocations d)" "a_id a = aid" "a_session_id a = sid" "a_generation a = g"
  shows "closing sid g aid (\<not> active_session s) (\<not> active_session s) (\<not> active_session s) d"
proof -
  have only: "s' = s" if "s' \<in> set (sessions d)" "s_id s' = sid" for s'
    using unique_rows(1) [OF ok s(1) that(1)] s(2) that(2) by simp
  have al: "active_allocation a' \<longleftrightarrow> active_session s \<and> a_generation a' = g"
    if "a' \<in> set (allocations d)" "a_session_id a' = sid" for a'
    using coherentD(1) [OF coh s(1) that(1)] s that(2) by (simp add: allocation_agrees_def)
  have at: "in_progress t \<longleftrightarrow> active_session s \<and> t_generation t = g"
    if "t \<in> set (attempts d)" "t_session_id t = sid" for t
    using coherentD(2) [OF coh s(1) that(1)] s that(2) by (simp add: attempt_agrees_def)
  have "a_id a' = aid" if "a' \<in> set (allocations d)" "a_session_id a' = sid" "active_allocation a'" for a'
    using unique_rows(3) [OF ok a(1) that(1)] al [OF that(1,2)] a that by auto
  then show ?thesis
    using ok s by (auto simp: closing_def list_all_iff closed_session_def closed_allocations_def closed_attempts_def al at dest: only)
qed

lemma closing_finish: "closing sid g aid True True True d \<Longrightarrow> closed sid d"
  by (simp add: closing_def closed_def)

text \<open>A transaction on the exact allocation \<open>ref\<close> that closes its session keeps the invariant.\<close>

lemma closing_coherent_step:
  assumes ok: "schema_ok d" and coh: "coherent d"
    and s: "s \<in> set (sessions d)" "s_id s = sid" "s_current_generation s = g"
    and a: "a \<in> set (allocations d)" "a_id a = aid" "a_session_id a = sid" "a_generation a = g"
    and cl: "closing sid g aid (\<not> active_session s) (\<not> active_session s) (\<not> active_session s) d \<Longrightarrow>
      closing sid g aid True True True d'"
    and fr: "frame_out sid {aid} d d'"
  shows "coherent d'"
  using coh fr closing_finish [OF cl [OF closing_start [OF ok coh s a]]]
proof (rule coherent_close)
  show "a_session_id b = sid" if "b \<in> set (allocations d)" "a_id b \<in> {aid}" for b
    using unique_rows(2) [OF ok a(1) that(1)] that(2) a by auto
qed

lemma closing_weaken: "closing sid g aid fs fa ft d \<Longrightarrow> closing sid g aid False False False d"
  by (simp add: closing_def)

lemma closing_coherent:
  assumes "schema_ok d" and "coherent d"
    and s: "s \<in> set (sessions d)" "s_id s = ref_sid ref" "s_current_generation s = ref_gen ref"
    and a: "allocation_by_id (AllocID ref) d = Some a" "row_matches_ref a ref"
    and m: "tx_hoare (closing (ref_sid ref) (ref_gen ref) (AllocID ref) False False False) m
       (closing (ref_sid ref) (ref_gen ref) (AllocID ref) True True True)"
    and f: "tx_rel (frame_out (ref_sid ref) {AllocID ref}) m"
    and run: "m d = Inr (x, d')"
  shows "coherent d'"
proof (rule closing_coherent_step [OF assms(1,2) s])
  show "a \<in> set (allocations d)" "a_id a = AllocID ref" using find_allocation [OF a(1)] by simp_all
  show "a_session_id a = ref_sid ref" "a_generation a = ref_gen ref"
    using a(2) by (simp_all add: row_matches_ref_def)
qed (use hoareD [OF m run] tx_relD [OF f run] in \<open>auto dest: closing_weaken\<close>)

definition coh_step :: "db \<Rightarrow> db \<Rightarrow> bool" where
  "coh_step d d' \<longleftrightarrow> (schema_ok d \<and> coherent d \<longrightarrow> coherent d')"

lemma core_coh: "tx_rel core_same m \<Longrightarrow> tx_rel coh_step m"
  by (rule tx_relI) (auto simp: coh_step_def dest: tx_relD intro: core_same_coherent)

section \<open>Transitions that close a session\<close>

lemma create_failed_rows_closing:
  "tx_hoare (closing (ref_sid ref) (ref_gen ref) (AllocID ref) fs fa ft) (create_failed_rows env ref p code msg)
     (closing (ref_sid ref) (ref_gen ref) (AllocID ref) True True True)"
  unfolding create_failed_rows_def by (rule closing_rules | simp add: active_defs)+

lemma create_failed_rows_frame:
  "tx_rel (frame_out (ref_sid ref) {AllocID ref}) (create_failed_rows env ref p code msg)"
  unfolding create_failed_rows_def by (rule frame_rules | simp add: active_defs)+

lemma require_current_Inr:
  "require_current ref d = Inr r \<longleftrightarrow> (\<exists>s a. session_by_id (ref_sid ref) d = Some s \<and>
     allocation_by_id (AllocID ref) d = Some a \<and> s_current_generation s = ref_gen ref \<and> active_session s \<and>
     active_allocation a \<and> r = ((s, a), d))"
  by (auto simp: require_current_def tx_Inr active_session_def active_allocation_def)

lemma create_admission_state: "create_admission env ref p c s d = Inr (x, d') \<Longrightarrow> d' = d"
  by (auto simp: create_admission_def tx_Inr split: option.splits if_splits)

lemma coh_create_failed: "tx_rel coh_step (create_failed_tx st env ref code msg c)"
proof (rule tx_relI)
  fix d x d' assume run: "create_failed_tx st env ref code msg c d = Inr (x, d')"
  show "coh_step d d'" unfolding coh_step_def
  proof
    assume "schema_ok d \<and> coherent d"
    with run show "coherent d'" unfolding create_failed_tx_def
      by (auto simp: tx_Inr guard_Inrs require_current_Inr dest!: create_admission_state find_session split: if_splits
          intro: closing_coherent [OF _ _ _ _ _ _ _ create_failed_rows_closing create_failed_rows_frame])
  qed
qed

lemma verify_result_core: "\<not> (gradeSucceeded vm \<and> \<not> vm_InfrastructureError vm) \<Longrightarrow>
    tx_rel core_same (verify_result_rows env ref p vi vm doc)"
  unfolding verify_result_rows_def by (auto intro!: core.rel_intros core_intros)

lemma grade_passed_closing [closing_intros]:
  "tx_hoare (closing (ref_sid ref) (ref_gen ref) (AllocID ref) fs fa ft) (grade_passed env ref p l)
     (closing (ref_sid ref) (ref_gen ref) (AllocID ref) True True True)"
  unfolding grade_passed_def by (rule closing_rules | simp add: active_defs)+

lemma grade_passed_frame [frame_intros]: "tx_rel (frame_out (ref_sid ref) {AllocID ref}) (grade_passed env ref p l)"
  unfolding grade_passed_def by (rule frame_rules | simp add: active_defs)+

lemma verify_result_closing:
  assumes "gradeSucceeded vm" "\<not> vm_InfrastructureError vm"
  shows "tx_hoare (closing (ref_sid ref) (ref_gen ref) (AllocID ref) fs fa ft) (verify_result_rows env ref p vi vm doc)
      (closing (ref_sid ref) (ref_gen ref) (AllocID ref) True True True)"
  unfolding verify_result_rows_def using assms
  by (simp del: tx_block.simps) (rule grade_passed_closing closing_rules)+

lemma verify_result_frame:
  assumes "gradeSucceeded vm" "\<not> vm_InfrastructureError vm"
  shows "tx_rel (frame_out (ref_sid ref) {AllocID ref}) (verify_result_rows env ref p vi vm doc)"
  unfolding verify_result_rows_def using assms
  by (simp del: tx_block.simps) (rule frame.rel_intros grade_passed_frame core_rel_frame core_intros)+

lemma coh_verify_result: "tx_rel coh_step (verify_result_tx st env ref vi vm doc)"
proof (cases "gradeSucceeded vm \<and> \<not> vm_InfrastructureError vm")
  case False
  then show ?thesis unfolding verify_result_tx_def
    by (intro core_coh core.rel_intros core_intros verify_result_core)
next
  case True
  show ?thesis
  proof (rule tx_relI)
    fix d x d' assume run: "verify_result_tx st env ref vi vm doc d = Inr (x, d')"
    have "coherent d'" if "schema_ok d" "coherent d"
      using run that True unfolding verify_result_tx_def
      by (auto simp: tx_Inr guard_Inrs dest!: find_session split: if_splits
          intro: closing_coherent [OF _ _ _ _ _ _ _ verify_result_closing verify_result_frame])
    then show "coh_step d d'" by (simp add: coh_step_def)
  qed
qed

lemma choice_rows_closing:
  "tx_hoare (closing (ref_sid ref) (ref_gen ref) (AllocID ref) fs fa ft) (choice_rows env ref p vi True l doc)
      (closing (ref_sid ref) (ref_gen ref) (AllocID ref) True True True)"
  unfolding choice_rows_def
  by (simp del: tx_block.simps) (rule grade_passed_closing closing_rules core.rel_intros)+

lemma choice_rows_frame: "tx_rel (frame_out (ref_sid ref) {AllocID ref}) (choice_rows env ref p vi True l doc)"
  unfolding choice_rows_def
  by (simp del: tx_block.simps) (rule frame.rel_intros grade_passed_frame core_rel_frame core_intros)+

lemma choice_rows_core: "tx_rel core_same (choice_rows env ref p vi False l doc)"
  unfolding choice_rows_def by (auto intro!: core.rel_intros core_intros)

lemma ensure_verify_core_seq:
  assumes "ensureVerifyOperationTx env ref p vi d = Inr (x, d1)" and "choice_rows env ref p vi ok l doc d1 = Inr (u, d')"
  shows "tx_seq (ensureVerifyOperationTx env ref p vi) (choice_rows env ref p vi ok l doc) d = Inr (u, d')"
  using assms by (simp add: tx_seq_def tx_bind_def)

lemma load_verify_state: "loadVerifyDecisionTx ref p vi d = Inr (v, d') \<Longrightarrow> d' = d"
  "rejectChoiceReplayAfterSessionAdvance u sref d = Inr (x, d'') \<Longrightarrow> d'' = d"
  by (auto simp: loadVerifyDecisionTx_def rejectChoiceReplayAfterSessionAdvance_def tx_Inr split: option.splits)

lemma coh_choice: "tx_rel coh_step (choice_tx st env u ref sub vi ok l doc)"
proof (cases ok)
  case False
  have "tx_rel core_same (rejectChoiceReplayAfterSessionAdvance u sref)" for sref
    unfolding rejectChoiceReplayAfterSessionAdvance_def by (intro core.rel_intros)
  with False show ?thesis unfolding choice_tx_def Let_def
    by (intro core_coh core.rel_intros core_intros) (auto intro: choice_rows_core)
next
  case True
  let ?m = "\<lambda>p. tx_seq (ensureVerifyOperationTx env ref p vi) (choice_rows env ref p vi True l doc)"
  have m: "tx_hoare (closing (ref_sid ref) (ref_gen ref) (AllocID ref) False False False) (?m p)
      (closing (ref_sid ref) (ref_gen ref) (AllocID ref) True True True)"
    "tx_rel (frame_out (ref_sid ref) {AllocID ref}) (?m p)" for p
    by (rule hoare_steps closing_neutral core_intros choice_rows_closing)+
      (rule frame.rel_intros core_rel_frame core_intros choice_rows_frame)+
  show ?thesis
  proof (rule tx_relI)
    fix d x d' assume run: "choice_tx st env u ref sub vi ok l doc d = Inr (x, d')"
    let ?sid = "SessionID (ch_Session sub)" and ?g = "int64 (Generation (ch_Session sub))"
    obtain s a st' found d1 where s: "session_by_id ?sid d = Some s" "s_current_generation s = ?g"
      and a: "allocation_of ?sid ?g d = Some a" "AllocationRef (a_id a) (ch_Session sub) (a_provider_kind a) = ref"
      and ens: "ensureVerifyOperationTx env ref (a_provider_id a) vi d = Inr ((st', found), d1)"
      and tail: "found \<and> d' = d1 \<or> \<not> found \<and> (\<exists>w. choice_rows env ref (a_provider_id a) vi True l doc d1 = Inr (w, d'))"
      using run True unfolding choice_tx_def Let_def
      by (auto simp: tx_Inr guard_Inrs lock_user_def dest!: load_verify_state split: if_splits)
    have ref: "AllocID ref = a_id a" "ref_sid ref = ?sid" "ref_gen ref = ?g"
      using a(2) by (auto simp: AllocationRef_def)
    have a_in: "a \<in> set (allocations d)" "a_session_id a = ?sid" "a_generation a = ?g"
      using a(1) by (auto simp: allocation_of_def dest: find_Some_iff_in)
    show "coh_step d d'" unfolding coh_step_def
    proof (intro impI)
      assume ok: "schema_ok d \<and> coherent d"
      show "coherent d'"
      proof (cases found)
        case True
        then have "core_same d d'" using tail tx_relD [OF core_operations(7) ens] by simp
        with ok show ?thesis by (blast intro: core_same_coherent)
      next
        case False
        with tail obtain w where w: "?m (a_provider_id a) d = Inr (w, d')"
          using ensure_verify_core_seq [OF ens] by blast
        show ?thesis
        proof (rule closing_coherent_step)
          show "frame_out ?sid {AllocID ref} d d'" using tx_relD [OF m(2) w] by (simp add: ref)
          show "closing ?sid ?g (AllocID ref) True True True d'"
            if "closing ?sid ?g (AllocID ref) (\<not> active_session s) (\<not> active_session s) (\<not> active_session s) d"
            using hoareD [OF m(1) w] closing_weaken [OF that] by (simp add: ref)
        qed (use ok s a_in ref in \<open>auto dest: find_session\<close>)
      qed
    qed
  qed
qed

section \<open>Transitions on a closed session or an older generation\<close>

text \<open>
  \<open>keep_closed\<close>: a closed session stays closed. \<open>idle\<close>: on an allocation that is not active, of a
  generation that is not current, nothing the invariant reads changes.
\<close>

definition keep_closed :: "string \<Rightarrow> int \<Rightarrow> string \<Rightarrow> db \<Rightarrow> db \<Rightarrow> bool" where
  "keep_closed sid g aid d d' \<longleftrightarrow> (closing sid g aid True True True d \<longrightarrow> closing sid g aid True True True d')"

definition quiet :: "string \<Rightarrow> int \<Rightarrow> string \<Rightarrow> db \<Rightarrow> bool" where
  "quiet sid g aid d \<longleftrightarrow> list_all (\<lambda>a. a_id a = aid \<longrightarrow> \<not> active_allocation a) (allocations d) \<and>
     list_all (\<lambda>s. s_id s = sid \<longrightarrow> s_current_generation s \<noteq> g) (sessions d)"

definition idle :: "string \<Rightarrow> int \<Rightarrow> string \<Rightarrow> db \<Rightarrow> db \<Rightarrow> bool" where
  "idle sid g aid d d' \<longleftrightarrow> (quiet sid g aid d \<longrightarrow> quiet sid g aid d' \<and> core_same d d')"

interpretation keep: tx_preorder "keep_closed sid g aid" for sid g aid
  by unfold_locales (auto simp: keep_closed_def)

interpretation idle: tx_preorder "idle sid g aid" for sid g aid
  by unfold_locales (auto simp: idle_def intro: core.refl_step core.trans_step)

named_theorems idle_intros "rules that put a transaction inside idle"

lemma hoare_keep: "tx_hoare (closing sid g aid True True True) m (closing sid g aid True True True) \<Longrightarrow>
    tx_rel (keep_closed sid g aid) m"
  by (rule tx_relI) (auto simp: keep_closed_def dest: hoareD)

lemma core_keep: "tx_rel core_same (m :: 'a stmt) \<Longrightarrow> tx_rel (keep_closed sid g aid) m"
  by (rule hoare_keep, rule closing_neutral)

lemma core_same_quiet:
  assumes "core_same d d'" and "quiet sid g aid d"
  shows "quiet sid g aid d'"
proof -
  have eqs: "map s_core (sessions d') = map s_core (sessions d)" "map a_core (allocations d') = map a_core (allocations d)"
    using assms(1) by (simp_all add: core_same_def)
  have "list_all (\<lambda>a. a_id a = aid \<longrightarrow> \<not> active_allocation a) (allocations d') =
      list_all (\<lambda>a. a_id a = aid \<longrightarrow> \<not> active_allocation a) (allocations d)"
    by (rule list_all_core [OF eqs(2), where P' = "\<lambda>(i, j, g', b). i = aid \<longrightarrow> \<not> b"]) (simp add: a_core_def)
  moreover have "list_all (\<lambda>s. s_id s = sid \<longrightarrow> s_current_generation s \<noteq> g) (sessions d') =
      list_all (\<lambda>s. s_id s = sid \<longrightarrow> s_current_generation s \<noteq> g) (sessions d)"
    by (rule list_all_core [OF eqs(1), where P' = "\<lambda>(i, g', b). i = sid \<longrightarrow> g' \<noteq> g"]) (simp add: s_core_def)
  ultimately show ?thesis using assms(2) by (simp add: quiet_def)
qed

lemma core_idle: "tx_rel core_same m \<Longrightarrow> tx_rel (idle sid g aid) m"
  by (rule tx_relI) (auto simp: idle_def dest: tx_relD intro: core_same_quiet)

lemma map_update_where_in:
  "(\<And>x. x \<in> set xs \<Longrightarrow> P x \<Longrightarrow> k (f x) = k x) \<Longrightarrow> map k (update_where P f xs) = map k xs"
  by (simp add: update_where_def)

lemma idle_allocations [idle_intros]:
  assumes id: "\<And>a. P a \<Longrightarrow> a_id a = aid"
    and f: "\<And>a. P a \<Longrightarrow> a_id (f a) = a_id a \<and> a_session_id (f a) = a_session_id a \<and> a_generation (f a) = a_generation a \<and>
      \<not> active_allocation (f a)"
  shows "tx_rel (idle sid g aid) (update_allocations P f)"
proof (rule tx_relI)
  fix d x d' assume run: "update_allocations P f d = Inr (x, d')"
  have "map a_core (update_where P f (allocations d)) = map a_core (allocations d)" if "quiet sid g aid d"
    using that id f by (intro map_update_where_in) (auto simp: a_core_def quiet_def list_all_iff)
  with run have "core_same d d'" if "quiet sid g aid d" using that by (auto simp: sql_Inr core_same_def)
  then show "idle sid g aid d d'" by (auto simp: idle_def intro: core_same_quiet)
qed

lemma idle_sessions [idle_intros]:
  assumes "\<And>s. P s \<Longrightarrow> s_id s = sid \<and> s_current_generation s = g"
  shows "tx_rel (idle sid g aid) (update_sessions P f)"
proof (rule tx_relI)
  fix d x d' assume run: "update_sessions P f d = Inr (x, d')"
  have "update_where P f (sessions d) = sessions d" if "quiet sid g aid d"
    using that assms by (intro update_where_idle) (auto simp: quiet_def list_all_iff)
  with run show "idle sid g aid d d'" by (auto simp: sql_Inr idle_def core.refl_step)
qed

lemma idle_exec [idle_intros]: "tx_rel (idle sid g aid) m \<Longrightarrow> tx_rel (idle sid g aid) (exec_any m)"
  "tx_rel (idle sid g aid) m \<Longrightarrow> tx_rel (idle sid g aid) (exec_one m e)"
  unfolding exec_any_def exec_one_def by (intro idle.rel_intros; assumption)+

lemma quiet_start:
  assumes "schema_ok d" "coherent d" "s \<in> set (sessions d)" "s_id s = ref_sid ref" "s_current_generation s \<noteq> ref_gen ref"
    and a: "allocation_by_id (AllocID ref) d = Some a" "row_matches_ref a ref"
  shows "quiet (ref_sid ref) (ref_gen ref) (AllocID ref) d"
proof -
  have a': "a \<in> set (allocations d)" "a_id a = AllocID ref" using find_allocation [OF a(1)] by simp_all
  have "\<not> active_allocation a"
    using coherentD(1) [OF assms(2,3) a'(1)] a(2) assms(4,5) by (simp add: allocation_agrees_def row_matches_ref_def)
  then show ?thesis
    using unique_rows(1) [OF assms(1,3)] unique_rows(2) [OF assms(1) a'(1)] assms(4,5) a'(2)
    by (auto simp: quiet_def list_all_iff)
qed

lemma idle_coherent: "idle sid g aid d d' \<Longrightarrow> quiet sid g aid d \<Longrightarrow> coherent d \<Longrightarrow> coherent d'"
  by (auto simp: idle_def intro: core_same_coherent)

text \<open>Two ways to show that a transaction on the exact allocation \<open>ref\<close> keeps the invariant.\<close>

lemma keep_coherent:
  assumes "schema_ok d" and "coherent d"
    and s: "s \<in> set (sessions d)" "s_id s = ref_sid ref" "s_current_generation s = ref_gen ref" "\<not> active_session s"
    and a: "allocation_by_id (AllocID ref) d = Some a" "row_matches_ref a ref"
    and k: "keep_closed (ref_sid ref) (ref_gen ref) (AllocID ref) d d'"
    and f: "frame_out (ref_sid ref) {AllocID ref} d d'"
  shows "coherent d'"
proof (rule closing_coherent_step [OF assms(1,2) s(1-3)])
  show "a \<in> set (allocations d)" "a_id a = AllocID ref" using find_allocation [OF a(1)] by simp_all
  show "a_session_id a = ref_sid ref" "a_generation a = ref_gen ref"
    using a(2) by (simp_all add: row_matches_ref_def)
qed (use k f s(4) in \<open>auto simp: keep_closed_def\<close>)

lemmas keep_updates = hoare_keep [OF closing_exec(1) [OF closing_sessions]] hoare_keep [OF closing_exec(1) [OF closing_allocations]]
  hoare_keep [OF closing_exec(1) [OF closing_attempts]] hoare_keep [OF closing_exec(2) [OF closing_sessions]]
  hoare_keep [OF closing_exec(2) [OF closing_allocations]] hoare_keep [OF closing_exec(2) [OF closing_attempts]]

lemma core_predecessor [core_intros]: "tx_rel core_same (predecessor_destroyed env ref s)"
  unfolding predecessor_destroyed_def by (intro core.rel_intros core_intros)

lemma destroyed_keep: "tx_rel (keep_closed (ref_sid ref) (ref_gen ref) (AllocID ref)) (destroyed_tx st env ref c)"
  unfolding destroyed_tx_def destroyed_rows_def
  by (rule keep.rel_intros keep_updates core_keep core_intros | simp add: active_defs)+

lemma destroyed_idle: "tx_rel (idle (ref_sid ref) (ref_gen ref) (AllocID ref)) (destroyed_tx st env ref c)"
  unfolding destroyed_tx_def destroyed_rows_def
  by (rule idle.rel_intros idle_intros core_idle core_intros | simp add: active_defs)+

lemma destroyed_frame: "tx_rel (frame_out (ref_sid ref) {AllocID ref}) (destroyed_tx st env ref c)"
  unfolding destroyed_tx_def destroyed_rows_def
  by (rule frame.rel_intros frame_intros core_rel_frame core_intros | simp add: active_defs)+

lemma session_of_allocation:
  assumes "schema_ok d" and "a \<in> set (allocations d)"
  obtains s where "s \<in> set (sessions d)" and "s_id s = a_session_id a"
  using schema_okD(8) [OF assms(1)] assms(2) by (force simp: list_all_iff)

text \<open>
  A transaction on an allocation that is already desired absent: the session is closed if the
  generation is current, and the allocation is idle if it is not.
\<close>

lemma coherent_after_absent:
  assumes ok: "schema_ok d" "coherent d"
    and a: "allocation_by_id (AllocID ref) d = Some a" "row_matches_ref a ref" "\<not> active_allocation a"
    and k: "keep_closed (ref_sid ref) (ref_gen ref) (AllocID ref) d d'"
    and f: "frame_out (ref_sid ref) {AllocID ref} d d'"
    and i: "idle (ref_sid ref) (ref_gen ref) (AllocID ref) d d'"
  shows "coherent d'"
proof -
  have a': "a \<in> set (allocations d)" using find_allocation [OF a(1)] by simp
  obtain s where s: "s \<in> set (sessions d)" "s_id s = a_session_id a" by (rule session_of_allocation [OF ok(1) a'])
  have sid: "a_session_id a = ref_sid ref" "a_generation a = ref_gen ref" using a(2) by (simp_all add: row_matches_ref_def)
  show ?thesis
  proof (cases "s_current_generation s = ref_gen ref")
    case True
    then have "\<not> active_session s"
      using coherentD(1) [OF ok(2) s(1) a'] a(3) s(2) sid by (auto simp: allocation_agrees_def)
    with True show ?thesis using keep_coherent [OF ok s(1) _ _ _ a(1,2) k f] s(2) sid by simp
  next
    case False
    then show ?thesis using idle_coherent [OF i quiet_start [OF ok s(1) _ _ a(1,2)] ok(2)] s(2) sid by simp
  qed
qed

lemma coh_destroyed: "tx_rel coh_step (destroyed_tx st env ref c)"
proof (rule tx_relI)
  fix d x d' assume run: "destroyed_tx st env ref c d = Inr (x, d')"
  then obtain a where a: "allocation_by_id (AllocID ref) d = Some a" "row_matches_ref a ref" "\<not> active_allocation a"
    unfolding destroyed_tx_def by (auto simp: tx_Inr guard_Inrs active_allocation_def)
  show "coh_step d d'" unfolding coh_step_def
    using coherent_after_absent [OF _ _ a tx_relD [OF destroyed_keep run] tx_relD [OF destroyed_frame run]
        tx_relD [OF destroyed_idle run]] by blast
qed

section \<open>Destroy and restart\<close>

lemma destroy_state: "destroyOutcomeTx i d = Inr (x, d') \<Longrightarrow> d' = d"
  by (auto simp: destroyOutcomeTx_def tx_Inr)

lemma destroy_frame: "tx_rel (frame_out (ref_sid ref) {AllocID ref}) (destroy_tx st env ref out status l)"
  unfolding destroy_tx_def destroy_current_def Let_def
  by (rule frame.rel_intros frame_intros core_rel_frame core_intros | simp add: active_defs)+

lemma destroy_idle: "tx_rel (idle (ref_sid ref) (ref_gen ref) (AllocID ref)) (tx_block
     [exec_any (update_allocations (\<lambda>a. a_id a = AllocID ref \<and> a_desired_state a \<noteq> ''absent'') allocation_leaving),
      ensure_destroy env (AllocID ref) p, tx_return (), ensure_event env (AllocID ref) ty rc msg])"
  by (rule idle.rel_intros idle_intros core_idle core_intros | simp add: active_defs)+

lemma destroy_tail_closing:
  "tx_hoare (closing (ref_sid ref) (ref_gen ref) (AllocID ref) fs fa ft) (tx_block
     [exec_any (update_allocations (\<lambda>a. a_id a = AllocID ref \<and> a_desired_state a \<noteq> ''absent'') allocation_leaving),
      ensure_destroy env (AllocID ref) p, if b then ensure_event env (AllocID ref) ty' rc' msg' else tx_return (),
      ensure_event env (AllocID ref) ty rc msg])
     (closing (ref_sid ref) (ref_gen ref) (AllocID ref) fs True ft)"
  by (rule closing_rules core.rel_intros | simp add: active_defs)+

lemma closing_attempt_done:
  assumes "closing sid g aid fs fa ft d" and "attempt_of sid g d = Some t" and "\<not> in_progress t"
  shows "closing sid g aid fs fa True d"
proof -
  have t: "t \<in> set (attempts d)" "t_session_id t = sid" "t_generation t = g" using find_attempt [OF assms(2)] by simp_all
  have ok: "schema_ok d" using assms(1) by (simp add: closing_def)
  have "\<not> in_progress t'" if "t' \<in> set (attempts d)" "t_session_id t' = sid" for t'
    using unique_rows(4) [OF ok t(1) that(1)] assms(1,3) t that by (auto simp: closing_def list_all_iff)
  then show ?thesis using assms(1) by (simp add: closing_def closed_attempts_def list_all_iff)
qed

lemma destroy_current_closing:
  assumes "closing (ref_sid ref) (ref_gen ref) (AllocID ref) (\<not> active_session s) fa ft d"
    and "destroy_current env ref out status l existing s d = Inr (x, d')" and "status \<noteq> ''in_progress''"
  shows "closing (ref_sid ref) (ref_gen ref) (AllocID ref) True fa True d'"
proof -
  let ?c = "closing (ref_sid ref) (ref_gen ref) (AllocID ref)"
  let ?at = "exec_one (update_attempts (open_attempt (ref_sid ref) (ref_gen ref)) (attempt_terminal env status l))
    (ErrLifecycleConflict ''terminal attempt lost transition authority'')"
  let ?se = "exec_one (update_sessions (\<lambda>x. s_id x = ref_sid ref \<and> s_current_generation x = ref_gen ref)
    (session_terminal env out)) ErrGenerationStale"
  obtain t d1 where t: "attempt_of (ref_sid ref) (ref_gen ref) d = Some t"
    and at: "if t_status t = ''in_progress'' then ?at d = Inr ((), d1) else d1 = d"
    and se: "if existing = None then ?se d1 = Inr ((), d') else \<not> active_session s \<and> d' = d1"
    using assms(2) unfolding destroy_current_def
    by (auto simp: tx_Inr guard_Inrs active_session_def split: if_splits)
  have "tx_hoare (?c fs fa ft) ?at (?c fs fa True)" "tx_hoare (?c fs fa ft) ?se (?c True fa ft)" for fs fa ft
    by (rule closing_rules | simp add: active_defs assms(3))+
  note rules = this
  have "?c (\<not> active_session s) fa True d1"
    using at assms(1) hoareD [OF rules(1)] closing_attempt_done [OF assms(1) t]
    by (auto simp: in_progress_def split: if_splits)
  then show ?thesis using se hoareD [OF rules(2)] by (auto split: if_splits)
qed

lemma tx_block_ConsD: "tx_block (m # ms) d = Inr r \<Longrightarrow> \<exists>d1. m d = Inr ((), d1) \<and> tx_block ms d1 = Inr r"
  by (auto simp: tx_Inr)

lemma canonical_status: "canonicalTerminalOutcome out status = Inr c \<Longrightarrow> status \<noteq> ''in_progress''"
  by (auto simp: canonicalTerminalOutcome_def split: if_splits)

lemma coh_destroy:
  assumes "canonicalTerminalOutcome out status = Inr out"
  shows "tx_rel coh_step (destroy_tx st env ref out status l)"
proof (rule tx_relI)
  fix d x d' assume run: "destroy_tx st env ref out status l d = Inr (x, d')"
  let ?up = "exec_any (update_allocations (\<lambda>a. a_id a = AllocID ref \<and> a_desired_state a \<noteq> ''absent'') allocation_leaving)"
  let ?last = "ensure_event env (AllocID ref) ''destroying'' out ''Environment cleanup started.''"
  obtain a s existing where a: "allocation_by_id (AllocID ref) d = Some a" "row_matches_ref a ref"
    and s: "session_by_id (ref_sid ref) d = Some s"
    and body: "tx_block [if s_current_generation s = ref_gen ref then destroy_current env ref out status l existing s else tx_return (),
        ?up, ensure_destroy env (AllocID ref) (a_provider_id a),
        if s_current_generation s = ref_gen ref \<and> terminalEventType out \<noteq> ''''
        then ensure_event env (AllocID ref) (terminalEventType out) out ''Environment ended.'' else tx_return (), ?last] d = Inr (x, d')"
    using run unfolding destroy_tx_def Let_def
    by (auto simp: tx_Inr guard_Inrs simp del: tx_block.simps dest!: destroy_state)
  have s': "s \<in> set (sessions d)" "s_id s = ref_sid ref" using find_session [OF s] by simp_all
  show "coh_step d d'" unfolding coh_step_def
  proof (intro impI)
    assume ok: "schema_ok d \<and> coherent d"
    then have ok': "schema_ok d" "coherent d" by simp_all
    show "coherent d'"
    proof (cases "s_current_generation s = ref_gen ref")
      case True
      have a': "a \<in> set (allocations d)" "a_id a = AllocID ref" "a_session_id a = ref_sid ref" "a_generation a = ref_gen ref"
        using find_allocation [OF a(1)] a(2) by (simp_all add: row_matches_ref_def)
      from body True obtain d1 where cur: "destroy_current env ref out status l existing s d = Inr ((), d1)"
        and tail: "tx_block [?up, ensure_destroy env (AllocID ref) (a_provider_id a),
          if terminalEventType out \<noteq> '''' then ensure_event env (AllocID ref) (terminalEventType out) out ''Environment ended.''
          else tx_return (), ?last] d1 = Inr (x, d')"
        using tx_block_ConsD [OF body] by (auto simp del: tx_block.simps)
      show ?thesis
      proof (rule closing_coherent_step [OF ok' s'(1,2) True a' _ tx_relD [OF destroy_frame run]])
        assume "closing (ref_sid ref) (ref_gen ref) (AllocID ref) (\<not> active_session s) (\<not> active_session s) (\<not> active_session s) d"
        from destroy_current_closing [OF this cur canonical_status [OF assms]]
        show "closing (ref_sid ref) (ref_gen ref) (AllocID ref) True True True d'"
          by (rule hoareD [OF destroy_tail_closing tail])
      qed
    next
      case False
      from body False have "tx_block [?up, ensure_destroy env (AllocID ref) (a_provider_id a), tx_return (), ?last] d = Inr (x, d')"
        by (simp add: tx_seq_def tx_bind_def tx_return_def)
      from idle_coherent [OF tx_relD [OF destroy_idle this] quiet_start [OF ok' s' False a] ok'(2)]
      show ?thesis .
    qed
  qed
qed

lemma converge_rows_closing:
  "tx_hoare (closing (ref_sid ref) (ref_gen ref) (AllocID ref) fs fa ft) (converge_rows env ref p True True)
     (closing (ref_sid ref) (ref_gen ref) (AllocID ref) True True True)"
  "tx_hoare (closing (ref_sid ref) (ref_gen ref) (AllocID ref) fs fa ft) (converge_rows env ref p True False)
     (closing (ref_sid ref) (ref_gen ref) (AllocID ref) True True ft)"
  unfolding converge_rows_def if_True if_False by (rule closing_rules | simp add: active_defs)+

lemma converge_rows_frame: "tx_rel (frame_out (ref_sid ref) {AllocID ref}) (converge_rows env ref p cur caused)"
  unfolding converge_rows_def
  by (rule frame.rel_intros frame_intros core_rel_frame core_intros | simp add: active_defs)+

lemma converge_rows_idle: "tx_rel (idle (ref_sid ref) (ref_gen ref) (AllocID ref)) (converge_rows env ref p False False)"
  unfolding converge_rows_def if_False
  by (rule idle.rel_intros idle_intros core_idle core_intros | simp add: active_defs)+

lemma coh_converge: "tx_rel coh_step (converge_tx st env pid lr)"
proof (rule tx_relI)
  fix d x d' assume run: "converge_tx st env pid lr d = Inr (x, d')"
  let ?ref = "lr_Ref lr"
  obtain a s where a: "allocation_by_id (AllocID ?ref) d = Some a" "row_matches_ref a ?ref"
    and s: "session_by_id (ref_sid ?ref) d = Some s"
    and body: "d' = d \<or>
      (s_current_generation s = ref_gen ?ref \<and> (\<exists>t. attempt_of (ref_sid ?ref) (ref_gen ?ref) d = Some t \<and>
         converge_rows env ?ref (a_provider_id a) True (in_progress t) d = Inr (x, d'))) \<or>
      (s_current_generation s \<noteq> ref_gen ?ref \<and> converge_rows env ?ref (a_provider_id a) False False d = Inr (x, d'))"
    using run unfolding converge_tx_def Let_def
    by (auto simp: tx_Inr guard_Inrs in_progress_def split: if_splits)
  have s': "s \<in> set (sessions d)" "s_id s = ref_sid ?ref" using find_session [OF s] by simp_all
  have a': "a \<in> set (allocations d)" "a_id a = AllocID ?ref" "a_session_id a = ref_sid ?ref" "a_generation a = ref_gen ?ref"
    using find_allocation [OF a(1)] a(2) by (simp_all add: row_matches_ref_def)
  let ?c = "closing (ref_sid ?ref) (ref_gen ?ref) (AllocID ?ref)"
  show "coh_step d d'" unfolding coh_step_def
  proof (intro impI)
    assume "schema_ok d \<and> coherent d"
    then have ok: "schema_ok d" "coherent d" by simp_all
    from body show "coherent d'"
    proof (elim disjE conjE exE)
      fix t assume cur: "s_current_generation s = ref_gen ?ref" and t: "attempt_of (ref_sid ?ref) (ref_gen ?ref) d = Some t"
        and rows: "converge_rows env ?ref (a_provider_id a) True (in_progress t) d = Inr (x, d')"
      show ?thesis
      proof (rule closing_coherent_step [OF ok s' cur a' _ tx_relD [OF converge_rows_frame rows]])
        assume c: "?c (\<not> active_session s) (\<not> active_session s) (\<not> active_session s) d"
        show "?c True True True d'"
        proof (cases "in_progress t")
          case True
          then show ?thesis using hoareD [OF converge_rows_closing(1)] rows c by simp
        next
          case False
          then show ?thesis using hoareD [OF converge_rows_closing(2)] rows closing_attempt_done [OF c t] by simp
        qed
      qed
    next
      assume cur: "s_current_generation s \<noteq> ref_gen ?ref"
        and rows: "converge_rows env ?ref (a_provider_id a) False False d = Inr (x, d')"
      show ?thesis using idle_coherent [OF tx_relD [OF converge_rows_idle rows] quiet_start [OF ok s' cur a] ok(2)] .
    qed (simp add: ok)
  qed
qed

section \<open>End\<close>

lemma closing_sessions_in:
  assumes "closing sid g aid fs fa ft d" and "update_sessions P f d = Inr (n, d')"
    and "\<And>s. s \<in> set (sessions d) \<Longrightarrow> s_id s = sid \<Longrightarrow> active_session s \<Longrightarrow> P s"
    and "\<And>s. P s \<Longrightarrow> s_id (f s) = s_id s \<and> s_current_generation (f s) = s_current_generation s \<and> \<not> active_session (f s)"
  shows "closing sid g aid True fa ft d'"
  using assms by (auto simp: sql_Inr closing_def closed_session_def closed_allocations_def closed_attempts_def list_all_iff
      set_update_where)

lemma closing_leaving:
  assumes "\<And>a. P a \<Longrightarrow> a_id (f a) = a_id a \<and> a_session_id (f a) = a_session_id a \<and> \<not> active_allocation (f a)"
  shows "tx_hoare (closing sid g aid fs fa ft) (update_allocations P f) (closing sid g aid fs fa ft)"
  using assms by (auto intro!: hoareI simp: sql_Inr closing_def closed_session_def closed_allocations_def
      closed_attempts_def list_all_iff set_update_where)

lemma hoare_each: "(\<And>x. tx_hoare P (f x) P) \<Longrightarrow> tx_hoare P (tx_each f xs) P"
proof (induction xs)
  case (Cons x xs)
  then show ?case by (simp add: hoare_steps(6) [of _ _ P])
qed (simp add: hoare_steps)

lemma rel_each_in:
  assumes "\<And>x. x \<in> set xs \<Longrightarrow> tx_rel (frame_out sid X) (f x)"
  shows "tx_rel (frame_out sid X) (tx_each f xs)"
  using assms by (induction xs) (simp_all add: frame.rel_return frame.rel_seq)

lemma end_chain_closing:
  "tx_hoare (closing sid g aid fs fa ft) (tx_each (end_allocation env p) chain) (closing sid g aid fs fa ft)"
  unfolding end_allocation_def
  by (rule hoare_each closing_exec closing_leaving hoare_steps closing_neutral core.rel_intros core_intros
      | simp add: active_defs)+

lemma end_chain_frame:
  assumes "\<And>a. a \<in> set chain \<Longrightarrow> a_id a \<in> X"
  shows "tx_rel (frame_out sid X) (tx_each (end_allocation env p) chain)"
  unfolding end_allocation_def using assms
  by (intro rel_each_in frame.rel_intros frame_intros) (auto intro!: core_rel_frame core_intros core.rel_intros simp: active_defs)

lemma core_end [core_intros]: "tx_rel core_same (end_remaining p refs)"
  "tx_rel core_same (loadEndOperationTx p u sref ei)" "tx_rel core_same (reconcileEndOperationTx env p oid sref)"
proof -
  show *: "tx_rel core_same (end_remaining p refs)" for refs by (induction refs) (auto intro!: core.rel_intros)
  show "tx_rel core_same (loadEndOperationTx p u sref ei)" unfolding loadEndOperationTx_def by (intro core.rel_intros)
  show "tx_rel core_same (reconcileEndOperationTx env p oid sref)" unfolding reconcileEndOperationTx_def
    by (intro core.rel_intros core_intros *)
qed

lemma reconcile_end_closed: "reconcileEndOperationTx env p oid sref d = Inr r \<Longrightarrow> closed_allocations (SessionID sref) d"
  unfolding reconcileEndOperationTx_def
  by (auto simp: tx_Inr list_all_iff allocation_chain_def closed_allocations_def active_allocation_def)

definition chain_ids :: "string \<Rightarrow> db \<Rightarrow> string set" where
  "chain_ids sid d = a_id ` {a \<in> set (allocations d). a_session_id a = sid}"

lemma create_end_closing:
  assumes ok: "schema_ok d" "coherent d" and run: "createEndOperationTx env p u sref ei d = Inr (oid, d')"
  shows "\<exists>aid. closing (SessionID sref) (int64 (Generation sref)) aid True False True d' \<and>
    frame_out (SessionID sref) (chain_ids (SessionID sref) d) d d'"
proof -
  let ?sid = "SessionID sref" and ?g = "int64 (Generation sref)"
  let ?at = "exec_any (update_attempts (open_attempt ?sid ?g) (attempt_terminal env ''failed'' ''environment ended by user''))"
  let ?P = "\<lambda>x. s_id x = ?sid \<and> s_user_id x = u \<and> s_current_generation x = ?g \<and> s_desired_state x = ''active''"
  let ?se = "update_sessions ?P (session_terminal env ''failed'')"
  obtain s current d1 d2 d3 d4 where
    s: "find (\<lambda>s. s_id s = ?sid \<and> s_user_id s = u) (sessions d) = Some s" "s_current_generation s = ?g" "active_session s"
    and current: "allocation_of ?sid ?g d = Some current"
    and op: "fresh_operation env (a_id current) p ''end'' (ei_idempotencyKey ei) (ei_requestHash ei) ''pending'' None d = Inr (oid, d1)"
    and at: "?at d1 = Inr ((), d2)" and se: "?se d2 = Inr (1, d3)"
    and ev: "ensure_event env (a_id current) ''failed'' ''failed'' ''Environment ended.'' d3 = Inr ((), d4)"
    and each: "tx_each (end_allocation env p) (allocation_chain ?sid d3) d4 = Inr ((), d')"
    using run unfolding createEndOperationTx_def Let_def
    by (auto simp: tx_Inr exec_one_Inr active_session_def)
  have tabs: "sessions d2 = sessions d" "allocations d3 = allocations d"
    using op at se by (auto simp: fresh_operation_def tx_Inr exec_Inr sql_Inr)
  have s': "s \<in> set (sessions d)" "s_id s = ?sid" "s_user_id s = u" using find_Some_iff_in [OF s(1)] by simp_all
  have c': "current \<in> set (allocations d)" "a_session_id current = ?sid" "a_generation current = ?g"
    using current by (auto simp: allocation_of_def dest: find_Some_iff_in)
  let ?c = "closing ?sid ?g (a_id current)"
  have core: "core_same d d1" "core_same d3 d4" using tx_relD [OF core_operations(1) op] tx_relD [OF core_events(4) ev] by simp_all
  have "?c False False False d"
    using closing_start [OF ok s'(1,2) s(2) c'(1) refl c'(2,3)] by (rule closing_weaken)
  then have "?c False False False d1" by (rule core_same_closing [OF core(1)])
  moreover have att: "tx_hoare (?c False False False) ?at (?c False False True)"
    by (rule closing_rules | simp add: active_defs)+
  ultimately have "?c False False True d2" using hoareD [OF att at] by blast
  then have "?c True False True d3"
  proof (rule closing_sessions_in [OF _ se])
    fix x assume x: "x \<in> set (sessions d2)" "s_id x = ?sid" "active_session x"
    then have "x = s" using unique_rows(1) [OF ok(1) s'(1), of x] s'(2) by (simp add: tabs)
    then show "?P x" using s s' by (simp add: active_session_def)
  qed (simp add: session_terminal_def active_session_def)
  then have cl: "?c True False True d'" using core_same_closing [OF core(2)] hoareD [OF end_chain_closing each] by blast
  let ?X = "chain_ids ?sid d"
  have "frame_out ?sid ?X d d1" "frame_out ?sid ?X d3 d4" using core by (auto intro: core_same_frame)
  moreover have "tx_rel (frame_out ?sid ?X) ?at" "tx_rel (frame_out ?sid ?X) ?se"
    by (rule frame_rules | simp add: active_defs)+
  then have "frame_out ?sid ?X d1 d2" "frame_out ?sid ?X d2 d3" using at se by (auto dest: tx_relD)
  moreover have "frame_out ?sid ?X d4 d'"
    by (rule tx_relD [OF end_chain_frame each]) (auto simp: allocation_chain_def tabs chain_ids_def)
  ultimately have "frame_out ?sid ?X d d'" by (meson frame.trans_step)
  with cl show ?thesis by blast
qed

lemma coh_end: "tx_rel coh_step (end_tx st env u sref ei)"
proof (rule tx_relI)
  fix d x d' assume run: "end_tx st env u sref ei d = Inr (x, d')"
  let ?p = "FenceProviderID (st_fence st)" and ?sid = "SessionID sref"
  obtain found d0 oid d1 where ld: "loadEndOperationTx ?p u sref ei d = Inr (found, d0)"
    and cr: "(case found of Some oid \<Rightarrow> tx_return oid | None \<Rightarrow> createEndOperationTx env ?p u sref ei) d0 = Inr (oid, d1)"
    and rec: "reconcileEndOperationTx env ?p oid sref d1 = Inr (x, d')"
    using run unfolding end_tx_def Let_def by (auto simp: tx_Inr guard_Inrs lock_user_def)
  have d0: "d0 = d" using ld unfolding loadEndOperationTx_def by (auto simp: tx_Inr split: option.splits prod.splits)
  have core: "core_same d1 d'" by (rule tx_relD [OF core_end(3) rec])
  show "coh_step d d'" unfolding coh_step_def
  proof (intro impI)
    assume "schema_ok d \<and> coherent d"
    then have ok: "schema_ok d" "coherent d" by simp_all
    show "coherent d'"
    proof (cases found)
      case (Some oid')
      with cr d0 have "d1 = d" by (simp add: tx_Inr)
      with core ok show ?thesis by (blast intro: core_same_coherent)
    next
      case None
      with cr d0 have "createEndOperationTx env ?p u sref ei d = Inr (oid, d1)" by simp
      from create_end_closing [OF ok this] obtain aid where
        cl: "closing ?sid (int64 (Generation sref)) aid True False True d1" and fr: "frame_out ?sid (chain_ids ?sid d) d d1"
        by blast
      have "closed ?sid d1" using cl reconcile_end_closed [OF rec] by (simp add: closing_def closed_def)
      moreover have "a_session_id a = ?sid" if "a \<in> set (allocations d)" "a_id a \<in> chain_ids ?sid d" for a
      proof -
        from that(2) obtain b where b: "b \<in> set (allocations d)" "a_session_id b = ?sid" "a_id a = a_id b"
          by (auto simp: chain_ids_def)
        with unique_rows(2) [OF ok(1) b(1) that(1)] show ?thesis by simp
      qed
      ultimately have "coherent d1" by (rule coherent_close [OF ok(2) fr])
      with core show ?thesis by (blast intro: core_same_coherent)
    qed
  qed
qed

section \<open>New generations\<close>

lemma load_reservation_same: "loadReservationByOperation p k d = Inr (v, d') \<Longrightarrow> d' = d"
  by (auto simp: loadReservationByOperation_def tx_Inr split: option.splits prod.splits)

text \<open>Adding the first generation of a session whose identity is new.\<close>

lemma coherent_new_session:
  assumes ok: "schema_ok d" and coh: "coherent d" and ok': "schema_ok d'"
    and rows: "sessions d' = sessions d @ [s]" "allocations d' = allocations d @ [a]" "attempts d' = attempts d @ [t]"
    and s: "active_session s" and a: "active_allocation a" "a_session_id a = s_id s" "a_generation a = s_current_generation s"
    and t: "in_progress t" "t_session_id t = s_id s" "t_generation t = s_current_generation s"
  shows "coherent d'"
proof -
  have fresh: "s_id x \<noteq> s_id s" if "x \<in> set (sessions d)" for x
    using schema_okD(2) [OF ok'] that by (simp add: rows unique_by_snoc)
  have old_a: "a_session_id x \<noteq> s_id s" if "x \<in> set (allocations d)" for x
    using session_of_allocation [OF ok that] fresh by metis
  have old_t: "t_session_id x \<noteq> s_id s" if "x \<in> set (attempts d)" for x
    using schema_okD(24) [OF ok] that old_a by (auto simp: list_all_iff)
  show ?thesis
    using coherentD [OF coh] fresh old_a old_t s a t
    by (intro coherentI) (auto simp: rows allocation_agrees_def attempt_agrees_def)
qed

lemma reserve_rows_tables:
  assumes "reserve_rows env p i h d = Inr (x, d')"
  shows "schema_ok d' \<and> (\<exists>s a t. sessions d' = sessions d @ [s] \<and> allocations d' = allocations d @ [a] \<and>
    attempts d' = attempts d @ [t] \<and> active_session s \<and> active_allocation a \<and> a_session_id a = s_id s \<and>
    a_generation a = s_current_generation s \<and> in_progress t \<and> t_session_id t = s_id s \<and>
    t_generation t = s_current_generation s)"
  using assms unfolding reserve_rows_def Let_def
  by (auto simp: tx_Inr sql_Inr fresh_operation_def active_session_def active_allocation_def in_progress_def
      new_allocation_def new_attempt_def)

lemma coh_reserve: "tx_rel coh_step (reserve_tx st env p)"
proof (rule tx_relI)
  fix d x d' assume run: "reserve_tx st env p d = Inr (x, d')"
  let ?i = "AllocationIDForSession (SessionRef (rp_SessionID p) initialGeneration)"
  have "d' = d \<or> (\<exists>h. reserve_rows env p ?i h d = Inr (x, d'))"
    using run unfolding reserve_tx_def Let_def
    by (auto simp: tx_Inr guard_Inrs lock_user_def validateCatalogSelectionTx_def dest!: load_reservation_same split: option.splits)
  then show "coh_step d d'"
  proof (elim disjE exE)
    fix h assume "reserve_rows env p ?i h d = Inr (x, d')"
    from reserve_rows_tables [OF this] show ?thesis
      unfolding coh_step_def by (metis coherent_new_session)
  qed (simp add: coh_step_def)
qed

text \<open>The replacement of a retired generation.\<close>

lemma coherent_next_generation:
  assumes cl: "closing sid g aid False True True d" and coh: "coherent d0" and fr: "frame_out sid {aid} d0 d"
    and aid: "\<And>b. b \<in> set (allocations d) \<Longrightarrow> a_id b = aid \<Longrightarrow> a_session_id b = sid"
    and ok': "schema_ok d'"
    and rows: "sessions d' = update_where P f (sessions d)" "allocations d' = allocations d @ [a]" "attempts d' = attempts d @ [t]"
    and P: "\<And>s. P s \<Longrightarrow> s_id s = sid" "\<And>s. s \<in> set (sessions d) \<Longrightarrow> s_id s = sid \<Longrightarrow> P s"
    and f: "\<And>s. P s \<Longrightarrow> s_id (f s) = sid \<and> s_current_generation (f s) = g' \<and> active_session (f s)"
    and a: "active_allocation a" "a_session_id a = sid" "a_generation a = g'"
    and t: "in_progress t" "t_session_id t = sid" "t_generation t = g'"
  shows "coherent d'"
proof -
  have old_a: "\<not> active_allocation b \<and> a_generation b \<noteq> g'" if "b \<in> set (allocations d)" "a_session_id b = sid" for b
    using cl schema_okD(6) [OF ok'] that a
    by (auto simp: closing_def closed_allocations_def list_all_iff rows unique_by_snoc)
  have old_t: "\<not> in_progress u \<and> t_generation u \<noteq> g'" if "u \<in> set (attempts d)" "t_session_id u = sid" for u
    using cl schema_okD(22) [OF ok'] that t
    by (auto simp: closing_def closed_attempts_def list_all_iff rows unique_by_snoc)
  have other: "allocation_agrees s b" if s: "s \<in> set (sessions d)" "s_id s \<noteq> sid" and b: "b \<in> set (allocations d)" for s b
  proof (cases "a_session_id b = sid")
    case False
    then show ?thesis using frame_agrees(1) [OF coh fr s b] aid [OF b] by auto
  qed (use s in \<open>simp add: allocation_agrees_def\<close>)
  have s_cases: "s_id s = sid \<and> s_current_generation s = g' \<and> active_session s \<or> s \<in> set (sessions d) \<and> s_id s \<noteq> sid"
    if "s \<in> set (sessions d')" for s
    using that [unfolded rows(1)] by (cases rule: in_update_whereE) (use P f in auto)
  show ?thesis
  proof (rule coherentI)
    fix s b assume s: "s \<in> set (sessions d')" and b: "b \<in> set (allocations d')"
    from b consider "b = a" | "b \<in> set (allocations d)" by (auto simp: rows)
    then show "allocation_agrees s b"
    proof cases
      case 1
      from s_cases [OF s] show ?thesis using a 1 unfolding allocation_agrees_def by metis
    next
      case 2
      from s_cases [OF s] show ?thesis using old_a [OF 2] other [of s b] 2 unfolding allocation_agrees_def by metis
    qed
  next
    fix s u assume s: "s \<in> set (sessions d')" and u: "u \<in> set (attempts d')"
    from u consider "u = t" | "u \<in> set (attempts d)" by (auto simp: rows)
    then show "attempt_agrees s u"
    proof cases
      case 1
      from s_cases [OF s] show ?thesis using t 1 unfolding attempt_agrees_def by metis
    next
      case 2
      from s_cases [OF s] show ?thesis using old_t [OF 2] frame_agrees(2) [OF coh fr, of s u] 2
        unfolding attempt_agrees_def by metis
    qed
  qed
qed

lemma retire_closing:
  "tx_hoare (closing (SessionID (rr_Expected p)) (int64 (Generation (rr_Expected p))) (AllocID (reset_old_ref p)) fs fa ft)
     (retire_source env p pid)
     (closing (SessionID (rr_Expected p)) (int64 (Generation (rr_Expected p))) (AllocID (reset_old_ref p)) fs True True)"
  unfolding retire_source_def Let_def by (rule closing_rules | simp add: active_defs)+

lemma retire_frame: "tx_rel (frame_out (SessionID (rr_Expected p)) {AllocID (reset_old_ref p)}) (retire_source env p pid)"
  unfolding retire_source_def Let_def by (rule frame.rel_intros frame_intros core_rel_frame core_intros | simp add: active_defs)+

lemma count_where_Ex: "Suc 0 = count_where P xs \<Longrightarrow> \<exists>x \<in> set xs. P x"
  by (rule ccontr) (simp add: count_where_def filter_empty_conv [THEN iffD2])

lemma replacement_tables:
  assumes "reserve_replacement env p s profile h d = Inr (oid, d')"
  shows "schema_ok d' \<and> (\<exists>a t. sessions d' = update_where
        (\<lambda>x. s_id x = SessionID (rr_Expected p) \<and> s_current_generation x = int64 (Generation (rr_Expected p)) \<and>
             s_desired_state x = ''active'')
        (\<lambda>x. x\<lparr>s_current_generation := int64 (Generation (nextSession (rr_Expected p))), s_state := ''queued'',
             s_desired_state := ''active'', s_started_at := None, s_finished_at := None\<rparr>) (sessions d) \<and>
     allocations d' = allocations d @ [a] \<and> attempts d' = attempts d @ [t] \<and>
     (\<exists>x \<in> set (sessions d). s_id x = SessionID (rr_Expected p) \<and>
        s_current_generation x = int64 (Generation (rr_Expected p)) \<and> s_desired_state x = ''active'') \<and>
     active_allocation a \<and> a_session_id a = SessionID (rr_Expected p) \<and>
     a_generation a = int64 (Generation (nextSession (rr_Expected p))) \<and>
     in_progress t \<and> t_session_id t = SessionID (rr_Expected p) \<and>
     t_generation t = int64 (Generation (nextSession (rr_Expected p))))"
  using assms unfolding reserve_replacement_def Let_def
  by (auto simp: tx_Inr sql_Inr exec_one_Inr fresh_operation_def active_allocation_def in_progress_def
      new_allocation_def new_attempt_def dest!: count_where_Ex)

lemma reset_guards_state:
  "reset_source_guards env p s d = Inr (r, d') \<Longrightarrow> d' = d \<and> s_current_generation s = int64 (Generation (rr_Expected p)) \<and>
     (\<exists>a. allocation_by_id (AllocID (reset_old_ref p)) d = Some a \<and> row_matches_ref a (reset_old_ref p))"
  unfolding reset_source_guards_def Let_def by (auto simp: tx_Inr guard_Inrs)

lemma reset_tx_cases:
  assumes "reset_tx st env p d = Inr (x, d')"
  obtains "d' = d"
  | s a r d1 h oid where "find (\<lambda>s. s_id s = SessionID (rr_Expected p) \<and> s_user_id s = rr_UserID p) (sessions d) = Some s"
    "s_current_generation s = int64 (Generation (rr_Expected p))"
    "allocation_by_id (AllocID (reset_old_ref p)) d = Some a" "row_matches_ref a (reset_old_ref p)"
    "retire_source env p (fst r) d = Inr ((), d1)" "reserve_replacement env p s (snd r) h d1 = Inr (oid, d')"
  using assms unfolding reset_tx_def reset_fresh_def reset_replay_def Let_def
  by (auto simp: tx_Inr guard_Inrs lock_user_def dest!: load_reservation_same reset_guards_state split: option.splits)

lemma coh_reset: "tx_rel coh_step (reset_tx st env p)"
proof (rule tx_relI)
  fix d x d' assume "reset_tx st env p d = Inr (x, d')"
  then show "coh_step d d'"
  proof (cases rule: reset_tx_cases)
    case (2 s a r d1 h oid)
    let ?ref = "reset_old_ref p" and ?sid = "SessionID (rr_Expected p)" and ?g = "int64 (Generation (rr_Expected p))"
    have ref: "ref_sid ?ref = ?sid" "ref_gen ?ref = ?g" by (simp_all add: reset_old_ref_def AllocationRef_def)
    have s': "s \<in> set (sessions d)" "s_id s = ?sid" using find_Some_iff_in [OF 2(1)] by simp_all
    have a': "a \<in> set (allocations d)" "a_id a = AllocID ?ref" "a_session_id a = ?sid" "a_generation a = ?g"
      using find_allocation [OF 2(3)] 2(4) ref by (simp_all add: row_matches_ref_def)
    show ?thesis unfolding coh_step_def
    proof (intro impI, elim conjE)
      assume ok: "schema_ok d" "coherent d"
      have fr: "frame_out ?sid {AllocID ?ref} d d1" by (rule tx_relD [OF retire_frame 2(5)])
      have cl: "closing ?sid ?g (AllocID ?ref) False True True d1"
        using hoareD [OF retire_closing 2(5)] closing_weaken [OF closing_start [OF ok s' 2(2) a']] by blast
      have aid: "a_session_id b = ?sid" if "b \<in> set (allocations d1)" "a_id b = AllocID ?ref" for b
      proof -
        have "(a_id b, a_session_id b) \<in> set (map (\<lambda>a. (a_id a, a_session_id a)) (allocations d1))" using that(1) by simp
        then obtain b0 where b0: "b0 \<in> set (allocations d)" "a_id b0 = a_id b" "a_session_id b0 = a_session_id b"
          using fr unfolding frame_out_def by auto
        have "b0 = a" using unique_rows(2) [OF ok(1) a'(1) b0(1)] b0(2) a'(2) that(2) by simp
        with a'(3) b0(3) show ?thesis by simp
      qed
      from replacement_tables [OF 2(6)] obtain b t where rows: "schema_ok d'"
        "sessions d' = update_where (\<lambda>x. s_id x = ?sid \<and> s_current_generation x = ?g \<and> s_desired_state x = ''active'')
          (\<lambda>x. x\<lparr>s_current_generation := int64 (Generation (nextSession (rr_Expected p))), s_state := ''queued'',
            s_desired_state := ''active'', s_started_at := None, s_finished_at := None\<rparr>) (sessions d1)"
        "allocations d' = allocations d1 @ [b]" "attempts d' = attempts d1 @ [t]"
        and ex: "\<exists>x \<in> set (sessions d1). s_id x = ?sid \<and> s_current_generation x = ?g \<and> s_desired_state x = ''active''"
        and new: "active_allocation b" "a_session_id b = ?sid" "a_generation b = int64 (Generation (nextSession (rr_Expected p)))"
          "in_progress t" "t_session_id t = ?sid" "t_generation t = int64 (Generation (nextSession (rr_Expected p)))"
        by blast
      have ok1: "schema_ok d1" using cl by (simp add: closing_def)
      show "coherent d'"
      proof (rule coherent_next_generation [OF cl ok(2) fr aid rows _ _ _ new])
        fix y assume y: "y \<in> set (sessions d1)" "s_id y = ?sid"
        from ex obtain z where z: "z \<in> set (sessions d1)" "s_id z = ?sid" "s_current_generation z = ?g \<and> s_desired_state z = ''active''"
          by blast
        have "y = z" using unique_rows(1) [OF ok1 z(1) y(1)] z(2) y(2) by simp
        with z show "s_id y = ?sid \<and> s_current_generation y = ?g \<and> s_desired_state y = ''active''" by simp
      qed (auto simp: active_session_def)
    qed
  qed (simp add: coh_step_def)
qed

section \<open>Every call\<close>

text \<open>The invariant of the store: the schema, the gapless logs and the agreement of the desired states.\<close>

definition store_inv :: "db \<Rightarrow> bool" where
  "store_inv d \<longleftrightarrow> log_inv d \<and> coherent d"

definition inv_step :: "db \<Rightarrow> db \<Rightarrow> bool" where
  "inv_step d d' \<longleftrightarrow> (store_inv d \<longrightarrow> store_inv d')"

lemma inv_stepI: "tx_rel log_step m \<Longrightarrow> tx_rel coh_step m \<Longrightarrow> tx_rel inv_step m"
  by (rule tx_relI) (auto simp: inv_step_def store_inv_def log_step_def coh_step_def log_inv_def dest!: tx_relD)

interpretation inv: store_relation inv_step
  by unfold_locales
    (rule inv_stepI [OF log.reserve coh_reserve] inv_stepI [OF log.reset coh_reset]
      inv_stepI [OF log.append core_coh [OF core_nonterminal(1)]]
      inv_stepI [OF log.create_succeeded core_coh [OF core_nonterminal(2)]] inv_stepI [OF log.create_failed coh_create_failed]
      inv_stepI [OF log.setting_up core_coh [OF core_nonterminal(3)]] inv_stepI [OF log.ready core_coh [OF core_nonterminal(4)]]
      inv_stepI [OF log.begin_verify core_coh [OF core_nonterminal(5)]] inv_stepI [OF log.verify_result coh_verify_result]
      inv_stepI [OF log.choice coh_choice] inv_stepI [OF log.destroy coh_destroy] inv_stepI [OF log.destroyed coh_destroyed]
      inv_stepI [OF log.converge coh_converge] inv_stepI [OF log.prepare core_coh [OF core_nonterminal(6)]]
      inv_stepI [OF log.claim_destroy core_coh [OF core_nonterminal(8)]] inv_stepI [OF log.retry core_coh [OF core_nonterminal(7)]]
      inv_stepI [OF log.claim_create core_coh [OF core_nonterminal(9)]] inv_stepI [OF log.end_op coh_end]
      | assumption | force simp: inv_step_def)+

lemma coherent_frame:
  "coherent d \<Longrightarrow> coherent (d\<lparr>users := x1\<rparr>)" "coherent d \<Longrightarrow> coherent (d\<lparr>epochs := x2\<rparr>)"
  "coherent d \<Longrightarrow> coherent (d\<lparr>catalog_head := x3, catalog_entries := x4, problem_artifacts := x5\<rparr>)"
  "coherent d \<Longrightarrow> coherent (issue_epoch p d)"
  by (auto simp: coherent_def issue_epoch_def split: option.splits)

lemma store_step_inv: "store_step d d' \<Longrightarrow> store_inv d \<Longrightarrow> store_inv d'"
  using inv.exec_step store_step_log [of d d']
  by (auto elim!: store_stepE simp: inv_step_def store_inv_def intro: coherent_frame)

lemma store_run_inv: "store_run d d' \<Longrightarrow> store_inv d \<Longrightarrow> store_inv d'"
  by (induction rule: store_run.induct) (auto dest: store_step_inv)

lemma empty_store_inv: "store_inv empty_db"
  by (simp add: store_inv_def empty_log_inv) (simp add: coherent_def empty_db_def)

text \<open>The deferred constraint is checked by every commit, so every run keeps it.\<close>

lemma run_tx_deferred: "deferred_ok d \<Longrightarrow> deferred_ok (snd (run_tx_or env rec m d))"
  "deferred_ok d \<Longrightarrow> deferred_ok (snd (run_tx env m' d))"
  by (auto simp: run_tx_def run_tx_or_def split: sum.splits commit_outcome.splits)

lemma begin_verify_deferred:
  assumes "deferred_ok d"
  shows "deferred_ok (snd (BeginVerify st env u ref op d))"
proof -
  have "deferred_ok (snd (run_tx_or env rec (begin_verify_tx st env u ref vi) d))" for rec vi
    by (rule run_tx_deferred(1) [OF assms])
  then show ?thesis using assms by (auto simp: BeginVerify_def split: sum.splits prod.splits) (metis snd_conv)+
qed

lemma exec_deferred: "deferred_ok d \<Longrightarrow> deferred_ok (snd (store_exec st env c d))"
  by (cases c)
    (auto simp: ReserveSession_def ReserveReset_def AppendEvent_def MarkCreateSucceeded_def
      MarkClaimedCreateSucceeded_def markCreateSucceeded_def MarkCreateFailed_def MarkClaimedCreateFailed_def
      markCreateFailed_def MarkSettingUp_def MarkReady_def begin_verify_deferred RecordVerifyFinished_def
      RecordVerifyInfrastructureFailure_def record_verify_def recordVerifyResult_def RecordChoice_def
      RequestDestroy_def MarkDestroyed_def MarkClaimedDestroyed_def markDestroyed_def convergeOneLocalRestart_def
      PrepareRecoveryWork_def ClaimDestroyWork_def RetryDestroyWork_def claimProvisionableCreate_def RequestEnd_def Let_def
      run_tx_deferred split: sum.splits option.splits prod.splits)

lemma deferred_frame:
  "deferred_ok (d\<lparr>users := x1\<rparr>) = deferred_ok d" "deferred_ok (issue_epoch p d) = deferred_ok d"
  "deferred_ok (d\<lparr>catalog_head := x3, catalog_entries := x4, problem_artifacts := x5\<rparr>) = deferred_ok d"
  by (auto simp: deferred_ok_def issue_epoch_def split: option.splits)

lemma store_run_deferred: "store_run d d' \<Longrightarrow> deferred_ok d \<Longrightarrow> deferred_ok d'"
  by (induction rule: store_run.induct) (auto elim!: store_stepE simp: deferred_frame intro: exec_deferred)

end
