(* ===== verification/Store_Guarantees.thy ===== *)
theory Store_Guarantees
  imports Store_Demo Store_Coherence
begin

text \<open>
  What holds on every run of the store, whichever controllers call it, whatever their commits do: a
  superseded controller is inert, history is kept and the event logs are gapless.
\<close>

section \<open>Epochs only grow\<close>

definition epoch_at_least :: "string \<Rightarrow> int \<Rightarrow> db \<Rightarrow> bool" where
  "epoch_at_least p n d \<longleftrightarrow>
     (case map_of (epochs d) p of None \<Rightarrow> False | Some e \<Rightarrow> n \<le> e \<and> e \<le> 9223372036854775807)"

lemma map_of_bump: "map_of (map (\<lambda>(q, e). if q = p then (q, f e) else (q, e)) es) p = map_option f (map_of es p)"
  "q' \<noteq> p \<Longrightarrow> map_of (map (\<lambda>(q, e). if q = p then (q, f e) else (q, e)) es) q' = map_of es q'"
  by (induction es) auto

lemma epoch_step:
  assumes "store_step d d'" and "epoch_at_least p n d"
  shows "epoch_at_least p n d'"
  using assms(1)
proof cases
  case (call st env c)
  then show ?thesis using assms(2) history.exec_step [of d st env c] by (simp add: store_le_def epoch_at_least_def)
next
  case (lease q)
  then show ?thesis using assms(2)
    by (cases "q = p") (auto simp: epoch_at_least_def issue_epoch_def map_of_bump split: option.splits)
qed (use assms(2) in \<open>auto simp: epoch_at_least_def\<close>)

lemma epoch_run: "store_run d d' \<Longrightarrow> epoch_at_least p n d \<Longrightarrow> epoch_at_least p n d'"
  by (induction rule: store_run.induct) (auto dest: epoch_step)

lemma uint64_int_inj: "0 < e \<Longrightarrow> e < e' \<Longrightarrow> e' \<le> 9223372036854775807 \<Longrightarrow> uint64 e' \<noteq> uint64 e"
proof
  assume b: "0 < e" "e < e'" "e' \<le> 9223372036854775807" and eq: "uint64 e' = uint64 e"
  from eq have "int64 (uint64 e') = int64 (uint64 e)" by simp
  with b show False by (simp add: int64_uint64)
qed

text \<open>
  C1. Takeover. A new lease of a provider increments its epoch; from then on, on every run, the store
  of the previous controller fails every mutating call and changes nothing, even when a commit is
  ambiguous: \<open>lockControllerEpochTx\<close> is the first statement of every mutation.
\<close>

theorem superseded_controller_is_inert:
  assumes "epoch_current st d"
    and "map_of (epochs d) (FenceProviderID (st_fence st)) = Some e" and "e < 9223372036854775807"
    and "store_run (issue_epoch (FenceProviderID (st_fence st)) d) d'"
  shows "\<exists>err. store_exec st env c d' = (Inl err, d')"
proof (rule exec_fenced)
  let ?p = "FenceProviderID (st_fence st)"
  have e: "0 < e" "uint64 e = FenceEpoch (st_fence st)"
    using assms(1,2) by (auto simp: epoch_current_def)
  have "epoch_at_least ?p (e + 1) (issue_epoch ?p d)"
    using assms(2,3) by (simp add: epoch_at_least_def issue_epoch_def map_of_bump)
  then have "epoch_at_least ?p (e + 1) d'" by (rule epoch_run [OF assms(4)])
  then show "\<not> epoch_current st d'"
    using uint64_int_inj [OF e(1)] e(2) by (auto simp: epoch_at_least_def epoch_current_def split: option.splits)
qed

theorem superseded_controller_is_inert_witness:
  "\<exists>err. store_exec demo_store demo_env (CMarkReady demo_ref) (issue_epoch ''local'' demo_ready) =
     (Inl err, issue_epoch ''local'' demo_ready)"
proof (rule superseded_controller_is_inert [OF demo_epoch])
  show "map_of (epochs demo_ready) (FenceProviderID (st_fence demo_store)) = Some 1"
    by (simp add: demo_ready_def demo_row_defs)
  show "store_run (issue_epoch (FenceProviderID (st_fence demo_store)) demo_ready) (issue_epoch ''local'' demo_ready)"
    by (simp add: demo_store_def store_run.stay)
qed simp

section \<open>History\<close>

lemma table_le_eq_prefix: "table_le (=) xs ys \<Longrightarrow> \<exists>zs. ys = xs @ zs"
proof
  assume "table_le (=) xs ys"
  then have "take (length xs) ys = xs" by (simp add: table_le_def list.rel_eq)
  then show "ys = xs @ drop (length xs) ys" by (metis append_take_drop_id)
qed

lemma run_tables:
  assumes "store_run d d'"
  shows "table_le session_le (sessions d) (sessions d')" "table_le allocation_le (allocations d) (allocations d')"
    "table_le operation_le (operations d) (operations d')" "table_le (=) (events d) (events d')"
    "table_le attempt_le (attempts d) (attempts d')"
  using store_run_rows [OF assms] by (auto simp: rows_le_def)

text \<open>
  C16. History. On every run, whatever is called: the event log is only appended to; a finished attempt
  keeps its row unchanged; a session or an allocation that became desired absent stays desired absent,
  the session at its generation; a succeeded operation stays succeeded with its result.
\<close>

theorem history_is_kept:
  assumes "store_run d d'"
  shows "(\<exists>es. events d' = events d @ es) \<and>
    (\<forall>t \<in> set (attempts d). \<not> in_progress t \<longrightarrow> t \<in> set (attempts d')) \<and>
    (\<forall>s \<in> set (sessions d). s_desired_state s = ''absent'' \<longrightarrow>
      (\<exists>s' \<in> set (sessions d'). s_id s' = s_id s \<and> s_desired_state s' = ''absent'' \<and>
        s_current_generation s' = s_current_generation s)) \<and>
    (\<forall>a \<in> set (allocations d). a_desired_state a = ''absent'' \<longrightarrow>
      (\<exists>a' \<in> set (allocations d'). a_id a' = a_id a \<and> a_desired_state a' = ''absent'')) \<and>
    (\<forall>r \<in> set (operations d). o_state r = ''succeeded'' \<longrightarrow>
      (\<exists>r' \<in> set (operations d'). o_id r' = o_id r \<and> o_request_hash r' = o_request_hash r \<and>
        o_state r' = ''succeeded'' \<and> o_result_metadata r' = o_result_metadata r))"
proof (intro conjI ballI impI)
  note tables = run_tables [OF assms]
  show "\<exists>es. events d' = events d @ es" using tables(4) by (rule table_le_eq_prefix)
  show "t \<in> set (attempts d')" if "t \<in> set (attempts d)" "\<not> in_progress t" for t
    using that by - (rule table_le_row [OF tables(5)], auto simp: attempt_le_def in_progress_def)
  show "\<exists>s' \<in> set (sessions d'). s_id s' = s_id s \<and> s_desired_state s' = ''absent'' \<and>
      s_current_generation s' = s_current_generation s" if "s \<in> set (sessions d)" "s_desired_state s = ''absent''" for s
    using that by - (rule table_le_row [OF tables(1)], auto simp: session_le_def)
  show "\<exists>a' \<in> set (allocations d'). a_id a' = a_id a \<and> a_desired_state a' = ''absent''"
    if "a \<in> set (allocations d)" "a_desired_state a = ''absent''" for a
    using that by - (rule table_le_row [OF tables(2)], auto simp: allocation_le_def)
  show "\<exists>r' \<in> set (operations d'). o_id r' = o_id r \<and> o_request_hash r' = o_request_hash r \<and>
      o_state r' = ''succeeded'' \<and> o_result_metadata r' = o_result_metadata r"
    if "r \<in> set (operations d)" "o_state r = ''succeeded''" for r
    using that by - (rule table_le_row [OF tables(3)], auto simp: operation_le_def)
qed

text \<open>A demonstration run: the create operation of the ready session survives any later step.\<close>

theorem history_is_kept_witness:
  "let d' = snd (store_exec demo_store demo_env (CRequestDestroy demo_ref ''failed'' ''failed'' ''gone'') demo_ready) in
   \<exists>r' \<in> set (operations d'). o_id r' = ''op-c'' \<and> o_request_hash r' = sha256_string ''create'' \<and>
     o_state r' = ''succeeded'' \<and> o_result_metadata r' = []"
proof -
  let ?d = "snd (store_exec demo_store demo_env (CRequestDestroy demo_ref ''failed'' ''failed'' ''gone'') demo_ready)"
  have run: "store_run demo_ready ?d" by (rule store_run.step [OF store_run.stay store_step.call])
  have "operations demo_ready = [demo_create ''succeeded'']" by (simp add: demo_ready_def demo_row_defs)
  with history_is_kept [OF run] show ?thesis by (simp add: demo_row_defs)
qed

section \<open>The event log\<close>

text \<open>
  C6. The event log of every allocation is gapless on every run from the empty database: its sequence
  numbers, in the order of insertion, are exactly 1 to the allocation's counter.
\<close>

theorem event_log_gapless:
  assumes "store_run empty_db d" and "a \<in> set (allocations d)"
  shows "sequences_of (a_id a) d = [1..a_last_event_sequence a]"
  using store_run_log [OF assms(1) empty_log_inv] assms(2)
  by (simp add: log_inv_def gapless_def list_all_iff allocation_gapless_def)

text \<open>A run from the empty database: a user, a lease, a catalog and a reservation.\<close>

definition demo_published :: db where
  "demo_published = empty_db\<lparr>users := [''u1''], epochs := [(''local'', 1)], catalog_head := Some 1,
     catalog_entries := [(1, ''p1'', ''r1'')], problem_artifacts := [(''p1'', ''r1'')]\<rparr>"

definition demo_params :: reserve_session_params where
  "demo_params = \<lparr>rp_SessionID = ''s1'', rp_UserID = ''u1'',
     rp_Selection = \<lparr>SelGeneration = 1, SelProblem = \<lparr>ProblemID = ''p1'', Revision = ''r1''\<rparr>\<rparr>,
     rp_Provider = ''local-docker'', rp_ProviderID = ''local'', rp_ResourceProfile = ''small'', rp_ExpiresAt = 1000000,
     rp_IdempotencyKey = ''create:s1:1''\<rparr>"

lemma demo_published_run: "store_run empty_db demo_published"
proof -
  let ?d1 = "empty_db\<lparr>users := [''u1'']\<rparr>"
  have "store_run empty_db ?d1"
    using store_run.step [OF store_run.stay store_step.user [of empty_db "''u1''"]] by (simp add: empty_db_def)
  moreover have "store_step ?d1 (?d1\<lparr>epochs := [(''local'', 1)]\<rparr>)"
    using store_step.lease [of ?d1 "''local''"] by (simp add: issue_epoch_def empty_db_def)
  ultimately have "store_run empty_db (?d1\<lparr>epochs := [(''local'', 1)]\<rparr>)" by (rule store_run.step)
  moreover have "store_step (?d1\<lparr>epochs := [(''local'', 1)]\<rparr>) demo_published"
    using store_step.publish [where d = "?d1\<lparr>epochs := [(''local'', 1)]\<rparr>" and h = "Some 1" and
        ces = "[(1, ''p1'', ''r1'')]" and pas = "[(''p1'', ''r1'')]"]
    by (simp add: demo_published_def)
  ultimately show ?thesis by (rule store_run.step)
qed

text \<open>The database after the reservation; its allocation id and request hash are digests.\<close>

definition demo_alloc :: string where
  "demo_alloc = AllocationIDForSession (SessionRef ''s1'' 1)"

definition demo_reserved :: db where
  "demo_reserved = demo_published\<lparr>
     sessions := [(demo_session ''queued'' ''active'')\<lparr>s_queued_at := 100, s_expires_at := 1000000, s_created_at := 100\<rparr>],
     allocations := [new_allocation demo_env demo_alloc ''s1'' 1 ''local-docker'' ''local'' ''small'' 1000000 1],
     operations := [new_operation demo_env ''op-'' demo_alloc ''local'' ''create'' ''create:s1:1''
       (hashReservation demo_params demo_alloc) ''pending'' None],
     events := [new_event demo_alloc 1 ''allocation_reserved'' ''create_requested'' ''Environment reservation accepted.'' 100],
     attempts := [new_attempt ''s1'' ''u1'' ''p1'' 100 ''s1'' 1]\<rparr>"

lemma demo_reserve:
  "ReserveSession demo_store demo_env [] demo_params demo_published =
     (Inr (reservationValue demo_params demo_alloc ''op-'' (hashReservation demo_params demo_alloc) 100), demo_reserved)"
proof -
  have valid: "validateReservation demo_params = Inr ()"
    by (simp add: validateReservation_def demo_params_def ValidateProviderOperationKey_def
        providerOperationKeyPattern_def op_key_char_def char_class_defs MaxDurableValue_eq zero_time_def)
  have params: "complete_params [] demo_params = demo_params" "demo_params\<lparr>rp_ExpiresAt := truncate_us (rp_ExpiresAt demo_params)\<rparr> = demo_params"
    by (simp_all add: complete_params_def demo_params_def truncate_us_def)
  have len: "length (hashReservation p i) = 32" for p i by (simp add: hashReservation_def)
  have tx: "reserve_tx demo_store demo_env demo_params demo_published =
      Inr (reservationValue demo_params demo_alloc ''op-'' (hashReservation demo_params demo_alloc) 100, demo_reserved)"
    by (simp add: reserve_tx_def reserve_rows_def validateCatalogSelectionTx_def loadReservationByOperation_def
        reservation_join_def demo_eval Let_def demo_published_def empty_db_def demo_params_def len initialGeneration_def
        demo_reserved_def new_allocation_def demo_alloc_def)
  have fk: "deferred_ok demo_reserved"
    by (simp add: deferred_ok_def demo_reserved_def demo_eval new_allocation_def)
  have prov: "requireProvider demo_store (rp_ProviderID demo_params) = Inr ()" "env_commit demo_env = Committed"
    by (simp_all add: requireProvider_def demo_params_def demo_store_def demo_env_def)
  show ?thesis by (simp add: ReserveSession_def prov params valid run_tx_def run_tx_or_def tx fk Let_def)
qed

lemma demo_reserved_run: "store_run empty_db demo_reserved"
proof (rule store_run.step [OF demo_published_run])
  have "snd (store_exec demo_store demo_env (CReserveSession [] demo_params) demo_published) = demo_reserved"
    by (simp add: demo_reserve)
  then show "store_step demo_published demo_reserved" by (metis store_step.call)
qed

theorem event_log_gapless_witness: "sequences_of demo_alloc demo_reserved = [1]"
  using event_log_gapless [OF demo_reserved_run]
  by (simp add: demo_reserved_def new_allocation_def)

section \<open>Desired states\<close>

text \<open>
  C5. Agreement. On every run from the empty database: an allocation is desired active exactly when it
  is the current generation of an active session; an attempt is in progress exactly when it is the
  attempt of the current generation of an active session; and an active session has exactly one
  active allocation.
\<close>

theorem desired_states_agree:
  assumes "store_run empty_db d" and "s \<in> set (sessions d)"
  shows "(\<forall>a \<in> set (allocations d). a_session_id a = s_id s \<longrightarrow>
       (active_allocation a \<longleftrightarrow> active_session s \<and> a_generation a = s_current_generation s)) \<and>
    (\<forall>t \<in> set (attempts d). t_session_id t = s_id s \<longrightarrow>
       (in_progress t \<longleftrightarrow> active_session s \<and> t_generation t = s_current_generation s)) \<and>
    (active_session s \<longrightarrow> (\<exists>!a. a \<in> set (allocations d) \<and> a_session_id a = s_id s \<and> active_allocation a))"
proof -
  have inv: "store_inv d" by (rule store_run_inv [OF assms(1) empty_store_inv])
  then have ok: "schema_ok d" and coh: "coherent d" by (simp_all add: store_inv_def log_inv_def)
  have agree: "active_allocation a \<longleftrightarrow> active_session s \<and> a_generation a = s_current_generation s"
    if "a \<in> set (allocations d)" "a_session_id a = s_id s" for a
    using coherentD(1) [OF coh assms(2) that(1)] that(2) by (simp add: allocation_agrees_def)
  have "deferred_ok d" by (rule store_run_deferred [OF assms(1)]) (simp add: deferred_ok_def empty_db_def)
  then obtain a where a: "a \<in> set (allocations d)" "a_session_id a = s_id s" "a_generation a = s_current_generation s"
    using assms(2) by (auto simp: deferred_ok_def list_all_iff)
  have "\<exists>!a. a \<in> set (allocations d) \<and> a_session_id a = s_id s \<and> active_allocation a" if "active_session s"
  proof (rule ex1I [of _ a])
    show "a \<in> set (allocations d) \<and> a_session_id a = s_id s \<and> active_allocation a" using a agree that by simp
    show "b = a" if "b \<in> set (allocations d) \<and> a_session_id b = s_id s \<and> active_allocation b" for b
      using unique_rows(3) [OF ok a(1), of b] agree [of b] a that by simp
  qed
  then show ?thesis using agree coherentD(2) [OF coh assms(2)] by (simp add: attempt_agrees_def)
qed

theorem desired_states_agree_witness:
  "\<exists>!a. a \<in> set (allocations demo_reserved) \<and> a_session_id a = ''s1'' \<and> active_allocation a"
proof -
  let ?s = "(demo_session ''queued'' ''active'')\<lparr>s_queued_at := 100, s_expires_at := 1000000, s_created_at := 100\<rparr>"
  have s: "?s \<in> set (sessions demo_reserved)" by (simp add: demo_reserved_def)
  have act: "active_session ?s" "s_id ?s = ''s1''" by (simp_all add: demo_session_def active_session_def)
  from desired_states_agree [OF demo_reserved_run s] act show ?thesis by simp
qed

end
