(* ===== verification/Store_Grades.thy ===== *)
theory Store_Grades
  imports Store_Guarantees
begin

text \<open>
  Verification over time: a client operation is admitted to the provider at most once, a recorded
  grade is final and answers every later lookup, and every result fits its column.
\<close>

section \<open>Lookups survive\<close>

text \<open>A query by identity columns finds the same row, related, after any change of the table.\<close>

lemma find_table_le:
  assumes "table_le Q xs ys" and "find P xs = Some x" and inv: "\<And>a b. Q a b \<Longrightarrow> P b = P a"
  shows "\<exists>y. find P ys = Some y \<and> Q x y"
proof -
  from assms(1) obtain n where "list_all2 Q xs (take n ys)" by (auto simp: table_le_def)
  then have "\<exists>y. find P (take n ys) = Some y \<and> Q x y" using assms(2)
    by (induction rule: list_all2_induct) (auto simp: inv split: if_splits)
  then show ?thesis using find_append [of P "take n ys" "drop n ys"] by auto
qed

lemma find_conj: "find P xs = Some x \<Longrightarrow> Q x \<Longrightarrow> find (\<lambda>x. P x \<and> Q x) xs = Some x"
  by (induction xs) (auto split: if_splits)

lemma operation_by_key_le:
  assumes "rows_le d d'" and "operation_by_key p k d = Some r"
  shows "\<exists>r'. operation_by_key p k d' = Some r' \<and> operation_le r r'"
  using assms find_table_le [of operation_le "operations d" "operations d'"]
  unfolding operation_by_key_def rows_le_def by (auto simp: operation_le_def)

lemma operation_by_key_kept:
  "rows_le d d' \<Longrightarrow> operation_by_key p k d \<noteq> None \<Longrightarrow> operation_by_key p k d' \<noteq> None"
  using operation_by_key_le by blast

lemma user_operation_le:
  assumes le: "rows_le d d'" and "user_operation p k u d = Some (r, a, s)"
  shows "\<exists>r' a' s'. user_operation p k u d' = Some (r', a', s') \<and> operation_le r r' \<and> allocation_le a a'"
proof -
  let ?A = "\<lambda>a. a_id a = o_allocation_id r \<and> a_provider_id a = o_provider_id r"
  let ?S = "\<lambda>s. s_id s = a_session_id a \<and> s_user_id s = u"
  from assms(2) have rows: "operation_by_key p k d = Some r" "find ?A (allocations d) = Some a" "find ?S (sessions d) = Some s"
    by (auto simp: user_operation_def bind_eq_Some_conv)
  obtain r' where r': "operation_by_key p k d' = Some r'" "operation_le r r'"
    using operation_by_key_le [OF le rows(1)] by blast
  have "\<exists>a'. find ?A (allocations d') = Some a' \<and> allocation_le a a'"
    using le rows(2) by (intro find_table_le [of allocation_le]) (auto simp: rows_le_def allocation_le_def)
  then obtain a' where a': "find ?A (allocations d') = Some a'" "allocation_le a a'" by blast
  have "\<exists>s'. find ?S (sessions d') = Some s' \<and> session_le s s'"
    using le rows(3) by (intro find_table_le [of session_le]) (auto simp: rows_le_def session_le_def)
  then obtain s' where s': "find ?S (sessions d') = Some s'" by blast
  have same: "o_allocation_id r' = o_allocation_id r" "o_provider_id r' = o_provider_id r" "a_session_id a' = a_session_id a"
    using r'(2) a'(2) by (simp_all add: operation_le_def allocation_le_def)
  with r' a' s' show ?thesis by (simp add: user_operation_def)
qed

lemma ref_of_row_le: "allocation_le a a' \<Longrightarrow> ref_of_row a' = ref_of_row a"
  by (simp add: allocation_le_def ref_of_row_def)

section \<open>One execution per operation\<close>

lemma stored_decision_kinds:
  "storedVerifyDecision ref state code doc = Inr v \<Longrightarrow> \<not> AllowsProviderCall v"
  by (auto simp: storedVerifyDecision_def AllowsProviderCall_def decision_def Let_def
      split: if_splits option.splits)

lemma stored_decision_grade:
  "storedVerifyDecision ref state code doc = Inr v \<Longrightarrow> vd_Kind v = VerifyGradeReplay \<Longrightarrow> state = ''succeeded''"
  by (auto simp: storedVerifyDecision_def decision_def Let_def split: if_splits option.splits)

lemma lookup_found:
  assumes "lookupVerify st u op cur d = Inr (Some v)"
  obtains key r a s identity where "verifyIdempotencyKey u op = Inr key"
    "user_operation (FenceProviderID (st_fence st)) key u d = Some (r, a, s)"
    "newVerifyIdentity (ref_of_row a) u op = Inr identity" "o_kind r = ''verify''" "o_request_hash r = vi_requestHash identity"
    "storedVerifyDecision (AllocSession (ref_of_row a)) (o_state r) (error_text r) (o_result_metadata r) = Inr v"
  using assms by (auto simp: lookupVerify_def split: sum.splits option.splits if_splits)

lemma lookup_key:
  assumes "lookupVerify st u op cur d = Inr (Some v)" and "verifyIdempotencyKey u op = Inr key"
  shows "operation_by_key (FenceProviderID (st_fence st)) key d \<noteq> None" and "\<not> AllowsProviderCall v"
  using assms by (auto elim!: lookup_found simp: user_operation_def bind_eq_Some_conv dest: stored_decision_kinds)

lemma identity_key:
  "newVerifyIdentity ref u op = Inr identity \<Longrightarrow> verifyIdempotencyKey u op = Inr (vi_idempotencyKey identity)"
  by (auto simp: newVerifyIdentity_def split: if_splits sum.splits)

lemma load_decision_kind: "loadVerifyDecisionTx ref p vi d = Inr (v, d') \<Longrightarrow> \<not> AllowsProviderCall v"
  by (auto simp: loadVerifyDecisionTx_def tx_Inr dest: stored_decision_kinds)

lemma ensure_verify_key:
  assumes "ensureVerifyOperationTx env ref p vi d = Inr ((s, found), d')"
  shows "operation_by_key p (vi_idempotencyKey vi) d' \<noteq> None"
    and "found \<longleftrightarrow> operation_by_key p (vi_idempotencyKey vi) d \<noteq> None"
  using assms
  by (auto simp: ensureVerifyOperationTx_def tx_Inr fresh_operation_def new_operation_def sql_Inr operation_by_key_def
      find_append split: option.splits)

lemma begin_verify_outcome:
  assumes "begin_verify_tx st env u ref vi d = Inr ((v, replay), d')"
  shows "operation_by_key (FenceProviderID (st_fence st)) (vi_idempotencyKey vi) d' \<noteq> None"
    and "operation_by_key (FenceProviderID (st_fence st)) (vi_idempotencyKey vi) d \<noteq> None \<Longrightarrow> replay \<and> \<not> AllowsProviderCall v"
proof -
  let ?p = "FenceProviderID (st_fence st)"
  from assms obtain s a state found d1 where
    ensure: "ensureVerifyOperationTx env ref ?p vi d = Inr ((state, found), d1)" and
    rest: "(if found then tx_bind (loadVerifyDecisionTx ref ?p vi) (\<lambda>v. tx_return (v, True)) d1
            else start_verify env ref vi s a d1) = Inr ((v, replay), d')"
    by (auto simp: begin_verify_tx_def tx_Inr guard_Inrs split: if_splits)
  have key: "operation_by_key ?p (vi_idempotencyKey vi) d1 \<noteq> None" by (rule ensure_verify_key [OF ensure])
  have "store_le d1 d'"
    using rest tx_relD [OF le_start_verify]
    by (auto simp: tx_Inr dest: load_verify_state intro: history.refl_step split: if_splits)
  then show "operation_by_key ?p (vi_idempotencyKey vi) d' \<noteq> None"
    using operation_by_key_kept key by (auto simp: store_le_def)
  show "replay \<and> \<not> AllowsProviderCall v" if "operation_by_key ?p (vi_idempotencyKey vi) d \<noteq> None"
    using that rest ensure_verify_key(2) [OF ensure] by (auto simp: tx_Inr dest: load_decision_kind)
qed

lemma BeginVerify_cases:
  assumes "BeginVerify st env u ref op d = (Inr v, d1)"
  obtains vi x d' where "newVerifyIdentity ref u op = Inr vi" "begin_verify_tx st env u ref vi d = Inr (x, d')"
    "v = fst x \<and> d1 = d' \<or> (\<exists>y. reconcileVerifyBeginCommit st env u op x d1 = Inr y \<and> v = fst y \<and> d1 \<in> {d, d'})"
  using assms
  by (auto simp: BeginVerify_def run_tx_or_def split: sum.splits prod.splits if_splits commit_outcome.splits)

lemma reconcile_begin:
  assumes "reconcileVerifyBeginCommit st env u op x d = Inr y"
  obtains actual where "lookupVerify st u op False d = Inr (Some actual)" "y = (actual, True) \<or> \<not> snd x \<and> y = x"
  using assms by (auto simp: reconcileVerifyBeginCommit_def split: if_splits sum.splits option.splits)

lemma admitted_key_stored:
  assumes "BeginVerify st env u ref op d = (Inr v, d1)" and "verifyIdempotencyKey u op = Inr key"
  shows "operation_by_key (FenceProviderID (st_fence st)) key d1 \<noteq> None"
  using assms by (auto elim!: BeginVerify_cases reconcile_begin dest!: begin_verify_outcome(1) identity_key lookup_key(1))

lemma stored_key_not_admitted:
  assumes "BeginVerify st env u ref op d = (Inr v, d1)" and "verifyIdempotencyKey u op = Inr key"
    and stored: "operation_by_key (FenceProviderID (st_fence st)) key d \<noteq> None"
  shows "\<not> AllowsProviderCall v"
proof -
  from assms(1) obtain vi x d' where vi: "newVerifyIdentity ref u op = Inr vi"
    and tx: "begin_verify_tx st env u ref vi d = Inr (x, d')"
    and out: "v = fst x \<and> d1 = d' \<or> (\<exists>y. reconcileVerifyBeginCommit st env u op x d1 = Inr y \<and> v = fst y \<and> d1 \<in> {d, d'})"
    by (rule BeginVerify_cases)
  have "key = vi_idempotencyKey vi" using identity_key [OF vi] assms(2) by simp
  with stored tx have x: "snd x \<and> \<not> AllowsProviderCall (fst x)"
    using begin_verify_outcome(2) [of st env u ref vi d "fst x" "snd x" d'] by simp
  from out show ?thesis
    using x by (auto elim!: reconcile_begin dest: lookup_key(2) [OF _ assms(2)])
qed



text \<open>The demonstration session starts a verification; its second start resumes.\<close>

definition demo_identity :: verify_identity where
  "demo_identity = \<lparr>vi_operationID = ''op-00001'', vi_idempotencyKey = ''verify-user:u1:op-00001'',
     vi_requestHash = sha256_string (''k8s-quiz/verify/v2'' @ NUL @ ''u1'' @ NUL @ ''a1'' @ NUL @ dec_u64 1 @ NUL @ ''s1'' @ NUL @
       ''local-docker'' @ NUL @ ''op-00001'')\<rparr>"

definition demo_verify_operation :: operation_row where
  "demo_verify_operation = new_operation demo_env (''op-i'') ''a1'' ''local'' ''verify'' ''verify-user:u1:op-00001''
     (vi_requestHash demo_identity) ''running'' (Some 100)"

definition demo_verifying :: db where
  "demo_verifying = demo_db (demo_session ''verifying'' ''active'') (demo_allocation ''active'' ''running'' 2)
     [demo_create ''succeeded'', demo_verify_operation]
     [demo_event 1 ''allocation_reserved'' ''create_requested'',
      logged_event demo_env ''a1'' 2 (Some ''verify-user:u1:op-00001:started'') ''verify_started'' ''verify_requested''
        ''Verification started.'' [(''operation_id'', JStr ''op-00001'')]] (demo_attempt ''in_progress'')"

lemma demo_key: "verifyIdempotencyKey ''u1'' ''op-00001'' = Inr ''verify-user:u1:op-00001''"
  by (simp add: verifyIdempotencyKey_def identity_char_def char_class_defs ValidateProviderOperationKey_def
      providerOperationKeyPattern_def op_key_char_def)

lemma demo_identity: "newVerifyIdentity demo_ref ''u1'' ''op-00001'' = Inr demo_identity"
  by (simp add: newVerifyIdentity_def demo_key demo_identity_def identity_char_def char_class_defs demo_ref_def
      AllocationRef_def SessionRef_def ref_incomplete_def)

lemma length_demo_hash [simp]: "length (vi_requestHash demo_identity) = 32"
  by (simp add: demo_identity_def)

lemma demo_identity_fields: "vi_operationID demo_identity = ''op-00001''"
  "vi_idempotencyKey demo_identity = ''verify-user:u1:op-00001''"
  by (simp_all add: demo_identity_def)

lemma demo_text: "boundedDurableMessage ''Verification started.'' = ''Verification started.''"
  "boundedDurableCode ''verify_requested'' = ''verify_requested''"
  by (simp_all add: boundedDurableMessage_def boundedDurableCode_def boundedUTF8_id valid_utf8_ascii is_ascii_def)

lemma demo_payload: "length (marshal [(''operation_id'', JStr ''op-00001'')]) \<le> maxDurableJSONBytes"
  using length_json_string [of "''operation_id''"] length_json_string [of "''op-00001''"]
  by (simp add: marshal_def maxDurableJSONBytes_def)

lemma demo_begin: "BeginVerify demo_store demo_env ''u1'' demo_ref ''op-00001'' demo_ready =
   (Inr (decision VerifyExecute (AllocSession demo_ref)), demo_verifying)"
proof -
  have tx: "begin_verify_tx demo_store demo_env ''u1'' demo_ref demo_identity demo_ready =
      Inr ((decision VerifyExecute (AllocSession demo_ref), False), demo_verifying)"
    using demo_payload
    by (simp add: begin_verify_tx_def ensureVerifyOperationTx_def start_verify_def demo_eval Let_def demo_ready_def
        demo_identity_fields ensure_keyed_event_def ensureKeyedEventTx_def startedEventKey_def demo_text
        boundedEventPayload_def demo_verifying_def demo_verify_operation_def nullif_empty_def)
  have "deferred_ok demo_verifying" "env_commit demo_env = Committed"
    by (simp_all add: deferred_ok_def demo_verifying_def demo_eval)
  then show ?thesis by (simp add: BeginVerify_def demo_identity run_tx_or_def tx)
qed

lemma demo_resume: "BeginVerify demo_store demo_env ''u1'' demo_ref ''op-00001'' demo_verifying =
   (Inr (decision VerifyResume (AllocSession demo_ref)), demo_verifying)"
proof -
  have tx: "begin_verify_tx demo_store demo_env ''u1'' demo_ref demo_identity demo_verifying =
      Inr ((decision VerifyResume (AllocSession demo_ref), True), demo_verifying)"
    by (simp add: begin_verify_tx_def ensureVerifyOperationTx_def loadVerifyDecisionTx_def storedVerifyDecision_def
        demo_eval demo_identity_fields demo_verifying_def demo_verify_operation_def)
  have "deferred_ok demo_verifying" "env_commit demo_env = Committed"
    by (simp_all add: deferred_ok_def demo_verifying_def demo_eval)
  then show ?thesis by (simp add: BeginVerify_def demo_identity run_tx_or_def tx)
qed


section \<open>Results\<close>

lemma metadata_grade_roundtrip: "unmarshal_metadata (metadata_doc (grade_metadata ok log)) = Some (grade_metadata ok log)"
  by (simp add: unmarshal_metadata_def metadata_doc_def grade_metadata_def)

text \<open>Decoding looks at the first member of each name, which sorting by name keeps first.\<close>

lemma map_of_filter: "map_of xs k = (case filter (\<lambda>x. fst x = k) xs of [] \<Rightarrow> None | x # _ \<Rightarrow> Some (snd x))"
  by (induction xs) auto

lemma map_of_sort_key: "map_of (sort_key fst xs) k = map_of xs k"
  for xs :: "(string \<times> json) list"
  using sort_key_stable [of fst k xs] by (simp add: map_of_filter)

lemma equalJSON_unmarshal:
  assumes "equalJSON x y"
  shows "unmarshal_metadata x = unmarshal_metadata y"
proof -
  have "map_of x k = map_of y k" for k
    using map_of_sort_key [of x k] map_of_sort_key [of y k] assms by (simp add: equalJSON_def)
  then show ?thesis by (simp add: unmarshal_metadata_def)
qed

definition grade_decision :: "session_ref \<Rightarrow> bool \<Rightarrow> string \<Rightarrow> verify_decision" where
  "grade_decision ref ok log = (decision VerifyGradeReplay ref)\<lparr>vd_Success := ok, vd_Log := boundedDurableMessage log\<rparr>"

lemma stored_grade:
  "unmarshal_metadata doc = Some (grade_metadata ok log) \<Longrightarrow>
   storedVerifyDecision ref ''succeeded'' code doc = Inr (grade_decision ref ok log)"
  by (simp add: storedVerifyDecision_def grade_metadata_def grade_decision_def)

lemma stored_succeeded_code:
  "storedVerifyDecision ref ''succeeded'' code doc = storedVerifyDecision ref ''succeeded'' code' doc"
  by (simp add: storedVerifyDecision_def)

section \<open>Grades are final\<close>

lemma lookup_grade_kept:
  assumes "lookupVerify st u op False d = Inr (Some v)" and "vd_Kind v = VerifyGradeReplay"
    and le: "rows_le d d'" and "FenceProviderID (st_fence st') = FenceProviderID (st_fence st)"
  shows "lookupVerify st' u op False d' = Inr (Some v)"
proof -
  from assms(1) obtain key r a s identity where key: "verifyIdempotencyKey u op = Inr key"
    and rows: "user_operation (FenceProviderID (st_fence st)) key u d = Some (r, a, s)"
    and id: "newVerifyIdentity (ref_of_row a) u op = Inr identity"
    and r: "o_kind r = ''verify''" "o_request_hash r = vi_requestHash identity"
    and stored: "storedVerifyDecision (AllocSession (ref_of_row a)) (o_state r) (error_text r) (o_result_metadata r) = Inr v"
    by (rule lookup_found)
  have state: "o_state r = ''succeeded''" by (rule stored_decision_grade [OF stored assms(2)])
  obtain r' a' s' where rows': "user_operation (FenceProviderID (st_fence st)) key u d' = Some (r', a', s')"
    and le': "operation_le r r'" "allocation_le a a'"
    using user_operation_le [OF le rows] by blast
  have r': "o_kind r' = ''verify''" "o_request_hash r' = vi_requestHash identity" "o_state r' = ''succeeded''"
    "o_result_metadata r' = o_result_metadata r"
    using le'(1) r state by (simp_all add: operation_le_def)
  have "storedVerifyDecision (AllocSession (ref_of_row a)) ''succeeded'' (error_text r') (o_result_metadata r) = Inr v"
    using stored stored_succeeded_code state by metis
  then show ?thesis
    by (simp add: lookupVerify_def key assms(4) rows' ref_of_row_le [OF le'(2)] id r')
qed

lemma ref_of_matching_row: "a_id a = AllocID ref \<Longrightarrow> row_matches_ref a ref \<Longrightarrow> ref_of_row a = ref"
  by (simp add: ref_of_row_def row_matches_ref_def AllocationRef_def SessionRef_def)


lemma find_update_first:
  assumes "find P rows = Some r" and "Q r" and "\<And>x. P x \<Longrightarrow> P (f x)" and "\<And>x. \<not> P x \<Longrightarrow> \<not> P (f x)"
  shows "find P (update_where Q f rows) = Some (f r)"
  using assms by (induction rows) (auto split: if_splits)

lemma finish_operation_row:
  assumes "finish_operation env p k state code doc d = Inr (u, d')" and "operation_by_key p k d = Some r" and "o_state r = ''running''"
  shows "\<exists>r'. operation_by_key p k d' = Some r' \<and> o_kind r' = o_kind r \<and> o_allocation_id r' = o_allocation_id r \<and>
    o_provider_id r' = o_provider_id r \<and> o_request_hash r' = o_request_hash r \<and> o_state r' = state \<and> o_result_metadata r' = doc"
proof -
  have "o_provider_id r = p" "o_idempotency_key r = k"
    using assms(2) by (auto simp: operation_by_key_def dest: find_Some_iff_in)
  then have "find (\<lambda>r. o_provider_id r = p \<and> o_idempotency_key r = k) (operations d') =
     Some (r\<lparr>o_state := state, o_completed_at := Some (env_now env), o_error_code := code, o_error_message := None,
             o_result_metadata := doc\<rparr>)"
    using assms by (auto simp: finish_operation_def exec_Inr sql_Inr operation_by_key_def intro!: find_update_first)
  then show ?thesis by (simp add: operation_by_key_def)
qed

lemma verify_result_rows_grade:
  assumes "verify_result_rows env ref p vi vm doc d = Inr (u, d')" and "\<not> vm_InfrastructureError vm"
  obtains d1 x where "finish_operation env p (vi_idempotencyKey vi) ''succeeded'' None doc d = Inr (x, d1)" "store_le d1 d'"
proof -
  let ?grade = "if gradeSucceeded vm then grade_passed env ref p (verifyLog_of vm)
    else tx_block [grade_failed ref (verifyLog_of vm), restore_ready ref]"
  let ?log = "tx_block [ensure_keyed_event env (AllocID ref) (finishedEventKey vi) ''verify_finished''
        (if vm_InfrastructureError vm then vm_Code vm else if gradeSucceeded vm then ''grade_passed'' else ''grade_failed'')
        (if vm_InfrastructureError vm then ''Verification could not be completed.'' else ''Verification finished.'') doc,
      if gradeSucceeded vm then ensure_event env (AllocID ref) ''destroying'' ''completed'' ''Environment cleanup started.''
      else tx_return ()]"
  from tx_block_ConsD [OF assms(1) [unfolded verify_result_rows_def]] obtain d2
    where graded: "tx_block [finish_operation env p (vi_idempotencyKey vi) ''succeeded'' None doc, ?grade] d = Inr ((), d2)"
      and log: "?log d2 = Inr (u, d')"
    using assms(2) by (auto simp del: tx_block.simps)
  from tx_block_ConsD [OF graded] obtain d1 where
    d1: "finish_operation env p (vi_idempotencyKey vi) ''succeeded'' None doc d = Inr ((), d1)"
    and d2: "tx_block [?grade] d1 = Inr ((), d2)" by blast
  have "tx_rel store_le (tx_block [?grade])" "tx_rel store_le ?log" by (intro history.rel_intros le_intros)+
  then have "store_le d1 d'" using d2 log by (blast dest: tx_relD intro: history.trans_step)
  with d1 show thesis by (rule that)
qed

text \<open>What a committed grade leaves: the operation, succeeded, with a result that decodes to the grade.\<close>

lemma verify_result_row:
  assumes tx: "verify_result_tx st env ref vi vm doc d = Inr (u, d')" and "\<not> vm_InfrastructureError vm"
  shows "\<exists>r'. operation_by_key (FenceProviderID (st_fence st)) (vi_idempotencyKey vi) d' = Some r' \<and>
    o_allocation_id r' = AllocID ref \<and> o_provider_id r' = FenceProviderID (st_fence st) \<and> o_kind r' = ''verify'' \<and>
    o_request_hash r' = vi_requestHash vi \<and> o_state r' = ''succeeded'' \<and> equalJSON (o_result_metadata r') doc"
proof -
  let ?p = "FenceProviderID (st_fence st)"
  from tx assms(2) obtain r where r: "operation_by_key ?p (vi_idempotencyKey vi) d = Some r" "o_allocation_id r = AllocID ref"
      "o_kind r = ''verify''" "o_request_hash r = vi_requestHash vi"
    and cases: "o_state r = ''succeeded'' \<and> equalJSON (o_result_metadata r) doc \<and> d' = d \<or>
      o_state r = ''running'' \<and> verify_result_rows env ref ?p vi vm doc d = Inr (u, d')"
    by (auto simp: verify_result_tx_def tx_Inr guard_Inrs split: if_splits)
  have p: "o_provider_id r = ?p" using r(1) by (auto simp: operation_by_key_def dest: find_Some_iff_in)
  show ?thesis
  proof (cases "o_state r = ''running''")
    case True
    with cases have "verify_result_rows env ref ?p vi vm doc d = Inr (u, d')" by auto
    then obtain d1 x where d1: "finish_operation env ?p (vi_idempotencyKey vi) ''succeeded'' None doc d = Inr (x, d1)"
      and rest: "store_le d1 d'"
      using assms(2) by (rule verify_result_rows_grade)
    from finish_operation_row [OF d1 r(1) True] obtain r1 where
      r1: "operation_by_key ?p (vi_idempotencyKey vi) d1 = Some r1" "o_kind r1 = o_kind r" "o_allocation_id r1 = o_allocation_id r"
        "o_provider_id r1 = o_provider_id r" "o_request_hash r1 = o_request_hash r" "o_state r1 = ''succeeded''" "o_result_metadata r1 = doc"
      by blast
    have "rows_le d1 d'" using rest by (simp add: store_le_def)
    from operation_by_key_le [OF this r1(1)] obtain r' where "operation_by_key ?p (vi_idempotencyKey vi) d' = Some r'" "operation_le r1 r'"
      by blast
    with r p r1 show ?thesis by (auto simp: operation_le_def)
  qed (use cases r p in auto)
qed


lemma verify_user_rows:
  assumes "verifyUserID ref d = Inr u" and "enter_exact st ref d = Inr (p, d)"
  obtains a s where "find (\<lambda>a. a_id a = AllocID ref \<and> a_provider_id a = FenceProviderID (st_fence st)) (allocations d) = Some a"
    "find (\<lambda>s. s_id s = a_session_id a \<and> s_user_id s = u) (sessions d) = Some s" "ref_of_row a = ref"
proof -
  from assms(2) obtain a where a: "allocation_by_id (AllocID ref) d = Some a" "row_matches_ref a ref"
      "a_provider_id a = FenceProviderID (st_fence st)" by (auto simp: guard_Inrs)
  note a_find = a(1) [unfolded allocation_by_id_def]
  from find_conj [OF a_find, where Q = "\<lambda>a. row_matches_ref a ref", OF a(2)] assms(1) obtain s where
    "session_by_id (a_session_id a) d = Some s" "s_user_id s = u"
    by (auto simp: verifyUserID_def split: if_splits option.splits)
  then have "find (\<lambda>s. s_id s = a_session_id a \<and> s_user_id s = u) (sessions d) = Some s"
    unfolding session_by_id_def by (rule find_conj)
  with find_conj [OF a_find, where Q = "\<lambda>a. a_provider_id a = FenceProviderID (st_fence st)", OF a(3)] show thesis
    using that ref_of_matching_row [OF _ a(2)] find_allocation [OF a(1)] by blast
qed

lemma verify_result_lookup:
  assumes user: "verifyUserID ref d = Inr u" and vi: "newVerifyIdentity ref u op = Inr vi"
    and doc: "equalJSON doc (metadata_doc (grade_metadata ok log))"
    and tx: "verify_result_tx st env ref vi (grade_metadata ok log) doc d = Inr (x, d')"
  shows "lookupVerify st u op False d' = Inr (Some (grade_decision (AllocSession ref) ok log))"
proof -
  let ?p = "FenceProviderID (st_fence st)"
  have grade: "\<not> vm_InfrastructureError (grade_metadata ok log)" by (simp add: grade_metadata_def)
  from tx have enter: "enter_exact st ref d = Inr (?p, d)" by (auto simp: verify_result_tx_def tx_Inr guard_Inrs)
  from verify_user_rows [OF user enter] obtain a s where
    a: "find (\<lambda>a. a_id a = AllocID ref \<and> a_provider_id a = ?p) (allocations d) = Some a" "ref_of_row a = ref" and
    s: "find (\<lambda>s. s_id s = a_session_id a \<and> s_user_id s = u) (sessions d) = Some s" by blast
  have le: "rows_le d d'" using tx_relD [OF le_verify_result tx] by (simp add: store_le_def)
  have "\<exists>a'. find (\<lambda>a. a_id a = AllocID ref \<and> a_provider_id a = ?p) (allocations d') = Some a' \<and> allocation_le a a'"
    using le a(1) by (intro find_table_le [of allocation_le]) (auto simp: rows_le_def allocation_le_def)
  then obtain a' where a': "find (\<lambda>a. a_id a = AllocID ref \<and> a_provider_id a = ?p) (allocations d') = Some a'" "allocation_le a a'"
    by blast
  have "\<exists>s'. find (\<lambda>s. s_id s = a_session_id a \<and> s_user_id s = u) (sessions d') = Some s' \<and> session_le s s'"
    using le s by (intro find_table_le [of session_le]) (auto simp: rows_le_def session_le_def)
  then obtain s' where s': "find (\<lambda>s. s_id s = a_session_id a \<and> s_user_id s = u) (sessions d') = Some s'" by blast
  from verify_result_row [OF tx grade] obtain r where
    r: "operation_by_key ?p (vi_idempotencyKey vi) d' = Some r" "o_allocation_id r = AllocID ref" "o_provider_id r = ?p"
      "o_kind r = ''verify''" "o_request_hash r = vi_requestHash vi" "o_state r = ''succeeded''" "equalJSON (o_result_metadata r) doc"
    by blast
  have "equalJSON (o_result_metadata r) (metadata_doc (grade_metadata ok log))"
    using r(7) doc by (simp add: equalJSON_def)
  then have "unmarshal_metadata (o_result_metadata r) = Some (grade_metadata ok log)"
    by (simp add: equalJSON_unmarshal metadata_grade_roundtrip)
  moreover have "user_operation ?p (vi_idempotencyKey vi) u d' = Some (r, a', s')"
    using r a' s' by (simp add: user_operation_def allocation_le_def)
  ultimately show ?thesis
    using r(4-6) vi a(2) ref_of_row_le [OF a'(2)]
    by (simp add: lookupVerify_def identity_key [OF vi] stored_grade)
qed



text \<open>A message of the texts this store writes is stored as it is.\<close>

lemma bounded_ascii: "list_all is_ascii s \<Longrightarrow> length s \<le> 1024 \<Longrightarrow> boundedDurableMessage s = s"
  "list_all is_ascii s \<Longrightarrow> length s \<le> 64 \<Longrightarrow> boundedDurableCode s = s"
  by (simp_all add: boundedDurableMessage_def boundedDurableCode_def boundedUTF8_id valid_utf8_ascii)

lemma length_marshal_grade:
  "length (marshal (metadata_doc (grade_metadata ok log))) \<le> 6 * length log + 200"
  using length_json_string [of "''success''"] length_json_string [of "''log''"] length_json_string [of log]
  by (simp add: marshal_def metadata_doc_def grade_metadata_def)

lemma demo_record: "\<exists>d1. RecordVerifyFinished demo_store demo_env demo_ref ''op-00001'' True ''passed'' demo_verifying = (Inr (), d1)"
proof -
  let ?vm = "grade_metadata True ''passed''"
  have size: "length (marshal (metadata_doc ?vm)) \<le> maxDurableJSONBytes"
    using length_marshal_grade [of True "''passed''"] by (simp add: maxDurableJSONBytes_def)
  have user: "verifyUserID demo_ref demo_verifying = Inr ''u1''"
    by (simp add: verifyUserID_def demo_verifying_def demo_eval)
  have doc: "metadata_doc ?vm = [(''success'', JBool True), (''log'', JStr ''passed'')]"
    by (simp add: metadata_doc_def grade_metadata_def)
  have tx: "\<exists>d'. verify_result_tx demo_store demo_env demo_ref demo_identity ?vm (metadata_doc ?vm) demo_verifying = Inr ((), d') \<and>
      deferred_ok d'"
    using size unfolding doc
    by (simp add: verify_result_tx_def verify_result_rows_def finish_operation_def grade_passed_def attempt_success_def
        open_attempt_def allocation_leaving_def ensure_destroy_def ensureDestroyOperationTx_def destroy_hash_def
        ensure_event_def ensureEventTx_def appendEventTx_def has_event_def gradeSucceeded_def verifyLog_of_def
        demo_eval Let_def demo_verifying_def demo_verify_operation_def demo_identity_fields grade_metadata_def
        ensure_keyed_event_def ensureKeyedEventTx_def finishedEventKey_def bounded_ascii is_ascii_def
        nullif_empty_def deferred_ok_def)
  have env: "env_commit demo_env = Committed" by (simp add: demo_env_def)
  show ?thesis
    using tx size
    by (auto simp: RecordVerifyFinished_def record_verify_def user demo_identity boundedEventPayload_def recordVerifyResult_def
        run_tx_or_def env bounded_ascii is_ascii_def)
qed


text \<open>
  C28. Every grade and every infrastructure code fits: whatever the provider's log or code is, the
  result document stays within the bound of the column and the event payload, so recording it is
  never refused for its size.
\<close>

theorem verify_result_fits:
  "boundedEventPayload (metadata_doc (grade_metadata ok (boundedDurableMessage log))) =
     Inr (metadata_doc (grade_metadata ok (boundedDurableMessage log))) \<and>
   boundedEventPayload (metadata_doc (infrastructure_metadata (safeVerifyInfrastructureCode code))) =
     Inr (metadata_doc (infrastructure_metadata (safeVerifyInfrastructureCode code))) \<and>
   safeVerifyInfrastructureCode (safeVerifyInfrastructureCode code) = safeVerifyInfrastructureCode code"
proof (intro conjI)
  have "length (boundedDurableMessage log) \<le> 1024" by (simp add: boundedDurableMessage_def boundedUTF8_length)
  then show "boundedEventPayload (metadata_doc (grade_metadata ok (boundedDurableMessage log))) =
     Inr (metadata_doc (grade_metadata ok (boundedDurableMessage log)))"
    using length_marshal_grade [of ok "boundedDurableMessage log"] by (simp add: boundedEventPayload_def maxDurableJSONBytes_def)
  let ?c = "safeVerifyInfrastructureCode code"
  have safe: "list_all safe_code_char ?c" "?c \<noteq> ''''" "length ?c \<le> 64"
    by (auto simp: safeVerifyInfrastructureCode_def safe_code_char_def char_class_defs)
  then show "safeVerifyInfrastructureCode ?c = ?c" by (simp add: safeVerifyInfrastructureCode_def)
  have "length (marshal (metadata_doc (infrastructure_metadata ?c))) \<le> 6 * length ?c + 200"
    using length_json_string [of "''infrastructure_error''"] length_json_string [of "''code''"] length_json_string [of ?c] safe(2)
    by (simp add: marshal_def metadata_doc_def infrastructure_metadata_def)
  then show "boundedEventPayload (metadata_doc (infrastructure_metadata ?c)) = Inr (metadata_doc (infrastructure_metadata ?c))"
    using safe(3) by (simp add: boundedEventPayload_def maxDurableJSONBytes_def)
qed

end
