(* ===== verification/Store_Claims.thy ===== *)
theory Store_Claims
  imports Store_Grades
begin

text \<open>
  Leased work: a claim is exclusive while its lease lasts, a create is claimed only after every
  earlier generation is gone, and the recovery of a new controller leaves nothing of its predecessor
  behind, or fails as a whole.
\<close>

section \<open>Runs of a transaction\<close>

lemma run_tx_Inr: "run_tx env m d = (Inr x, d1) \<Longrightarrow> m d = Inr (x, d1)"
  by (auto simp: run_tx_def run_tx_or_def split: sum.splits prod.splits if_splits commit_outcome.splits)

lemma run_tx_fails: "(\<And>x. m d \<noteq> Inr x) \<Longrightarrow> \<exists>e. run_tx env m d = (Inl e, d)"
  by (cases "m d") (auto simp: run_tx_def run_tx_or_def)

section \<open>Exclusive claims\<close>

definition claim_id :: "destroy_work_claim \<Rightarrow> string option" where
  "claim_id c = (if dw_Pending c \<or> dw_Completed c then None else Some (dw_OperationID c))"

text \<open>What a mutation claim says about the state before and after it.\<close>

lemma claim_destroy_rows:
  assumes "claim_destroy_tx st env p i owner lease d = Inr (Some c, d1)" and "\<not> dw_Pending c" and "\<not> dw_Completed c"
  obtains r where "r \<in> set (operations d)" "destroy_candidate env p i d r" "o_id r = dw_OperationID c"
    "operations d1 = update_where (\<lambda>x. o_id x = dw_OperationID c) (claimed_row env owner lease) (operations d)"
    "schema_ok d1" "dw_LeaseToken c = env_lease_token env" "dw_LeaseExpiresAt c = clock_plus_ms env lease"
proof (cases "sort_key (\<lambda>r. (case o_next_attempt_at r of None \<Rightarrow> o_created_at r | Some t \<Rightarrow> t, o_created_at r, o_id r))
      (filter (destroy_candidate env p i d) (operations d))")
  case Nil
  with assms show ?thesis
    by (auto simp: claim_destroy_tx_def tx_Inr guard_Inrs destroy_observation_def empty_claim_def split: if_splits option.splits)
next
  case (Cons r rs)
  with assms(1) show ?thesis
    using candidate_in [OF Cons]
    by - (rule that [of r], auto simp: claim_destroy_tx_def tx_Inr guard_Inrs exec_Inr sql_Inr)
qed

lemma claimed_row_fields:
  "o_id (claimed_row env owner lease r) = o_id r" "o_lease_token (claimed_row env owner lease r) = Some (env_lease_token env)"
  "o_lease_expires_at (claimed_row env owner lease r) = Some (clock_plus_ms env lease)"
  by (simp_all add: claimed_row_def)

lemma leased_row:
  assumes "operations d1 = update_where (\<lambda>x. o_id x = k) (claimed_row env owner lease) ops"
    and "r \<in> set (operations d1)" and "o_id r = k"
  shows "o_lease_token r = Some (env_lease_token env) \<and> o_lease_expires_at r = Some (clock_plus_ms env lease)"
  using assms(2) [unfolded assms(1)] by (rule in_update_whereE) (use assms(3) in \<open>auto simp: claimed_row_fields\<close>)

lemma claim_token_mismatch:
  assumes "\<And>r. r \<in> set (operations d) \<Longrightarrow> o_id r = dw_OperationID w \<Longrightarrow> o_lease_token r \<noteq> Some (dw_LeaseToken w)"
  shows "\<exists>e. MarkClaimedDestroyed st env w d = (Inl e, d)" and "\<exists>e. RetryDestroyWork st env w cause delay d = (Inl e, d)"
proof -
  have "destroyed_tx st env ref (Some w) d \<noteq> Inr x" for ref x
    using assms by (auto simp: destroyed_tx_def tx_Inr guard_Inrs operation_of_def claim_current_def dest!: find_Some_iff_in)
  then show "\<exists>e. MarkClaimedDestroyed st env w d = (Inl e, d)"
    by (auto simp: MarkClaimedDestroyed_def markDestroyed_def split: sum.splits intro: run_tx_fails)
  have "filter (\<lambda>r. o_id r = dw_OperationID w \<and> o_allocation_id r = AllocID (dw_Ref w) \<and>
      o_provider_id r = p \<and> o_kind r = ''destroy'' \<and> o_state r = ''running'' \<and>
      o_lease_token r = Some (dw_LeaseToken w) \<and> lease_active env r) (operations d) = []" for p
    using assms by (auto simp: filter_empty_conv)
  note none = this
  have "retry_destroy_tx st env w why delay d \<noteq> Inr x" for why x
    by (auto simp: retry_destroy_tx_def tx_Inr guard_Inrs exec_one_Inr sql_Inr count_where_def none)
  then show "\<exists>e. RetryDestroyWork st env w cause delay d = (Inl e, d)"
    by (auto simp: RetryDestroyWork_def split: sum.splits option.splits intro: run_tx_fails)
qed


text \<open>A session that failed: its allocation is desired absent and its destroy operation pending.\<close>

definition demo_destroy :: "string \<Rightarrow> operation_row" where
  "demo_destroy state = demo_operation ''op-d'' ''destroy'' ''destroy:a1'' (destroy_hash ''a1'' ''local'') state"

definition demo_failed :: "operation_row \<Rightarrow> db" where
  "demo_failed r = demo_db (demo_session ''failed'' ''absent'') (demo_allocation ''absent'' ''deleting'' 2)
     [demo_create ''succeeded'', r]
     [demo_event 1 ''allocation_reserved'' ''create_requested'', demo_event 2 ''destroying'' ''failed''] (demo_attempt ''failed'')"

definition demo_claim :: destroy_work_claim where
  "demo_claim = \<lparr>dw_OperationID = ''op-d'', dw_LeaseToken = ''token-1'', dw_LeaseOwner = ''worker'', dw_Ref = demo_ref,
     dw_Attempt = 1, dw_LeaseExpiresAt = 10000000100, dw_Pending = False, dw_Completed = False\<rparr>"

lemma demo_claimed:
  "ClaimDestroyWork demo_store demo_env ''local'' '''' ''worker'' 10000000000 (demo_failed (demo_destroy ''pending'')) =
     (Inr (Some demo_claim), demo_failed (claimed_row demo_env ''worker'' 10000000000 (demo_destroy ''pending'')))"
proof -
  have len: "length (destroy_hash i q) = 32" for i q by (simp add: destroy_hash_def)
  have tx: "claim_destroy_tx demo_store demo_env ''local'' '''' ''worker'' 10000000000 (demo_failed (demo_destroy ''pending'')) =
     Inr (Some demo_claim, demo_failed (claimed_row demo_env ''worker'' 10000000000 (demo_destroy ''pending'')))"
    by (simp add: claim_destroy_tx_def destroy_candidate_def lease_expired_def demo_eval demo_failed_def demo_destroy_def
        len claimed_row_def demo_claim_def clock_plus_ms_def ref_of_row_def coalesce_def)
  have "deferred_ok (demo_failed r)" for r by (simp add: deferred_ok_def demo_failed_def demo_eval)
  moreover have "requireProvider demo_store ''local'' = Inr ()" "env_commit demo_env = Committed"
    by (simp_all add: requireProvider_def demo_store_def demo_env_def)
  ultimately show ?thesis
    by (simp add: ClaimDestroyWork_def minDestroyLease_def maxDestroyLease_def run_tx_def run_tx_or_def tx)
qed



section \<open>Create claims\<close>

lemma claim_create_rows:
  assumes "claim_create_tx st env p i owner lease resetOnly d = Inr (Some c, d1)"
  obtains r v where "r \<in> set (operations d)" "create_candidate env p i (if resetOnly then 1 else 0) d r"
    "operations d1 = update_where (\<lambda>x. o_id x = o_id r) (claimed_row env owner lease) (operations d)" "allocations d1 = allocations d"
    "schema_ok d1" "loadReservationByOperation p (o_idempotency_key r) d1 = Inr (Some v, d1)" "do_ID (rv_Operation v) = o_id r"
    "cw_Reservation c = v"
proof (cases "sort_key (\<lambda>r. (o_created_at r, o_id r)) (filter (create_candidate env p i (if resetOnly then 1 else 0) d) (operations d))")
  case Nil
  with assms show ?thesis by (auto simp: claim_create_tx_def tx_Inr guard_Inrs)
next
  case (Cons r rs)
  from assms Cons obtain n d2 v where d2: "update_operations (\<lambda>x. o_id x = o_id r) (claimed_row env owner lease) d = Inr (n, d2)"
    and load: "loadReservationByOperation p (o_idempotency_key r) d2 = Inr (Some v, d1)"
    and v: "do_ID (rv_Operation v) = o_id r" "cw_Reservation c = v"
    by (auto simp: claim_create_tx_def tx_Inr guard_Inrs exec_Inr)
  moreover have "d2 = d1" using load_reservation_same [OF load] by simp
  ultimately show ?thesis
    using candidate_in [OF Cons] by - (rule that [of r v], auto simp: sql_Inr)
qed

text \<open>
  C29. One generation at a time. A create (or reset) claim is only handed out for the allocation of the
  current generation of an active session, and only when every earlier generation of that session
  is desired absent and proven absent: two generations of a session never run at once.
\<close>

theorem create_claim_after_cleanup:
  assumes "claimProvisionableCreate st env p i owner lease resetOnly d = (Inr (Some c), d1)"
  shows "\<exists>a \<in> set (allocations d). da_Ref (rv_Allocation (cw_Reservation c)) = ref_of_row a \<and> active_allocation a \<and>
    (\<exists>s \<in> set (sessions d). s_id s = a_session_id a \<and> s_current_generation s = a_generation a \<and> active_session s) \<and>
    (resetOnly \<longrightarrow> 1 < a_generation a) \<and>
    (\<forall>b \<in> set (allocations d). a_session_id b = a_session_id a \<and> a_generation b < a_generation a \<longrightarrow>
       a_desired_state b = ''absent'' \<and> a_observed_state b = ''absent'')"
proof -
  have "claim_create_tx st env p i owner lease resetOnly d = Inr (Some c, d1)"
    using assms by (auto simp: claimProvisionableCreate_def split: sum.splits if_splits dest: run_tx_Inr)
  then obtain r v where r: "r \<in> set (operations d)" "create_candidate env p i (if resetOnly then 1 else 0) d r"
    and ops: "operations d1 = update_where (\<lambda>x. o_id x = o_id r) (claimed_row env owner lease) (operations d)"
    and allocs: "allocations d1 = allocations d" and ok: "schema_ok d1"
    and load: "loadReservationByOperation p (o_idempotency_key r) d1 = Inr (Some v, d1)"
    and v: "do_ID (rv_Operation v) = o_id r" "cw_Reservation c = v" by (rule claim_create_rows)
  from load obtain s b q e t where join: "reservation_join p (o_idempotency_key r) d1 = Some (s, b, q, e, t)"
    and vrows: "v = reservation_of_rows s b q e t"
    by (auto simp: loadReservationByOperation_def tx_Inr split: option.splits)
  from join have q: "q \<in> set (operations d1)" and b: "b \<in> set (allocations d)" "a_id b = o_allocation_id q" and sid: "s_id s = a_session_id b"
    by (auto simp: reservation_join_def bind_eq_Some_conv operation_by_key_def session_by_id_def allocs dest!: find_Some_iff_in)
  have "o_id q = o_id r" using v(1) vrows by (simp add: reservation_of_rows_def)
  moreover have mem: "claimed_row env owner lease r \<in> set (operations d1)" using r(1) by (auto simp: ops set_update_where)
  ultimately have "q = claimed_row env owner lease r"
    using unique_byD [OF schema_okD(12) [OF ok] q mem] by (simp add: claimed_row_fields)
  then have alloc: "a_id b = o_allocation_id r" using b(2) by (simp add: claimed_row_def)
  from r(2) obtain a where a: "a \<in> set (allocations d)" "a_id a = o_allocation_id r" "(if resetOnly then 1 else 0) < a_generation a"
      "a_desired_state a = ''active''" "prior_absent (a_session_id a) (a_generation a) d"
      "list_ex (\<lambda>s. s_id s = a_session_id a \<and> s_current_generation s = a_generation a \<and> s_desired_state s = ''active'') (sessions d)"
    by (auto simp: create_candidate_def list_ex_iff)
  have "b = a" using unique_byD [OF schema_okD(5) [OF ok], of b a] a b alloc allocs by simp
  then have "da_Ref (rv_Allocation (cw_Reservation c)) = ref_of_row a"
    using v(2) vrows sid by (simp add: reservation_of_rows_def ref_of_row_def)
  with a show ?thesis
    by (intro bexI [of _ a]) (auto simp: prior_absent_def list_ex_iff active_session_def active_allocation_def split: if_splits)
qed


lemma demo_create_claimed:
  "\<exists>c d1. claimProvisionableCreate demo_store demo_env ''local'' '''' ''worker'' 10000000000 False demo_reserved = (Inr (Some c), d1)"
proof -
  have len: "length (hashReservation p i) = 32" for p i by (simp add: hashReservation_def)
  have tx: "\<exists>c d1. claim_create_tx demo_store demo_env ''local'' '''' ''worker'' 10000000000 False demo_reserved = Inr (Some c, d1) \<and> deferred_ok d1"
    by (simp add: claim_create_tx_def create_candidate_def prior_absent_def lease_expired_def demo_eval demo_reserved_def
        demo_published_def empty_db_def new_allocation_def len claimed_row_def coalesce_def loadReservationByOperation_def
        reservation_join_def reservation_of_rows_def deferred_ok_def)
  then obtain c d1 where "claim_create_tx demo_store demo_env ''local'' '''' ''worker'' 10000000000 False demo_reserved = Inr (Some c, d1)"
    "deferred_ok d1" by blast
  moreover have "requireProvider demo_store ''local'' = Inr ()" "env_commit demo_env = Committed"
    by (simp_all add: requireProvider_def demo_store_def demo_env_def)
  ultimately show ?thesis
    by (simp add: claimProvisionableCreate_def minDestroyLease_def maxDestroyLease_def run_tx_def run_tx_or_def)
qed

theorem create_claim_after_cleanup_witness:
  "\<exists>c d1. claimProvisionableCreate demo_store demo_env ''local'' '''' ''worker'' 10000000000 False demo_reserved = (Inr (Some c), d1) \<and>
     AllocID (da_Ref (rv_Allocation (cw_Reservation c))) = demo_alloc"
proof -
  obtain c d1 where c: "claimProvisionableCreate demo_store demo_env ''local'' '''' ''worker'' 10000000000 False demo_reserved = (Inr (Some c), d1)"
    using demo_create_claimed by blast
  with create_claim_after_cleanup [OF c] show ?thesis
    by (auto simp: demo_reserved_def new_allocation_def ref_of_row_def AllocationRef_def)
qed

section \<open>Recovery\<close>

definition running_ids :: "string \<Rightarrow> db \<Rightarrow> string set" where
  "running_ids p d = {o_id r |r. r \<in> set (operations d) \<and> o_provider_id r = p \<and> running_verify r}"

lemma keyed_event_operations: "ensure_keyed_event env i k ty rc msg doc d = Inr (u, d') \<Longrightarrow> operations d' = operations d"
  by (auto simp: ensure_keyed_event_def ensureKeyedEventTx_def tx_Inr log_event_Inr Let_def split: option.splits)

lemma converge_interrupted_ids:
  assumes "converge_interrupted env payload v d = Inr (u, d')"
  shows "running_ids p d' \<subseteq> running_ids p d - {iv_operationID v}"
proof -
  from assms have "operations d' = update_where (\<lambda>r. o_id r = iv_operationID v \<and> o_state r = ''running'')
      (\<lambda>r. r\<lparr>o_state := ''failed'', o_completed_at := Some (env_now env), o_error_code := Some ''controller_restarted'',
              o_error_message := None, o_result_metadata := payload\<rparr>) (operations d)"
    by (auto simp: converge_interrupted_def tx_Inr exec_one_Inr sql_Inr dest!: keyed_event_operations)
  then show ?thesis by (auto simp: running_ids_def running_verify_def set_update_where)
qed

lemma converge_each_ids:
  "tx_each (converge_interrupted env payload) vs d = Inr (u, d') \<Longrightarrow>
   running_ids p d' \<subseteq> running_ids p d - set (map iv_operationID vs)"
proof (induction vs arbitrary: d)
  case (Cons v vs)
  then obtain d1 where "converge_interrupted env payload v d = Inr ((), d1)" "tx_each (converge_interrupted env payload) vs d1 = Inr (u, d')"
    by (auto simp: tx_Inr)
  with Cons.IH [of d1] converge_interrupted_ids [of env payload v d "()" d1 p] show ?case by auto
qed (auto simp: tx_Inr)

lemma interrupted_of_Some:
  assumes "schema_ok d" and "r \<in> set (operations d)"
  obtains v a s where "interrupted_of d r = Some v" "iv_operationID v = o_id r" "a \<in> set (allocations d)" "a_id a = o_allocation_id r"
    "iv_allocationDesired v = a_desired_state a"
proof -
  from schema_okD(15) [OF assms(1)] assms(2) obtain a0 where "a0 \<in> set (allocations d)" "a_id a0 = o_allocation_id r"
      "a_provider_id a0 = o_provider_id r" by (auto simp: list_all_iff)
  then obtain a where a: "find (\<lambda>a. a_id a = o_allocation_id r \<and> a_provider_id a = o_provider_id r) (allocations d) = Some a"
    using find_is_Some [of a0 "allocations d" "\<lambda>a. a_id a = o_allocation_id r \<and> a_provider_id a = o_provider_id r"] by auto
  note mem = find_Some_iff_in [OF a]
  from schema_okD(8) [OF assms(1)] mem obtain s0 where "s0 \<in> set (sessions d)" "s_id s0 = a_session_id a"
    by (auto simp: list_all_iff)
  then obtain s where "session_by_id (a_session_id a) d = Some s"
    unfolding session_by_id_def using find_is_Some [of s0 "sessions d" "\<lambda>s. s_id s = a_session_id a"] by auto
  with a mem show thesis by (intro that) (auto simp: interrupted_of_def)
qed

lemma running_ids_interrupted:
  assumes "schema_ok d"
  shows "running_ids p d \<subseteq> set (map iv_operationID (interrupted_verifications p d))"
proof
  fix i assume "i \<in> running_ids p d"
  then obtain r where r: "r \<in> set (operations d)" "o_provider_id r = p" "running_verify r" "i = o_id r" by (auto simp: running_ids_def)
  from interrupted_of_Some [OF assms r(1)] obtain v where v: "interrupted_of d r = Some v" "iv_operationID v = o_id r" by metis
  with r have "v \<in> set (interrupted_verifications p d)" by (force simp: interrupted_verifications_def map_filter_def)
  with v(2) r(4) show "i \<in> set (map iv_operationID (interrupted_verifications p d))" by force
qed


lemma prepare_recovery_steps:
  assumes "PrepareRecoveryWork st env p d = (Inr (), d1)"
  obtains payload d' where "tx_each (converge_interrupted env payload) (interrupted_verifications p d) d = Inr ((), d')"
    "operations d1 = update_where (\<lambda>r. o_provider_id r = p \<and> o_kind r \<in> {''create'', ''destroy''} \<and>
        o_state r \<in> {''pending'', ''running'', ''cleanup_required''}) release_lease (operations d')"
proof -
  from assms have "prepare_recovery_tx st env p d = Inr ((), d1)"
    by (auto simp: PrepareRecoveryWork_def split: sum.splits dest: run_tx_Inr)
  then show thesis
    using that by (auto simp: prepare_recovery_tx_def convergeInterruptedVerificationsTx_def tx_Inr guard_Inrs exec_Inr sql_Inr)
qed

text \<open>
  Recovery is complete. After a successful \<open>PrepareRecoveryWork\<close> of a provider no verification of
  it runs, and no unfinished create or destroy of it is running, leased or delayed: everything its
  previous controller held is claimable again.
\<close>

theorem recovery_releases_everything:
  assumes "schema_ok d" and "PrepareRecoveryWork st env p d = (Inr (), d1)"
  shows "\<forall>r \<in> set (operations d1). o_provider_id r = p \<longrightarrow> \<not> running_verify r \<and>
    (o_kind r \<in> {''create'', ''destroy''} \<and> o_state r \<in> {''pending'', ''running'', ''cleanup_required''} \<longrightarrow>
       o_state r \<noteq> ''running'' \<and> o_lease_token r = None \<and> o_lease_expires_at r = None \<and> o_next_attempt_at r = None)"
proof -
  from prepare_recovery_steps [OF assms(2)] obtain payload d' where
    each: "tx_each (converge_interrupted env payload) (interrupted_verifications p d) d = Inr ((), d')" and
    ops: "operations d1 = update_where (\<lambda>r. o_provider_id r = p \<and> o_kind r \<in> {''create'', ''destroy''} \<and>
        o_state r \<in> {''pending'', ''running'', ''cleanup_required''}) release_lease (operations d')" .
  have "running_ids p d' = {}"
    using converge_each_ids [OF each, of p] running_ids_interrupted [OF assms(1), of p] by blast
  then have none: "\<not> running_verify r" if "r \<in> set (operations d')" "o_provider_id r = p" for r
    using that by (auto simp: running_ids_def)
  show ?thesis
  proof (intro ballI impI)
    fix r assume r: "r \<in> set (operations d1)" "o_provider_id r = p"
    from r(1) show "\<not> running_verify r \<and> (o_kind r \<in> {''create'', ''destroy''} \<and>
        o_state r \<in> {''pending'', ''running'', ''cleanup_required''} \<longrightarrow>
        o_state r \<noteq> ''running'' \<and> o_lease_token r = None \<and> o_lease_expires_at r = None \<and> o_next_attempt_at r = None)"
      unfolding ops
    proof (rule in_update_whereE)
      assume "r \<in> set (operations d')" and "\<not> (o_provider_id r = p \<and> o_kind r \<in> {''create'', ''destroy''} \<and>
        o_state r \<in> {''pending'', ''running'', ''cleanup_required''})"
      then show ?thesis using none r(2) by blast
    next
      fix r0 assume "r = release_lease r0" and "o_provider_id r0 = p \<and> o_kind r0 \<in> {''create'', ''destroy''} \<and>
        o_state r0 \<in> {''pending'', ''running'', ''cleanup_required''}"
      then show ?thesis by (auto simp: release_lease_def clear_lease_def running_verify_def)
    qed
  qed
qed

section \<open>A verification that outlives its session\<close>

text \<open>Statements that keep every operation row as it is.\<close>

definition operations_kept :: "db \<Rightarrow> db \<Rightarrow> bool" where
  "operations_kept d d' \<longleftrightarrow> set (operations d) \<subseteq> set (operations d')"

interpretation kept: tx_preorder operations_kept
  by unfold_locales (auto simp: operations_kept_def)

named_theorems kept_intros "rules that put a transaction inside operations_kept"

lemma kept_statements [kept_intros]:
  "tx_rel operations_kept (update_sessions P f)" "tx_rel operations_kept (update_allocations P' f')"
  "tx_rel operations_kept (update_attempts P'' f'')" "tx_rel operations_kept (insert_operation r)"
  "tx_rel operations_kept (insert_events es)" "tx_rel operations_kept (lockControllerEpochTx st)"
  "tx_rel operations_kept (lockExactAllocation ref)" "tx_rel operations_kept (destroyOutcomeTx i)"
  "tx_rel operations_kept (attemptStatusTx sref)" "tx_rel operations_kept (enter_exact st ref)"
  by (rule tx_relI, auto simp: sql_Inr guard_Inrs operations_kept_def destroyOutcomeTx_def tx_Inr)+

lemma kept_exec [kept_intros]: "tx_rel operations_kept m \<Longrightarrow> tx_rel operations_kept (exec_any m)"
  "tx_rel operations_kept m \<Longrightarrow> tx_rel operations_kept (exec_one m e)"
  unfolding exec_any_def exec_one_def by (intro kept.rel_intros; assumption)+

lemma kept_helpers [kept_intros]:
  "tx_rel operations_kept (ensure_destroy env i p)" "tx_rel operations_kept (ensure_event env i ty rc msg)"
  unfolding ensure_destroy_def ensureDestroyOperationTx_def fresh_operation_def ensure_event_def ensureEventTx_def
    appendEventTx_def log_event_def reserve_sequence_def Let_def
  by (intro kept.rel_intros kept_intros)+

lemma kept_destroy: "tx_rel operations_kept (destroy_tx st env ref out status l)"
  unfolding destroy_tx_def destroy_current_def Let_def by (intro kept.rel_intros kept_intros)

lemma interrupted_inactive_fails:
  assumes ok: "schema_ok d" and r: "r \<in> set (operations d)" "running_verify r" "o_provider_id r = p"
    and a: "a \<in> set (allocations d)" "a_id a = o_allocation_id r" "\<not> active_allocation a"
  shows "\<exists>e. PrepareRecoveryWork st env p d = (Inl e, d)"
proof -
  obtain v b where v: "interrupted_of d r = Some v" "b \<in> set (allocations d)" "a_id b = o_allocation_id r"
      "iv_allocationDesired v = a_desired_state b"
    by (rule interrupted_of_Some [OF ok r(1)])
  have "b = a" using unique_byD [OF schema_okD(5) [OF ok] v(2) a(1)] v(3) a(2) by simp
  with v(4) a(3) have bad: "interrupted_contradictory v" by (simp add: interrupted_contradictory_def active_allocation_def)
  have mem: "v \<in> set (interrupted_verifications p d)"
    using v(1) r by (force simp: interrupted_verifications_def map_filter_def)
  have "tx_each (converge_interrupted env payload) vs d0 \<noteq> Inr x" if "v \<in> set vs" for payload vs d0 x
    using that
  proof (induction vs arbitrary: d0)
    case (Cons w ws)
    then show ?case using bad by (auto simp: tx_Inr converge_interrupted_def)
  qed simp
  with mem have fails: "prepare_recovery_tx st env p d \<noteq> Inr x" for x
    by (auto simp: prepare_recovery_tx_def convergeInterruptedVerificationsTx_def tx_Inr guard_Inrs)
  show ?thesis
    using run_tx_fails [of "prepare_recovery_tx st env p" d env, OF fails] by (auto simp: PrepareRecoveryWork_def split: sum.splits)
qed


definition inactive :: "string \<Rightarrow> db \<Rightarrow> bool" where
  "inactive i d \<longleftrightarrow> list_all (\<lambda>a. a_id a = i \<longrightarrow> \<not> active_allocation a) (allocations d)"

lemma inactive_core:
  assumes "tx_rel core_same m"
  shows "tx_hoare (inactive i) m (inactive i)"
proof (rule hoareI)
  fix d x d' assume "inactive i d" and "m d = Inr (x, d')"
  then have "map a_core (allocations d') = map a_core (allocations d)"
    using tx_relD [OF assms] by (auto simp: core_same_def)
  then have "list_all (\<lambda>a. a_id a = i \<longrightarrow> \<not> active_allocation a) (allocations d') =
      list_all (\<lambda>a. a_id a = i \<longrightarrow> \<not> active_allocation a) (allocations d)"
    by (rule list_all_core [where P' = "\<lambda>(j, _, _, b). j = i \<longrightarrow> \<not> b"]) (simp add: a_core_def)
  with \<open>inactive i d\<close> show "inactive i d'" by (simp add: inactive_def)
qed

lemma list_all_update_where:
  "(\<And>r. r \<in> set rows \<Longrightarrow> P r \<Longrightarrow> Q (f r)) \<Longrightarrow> (\<And>r. r \<in> set rows \<Longrightarrow> \<not> P r \<Longrightarrow> Q r) \<Longrightarrow> list_all Q (update_where P f rows)"
  by (auto simp: update_where_def list_all_iff)

lemma inactive_leaving:
  "tx_hoare (\<lambda>_. True) (exec_any (update_allocations (\<lambda>a. a_id a = i \<and> a_desired_state a \<noteq> ''absent'') allocation_leaving)) (inactive i)"
proof (rule hoareI)
  fix d x d' assume "exec_any (update_allocations (\<lambda>a. a_id a = i \<and> a_desired_state a \<noteq> ''absent'') allocation_leaving) d = Inr (x, d')"
  then have "allocations d' = update_where (\<lambda>a. a_id a = i \<and> a_desired_state a \<noteq> ''absent'') allocation_leaving (allocations d)"
    by (auto simp: exec_Inr sql_Inr)
  then show "inactive i d'"
    unfolding inactive_def by (simp only:) (rule list_all_update_where; simp add: allocation_leaving_def active_allocation_def)
qed

lemma any_hoare: "tx_hoare (\<lambda>_. True) m (\<lambda>_. True)"
  by (simp add: tx_hoare_def)

lemma destroy_inactive: "tx_hoare (\<lambda>_. True) (destroy_tx st env ref out status l) (inactive (AllocID ref))"
  unfolding destroy_tx_def Let_def
  by (intro hoare_steps(7) [OF any_hoare] hoare_steps(6) [OF any_hoare] hoare_steps(5) [OF any_hoare]
      hoare_steps(5) [OF inactive_leaving] inactive_core core.rel_intros core_intros)



lemma demo_verifying_ok: "log_inv demo_verifying"
  by (simp add: log_inv_def demo_verifying_def demo_verify_operation_def new_operation_def logged_event_def demo_row_defs
      demo_schema_defs gapless_def allocation_gapless_def sequences_of_def upto.simps)

lemma demo_destroyed: "\<exists>d1. RequestDestroy demo_store demo_env demo_ref ''failed'' ''failed'' ''gone'' demo_verifying = (Inr (), d1)"
proof -
  have "\<exists>d1. destroy_tx demo_store demo_env demo_ref ''failed'' ''failed'' ''gone'' demo_verifying = Inr ((), d1) \<and> deferred_ok d1"
    by (simp add: destroy_tx_def destroy_current_def destroyOutcomeTx_def demo_eval Let_def demo_verifying_def
        demo_verify_operation_def open_attempt_def attempt_terminal_def session_terminal_def coalesce_def allocation_leaving_def
        ensure_destroy_def ensureDestroyOperationTx_def destroy_hash_def ensure_event_def ensureEventTx_def appendEventTx_def
        has_event_def terminalEventType_def bounded_ascii is_ascii_def nullif_empty_def deferred_ok_def elapsed_seconds_def)
  moreover have "env_commit demo_env = Committed" by (simp add: demo_env_def)
  ultimately show ?thesis
    by (auto simp: RequestDestroy_def canonicalTerminalOutcome_def run_tx_def run_tx_or_def bounded_ascii is_ascii_def)
qed


lemma demo_recovered: "\<exists>d1. PrepareRecoveryWork demo_store demo_env ''local'' demo_verifying = (Inr (), d1)"
proof -
  have doc: "metadata_doc (infrastructure_metadata ''controller_restarted'') =
      [(''infrastructure_error'', JBool True), (''code'', JStr ''controller_restarted'')]"
    by (simp add: metadata_doc_def infrastructure_metadata_def)
  have size: "length (marshal [(''infrastructure_error'', JBool True), (''code'', JStr ''controller_restarted'')]) \<le> maxDurableJSONBytes"
    using length_json_string [of "''infrastructure_error''"] length_json_string [of "''code''"] length_json_string [of "''controller_restarted''"]
    by (simp add: marshal_def maxDurableJSONBytes_def)
  have "\<exists>d1. prepare_recovery_tx demo_store demo_env ''local'' demo_verifying = Inr ((), d1) \<and> deferred_ok d1"
    using size
    by (simp add: prepare_recovery_tx_def convergeInterruptedVerificationsTx_def interrupted_verifications_def interrupted_of_def
        map_filter_def converge_interrupted_def interrupted_contradictory_def doc boundedEventPayload_def demo_eval Let_def
        demo_verifying_def demo_verify_operation_def ensure_keyed_event_def ensureKeyedEventTx_def bounded_ascii is_ascii_def
        nullif_empty_def deferred_ok_def demo_identity_fields)
  moreover have "requireProvider demo_store ''local'' = Inr ()" "env_commit demo_env = Committed"
    by (simp_all add: requireProvider_def demo_store_def demo_env_def)
  ultimately show ?thesis by (auto simp: PrepareRecoveryWork_def run_tx_def run_tx_or_def)
qed

theorem recovery_releases_everything_witness:
  "\<exists>d1. PrepareRecoveryWork demo_store demo_env ''local'' demo_verifying = (Inr (), d1) \<and>
     \<not> list_ex (\<lambda>r. o_provider_id r = ''local'' \<and> running_verify r) (operations d1)"
proof -
  obtain d1 where d1: "PrepareRecoveryWork demo_store demo_env ''local'' demo_verifying = (Inr (), d1)"
    using demo_recovered by blast
  have "schema_ok demo_verifying" using demo_verifying_ok by (simp add: log_inv_def)
  from recovery_releases_everything [OF this d1] d1 show ?thesis by (auto simp: list_ex_iff)
qed

end
