(* ===== verification/Store_Outcomes.thy ===== *)
theory Store_Outcomes
  imports Store_Claims
begin

text \<open>
  What a transition promises to its caller: the first terminal outcome wins, ready means created,
  an end is complete exactly when everything is gone, a reservation is idempotent, and the replay of
  events returns exactly what follows the cursor.
\<close>

section \<open>Event queries\<close>

lemma sorted_filter_events:
  assumes "log_inv d" and "a \<in> set (allocations d)"
  shows "sorted (map e_sequence (filter (\<lambda>e. e_allocation_id e = a_id a \<and> P e) (events d)))"
proof -
  have "map e_sequence (filter (\<lambda>e. e_allocation_id e = a_id a) (events d)) = [1..a_last_event_sequence a]"
    using assms by (simp add: log_inv_def gapless_def list_all_iff allocation_gapless_def sequences_of_def)
  then have "sorted (map e_sequence (filter (\<lambda>e. e_allocation_id e = a_id a) (events d)))" by simp
  then have "sorted (map e_sequence (filter P (filter (\<lambda>e. e_allocation_id e = a_id a) (events d))))"
    by (rule sorted_filter)
  then show ?thesis by (simp add: conj_commute)
qed

lemma sort_events_id:
  assumes "log_inv d" and "a \<in> set (allocations d)"
  shows "sort_key e_sequence (filter (\<lambda>e. e_allocation_id e = a_id a \<and> P e) (events d)) =
    filter (\<lambda>e. e_allocation_id e = a_id a \<and> P e) (events d)"
  by (rule sort_key_id_if_sorted) (rule sorted_filter_events [OF assms])

section \<open>The first terminal outcome wins\<close>

definition outcome_of :: "string \<Rightarrow> db \<Rightarrow> string option" where
  "outcome_of i d = map_option (\<lambda>e. case e_reason_code e of None \<Rightarrow> '''' | Some r \<Rightarrow> r)
     (find (\<lambda>e. e_allocation_id e = i \<and> e_type e = ''destroying'') (events d))"

lemma find_filter: "find P xs = (case filter P xs of [] \<Rightarrow> None | x # _ \<Rightarrow> Some x)"
  by (induction xs) auto

lemma destroyOutcome_first:
  assumes "log_inv d" and "a \<in> set (allocations d)"
  shows "destroyOutcomeTx (a_id a) d = Inr (outcome_of (a_id a) d, d)"
  by (simp add: destroyOutcomeTx_def tx_defs outcome_of_def find_filter sort_events_id [OF assms] split: list.splits)

lemma outcome_kept: "rows_le d d' \<Longrightarrow> outcome_of i d = Some out \<Longrightarrow> outcome_of i d' = Some out"
  by (auto simp: rows_le_def outcome_of_def find_append dest!: table_le_eq_prefix)

lemma ensure_event_outcome:
  assumes "ensure_event env i ''destroying'' out msg d = Inr (u, d')" and "outcome_of i d = None \<or> outcome_of i d = Some out"
    and "out \<noteq> ''''" and "list_all is_ascii out" and "length out \<le> 64"
  shows "outcome_of i d' = Some out"
proof -
  have "has_event i ''destroying'' d \<longleftrightarrow> outcome_of i d \<noteq> None"
    by (auto simp: has_event_def outcome_of_def list_ex_iff find_None_iff_in)
  note has = this
  show ?thesis
  proof (cases "outcome_of i d")
    case None
    with assms has obtain n where "events d' = events d @ [logged_event env i n None ''destroying'' out (boundedDurableMessage msg) []]"
      by (auto simp: ensure_event_def ensureEventTx_def appendEventTx_def tx_Inr log_event_Inr Let_def bounded_ascii)
    moreover have "find (\<lambda>e. e_allocation_id e = i \<and> e_type e = ''destroying'') (events d) = None"
      using None by (simp add: outcome_of_def)
    ultimately show ?thesis
      using assms(3) by (simp add: outcome_of_def find_append logged_event_def nullif_empty_def)
  next
    case (Some out')
    with assms has show ?thesis by (auto simp: ensure_event_def ensureEventTx_def tx_Inr)
  qed
qed
lemma canonical_text: "canonicalTerminalOutcome outcome status = Inr out \<Longrightarrow>
  out = outcome \<and> out \<noteq> '''' \<and> list_all is_ascii out \<and> length out \<le> 64"
  by (auto simp: canonicalTerminalOutcome_def is_ascii_def split: if_splits)

text \<open>The last statement of a destroy request writes the outcome; the ones before leave it alone.\<close>

definition outcome_same :: "string \<Rightarrow> db \<Rightarrow> db \<Rightarrow> bool" where
  "outcome_same i d d' \<longleftrightarrow> outcome_of i d' = outcome_of i d"

interpretation outcome: tx_preorder "outcome_same i" for i
  by unfold_locales (auto simp: outcome_same_def)

named_theorems outcome_intros "rules that put a transaction inside outcome_same"

lemma outcome_statements [outcome_intros]:
  "tx_rel (outcome_same i) (update_sessions P f)" "tx_rel (outcome_same i) (update_allocations P' f')"
  "tx_rel (outcome_same i) (update_attempts P'' f'')" "tx_rel (outcome_same i) (insert_operation r)"
  "tx_rel (outcome_same i) (attemptStatusTx sref)"
  by (rule tx_relI, auto simp: sql_Inr guard_Inrs outcome_same_def outcome_of_def)+

lemma outcome_exec [outcome_intros]: "tx_rel (outcome_same i) m \<Longrightarrow> tx_rel (outcome_same i) (exec_any m)"
  "tx_rel (outcome_same i) m \<Longrightarrow> tx_rel (outcome_same i) (exec_one m e)"
  unfolding exec_any_def exec_one_def by (intro outcome.rel_intros; assumption)+

lemma outcome_event: "ty \<noteq> ''destroying'' \<Longrightarrow> tx_rel (outcome_same i) (ensure_event env j ty rc msg)"
  by (rule tx_relI) (auto simp: ensure_event_def ensureEventTx_def appendEventTx_def tx_Inr log_event_Inr Let_def
      outcome_same_def outcome_of_def find_append logged_event_def split: if_splits option.splits)

lemma outcome_destroy [outcome_intros]: "tx_rel (outcome_same i) (ensure_destroy env j p)"
  unfolding ensure_destroy_def ensureDestroyOperationTx_def fresh_operation_def Let_def
  by (intro outcome.rel_intros outcome_intros)

lemma outcome_current [outcome_intros]: "tx_rel (outcome_same i) (destroy_current env ref out status l existing s)"
  unfolding destroy_current_def by (intro outcome.rel_intros outcome_intros)


lemma tx_block_snoc: "tx_block (ms @ [m]) d = Inr (u, d') \<longleftrightarrow> (\<exists>d1. tx_block ms d = Inr ((), d1) \<and> m d1 = Inr (u, d'))"
  by (induction ms arbitrary: d) (auto simp: tx_Inr)

lemma destroy_tx_steps:
  assumes "destroy_tx st env ref out status l d = Inr (u, d')" and "log_inv d"
  obtains p s existing d1 where "outcome_of (AllocID ref) d = None \<or> outcome_of (AllocID ref) d = Some out"
    "tx_block [if s_current_generation s = ref_gen ref then destroy_current env ref out status l existing s
          else tx_return (),
        exec_any (update_allocations (\<lambda>a. a_id a = AllocID ref \<and> a_desired_state a \<noteq> ''absent'') allocation_leaving),
        ensure_destroy env (AllocID ref) p,
        if s_current_generation s = ref_gen ref \<and> terminalEventType out \<noteq> ''''
        then ensure_event env (AllocID ref) (terminalEventType out) out ''Environment ended.'' else tx_return ()] d = Inr ((), d1)"
    "ensure_event env (AllocID ref) ''destroying'' out ''Environment cleanup started.'' d1 = Inr (u, d')"
proof -
  obtain a where "allocation_by_id (AllocID ref) d = Some a"
    using assms(1) by (auto simp: destroy_tx_def tx_Inr guard_Inrs)
  then have first: "destroyOutcomeTx (AllocID ref) d = Inr (outcome_of (AllocID ref) d, d)"
    using destroyOutcome_first [OF assms(2)] find_allocation by metis
  obtain p s existing where ex: "outcome_of (AllocID ref) d = None \<or> outcome_of (AllocID ref) d = Some out"
    and body: "tx_block ([if s_current_generation s = ref_gen ref then destroy_current env ref out status l existing s
          else tx_return (),
        exec_any (update_allocations (\<lambda>a. a_id a = AllocID ref \<and> a_desired_state a \<noteq> ''absent'') allocation_leaving),
        ensure_destroy env (AllocID ref) p,
        if s_current_generation s = ref_gen ref \<and> terminalEventType out \<noteq> ''''
        then ensure_event env (AllocID ref) (terminalEventType out) out ''Environment ended.'' else tx_return ()] @
        [ensure_event env (AllocID ref) ''destroying'' out ''Environment cleanup started.'']) d = Inr (u, d')"
    using assms(1) unfolding destroy_tx_def Let_def append.simps
    by (auto simp: tx_bind_Inr tx_seq_Inr tx_guard_Inr tx_row_Inr guard_Inrs first simp del: tx_block.simps)
  from body [unfolded tx_block_snoc] ex show thesis using that by blast
qed

lemma terminal_event_type: "terminalEventType out \<noteq> ''destroying''"
  by (auto simp: terminalEventType_def)

lemma destroy_records_outcome:
  assumes "destroy_tx st env ref out status l d = Inr (u, d')" and "log_inv d"
    and "out \<noteq> '''' \<and> list_all is_ascii out \<and> length out \<le> 64"
  shows "outcome_of (AllocID ref) d = None \<or> outcome_of (AllocID ref) d = Some out" and "outcome_of (AllocID ref) d' = Some out"
proof -
  obtain p s existing d1 where ex: "outcome_of (AllocID ref) d = None \<or> outcome_of (AllocID ref) d = Some out"
    and body: "tx_block [if s_current_generation s = ref_gen ref then destroy_current env ref out status l existing s
          else tx_return (),
        exec_any (update_allocations (\<lambda>a. a_id a = AllocID ref \<and> a_desired_state a \<noteq> ''absent'') allocation_leaving),
        ensure_destroy env (AllocID ref) p,
        if s_current_generation s = ref_gen ref \<and> terminalEventType out \<noteq> ''''
        then ensure_event env (AllocID ref) (terminalEventType out) out ''Environment ended.'' else tx_return ()] d = Inr ((), d1)"
    and last: "ensure_event env (AllocID ref) ''destroying'' out ''Environment cleanup started.'' d1 = Inr (u, d')"
    by (rule destroy_tx_steps [OF assms(1,2)])
  show "outcome_of (AllocID ref) d = None \<or> outcome_of (AllocID ref) d = Some out" by (rule ex)
  have "outcome_same (AllocID ref) d d1"
    using body by (rule tx_relD [rotated]) (intro outcome.rel_intros outcome_intros outcome_event terminal_event_type)
  with ex have "outcome_of (AllocID ref) d1 = None \<or> outcome_of (AllocID ref) d1 = Some out" by (simp add: outcome_same_def)
  from ensure_event_outcome [OF last this] assms(3) show "outcome_of (AllocID ref) d' = Some out" by simp
qed

text \<open>
  C17. The first terminal outcome wins. Once a destroy request with one outcome was accepted, a request
  for the same allocation with another outcome is refused and changes nothing, after any run of the
  system, by any controller.
\<close>

theorem first_outcome_wins:
  assumes "log_inv d" and "RequestDestroy st env ref outcome status log d = (Inr (), d1)"
    and "store_run d1 d2" and "AllocID ref' = AllocID ref" and "outcome' \<noteq> outcome"
  shows "\<exists>e. RequestDestroy st' env' ref' outcome' status' log' d2 = (Inl e, d2)"
proof -
  from assms(2) have tx: "destroy_tx st env ref outcome status (boundedDurableMessage log) d = Inr ((), d1)"
    and wf: "outcome \<noteq> '''' \<and> list_all is_ascii outcome \<and> length outcome \<le> 64"
    by (auto simp: RequestDestroy_def split: sum.splits dest: run_tx_Inr canonical_text)
  have inv1: "log_inv d1"
    using log.exec_step [of d st env "CRequestDestroy ref outcome status log"] assms(1,2) by (simp add: log_step_def)
  have inv2: "log_inv d2" by (rule store_run_log [OF assms(3) inv1])
  have "outcome_of (AllocID ref) d1 = Some outcome" by (rule destroy_records_outcome(2) [OF tx assms(1) wf])
  then have out: "outcome_of (AllocID ref') d2 = Some outcome"
    using outcome_kept [OF store_run_rows [OF assms(3)]] assms(4) by simp
  have fails: "destroy_tx st' env' ref' outcome' status' l d2 \<noteq> Inr x"
    if "canonicalTerminalOutcome outcome' status' = Inr outcome'" for l x
  proof
    assume "destroy_tx st' env' ref' outcome' status' l d2 = Inr x"
    then have "destroy_tx st' env' ref' outcome' status' l d2 = Inr (fst x, snd x)" by (cases x) simp
    from destroy_records_outcome(1) [OF this inv2] canonical_text [OF that] out assms(5) show False by auto
  qed
  show ?thesis
  proof (cases "canonicalTerminalOutcome outcome' status'")
    case (Inr c)
    then have c: "canonicalTerminalOutcome outcome' status' = Inr outcome'" using canonical_text by metis
    from run_tx_fails [of "destroy_tx st' env' ref' outcome' status' (boundedDurableMessage log')", OF fails [OF c]] show ?thesis
      by (simp add: RequestDestroy_def c)
  qed (simp add: RequestDestroy_def)
qed

theorem first_outcome_wins_witness:
  "\<exists>d1 e. RequestDestroy demo_store demo_env demo_ref ''failed'' ''failed'' ''gone'' demo_verifying = (Inr (), d1) \<and>
     RequestDestroy demo_store demo_env demo_ref ''timed_out'' ''timeout'' ''late'' d1 = (Inl e, d1)"
proof -
  obtain d1 where d1: "RequestDestroy demo_store demo_env demo_ref ''failed'' ''failed'' ''gone'' demo_verifying = (Inr (), d1)"
    using demo_destroyed by blast
  have other: "''timed_out'' \<noteq> ''failed''" by simp
  from first_outcome_wins [OF demo_verifying_ok d1 store_run.stay refl other] d1 show ?thesis by blast
qed


section \<open>Ready\<close>

lemma filter_update_other:
  "(\<And>r. r \<in> set rows \<Longrightarrow> P r \<Longrightarrow> \<not> Q r \<and> \<not> Q (f r)) \<Longrightarrow> filter Q (update_where P f rows) = filter Q rows"
  by (induction rows) auto

lemma ensure_event_frame:
  assumes "ensure_event env i ty rc msg d = Inr (u, d')"
  shows "sessions d' = sessions d \<and> operations d' = operations d \<and> attempts d' = attempts d \<and>
    filter (\<lambda>a. a_id a \<noteq> i) (allocations d') = filter (\<lambda>a. a_id a \<noteq> i) (allocations d)"
proof -
  have "filter (\<lambda>a. a_id a \<noteq> i) (bump_sequence i rows) = filter (\<lambda>a. a_id a \<noteq> i) rows" for rows
    unfolding bump_sequence_def by (rule filter_update_other) simp
  with assms show ?thesis
    by (auto simp: ensure_event_def ensureEventTx_def appendEventTx_def tx_Inr log_event_Inr Let_def split: if_splits)
qed

text \<open>
  Ready means created. \<open>MarkReady\<close> succeeds only for the current generation of an active session
  whose create operation succeeded; afterwards the session is ready, and nothing but that session,
  that allocation and the event log changed.
\<close>

theorem ready_after_create:
  assumes "MarkReady st env ref d = (Inr (), d1)"
  shows "(\<exists>r \<in> set (operations d). o_allocation_id r = AllocID ref \<and> o_kind r = ''create'' \<and> o_state r = ''succeeded'') \<and>
    (\<exists>s \<in> set (sessions d). s_id s = ref_sid ref \<and> s_current_generation s = ref_gen ref \<and> active_session s) \<and>
    (\<exists>s \<in> set (sessions d1). s_id s = ref_sid ref \<and> s_state s = ''ready'') \<and>
    operations d1 = operations d \<and> attempts d1 = attempts d \<and>
    filter (\<lambda>s. s_id s \<noteq> ref_sid ref) (sessions d1) = filter (\<lambda>s. s_id s \<noteq> ref_sid ref) (sessions d) \<and>
    filter (\<lambda>a. a_id a \<noteq> AllocID ref) (allocations d1) = filter (\<lambda>a. a_id a \<noteq> AllocID ref) (allocations d)"
proof -
  let ?ready = "\<lambda>x. x\<lparr>s_state := ''ready''\<rparr>"
  from assms have tx: "ready_tx st env ref d = Inr ((), d1)" by (auto simp: MarkReady_def dest: run_tx_Inr)
  then obtain s r where s: "s \<in> set (sessions d)" "s_id s = ref_sid ref" "s_current_generation s = ref_gen ref" "active_session s"
    and r: "r \<in> set (operations d)" "o_allocation_id r = AllocID ref" "o_kind r = ''create''" "o_state r = ''succeeded''"
    and cases: "s_state s = ''ready'' \<and> d1 = d \<or> tx_block
      [exec_any (update_sessions (\<lambda>x. s_id x = ref_sid ref) ?ready),
       exec_any (update_allocations (\<lambda>x. a_id x = AllocID ref) (\<lambda>x. x\<lparr>a_observed_state := ''running''\<rparr>)),
       ensure_event env (AllocID ref) ''ready'' ''setup_complete'' ''Environment ready.''] d = Inr ((), d1)"
    by (auto simp: ready_tx_def tx_Inr guard_Inrs active_session_def simp del: tx_block.simps split: if_splits dest!: find_Some_iff_in)
  have out: "s_state s = ''ready'' \<and> d1 = d \<or>
      sessions d1 = update_where (\<lambda>x. s_id x = ref_sid ref) ?ready (sessions d) \<and> operations d1 = operations d \<and> attempts d1 = attempts d \<and>
      filter (\<lambda>a. a_id a \<noteq> AllocID ref) (allocations d1) = filter (\<lambda>a. a_id a \<noteq> AllocID ref) (allocations d)"
    using cases
    by (elim disjE) (auto simp: tx_Inr exec_Inr sql_Inr filter_update_other dest!: ensure_event_frame)
  have "s \<in> set (sessions d1) \<and> s_state s = ''ready'' \<or> ?ready s \<in> set (sessions d1)"
    using out s(1,2) by (auto simp: set_update_where)
  then have "\<exists>s \<in> set (sessions d1). s_id s = ref_sid ref \<and> s_state s = ''ready''"
    using s(2) by (elim disjE conjE) (rule bexI, auto)+
  moreover have "filter (\<lambda>s. s_id s \<noteq> ref_sid ref) (sessions d1) = filter (\<lambda>s. s_id s \<noteq> ref_sid ref) (sessions d)"
    using out by (auto simp: filter_update_other)
  ultimately show ?thesis using s r out by auto
qed

definition demo_booting :: db where
  "demo_booting = demo_db (demo_session ''booting'' ''active'') (demo_allocation ''active'' ''provisioning'' 1)
     [demo_create ''succeeded''] [demo_event 1 ''allocation_reserved'' ''create_requested''] (demo_attempt ''in_progress'')"

theorem ready_after_create_witness:
  "\<exists>d1. MarkReady demo_store demo_env demo_ref demo_booting = (Inr (), d1) \<and>
     list_ex (\<lambda>s. s_id s = ''s1'' \<and> s_state s = ''ready'') (sessions d1) \<and> operations d1 = operations demo_booting"
proof -
  have "\<exists>d1. ready_tx demo_store demo_env demo_ref demo_booting = Inr ((), d1) \<and> deferred_ok d1"
    by (simp add: ready_tx_def demo_booting_def demo_eval ensure_event_def ensureEventTx_def appendEventTx_def has_event_def
        bounded_ascii is_ascii_def nullif_empty_def deferred_ok_def)
  then obtain d1 where d1: "MarkReady demo_store demo_env demo_ref demo_booting = (Inr (), d1)"
    by (auto simp: MarkReady_def run_tx_def run_tx_or_def demo_env_def)
  from ready_after_create [OF this] d1 show ?thesis
    by (auto simp: list_ex_iff demo_ref_def AllocationRef_def SessionRef_def)
qed

section \<open>Reading events\<close>

lemma filter_after:
  "map f xs = [1..int (length xs)] \<Longrightarrow> filter (\<lambda>x. f x > int k) xs = drop k xs"
proof (induction xs rule: rev_induct)
  case (snoc x xs)
  have "[1..int (length xs) + 1] = [1..int (length xs)] @ [int (length xs) + 1]" by (simp add: upto_rec2)
  with snoc.prems have "map f xs = [1..int (length xs)]" "f x = int (length xs) + 1" by (simp_all add: add.commute)
  with snoc.IH show ?case by auto
qed simp

text \<open>
  Replay of events is a slice of the log: \<open>ReadEvents\<close> after a cursor returns exactly the events
  of the allocation that follow the first \<open>after\<close> ones, in order, up to the limit; none is skipped or repeated.
\<close>

theorem read_events_slice:
  assumes "log_inv d" and "a \<in> set (allocations d)" and "after < 2 ^ 63" and "0 < limit" and "limit \<le> 1000" and "a_id a \<noteq> ''''"
  shows "ReadEvents (a_id a) (word_of_nat after) limit d =
    Inr (map event_of_row (take (nat limit) (drop after (filter (\<lambda>e. e_allocation_id e = a_id a) (events d)))))"
proof -
  let ?log = "filter (\<lambda>e. e_allocation_id e = a_id a) (events d)"
  have seqs: "map e_sequence ?log = [1..a_last_event_sequence a]" and "0 \<le> a_last_event_sequence a"
    using assms(1,2) by (simp_all add: log_inv_def gapless_def list_all_iff allocation_gapless_def sequences_of_def)
  then have len: "int (length ?log) = a_last_event_sequence a"
    using length_map [of e_sequence ?log] by simp
  have "int64 (word_of_nat after) = int after"
    using assms(3) int64_uint64 [of "int after"] by (simp add: uint64_def)
  moreover have "filter (\<lambda>e. e_allocation_id e = a_id a \<and> e_sequence e > int after) (events d) = drop after ?log"
    using filter_after [of e_sequence ?log after] seqs len by (simp add: conj_commute)
  ultimately show ?thesis
    using assms(4-6) sort_events_id [OF assms(1,2), of "\<lambda>e. int after < e_sequence e"] by (simp add: ReadEvents_def)
qed

theorem read_events_slice_witness:
  "ReadEvents ''a1'' (word_of_nat 1) 10 demo_verifying = Inr (map event_of_row (drop 1 (events demo_verifying)))"
proof -
  let ?a = "demo_allocation ''active'' ''running'' 2"
  have "?a \<in> set (allocations demo_verifying)" "a_id ?a = ''a1''" by (simp_all add: demo_verifying_def demo_db_def demo_allocation_def)
  with read_events_slice [OF demo_verifying_ok, of ?a 1 10] show ?thesis
    by (simp add: demo_verifying_def demo_db_def demo_event_def new_event_def logged_event_def)
qed


section \<open>Ending a session\<close>

text \<open>Absence of an allocation is proven by a succeeded destroy operation.\<close>

definition proven_absent :: "db \<Rightarrow> allocation_row \<Rightarrow> bool" where
  "proven_absent d a \<longleftrightarrow> a_observed_state a = ''absent'' \<and> destroy_state_of a d = ''succeeded''"

definition end_outstanding :: "session_ref \<Rightarrow> db \<Rightarrow> allocation_row set" where
  "end_outstanding expected d = {a \<in> set (allocations d). a_session_id a = SessionID expected \<and> \<not> proven_absent d a}"

definition end_answer :: "session_ref \<Rightarrow> end_decision \<Rightarrow> db \<Rightarrow> bool" where
  "end_answer expected v d \<longleftrightarrow>
     set (ed_Pending v) = end_ref expected ` end_outstanding expected d \<and> (ed_State v = EndCompleted \<longleftrightarrow> ed_Pending v = []) \<and>
     (\<forall>a \<in> set (allocations d). a_session_id a = SessionID expected \<longrightarrow> a_desired_state a = ''absent'')"

lemma set_allocation_chain: "set (allocation_chain sid d) = {a \<in> set (allocations d). a_session_id a = sid}"
  by (auto simp: allocation_chain_def)

lemma read_end_answer:
  assumes "readEndOperationTx p oid expected d = Inr (v, d')"
  shows "end_answer expected v d"
proof -
  let ?chain = "map (\<lambda>a. (a, destroy_state_of a d)) (allocation_chain (SessionID expected) d)"
  let ?pending = "map (\<lambda>(a, ds). end_ref expected a) (filter (\<lambda>(a, ds). a_observed_state a \<noteq> ''absent'' \<or> ds \<noteq> ''succeeded'') ?chain)"
  from assms have v: "ed_Pending v = ?pending" "ed_State v = EndCompleted \<longleftrightarrow> ed_Pending v = []"
    and absent: "\<forall>a \<in> set (allocation_chain (SessionID expected) d). a_desired_state a = ''absent''"
    by (auto simp: readEndOperationTx_def tx_Inr Let_def list_all_iff split: if_splits)
  have "set ?pending = end_ref expected ` end_outstanding expected d"
    by (auto simp: end_outstanding_def proven_absent_def set_allocation_chain image_iff)
  with v absent show ?thesis by (simp add: end_answer_def set_allocation_chain)
qed

lemma end_remaining_Inr:
  "end_remaining p refs d = Inr (rem, d') \<Longrightarrow>
   d' = d \<and> rem = filter (\<lambda>ref. \<forall>a. find (\<lambda>a. a_id a = AllocID ref \<and> a_provider_id a = p) (allocations d) = Some a \<longrightarrow> \<not> proven_absent d a) refs"
proof (induction refs arbitrary: rem)
  case (Cons ref refs)
  then obtain a r rest where a: "find (\<lambda>a. a_id a = AllocID ref \<and> a_provider_id a = p) (allocations d) = Some a"
    and r: "operation_of (a_id a) (a_provider_id a) ''destroy'' d = Some r"
    and rest: "end_remaining p refs d = Inr (rest, d')"
    and rem: "rem = (if a_observed_state a \<noteq> ''absent'' \<or> o_state r \<noteq> ''succeeded'' then ref # rest else rest)"
    by (auto simp: tx_Inr bind_eq_Some_conv operation_of_def)
  have "proven_absent d a \<longleftrightarrow> a_observed_state a = ''absent'' \<and> o_state r = ''succeeded''"
    by (simp add: proven_absent_def destroy_state_of_def r)
  with Cons.IH [OF rest] rem a show ?case by auto
qed (simp add: tx_Inr)

text \<open>The completion update touches an end operation only.\<close>

lemma destroy_state_completion:
  assumes "unique_by o_id ops" and "r \<in> set ops" and "o_kind r = ''end''"
  shows "find (\<lambda>x. o_allocation_id x = i \<and> o_provider_id x = p \<and> o_kind x = ''destroy'')
      (update_where (\<lambda>x. o_id x = o_id r \<and> P x) (\<lambda>x. x\<lparr>o_state := s, o_completed_at := t\<rparr>) ops) =
    find (\<lambda>x. o_allocation_id x = i \<and> o_provider_id x = p \<and> o_kind x = ''destroy'') ops"
proof -
  have "o_kind x = ''end''" if "x \<in> set ops" "o_id x = o_id r" for x using unique_byD [OF assms(1) that(1) assms(2) that(2)] assms(3) by simp
  then show ?thesis by (induction ops) auto
qed

lemma reconcile_end_answer:
  assumes run: "reconcileEndOperationTx env p oid expected d = Inr (v, d')" and ok: "schema_ok d"
  shows "end_answer expected v d'"
proof -
  let ?chain = "allocation_chain (SessionID expected) d"
  from run obtain r rem where r: "r \<in> set (operations d)" "o_id r = oid" "o_kind r = ''end''"
    and chain: "\<forall>a \<in> set ?chain. a_provider_id a = p \<and> a_desired_state a = ''absent''"
    and rem: "rem = filter (\<lambda>ref. \<forall>a. find (\<lambda>a. a_id a = AllocID ref \<and> a_provider_id a = p) (allocations d) = Some a \<longrightarrow>
        \<not> proven_absent d a) (map (end_ref expected) ?chain)"
    and v: "ed_Pending v = rem" "ed_State v = EndCompleted \<longleftrightarrow> rem = []"
    and d': "d' = d \<or> d' = d\<lparr>operations := update_where (\<lambda>x. o_id x = oid \<and> o_state x = ''pending'')
        (\<lambda>x. x\<lparr>o_state := ''succeeded'', o_completed_at := Some (env_now env)\<rparr>) (operations d)\<rparr>"
    by (auto simp: reconcileEndOperationTx_def tx_Inr exec_one_Inr sql_Inr list_all_iff split: if_splits
        dest!: find_Some_iff_in end_remaining_Inr)
  have same: "destroy_state_of a d' = destroy_state_of a d" for a
    using d' destroy_state_completion [OF schema_okD(12) [OF ok] r(1,3)] r(2) by (auto simp: destroy_state_of_def operation_of_def)
  have allocs: "allocations d' = allocations d" using d' by auto
  have find: "find (\<lambda>b. a_id b = AllocID (end_ref expected a) \<and> a_provider_id b = p) (allocations d) = Some a" if "a \<in> set ?chain" for a
  proof -
    have a: "a \<in> set (allocations d)" using that by (simp add: set_allocation_chain)
    have "find (\<lambda>b. a_id b = a_id a) (allocations d) = Some a" by (rule find_unique [OF schema_okD(5) [OF ok] a refl])
    from find_conj [OF this, where Q = "\<lambda>b. a_provider_id b = p"] chain that show ?thesis
      by (simp add: end_ref_def AllocationRef_def)
  qed
  have "rem = map (end_ref expected) (filter (\<lambda>a. \<not> proven_absent d a) ?chain)"
    using rem find by (auto simp: filter_map comp_def intro!: arg_cong [where f = "map (end_ref expected)"] filter_cong)
  then have "set rem = end_ref expected ` end_outstanding expected d'"
    by (auto simp: end_outstanding_def proven_absent_def set_allocation_chain same allocs)
  with v chain show ?thesis by (simp add: end_answer_def set_allocation_chain allocs)
qed


definition schema_step :: "db \<Rightarrow> db \<Rightarrow> bool" where
  "schema_step d d' \<longleftrightarrow> (schema_ok d \<longrightarrow> schema_ok d')"

interpretation sstep: tx_preorder schema_step
  by unfold_locales (auto simp: schema_step_def)

lemma schema_sql: "tx_rel schema_step (sql_exec f)"
  by (rule tx_relI) (auto simp: sql_exec_Inr schema_step_def)

lemmas schema_statement_defs = update_sessions_def update_allocations_def update_operations_def update_attempts_def
  insert_operation_def insert_events_def exec_any_def exec_one_def

lemma schema_create_end: "tx_rel schema_step (createEndOperationTx env p u expected ei)"
  unfolding createEndOperationTx_def end_allocation_def ensureDestroyOperationTx_def fresh_operation_def ensure_event_def
    ensureEventTx_def appendEventTx_def log_event_def reserve_sequence_def schema_statement_defs Let_def
  by (intro sstep.rel_intros schema_sql)

lemma load_end_state: "loadEndOperationTx p u expected ei d = Inr (x, d') \<Longrightarrow> d' = d"
  by (auto simp: loadEndOperationTx_def tx_Inr split: option.splits)

lemma end_operation_schema:
  assumes "end_tx st env u expected ei d = Inr (v, d')" and "schema_ok d"
  obtains oid d1 where "reconcileEndOperationTx env (FenceProviderID (st_fence st)) oid expected d1 = Inr (v, d')" "schema_ok d1"
proof -
  let ?p = "FenceProviderID (st_fence st)"
  from assms(1) obtain oid d1 where
    oid: "d1 = d \<or> createEndOperationTx env ?p u expected ei d = Inr (oid, d1)"
    and rec: "reconcileEndOperationTx env ?p oid expected d1 = Inr (v, d')"
    by (auto simp: end_tx_def Let_def tx_Inr guard_Inrs lock_user_def dest!: load_end_state split: option.splits)
  have "schema_ok d1"
    using oid assms(2) tx_relD [OF schema_create_end, of env ?p u expected ei d oid d1] by (auto simp: schema_step_def)
  with rec show thesis by (rule that)
qed

text \<open>
  C31. An end is complete exactly when everything is gone. Whatever \<open>RequestEnd\<close> answers, after a fresh
  request, a replay or a reconciled commit: the pending list is exactly the allocations of the
  session whose absence no succeeded destroy operation proves yet, the answer is completed exactly
  when that list is empty, and every allocation of the session is desired absent.
\<close>

theorem end_completes_iff_absent:
  assumes "schema_ok d" and "RequestEnd st env u expected op d = (Inr v, d1)"
  shows "set (ed_Pending v) = end_ref expected ` {a \<in> set (allocations d1). a_session_id a = SessionID expected \<and>
       \<not> (a_observed_state a = ''absent'' \<and> destroy_state_of a d1 = ''succeeded'')} \<and>
    (ed_State v = EndCompleted \<longleftrightarrow> ed_Pending v = []) \<and>
    (\<forall>a \<in> set (allocations d1). a_session_id a = SessionID expected \<longrightarrow> a_desired_state a = ''absent'')"
proof -
  from assms(2) obtain ei x d' where tx: "end_tx st env u expected ei d = Inr (x, d')"
    and out: "v = x \<and> d1 = d' \<or> reconcileEndCommit st env u expected ei x d1 = Inr v"
    by (auto simp: RequestEnd_def run_tx_or_def split: sum.splits prod.splits if_splits commit_outcome.splits)
  have "end_answer expected v d1"
    using out
  proof
    assume "v = x \<and> d1 = d'"
    then show ?thesis using end_operation_schema [OF tx assms(1)] reconcile_end_answer by metis
  next
    assume "reconcileEndCommit st env u expected ei x d1 = Inr v"
    then obtain p oid d2 where "readEndOperationTx p oid expected d1 = Inr (v, d2)"
      by (auto simp: reconcileEndCommit_def lookupEndOperation_def run_query_def loadEndOperationTx_def tx_Inr
          split: if_splits sum.splits option.splits)
    then show ?thesis by (rule read_end_answer)
  qed
  then show ?thesis by (simp add: end_answer_def end_outstanding_def proven_absent_def)
qed


lemma demo_end: "\<exists>v d1. RequestEnd demo_store demo_env ''u1'' (SessionRef ''s1'' 1) ''op-00001'' demo_ready = (Inr v, d1)"
proof -
  obtain ei where ei: "newEndIdentity ''u1'' (SessionRef ''s1'' 1) ''op-00001'' = Inr ei"
    and key: "ei_idempotencyKey ei = ''verify-user:u1:op-00001''" and len: "length (ei_requestHash ei) = 32"
    by (simp add: newEndIdentity_def demo_key SessionRef_def)
  have "\<exists>v d1. end_tx demo_store demo_env ''u1'' (SessionRef ''s1'' 1) ei demo_ready = Inr (v, d1) \<and> deferred_ok d1"
    by (simp add: end_tx_def loadEndOperationTx_def createEndOperationTx_def reconcileEndOperationTx_def key len demo_eval Let_def
        demo_ready_def end_allocation_def allocation_chain_def open_attempt_def attempt_terminal_def session_terminal_def coalesce_def
        allocation_leaving_def ensureDestroyOperationTx_def destroy_hash_def ensure_event_def ensureEventTx_def appendEventTx_def
        has_event_def bounded_ascii is_ascii_def nullif_empty_def deferred_ok_def elapsed_seconds_def end_ref_def)
  then show ?thesis by (auto simp: RequestEnd_def ei run_tx_or_def demo_env_def)
qed

theorem end_completes_iff_absent_witness:
  "\<exists>v d1. RequestEnd demo_store demo_env ''u1'' (SessionRef ''s1'' 1) ''op-00001'' demo_ready = (Inr v, d1) \<and>
     (ed_State v = EndCompleted \<longleftrightarrow> ed_Pending v = [])"
proof -
  obtain v d1 where run: "RequestEnd demo_store demo_env ''u1'' (SessionRef ''s1'' 1) ''op-00001'' demo_ready = (Inr v, d1)"
    using demo_end by blast
  have "schema_ok demo_ready" using demo_ready_ok by (simp add: log_inv_def)
  from end_completes_iff_absent [OF this run] run show ?thesis by blast
qed

section \<open>A restart during an end\<close>

definition failed_end :: "string \<Rightarrow> string \<Rightarrow> db \<Rightarrow> bool" where
  "failed_end p k d \<longleftrightarrow> (\<exists>r. operation_by_key p k d = Some r \<and> o_kind r = ''end'' \<and> o_state r = ''failed'')"

lemma find_update_skip:
  assumes "find P rows = Some r" and "\<not> Q r" and "\<And>x. P (f x) = P x"
  shows "find P (update_where Q f rows) = Some r"
  using assms by (induction rows) (auto split: if_splits)

lemma failed_end_kept:
  "tx_hoare (failed_end p k) (ensure_destroy env i p') (failed_end p k)"
  "tx_hoare (failed_end p k) (ensure_event env i ty rc msg) (failed_end p k)"
  "(\<And>r. P r \<Longrightarrow> o_kind r = ''destroy'') \<Longrightarrow> tx_hoare (failed_end p k) (exec_any (update_operations P (operation_succeeded env))) (failed_end p k)"
proof -
  show "tx_hoare (failed_end p k) (ensure_destroy env i p') (failed_end p k)"
    by (rule hoareI) (auto simp: failed_end_def ensure_destroy_def ensureDestroyOperationTx_def fresh_operation_def Let_def tx_Inr
        sql_Inr operation_by_key_def find_append split: option.splits)
  show "tx_hoare (failed_end p k) (ensure_event env i ty rc msg) (failed_end p k)"
    by (rule hoareI) (auto simp: failed_end_def operation_by_key_def dest!: ensure_event_frame)
  assume P: "\<And>r. P r \<Longrightarrow> o_kind r = ''destroy''"
  show "tx_hoare (failed_end p k) (exec_any (update_operations P (operation_succeeded env))) (failed_end p k)"
  proof (rule hoareI)
    fix d x d' assume "failed_end p k d" and run: "exec_any (update_operations P (operation_succeeded env)) d = Inr (x, d')"
    then obtain r where r: "operation_by_key p k d = Some r" "o_kind r = ''end''" "o_state r = ''failed''" by (auto simp: failed_end_def)
    have "operation_by_key p k d' = Some r"
      using run find_update_skip [OF r(1) [unfolded operation_by_key_def], of P "operation_succeeded env"] r(2) P [of r]
      by (auto simp: exec_Inr sql_Inr operation_by_key_def operation_succeeded_def clear_lease_def)
    with r(2,3) show "failed_end p k d'" by (simp add: failed_end_def)
  qed
qed


lemma hoare_if: "tx_hoare P m Q \<Longrightarrow> tx_hoare P n Q \<Longrightarrow> tx_hoare P (if b then m else n) Q"
  by simp
lemma tx_block_prefix3: "tx_block (a # b # c # e # ms) d = Inr r \<Longrightarrow>
  \<exists>d1 d2 d3 d4. a d = Inr ((), d1) \<and> b d1 = Inr ((), d2) \<and> c d2 = Inr ((), d3) \<and> e d3 = Inr ((), d4) \<and> tx_block ms d4 = Inr r"
  by (auto simp: tx_seq_Inr)

lemma converge_rows_end:
  assumes "converge_rows env ref p cur caused d = Inr (u, d')"
    and "operation_by_key p k d = Some r" "o_kind r = ''end''" "o_state r = ''pending''" "o_allocation_id r = AllocID ref"
  shows "failed_end p k d'"
proof -
  let ?fail = "\<lambda>r. (clear_lease r)\<lparr>o_state := (if o_kind r = ''destroy'' then ''succeeded'' else ''failed''),
      o_error_code := (if o_kind r = ''destroy'' then None else Some ''control_plane_restarted''),
      o_error_message := (if o_kind r = ''destroy'' then None
         else Some ''local development allocation removed during restart recovery''),
      o_completed_at := coalesce (o_completed_at r) (env_now env)\<rparr>"
  let ?open = "\<lambda>r. o_allocation_id r = AllocID ref \<and> o_provider_id r = p \<and> o_state r \<in> {''pending'', ''running'', ''cleanup_required''}"
  let ?tail = "tx_block [ensure_destroy env (AllocID ref) p,
      exec_any (update_operations (\<lambda>r. o_allocation_id r = AllocID ref \<and> o_provider_id r = p \<and> o_kind r = ''destroy'' \<and>
              o_state r \<in> {''pending'', ''running'', ''cleanup_required'', ''succeeded''}) (operation_succeeded env)),
      if caused then ensure_event env (AllocID ref) ''failed'' ''control_plane_restarted''
             ''Local development environment ended during server restart.'' else tx_return (),
      ensure_event env (AllocID ref) ''destroyed'' ''scoped_reconcile_absent'' ''Local development environment cleanup completed.'']"
  from tx_block_prefix3 [OF assms(1) [unfolded converge_rows_def]] obtain da db d1 d2 where
    "exec_any (update_allocations (\<lambda>a. a_id a = AllocID ref) allocation_gone) d = Inr ((), da)"
    "(if cur then exec_any (update_sessions (\<lambda>s. s_id s = ref_sid ref \<and> s_current_generation s = ref_gen ref)
         (session_terminal env ''destroyed'')) else tx_return ()) da = Inr ((), db)"
    "(if caused then exec_any (update_attempts (open_attempt (ref_sid ref) (ref_gen ref))
         (attempt_terminal env ''failed'' ''control plane restarted; local development environment was removed''))
      else tx_return ()) db = Inr ((), d1)"
    and d2: "exec_any (update_operations ?open ?fail) d1 = Inr ((), d2)" and tail: "?tail d2 = Inr (u, d')"
    by blast
  then have d1: "operations d1 = operations d" by (auto simp: exec_Inr sql_Inr tx_return_Inr split: if_splits)
  have "find (\<lambda>r. o_provider_id r = p \<and> o_idempotency_key r = k) (operations d2) = Some (?fail r)"
  proof -
    have "o_provider_id r = p" using assms(2) by (auto simp: operation_by_key_def dest: find_Some_iff_in)
    then show ?thesis
      using find_update_first [OF assms(2) [unfolded operation_by_key_def], of ?open ?fail] d1 d2 assms(4,5)
      by (auto simp: exec_Inr sql_Inr clear_lease_def)
  qed
  then have now: "failed_end p k d2" using assms(3) by (simp add: failed_end_def operation_by_key_def clear_lease_def)
  have keep: "tx_hoare (failed_end p k) ?tail (failed_end p k)"
    by (intro hoare_steps(5) [where Q = "failed_end p k"] hoare_steps(3) hoare_if hoare_steps(1) failed_end_kept) simp
  show ?thesis by (rule hoareD [OF keep tail now])
qed


lemma failed_end_refuses:
  assumes ok: "schema_ok d" and failed: "failed_end (FenceProviderID (st_fence st)) (ei_idempotencyKey ei) d"
  shows "end_tx st env u expected ei d \<noteq> Inr x"
proof
  let ?p = "FenceProviderID (st_fence st)"
  assume run: "end_tx st env u expected ei d = Inr x"
  obtain r where r: "operation_by_key ?p (ei_idempotencyKey ei) d = Some r" "o_kind r = ''end''" "o_state r = ''failed''"
    using failed by (auto simp: failed_end_def)
  then have mem: "r \<in> set (operations d)" by (auto simp: operation_by_key_def dest: find_Some_iff_in)
  obtain v where "interrupted_of d r = Some v" by (rule interrupted_of_Some [OF ok mem])
  then obtain a s where "find (\<lambda>a. a_id a = o_allocation_id r \<and> a_provider_id a = o_provider_id r) (allocations d) = Some a"
    "session_by_id (a_session_id a) d = Some s"
    by (auto simp: interrupted_of_def bind_eq_Some_conv)
  with r(1) run have "\<exists>y. reconcileEndOperationTx env ?p (o_id r) expected d = Inr y"
    by (auto simp: end_tx_def Let_def tx_Inr guard_Inrs lock_user_def loadEndOperationTx_def)
  then obtain q where q: "q \<in> set (operations d)" "o_id q = o_id r" "o_state q \<noteq> ''failed''"
    by (auto simp: reconcileEndOperationTx_def tx_Inr dest!: find_Some_iff_in)
  from unique_byD [OF schema_okD(12) [OF ok] q(1) mem q(2)] q(3) r(3) show False by simp
qed



definition demo_end_operation :: operation_row where
  "demo_end_operation = demo_operation ''op-e'' ''end'' ''verify-user:u1:op-00001'' (sha256_string ''end'') ''pending''"

definition demo_ending :: db where
  "demo_ending = demo_db (demo_session ''failed'' ''absent'') (demo_allocation ''absent'' ''deleting'' 2)
     [demo_create ''succeeded'', demo_end_operation, demo_destroy ''pending'']
     [demo_event 1 ''allocation_reserved'' ''create_requested'', demo_event 2 ''destroying'' ''failed''] (demo_attempt ''failed'')"

definition demo_recovery :: local_recovery_allocation where
  "demo_recovery = \<lparr>lr_Ref = demo_ref, lr_Selection = \<lparr>SelGeneration = 1, SelProblem = \<lparr>ProblemID = ''p1'', Revision = ''r1''\<rparr>\<rparr>,
     lr_ResourceProfile = ''small''\<rparr>"

lemma demo_ending_ok: "log_inv demo_ending"
  by (simp add: log_inv_def demo_ending_def demo_end_operation_def demo_destroy_def destroy_hash_def demo_row_defs
      demo_schema_defs gapless_def allocation_gapless_def sequences_of_def upto.simps)

lemma demo_converged: "\<exists>d1. convergeOneLocalRestart demo_store demo_env ''local'' demo_recovery demo_ending = (Inr (), d1)"
proof -
  have "\<exists>d1. converge_tx demo_store demo_env ''local'' demo_recovery demo_ending = Inr ((), d1) \<and> deferred_ok d1"
    by (simp add: converge_tx_def converge_rows_def provenance_changed_def demo_recovery_def demo_eval Let_def demo_ending_def
        demo_end_operation_def demo_destroy_def destroy_hash_def allocation_gone_def session_terminal_def coalesce_def clear_lease_def
        operation_succeeded_def ensure_destroy_def ensureDestroyOperationTx_def ensure_event_def ensureEventTx_def appendEventTx_def
        has_event_def bounded_ascii is_ascii_def nullif_empty_def deferred_ok_def)
  moreover have "requireProvider demo_store ''local'' = Inr ()" "env_commit demo_env = Committed"
    by (simp_all add: requireProvider_def demo_store_def demo_env_def)
  ultimately show ?thesis by (auto simp: convergeOneLocalRestart_def run_tx_def run_tx_or_def)
qed


end
