(* ===== verification/Store_Replay.thy ===== *)
theory Store_Replay
  imports Store_Claims
begin

text \<open>
  Idempotent reservation: the exact replay of a reservation finds the reservation it made, whatever
  happened to the session in between, and changes nothing.
\<close>

section \<open>The join survives\<close>

lemma reservation_join_le:
  assumes le: "rows_le d d'" and "reservation_join p k d = Some (s, a, r, e, t)"
  shows "\<exists>s' a' r' t'. reservation_join p k d' = Some (s', a', r', e, t') \<and> session_le s s' \<and> allocation_le a a' \<and>
    operation_le r r' \<and> attempt_le t t'"
proof -
  let ?A = "\<lambda>a. a_id a = o_allocation_id r \<and> a_provider_id a = o_provider_id r"
  let ?E = "\<lambda>e. e_allocation_id e = a_id a \<and> e_sequence e = 1"
  from assms(2) have rows: "operation_by_key p k d = Some r" "find ?A (allocations d) = Some a" "session_by_id (a_session_id a) d = Some s"
      "find ?E (events d) = Some e" "attempt_of (a_session_id a) (a_generation a) d = Some t"
    by (auto simp: reservation_join_def bind_eq_Some_conv)
  obtain r' where r': "operation_by_key p k d' = Some r'" "operation_le r r'" using operation_by_key_le [OF le rows(1)] by blast
  have "\<exists>a'. find ?A (allocations d') = Some a' \<and> allocation_le a a'"
    using le rows(2) by (intro find_table_le [of allocation_le]) (auto simp: rows_le_def allocation_le_def)
  then obtain a' where a': "find ?A (allocations d') = Some a'" "allocation_le a a'" by blast
  have "\<exists>s'. find (\<lambda>s. s_id s = a_session_id a) (sessions d') = Some s' \<and> session_le s s'"
    using le rows(3) by (intro find_table_le [of session_le]) (auto simp: rows_le_def session_le_def session_by_id_def)
  then obtain s' where s': "find (\<lambda>s. s_id s = a_session_id a) (sessions d') = Some s'" "session_le s s'" by blast
  have "\<exists>e'. find ?E (events d') = Some e' \<and> e = e'"
    using le rows(4) by (intro find_table_le [of "(=)"]) (auto simp: rows_le_def)
  then have e': "find ?E (events d') = Some e" by blast
  have "\<exists>t'. find (\<lambda>t. t_session_id t = a_session_id a \<and> t_generation t = a_generation a) (attempts d') = Some t' \<and> attempt_le t t'"
    using le rows(5) by (intro find_table_le [of attempt_le]) (auto simp: rows_le_def attempt_le_def attempt_of_def)
  then obtain t' where t': "find (\<lambda>t. t_session_id t = a_session_id a \<and> t_generation t = a_generation a) (attempts d') = Some t'" "attempt_le t t'"
    by blast
  have same: "o_allocation_id r' = o_allocation_id r" "o_provider_id r' = o_provider_id r" "a_session_id a' = a_session_id a"
    "a_generation a' = a_generation a" "a_id a' = a_id a"
    using r'(2) a'(2) by (simp_all add: operation_le_def allocation_le_def)
  with r' a' s' e' t' show ?thesis
    by (simp add: reservation_join_def session_by_id_def attempt_of_def)
qed

lemma users_step: "store_step d d' \<Longrightarrow> set (users d) \<subseteq> set (users d')"
  using history.exec_step by (auto elim!: store_stepE simp: store_le_def issue_epoch_def split: option.splits)

lemma users_run: "store_run d d' \<Longrightarrow> set (users d) \<subseteq> set (users d')"
  by (induction rule: store_run.induct) (auto dest: users_step)

section \<open>What a reservation leaves\<close>

text \<open>The identity of a reservation: everything that never changes once it is made.\<close>

definition same_reservation :: "session_reservation \<Rightarrow> session_reservation \<Rightarrow> bool" where
  "same_reservation v w \<longleftrightarrow> da_Ref (rv_Allocation w) = da_Ref (rv_Allocation v) \<and> do_ID (rv_Operation w) = do_ID (rv_Operation v) \<and>
     do_RequestHash (rv_Operation w) = do_RequestHash (rv_Operation v) \<and> ds_ID (rv_Session w) = ds_ID (rv_Session v) \<and>
     ds_UserID (rv_Session w) = ds_UserID (rv_Session v) \<and> ds_Selection (rv_Session w) = ds_Selection (rv_Session v) \<and>
     ds_ExpiresAt (rv_Session w) = ds_ExpiresAt (rv_Session v) \<and> rv_Event w = rv_Event v \<and> rv_AttemptID w = rv_AttemptID v"

definition reserved_rows :: "reserve_session_params \<Rightarrow> session_reservation \<Rightarrow> db \<Rightarrow> bool" where
  "reserved_rows p v d \<longleftrightarrow> (\<exists>s a r e t. reservation_join (rp_ProviderID p) (rp_IdempotencyKey p) d = Some (s, a, r, e, t) \<and>
     same_reservation v (reservation_of_rows s a r e t) \<and>
     a_id a = AllocationIDForSession (SessionRef (rp_SessionID p) initialGeneration) \<and> o_kind r = ''create'' \<and>
     o_request_hash r = hashReservation p (a_id a) \<and> (\<exists>g > 0. s_catalog_generation s = Some g) \<and> a_last_event_sequence a > 0)"

lemma reserve_tx_cases:
  assumes "reserve_tx st env p d = Inr (v, d')"
  obtains (replay) "d' = d" "loadReservationByOperation (rp_ProviderID p) (rp_IdempotencyKey p) d = Inr (Some v, d)"
      "AllocID (da_Ref (rv_Allocation v)) = AllocationIDForSession (SessionRef (rp_SessionID p) initialGeneration)"
      "do_Kind (rv_Operation v) = ''create''"
      "do_RequestHash (rv_Operation v) = hashReservation p (AllocationIDForSession (SessionRef (rp_SessionID p) initialGeneration))"
  | (fresh) "reserve_rows env p (AllocationIDForSession (SessionRef (rp_SessionID p) initialGeneration))
        (hashReservation p (AllocationIDForSession (SessionRef (rp_SessionID p) initialGeneration))) d = Inr (v, d')"
  using assms unfolding reserve_tx_def Let_def
  by (auto simp: tx_Inr guard_Inrs lock_user_def validateCatalogSelectionTx_def dest!: load_reservation_same split: option.splits)

lemma reserved_by_replay:
  assumes "loadReservationByOperation (rp_ProviderID p) (rp_IdempotencyKey p) d = Inr (Some v, d)"
    and "AllocID (da_Ref (rv_Allocation v)) = AllocationIDForSession (SessionRef (rp_SessionID p) initialGeneration)"
    and "do_Kind (rv_Operation v) = ''create''"
    and "do_RequestHash (rv_Operation v) = hashReservation p (AllocationIDForSession (SessionRef (rp_SessionID p) initialGeneration))"
  shows "reserved_rows p v d"
proof -
  from assms(1) obtain s a r e t where "reservation_join (rp_ProviderID p) (rp_IdempotencyKey p) d = Some (s, a, r, e, t)"
    "v = reservation_of_rows s a r e t" "s_catalog_generation s \<noteq> None" "the (s_catalog_generation s) > 0" "a_last_event_sequence a > 0"
    by (auto simp: loadReservationByOperation_def tx_Inr split: option.splits)
  with assms(2-4) show ?thesis
    unfolding reserved_rows_def
    by (intro exI [of _ s] exI [of _ a] exI [of _ r] exI [of _ e] exI [of _ t])
      (auto simp: same_reservation_def reservation_of_rows_def AllocationRef_def)
qed

lemma find_pair_unique:
  assumes "unique_by (\<lambda>x. (f x, g x)) rows" and "x \<in> set rows" and "f x = i" and "g x = j"
  shows "find (\<lambda>x. f x = i \<and> g x = j) rows = Some x"
  using find_unique [OF assms(1,2), of "(i, j)"] assms(3,4) by simp

lemma reserved_by_rows:
  assumes run: "reserve_rows env p i h d = Inr (v, d')" and i: "i = AllocationIDForSession (SessionRef (rp_SessionID p) initialGeneration)"
    and h: "h = hashReservation p i" and gen: "0 < SelGeneration (rp_Selection p)" "SelGeneration (rp_Selection p) \<le> MaxDurableValue"
  shows "reserved_rows p v d'"
proof -
  let ?s = "\<lparr>s_id = rp_SessionID p, s_user_id = rp_UserID p, s_problem_id = ProblemID (SelProblem (rp_Selection p)),
         s_problem_revision = Revision (SelProblem (rp_Selection p)), s_catalog_generation = Some (int64 (SelGeneration (rp_Selection p))),
         s_current_generation = int64 initialGeneration, s_state = ''queued'', s_desired_state = ''active'',
         s_queued_at = env_now env, s_started_at = None, s_expires_at = rp_ExpiresAt p, s_finished_at = None,
         s_created_at = env_now env\<rparr>"
  let ?a = "new_allocation env i (rp_SessionID p) (int64 initialGeneration) (rp_Provider p) (rp_ProviderID p) (rp_ResourceProfile p) (rp_ExpiresAt p) 1"
  let ?e = "new_event i 1 ''allocation_reserved'' ''create_requested'' ''Environment reservation accepted.'' (env_now env)"
  let ?t = "new_attempt (rp_SessionID p) (rp_UserID p) (ProblemID (SelProblem (rp_Selection p))) (env_now env) (rp_SessionID p) (int64 initialGeneration)"
  from run obtain oid where ok: "schema_ok d'"
    and mem: "?s \<in> set (sessions d')" "?a \<in> set (allocations d')" "?e \<in> set (events d')" "?t \<in> set (attempts d')"
      "new_operation env oid i (rp_ProviderID p) ''create'' (rp_IdempotencyKey p) h ''pending'' None \<in> set (operations d')"
    and v: "v = reservationValue p i oid h (env_now env)"
    by (auto simp: reserve_rows_def Let_def tx_Inr sql_Inr fresh_operation_def)
  let ?r = "new_operation env oid i (rp_ProviderID p) ''create'' (rp_IdempotencyKey p) h ''pending'' None"
  have r: "operation_by_key (rp_ProviderID p) (rp_IdempotencyKey p) d' = Some ?r"
    unfolding operation_by_key_def by (rule find_pair_unique [OF schema_okD(13) [OF ok] mem(5)]) (simp_all add: new_operation_def)
  have a: "find (\<lambda>a. a_id a = o_allocation_id ?r \<and> a_provider_id a = o_provider_id ?r) (allocations d') = Some ?a"
    using find_conj [OF find_unique [OF schema_okD(5) [OF ok] mem(2) refl], where Q = "\<lambda>a. a_provider_id a = rp_ProviderID p"]
    by (simp add: new_allocation_def new_operation_def)
  have s: "session_by_id (a_session_id ?a) d' = Some ?s"
    using find_unique [OF schema_okD(2) [OF ok] mem(1)] by (simp add: session_by_id_def new_allocation_def)
  have e: "find (\<lambda>e. e_allocation_id e = a_id ?a \<and> e_sequence e = 1) (events d') = Some ?e"
    by (rule find_pair_unique [OF schema_okD(17) [OF ok] mem(3)]) (simp_all add: new_event_def new_allocation_def)
  have t: "attempt_of (a_session_id ?a) (a_generation ?a) d' = Some ?t"
    unfolding attempt_of_def by (rule find_pair_unique [OF schema_okD(22) [OF ok] mem(4)]) (simp_all add: new_attempt_def new_allocation_def)
  have join: "reservation_join (rp_ProviderID p) (rp_IdempotencyKey p) d' = Some (?s, ?a, ?r, ?e, ?t)"
    using r a s e t by (simp add: reservation_join_def)
  have "int64 (SelGeneration (rp_Selection p)) > 0"
    using gen by (simp add: int64_durable word_less_def)
  moreover have "uint64 1 = 1" by (simp add: uint64_def)
  ultimately show ?thesis
    unfolding reserved_rows_def v using join i h
    by (intro exI [of _ ?s] exI [of _ ?a] exI [of _ ?r] exI [of _ ?e] exI [of _ ?t])
      (auto simp: same_reservation_def reservation_of_rows_def reservationValue_def Let_def new_allocation_def new_operation_def
        new_event_def new_attempt_def)
qed


section \<open>Idempotence\<close>

lemma reserved_rows_kept:
  assumes "rows_le d d'" and "reserved_rows p v d" and "schema_ok d'"
  shows "\<exists>w. loadReservationByOperation (rp_ProviderID p) (rp_IdempotencyKey p) d' = Inr (Some w, d') \<and> same_reservation v w \<and>
    AllocID (da_Ref (rv_Allocation w)) = AllocationIDForSession (SessionRef (rp_SessionID p) initialGeneration) \<and>
    do_Kind (rv_Operation w) = ''create'' \<and>
    do_RequestHash (rv_Operation w) = hashReservation p (AllocationIDForSession (SessionRef (rp_SessionID p) initialGeneration))"
proof -
  from assms(2) obtain s a r e t g where join: "reservation_join (rp_ProviderID p) (rp_IdempotencyKey p) d = Some (s, a, r, e, t)"
    and same: "same_reservation v (reservation_of_rows s a r e t)"
    and a: "a_id a = AllocationIDForSession (SessionRef (rp_SessionID p) initialGeneration)" and r: "o_kind r = ''create''"
      "o_request_hash r = hashReservation p (a_id a)" and g: "g > 0" "s_catalog_generation s = Some g" and last: "a_last_event_sequence a > 0"
    by (auto simp: reserved_rows_def)
  from reservation_join_le [OF assms(1) join] obtain s' a' r' t' where
    join': "reservation_join (rp_ProviderID p) (rp_IdempotencyKey p) d' = Some (s', a', r', e, t')"
    and le: "session_le s s'" "allocation_le a a'" "operation_le r r'" "attempt_le t t'" by blast
  from join' have mem: "s' \<in> set (sessions d')" "a' \<in> set (allocations d')" "r' \<in> set (operations d')" and e1: "e_sequence e = 1"
    by (auto simp: reservation_join_def bind_eq_Some_conv operation_by_key_def session_by_id_def dest!: find_Some_iff_in)
  have "length (o_request_hash r') = 32" "s_current_generation s' > 0" "a_generation a' > 0"
    using schema_okD(1,4,9) [OF assms(3)] mem
    by (auto simp: list_all_iff operation_check_def session_check_def allocation_check_def)
  moreover have "s_catalog_generation s' = Some g" "a_last_event_sequence a' > 0" using le g last by (auto simp: session_le_def allocation_le_def)
  ultimately have "loadReservationByOperation (rp_ProviderID p) (rp_IdempotencyKey p) d' = Inr (Some (reservation_of_rows s' a' r' e t'), d')"
    using join' g(1) e1 by (simp add: loadReservationByOperation_def tx_defs)
  moreover have "same_reservation (reservation_of_rows s a r e t) (reservation_of_rows s' a' r' e t')"
    using le by (simp add: same_reservation_def reservation_of_rows_def row_le_defs)
  then have "same_reservation v (reservation_of_rows s' a' r' e t')" using same by (simp add: same_reservation_def)
  ultimately show ?thesis
    using a r le by (simp add: reservation_of_rows_def AllocationRef_def row_le_defs)
qed



end
