(* ===== verification/Go_Strings.thy ===== *)
theory Go_Strings
  imports Go_Text
begin

text \<open>
  More of Go's standard library, on byte strings: the functions of package \<open>strings\<close> that the
  problem catalog uses (\<open>Split\<close>, \<open>Cut\<close>, \<open>SplitN\<close>, \<open>TrimSpace\<close>, \<open>Index\<close>, \<open>LastIndex\<close>,
  \<open>HasPrefix\<close>, \<open>Contains\<close>), and package \<open>regexp\<close> for the constructs of the catalog's patterns.

  A regular expression is matched the way package \<open>regexp\<close> documents it: among all matches that
  begin leftmost, the one a backtracking search would have found first. The matcher is a list of
  successes in priority order; \<open>rx_runs_iff\<close> relates it to the declarative matching relation, so a
  search fails exactly when no match exists.
\<close>

section \<open>Package strings\<close>

definition HasPrefix :: "string \<Rightarrow> string \<Rightarrow> bool" where
  "HasPrefix s p \<longleftrightarrow> take (length p) s = p"

lemma HasPrefix_iff: "HasPrefix s p \<longleftrightarrow> (\<exists>r. s = p @ r)"
  by (metis HasPrefix_def append_eq_conv_conj append_take_drop_id)

text \<open>\<open>strings.Index\<close>: the first position of a substring, if any.\<close>

fun Index :: "string \<Rightarrow> string \<Rightarrow> nat option" where
  "Index [] p = (if p = [] then Some 0 else None)"
| "Index (c # s) p = (if HasPrefix (c # s) p then Some 0 else map_option Suc (Index s p))"

text \<open>\<open>strings.LastIndex\<close>\<close>

fun LastIndex :: "string \<Rightarrow> string \<Rightarrow> nat option" where
  "LastIndex [] p = (if p = [] then Some 0 else None)"
| "LastIndex (c # s) p =
     (case LastIndex s p of
        Some i \<Rightarrow> Some (Suc i)
      | None \<Rightarrow> if HasPrefix (c # s) p then Some 0 else None)"

definition Contains :: "string \<Rightarrow> string \<Rightarrow> bool" where
  "Contains s p \<longleftrightarrow> Index s p \<noteq> None"

lemma Index_Some:
  "Index s p = Some i \<Longrightarrow> i \<le> length s \<and> HasPrefix (drop i s) p"
  by (induction s p arbitrary: i rule: Index.induct) (auto simp: HasPrefix_def split: if_splits)

lemma Index_None: "Index s p = None \<longleftrightarrow> (\<nexists>a b. s = a @ p @ b)"
proof (induction s p rule: Index.induct)
  case (2 c s p)
  have "(\<exists>a b. c # s = a @ p @ b) \<longleftrightarrow> HasPrefix (c # s) p \<or> (\<exists>a b. s = a @ p @ b)"
    by (auto simp: HasPrefix_iff Cons_eq_append_conv)
  with 2 show ?case by auto
qed auto

lemma LastIndex_Some:
  "LastIndex s p = Some i \<Longrightarrow> i \<le> length s \<and> HasPrefix (drop i s) p"
  by (induction s p arbitrary: i rule: LastIndex.induct)
    (auto simp: HasPrefix_def split: if_splits option.splits)

text \<open>\<open>strings.Split\<close> with a one-byte separator, and \<open>strings.Cut\<close>.\<close>

fun Split :: "char \<Rightarrow> string \<Rightarrow> string list" where
  "Split d [] = [[]]"
| "Split d (c # s) =
     (if c = d then [] # Split d s
      else (case Split d s of l # ls \<Rightarrow> (c # l) # ls | [] \<Rightarrow> [[c]]))"

lemma Split_nonempty [simp]: "Split d s \<noteq> []"
  by (induction s) (auto split: list.splits)

lemma Split_lines: "l \<in> set (Split d s) \<Longrightarrow> d \<notin> set l"
  by (induction s arbitrary: l) (auto split: list.splits if_splits)

fun unlines :: "char \<Rightarrow> string list \<Rightarrow> string" where
  "unlines d [] = []"
| "unlines d [l] = l"
| "unlines d (l # m # ls) = l @ [d] @ unlines d (m # ls)"

lemma unlines_Split [simp]: "unlines d (Split d s) = s"
proof (induction s)
  case (Cons c s)
  then show ?case by (cases "Split d s"; cases "tl (Split d s)") auto
qed simp

definition Cut :: "char \<Rightarrow> string \<Rightarrow> string \<times> string \<times> bool" where
  "Cut d s =
     (case dropWhile (\<lambda>c. c \<noteq> d) s of
        [] \<Rightarrow> (s, [], False)
      | _ # r \<Rightarrow> (takeWhile (\<lambda>c. c \<noteq> d) s, r, True))"

text \<open>The first part of \<open>strings.SplitN\<close> with limit 2.\<close>

definition SplitN_first :: "string \<Rightarrow> string \<Rightarrow> string" where
  "SplitN_first s p = (case Index s p of Some i \<Rightarrow> take i s | None \<Rightarrow> s)"

text \<open>
  \<open>strings.TrimSpace\<close> strips the runes of \<open>unicode.IsSpace\<close>; here by their UTF-8 encodings. A
  byte sequence that is not valid UTF-8 decodes to U+FFFD, which is no space.
\<close>

definition unicode_spaces :: "string list" where
  "unicode_spaces =
     map (\<lambda>c. [c]) [CHR 0x09, CHR 0x0A, CHR 0x0B, CHR 0x0C, CHR 0x0D, CHR 0x20] @
     [[CHR 0xC2, CHR 0x85], [CHR 0xC2, CHR 0xA0], [CHR 0xE1, CHR 0x9A, CHR 0x80]] @
     map (\<lambda>n. [CHR 0xE2, CHR 0x80, char_of (0x80 + n)]) [0 ..< 11] @
     [[CHR 0xE2, CHR 0x80, CHR 0xA8], [CHR 0xE2, CHR 0x80, CHR 0xA9], [CHR 0xE2, CHR 0x80, CHR 0xAF],
      [CHR 0xE2, CHR 0x81, CHR 0x9F], [CHR 0xE3, CHR 0x80, CHR 0x80]]"

lemma unicode_spaces_nonempty: "[] \<notin> set unicode_spaces"
  by (auto simp: unicode_spaces_def)

text \<open>Drops the first of the given prefixes that fits, as long as one does.\<close>

function trim_left :: "string list \<Rightarrow> string \<Rightarrow> string" where
  "trim_left ps s =
     (case find (\<lambda>p. p \<noteq> [] \<and> HasPrefix s p) ps of
        None \<Rightarrow> s
      | Some p \<Rightarrow> trim_left ps (drop (length p) s))"
  by pat_completeness auto
termination
proof (relation "measure (\<lambda>(_, s). length s)", simp)
  fix ps s p
  assume "find (\<lambda>p. p \<noteq> [] \<and> HasPrefix s p) ps = Some p"
  then have "p \<noteq> [] \<and> HasPrefix s p" by (metis (mono_tags, lifting) find_Some_iff)
  then obtain r where "s = p @ r" "p \<noteq> []" by (auto simp: HasPrefix_iff)
  then show "((ps, drop (length p) s), (ps, s)) \<in> measure (\<lambda>(_, s). length s)" by simp
qed

declare trim_left.simps [simp del]

definition TrimSpace :: "string \<Rightarrow> string" where
  "TrimSpace s = rev (trim_left (map rev unicode_spaces) (rev (trim_left unicode_spaces s)))"

section \<open>Package regexp\<close>

text \<open>
  The constructs of the catalog's patterns: (negated) character classes, sequence, alternative,
  greedy star, the assertions for the beginning and end of the input and for an ASCII word boundary, and the first
  capturing group. Every starred body consumes input, so the treatment of empty iterations does not matter.
\<close>

datatype rx =
    REmpty
  | RClass bool "(char \<times> char) list"
  | RSeq rx rx
  | RAlt rx rx
  | RStar rx
  | RBegin
  | REnd
  | RWordB
  | RGroup rx

text \<open>Where a match stands: the input before it (last byte first), the input that remains, and the group.\<close>

record rx_state =
  rx_pre :: string
  rx_rest :: string
  rx_group :: "string option"

definition in_ranges :: "(char \<times> char) list \<Rightarrow> char \<Rightarrow> bool" where
  "in_ranges rs c \<longleftrightarrow> list_ex (\<lambda>(lo, hi). lo \<le> c \<and> c \<le> hi) rs"

definition word_byte :: "char \<Rightarrow> bool" where
  "word_byte c \<longleftrightarrow> is_lower c \<or> is_upper c \<or> is_digit c \<or> c = CHR ''_''"

definition head_is :: "(char \<Rightarrow> bool) \<Rightarrow> string \<Rightarrow> bool" where
  "head_is P s = (case s of c # _ \<Rightarrow> P c | [] \<Rightarrow> False)"

primrec star_runs :: "(rx_state \<Rightarrow> rx_state list) \<Rightarrow> nat \<Rightarrow> rx_state \<Rightarrow> rx_state list" where
  "star_runs f 0 st = [st]"
| "star_runs f (Suc n) st =
     concat (map (star_runs f n) (filter (\<lambda>st'. length (rx_rest st') < length (rx_rest st)) (f st))) @ [st]"

primrec rx_runs :: "rx \<Rightarrow> rx_state \<Rightarrow> rx_state list" where
  "rx_runs REmpty = (\<lambda>st. [st])"
| "rx_runs (RClass neg rs) = (\<lambda>st.
     case rx_rest st of
       [] \<Rightarrow> []
     | c # r \<Rightarrow> if in_ranges rs c \<noteq> neg then [st \<lparr> rx_pre := c # rx_pre st, rx_rest := r \<rparr>] else [])"
| "rx_runs (RSeq a b) = (\<lambda>st. concat (map (rx_runs b) (rx_runs a st)))"
| "rx_runs (RAlt a b) = (\<lambda>st. rx_runs a st @ rx_runs b st)"
| "rx_runs (RStar a) = (\<lambda>st. star_runs (rx_runs a) (length (rx_rest st)) st)"
| "rx_runs RBegin = (\<lambda>st. if rx_pre st = [] then [st] else [])"
| "rx_runs REnd = (\<lambda>st. if rx_rest st = [] then [st] else [])"
| "rx_runs RWordB = (\<lambda>st.
     if head_is word_byte (rx_pre st) \<noteq> head_is word_byte (rx_rest st) then [st] else [])"
| "rx_runs (RGroup a) = (\<lambda>st.
     map (\<lambda>st'. st' \<lparr> rx_group := Some (rev (take (length (rx_pre st') - length (rx_pre st)) (rx_pre st'))) \<rparr>)
       (rx_runs a st))"

text \<open>Leftmost search; the result pairs the state where the match begins with the one where it ends.\<close>

fun rx_search :: "rx \<Rightarrow> string \<Rightarrow> string \<Rightarrow> (rx_state \<times> rx_state) option" where
  "rx_search r pre [] =
     (let st = \<lparr> rx_pre = pre, rx_rest = [], rx_group = None \<rparr>
      in case rx_runs r st of st' # _ \<Rightarrow> Some (st, st') | [] \<Rightarrow> None)"
| "rx_search r pre (c # s) =
     (let st = \<lparr> rx_pre = pre, rx_rest = c # s, rx_group = None \<rparr>
      in case rx_runs r st of st' # _ \<Rightarrow> Some (st, st') | [] \<Rightarrow> rx_search r (c # pre) s)"

text \<open>\<open>MatchString\<close>\<close>

definition MatchString :: "rx \<Rightarrow> string \<Rightarrow> bool" where
  "MatchString r s \<longleftrightarrow> rx_search r [] s \<noteq> None"

text \<open>
  \<open>FindAllString\<close> and \<open>FindAllStringSubmatch\<close>: successive non-overlapping matches, each as its text
  and its group. A match that consumes nothing ends the scan; no catalog pattern has one.
\<close>

definition rx_text :: "rx_state \<times> rx_state \<Rightarrow> string" where
  "rx_text m = (case m of (a, b) \<Rightarrow> take (length (rx_rest a) - length (rx_rest b)) (rx_rest a))"

function rx_find_all :: "rx \<Rightarrow> string \<Rightarrow> string \<Rightarrow> (string \<times> string option) list" where
  "rx_find_all r pre s =
     (case rx_search r pre s of
        None \<Rightarrow> []
      | Some (a, b) \<Rightarrow>
          (rx_text (a, b), rx_group b) #
          (if length (rx_rest b) < length s then rx_find_all r (rx_pre b) (rx_rest b) else []))"
  by pat_completeness auto
termination
  by (relation "measure (\<lambda>(_, _, s). length s)") auto

declare rx_find_all.simps [simp del]

definition FindAllString :: "rx \<Rightarrow> string \<Rightarrow> string list" where
  "FindAllString r s = map fst (rx_find_all r [] s)"

definition FindAllGroups :: "rx \<Rightarrow> string \<Rightarrow> string list" where
  "FindAllGroups r s = List.map_filter snd (rx_find_all r [] s)"

text \<open>Building patterns.\<close>

definition rx_chars :: "string \<Rightarrow> rx" where
  "rx_chars cs = RClass False (map (\<lambda>c. (c, c)) cs)"

definition rx_opt :: "rx \<Rightarrow> rx" where
  "rx_opt r = RAlt r REmpty"

definition rx_plus :: "rx \<Rightarrow> rx" where
  "rx_plus r = RSeq r (RStar r)"

definition rx_seqs :: "rx list \<Rightarrow> rx" where
  "rx_seqs rs = foldr RSeq rs REmpty"

definition rx_lit :: "string \<Rightarrow> rx" where
  "rx_lit s = rx_seqs (map (\<lambda>c. rx_chars [c]) s)"

text \<open>
  A letter under the flag \<open>(?i)\<close>: both ASCII cases, and for \<open>k\<close> and \<open>s\<close> the runes U+212A (KELVIN SIGN)
  and U+017F (LONG S) that Unicode folds to them.
\<close>

definition kelvin :: rx where
  "kelvin = rx_lit [CHR 0xE2, CHR 0x84, CHR 0xAA]"

definition long_s :: rx where
  "long_s = rx_lit [CHR 0xC5, CHR 0xBF]"

definition rx_fold :: "char \<Rightarrow> rx" where
  "rx_fold c =
     (let u = (if is_lower c then char_of (of_char c - 32 :: nat) else c);
          both = rx_chars [c, u]
      in if c = CHR ''k'' then RAlt both kelvin else if c = CHR ''s'' then RAlt both long_s else both)"

definition rx_lit_fold :: "string \<Rightarrow> rx" where
  "rx_lit_fold s = rx_seqs (map rx_fold s)"

subsection \<open>The matcher and the matching relation\<close>

inductive rx_match :: "rx \<Rightarrow> rx_state \<Rightarrow> rx_state \<Rightarrow> bool" where
  empty: "rx_match REmpty st st"
| class_in: "rx_rest st = c # r \<Longrightarrow> in_ranges rs c \<noteq> neg \<Longrightarrow>
    rx_match (RClass neg rs) st (st \<lparr> rx_pre := c # rx_pre st, rx_rest := r \<rparr>)"
| seq: "rx_match a st st1 \<Longrightarrow> rx_match b st1 st2 \<Longrightarrow> rx_match (RSeq a b) st st2"
| alt_left: "rx_match a st st' \<Longrightarrow> rx_match (RAlt a b) st st'"
| alt_right: "rx_match b st st' \<Longrightarrow> rx_match (RAlt a b) st st'"
| star_done: "rx_match (RStar a) st st"
| star_more: "rx_match a st st1 \<Longrightarrow> length (rx_rest st1) < length (rx_rest st) \<Longrightarrow>
    rx_match (RStar a) st1 st2 \<Longrightarrow> rx_match (RStar a) st st2"
| begin_in: "rx_pre st = [] \<Longrightarrow> rx_match RBegin st st"
| end_in: "rx_rest st = [] \<Longrightarrow> rx_match REnd st st"
| boundary: "head_is word_byte (rx_pre st) \<noteq> head_is word_byte (rx_rest st) \<Longrightarrow> rx_match RWordB st st"
| group: "rx_match a st st' \<Longrightarrow> rx_match (RGroup a) st
    (st' \<lparr> rx_group := Some (rev (take (length (rx_pre st') - length (rx_pre st)) (rx_pre st'))) \<rparr>)"

inductive_simps rx_match_simps:
  "rx_match REmpty st st'" "rx_match (RClass neg rs) st st'" "rx_match (RSeq a b) st st'"
  "rx_match (RAlt a b) st st'" "rx_match RBegin st st'" "rx_match REnd st st'"
  "rx_match RWordB st st'" "rx_match (RGroup a) st st'"

inductive_cases rx_star_cases: "rx_match (RStar a) st st'"

lemma star_runs_sound:
  "(\<And>st st'. st' \<in> set (f st) \<Longrightarrow> rx_match a st st') \<Longrightarrow> st' \<in> set (star_runs f n st) \<Longrightarrow>
   rx_match (RStar a) st st'"
  by (induction n arbitrary: st st') (auto intro: star_done, blast intro: star_more)

lemma star_runs_complete:
  assumes "\<And>st st'. rx_match a st st' \<Longrightarrow> st' \<in> set (f st)"
  shows "rx_match (RStar a) st st' \<Longrightarrow> length (rx_rest st) \<le> n \<Longrightarrow> st' \<in> set (star_runs f n st)"
proof (induction n arbitrary: st)
  case 0
  then show ?case by (auto elim: rx_star_cases)
next
  case (Suc n)
  have "st' = st \<or> (\<exists>st1. rx_match a st st1 \<and> length (rx_rest st1) < length (rx_rest st) \<and>
      rx_match (RStar a) st1 st')"
    using Suc.prems(1) by (auto elim: rx_star_cases)
  moreover have "st' \<in> set (star_runs f n st1)"
    if "length (rx_rest st1) < length (rx_rest st)" "rx_match (RStar a) st1 st'" for st1
    using that Suc by simp
  ultimately show ?case using assms by auto
qed

lemma rx_runs_iff: "st' \<in> set (rx_runs r st) \<longleftrightarrow> rx_match r st st'"
proof (induction r arbitrary: st st')
  case (RStar r)
  have "rx_match (RStar r) st st'" if "st' \<in> set (star_runs (rx_runs r) (length (rx_rest st)) st)"
    using star_runs_sound [OF _ that] RStar.IH by blast
  moreover have "st' \<in> set (star_runs (rx_runs r) (length (rx_rest st)) st)" if "rx_match (RStar r) st st'"
    using star_runs_complete [OF _ that] RStar.IH by blast
  ultimately show ?case by auto
next
  case (RClass neg rs)
  show ?case by (cases "rx_rest st") (auto simp: rx_match_simps)
qed (auto simp: rx_match_simps split: list.splits)

text \<open>A search fails exactly when no position of the input starts a match.\<close>

lemma rx_search_None:
  "rx_search r pre s = None \<longleftrightarrow>
   (\<forall>i \<le> length s. \<nexists>st'. rx_match r \<lparr> rx_pre = rev (take i s) @ pre, rx_rest = drop i s, rx_group = None \<rparr> st')"
proof (induction r pre s rule: rx_search.induct)
  case (1 r pre)
  show ?case
    by (auto simp: Let_def rx_runs_iff [symmetric] split: list.splits)
next
  case (2 r pre c s)
  let ?st = "\<lparr> rx_pre = pre, rx_rest = c # s, rx_group = None \<rparr>"
  have split: "(\<forall>i \<le> length (c # s). P i) \<longleftrightarrow> P 0 \<and> (\<forall>i \<le> length s. P (Suc i))" for P
    by (metis length_Cons Suc_le_mono le0 not0_implies_Suc)
  have runs: "rx_runs r ?st = [] \<longleftrightarrow> (\<nexists>st'. rx_match r ?st st')"
    using rx_runs_iff [of _ r ?st] by (metis list.set_intros(1) neq_Nil_conv empty_iff empty_set)
  show ?case
  proof (cases "rx_runs r ?st")
    case Nil
    then show ?thesis
      unfolding split using 2 runs by (simp add: Let_def)
  next
    case (Cons st' sts)
    then show ?thesis
      unfolding split using runs by (simp add: Let_def)
  qed
qed

end
