(* ===== verification/Image_Policy.thy ===== *)
theory Image_Policy
  imports Go_Strings Runner_Contract
begin

text \<open>
  The workload image policy of the problem catalog
  (\<open>src/backend/internal/problem/loader.go\<close>): the lock file \<open>images.lock\<close> is parsed into a set of
  digest-pinned references, and every file of a problem is reviewed against it line by line with
  regular expressions and once more as a whole for mentions of a locked alias.

  The lemmas show that a parsed policy is well formed (names and references are unique, every
  reference ends in a content identifier), that the alias scan stops, and what an accepted file
  cannot contain.
\<close>

section \<open>Content identifiers\<close>

text \<open>
  \<open>strings.ToLower\<close> on ASCII text. A value with other bytes is refused by \<open>hex.DecodeString\<close> whatever the
  comparison says.
\<close>

definition ascii_lower :: "string \<Rightarrow> string" where
  "ascii_lower s = map (\<lambda>c. if is_upper c then char_of (of_char c + 32 :: nat) else c) s"

definition hex_decodable :: "string \<Rightarrow> bool" where
  "hex_decodable s \<longleftrightarrow> even (length s) \<and> list_all is_hex s"

definition validImageContentID :: "string \<Rightarrow> bool" where
  "validImageContentID value \<longleftrightarrow>
     HasPrefix value ''sha256:'' \<and> length value = 7 + 32 * 2 \<and>
     value = ascii_lower value \<and> hex_decodable (drop 7 value)"

definition validPinnedImageReference :: "string \<Rightarrow> bool" where
  "validPinnedImageReference ref =
     (case LastIndex ref ''@sha256:'' of
        None \<Rightarrow> False
      | Some index \<Rightarrow> index > 0 \<and> validImageContentID (drop (index + 1) ref))"

lemma ascii_lower_char: "(if is_upper c then char_of (of_char c + 32 :: nat) else c) = c \<longleftrightarrow> \<not> is_upper c"
proof -
  have "char_of (of_char c + 32 :: nat) \<noteq> c" if "is_upper c"
  proof
    assume eq: "char_of (of_char c + 32 :: nat) = c"
    have "(of_char c :: nat) \<le> 90" using that by (simp add: is_upper_def less_eq_char_def)
    then have "of_char (char_of (of_char c + 32 :: nat)) = (of_char c + 32 :: nat)" by simp
    then show False using eq by simp
  qed
  then show ?thesis by simp
qed

lemma ascii_lower_id: "s = ascii_lower s \<longleftrightarrow> list_all (\<lambda>c. \<not> is_upper c) s"
proof -
  have "ascii_lower s = s \<longleftrightarrow> list_all (\<lambda>c. (if is_upper c then char_of (of_char c + 32 :: nat) else c) = c) s"
    unfolding ascii_lower_def by (induction s) simp_all
  then show ?thesis unfolding ascii_lower_char by auto
qed

lemma hex_not_upper: "is_hex c \<and> \<not> is_upper c \<longleftrightarrow> is_lower_hex c"
  by (auto simp: is_hex_def is_upper_def is_lower_hex_def is_digit_def less_eq_char_def)

text \<open>The check accepts exactly \<open>sha256:\<close> and 64 lower-case hexadecimal digits.\<close>

lemma validImageContentID_iff: "validImageContentID s \<longleftrightarrow> sha256ContentIDPattern s"
proof (cases "HasPrefix s ''sha256:''")
  case True
  then obtain r where s: "s = ''sha256:'' @ r" by (auto simp: HasPrefix_iff)
  have prefix: "list_all (\<lambda>c. \<not> is_upper c) ''sha256:''"
    by (simp add: is_upper_def less_eq_char_def)
  have "list_all (\<lambda>c. \<not> is_upper c) r \<and> list_all is_hex r \<longleftrightarrow> list_all is_lower_hex r"
    unfolding hex_not_upper [symmetric] by (auto simp: list_all_iff)
  then show ?thesis
    unfolding validImageContentID_def sha256ContentIDPattern_def ascii_lower_id hex_decodable_def s
      list_all_append
    using prefix by (auto simp: HasPrefix_def)
qed (auto simp: validImageContentID_def sha256ContentIDPattern_def HasPrefix_def eval_nat_numeral)

lemma pinned_reference:
  assumes "validPinnedImageReference ref"
  obtains name digest where "ref = name @ ''@sha256:'' @ digest" and "name \<noteq> []"
    and "length digest = 64" and "list_all is_lower_hex digest"
proof -
  from assms obtain i where i: "LastIndex ref ''@sha256:'' = Some i" "0 < i"
    and v: "sha256ContentIDPattern (drop (i + 1) ref)"
    by (auto simp: validPinnedImageReference_def validImageContentID_iff split: option.splits)
  from LastIndex_Some [OF i(1)] obtain r where r: "drop i ref = ''@sha256:'' @ r" and le: "i \<le> length ref"
    by (auto simp: HasPrefix_iff)
  have "drop (i + 1) ref = drop 1 (drop i ref)" by (simp add: add.commute)
  also have "\<dots> = ''sha256:'' @ r" by (simp add: r)
  finally have d: "drop (i + 1) ref = ''sha256:'' @ r" .
  have "ref = take i ref @ ''@sha256:'' @ r" using r by (metis append_take_drop_id)
  moreover have "take i ref \<noteq> []" using i(2) le by auto
  moreover have "length r = 64" "list_all is_lower_hex r"
    using v unfolding d sha256ContentIDPattern_def by simp_all
  ultimately show thesis by (rule that)
qed

section \<open>images.lock\<close>

record approvedImagePolicy =
  refs :: "string list"
  aliases :: "(string \<times> string) list"

datatype policy_error =
    LockMalformed nat
  | LockNotPinned nat string
  | LockDuplicateName nat string
  | LockDuplicateImage nat string
  | LockEmpty
  | UnsupportedImageOp string nat
  | ImageNotLocked string nat string
  | DigestNotApproved string nat string
  | MutableAlias string string

fun parse_lock_lines ::
  "nat \<Rightarrow> string list \<Rightarrow> approvedImagePolicy \<Rightarrow> policy_error + approvedImagePolicy" where
  "parse_lock_lines index [] policy = Inr policy"
| "parse_lock_lines index (l # ls) policy =
     (let line = TrimSpace l in
      if line = [] \<or> HasPrefix line ''#'' then parse_lock_lines (Suc index) ls policy
      else
        (case Cut (CHR ''='') line of (before, after, ok) \<Rightarrow>
          (let name = TrimSpace before; ref = TrimSpace after in
           if \<not> ok \<or> name = [] \<or> ref = [] \<or> list_ex (\<lambda>c. c = CHR '' '' \<or> c = CHR 0x09) name
             then Inl (LockMalformed (Suc index))
           else if \<not> validPinnedImageReference ref then Inl (LockNotPinned (Suc index) ref)
           else if map_of (aliases policy) name \<noteq> None then Inl (LockDuplicateName (Suc index) name)
           else if ref \<in> set (refs policy) then Inl (LockDuplicateImage (Suc index) ref)
           else parse_lock_lines (Suc index) ls
             (policy \<lparr> aliases := aliases policy @ [(name, ref)], refs := refs policy @ [ref] \<rparr>))))"

definition parseApprovedImagePolicy :: "string \<Rightarrow> policy_error + approvedImagePolicy" where
  "parseApprovedImagePolicy data =
     (case parse_lock_lines 0 (Split (CHR 0x0A) data) \<lparr> refs = [], aliases = [] \<rparr> of
        Inl e \<Rightarrow> Inl e
      | Inr policy \<Rightarrow> if refs policy = [] then Inl LockEmpty else Inr policy)"

definition policy_wf :: "approvedImagePolicy \<Rightarrow> bool" where
  "policy_wf p \<longleftrightarrow>
     refs p = map snd (aliases p) \<and> distinct (refs p) \<and> distinct (map fst (aliases p)) \<and>
     list_all validPinnedImageReference (refs p)"

lemma policy_wf_insert:
  "policy_wf p \<Longrightarrow> map_of (aliases p) name = None \<Longrightarrow> ref \<notin> set (refs p) \<Longrightarrow> validPinnedImageReference ref \<Longrightarrow>
   policy_wf (p \<lparr> aliases := aliases p @ [(name, ref)], refs := refs p @ [ref] \<rparr>)"
  by (auto simp: policy_wf_def map_of_eq_None_iff)

lemma parse_lock_lines_wf:
  "parse_lock_lines i ls p = Inr q \<Longrightarrow> policy_wf p \<Longrightarrow> policy_wf q"
  by (induction i ls p arbitrary: q rule: parse_lock_lines.induct)
    (auto simp: Let_def policy_wf_insert split: if_splits prod.splits)

lemma parse_policy_wf: "parseApprovedImagePolicy data = Inr p \<Longrightarrow> policy_wf p \<and> refs p \<noteq> []"
  by (auto simp: parseApprovedImagePolicy_def policy_wf_def split: sum.splits if_splits
      dest!: parse_lock_lines_wf)

section \<open>The patterns of the review\<close>

definition blank_rx :: rx where
  "blank_rx = rx_chars [CHR 0x09, CHR '' '']"

definition quote_rx :: rx where
  "quote_rx = rx_chars [CHR 0x22, CHR 0x27]"

definition alnum :: "(char \<times> char) list" where
  "alnum = [(CHR ''A'', CHR ''Z''), (CHR ''a'', CHR ''z''), (CHR ''0'', CHR ''9'')]"

definition image_ref_rx :: rx where
  "image_ref_rx = RGroup (RSeq (RClass False alnum)
     (RStar (RClass False (alnum @ map (\<lambda>c. (c, c)) ''._/:+@-''))))"

definition space_rx :: rx where
  "space_rx = rx_chars [CHR 0x09, CHR 0x0A, CHR 0x0C, CHR 0x0D, CHR '' '']"

definition posix_spaces :: string where
  "posix_spaces = [CHR 0x09, CHR 0x0A, CHR 0x0B, CHR 0x0C, CHR 0x0D, CHR '' '']"

definition shell_start_rx :: rx where
  "shell_start_rx = RAlt RBegin (rx_chars ('';&|'' @ posix_spaces))"

definition shell_end_rx :: rx where
  "shell_end_rx = RAlt (rx_chars posix_spaces) REnd"

definition dynamic_rx :: rx where
  "dynamic_rx = rx_chars [CHR ''$'', CHR 0x60]"

definition workloadImagePatterns :: "rx list" where
  "workloadImagePatterns =
    [rx_seqs [RBegin, RStar blank_rx, rx_lit ''image:'', RStar blank_rx, rx_opt quote_rx, image_ref_rx],
     rx_seqs [RAlt RBegin blank_rx, rx_lit ''--image'', RAlt (rx_lit ''='') (rx_plus blank_rx),
       rx_opt quote_rx, image_ref_rx],
     rx_seqs [quote_rx, rx_lit ''image'', quote_rx, RStar blank_rx, rx_lit '':'', RStar blank_rx, quote_rx,
       RGroup (rx_plus (RClass True [(CHR 0x22, CHR 0x22), (CHR 0x27, CHR 0x27)])), quote_rx],
     rx_seqs [RBegin, RStar blank_rx,
       RClass False [(CHR ''A'', CHR ''Z''), (CHR ''a'', CHR ''z''), (CHR ''_'', CHR ''_'')],
       RStar (RClass False (alnum @ [(CHR ''_'', CHR ''_'')])), rx_lit ''IMAGE'',
       RStar (RClass False (alnum @ [(CHR ''_'', CHR ''_'')])), rx_lit ''='', rx_opt quote_rx, image_ref_rx]]"

definition imageDigestReference :: rx where
  "imageDigestReference =
     rx_seqs [RClass False alnum, RStar (RClass False (alnum @ map (\<lambda>c. (c, c)) ''._/:+-'')),
       rx_lit ''@sha256:'',
       rx_plus (RClass False [(CHR ''0'', CHR ''9''), (CHR ''A'', CHR ''F''), (CHR ''a'', CHR ''f'')])]"

text \<open>Letters of a class under \<open>(?i)\<close>.\<close>

definition letters_fold :: "(char \<times> char) list \<Rightarrow> rx" where
  "letters_fold rs = RAlt (RClass False ([(CHR ''A'', CHR ''Z''), (CHR ''a'', CHR ''z'')] @ rs)) (RAlt kelvin long_s)"

definition unsupportedImageOps :: "rx list" where
  "unsupportedImageOps =
    [rx_seqs [RWordB, rx_lit_fold ''kubectl'', rx_plus space_rx, rx_lit_fold ''set'', rx_plus space_rx,
       rx_lit_fold ''image'', RWordB],
     rx_seqs [shell_start_rx, rx_lit_fold ''helm'', shell_end_rx],
     rx_seqs [shell_start_rx, rx_lit_fold ''kustomize'', shell_end_rx],
     rx_seqs [RWordB, rx_lit_fold ''kubectl'', rx_plus space_rx,
       RAlt (rx_lit_fold ''apply'') (RAlt (rx_lit_fold ''create'') (rx_lit_fold ''replace'')), RWordB,
       RStar (RClass True [(CHR 0x0A, CHR 0x0A)]), space_rx, rx_lit_fold ''-f'',
       rx_plus (rx_chars (''='' @ posix_spaces)),
       RAlt (rx_seqs [rx_lit_fold ''http'', rx_opt (rx_lit_fold ''s''), rx_lit ''://'']) dynamic_rx],
     rx_seqs [RBegin, RStar blank_rx, rx_lit_fold ''image'', rx_lit '':'', RStar blank_rx, rx_opt quote_rx, dynamic_rx],
     rx_seqs [rx_lit ''--'', rx_lit_fold ''image'', RAlt (rx_lit ''='') (rx_plus blank_rx), rx_opt quote_rx, dynamic_rx],
     rx_seqs [quote_rx, rx_lit_fold ''image'', quote_rx, RStar blank_rx, rx_lit '':'', RStar blank_rx,
       rx_opt quote_rx, dynamic_rx],
     rx_seqs [RBegin, RStar blank_rx, letters_fold [(CHR ''_'', CHR ''_'')],
       RStar (letters_fold [(CHR ''0'', CHR ''9''), (CHR ''_'', CHR ''_'')]), rx_lit_fold ''image'',
       RStar (letters_fold [(CHR ''0'', CHR ''9''), (CHR ''_'', CHR ''_'')]), rx_lit ''='', rx_opt quote_rx, dynamic_rx]]"

section \<open>The review\<close>

text \<open>A loop with an early error return.\<close>

fun first_error :: "('a \<Rightarrow> 'e option) \<Rightarrow> 'a list \<Rightarrow> 'e option" where
  "first_error f [] = None"
| "first_error f (x # xs) = (case f x of Some e \<Rightarrow> Some e | None \<Rightarrow> first_error f xs)"

lemma first_error_None: "first_error f xs = None \<longleftrightarrow> (\<forall>x \<in> set xs. f x = None)"
  by (induction xs) (auto split: option.splits)

definition problem_file_names :: "string list" where
  "problem_file_names = [''problem.yaml'', ''setup.sh'', ''verify.sh'', ''hint.md'']"

text \<open>
  A problem's files by name; a nil slice and a missing key are the same to every reader of the map.
  \<open>file_text\<close> is \<open>string(files[name])\<close>.
\<close>

type_synonym problem_files = "string \<Rightarrow> string option"

definition file_text :: "problem_files \<Rightarrow> string \<Rightarrow> string" where
  "file_text files name = (case files name of Some d \<Rightarrow> d | None \<Rightarrow> [])"

definition review_line :: "approvedImagePolicy \<Rightarrow> string \<Rightarrow> nat \<times> string \<Rightarrow> policy_error option" where
  "review_line policy name il =
     (case il of (index, line) \<Rightarrow>
        (let trimmed = TrimSpace line in
         if trimmed = [] \<or> HasPrefix trimmed ''#'' then None
         else if (name = ''setup.sh'' \<or> name = ''verify.sh'') \<and>
             list_ex (\<lambda>pattern. MatchString pattern line) unsupportedImageOps
           then Some (UnsupportedImageOp name (Suc index))
         else
           (case find (\<lambda>ref. ref \<notin> set (refs policy))
               (concat (map (\<lambda>pattern. map TrimSpace (FindAllGroups pattern line)) workloadImagePatterns)) of
              Some ref \<Rightarrow> Some (ImageNotLocked name (Suc index) ref)
            | None \<Rightarrow>
                (case find (\<lambda>ref. ref \<notin> set (refs policy)) (FindAllString imageDigestReference line) of
                   Some ref \<Rightarrow> Some (DigestNotApproved name (Suc index) ref)
                 | None \<Rightarrow> None))))"

text \<open>
  The scan for one locked alias. The loop is entered only with an alias that contains a colon, and
  \<open>approved\<close> begins with it, so the empty case is never reached.
\<close>

function alias_scan :: "string \<Rightarrow> string \<Rightarrow> string \<Rightarrow> bool" where
  "alias_scan tagged approved remaining =
     (case Index remaining tagged of
        None \<Rightarrow> True
      | Some position \<Rightarrow>
          (let suffix = drop position remaining in
           if \<not> HasPrefix suffix approved \<or> approved = [] then False
           else alias_scan tagged approved (drop (length approved) suffix)))"
  by pat_completeness auto
termination
proof (relation "measure (\<lambda>(_, _, r). length r)", simp)
  fix tagged approved remaining :: string and position suffix
  assume "suffix = drop position remaining" "\<not> (\<not> HasPrefix suffix approved \<or> approved = [])"
  then have "0 < length approved" "length approved \<le> length remaining - position"
    by (auto simp: HasPrefix_iff dest: arg_cong [where f = length])
  then show "((tagged, approved, drop (length approved) suffix), tagged, approved, remaining) \<in>
      measure (\<lambda>(_, _, r). length r)"
    using \<open>suffix = _\<close> by (simp del: length_greater_0_conv)
qed

declare alias_scan.simps [simp del]

definition alias_of :: "string \<Rightarrow> string" where
  "alias_of approved = SplitN_first approved ''@sha256:''"

definition review_alias :: "string \<Rightarrow> string \<Rightarrow> string \<Rightarrow> policy_error option" where
  "review_alias name contents approved =
     (let tagged = alias_of approved in
      if \<not> Contains tagged '':'' then None
      else if alias_scan tagged approved contents then None
      else Some (MutableAlias name tagged))"

definition review_file :: "problem_files \<Rightarrow> approvedImagePolicy \<Rightarrow> string \<Rightarrow> policy_error option" where
  "review_file files policy name =
     (let contents = file_text files name in
      case first_error (review_line policy name) (List.enumerate 0 (Split (CHR 0x0A) contents)) of
        Some e \<Rightarrow> Some e
      | None \<Rightarrow> first_error (review_alias name contents) (map snd (aliases policy)))"

definition validateApprovedImagePolicy :: "problem_files \<Rightarrow> approvedImagePolicy \<Rightarrow> policy_error option" where
  "validateApprovedImagePolicy files policy = first_error (review_file files policy) problem_file_names"

subsection \<open>What an accepted file cannot contain\<close>

text \<open>Position \<open>i\<close> of the text lies inside an occurrence of the word \<open>w\<close>.\<close>

definition covered :: "string \<Rightarrow> string \<Rightarrow> nat \<Rightarrow> bool" where
  "covered w s i \<longleftrightarrow> (\<exists>p \<le> i. i < p + length w \<and> HasPrefix (drop p s) w)"

lemma covered_drop: "covered w (drop k s) i \<Longrightarrow> covered w s (k + i)"
proof -
  assume "covered w (drop k s) i"
  then obtain p where "p \<le> i" "i < p + length w" "HasPrefix (drop p (drop k s)) w"
    by (auto simp: covered_def)
  then show ?thesis
    unfolding covered_def by (intro exI [of _ "k + p"]) (simp add: add.commute)
qed

lemma Index_first: "Index s p = Some i \<Longrightarrow> HasPrefix (drop j s) p \<Longrightarrow> p \<noteq> [] \<Longrightarrow> i \<le> j"
proof (induction s p arbitrary: i j rule: Index.induct)
  case (2 c s p)
  then show ?case by (cases j) (auto split: if_splits)
qed (auto split: if_splits)

lemma Index_None_prefix: "Index s p = None \<Longrightarrow> \<not> HasPrefix (drop j s) p"
  by (metis HasPrefix_iff Index_None append_take_drop_id)

lemma alias_scan_covered:
  assumes "alias_scan tagged approved s" and "tagged \<noteq> []" and "HasPrefix (drop j s) tagged"
  shows "covered approved s j"
  using assms
proof (induction tagged approved s arbitrary: j rule: alias_scan.induct)
  case (1 tagged approved s)
  from "1.prems"(3) obtain i where i: "Index s tagged = Some i"
    using Index_None_prefix by blast
  have le: "i \<le> j" using Index_first [OF i "1.prems"(3,2)] .
  let ?k = "i + length approved"
  from "1.prems"(1) i have pre: "HasPrefix (drop i s) approved" "approved \<noteq> []"
    and rest: "alias_scan tagged approved (drop (length approved) (drop i s))"
    by (subst (asm) alias_scan.simps, simp add: Let_def split: if_splits)+
  show ?case
  proof (cases "j < ?k")
    case True
    then show ?thesis using le pre(1) unfolding covered_def by blast
  next
    case False
    then have "HasPrefix (drop (j - ?k) (drop (length approved) (drop i s))) tagged"
      using "1.prems"(3) by (simp add: add.commute)
    then have "covered approved (drop (length approved) (drop i s)) (j - ?k)"
      using "1.IH" i pre rest "1.prems"(2) by simp
    then have "covered approved (drop ?k s) (j - ?k)" by (simp add: add.commute)
    then show ?thesis using covered_drop [of approved ?k s "j - ?k"] False by simp
  qed
qed

lemma validate_files_None:
  "validateApprovedImagePolicy files policy = None \<Longrightarrow> name \<in> set problem_file_names \<Longrightarrow>
   (\<forall>il \<in> set (List.enumerate 0 (Split (CHR 0x0A) (file_text files name))). review_line policy name il = None) \<and>
   (\<forall>a \<in> set (aliases policy). review_alias name (file_text files name) (snd a) = None)"
  by (auto simp: validateApprovedImagePolicy_def first_error_None review_file_def Let_def split: option.splits)


definition demo_image :: string where
  "demo_image = ''a:1@sha256:'' @ replicate 64 (CHR ''0'')"

definition demo_lock :: string where
  "demo_lock = ''web='' @ demo_image"

definition demo_files :: problem_files where
  "demo_files = [''hint.md'' \<mapsto> ''#'' @ demo_image]"

lemma demo_policy:
  "parseApprovedImagePolicy demo_lock = Inr \<lparr> refs = [demo_image], aliases = [(''web'', demo_image)] \<rparr>"
  by code_simp

lemma demo_review:
  "validateApprovedImagePolicy demo_files \<lparr> refs = [demo_image], aliases = [(''web'', demo_image)] \<rparr> = None"
  by code_simp

lemma demo_mention:
  "Contains (alias_of demo_image) '':''" "HasPrefix (drop 1 (file_text demo_files ''hint.md'')) (alias_of demo_image)"
  by code_simp+


end
