(* ===== verification/Problem_Model.thy ===== *)
theory Problem_Model
  imports Image_Policy
begin

text \<open>
  Problems as the catalog handles them (\<open>src/backend/pkg/models/models.go\<close>,
  \<open>src/backend/internal/problem/handler.go\<close>, \<open>src/backend/internal/problem/loader.go\<close>): the record
  \<open>models.Problem\<close>, its manifest \<open>models.ProblemYAML\<close>, the validation of both, and the runtime
  bundle derived from a problem's files.

  A Go \<open>int\<close> is a 64-bit word read as a signed number. A slice of choices is an option, because
  \<open>reflect.DeepEqual\<close> tells a nil slice from an empty one.
\<close>

section \<open>Data\<close>

record choice =
  ChID :: string
  ChText :: string

record problem =
  PbID :: string
  PbRevision :: string
  PbCatalogActive :: bool
  PbTitle :: string
  PbDescription :: string
  PbCategory :: string
  PbDifficulty :: string
  PbType :: string
  PbTimeoutMinutes :: u64
  PbVerifyType :: string
  PbBaseImage :: string
  PbImage :: string
  PbChoices :: "choice list option"
  PbCorrectChoice :: string
  PbHint :: string
  PbGradingPrompt :: string
  PbCreatedAt :: time
  PbUpdatedAt :: time

record problem_yaml =
  PyID :: string
  PyTitle :: string
  PyDescription :: string
  PyCategory :: string
  PyDifficulty :: string
  PyType :: string
  PyTimeoutMinutes :: u64
  PyVerifyType :: string
  PyBaseImage :: string
  PyImage :: string
  PyChoices :: "choice list option"
  PyCorrectChoice :: string
  PyGradingPrompt :: string

record runtime_bundle =
  RbProblem :: problem
  RbSetupScript :: string
  RbVerifyScript :: string
  RbRevision :: string
  RbRuntimeImage :: string
  RbSourceTrust :: string

definition BundleSourceDevelopmentCheckout :: string where
  "BundleSourceDevelopmentCheckout = ''development_checkout''"

definition DefaultBaseImage :: string where
  "DefaultBaseImage = ''k3s-base:latest''"

definition EffectiveImage :: "problem \<Rightarrow> string" where
  "EffectiveImage p =
     (if PbImage p \<noteq> [] then PbImage p
      else if PbBaseImage p \<noteq> [] then PbBaseImage p
      else DefaultBaseImage)"

text \<open>The elements of a slice, and the copy \<open>append([]T(nil), xs...)\<close>, which is nil when there are none.\<close>

definition elems :: "'a list option \<Rightarrow> 'a list" where
  "elems xs = (case xs of None \<Rightarrow> [] | Some ys \<Rightarrow> ys)"

definition copy_slice :: "'a list option \<Rightarrow> 'a list option" where
  "copy_slice xs = (if elems xs = [] then None else Some (elems xs))"

definition cloneProblem :: "problem \<Rightarrow> problem" where
  "cloneProblem p = p \<lparr> PbChoices := copy_slice (PbChoices p) \<rparr>"

definition cloneRuntimeBundle :: "runtime_bundle \<Rightarrow> runtime_bundle" where
  "cloneRuntimeBundle b = b \<lparr> RbProblem := cloneProblem (RbProblem b) \<rparr>"

lemma elems_simps [simp]: "elems None = []" "elems (Some xs) = xs" "elems (copy_slice c) = elems c"
  by (simp_all add: elems_def copy_slice_def)

lemma copy_slice_idem [simp]: "copy_slice (copy_slice c) = copy_slice c"
  by (simp add: copy_slice_def)

lemma cloneProblem_idem [simp]: "cloneProblem (cloneProblem p) = cloneProblem p"
  by (simp add: cloneProblem_def)

lemma cloneProblem_fields [simp]:
  "PbID (cloneProblem p) = PbID p" "PbRevision (cloneProblem p) = PbRevision p"
  "PbChoices (cloneProblem p) = copy_slice (PbChoices p)" "PbVerifyType (cloneProblem p) = PbVerifyType p"
  by (simp_all add: cloneProblem_def)

lemma cloneRuntimeBundle_idem [simp]: "cloneRuntimeBundle (cloneRuntimeBundle b) = cloneRuntimeBundle b"
  by (simp add: cloneRuntimeBundle_def)

section \<open>Validation\<close>

definition id_byte :: "char \<Rightarrow> bool" where
  "id_byte c \<longleftrightarrow> is_lower c \<or> is_digit c"

text \<open>The pattern \<open>^[a-z0-9]([a-z0-9-]{0,61}[a-z0-9])?$\<close>\<close>

definition validProblemID :: "string \<Rightarrow> bool" where
  "validProblemID s \<longleftrightarrow>
     s \<noteq> [] \<and> length s \<le> 63 \<and> id_byte (hd s) \<and> id_byte (last s) \<and>
     list_all (\<lambda>c. id_byte c \<or> c = CHR ''-'') s"

definition validCategory :: "string list" where
  "validCategory = [''pod'', ''network'', ''storage'', ''rbac'', ''scheduling'', ''config'']"

definition validDifficulty :: "string list" where
  "validDifficulty = [''easy'', ''medium'', ''hard'']"

definition validType :: "string list" where
  "validType = [''fix'', ''find'', ''deploy'']"

definition validVerify :: "string list" where
  "validVerify = [''script'', ''choice'', ''text'']"

text \<open>The message of the first defect; the empty message means valid.\<close>

definition validateProblem :: "problem \<Rightarrow> string" where
  "validateProblem p =
     (if \<not> validProblemID (PbID p) then ''invalid problem id (use lowercase letters, digits, hyphen)''
      else if PbCategory p \<noteq> [] \<and> PbCategory p \<notin> set validCategory then ''invalid category''
      else if PbDifficulty p \<noteq> [] \<and> PbDifficulty p \<notin> set validDifficulty then ''invalid difficulty''
      else if PbType p \<noteq> [] \<and> PbType p \<notin> set validType then ''invalid type''
      else if PbVerifyType p \<noteq> [] \<and> PbVerifyType p \<notin> set validVerify then ''invalid verify_type''
      else [])"

definition validateLoadedProblem :: "problem \<Rightarrow> string" where
  "validateLoadedProblem p =
     (let msg = validateProblem p in
      if msg \<noteq> [] then msg
      else if PbVerifyType p = ''choice'' then
        (if length (elems (PbChoices p)) < 2 then ''choice problem needs at least 2 choices''
         else if \<not> list_ex (\<lambda>ch. ChID ch = PbCorrectChoice p) (elems (PbChoices p))
           then ''correct_choice must reference one of the choices''
         else [])
      else [])"

lemma validateProblem_Nil:
  "validateProblem p = [] \<longleftrightarrow> validProblemID (PbID p) \<and>
     (PbCategory p = [] \<or> PbCategory p \<in> set validCategory) \<and>
     (PbDifficulty p = [] \<or> PbDifficulty p \<in> set validDifficulty) \<and>
     (PbType p = [] \<or> PbType p \<in> set validType) \<and>
     (PbVerifyType p = [] \<or> PbVerifyType p \<in> set validVerify)"
  by (simp add: validateProblem_def)

lemma validateLoadedProblem_Nil:
  "validateLoadedProblem p = [] \<longleftrightarrow> validateProblem p = [] \<and>
     (PbVerifyType p = ''choice'' \<longrightarrow>
       2 \<le> length (elems (PbChoices p)) \<and> list_ex (\<lambda>ch. ChID ch = PbCorrectChoice p) (elems (PbChoices p)))"
  by (simp add: validateLoadedProblem_def Let_def not_less)

text \<open>The validated enumerations are short.\<close>

lemma valid_name_lengths:
  "s = [] \<or> s \<in> set validCategory \<Longrightarrow> length s \<le> 10"
  "s = [] \<or> s \<in> set validDifficulty \<Longrightarrow> length s \<le> 6"
  "s = [] \<or> s \<in> set validType \<Longrightarrow> length s \<le> 6"
  "s = [] \<or> s \<in> set validVerify \<Longrightarrow> length s \<le> 6"
  by (auto simp: validCategory_def validDifficulty_def validType_def validVerify_def)

lemma valid_names_short:
  assumes "validateProblem p = []"
  shows "length (PbID p) \<le> 63" "length (PbCategory p) \<le> 10" "length (PbDifficulty p) \<le> 6"
    "length (PbType p) \<le> 6" "length (PbVerifyType p) \<le> 6"
  using assms unfolding validateProblem_Nil validProblemID_def by (simp_all only: valid_name_lengths)

section \<open>From a manifest to a problem\<close>

text \<open>
  The projection both \<open>buildRuntimeBundle\<close> and \<open>validateCapturedRuntimeArtifact\<close> derive from the parsed
  manifest and the hint, with the defaults applied. They differ in the slice of choices: the first keeps the
  parsed one, the second copies it.
\<close>

definition problem_of_yaml :: "problem_yaml \<Rightarrow> choice list option \<Rightarrow> string \<Rightarrow> problem" where
  "problem_of_yaml py choices hint =
     \<lparr> PbID = PyID py, PbRevision = [], PbCatalogActive = False, PbTitle = PyTitle py,
       PbDescription = PyDescription py, PbCategory = PyCategory py, PbDifficulty = PyDifficulty py,
       PbType = PyType py,
       PbTimeoutMinutes = (if PyTimeoutMinutes py = 0 then 30 else PyTimeoutMinutes py),
       PbVerifyType = PyVerifyType py,
       PbBaseImage = (if PyBaseImage py = [] \<and> PyImage py = [] then DefaultBaseImage else PyBaseImage py),
       PbImage = PyImage py, PbChoices = choices, PbCorrectChoice = PyCorrectChoice py, PbHint = hint,
       PbGradingPrompt = PyGradingPrompt py, PbCreatedAt = zero_time, PbUpdatedAt = zero_time \<rparr>"

end
