(* ===== verification/Byte_Codec.thy ===== *)
theory Byte_Codec
  imports Go_Strings
begin

text \<open>
  Byte streams as the catalog writes and reads them: big-endian integers
  (\<open>encoding/binary.BigEndian\<close>), \<open>io.ReadFull\<close> on a \<open>bytes.Reader\<close> (the state of a reader is the
  unread rest), and length-prefixed strings. A \<open>[]byte\<close> is a byte string like a Go \<open>string\<close>.

  The locale \<open>codec\<close> is the contract between a writer and a reader: what was written is read back and
  nothing else is accepted. A client of the contract knows that the format is self-delimiting: from
  a stream the value and the rest are determined. The integers, the strings and, in the theories of the
  formats, the records are interpretations of it.
\<close>

section \<open>Big-endian integers\<close>

fun be_put :: "nat \<Rightarrow> nat \<Rightarrow> string" where
  "be_put 0 n = []"
| "be_put (Suc k) n = be_put k (n div 256) @ [char_of (n mod 256)]"

definition be_get :: "string \<Rightarrow> nat" where
  "be_get s = foldl (\<lambda>a c. 256 * a + of_char c) 0 s"

lemma length_be_put [simp]: "length (be_put k n) = k"
  by (induction k arbitrary: n) simp_all

lemma be_get_snoc [simp]: "be_get (s @ [c]) = 256 * be_get s + of_char c"
  by (simp add: be_get_def)

lemma be_get_Nil [simp]: "be_get [] = 0"
  by (simp add: be_get_def)

lemma be_get_put: "n < 256 ^ k \<Longrightarrow> be_get (be_put k n) = n"
proof (induction k arbitrary: n)
  case (Suc k)
  from Suc.prems have "n div 256 < 256 ^ k" by (simp add: less_mult_imp_div_less mult.commute)
  then show ?case using Suc.IH by simp
qed simp

lemma be_put_get: "be_put (length s) (be_get s) = s"
  by (induction s rule: rev_induct) (simp_all add: of_char_lt_256)

lemma be_get_less: "be_get s < 256 ^ length s"
proof (induction s rule: rev_induct)
  case (snoc c s)
  have "256 * be_get s + of_char c < 256 * (be_get s + 1)" using of_char_lt_256 [of c] by simp
  also have "\<dots> \<le> 256 * 256 ^ length s" using snoc by (intro mult_le_mono2) simp
  finally show ?case by simp
qed simp

section \<open>Readers\<close>

definition read_full :: "nat \<Rightarrow> 'e \<Rightarrow> (string, 'e, string) tx" where
  "read_full n e = (\<lambda>s. if length s < n then Inl e else Inr (take n s, drop n s))"

fun read_n :: "('s, 'e, 'a) tx \<Rightarrow> nat \<Rightarrow> ('s, 'e, 'a list) tx" where
  "read_n r 0 = tx_return []"
| "read_n r (Suc n) = tx_bind r (\<lambda>x. tx_bind (read_n r n) (\<lambda>xs. tx_return (x # xs)))"

text \<open>A format is self-delimiting when a stream determines the value at its head and the rest.\<close>

locale delimited =
  fixes put :: "'a \<Rightarrow> string"
    and ok :: "'a \<Rightarrow> bool"
  assumes cancel: "ok a \<Longrightarrow> ok b \<Longrightarrow> put a @ s = put b @ t \<Longrightarrow> a = b \<and> s = t"
begin

lemma cancel_list:
  "list_all ok xs \<Longrightarrow> list_all ok ys \<Longrightarrow> length xs = length ys \<Longrightarrow>
   concat (map put xs) @ s = concat (map put ys) @ t \<Longrightarrow> xs = ys \<and> s = t"
proof (induction xs arbitrary: ys)
  case (Cons x xs)
  then obtain y ys' where ys: "ys = y # ys'" by (cases ys) auto
  have "put x @ concat (map put xs) @ s = put y @ concat (map put ys') @ t"
    using Cons.prems(4) ys by simp
  then have eq: "x = y \<and> concat (map put xs) @ s = concat (map put ys') @ t"
    by (rule cancel [rotated 2]) (use Cons.prems ys in auto)
  then have "xs = ys' \<and> s = t"
    by (intro Cons.IH) (use Cons.prems ys in auto)
  with eq ys show ?case by simp
qed simp

lemma put_inj: "ok a \<Longrightarrow> ok b \<Longrightarrow> put a = put b \<Longrightarrow> a = b"
  using cancel by blast

end

text \<open>A writer and its reader.\<close>

locale codec =
  fixes put :: "'a \<Rightarrow> string"
    and get :: "(string, 'e, 'a) tx"
    and ok :: "'a \<Rightarrow> bool"
  assumes read_write: "ok a \<Longrightarrow> get (put a @ rest) = Inr (a, rest)"
    and read_only: "get s = Inr (a, rest) \<Longrightarrow> ok a \<and> s = put a @ rest"
begin

lemma bind_write [simp]: "ok a \<Longrightarrow> tx_bind get k (put a @ rest) = k a rest"
  by (simp add: tx_bind_def read_write)

lemma read_n_write: "list_all ok xs \<Longrightarrow> read_n get (length xs) (concat (map put xs) @ rest) = Inr (xs, rest)"
  by (induction xs) (simp_all add: tx_defs read_write)

lemma read_n_only:
  "read_n get n s = Inr (xs, rest) \<Longrightarrow> length xs = n \<and> list_all ok xs \<and> s = concat (map put xs) @ rest"
  by (induction n arbitrary: s xs) (auto simp: tx_Inr dest!: read_only)

lemma get_iff: "get s = Inr (a, rest) \<longleftrightarrow> ok a \<and> s = put a @ rest"
  using read_write read_only by blast

lemma read_n_iff:
  "read_n get n s = Inr (xs, rest) \<longleftrightarrow> n = length xs \<and> list_all ok xs \<and> s = concat (map put xs) @ rest"
  using read_n_write read_n_only by blast

end

sublocale codec \<subseteq> delimited
  by unfold_locales (metis read_write prod.inject sum.inject(2))

text \<open>Two codecs in sequence.\<close>

locale codec_pair = A: codec putA getA okA + B: codec putB getB okB
  for putA :: "'a \<Rightarrow> string" and getA :: "(string, 'e, 'a) tx" and okA :: "'a \<Rightarrow> bool"
    and putB :: "'b \<Rightarrow> string" and getB :: "(string, 'e, 'b) tx" and okB :: "'b \<Rightarrow> bool" +
  fixes join :: "'a \<Rightarrow> 'b \<Rightarrow> 'c" and left :: "'c \<Rightarrow> 'a" and right :: "'c \<Rightarrow> 'b"
  assumes join_left: "left (join a b) = a" and join_right: "right (join a b) = b"
    and join_parts: "join (left c) (right c) = c"

sublocale codec_pair \<subseteq> codec "\<lambda>c. putA (left c) @ putB (right c)"
  "tx_bind getA (\<lambda>a. tx_bind getB (\<lambda>b. tx_return (join a b)))" "\<lambda>c. okA (left c) \<and> okB (right c)"
proof
  show "tx_bind getA (\<lambda>a. tx_bind getB (\<lambda>b. tx_return (join a b))) ((putA (left c) @ putB (right c)) @ rest) =
      Inr (c, rest)" if "okA (left c) \<and> okB (right c)" for c rest
    using that by (simp add: tx_defs A.read_write B.read_write join_parts)
  show "(okA (left c) \<and> okB (right c)) \<and> s = (putA (left c) @ putB (right c)) @ rest"
    if "tx_bind getA (\<lambda>a. tx_bind getB (\<lambda>b. tx_return (join a b))) s = Inr (c, rest)" for s c rest
    using that by (auto simp: tx_Inr join_left join_right dest!: A.read_only B.read_only)
qed

section \<open>The integers and the length-prefixed string\<close>

definition writeUint16 :: "16 word \<Rightarrow> string" where
  "writeUint16 w = be_put 2 (unat w)"

definition writeUint32 :: "32 word \<Rightarrow> string" where
  "writeUint32 w = be_put 4 (unat w)"

definition writeUint64 :: "u64 \<Rightarrow> string" where
  "writeUint64 w = be_put 8 (unat w)"

definition readUint16 :: "'e \<Rightarrow> (string, 'e, 16 word) tx" where
  "readUint16 e = tx_bind (read_full 2 e) (\<lambda>data. tx_return (word_of_nat (be_get data)))"

definition readUint32 :: "'e \<Rightarrow> (string, 'e, 32 word) tx" where
  "readUint32 e = tx_bind (read_full 4 e) (\<lambda>data. tx_return (word_of_nat (be_get data)))"

definition readUint64 :: "'e \<Rightarrow> (string, 'e, u64) tx" where
  "readUint64 e = tx_bind (read_full 8 e) (\<lambda>data. tx_return (word_of_nat (be_get data)))"

text \<open>The common argument for a word of \<open>k\<close> bytes.\<close>

lemma word_codec:
  assumes "LENGTH('w :: len) = 8 * k"
  shows "codec (\<lambda>w :: 'w word. be_put k (unat w))
    (tx_bind (read_full k e) (\<lambda>data. tx_return (word_of_nat (be_get data)))) (\<lambda>_. True)"
proof
  have bound: "2 ^ LENGTH('w) = (256 :: nat) ^ k"
    unfolding assms power_mult by simp
  fix w :: "'w word" and rest
  have "unat w < 256 ^ k" using unsigned_less [where 'a = nat, of w] bound by simp
  then show "tx_bind (read_full k e) (\<lambda>data. tx_return (word_of_nat (be_get data))) (be_put k (unat w) @ rest) =
      Inr (w, rest)"
    by (simp add: tx_defs read_full_def be_get_put)
next
  have bound: "2 ^ LENGTH('w) = (256 :: nat) ^ k"
    unfolding assms power_mult by simp
  fix s rest and w :: "'w word"
  assume "tx_bind (read_full k e) (\<lambda>data. tx_return (word_of_nat (be_get data))) s = Inr (w, rest)"
  then have len: "k \<le> length s" and w: "w = word_of_nat (be_get (take k s))" and r: "rest = drop k s"
    by (auto simp: tx_Inr read_full_def split: if_splits)
  have "be_get (take k s) < 2 ^ LENGTH('w)"
    using be_get_less [of "take k s"] len bound by simp
  then have "unat w = be_get (take k s)" by (simp add: w unat_of_nat)
  moreover have "be_put k (be_get (take k s)) = take k s" using be_put_get [of "take k s"] len by simp
  ultimately show "True \<and> s = be_put k (unat w) @ rest" using r by simp
qed

interpretation u16: codec writeUint16 "readUint16 e" "\<lambda>_. True" for e
  using word_codec [where 'w = 16 and k = 2] by (simp add: writeUint16_def [abs_def] readUint16_def)

interpretation u32: codec writeUint32 "readUint32 e" "\<lambda>_. True" for e
  using word_codec [where 'w = 32 and k = 4] by (simp add: writeUint32_def [abs_def] readUint32_def)

interpretation u64: codec writeUint64 "readUint64 e" "\<lambda>_. True" for e
  using word_codec [where 'w = 64 and k = 8] by (simp add: writeUint64_def [abs_def] readUint64_def)

lemma length_writeUint [simp]:
  "length (writeUint16 w) = 2" "length (writeUint32 x) = 4" "length (writeUint64 y) = 8"
  by (simp_all add: writeUint16_def writeUint32_def writeUint64_def)

text \<open>A length prefix and that many bytes, with the checks before the allocation.\<close>

definition write_sized :: "string \<Rightarrow> string" where
  "write_sized value = writeUint64 (word_of_nat (length value)) @ value"

definition read_sized :: "'e \<Rightarrow> 'e \<Rightarrow> 'e \<Rightarrow> nat \<Rightarrow> (string, 'e, string) tx" where
  "read_sized short toolong torn maxBytes =
     tx_bind (readUint64 short) (\<lambda>size.
     tx_bind (tx_get length) (\<lambda>remaining.
     tx_seq (tx_guard (\<not> (unat size > maxBytes \<or> unat size > remaining \<or> size > MaxDurableValue)) toolong)
       (read_full (unat size) torn)))"

text \<open>What such a string may be: within the bound, and countable by a Go \<open>int\<close>.\<close>

definition fits :: "nat \<Rightarrow> string \<Rightarrow> bool" where
  "fits maxBytes s \<longleftrightarrow> length s \<le> maxBytes \<and> length s < 2 ^ 63"

lemma MaxDurable_iff: "w \<le> MaxDurableValue \<longleftrightarrow> unat w < 2 ^ 63"
  by (auto simp: word_le_nat_alt unat_MaxDurableValue)

interpretation sized: codec write_sized "read_sized short toolong torn m" "fits m" for short toolong torn m
proof
  fix s rest :: string
  assume "fits m s"
  moreover from this have "unat (word_of_nat (length s) :: u64) = length s"
    by (simp add: fits_def unat_of_nat)
  ultimately show "read_sized short toolong torn m (write_sized s @ rest) = Inr (s, rest)"
    by (simp add: read_sized_def write_sized_def fits_def tx_defs u64.read_write read_full_def MaxDurable_iff not_less)
next
  fix s a rest
  assume "read_sized short toolong torn m s = Inr (a, rest)"
  then obtain size t where t: "s = writeUint64 size @ t" and le: "unat size \<le> m" "unat size \<le> length t"
    and max: "size \<le> MaxDurableValue" and a: "a = take (unat size) t" "rest = drop (unat size) t"
    by (auto simp: read_sized_def tx_Inr read_full_def not_less split: if_splits dest!: u64.read_only)
  then have "length a = unat size" by simp
  then have "word_of_nat (length a) = size" by simp
  then show "fits m a \<and> s = write_sized a @ rest"
    using t a le max \<open>length a = _\<close> by (simp add: fits_def write_sized_def MaxDurable_iff)
qed

lemma length_write_sized [simp]: "length (write_sized s) = 8 + length s"
  by (simp add: write_sized_def)

end
