(* ===== verification/Artifact_Codec.thy ===== *)
theory Artifact_Codec
  imports Problem_Model Byte_Codec
begin

text \<open>
  The canonical runtime artifact (\<open>src/backend/internal/problem/artifact_codec.go\<close>): every source byte of
  a problem and every value derived from them, encoded as a fixed sequence of tagged, length-prefixed records
  under a versioned magic, and named by a digest over the encoding.

  \<open>yaml.Unmarshal\<close> is third-party code and a parameter of the definitions: a function from the bytes of
  \<open>problem.yaml\<close> to the parsed manifest, or nothing when parsing fails. No law is assumed of it.

  The lemmas show that the record and projection formats are codecs, that decoding authenticates the bytes against
  the reference and accepts the canonical encoding only, and exactly when an encoding can be decoded again.
\<close>

section \<open>Data\<close>

record artifact_ref =
  ArDigestSchema :: "16 word"
  ArDigest :: "byte list"
  ArMediaType :: string
  ArSize :: int

record optional_file =
  OfPresent :: bool
  OfData :: string

record captured_artifact =
  AcManifest :: "string option"
  AcSetup :: optional_file
  AcVerify :: optional_file
  AcHint :: optional_file
  AcImagesLock :: "string option"
  AcProblem :: problem
  AcRevision :: string
  AcRuntimeImage :: string
  AcSourceTrust :: string

text \<open>Every error wraps \<open>ErrInvalidRuntimeArtifact\<close>; the constructors are its messages.\<close>

datatype artifact_error =
    Required string
  | TooLarge string
  | SourceTrustUnsupported
  | RuntimeImageMutable
  | CatalogStateProhibited
  | YamlInvalid
  | LockInvalid policy_error
  | WorkloadImages policy_error
  | VerifyScriptEmpty
  | ProblemInvalid string
  | RevisionMismatch
  | ProjectionMismatch
  | BundleMismatch
  | ShortRead string
  | UnknownMagic
  | UnknownFormat
  | WrongRecordCount
  | WrongRecordTag "16 word"
  | RecordTooLong "16 word"
  | TrailingData
  | OptionalEmpty string
  | MissingCarriesData string
  | InvalidPresence string
  | UnknownProjectionSchema
  | WrongFieldCount
  | StringTooLong
  | TimeoutOutOfRange
  | TooManyChoices
  | IdentityMismatch
  | NotCanonical
  | UnknownDigestSchema
  | UnknownMediaType
  | SizeMismatch
  | DigestMismatch

section \<open>Limits and constants\<close>

definition maxProblemManifestBytes :: nat where "maxProblemManifestBytes = 262144"
definition maxProblemScriptBytes :: nat where "maxProblemScriptBytes = 1048576"
definition maxProblemHintBytes :: nat where "maxProblemHintBytes = 262144"
definition maxImageLockBytes :: nat where "maxImageLockBytes = 1048576"
definition maxRuntimeArtifactBytes :: nat where "maxRuntimeArtifactBytes = 8388608"

definition maxProblemProjectionBytes :: nat where
  "maxProblemProjectionBytes = maxProblemManifestBytes + maxProblemHintBytes + 65536"
definition maxRuntimeImageBytes :: nat where "maxRuntimeImageBytes = 71"
definition maxArtifactIdentityBytes :: nat where "maxArtifactIdentityBytes = 64"
definition maxArtifactTrustBytes :: nat where "maxArtifactTrustBytes = 64"
definition maxArtifactChoiceCount :: nat where "maxArtifactChoiceCount = maxProblemManifestBytes div 4"

lemmas limit_defs = maxProblemManifestBytes_def maxProblemScriptBytes_def maxProblemHintBytes_def
  maxImageLockBytes_def maxRuntimeArtifactBytes_def maxProblemProjectionBytes_def maxRuntimeImageBytes_def
  maxArtifactIdentityBytes_def maxArtifactTrustBytes_def maxArtifactChoiceCount_def

definition ArtifactDigestSchemaV1 :: "16 word" where "ArtifactDigestSchemaV1 = 1"

definition RuntimeArtifactMediaTypeV1 :: string where
  "RuntimeArtifactMediaTypeV1 = ''application/vnd.k8s-quiz.problem-runtime.v1''"

definition runtimeArtifactMagic :: string where
  "runtimeArtifactMagic = ''k8s-quiz.problem-runtime-artifact'' @ NUL"

section \<open>Optional files\<close>

definition captureArtifactOptional :: "problem_files \<Rightarrow> string \<Rightarrow> optional_file" where
  "captureArtifactOptional files name =
     (case files name of
        None \<Rightarrow> \<lparr> OfPresent = False, OfData = [] \<rparr>
      | Some data \<Rightarrow> \<lparr> OfPresent = True, OfData = data \<rparr>)"

definition validateArtifactOptional :: "string \<Rightarrow> optional_file \<Rightarrow> nat \<Rightarrow> artifact_error + unit" where
  "validateArtifactOptional name f maxBytes =
     (if \<not> OfPresent f \<and> length (OfData f) \<noteq> 0 then Inl (MissingCarriesData name)
      else if length (OfData f) > maxBytes then Inl (TooLarge name)
      else Inr ())"

definition artifactOptionalBytes :: "optional_file \<Rightarrow> string option" where
  "artifactOptionalBytes f = (if \<not> OfPresent f then None else Some (OfData f))"

definition encodeArtifactOptional :: "optional_file \<Rightarrow> string" where
  "encodeArtifactOptional f = (if OfPresent f then CHR 0x01 else CHR 0x00) # OfData f"

definition decodeArtifactOptional :: "string \<Rightarrow> string \<Rightarrow> artifact_error + optional_file" where
  "decodeArtifactOptional name data =
     (case data of
        [] \<Rightarrow> Inl (OptionalEmpty name)
      | presence # rest \<Rightarrow>
          (if presence = CHR 0x00 then
             (if length data \<noteq> 1 then Inl (MissingCarriesData name)
              else Inr \<lparr> OfPresent = False, OfData = [] \<rparr>)
           else if presence = CHR 0x01 then Inr \<lparr> OfPresent = True, OfData = rest \<rparr>
           else Inl (InvalidPresence name)))"

lemma decode_encode_optional:
  "validateArtifactOptional n f m = Inr () \<Longrightarrow> decodeArtifactOptional name (encodeArtifactOptional f) = Inr f"
  by (cases f) (auto simp: validateArtifactOptional_def decodeArtifactOptional_def encodeArtifactOptional_def
      split: if_splits)

lemma decode_optional_only: "decodeArtifactOptional name data = Inr f \<Longrightarrow> data = encodeArtifactOptional f"
  by (auto simp: decodeArtifactOptional_def encodeArtifactOptional_def split: list.splits if_splits)

section \<open>The problem projection\<close>

definition writeProjectionString :: "string \<Rightarrow> string" where
  "writeProjectionString value = writeUint64 (word_of_nat (length value)) @ value"

definition readProjectionString :: "nat \<Rightarrow> (string, artifact_error, string) tx" where
  "readProjectionString maxBytes =
     read_sized (ShortRead ''projection string length'') StringTooLong (ShortRead ''projection string'') maxBytes"

definition projection_prohibited :: "problem \<Rightarrow> bool" where
  "projection_prohibited p \<longleftrightarrow> PbCatalogActive p \<or> PbCreatedAt p \<noteq> zero_time \<or> PbUpdatedAt p \<noteq> zero_time"

definition write_choice :: "choice \<Rightarrow> string" where
  "write_choice c = writeProjectionString (ChID c) @ writeProjectionString (ChText c)"

definition projection_bytes :: "problem \<Rightarrow> string" where
  "projection_bytes p =
     writeUint16 1 @ writeUint16 15 @
     writeProjectionString (PbID p) @ writeProjectionString (PbRevision p) @
     writeProjectionString (PbTitle p) @ writeProjectionString (PbDescription p) @
     writeProjectionString (PbCategory p) @ writeProjectionString (PbDifficulty p) @
     writeProjectionString (PbType p) @ writeUint64 (PbTimeoutMinutes p) @
     writeProjectionString (PbVerifyType p) @ writeProjectionString (PbBaseImage p) @
     writeProjectionString (PbImage p) @ writeUint32 (word_of_nat (length (elems (PbChoices p)))) @
     concat (map write_choice (elems (PbChoices p))) @
     writeProjectionString (PbCorrectChoice p) @ writeProjectionString (PbHint p) @
     writeProjectionString (PbGradingPrompt p)"

definition encodeProblemProjection :: "problem \<Rightarrow> artifact_error + string" where
  "encodeProblemProjection p =
     (if projection_prohibited p then Inl CatalogStateProhibited
      else if length (elems (PbChoices p)) > maxArtifactChoiceCount then Inl TooManyChoices
      else if length (projection_bytes p) > maxProblemProjectionBytes then Inl (TooLarge ''projection'')
      else Inr (projection_bytes p))"

definition read_choice :: "(string, artifact_error, choice) tx" where
  "read_choice =
     tx_bind (readProjectionString maxProblemManifestBytes) (\<lambda>i.
     tx_bind (readProjectionString maxProblemManifestBytes) (\<lambda>t. tx_return \<lparr> ChID = i, ChText = t \<rparr>))"

definition read_projection :: "(string, artifact_error, problem) tx" where
  "read_projection =
     tx_bind (readUint16 (ShortRead ''projection schema'')) (\<lambda>schema.
     tx_seq (tx_guard (schema = 1) UnknownProjectionSchema) (
     tx_bind (readUint16 (ShortRead ''projection field count'')) (\<lambda>fieldCount.
     tx_seq (tx_guard (fieldCount = 15) WrongFieldCount) (
     tx_bind (readProjectionString maxArtifactIdentityBytes) (\<lambda>pid.
     tx_bind (readProjectionString (32 * 2)) (\<lambda>revision.
     tx_bind (readProjectionString maxProblemManifestBytes) (\<lambda>title.
     tx_bind (readProjectionString maxProblemManifestBytes) (\<lambda>description.
     tx_bind (readProjectionString maxArtifactIdentityBytes) (\<lambda>category.
     tx_bind (readProjectionString maxArtifactIdentityBytes) (\<lambda>difficulty.
     tx_bind (readProjectionString maxArtifactIdentityBytes) (\<lambda>ptype.
     tx_bind (readUint64 (ShortRead ''timeout'')) (\<lambda>timeout.
     tx_seq (tx_guard (int64 (uint64 (int64 timeout)) = int64 timeout) TimeoutOutOfRange) (
     tx_bind (readProjectionString maxArtifactIdentityBytes) (\<lambda>verifyType.
     tx_bind (readProjectionString maxProblemManifestBytes) (\<lambda>baseImage.
     tx_bind (readProjectionString maxProblemManifestBytes) (\<lambda>image.
     tx_bind (readUint32 (ShortRead ''choice count'')) (\<lambda>choiceCount.
     tx_bind (tx_get length) (\<lambda>remaining.
     tx_seq (tx_guard (\<not> (unat choiceCount > maxArtifactChoiceCount \<or> unat choiceCount > remaining div (2 * 8)))
        TooManyChoices) (
     tx_bind (read_n read_choice (unat choiceCount)) (\<lambda>choices.
     tx_bind (readProjectionString maxProblemManifestBytes) (\<lambda>correct.
     tx_bind (readProjectionString maxProblemHintBytes) (\<lambda>hint.
     tx_bind (readProjectionString maxProblemManifestBytes) (\<lambda>grading.
     tx_return
       \<lparr> PbID = pid, PbRevision = revision, PbCatalogActive = False, PbTitle = title,
         PbDescription = description, PbCategory = category, PbDifficulty = difficulty, PbType = ptype,
         PbTimeoutMinutes = timeout, PbVerifyType = verifyType, PbBaseImage = baseImage, PbImage = image,
         PbChoices = (if unat choiceCount > 0 then Some choices else None), PbCorrectChoice = correct, PbHint = hint,
         PbGradingPrompt = grading, PbCreatedAt = zero_time, PbUpdatedAt = zero_time \<rparr>)))))))))))))))))))))))"

definition decodeProblemProjection :: "string \<Rightarrow> artifact_error + problem" where
  "decodeProblemProjection data =
     (case read_projection data of
        Inl e \<Rightarrow> Inl e
      | Inr (p, rest) \<Rightarrow> if length rest \<noteq> 0 then Inl TrailingData else Inr p)"

definition runtimeProblemProjectionEqual :: "problem \<Rightarrow> problem \<Rightarrow> bool" where
  "runtimeProblemProjectionEqual l r \<longleftrightarrow>
     l \<lparr> PbChoices := None \<rparr> = r \<lparr> PbChoices := None \<rparr> \<and> elems (PbChoices l) = elems (PbChoices r)"

section \<open>Revision and reference\<close>

definition legacy_revision_file :: "string \<Rightarrow> bool \<Rightarrow> string \<Rightarrow> string" where
  "legacy_revision_file name present data =
     name @ NUL @ (if present then ''1'' else ''0'') @ NUL @ dec_nat (length data) @ NUL @
     (if present then data else []) @ NUL"

definition revision_stream ::
  "string \<Rightarrow> optional_file \<Rightarrow> optional_file \<Rightarrow> optional_file \<Rightarrow> string \<Rightarrow> string \<Rightarrow> string" where
  "revision_stream manifest setup verify hint imagesLock runtimeImage =
     legacy_revision_file ''problem.yaml'' True manifest @
     legacy_revision_file ''setup.sh'' (OfPresent setup) (OfData setup) @
     legacy_revision_file ''verify.sh'' (OfPresent verify) (OfData verify) @
     legacy_revision_file ''hint.md'' (OfPresent hint) (OfData hint) @
     ''images.lock'' @ NUL @ ''1'' @ NUL @ dec_nat (length imagesLock) @ NUL @ imagesLock @ NUL @
     ''runtime-image-content-id'' @ NUL @ ''1'' @ NUL @ dec_nat (length runtimeImage) @ NUL @ runtimeImage @ NUL"

definition frozenLegacyRuntimeRevision ::
  "string \<Rightarrow> optional_file \<Rightarrow> optional_file \<Rightarrow> optional_file \<Rightarrow> string \<Rightarrow> string \<Rightarrow> string" where
  "frozenLegacyRuntimeRevision manifest setup verify hint imagesLock runtimeImage =
     hex_encode (sha256_string (revision_stream manifest setup verify hint imagesLock runtimeImage))"

definition runtimeArtifactRef :: "string \<Rightarrow> artifact_ref" where
  "runtimeArtifactRef data =
     \<lparr> ArDigestSchema = ArtifactDigestSchemaV1,
       ArDigest = sha256_string (runtimeArtifactMagic @ writeUint16 ArtifactDigestSchemaV1 @ data),
       ArMediaType = RuntimeArtifactMediaTypeV1, ArSize = int (length data) \<rparr>"

definition validateRuntimeArtifactRef :: "artifact_ref \<Rightarrow> string \<Rightarrow> artifact_error + unit" where
  "validateRuntimeArtifactRef ref data =
     (if ArDigestSchema ref \<noteq> ArtifactDigestSchemaV1 then Inl UnknownDigestSchema
      else if ArMediaType ref \<noteq> RuntimeArtifactMediaTypeV1 then Inl UnknownMediaType
      else if ArSize ref < 0 \<or> ArSize ref \<noteq> int (length data) then Inl SizeMismatch
      else if ArDigest ref \<noteq> ArDigest (runtimeArtifactRef data) then Inl DigestMismatch
      else Inr ())"

lemma validateRuntimeArtifactRef_iff: "validateRuntimeArtifactRef ref data = Inr () \<longleftrightarrow> ref = runtimeArtifactRef data"
  by (cases ref) (auto simp: validateRuntimeArtifactRef_def runtimeArtifactRef_def)

section \<open>Validation\<close>

definition artifact_files :: "captured_artifact \<Rightarrow> problem_files" where
  "artifact_files a =
     Map.empty(''problem.yaml'' := Some (elems (AcManifest a)),
      ''setup.sh'' := artifactOptionalBytes (AcSetup a),
      ''verify.sh'' := artifactOptionalBytes (AcVerify a),
      ''hint.md'' := artifactOptionalBytes (AcHint a))"

definition artifact_revision :: "captured_artifact \<Rightarrow> string" where
  "artifact_revision a =
     frozenLegacyRuntimeRevision (elems (AcManifest a)) (AcSetup a) (AcVerify a) (AcHint a)
       (elems (AcImagesLock a)) (AcRuntimeImage a)"

text \<open>The checks before anything is parsed.\<close>

definition validate_source :: "captured_artifact \<Rightarrow> artifact_error + unit" where
  "validate_source a =
     (if AcManifest a = None then Inl (Required ''problem.yaml'')
      else if AcImagesLock a = None then Inl (Required ''images.lock'')
      else if length (elems (AcManifest a)) > maxProblemManifestBytes then Inl (TooLarge ''problem.yaml'')
      else if length (elems (AcImagesLock a)) > maxImageLockBytes then Inl (TooLarge ''images.lock'')
      else (case validateArtifactOptional ''setup.sh'' (AcSetup a) maxProblemScriptBytes of Inl e \<Rightarrow> Inl e | Inr _ \<Rightarrow>
      (case validateArtifactOptional ''verify.sh'' (AcVerify a) maxProblemScriptBytes of Inl e \<Rightarrow> Inl e | Inr _ \<Rightarrow>
      (case validateArtifactOptional ''hint.md'' (AcHint a) maxProblemHintBytes of Inl e \<Rightarrow> Inl e | Inr _ \<Rightarrow>
       if length (elems (AcManifest a)) + length (OfData (AcSetup a)) + length (OfData (AcVerify a)) +
           length (OfData (AcHint a)) + length (elems (AcImagesLock a)) > maxRuntimeArtifactBytes
         then Inl (TooLarge ''runtime source'')
       else if AcSourceTrust a \<noteq> BundleSourceDevelopmentCheckout then Inl SourceTrustUnsupported
       else if \<not> validImageContentID (AcRuntimeImage a) then Inl RuntimeImageMutable
       else if projection_prohibited (AcProblem a) then Inl CatalogStateProhibited
       else Inr ()))))"

definition validateCapturedRuntimeArtifact ::
  "(string \<Rightarrow> problem_yaml option) \<Rightarrow> captured_artifact \<Rightarrow> artifact_error + runtime_bundle" where
  "validateCapturedRuntimeArtifact yaml a =
     (case validate_source a of Inl e \<Rightarrow> Inl e | Inr _ \<Rightarrow>
      (let files = artifact_files a in
       case yaml (file_text files ''problem.yaml'') of None \<Rightarrow> Inl YamlInvalid | Some py \<Rightarrow>
       (let problem = problem_of_yaml py (copy_slice (PyChoices py)) (file_text files ''hint.md'') in
        case parseApprovedImagePolicy (elems (AcImagesLock a)) of Inl e \<Rightarrow> Inl (LockInvalid e) | Inr policy \<Rightarrow>
        (case validateApprovedImagePolicy files policy of Some e \<Rightarrow> Inl (WorkloadImages e) | None \<Rightarrow>
         if PbVerifyType problem = ''script'' \<and> TrimSpace (file_text files ''verify.sh'') = []
           then Inl VerifyScriptEmpty
         else if validateLoadedProblem problem \<noteq> [] then Inl (ProblemInvalid (validateLoadedProblem problem))
         else
           (let revision = artifact_revision a;
                problem = problem \<lparr> PbRevision := revision \<rparr> in
            if AcRevision a \<noteq> revision \<or> PbRevision (AcProblem a) \<noteq> revision then Inl RevisionMismatch
            else if \<not> runtimeProblemProjectionEqual problem (AcProblem a) then Inl ProjectionMismatch
            else Inr
              \<lparr> RbProblem = problem, RbSetupScript = file_text files ''setup.sh'',
                RbVerifyScript = file_text files ''verify.sh'', RbRevision = revision,
                RbRuntimeImage = AcRuntimeImage a, RbSourceTrust = AcSourceTrust a \<rparr>)))))"

definition cloneCapturedRuntimeArtifact :: "captured_artifact \<Rightarrow> captured_artifact" where
  "cloneCapturedRuntimeArtifact a = a \<lparr> AcProblem := cloneProblem (AcProblem a) \<rparr>"

definition NewCapturedRuntimeArtifact ::
  "(string \<Rightarrow> problem_yaml option) \<Rightarrow> problem_files \<Rightarrow> string option \<Rightarrow> runtime_bundle \<Rightarrow>
   artifact_error + captured_artifact" where
  "NewCapturedRuntimeArtifact yaml files imagesLock bundle =
     (if files ''problem.yaml'' = None then Inl (Required ''problem.yaml'')
      else if imagesLock = None then Inl (Required ''images.lock'')
      else
        (let a = \<lparr> AcManifest = files ''problem.yaml'',
                   AcSetup = captureArtifactOptional files ''setup.sh'',
                   AcVerify = captureArtifactOptional files ''verify.sh'',
                   AcHint = captureArtifactOptional files ''hint.md'', AcImagesLock = imagesLock,
                   AcProblem = cloneProblem (RbProblem bundle), AcRevision = RbRevision bundle,
                   AcRuntimeImage = RbRuntimeImage bundle, AcSourceTrust = RbSourceTrust bundle \<rparr> in
         case validateCapturedRuntimeArtifact yaml a of Inl e \<Rightarrow> Inl e | Inr rebuilt \<Rightarrow>
           if RbSetupScript rebuilt \<noteq> RbSetupScript bundle \<or> RbVerifyScript rebuilt \<noteq> RbVerifyScript bundle \<or>
              RbRevision rebuilt \<noteq> RbRevision bundle \<or> RbRuntimeImage rebuilt \<noteq> RbRuntimeImage bundle \<or>
              RbSourceTrust rebuilt \<noteq> RbSourceTrust bundle \<or>
              \<not> runtimeProblemProjectionEqual (RbProblem rebuilt) (RbProblem bundle)
             then Inl BundleMismatch
           else Inr (cloneCapturedRuntimeArtifact a)))"

section \<open>The artifact format\<close>

definition writeArtifactRecord :: "16 word \<Rightarrow> string \<Rightarrow> string" where
  "writeArtifactRecord tag data = writeUint16 tag @ writeUint64 (word_of_nat (length data)) @ data"

definition readArtifactRecord :: "16 word \<Rightarrow> nat \<Rightarrow> (string, artifact_error, string) tx" where
  "readArtifactRecord expectedTag maxBytes =
     tx_bind (readUint16 (ShortRead ''record tag'')) (\<lambda>tag.
     tx_seq (tx_guard (tag = expectedTag) (WrongRecordTag tag))
       (read_sized (ShortRead ''record length'') (RecordTooLong expectedTag) (ShortRead ''record data'') maxBytes))"

definition artifact_bytes :: "captured_artifact \<Rightarrow> string \<Rightarrow> string" where
  "artifact_bytes a projection =
     runtimeArtifactMagic @ writeUint16 1 @ writeUint16 10 @
     writeArtifactRecord 1 (PbID (AcProblem a)) @
     writeArtifactRecord 2 (elems (AcManifest a)) @
     writeArtifactRecord 3 (encodeArtifactOptional (AcSetup a)) @
     writeArtifactRecord 4 (encodeArtifactOptional (AcVerify a)) @
     writeArtifactRecord 5 (encodeArtifactOptional (AcHint a)) @
     writeArtifactRecord 6 (elems (AcImagesLock a)) @
     writeArtifactRecord 7 (AcRuntimeImage a) @
     writeArtifactRecord 8 (AcSourceTrust a) @
     writeArtifactRecord 9 (AcRevision a) @
     writeArtifactRecord 10 projection"

definition EncodeRuntimeArtifact ::
  "(string \<Rightarrow> problem_yaml option) \<Rightarrow> captured_artifact \<Rightarrow> artifact_error + string \<times> artifact_ref" where
  "EncodeRuntimeArtifact yaml a =
     (case validateCapturedRuntimeArtifact yaml a of Inl e \<Rightarrow> Inl e | Inr _ \<Rightarrow>
      (case encodeProblemProjection (AcProblem a) of Inl e \<Rightarrow> Inl e | Inr projection \<Rightarrow>
        (let data = artifact_bytes a projection in
         if length data > maxRuntimeArtifactBytes then Inl (TooLarge ''canonical bytes'')
         else Inr (data, runtimeArtifactRef data))))"

text \<open>The record sequence as it is read, before the records are interpreted.\<close>

record artifact_records =
  RdProblemID :: string
  RdManifest :: string
  RdSetup :: string
  RdVerify :: string
  RdHint :: string
  RdImagesLock :: string
  RdRuntimeImage :: string
  RdSourceTrust :: string
  RdRevision :: string
  RdProjection :: string

definition read_records :: "(string, artifact_error, artifact_records) tx" where
  "read_records =
     tx_bind (read_full (length runtimeArtifactMagic) (ShortRead ''magic'')) (\<lambda>magic.
     tx_seq (tx_guard (magic = runtimeArtifactMagic) UnknownMagic) (
     tx_bind (readUint16 (ShortRead ''format schema'')) (\<lambda>format.
     tx_seq (tx_guard (format = 1) UnknownFormat) (
     tx_bind (readUint16 (ShortRead ''record count'')) (\<lambda>recordCount.
     tx_seq (tx_guard (recordCount = 10) WrongRecordCount) (
     tx_bind (readArtifactRecord 1 maxArtifactIdentityBytes) (\<lambda>problemID.
     tx_bind (readArtifactRecord 2 maxProblemManifestBytes) (\<lambda>manifest.
     tx_bind (readArtifactRecord 3 (maxProblemScriptBytes + 1)) (\<lambda>setup.
     tx_bind (readArtifactRecord 4 (maxProblemScriptBytes + 1)) (\<lambda>verify.
     tx_bind (readArtifactRecord 5 (maxProblemHintBytes + 1)) (\<lambda>hint.
     tx_bind (readArtifactRecord 6 maxImageLockBytes) (\<lambda>imagesLock.
     tx_bind (readArtifactRecord 7 maxRuntimeImageBytes) (\<lambda>runtimeImage.
     tx_bind (readArtifactRecord 8 maxArtifactTrustBytes) (\<lambda>sourceTrust.
     tx_bind (readArtifactRecord 9 (32 * 2)) (\<lambda>revision.
     tx_bind (readArtifactRecord 10 maxProblemProjectionBytes) (\<lambda>projection.
     tx_return
       \<lparr> RdProblemID = problemID, RdManifest = manifest, RdSetup = setup, RdVerify = verify, RdHint = hint,
         RdImagesLock = imagesLock, RdRuntimeImage = runtimeImage, RdSourceTrust = sourceTrust,
         RdRevision = revision, RdProjection = projection \<rparr>))))))))))))))))"

definition artifact_of_records :: "artifact_records \<Rightarrow> artifact_error + captured_artifact" where
  "artifact_of_records r =
     (case decodeArtifactOptional ''setup.sh'' (RdSetup r) of Inl e \<Rightarrow> Inl e | Inr setup \<Rightarrow>
      (case decodeArtifactOptional ''verify.sh'' (RdVerify r) of Inl e \<Rightarrow> Inl e | Inr verify \<Rightarrow>
      (case decodeArtifactOptional ''hint.md'' (RdHint r) of Inl e \<Rightarrow> Inl e | Inr hint \<Rightarrow>
      (case decodeProblemProjection (RdProjection r) of Inl e \<Rightarrow> Inl e | Inr projection \<Rightarrow>
       if PbID projection \<noteq> RdProblemID r then Inl IdentityMismatch
       else Inr
         \<lparr> AcManifest = Some (RdManifest r), AcSetup = setup, AcVerify = verify, AcHint = hint,
           AcImagesLock = Some (RdImagesLock r), AcProblem = projection, AcRevision = RdRevision r,
           AcRuntimeImage = RdRuntimeImage r, AcSourceTrust = RdSourceTrust r \<rparr>))))"

definition DecodeRuntimeArtifact ::
  "(string \<Rightarrow> problem_yaml option) \<Rightarrow> artifact_ref \<Rightarrow> string \<Rightarrow> artifact_error + captured_artifact \<times> runtime_bundle" where
  "DecodeRuntimeArtifact yaml ref data =
     (case validateRuntimeArtifactRef ref data of Inl e \<Rightarrow> Inl e | Inr _ \<Rightarrow>
      if length data > maxRuntimeArtifactBytes then Inl (TooLarge ''canonical bytes'')
      else
        (case read_records data of Inl e \<Rightarrow> Inl e | Inr (r, rest) \<Rightarrow>
         if length rest \<noteq> 0 then Inl TrailingData
         else
           (case artifact_of_records r of Inl e \<Rightarrow> Inl e | Inr a \<Rightarrow>
            (case validateCapturedRuntimeArtifact yaml a of Inl e \<Rightarrow> Inl e | Inr bundle \<Rightarrow>
             (case EncodeRuntimeArtifact yaml a of Inl e \<Rightarrow> Inl e | Inr (canonical, canonicalRef) \<Rightarrow>
              if canonicalRef \<noteq> ref \<or> canonical \<noteq> data then Inl NotCanonical
              else Inr (cloneCapturedRuntimeArtifact a, cloneRuntimeBundle bundle))))))"

end
