(* ===== verification/Artifact_Roundtrip.thy ===== *)
theory Artifact_Roundtrip
  imports Artifact_Codec
begin

text \<open>
  The formats of the runtime artifact are codecs, and what follows for \<open>EncodeRuntimeArtifact\<close> and
  \<open>DecodeRuntimeArtifact\<close>: the round trip, the uniqueness of the canonical encoding, and the content the
  revision and the reference bind.
\<close>

section \<open>The formats as codecs\<close>

lemma tx_guard_step [simp]: "b \<Longrightarrow> tx_seq (tx_guard b e) k s = k s"
  by (simp add: tx_defs)

lemma tx_get_step [simp]: "tx_bind (tx_get q) k s = k (q s) s"
  by (simp add: tx_defs)

lemma tx_bind_return [simp]: "tx_bind (tx_return x) k = k x"
  by (simp add: tx_defs)

lemma tx_return_step [simp]: "tx_return x s = Inr (x, s)"
  by (simp add: tx_defs)

lemma writeProjectionString_sized: "writeProjectionString = write_sized"
  by (simp add: fun_eq_iff writeProjectionString_def write_sized_def)

interpretation pstr: codec writeProjectionString "readProjectionString m" "fits m" for m
  unfolding writeProjectionString_sized readProjectionString_def by (rule sized.codec_axioms)

interpretation choice: codec_pair writeProjectionString "readProjectionString maxProblemManifestBytes"
  "fits maxProblemManifestBytes" writeProjectionString "readProjectionString maxProblemManifestBytes"
  "fits maxProblemManifestBytes" "\<lambda>i t. \<lparr> ChID = i, ChText = t \<rparr>" ChID ChText
  by unfold_locales simp_all

definition choice_fits :: "choice \<Rightarrow> bool" where
  "choice_fits c \<longleftrightarrow> fits maxProblemManifestBytes (ChID c) \<and> fits maxProblemManifestBytes (ChText c)"

interpretation choices: codec write_choice read_choice choice_fits
  using choice.codec_axioms
  by (simp add: write_choice_def [abs_def] read_choice_def choice_fits_def [abs_def])

interpretation rcd: codec "writeArtifactRecord tag" "readArtifactRecord tag m" "fits m" for tag m
proof
  show "readArtifactRecord tag m (writeArtifactRecord tag a @ rest) = Inr (a, rest)" if "fits m a" for a rest
  proof -
    have "writeArtifactRecord tag a = writeUint16 tag @ write_sized a"
      by (simp add: writeArtifactRecord_def write_sized_def)
    then show ?thesis using that by (simp add: readArtifactRecord_def sized.read_write)
  qed
  show "fits m a \<and> s = writeArtifactRecord tag a @ rest" if "readArtifactRecord tag m s = Inr (a, rest)" for s a rest
    using that
    by (auto simp: readArtifactRecord_def writeArtifactRecord_def tx_Inr write_sized_def dest!: u16.read_only sized.read_only)
qed

lemma length_writeProjectionString [simp]: "length (writeProjectionString s) = 8 + length s"
  by (simp add: writeProjectionString_def)

lemma length_writeArtifactRecord [simp]: "length (writeArtifactRecord tag s) = 10 + length s"
  by (simp add: writeArtifactRecord_def)

lemma length_write_choices: "16 * length cs \<le> length (concat (map write_choice cs))"
  by (induction cs) (simp_all add: write_choice_def)

subsection \<open>The projection\<close>

definition projection_fits :: "problem \<Rightarrow> bool" where
  "projection_fits p \<longleftrightarrow>
     fits maxArtifactIdentityBytes (PbID p) \<and> fits (32 * 2) (PbRevision p) \<and>
     fits maxProblemManifestBytes (PbTitle p) \<and> fits maxProblemManifestBytes (PbDescription p) \<and>
     fits maxArtifactIdentityBytes (PbCategory p) \<and> fits maxArtifactIdentityBytes (PbDifficulty p) \<and>
     fits maxArtifactIdentityBytes (PbType p) \<and> fits maxArtifactIdentityBytes (PbVerifyType p) \<and>
     fits maxProblemManifestBytes (PbBaseImage p) \<and> fits maxProblemManifestBytes (PbImage p) \<and>
     length (elems (PbChoices p)) \<le> maxArtifactChoiceCount \<and> list_all choice_fits (elems (PbChoices p)) \<and>
     fits maxProblemManifestBytes (PbCorrectChoice p) \<and> fits maxProblemHintBytes (PbHint p) \<and>
     fits maxProblemManifestBytes (PbGradingPrompt p)"

lemma choice_count_word:
  "n \<le> maxArtifactChoiceCount \<Longrightarrow> unat (word_of_nat n :: 32 word) = n"
  by (simp add: limit_defs unat_of_nat)

lemma read_projection_write:
  assumes "projection_fits p" and "\<not> projection_prohibited p"
  shows "read_projection (projection_bytes p @ rest) = Inr (cloneProblem p, rest)"
proof -
  let ?cs = "elems (PbChoices p)"
  have n: "unat (word_of_nat (length ?cs) :: 32 word) = length ?cs"
    using assms(1) by (intro choice_count_word) (simp add: projection_fits_def)
  have le: "\<not> (length (concat (map write_choice ?cs)) + k) div 16 < length ?cs" for k
    using length_write_choices [of ?cs] by simp
  have read: "tx_bind (read_n read_choice (length ?cs)) k (concat (map write_choice ?cs) @ r) = k ?cs r" for k r
    using choices.read_n_write [of ?cs r] assms(1) by (simp add: tx_bind_def projection_fits_def)
  show ?thesis
    using assms
    by (simp add: read_projection_def projection_bytes_def projection_fits_def projection_prohibited_def n le read
        add.assoc cloneProblem_def copy_slice_def)
qed

lemma count_word: "unat k = n \<Longrightarrow> (word_of_nat n :: 32 word) = k"
  by auto

lemma read_projection_only:
  assumes "read_projection s = Inr (p, rest)"
  shows "projection_fits p \<and> \<not> projection_prohibited p \<and> s = projection_bytes p @ rest"
proof -
  show ?thesis
    using assms unfolding read_projection_def tx_Inr
      u16.get_iff u32.get_iff u64.get_iff pstr.get_iff choices.read_n_iff
    by (clarsimp simp: projection_fits_def projection_prohibited_def projection_bytes_def not_less)
      (auto dest: count_word simp: unat_eq_0)
qed

text \<open>The projection bytes determine the problem up to the copy of its slice.\<close>

definition projection_countable :: "problem \<Rightarrow> bool" where
  "projection_countable p \<longleftrightarrow> length (projection_bytes p) < 2147483648"

lemma pstr_cancel_iff:
  "length a < 2147483648 \<Longrightarrow> length b < 2147483648 \<Longrightarrow>
   writeProjectionString a @ s = writeProjectionString b @ t \<longleftrightarrow> a = b \<and> s = t"
  using pstr.cancel [where a = a and b = b and s = s and t = t and m = 2147483648] by (auto simp: fits_def)

lemma word_cancel_iff:
  "writeUint64 v @ s = writeUint64 w @ t \<longleftrightarrow> v = w \<and> s = t"
  "writeUint32 v' @ s = writeUint32 w' @ t \<longleftrightarrow> v' = w' \<and> s = t"
  using u64.cancel [where a = v and b = w and s = s and t = t]
    u32.cancel [where a = v' and b = w' and s = s and t = t] by blast+

lemma choice_length: "c \<in> set cs \<Longrightarrow> length (write_choice c) \<le> length (concat (map write_choice cs))"
  by (induction cs) auto

interpretation wide: delimited write_choice "\<lambda>c. length (write_choice c) < 2147483648"
proof
  fix a b :: choice and s t
  assume "length (write_choice a) < 2147483648" "length (write_choice b) < 2147483648"
    and eq: "write_choice a @ s = write_choice b @ t"
  then have "length (ChID a) < 2147483648" "length (ChID b) < 2147483648" "length (ChText a) < 2147483648" "length (ChText b) < 2147483648"
    by (simp_all add: write_choice_def)
  then show "a = b \<and> s = t"
    using eq by (simp add: write_choice_def pstr_cancel_iff)
qed

lemma projection_bytes_inj:
  assumes "projection_countable p" and "projection_countable q" and "projection_bytes p = projection_bytes q"
    and "\<not> projection_prohibited p" and "\<not> projection_prohibited q"
  shows "cloneProblem p = cloneProblem q"
proof -
  let ?cp = "elems (PbChoices p)" and ?cq = "elems (PbChoices q)"
  have small: "length x < 2147483648" if "projection_countable r" and "x \<in> {PbID r, PbRevision r, PbTitle r, PbDescription r, PbCategory r,
      PbDifficulty r, PbType r, PbVerifyType r, PbBaseImage r, PbImage r, PbCorrectChoice r, PbHint r, PbGradingPrompt r}" for r x
    using that unfolding projection_countable_def projection_bytes_def by auto
  have n: "unat (word_of_nat (length (elems (PbChoices r))) :: 32 word) = length (elems (PbChoices r))"
    "list_all (\<lambda>c. length (write_choice c) < 2147483648) (elems (PbChoices r))" if "projection_countable r" for r
    using that length_write_choices [of "elems (PbChoices r)"] choice_length [of _ "elems (PbChoices r)"]
    unfolding projection_countable_def projection_bytes_def
    by (simp_all add: unat_of_nat list_all_iff) fastforce
  from assms(3) have scalars: "PbID p = PbID q" "PbRevision p = PbRevision q" "PbTitle p = PbTitle q"
    "PbDescription p = PbDescription q" "PbCategory p = PbCategory q" "PbDifficulty p = PbDifficulty q"
    "PbType p = PbType q" "PbTimeoutMinutes p = PbTimeoutMinutes q" "PbVerifyType p = PbVerifyType q"
    "PbBaseImage p = PbBaseImage q" "PbImage p = PbImage q"
    and count: "(word_of_nat (length ?cp) :: 32 word) = word_of_nat (length ?cq)"
    and tails: "concat (map write_choice ?cp) @ writeProjectionString (PbCorrectChoice p) @
        writeProjectionString (PbHint p) @ writeProjectionString (PbGradingPrompt p) =
      concat (map write_choice ?cq) @ writeProjectionString (PbCorrectChoice q) @
        writeProjectionString (PbHint q) @ writeProjectionString (PbGradingPrompt q)"
    unfolding projection_bytes_def
    by (simp_all add: pstr_cancel_iff word_cancel_iff small [OF assms(1)] small [OF assms(2)])
  have "length ?cp = length ?cq" using count n(1) [OF assms(1)] n(1) [OF assms(2)] by metis
  note choices_eq = wide.cancel_list [OF n(2) [OF assms(1)] n(2) [OF assms(2)] this tails]
  then have "PbCorrectChoice p = PbCorrectChoice q" "PbHint p = PbHint q"
    "writeProjectionString (PbGradingPrompt p) = writeProjectionString (PbGradingPrompt q)"
    by (simp_all add: pstr_cancel_iff small [OF assms(1)] small [OF assms(2)])
  moreover from this(3) have "PbGradingPrompt p = PbGradingPrompt q"
    using pstr_cancel_iff [of "PbGradingPrompt p" "PbGradingPrompt q" "[]" "[]"] small [OF assms(1)] small [OF assms(2)] by simp
  ultimately show ?thesis
    using scalars choices_eq assms(4,5)
    by (cases p; cases q) (simp add: cloneProblem_def copy_slice_def projection_prohibited_def)
qed

subsection \<open>The record sequence\<close>

definition records_of :: "captured_artifact \<Rightarrow> string \<Rightarrow> artifact_records" where
  "records_of a projection =
     \<lparr> RdProblemID = PbID (AcProblem a), RdManifest = elems (AcManifest a),
       RdSetup = encodeArtifactOptional (AcSetup a), RdVerify = encodeArtifactOptional (AcVerify a),
       RdHint = encodeArtifactOptional (AcHint a), RdImagesLock = elems (AcImagesLock a),
       RdRuntimeImage = AcRuntimeImage a, RdSourceTrust = AcSourceTrust a, RdRevision = AcRevision a,
       RdProjection = projection \<rparr>"

definition records_fit :: "artifact_records \<Rightarrow> bool" where
  "records_fit r \<longleftrightarrow>
     fits maxArtifactIdentityBytes (RdProblemID r) \<and> fits maxProblemManifestBytes (RdManifest r) \<and>
     fits (maxProblemScriptBytes + 1) (RdSetup r) \<and> fits (maxProblemScriptBytes + 1) (RdVerify r) \<and>
     fits (maxProblemHintBytes + 1) (RdHint r) \<and> fits maxImageLockBytes (RdImagesLock r) \<and>
     fits maxRuntimeImageBytes (RdRuntimeImage r) \<and> fits maxArtifactTrustBytes (RdSourceTrust r) \<and>
     fits (32 * 2) (RdRevision r) \<and> fits maxProblemProjectionBytes (RdProjection r)"

lemma read_full_write: "tx_bind (read_full (length m) e) k (m @ rest) = k m rest"
  by (simp add: tx_bind_def read_full_def)

lemma read_records_write:
  "records_fit (records_of a projection) \<Longrightarrow>
   read_records (artifact_bytes a projection @ rest) = Inr (records_of a projection, rest)"
  by (simp add: read_records_def artifact_bytes_def records_fit_def records_of_def read_full_write)

text \<open>A function with early error returns succeeds when every step on the way does.\<close>

lemma option_step_Inr:
  "(case x of None \<Rightarrow> Inl e | Some y \<Rightarrow> k y) = Inr u \<longleftrightarrow> (\<exists>y. x = Some y \<and> k y = Inr u)"
  "(case x of Some y \<Rightarrow> Inl (f y) | None \<Rightarrow> r) = Inr u \<longleftrightarrow> x = None \<and> r = Inr u"
  by (auto split: option.splits)

lemma sum_step_Inr:
  "(case r of Inl e \<Rightarrow> Inl (f e) | Inr x \<Rightarrow> k x) = Inr u \<longleftrightarrow> (\<exists>x. r = Inr x \<and> k x = Inr u)"
  by (auto split: sum.splits)

lemmas result_chain = guard_Inr option_step_Inr sum_step_Inr sum.inject

text \<open>What a validated artifact looks like.\<close>

lemma validateArtifactOptional_Inr:
  "validateArtifactOptional n f m = Inr u \<longleftrightarrow> (OfPresent f \<or> OfData f = []) \<and> length (OfData f) \<le> m"
  by (auto simp: validateArtifactOptional_def)

lemma validate_source_Inr:
  "validate_source a = Inr u \<longleftrightarrow>
     AcManifest a \<noteq> None \<and> AcImagesLock a \<noteq> None \<and> length (elems (AcManifest a)) \<le> maxProblemManifestBytes \<and>
     length (elems (AcImagesLock a)) \<le> maxImageLockBytes \<and>
     validateArtifactOptional ''setup.sh'' (AcSetup a) maxProblemScriptBytes = Inr () \<and>
     validateArtifactOptional ''verify.sh'' (AcVerify a) maxProblemScriptBytes = Inr () \<and>
     validateArtifactOptional ''hint.md'' (AcHint a) maxProblemHintBytes = Inr () \<and>
     length (elems (AcManifest a)) + length (OfData (AcSetup a)) + length (OfData (AcVerify a)) +
       length (OfData (AcHint a)) + length (elems (AcImagesLock a)) \<le> maxRuntimeArtifactBytes \<and>
     AcSourceTrust a = BundleSourceDevelopmentCheckout \<and> validImageContentID (AcRuntimeImage a) \<and>
     \<not> projection_prohibited (AcProblem a)"
  unfolding validate_source_def guard_chain by (simp add: not_less)

lemma artifact_files_text:
  "file_text (artifact_files a) ''problem.yaml'' = elems (AcManifest a)"
  "file_text (artifact_files a) ''hint.md'' = (if OfPresent (AcHint a) then OfData (AcHint a) else [])"
  "file_text (artifact_files a) ''setup.sh'' = (if OfPresent (AcSetup a) then OfData (AcSetup a) else [])"
  "file_text (artifact_files a) ''verify.sh'' = (if OfPresent (AcVerify a) then OfData (AcVerify a) else [])"
  by (simp_all add: artifact_files_def file_text_def artifactOptionalBytes_def)

text \<open>The problem a validated artifact carries is the one its sources parse to.\<close>

definition sourced_problem :: "captured_artifact \<Rightarrow> problem_yaml \<Rightarrow> problem" where
  "sourced_problem a py =
     problem_of_yaml py (copy_slice (PyChoices py)) (file_text (artifact_files a) ''hint.md'')
       \<lparr> PbRevision := artifact_revision a \<rparr>"

lemma validate_Inr:
  "validateCapturedRuntimeArtifact yaml a = Inr b \<longleftrightarrow>
     validate_source a = Inr () \<and>
     (\<exists>py policy. yaml (elems (AcManifest a)) = Some py \<and>
        parseApprovedImagePolicy (elems (AcImagesLock a)) = Inr policy \<and>
        validateApprovedImagePolicy (artifact_files a) policy = None \<and>
        \<not> (PbVerifyType (sourced_problem a py) = ''script'' \<and> TrimSpace (file_text (artifact_files a) ''verify.sh'') = []) \<and>
        validateLoadedProblem (sourced_problem a py) = [] \<and>
        AcRevision a = artifact_revision a \<and> PbRevision (AcProblem a) = artifact_revision a \<and>
        runtimeProblemProjectionEqual (sourced_problem a py) (AcProblem a) \<and>
        b = \<lparr> RbProblem = sourced_problem a py, RbSetupScript = file_text (artifact_files a) ''setup.sh'',
              RbVerifyScript = file_text (artifact_files a) ''verify.sh'', RbRevision = artifact_revision a,
              RbRuntimeImage = AcRuntimeImage a, RbSourceTrust = AcSourceTrust a \<rparr>)"
proof -
  have loaded: "validateLoadedProblem (p \<lparr> PbRevision := r \<rparr>) = validateLoadedProblem p" for p r
    by (simp add: validateLoadedProblem_def validateProblem_def)
  have chain: "validateCapturedRuntimeArtifact yaml a = Inr b \<longleftrightarrow>
     (\<exists>u. validate_source a = Inr u) \<and>
     (\<exists>py. yaml (elems (AcManifest a)) = Some py \<and>
      (\<exists>policy. parseApprovedImagePolicy (elems (AcImagesLock a)) = Inr policy \<and>
        validateApprovedImagePolicy (artifact_files a) policy = None \<and>
        (let problem = problem_of_yaml py (copy_slice (PyChoices py)) (file_text (artifact_files a) ''hint.md'') in
         \<not> (PbVerifyType problem = ''script'' \<and> TrimSpace (file_text (artifact_files a) ''verify.sh'') = []) \<and>
         \<not> validateLoadedProblem problem \<noteq> [] \<and>
         \<not> (AcRevision a \<noteq> artifact_revision a \<or> PbRevision (AcProblem a) \<noteq> artifact_revision a) \<and>
         \<not> \<not> runtimeProblemProjectionEqual (problem \<lparr> PbRevision := artifact_revision a \<rparr>) (AcProblem a) \<and>
         \<lparr> RbProblem = problem \<lparr> PbRevision := artifact_revision a \<rparr>,
           RbSetupScript = file_text (artifact_files a) ''setup.sh'',
           RbVerifyScript = file_text (artifact_files a) ''verify.sh'', RbRevision = artifact_revision a,
           RbRuntimeImage = AcRuntimeImage a, RbSourceTrust = AcSourceTrust a \<rparr> = b)))"
    unfolding validateCapturedRuntimeArtifact_def Let_def result_chain artifact_files_text(1) by simp
  show ?thesis
    unfolding chain by (simp add: sourced_problem_def loaded Let_def) metis
qed

lemma projection_equal_clone [simp]:
  "runtimeProblemProjectionEqual p (cloneProblem q) = runtimeProblemProjectionEqual p q"
  by (simp add: runtimeProblemProjectionEqual_def cloneProblem_def)

lemma clone_artifact_fields [simp]:
  "artifact_files (cloneCapturedRuntimeArtifact a) = artifact_files a"
  "artifact_revision (cloneCapturedRuntimeArtifact a) = artifact_revision a"
  "AcSetup (cloneCapturedRuntimeArtifact a) = AcSetup a" "AcVerify (cloneCapturedRuntimeArtifact a) = AcVerify a"
  "AcHint (cloneCapturedRuntimeArtifact a) = AcHint a"
  "AcManifest (cloneCapturedRuntimeArtifact a) = AcManifest a"
  "AcImagesLock (cloneCapturedRuntimeArtifact a) = AcImagesLock a"
  "AcProblem (cloneCapturedRuntimeArtifact a) = cloneProblem (AcProblem a)"
  "AcRevision (cloneCapturedRuntimeArtifact a) = AcRevision a"
  "AcRuntimeImage (cloneCapturedRuntimeArtifact a) = AcRuntimeImage a"
  "AcSourceTrust (cloneCapturedRuntimeArtifact a) = AcSourceTrust a"
  by (simp_all add: cloneCapturedRuntimeArtifact_def artifact_files_def artifact_revision_def)

lemma prohibited_clone [simp]: "projection_prohibited (cloneProblem p) = projection_prohibited p"
  by (simp add: projection_prohibited_def cloneProblem_def)

lemma validate_clone [simp]:
  "validateCapturedRuntimeArtifact yaml (cloneCapturedRuntimeArtifact a) = validateCapturedRuntimeArtifact yaml a"
proof -
  have "validate_source (cloneCapturedRuntimeArtifact a) = validate_source a"
    unfolding validate_source_def clone_artifact_fields prohibited_clone by (rule refl)
  then show ?thesis
    unfolding validateCapturedRuntimeArtifact_def clone_artifact_fields projection_equal_clone
      cloneProblem_fields by simp
qed

lemma encode_clone [simp]:
  "EncodeRuntimeArtifact yaml (cloneCapturedRuntimeArtifact a) = EncodeRuntimeArtifact yaml a"
proof -
  have bytes: "projection_bytes (cloneProblem p) = projection_bytes p" for p
    by (simp add: projection_bytes_def cloneProblem_def)
  have projection: "encodeProblemProjection (cloneProblem p) = encodeProblemProjection p" for p
    unfolding encodeProblemProjection_def bytes by simp
  have whole: "artifact_bytes (cloneCapturedRuntimeArtifact a) q = artifact_bytes a q" for q
    unfolding artifact_bytes_def clone_artifact_fields by simp
  show ?thesis
    unfolding EncodeRuntimeArtifact_def validate_clone clone_artifact_fields projection whole by (rule refl)
qed

lemma encode_Inr:
  "EncodeRuntimeArtifact yaml a = Inr (data, ref) \<longleftrightarrow>
     (\<exists>b. validateCapturedRuntimeArtifact yaml a = Inr b) \<and> \<not> projection_prohibited (AcProblem a) \<and>
     length (elems (PbChoices (AcProblem a))) \<le> maxArtifactChoiceCount \<and>
     length (projection_bytes (AcProblem a)) \<le> maxProblemProjectionBytes \<and>
     data = artifact_bytes a (projection_bytes (AcProblem a)) \<and> length data \<le> maxRuntimeArtifactBytes \<and>
     ref = runtimeArtifactRef data"
  unfolding EncodeRuntimeArtifact_def encodeProblemProjection_def Let_def result_chain
  by (auto simp: not_less)

text \<open>The fields a validated problem takes from its manifest without a bound of their own.\<close>

definition authored_fields_fit :: "problem \<Rightarrow> bool" where
  "authored_fields_fit p \<longleftrightarrow>
     list_all (\<lambda>s. length s \<le> maxProblemManifestBytes)
       ([PbTitle p, PbDescription p, PbBaseImage p, PbImage p, PbCorrectChoice p, PbGradingPrompt p] @
        concat (map (\<lambda>c. [ChID c, ChText c]) (elems (PbChoices p))))"

lemma projection_equal_fields:
  assumes "runtimeProblemProjectionEqual p q"
  shows "PbID q = PbID p" "PbRevision q = PbRevision p" "PbCategory q = PbCategory p" "PbDifficulty q = PbDifficulty p"
    "PbType q = PbType p" "PbVerifyType q = PbVerifyType p" "PbHint q = PbHint p"
  using assms unfolding runtimeProblemProjectionEqual_def by (cases p; cases q; simp)+

lemma length_artifact_revision [simp]: "length (artifact_revision a) = 64"
  by (simp add: artifact_revision_def frozenLegacyRuntimeRevision_def)

text \<open>What validation guarantees of the sizes.\<close>

lemma validated_sizes:
  assumes "validateCapturedRuntimeArtifact yaml a = Inr b"
  shows "length (PbID (AcProblem a)) \<le> 63" "length (PbCategory (AcProblem a)) \<le> 10"
    "length (PbDifficulty (AcProblem a)) \<le> 6" "length (PbType (AcProblem a)) \<le> 6"
    "length (PbVerifyType (AcProblem a)) \<le> 6" "length (PbRevision (AcProblem a)) = 64"
    "length (PbHint (AcProblem a)) \<le> maxProblemHintBytes" "length (AcRevision a) = 64"
    "length (AcRuntimeImage a) = 71" "AcSourceTrust a = BundleSourceDevelopmentCheckout"
proof -
  from assms obtain py where src: "validate_source a = Inr ()"
    and loaded: "validateLoadedProblem (sourced_problem a py) = []"
    and rev: "AcRevision a = artifact_revision a" "PbRevision (AcProblem a) = artifact_revision a"
    and eq: "runtimeProblemProjectionEqual (sourced_problem a py) (AcProblem a)"
    unfolding validate_Inr by blast
  have "validateProblem (sourced_problem a py) = []" using loaded by (simp add: validateLoadedProblem_Nil)
  note short = valid_names_short [OF this]
  show "length (PbID (AcProblem a)) \<le> 63" "length (PbCategory (AcProblem a)) \<le> 10"
    "length (PbDifficulty (AcProblem a)) \<le> 6" "length (PbType (AcProblem a)) \<le> 6"
    "length (PbVerifyType (AcProblem a)) \<le> 6"
    unfolding projection_equal_fields [OF eq] by (rule short)+
  show "length (PbRevision (AcProblem a)) = 64" "length (AcRevision a) = 64" using rev by simp_all
  have "length (OfData (AcHint a)) \<le> maxProblemHintBytes"
    using src by (simp add: validate_source_Inr validateArtifactOptional_Inr)
  then show "length (PbHint (AcProblem a)) \<le> maxProblemHintBytes"
    unfolding projection_equal_fields [OF eq]
    by (simp add: sourced_problem_def problem_of_yaml_def artifact_files_text(2))
  show "length (AcRuntimeImage a) = 71" "AcSourceTrust a = BundleSourceDevelopmentCheckout"
    using src by (simp_all add: validate_source_Inr validImageContentID_def)
qed

lemma encoded_records_fit:
  assumes "EncodeRuntimeArtifact yaml a = Inr (data, ref)"
  shows "records_fit (records_of a (projection_bytes (AcProblem a)))"
proof -
  from assms obtain b where v: "validateCapturedRuntimeArtifact yaml a = Inr b"
    and pb: "length (projection_bytes (AcProblem a)) \<le> maxProblemProjectionBytes"
    unfolding encode_Inr by blast
  have src: "validate_source a = Inr ()" using v unfolding validate_Inr by blast
  note sizes = validated_sizes [OF v]
  show ?thesis
    using src sizes pb
    by (simp add: records_fit_def records_of_def validate_source_Inr validateArtifactOptional_Inr fits_def
        encodeArtifactOptional_def limit_defs BundleSourceDevelopmentCheckout_def)
qed

lemma encoded_projection_fits:
  assumes "EncodeRuntimeArtifact yaml a = Inr (data, ref)"
  shows "projection_fits (AcProblem a) \<longleftrightarrow> authored_fields_fit (AcProblem a)"
proof -
  from assms obtain b where v: "validateCapturedRuntimeArtifact yaml a = Inr b"
    and n: "length (elems (PbChoices (AcProblem a))) \<le> maxArtifactChoiceCount"
    unfolding encode_Inr by blast
  note sizes = validated_sizes [OF v]
  show ?thesis
    using sizes n
    by (auto simp: projection_fits_def authored_fields_fit_def fits_def choice_fits_def list_all_iff limit_defs)
qed

section \<open>Encoding and decoding\<close>

lemma decode_projection_write:
  assumes "\<not> projection_prohibited p" and "length (projection_bytes p) \<le> maxProblemProjectionBytes"
  shows "decodeProblemProjection (projection_bytes p) = Inr q \<longleftrightarrow> projection_fits p \<and> q = cloneProblem p"
proof
  assume "decodeProblemProjection (projection_bytes p) = Inr q"
  then have rq: "read_projection (projection_bytes p) = Inr (q, [])"
    by (auto simp: decodeProblemProjection_def split: sum.splits prod.splits if_splits)
  from read_projection_only [OF rq] have q: "projection_fits q" "\<not> projection_prohibited q"
    "projection_bytes p = projection_bytes q" by simp_all
  have small: "projection_countable p" "projection_countable q"
    using assms(2) q(3) by (simp_all add: projection_countable_def limit_defs)
  have eq: "cloneProblem p = cloneProblem q"
    using projection_bytes_inj [OF small q(3) assms(1) q(2)] .
  have "read_projection (projection_bytes q @ []) = Inr (cloneProblem q, [])"
    using q by (intro read_projection_write)
  then have "q = cloneProblem q" using rq q(3) by simp
  moreover have "projection_fits p = projection_fits q"
  proof -
    have "projection_fits (cloneProblem r) = projection_fits r" for r
      by (simp add: projection_fits_def cloneProblem_def)
    then show ?thesis using eq by metis
  qed
  ultimately show "projection_fits p \<and> q = cloneProblem p" using q(1) eq by simp
next
  assume "projection_fits p \<and> q = cloneProblem p"
  then show "decodeProblemProjection (projection_bytes p) = Inr q"
    using read_projection_write [of p "[]"] assms(1) by (simp add: decodeProblemProjection_def)
qed

lemma artifact_of_encoded:
  assumes "EncodeRuntimeArtifact yaml a = Inr (data, ref)"
  shows "artifact_of_records (records_of a (projection_bytes (AcProblem a))) = Inr a' \<longleftrightarrow>
    projection_fits (AcProblem a) \<and> a' = cloneCapturedRuntimeArtifact a"
proof -
  from assms obtain b where v: "validateCapturedRuntimeArtifact yaml a = Inr b"
    and p: "\<not> projection_prohibited (AcProblem a)"
      "length (projection_bytes (AcProblem a)) \<le> maxProblemProjectionBytes"
    unfolding encode_Inr by blast
  have src: "validate_source a = Inr ()" using v unfolding validate_Inr by blast
  then obtain m l where ml: "AcManifest a = Some m" "AcImagesLock a = Some l"
    by (auto simp: validate_source_Inr)
  have opt: "decodeArtifactOptional n (encodeArtifactOptional f) = Inr f" if "f \<in> {AcSetup a, AcVerify a, AcHint a}" for n f
    using src that decode_encode_optional unfolding validate_source_Inr by blast
  have clone: "a \<lparr> AcManifest := Some m, AcImagesLock := Some l \<rparr> = a" using ml by simp
  show ?thesis
    unfolding artifact_of_records_def records_of_def artifact_records.simps result_chain
      decode_projection_write [OF p] opt [OF insertI1] opt [OF insertI2 [OF insertI1]] opt [OF insertI2 [OF insertI2 [OF insertI1]]]
    using ml by (auto simp: cloneCapturedRuntimeArtifact_def)
qed

lemma validated_bundle_clone:
  "validateCapturedRuntimeArtifact yaml a = Inr b \<Longrightarrow> cloneRuntimeBundle b = b"
  unfolding validate_Inr
  by (auto simp: cloneRuntimeBundle_def cloneProblem_def sourced_problem_def problem_of_yaml_def)

lemma decode_encoded:
  assumes "EncodeRuntimeArtifact yaml a = Inr (data, ref)"
  shows "DecodeRuntimeArtifact yaml ref data =
    (case artifact_of_records (records_of a (projection_bytes (AcProblem a))) of
       Inl e \<Rightarrow> Inl e
     | Inr _ \<Rightarrow> map_sum id (Pair (cloneCapturedRuntimeArtifact a)) (validateCapturedRuntimeArtifact yaml a))"
proof -
  let ?p = "AcProblem a" and ?r = "records_of a (projection_bytes (AcProblem a))"
  from assms obtain b where v: "validateCapturedRuntimeArtifact yaml a = Inr b"
    and data: "data = artifact_bytes a (projection_bytes ?p)" "length data \<le> maxRuntimeArtifactBytes"
    and ref: "ref = runtimeArtifactRef data"
    unfolding encode_Inr by blast
  have rd: "read_records data = Inr (?r, [])"
    using read_records_write [OF encoded_records_fit [OF assms], of "[]"] data(1) by simp
  have vr: "validateRuntimeArtifactRef ref data = Inr ()"
    using ref by (simp add: validateRuntimeArtifactRef_iff)
  note decode = DecodeRuntimeArtifact_def vr rd
  show ?thesis
  proof (cases "artifact_of_records ?r")
    case (Inr a')
    then have "a' = cloneCapturedRuntimeArtifact a" using artifact_of_encoded [OF assms] by simp
    then show ?thesis
      using Inr data(2) v assms validated_bundle_clone [OF v]
      by (simp add: decode cloneCapturedRuntimeArtifact_def [of "cloneCapturedRuntimeArtifact a"])
  qed (use data(2) in \<open>simp add: decode\<close>)
qed

lemma encoded_decodable:
  "EncodeRuntimeArtifact yaml a = Inr (data, ref) \<Longrightarrow>
   (\<exists>a'. artifact_of_records (records_of a (projection_bytes (AcProblem a))) = Inr a') \<longleftrightarrow>
   authored_fields_fit (AcProblem a)"
  using artifact_of_encoded encoded_projection_fits by blast

text \<open>
  C11. The codec of the runtime artifact round-trips: an artifact that was encoded is decoded,
  under the reference the encoder returned, to the artifact itself (with its slice of choices copied) and to the
  bundle validation rebuilds from its sources, provided every field the author wrote in the manifest is within
  the manifest's bound. Without the proviso decoding fails: the encoder bounds the projection as a whole
  and the decoder every string of it.
\<close>

theorem artifact_roundtrip:
  assumes "EncodeRuntimeArtifact yaml a = Inr (data, ref)"
  shows "if authored_fields_fit (AcProblem a)
     then \<exists>b. validateCapturedRuntimeArtifact yaml a = Inr b \<and>
       DecodeRuntimeArtifact yaml ref data = Inr (cloneCapturedRuntimeArtifact a, b)
     else \<exists>e. DecodeRuntimeArtifact yaml ref data = Inl e"
proof -
  let ?r = "artifact_of_records (records_of a (projection_bytes (AcProblem a)))"
  obtain b where v: "validateCapturedRuntimeArtifact yaml a = Inr b"
    using assms unfolding encode_Inr by blast
  have "(\<exists>a'. ?r = Inr a') \<longleftrightarrow> authored_fields_fit (AcProblem a)" using assms by (rule encoded_decodable)
  then show ?thesis
    unfolding decode_encoded [OF assms] v by (cases ?r) auto
qed

lemma decoded_canonical:
  assumes "DecodeRuntimeArtifact yaml ref data = Inr (a, b)"
  shows "validateCapturedRuntimeArtifact yaml a = Inr b" and "EncodeRuntimeArtifact yaml a = Inr (data, ref)"
proof -
  from assms obtain a' b' where a: "a = cloneCapturedRuntimeArtifact a'" "b = cloneRuntimeBundle b'"
    and v: "validateCapturedRuntimeArtifact yaml a' = Inr b'"
    and enc: "EncodeRuntimeArtifact yaml a' = Inr (data, ref)"
    unfolding DecodeRuntimeArtifact_def
    by (auto split: sum.splits prod.splits if_splits)
  have "b = b'" using a(2) validated_bundle_clone [OF v] by simp
  then show "validateCapturedRuntimeArtifact yaml a = Inr b" and "EncodeRuntimeArtifact yaml a = Inr (data, ref)"
    using a v enc by simp_all
qed

text \<open>
  C35. Decoding authenticates: whatever \<open>DecodeRuntimeArtifact\<close> accepts is the canonical encoding of the
  artifact it returns, named by the reference it was given, within the size limit, and the returned bundle is the one
  validation rebuilds from the artifact's own source bytes.
\<close>

theorem decode_is_canonical:
  assumes "DecodeRuntimeArtifact yaml ref data = Inr (a, b)"
  shows "EncodeRuntimeArtifact yaml a = Inr (data, ref) \<and> ref = runtimeArtifactRef data \<and>
    validateCapturedRuntimeArtifact yaml a = Inr b \<and> RbRevision b = artifact_revision a \<and>
    length data \<le> maxRuntimeArtifactBytes"
proof -
  note decoded_canonical [OF assms]
  moreover from this(1) have "RbRevision b = artifact_revision a" unfolding validate_Inr by auto
  moreover from calculation(2) have "length data \<le> maxRuntimeArtifactBytes" "ref = runtimeArtifactRef data"
    unfolding encode_Inr by blast+
  ultimately show ?thesis by simp
qed

section \<open>A concrete artifact\<close>

definition demo_yaml :: "string \<Rightarrow> problem_yaml option" where
  "demo_yaml manifest = Some
     \<lparr> PyID = ''pod-basics'', PyTitle = manifest, PyDescription = [], PyCategory = ''pod'', PyDifficulty = ''easy'',
       PyType = ''fix'', PyTimeoutMinutes = 0, PyVerifyType = ''text'', PyBaseImage = [], PyImage = [],
       PyChoices = None, PyCorrectChoice = [], PyGradingPrompt = [] \<rparr>"

definition demo_absent :: optional_file where
  "demo_absent = \<lparr> OfPresent = False, OfData = [] \<rparr>"

definition demo_runtime_image :: string where
  "demo_runtime_image = ''sha256:'' @ replicate 64 (CHR ''0'')"

definition demo_revision :: string where
  "demo_revision =
     frozenLegacyRuntimeRevision ''#x'' demo_absent demo_absent demo_absent demo_lock demo_runtime_image"

definition demo_artifact :: captured_artifact where
  "demo_artifact =
     \<lparr> AcManifest = Some ''#x'', AcSetup = demo_absent, AcVerify = demo_absent, AcHint = demo_absent,
       AcImagesLock = Some demo_lock,
       AcProblem = problem_of_yaml (the (demo_yaml ''#x'')) None [] \<lparr> PbRevision := demo_revision \<rparr>,
       AcRevision = demo_revision, AcRuntimeImage = demo_runtime_image,
       AcSourceTrust = BundleSourceDevelopmentCheckout \<rparr>"

lemma demo_artifact_files: "artifact_files demo_artifact = [''problem.yaml'' \<mapsto> ''#x'']"
  by (auto simp: artifact_files_def demo_artifact_def demo_absent_def artifactOptionalBytes_def)

lemma demo_artifact_review:
  "validateApprovedImagePolicy [''problem.yaml'' \<mapsto> ''#x''] \<lparr> refs = [demo_image], aliases = [(''web'', demo_image)] \<rparr> = None"
  by code_simp

lemma demo_artifact_revision: "artifact_revision demo_artifact = demo_revision"
  by (simp add: artifact_revision_def demo_artifact_def demo_revision_def)

lemma length_demo_revision [simp]: "length demo_revision = 64"
  by (simp add: demo_revision_def frozenLegacyRuntimeRevision_def)

lemma demo_source: "validate_source demo_artifact = Inr ()"
  by (simp add: validate_source_Inr validateArtifactOptional_Inr demo_artifact_def demo_absent_def limit_defs
      demo_lock_def demo_image_def validImageContentID_iff sha256ContentIDPattern_def demo_runtime_image_def
      is_lower_hex_def is_digit_def list_all_iff projection_prohibited_def problem_of_yaml_def)

lemma demo_validated: "\<exists>b. validateCapturedRuntimeArtifact demo_yaml demo_artifact = Inr b"
proof -
  let ?py = "the (demo_yaml ''#x'')"
  have m: "elems (AcManifest demo_artifact) = ''#x''" "elems (AcImagesLock demo_artifact) = demo_lock"
    by (simp_all add: demo_artifact_def)
  have sp: "sourced_problem demo_artifact ?py =
      problem_of_yaml ?py None [] \<lparr> PbRevision := demo_revision \<rparr>"
    by (simp add: sourced_problem_def demo_artifact_revision demo_artifact_files file_text_def copy_slice_def demo_yaml_def)
  have eq: "sourced_problem demo_artifact ?py = AcProblem demo_artifact"
    unfolding sp by (simp add: demo_artifact_def)
  have loaded: "validateLoadedProblem (sourced_problem demo_artifact ?py) = []"
    unfolding sp
    by (simp add: validateLoadedProblem_Nil validateProblem_Nil problem_of_yaml_def demo_yaml_def validProblemID_def
        id_byte_def is_lower_def is_digit_def validCategory_def validDifficulty_def validType_def validVerify_def
        less_eq_char_def)
  show ?thesis
    unfolding validate_Inr m demo_artifact_files demo_artifact_revision
    using demo_source demo_policy demo_artifact_review loaded eq
    by (auto simp: runtimeProblemProjectionEqual_def demo_artifact_def demo_yaml_def problem_of_yaml_def)
qed

lemma demo_encoded:
  "\<exists>data. EncodeRuntimeArtifact demo_yaml demo_artifact = Inr (data, runtimeArtifactRef data)"
  unfolding encode_Inr using demo_validated
  by (simp add: demo_artifact_def projection_prohibited_def problem_of_yaml_def demo_yaml_def projection_bytes_def
      artifact_bytes_def limit_defs demo_absent_def encodeArtifactOptional_def demo_lock_def demo_image_def
      demo_runtime_image_def runtimeArtifactMagic_def NUL_def BundleSourceDevelopmentCheckout_def DefaultBaseImage_def)

lemma demo_fits: "authored_fields_fit (AcProblem demo_artifact)"
  by (simp add: authored_fields_fit_def demo_artifact_def problem_of_yaml_def demo_yaml_def limit_defs DefaultBaseImage_def)

theorem artifact_roundtrip_witness:
  "\<exists>data b. EncodeRuntimeArtifact demo_yaml demo_artifact = Inr (data, runtimeArtifactRef data) \<and>
     DecodeRuntimeArtifact demo_yaml (runtimeArtifactRef data) data = Inr (cloneCapturedRuntimeArtifact demo_artifact, b)"
proof -
  from demo_encoded obtain data where e: "EncodeRuntimeArtifact demo_yaml demo_artifact = Inr (data, runtimeArtifactRef data)"
    by blast
  from artifact_roundtrip [OF e] demo_fits e show ?thesis by auto
qed

theorem decode_is_canonical_witness:
  "\<exists>data b. DecodeRuntimeArtifact demo_yaml (runtimeArtifactRef data) data =
       Inr (cloneCapturedRuntimeArtifact demo_artifact, b) \<and>
     EncodeRuntimeArtifact demo_yaml (cloneCapturedRuntimeArtifact demo_artifact) = Inr (data, runtimeArtifactRef data)"
proof -
  from demo_encoded obtain data where e: "EncodeRuntimeArtifact demo_yaml demo_artifact = Inr (data, runtimeArtifactRef data)"
    by blast
  obtain a b where "artifact_of_records (records_of demo_artifact (projection_bytes (AcProblem demo_artifact))) = Inr a"
    "validateCapturedRuntimeArtifact demo_yaml demo_artifact = Inr b"
    using encoded_decodable [OF e] demo_fits demo_validated by blast
  then have "DecodeRuntimeArtifact demo_yaml (runtimeArtifactRef data) data = Inr (cloneCapturedRuntimeArtifact demo_artifact, b)"
    unfolding decode_encoded [OF e] by simp
  with decode_is_canonical [OF this] show ?thesis by blast
qed

end
