(* ===== verification/Catalog_Loader.thy ===== *)
theory Catalog_Loader
  imports Artifact_Codec "HOL-Library.List_Lexorder" "HOL-Library.Char_ord"
begin

text \<open>
  The problem catalog of one process (\<open>src/backend/internal/problem/loader.go\<close>): candidates and
  their publication identity, the activation token that publishes a candidate in memory, the history of bundles and
  the lookups of a runtime revision.

  The mutex \<open>publicationMu\<close> is the flag \<open>GlPublishing\<close>: \<open>prepareActivationAt\<close> blocks while it is set
  (the value \<open>None\<close>), keeps it on success, and \<open>Commit\<close> or \<open>Abort\<close> of the token clears it. Each function that
  holds \<open>catalogMu\<close> is one step.
\<close>

section \<open>Data\<close>

record publication_ref =
  PrDigestSchema :: "16 word"
  PrCandidateDigest :: "byte list"

record catalog_head =
  ChGeneration :: u64
  ChRef :: publication_ref
  ChEntryCount :: nat

record catalog_entry =
  CeProblem :: problem
  CeArtifact :: artifact_ref
  CeSourceTrust :: string

text \<open>The maps of a candidate are association lists, keyed by problem.\<close>

record catalog_candidate =
  CcOwner :: nat
  CcBaseGeneration :: u64
  CcIds :: "string list"
  CcBundles :: "(string \<times> runtime_bundle) list"
  CcArtifacts :: "(string \<times> captured_artifact) list"
  CcArtifactBytes :: "(string \<times> string) list"
  CcArtifactRefs :: "(string \<times> artifact_ref) list"

text \<open>A loader; \<open>GlId\<close> is its pointer identity. An absent inner map of the history is an empty one.\<close>

record git_loader =
  GlId :: nat
  GlStrict :: bool
  GlPublishing :: bool
  GlGeneration :: u64
  GlActiveHead :: "catalog_head option"
  GlActive :: "string \<Rightarrow> string option"
  GlHistory :: "string \<Rightarrow> string \<Rightarrow> runtime_bundle option"

record activation_state =
  AsLoader :: "nat option"
  AsCandidate :: "catalog_candidate option"
  AsTarget :: catalog_head
  AsConsumed :: bool

datatype catalog_error =
    ErrCatalogHeadConflict
  | ErrCatalogRollback
  | ErrCatalogStartupMismatch
  | ErrCatalogLegacyActive
  | ErrCatalogPublicationMissing
  | ErrCatalogArtifactBindingMissing
  | ErrCatalogCommitNotApplied
  | ErrCatalogCommitUnknown
  | ErrCatalogAdmissionUnavailable string
  | ErrCatalogActivationConsumed
  | ErrInvalidCatalogActivation
  | ErrInvalidProblemRevision
  | CandidateInconsistent
  | CandidateDuplicate string
  | CandidateInvalidBundle string
  | CandidateNoArtifact string
  | CandidateNil
  | CandidateForeign
  | CandidateStale
  | LoaderNotStrict
  | TargetMismatch
  | RevisionRebound string string
  | EntryCountInvalid
  | EntryInvalid string
  | EntryDuplicate string
  | StoreFailed
  | CheckoutRejected string
  | ArtifactRejected artifact_error
  | ArtifactDiffers string
  | CaptureChanged
  | ContextDone
  | SqlFailed string

section \<open>The identity of a candidate\<close>

definition writeCatalogUint16 :: "16 word \<Rightarrow> string" where
  "writeCatalogUint16 value = be_put 2 (unat value)"

definition writeCatalogUint64 :: "u64 \<Rightarrow> string" where
  "writeCatalogUint64 value = be_put 8 (unat value)"

definition writeCatalogString :: "string \<Rightarrow> string" where
  "writeCatalogString value = writeCatalogUint64 (word_of_nat (length value)) @ value"

definition digest_text :: "byte list \<Rightarrow> string" where
  "digest_text d = map (\<lambda>b. char_of (unat b)) d"

definition catalogCandidateDigestDomain :: string where
  "catalogCandidateDigestDomain = ''k8s-quiz.problem-catalog'' @ NUL"

definition catalogCandidateDigestSchema :: "16 word" where
  "catalogCandidateDigestSchema = 2"

definition legacyCatalogDigestSchema :: "16 word" where
  "legacyCatalogDigestSchema = 1"

definition bundle_unbound :: "string \<Rightarrow> runtime_bundle \<Rightarrow> bool" where
  "bundle_unbound i b \<longleftrightarrow> PbID (RbProblem b) \<noteq> i \<or> RbRevision b = [] \<or> PbRevision (RbProblem b) \<noteq> RbRevision b"

text \<open>What the digest covers of one problem, and of one problem in the metadata-only schema 1.\<close>

definition identity_entry :: "string \<Rightarrow> runtime_bundle \<Rightarrow> artifact_ref \<Rightarrow> string" where
  "identity_entry i b r =
     writeCatalogString i @ writeCatalogString (RbRevision b) @ writeCatalogUint16 (ArDigestSchema r) @
     digest_text (ArDigest r) @ writeCatalogString (ArMediaType r) @ writeCatalogUint64 (uint64 (ArSize r)) @
     writeCatalogString (RbSourceTrust b)"

definition legacy_entry :: "string \<Rightarrow> runtime_bundle \<Rightarrow> string" where
  "legacy_entry i b = writeCatalogString i @ writeCatalogString (RbRevision b)"

text \<open>The loop over the sorted identifiers; \<open>prev\<close> is the one before.\<close>

fun identity_loop :: "catalog_candidate \<Rightarrow> string option \<Rightarrow> string list \<Rightarrow> catalog_error + string" where
  "identity_loop c prev [] = Inr []"
| "identity_loop c prev (i # is) =
     (if prev = Some i then Inl (CandidateDuplicate i)
      else (case map_of (CcBundles c) i of None \<Rightarrow> Inl (CandidateInvalidBundle i) | Some b \<Rightarrow>
        if bundle_unbound i b then Inl (CandidateInvalidBundle i)
        else (case map_of (CcArtifactRefs c) i of None \<Rightarrow> Inl (CandidateNoArtifact i) | Some r \<Rightarrow>
          if ArDigestSchema r = 0 \<or> ArMediaType r = [] \<or> ArSize r \<le> 0 then Inl (CandidateNoArtifact i)
          else (case identity_loop c (Some i) is of Inl e \<Rightarrow> Inl e | Inr rest \<Rightarrow> Inr (identity_entry i b r @ rest)))))"

fun legacy_loop :: "catalog_candidate \<Rightarrow> string option \<Rightarrow> string list \<Rightarrow> catalog_error + string" where
  "legacy_loop c prev [] = Inr []"
| "legacy_loop c prev (i # is) =
     (if prev = Some i then Inl (CandidateDuplicate i)
      else (case map_of (CcBundles c) i of None \<Rightarrow> Inl (CandidateInvalidBundle i) | Some b \<Rightarrow>
        if bundle_unbound i b then Inl (CandidateInvalidBundle i)
        else (case legacy_loop c (Some i) is of Inl e \<Rightarrow> Inl e | Inr rest \<Rightarrow> Inr (legacy_entry i b @ rest))))"

definition identity_header :: "16 word \<Rightarrow> nat \<Rightarrow> string" where
  "identity_header schema n =
     catalogCandidateDigestDomain @ writeCatalogUint16 schema @ writeCatalogUint64 (word_of_nat n)"

text \<open>The bytes that are hashed.\<close>

definition identity_stream :: "catalog_candidate \<Rightarrow> catalog_error + string" where
  "identity_stream c =
     (if length (CcIds c) \<noteq> length (CcBundles c) then Inl CandidateInconsistent
      else (case identity_loop c None (sort (CcIds c)) of Inl e \<Rightarrow> Inl e | Inr body \<Rightarrow>
        Inr (identity_header catalogCandidateDigestSchema (length (CcIds c)) @ body)))"

definition legacy_stream :: "catalog_candidate \<Rightarrow> catalog_error + string" where
  "legacy_stream c =
     (if length (CcIds c) \<noteq> length (CcBundles c) then Inl CandidateInconsistent
      else (case legacy_loop c None (sort (CcIds c)) of Inl e \<Rightarrow> Inl e | Inr body \<Rightarrow>
        Inr (identity_header legacyCatalogDigestSchema (length (CcIds c)) @ body)))"

definition Identity :: "catalog_candidate \<Rightarrow> catalog_error + publication_ref" where
  "Identity c =
     (case identity_stream c of Inl e \<Rightarrow> Inl e | Inr s \<Rightarrow>
       Inr \<lparr> PrDigestSchema = catalogCandidateDigestSchema, PrCandidateDigest = sha256_string s \<rparr>)"

definition legacyIdentity :: "catalog_candidate \<Rightarrow> catalog_error + publication_ref" where
  "legacyIdentity c =
     (case legacy_stream c of Inl e \<Rightarrow> Inl e | Inr s \<Rightarrow>
       Inr \<lparr> PrDigestSchema = legacyCatalogDigestSchema, PrCandidateDigest = sha256_string s \<rparr>)"

section \<open>The inventory of a candidate\<close>

text \<open>Indexing a Go map without the key gives the zero value of its element type.\<close>

definition zero_problem :: problem where
  "zero_problem =
     \<lparr> PbID = [], PbRevision = [], PbCatalogActive = False, PbTitle = [], PbDescription = [], PbCategory = [],
       PbDifficulty = [], PbType = [], PbTimeoutMinutes = 0, PbVerifyType = [], PbBaseImage = [], PbImage = [],
       PbChoices = None, PbCorrectChoice = [], PbHint = [], PbGradingPrompt = [], PbCreatedAt = zero_time,
       PbUpdatedAt = zero_time \<rparr>"

definition zero_bundle :: runtime_bundle where
  "zero_bundle =
     \<lparr> RbProblem = zero_problem, RbSetupScript = [], RbVerifyScript = [], RbRevision = [], RbRuntimeImage = [],
       RbSourceTrust = [] \<rparr>"

definition zero_ref :: artifact_ref where
  "zero_ref = \<lparr> ArDigestSchema = 0, ArDigest = replicate 32 0, ArMediaType = [], ArSize = 0 \<rparr>"

definition candidate_bundle :: "catalog_candidate \<Rightarrow> string \<Rightarrow> runtime_bundle" where
  "candidate_bundle c i = (case map_of (CcBundles c) i of None \<Rightarrow> zero_bundle | Some b \<Rightarrow> b)"

definition Problems :: "catalog_candidate \<Rightarrow> problem list" where
  "Problems c = map (\<lambda>i. cloneProblem (RbProblem (candidate_bundle c i))) (CcIds c)"

definition Entries :: "catalog_candidate \<Rightarrow> catalog_entry list" where
  "Entries c =
     map (\<lambda>i. \<lparr> CeProblem = cloneProblem (RbProblem (candidate_bundle c i)),
               CeArtifact = (case map_of (CcArtifactRefs c) i of None \<Rightarrow> zero_ref | Some r \<Rightarrow> r),
               CeSourceTrust = RbSourceTrust (candidate_bundle c i) \<rparr>) (CcIds c)"

definition NewRuntimeGitLoader :: "nat \<Rightarrow> git_loader" where
  "NewRuntimeGitLoader identity =
     \<lparr> GlId = identity, GlStrict = True, GlPublishing = False, GlGeneration = 0, GlActiveHead = None,
       GlActive = Map.empty, GlHistory = (\<lambda>_. Map.empty) \<rparr>"

section \<open>Activation\<close>

text \<open>The check of one candidate bundle against the history.\<close>

definition check_binding :: "git_loader \<Rightarrow> catalog_candidate \<Rightarrow> string \<Rightarrow> catalog_error option" where
  "check_binding l c i =
     (let b = candidate_bundle c i in
      if bundle_unbound i b then Some (CandidateInvalidBundle i)
      else (case GlHistory l i (RbRevision b) of
          Some existing \<Rightarrow> if existing \<noteq> b then Some (RevisionRebound (RbRevision b) i) else None
        | None \<Rightarrow> None))"

definition identity_matches :: "catalog_candidate \<Rightarrow> publication_ref \<Rightarrow> publication_ref \<Rightarrow> bool" where
  "identity_matches c identity ref \<longleftrightarrow>
     ref = identity \<or> PrDigestSchema ref = legacyCatalogDigestSchema \<and> legacyIdentity c = Inr ref"

definition prepareActivationAt ::
  "git_loader \<Rightarrow> catalog_candidate option \<Rightarrow> catalog_head \<Rightarrow> ((catalog_error + activation_state) \<times> git_loader) option" where
  "prepareActivationAt l candidate target =
     (if \<not> GlStrict l then Some (Inl LoaderNotStrict, l)
      else (case candidate of None \<Rightarrow> Some (Inl CandidateForeign, l) | Some c \<Rightarrow>
        if CcOwner c \<noteq> GlId l then Some (Inl CandidateForeign, l)
        else (case Identity c of Inl e \<Rightarrow> Some (Inl e, l) | Inr identity \<Rightarrow>
          if ChGeneration target = 0 \<or> \<not> identity_matches c identity (ChRef target) \<or>
             ChEntryCount target \<noteq> length (CcIds c)
            then Some (Inl TargetMismatch, l)
          else if GlPublishing l then None
          else if CcBaseGeneration c \<noteq> GlGeneration l then Some (Inl CandidateStale, l)
          else (case first_error (check_binding l c) (CcIds c) of
              Some e \<Rightarrow> Some (Inl e, l)
            | None \<Rightarrow> Some (Inr \<lparr> AsLoader = Some (GlId l), AsCandidate = Some c, AsTarget = target, AsConsumed = False \<rparr>,
                            l \<lparr> GlPublishing := True \<rparr>)))))"

definition prepareActivation ::
  "git_loader \<Rightarrow> catalog_candidate option \<Rightarrow> ((catalog_error + activation_state) \<times> git_loader) option" where
  "prepareActivation l candidate =
     (case candidate of None \<Rightarrow> Some (Inl CandidateNil, l) | Some c \<Rightarrow>
       (case Identity c of Inl e \<Rightarrow> Some (Inl e, l) | Inr ref \<Rightarrow>
         prepareActivationAt l candidate
           \<lparr> ChGeneration = CcBaseGeneration c + 1, ChRef = ref, ChEntryCount = length (CcIds c) \<rparr>))"

text \<open>The publication of the candidate's bundles: the history gains them and they become the active map.\<close>

definition install_candidate :: "catalog_candidate \<Rightarrow> git_loader \<Rightarrow> string \<Rightarrow> git_loader" where
  "install_candidate c l i =
     (let b = cloneRuntimeBundle (candidate_bundle c i) in
      l \<lparr> GlHistory := (GlHistory l)(i := (GlHistory l i)(RbRevision b := Some b)),
         GlActive := (GlActive l)(i := Some (RbRevision b)) \<rparr>)"

definition Commit ::
  "git_loader \<Rightarrow> activation_state option \<Rightarrow> catalog_error + git_loader \<times> activation_state" where
  "Commit l token =
     (case token of None \<Rightarrow> Inl ErrInvalidCatalogActivation | Some a \<Rightarrow>
       if AsLoader a = None \<or> AsCandidate a = None then Inl ErrInvalidCatalogActivation
       else if AsConsumed a then Inl ErrCatalogActivationConsumed
       else
         (let c = the (AsCandidate a);
              l' = foldl (install_candidate c) (l \<lparr> GlActive := Map.empty \<rparr>) (CcIds c)
          in Inr (l' \<lparr> GlGeneration := ChGeneration (AsTarget a), GlActiveHead := Some (AsTarget a), GlPublishing := False \<rparr>,
                  a \<lparr> AsConsumed := True \<rparr>)))"

definition Abort ::
  "git_loader \<Rightarrow> activation_state option \<Rightarrow> catalog_error + git_loader \<times> activation_state" where
  "Abort l token =
     (case token of None \<Rightarrow> Inl ErrInvalidCatalogActivation | Some a \<Rightarrow>
       if AsLoader a = None then Inl ErrInvalidCatalogActivation
       else if AsConsumed a then Inl ErrCatalogActivationConsumed
       else Inr (l \<lparr> GlPublishing := False \<rparr>, a \<lparr> AsConsumed := True \<rparr>))"

section \<open>Lookups\<close>

definition resolveCatalogBundle :: "git_loader \<Rightarrow> problem_ref \<Rightarrow> runtime_bundle option" where
  "resolveCatalogBundle l ref =
     (if \<not> validProblemID (ProblemID ref) \<or> Revision ref = [] then None
      else map_option cloneRuntimeBundle (GlHistory l (ProblemID ref) (Revision ref)))"

record local_docker_runtime =
  LrRevision :: string
  LrImage :: string
  LrSetupScript :: string
  LrVerifyScript :: string
  LrVerifyType :: string

definition localRuntimeFromBundle :: "runtime_bundle \<Rightarrow> local_docker_runtime" where
  "localRuntimeFromBundle b =
     \<lparr> LrRevision = RbRevision b,
       LrImage = (if RbRuntimeImage b = [] then EffectiveImage (RbProblem b) else RbRuntimeImage b),
       LrSetupScript = RbSetupScript b, LrVerifyScript = RbVerifyScript b,
       LrVerifyType = PbVerifyType (RbProblem b) \<rparr>"

text \<open>
  The file-only loader of authoring tools reads the checkout on every call: \<open>getRuntimeBundle\<close> is a parameter of
  the two lookups that both kinds of loader share.
\<close>

definition ResolveRuntime ::
  "(string \<Rightarrow> catalog_error + runtime_bundle) \<Rightarrow> git_loader \<Rightarrow> problem_ref \<Rightarrow> catalog_error + local_docker_runtime" where
  "ResolveRuntime getRuntimeBundle l ref =
     (if GlStrict l then
        (case resolveCatalogBundle l ref of
           None \<Rightarrow> Inl ErrInvalidProblemRevision
         | Some b \<Rightarrow> Inr (localRuntimeFromBundle b))
      else (case getRuntimeBundle (ProblemID ref) of Inl e \<Rightarrow> Inl e | Inr b \<Rightarrow>
        if Revision ref = [] \<or> RbRevision b \<noteq> Revision ref then Inl ErrInvalidProblemRevision
        else Inr (localRuntimeFromBundle b)))"

definition ResolveProblem ::
  "(string \<Rightarrow> catalog_error + runtime_bundle) \<Rightarrow> git_loader \<Rightarrow> problem_ref \<Rightarrow> catalog_error + problem" where
  "ResolveProblem getRuntimeBundle l ref =
     (if GlStrict l then
        (case resolveCatalogBundle l ref of
           None \<Rightarrow> Inl ErrInvalidProblemRevision
         | Some b \<Rightarrow> Inr (cloneProblem (RbProblem b)))
      else (case getRuntimeBundle (ProblemID ref) of Inl e \<Rightarrow> Inl e | Inr b \<Rightarrow>
        if Revision ref = [] \<or> RbRevision b \<noteq> Revision ref then Inl ErrInvalidProblemRevision
        else Inr (cloneProblem (RbProblem b))))"

definition ResolveActiveProblem ::
  "(string \<Rightarrow> catalog_error + runtime_bundle) \<Rightarrow> git_loader \<Rightarrow> problem_ref \<Rightarrow> catalog_error + problem" where
  "ResolveActiveProblem getRuntimeBundle l ref =
     (if \<not> GlStrict l then ResolveProblem getRuntimeBundle l ref
      else if \<not> validProblemID (ProblemID ref) \<or> Revision ref = [] then Inl ErrInvalidProblemRevision
      else (case GlHistory l (ProblemID ref) (Revision ref) of
          None \<Rightarrow> Inl ErrInvalidProblemRevision
        | Some b \<Rightarrow>
            if GlActive l (ProblemID ref) \<noteq> Some (Revision ref) then Inl ErrInvalidProblemRevision
            else Inr (cloneProblem (RbProblem b))))"

definition installHistoricalBundle :: "git_loader \<Rightarrow> runtime_bundle \<Rightarrow> catalog_error + git_loader" where
  "installHistoricalBundle l b =
     (let i = PbID (RbProblem b); rev = RbRevision b in
      if \<not> GlStrict l \<or> \<not> validProblemID i \<or> rev = [] \<or> PbRevision (RbProblem b) \<noteq> rev
        then Inl ErrInvalidProblemRevision
      else (case GlHistory l i rev of
          Some existing \<Rightarrow> if existing \<noteq> b then Inl (RevisionRebound rev i) else Inr l
        | None \<Rightarrow> Inr (l \<lparr> GlHistory := (GlHistory l)(i := (GlHistory l i)(rev := Some (cloneRuntimeBundle b))) \<rparr>)))"

end
