(* ===== verification/Catalog_Identity.thy ===== *)
theory Catalog_Identity
  imports Artifact_Roundtrip Catalog_Loader
begin

text \<open>
  What the catalog's digests identify. The bytes behind a problem's revision and behind a publication's identity are
  self-delimiting, so two equal streams have the same content; with a hash that does not collide
  on the two streams at hand, equal digests do.
\<close>

section \<open>The revision\<close>

lemma takeWhile_digits: "takeWhile is_digit (dec_nat n @ CHR 0x00 # s) = dec_nat n"
proof -
  have "takeWhile is_digit (ds @ CHR 0x00 # s) = ds" if "\<forall>c \<in> set ds. is_digit c" for ds
    using that by (induction ds) (simp_all add: is_digit_def less_eq_char_def)
  then show ?thesis using dec_nat_digits by blast
qed

interpretation decimal: delimited "\<lambda>n. dec_nat n @ NUL" "\<lambda>_. True"
proof
  fix m n :: nat and s t
  assume "(dec_nat m @ NUL) @ s = (dec_nat n @ NUL) @ t"
  then have eq: "dec_nat m @ CHR 0x00 # s = dec_nat n @ CHR 0x00 # t" by (simp add: NUL_def)
  then have "dec_nat m = dec_nat n" by (metis takeWhile_digits)
  with eq show "m = n \<and> s = t" by (simp add: dec_nat_inj)
qed

text \<open>A decimal length and that many bytes.\<close>

interpretation counted: delimited "\<lambda>d. dec_nat (length d) @ NUL @ d @ NUL" "\<lambda>_. True"
proof
  fix d e s t :: string
  assume "(dec_nat (length d) @ NUL @ d @ NUL) @ s = (dec_nat (length e) @ NUL @ e @ NUL) @ t"
  then have "(dec_nat (length d) @ NUL) @ d @ NUL @ s = (dec_nat (length e) @ NUL) @ e @ NUL @ t" by simp
  from decimal.cancel [OF _ _ this] have "length d = length e" "d @ NUL @ s = e @ NUL @ t" by simp_all
  then show "d = e \<and> s = t" by simp
qed

interpretation revision_file: delimited "\<lambda>f :: optional_file. legacy_revision_file name (OfPresent f) (OfData f)"
  "\<lambda>f. OfPresent f \<or> OfData f = []" for name
proof
  fix f g :: optional_file and s t
  assume ok: "OfPresent f \<or> OfData f = []" "OfPresent g \<or> OfData g = []"
    and eq: "legacy_revision_file name (OfPresent f) (OfData f) @ s = legacy_revision_file name (OfPresent g) (OfData g) @ t"
  from eq have p: "OfPresent f = OfPresent g"
    by (simp add: legacy_revision_file_def NUL_def split: if_splits)
  show "f = g \<and> s = t"
  proof (cases "OfPresent f")
    case True
    with p eq have "(dec_nat (length (OfData f)) @ NUL @ OfData f @ NUL) @ s =
        (dec_nat (length (OfData g)) @ NUL @ OfData g @ NUL) @ t"
      by (simp add: legacy_revision_file_def)
    from counted.cancel [OF _ _ this] p show ?thesis by simp
  next
    case False
    with p ok eq show ?thesis by (simp add: legacy_revision_file_def)
  qed
qed

lemma revision_stream_inj:
  assumes "revision_stream m f g h l i = revision_stream m' f' g' h' l' i'"
    and "\<forall>x \<in> {f, g, h, f', g', h'}. OfPresent x \<or> OfData x = []"
  shows "m = m' \<and> f = f' \<and> g = g' \<and> h = h' \<and> l = l' \<and> i = i'"
proof -
  define whole where "whole d = \<lparr> OfPresent = True, OfData = d \<rparr>" for d
  define tail where "tail l i =
    ''images.lock'' @ NUL @ ''1'' @ NUL @ (dec_nat (length l) @ NUL @ l @ NUL) @
    ''runtime-image-content-id'' @ NUL @ ''1'' @ NUL @ (dec_nat (length i) @ NUL @ i @ NUL)" for l i :: string
  have stream: "revision_stream m f g h l i =
      legacy_revision_file ''problem.yaml'' (OfPresent (whole m)) (OfData (whole m)) @
      legacy_revision_file ''setup.sh'' (OfPresent f) (OfData f) @
      legacy_revision_file ''verify.sh'' (OfPresent g) (OfData g) @
      legacy_revision_file ''hint.md'' (OfPresent h) (OfData h) @ tail l i" for m f g h l i
    by (simp add: revision_stream_def whole_def tail_def)
  note files = assms(1) [unfolded stream]
  have one: "whole m = whole m' \<and> legacy_revision_file ''setup.sh'' (OfPresent f) (OfData f) @
      legacy_revision_file ''verify.sh'' (OfPresent g) (OfData g) @
      legacy_revision_file ''hint.md'' (OfPresent h) (OfData h) @ tail l i =
      legacy_revision_file ''setup.sh'' (OfPresent f') (OfData f') @
      legacy_revision_file ''verify.sh'' (OfPresent g') (OfData g') @
      legacy_revision_file ''hint.md'' (OfPresent h') (OfData h') @ tail l' i'"
    using files by (intro revision_file.cancel) (simp_all add: whole_def)
  have two: "f = f' \<and> legacy_revision_file ''verify.sh'' (OfPresent g) (OfData g) @
      legacy_revision_file ''hint.md'' (OfPresent h) (OfData h) @ tail l i =
      legacy_revision_file ''verify.sh'' (OfPresent g') (OfData g') @
      legacy_revision_file ''hint.md'' (OfPresent h') (OfData h') @ tail l' i'"
    using assms(2) one [THEN conjunct2] by (intro revision_file.cancel) blast+
  have three: "g = g' \<and> legacy_revision_file ''hint.md'' (OfPresent h) (OfData h) @ tail l i =
      legacy_revision_file ''hint.md'' (OfPresent h') (OfData h') @ tail l' i'"
    using assms(2) two [THEN conjunct2] by (intro revision_file.cancel) blast+
  have four: "h = h' \<and> tail l i = tail l' i'"
    using assms(2) three [THEN conjunct2] by (intro revision_file.cancel) blast+
  then have "(dec_nat (length l) @ NUL @ l @ NUL) @ ''runtime-image-content-id'' @ NUL @ ''1'' @ NUL @
        (dec_nat (length i) @ NUL @ i @ NUL) =
      (dec_nat (length l') @ NUL @ l' @ NUL) @ ''runtime-image-content-id'' @ NUL @ ''1'' @ NUL @
        (dec_nat (length i') @ NUL @ i' @ NUL)"
    unfolding tail_def by simp
  from counted.cancel [OF _ _ this] have five: "l = l'"
    and "dec_nat (length i) @ NUL @ i @ NUL = dec_nat (length i') @ NUL @ i' @ NUL"
    by simp_all
  from counted.put_inj [OF _ _ this(2)] have "i = i'" by simp
  with one two three four five show ?thesis by (simp add: whole_def)
qed

text \<open>A hash that does not collide on two given inputs.\<close>

definition no_collision :: "string \<Rightarrow> string \<Rightarrow> bool" where
  "no_collision x y \<longleftrightarrow> (sha256_string x = sha256_string y \<longrightarrow> x = y)"

definition artifact_stream :: "captured_artifact \<Rightarrow> string" where
  "artifact_stream a =
     revision_stream (elems (AcManifest a)) (AcSetup a) (AcVerify a) (AcHint a) (elems (AcImagesLock a)) (AcRuntimeImage a)"

lemma hex_byte_inj: "hex_byte a = hex_byte b \<longleftrightarrow> a = b"
proof
  assume "hex_byte a = hex_byte b"
  then have "unat (drop_bit 4 a) = unat (drop_bit 4 b)" "unat (a AND 15) = unat (b AND 15)"
    by (simp_all add: hex_byte_def hex_digit_inj unat_hi_nibble unat_lo_nibble)
  then have "drop_bit 4 a = drop_bit 4 b" "a AND 15 = b AND 15" by (simp_all only: word_unat_eq_iff)
  then have "push_bit 4 (drop_bit 4 a) + (a AND mask 4) = push_bit 4 (drop_bit 4 b) + (b AND mask 4)"
    by (simp add: mask_eq_exp_minus_1)
  then show "a = b" by (simp add: bits_ident take_bit_eq_mask [symmetric])
qed simp

lemma hex_encode_inj: "length a = length b \<Longrightarrow> hex_encode a = hex_encode b \<Longrightarrow> a = b"
proof (induction a b rule: list_induct2)
  case (Cons x xs y ys)
  have two: "length (hex_byte z) = 2" for z by (simp add: hex_byte_def)
  have "hex_byte x @ hex_encode xs = hex_byte y @ hex_encode ys"
    using Cons.prems by (simp add: hex_encode_def)
  then have "hex_byte x = hex_byte y" "hex_encode xs = hex_encode ys" using two by simp_all
  then show ?case using Cons.IH by (simp add: hex_byte_inj)
qed simp

lemma artifact_revision_inj:
  assumes "artifact_revision a = artifact_revision a'" and "no_collision (artifact_stream a) (artifact_stream a')"
  shows "artifact_stream a = artifact_stream a'"
proof -
  have "hex_encode (sha256_string (artifact_stream a)) = hex_encode (sha256_string (artifact_stream a'))"
    using assms(1) by (simp add: artifact_revision_def frozenLegacyRuntimeRevision_def artifact_stream_def)
  then have "sha256_string (artifact_stream a) = sha256_string (artifact_stream a')"
    by (rule hex_encode_inj [rotated]) simp
  then show ?thesis using assms(2) by (simp add: no_collision_def)
qed

text \<open>Two validated artifacts with the same stream have the same sources.\<close>

lemma validated_same_sources:
  assumes "validate_source a = Inr ()" and "validate_source a' = Inr ()" and "artifact_stream a = artifact_stream a'"
  shows "AcManifest a = AcManifest a' \<and> AcSetup a = AcSetup a' \<and> AcVerify a = AcVerify a' \<and> AcHint a = AcHint a' \<and>
    AcImagesLock a = AcImagesLock a' \<and> AcRuntimeImage a = AcRuntimeImage a' \<and> AcSourceTrust a = AcSourceTrust a'"
proof -
  have "\<forall>x \<in> {AcSetup a, AcVerify a, AcHint a, AcSetup a', AcVerify a', AcHint a'}. OfPresent x \<or> OfData x = []"
    using assms(1,2) by (simp add: validate_source_Inr validateArtifactOptional_Inr)
  from revision_stream_inj [OF assms(3) [unfolded artifact_stream_def] this]
  have eq: "elems (AcManifest a) = elems (AcManifest a')" "AcSetup a = AcSetup a'" "AcVerify a = AcVerify a'"
    "AcHint a = AcHint a'" "elems (AcImagesLock a) = elems (AcImagesLock a')" "AcRuntimeImage a = AcRuntimeImage a'"
    by simp_all
  then show ?thesis using assms(1,2) by (auto simp: validate_source_Inr)
qed

text \<open>
  C12. A revision identifies one bundle: two artifacts, stored under any references, that decode
  to bundles with the same revision decode to the same bundle, and their source bytes are the same
  (up to a collision of SHA-256 on the two streams of source bytes).
\<close>

theorem revision_identifies_bundle:
  assumes "DecodeRuntimeArtifact yaml ref data = Inr (a, b)" and "DecodeRuntimeArtifact yaml ref' data' = Inr (a', b')"
    and "RbRevision b = RbRevision b'" and "no_collision (artifact_stream a) (artifact_stream a')"
  shows "b = b' \<and> artifact_files a = artifact_files a' \<and> AcImagesLock a = AcImagesLock a'"
proof -
  have v: "validateCapturedRuntimeArtifact yaml a = Inr b" "validateCapturedRuntimeArtifact yaml a' = Inr b'"
    using assms(1,2) by (auto dest: decoded_canonical)
  have src: "validate_source a = Inr ()" "validate_source a' = Inr ()" using v unfolding validate_Inr by blast+
  have rev: "RbRevision b = artifact_revision a" "RbRevision b' = artifact_revision a'"
    using v unfolding validate_Inr by auto
  have "artifact_revision a = artifact_revision a'" using rev assms(3) by simp
  note stream = artifact_revision_inj [OF this assms(4)]
  note same = validated_same_sources [OF src stream]
  then have files: "artifact_files a = artifact_files a'" by (simp add: artifact_files_def)
  have "sourced_problem a py = sourced_problem a' py" for py
    using files \<open>artifact_revision a = _\<close> by (simp add: sourced_problem_def)
  then have "b = b'" using v files same \<open>artifact_revision a = _\<close> unfolding validate_Inr by auto
  with files same show ?thesis by simp
qed

lemma demo_decoded:
  "\<exists>data b. DecodeRuntimeArtifact demo_yaml (runtimeArtifactRef data) data = Inr (cloneCapturedRuntimeArtifact demo_artifact, b)"
proof -
  from demo_encoded obtain data where e: "EncodeRuntimeArtifact demo_yaml demo_artifact = Inr (data, runtimeArtifactRef data)"
    by blast
  obtain a b where "artifact_of_records (records_of demo_artifact (projection_bytes (AcProblem demo_artifact))) = Inr a"
    "validateCapturedRuntimeArtifact demo_yaml demo_artifact = Inr b"
    using encoded_decodable [OF e] demo_fits demo_validated by blast
  then show ?thesis using decode_encoded [OF e] by auto
qed

theorem revision_identifies_bundle_witness:
  "\<exists>data b. DecodeRuntimeArtifact demo_yaml (runtimeArtifactRef data) data = Inr (cloneCapturedRuntimeArtifact demo_artifact, b) \<and>
     no_collision (artifact_stream (cloneCapturedRuntimeArtifact demo_artifact)) (artifact_stream (cloneCapturedRuntimeArtifact demo_artifact)) \<and> b = b"
proof -
  from demo_decoded obtain data b where
    d: "DecodeRuntimeArtifact demo_yaml (runtimeArtifactRef data) data = Inr (cloneCapturedRuntimeArtifact demo_artifact, b)"
    by blast
  have n: "no_collision s s" for s by (simp add: no_collision_def)
  from revision_identifies_bundle [OF d d refl n] d n show ?thesis by blast
qed

section \<open>The publication identity\<close>

type_synonym inventory_item = "string \<times> string \<times> artifact_ref \<times> string"

definition item_bytes :: "inventory_item \<Rightarrow> string" where
  "item_bytes x = (case x of (i, rv, r, trust) \<Rightarrow>
     writeCatalogString i @ writeCatalogString rv @ writeCatalogUint16 (ArDigestSchema r) @
     digest_text (ArDigest r) @ writeCatalogString (ArMediaType r) @ writeCatalogUint64 (uint64 (ArSize r)) @
     writeCatalogString trust)"

definition item_of :: "catalog_candidate \<Rightarrow> string \<Rightarrow> inventory_item" where
  "item_of c i =
     (i, RbRevision (candidate_bundle c i), the (map_of (CcArtifactRefs c) i), RbSourceTrust (candidate_bundle c i))"

text \<open>What a candidate publishes: each problem with its revision, artifact and trust, in the order of the identifiers.\<close>

definition inventory :: "catalog_candidate \<Rightarrow> inventory_item list" where
  "inventory c = map (item_of c) (sort (CcIds c))"

text \<open>Values a Go program can hold: strings countable by an \<open>int\<close>, a 32-byte digest, a size that is an \<open>int64\<close>.\<close>

definition item_countable :: "inventory_item \<Rightarrow> bool" where
  "item_countable x = (case x of (i, rv, r, trust) \<Rightarrow>
     length i < 2 ^ 63 \<and> length rv < 2 ^ 63 \<and> length (ArMediaType r) < 2 ^ 63 \<and> length trust < 2 ^ 63 \<and>
     length (ArDigest r) = 32 \<and> 0 \<le> ArSize r \<and> ArSize r < 2 ^ 63)"

lemma catalog_writers:
  "writeCatalogString = write_sized" "writeCatalogUint16 = writeUint16" "writeCatalogUint64 = writeUint64"
  by (simp_all add: fun_eq_iff writeCatalogString_def write_sized_def writeCatalogUint16_def writeCatalogUint64_def
      writeUint16_def writeUint64_def)

lemma digest_text_inj: "digest_text d = digest_text e \<longleftrightarrow> d = e"
proof -
  have "inj (\<lambda>b :: byte. char_of (unat b) :: char)"
  proof (rule injI)
    fix a b :: byte
    assume "(char_of (unat a) :: char) = char_of (unat b)"
    then have "unat a mod 256 = unat b mod 256" by (metis of_char_of)
    moreover have "unat a < 256" "unat b < 256" using unsigned_less [where 'a = nat, of a] unsigned_less [where 'a = nat, of b] by simp_all
    ultimately show "a = b" by (simp add: word_unat_eq_iff)
  qed
  then show ?thesis unfolding digest_text_def by (simp add: inj_map_eq_map)
qed

lemma sized_cancel_iff:
  "length a < 2 ^ 63 \<Longrightarrow> length b < 2 ^ 63 \<Longrightarrow> write_sized a @ s = write_sized b @ t \<longleftrightarrow> a = b \<and> s = t"
  using sized.cancel [where a = a and b = b and s = s and t = t and m = "2 ^ 63"] by (auto simp: fits_def)

lemma u16_cancel_iff: "writeUint16 v @ s = writeUint16 w @ t \<longleftrightarrow> v = w \<and> s = t"
  using u16.cancel [where a = v and b = w and s = s and t = t] by blast

lemma uint64_size_inj:
  assumes "0 \<le> x" "x < 2 ^ 63" "0 \<le> y" "y < 2 ^ 63" shows "uint64 x = uint64 y \<longleftrightarrow> x = y"
proof -
  have "int64 (uint64 x) = x" "int64 (uint64 y) = y" using assms by (simp_all add: int64_uint64)
  then show ?thesis by metis
qed

interpretation item: delimited item_bytes item_countable
proof
  fix x y :: inventory_item and s t
  assume "item_countable x" "item_countable y" and eq: "item_bytes x @ s = item_bytes y @ t"
  then obtain i rv r trust j rv' r' trust' where xy: "x = (i, rv, r, trust)" "y = (j, rv', r', trust')"
    by (metis prod_cases4)
  have c: "length i < 2 ^ 63" "length rv < 2 ^ 63" "length (ArMediaType r) < 2 ^ 63" "length trust < 2 ^ 63"
    "length (ArDigest r) = 32" "0 \<le> ArSize r" "ArSize r < 2 ^ 63"
    "length j < 2 ^ 63" "length rv' < 2 ^ 63" "length (ArMediaType r') < 2 ^ 63" "length trust' < 2 ^ 63"
    "length (ArDigest r') = 32" "0 \<le> ArSize r'" "ArSize r' < 2 ^ 63"
    using \<open>item_countable x\<close> \<open>item_countable y\<close> xy by (simp_all add: item_countable_def)
  have d: "length (digest_text (ArDigest r)) = length (digest_text (ArDigest r'))" using c by (simp add: digest_text_def)
  have "i = j \<and> rv = rv' \<and> ArDigestSchema r = ArDigestSchema r' \<and> ArDigest r = ArDigest r' \<and>
      ArMediaType r = ArMediaType r' \<and> uint64 (ArSize r) = uint64 (ArSize r') \<and> trust = trust' \<and> s = t"
    using eq unfolding xy item_bytes_def catalog_writers prod.case append_assoc
    by (simp only: sized_cancel_iff [OF c(1) c(8)] u16_cancel_iff word_cancel_iff(1) sized_cancel_iff [OF c(2) c(9)] append_eq_append_conv [OF disjI1 [OF d]]
        digest_text_inj sized_cancel_iff [OF c(3) c(10)] sized_cancel_iff [OF c(4) c(11)])
  then show "x = y \<and> s = t"
    using c uint64_size_inj [of "ArSize r" "ArSize r'"] by (cases r; cases r') (simp add: xy)
qed

lemma identity_loop_bytes:
  "identity_loop c prev is = Inr body \<Longrightarrow> body = concat (map (item_bytes \<circ> item_of c) is)"
proof (induction "is" arbitrary: prev body)
  case (Cons i "is")
  then obtain b r rest where br: "map_of (CcBundles c) i = Some b" "map_of (CcArtifactRefs c) i = Some r"
    and rest: "identity_loop c (Some i) is = Inr rest" and body: "body = identity_entry i b r @ rest"
    by (auto split: if_splits option.splits sum.splits)
  then show ?case
    using Cons.IH [OF rest] by (simp add: item_bytes_def item_of_def identity_entry_def candidate_bundle_def)
qed simp

lemma identity_stream_bytes:
  "identity_stream c = Inr s \<Longrightarrow>
   s = identity_header catalogCandidateDigestSchema (length (inventory c)) @ concat (map item_bytes (inventory c))"
  by (auto simp: identity_stream_def inventory_def split: if_splits sum.splits dest!: identity_loop_bytes)

text \<open>
  C36. The publication identity identifies the inventory: two candidates with the same \<open>Identity\<close> publish
  the same problems with the same revisions, artifact references and trust (up to a collision of SHA-256 on the two
  encodings), whatever the order in which the candidates list them. The legacy identity of a
  candidate never equals the current identity of any.
\<close>

theorem identity_identifies_inventory:
  assumes "Identity c = Inr ref" and "Identity d = Inr ref"
    and "identity_stream c = Inr s" and "identity_stream d = Inr t" and "no_collision s t"
    and "list_all item_countable (inventory c)" and "list_all item_countable (inventory d)"
    and "length (CcIds c) < 2 ^ 63" and "length (CcIds d) < 2 ^ 63"
  shows "inventory c = inventory d \<and> legacyIdentity e \<noteq> Inr ref"
proof -
  have "sha256_string s = sha256_string t" using assms(1-4) by (auto simp: Identity_def)
  then have "s = t" using assms(5) by (simp add: no_collision_def)
  then have eq: "writeUint64 (word_of_nat (length (inventory c))) @ concat (map item_bytes (inventory c)) @ [] =
      writeUint64 (word_of_nat (length (inventory d))) @ concat (map item_bytes (inventory d)) @ []"
    using identity_stream_bytes [OF assms(3)] identity_stream_bytes [OF assms(4)]
    by (simp add: identity_header_def catalog_writers)
  then have n: "(word_of_nat (length (inventory c)) :: u64) = word_of_nat (length (inventory d))"
    and body: "concat (map item_bytes (inventory c)) @ [] = concat (map item_bytes (inventory d)) @ []"
    by (simp_all only: word_cancel_iff)
  have small: "unat (word_of_nat (length (inventory c)) :: u64) = length (inventory c)"
    "unat (word_of_nat (length (inventory d)) :: u64) = length (inventory d)"
    using assms(8,9) by (simp_all add: inventory_def unat_of_nat)
  have "length (inventory c) = length (inventory d)"
    using arg_cong [OF n, of unat] small by simp
  from item.cancel_list [OF assms(6,7) this body] have "inventory c = inventory d" by simp
  moreover have "PrDigestSchema ref = 2" using assms(1,3) by (auto simp: Identity_def catalogCandidateDigestSchema_def)
  then have "legacyIdentity e \<noteq> Inr ref"
    by (auto simp: legacyIdentity_def legacyCatalogDigestSchema_def split: sum.splits)
  ultimately show ?thesis by simp
qed

definition demo_catalog_bundle :: "string \<Rightarrow> runtime_bundle" where
  "demo_catalog_bundle i =
     \<lparr> RbProblem = problem_of_yaml (the (demo_yaml [])) None [] \<lparr> PbID := i, PbRevision := ''r'' @ i \<rparr>,
       RbSetupScript = [], RbVerifyScript = [], RbRevision = ''r'' @ i, RbRuntimeImage = [],
       RbSourceTrust = BundleSourceDevelopmentCheckout \<rparr>"

definition demo_catalog_ref :: artifact_ref where
  "demo_catalog_ref =
     \<lparr> ArDigestSchema = 1, ArDigest = replicate 32 0, ArMediaType = RuntimeArtifactMediaTypeV1, ArSize = 7 \<rparr>"

definition demo_candidate :: "string list \<Rightarrow> catalog_candidate" where
  "demo_candidate ids =
     \<lparr> CcOwner = 1, CcBaseGeneration = 0, CcIds = ids, CcBundles = map (\<lambda>i. (i, demo_catalog_bundle i)) ids,
       CcArtifacts = [], CcArtifactBytes = [], CcArtifactRefs = map (\<lambda>i. (i, demo_catalog_ref)) ids \<rparr>"

lemma demo_streams:
  "identity_stream (demo_candidate [''a'', ''b'']) = identity_stream (demo_candidate [''b'', ''a''])"
  "\<exists>s. identity_stream (demo_candidate [''a'', ''b'']) = Inr s"
  by (simp_all add: identity_stream_def demo_candidate_def demo_catalog_bundle_def demo_catalog_ref_def bundle_unbound_def
      problem_of_yaml_def demo_yaml_def RuntimeArtifactMediaTypeV1_def less_eq_char_def)

lemma demo_countable:
  "list_all item_countable (inventory (demo_candidate [''a'', ''b'']))"
  "list_all item_countable (inventory (demo_candidate [''b'', ''a'']))"
  by (simp_all add: inventory_def item_of_def item_countable_def candidate_bundle_def demo_candidate_def
      demo_catalog_bundle_def demo_catalog_ref_def RuntimeArtifactMediaTypeV1_def BundleSourceDevelopmentCheckout_def
     )

theorem identity_identifies_inventory_witness:
  "\<exists>ref. Identity (demo_candidate [''a'', ''b'']) = Inr ref \<and> Identity (demo_candidate [''b'', ''a'']) = Inr ref \<and>
     inventory (demo_candidate [''a'', ''b'']) = inventory (demo_candidate [''b'', ''a''])"
proof -
  from demo_streams obtain s where s: "identity_stream (demo_candidate [''a'', ''b'']) = Inr s"
    "identity_stream (demo_candidate [''b'', ''a'']) = Inr s" by auto
  then obtain ref where r: "Identity (demo_candidate [''a'', ''b'']) = Inr ref" "Identity (demo_candidate [''b'', ''a'']) = Inr ref"
    by (simp add: Identity_def)
  have "no_collision s s" by (simp add: no_collision_def)
  from identity_identifies_inventory [OF r s this demo_countable] r show ?thesis
    by (simp add: demo_candidate_def)
qed

end
