(* ===== verification/Catalog_Activation.thy ===== *)
theory Catalog_Activation
  imports Catalog_Identity
begin

text \<open>
  The loader as a transition system: any number of goroutines prepare, commit and abort activations and install
  historical bundles, in any interleaving. A state is the loader with every activation token it ever issued.

  The steps carry the set of bundles that may enter. The history is append-only when the set is content-addressed,
  that is when a problem and a revision name one bundle of it, which is what the artifact codec provides.
\<close>

section \<open>Steps\<close>

record loader_sys =
  LsLoader :: git_loader
  LsTokens :: "activation_state list"

inductive loader_step :: "runtime_bundle set \<Rightarrow> loader_sys \<Rightarrow> loader_sys \<Rightarrow> bool" for U where
  prepared: "prepareActivationAt (LsLoader s) (Some c) target = Some (Inr a, l') \<Longrightarrow>
    candidate_bundle c ` set (CcIds c) \<subseteq> U \<Longrightarrow>
    loader_step U s \<lparr> LsLoader = l', LsTokens = LsTokens s @ [a] \<rparr>"
| refused: "prepareActivationAt (LsLoader s) candidate target = Some (Inl e, l') \<Longrightarrow>
    loader_step U s \<lparr> LsLoader = l', LsTokens = LsTokens s \<rparr>"
| committed: "i < length (LsTokens s) \<Longrightarrow> Commit (LsLoader s) (Some (LsTokens s ! i)) = Inr (l', a') \<Longrightarrow>
    loader_step U s \<lparr> LsLoader = l', LsTokens = (LsTokens s)[i := a'] \<rparr>"
| aborted: "i < length (LsTokens s) \<Longrightarrow> Abort (LsLoader s) (Some (LsTokens s ! i)) = Inr (l', a') \<Longrightarrow>
    loader_step U s \<lparr> LsLoader = l', LsTokens = (LsTokens s)[i := a'] \<rparr>"
| installed: "installHistoricalBundle (LsLoader s) b = Inr l' \<Longrightarrow> b \<in> U \<Longrightarrow>
    loader_step U s \<lparr> LsLoader = l', LsTokens = LsTokens s \<rparr>"

inductive loader_run :: "runtime_bundle set \<Rightarrow> loader_sys \<Rightarrow> loader_sys \<Rightarrow> bool" for U where
  stay: "loader_run U s s"
| more: "loader_run U s t \<Longrightarrow> loader_step U t u \<Longrightarrow> loader_run U s u"

definition initial_sys :: "nat \<Rightarrow> loader_sys" where
  "initial_sys n = \<lparr> LsLoader = NewRuntimeGitLoader n, LsTokens = [] \<rparr>"

section \<open>What each operation does\<close>

lemma foldl_install:
  "GlHistory (foldl (install_candidate c) l ids) i r =
     (if i \<in> set ids \<and> r = RbRevision (candidate_bundle c i) then Some (cloneRuntimeBundle (candidate_bundle c i))
      else GlHistory l i r)"
  "GlActive (foldl (install_candidate c) l ids) i =
     (if i \<in> set ids then Some (RbRevision (candidate_bundle c i)) else GlActive l i)"
  "GlStrict (foldl (install_candidate c) l ids) = GlStrict l"
  "GlId (foldl (install_candidate c) l ids) = GlId l"
  by (induction ids arbitrary: l) (auto simp: install_candidate_def Let_def cloneRuntimeBundle_def)

lemma prepare_Inr:
  assumes "prepareActivationAt l (Some c) target = Some (Inr a, l')"
  shows "\<not> GlPublishing l" and "l' = l \<lparr> GlPublishing := True \<rparr>"
    and "a = \<lparr> AsLoader = Some (GlId l), AsCandidate = Some c, AsTarget = target, AsConsumed = False \<rparr>"
    and "CcBaseGeneration c = GlGeneration l" and "\<forall>i \<in> set (CcIds c). check_binding l c i = None"
    and "ChGeneration target \<noteq> 0" and "CcOwner c = GlId l" and "GlStrict l"
  using assms
  by (auto simp: prepareActivationAt_def first_error_None split: if_splits sum.splits option.splits)

lemma prepare_Inl: "prepareActivationAt l candidate target = Some (Inl e, l') \<Longrightarrow> l' = l"
  by (auto simp: prepareActivationAt_def split: if_splits sum.splits option.splits)

lemma prepare_blocked: "GlPublishing l \<Longrightarrow> prepareActivationAt l candidate target \<noteq> Some (Inr a, l')"
  by (auto simp: prepareActivationAt_def split: if_splits sum.splits option.splits)

lemma commit_Inr:
  assumes "Commit l (Some a) = Inr (l', a')"
  obtains c where "AsCandidate a = Some c" and "\<not> AsConsumed a" and "a' = a \<lparr> AsConsumed := True \<rparr>"
    and "l' = (foldl (install_candidate c) (l \<lparr> GlActive := Map.empty \<rparr>) (CcIds c))
           \<lparr> GlGeneration := ChGeneration (AsTarget a), GlActiveHead := Some (AsTarget a), GlPublishing := False \<rparr>"
  using assms by (auto simp: Commit_def Let_def split: if_splits)

lemma abort_Inr:
  "Abort l (Some a) = Inr (l', a') \<Longrightarrow>
   \<not> AsConsumed a \<and> a' = a \<lparr> AsConsumed := True \<rparr> \<and> l' = l \<lparr> GlPublishing := False \<rparr>"
  by (auto simp: Abort_def split: if_splits)

lemma install_Inr:
  "installHistoricalBundle l b = Inr l' \<Longrightarrow>
   PbRevision (RbProblem b) = RbRevision b \<and>
   (l' = l \<and> GlHistory l (PbID (RbProblem b)) (RbRevision b) = Some b \<or>
    GlHistory l (PbID (RbProblem b)) (RbRevision b) = None \<and>
    l' = l \<lparr> GlHistory := (GlHistory l)(PbID (RbProblem b) :=
      (GlHistory l (PbID (RbProblem b)))(RbRevision b := Some (cloneRuntimeBundle b))) \<rparr>)"
  by (auto simp: installHistoricalBundle_def Let_def split: if_splits option.splits)

section \<open>Invariants\<close>

definition open_tokens :: "loader_sys \<Rightarrow> nat set" where
  "open_tokens s = {i. i < length (LsTokens s) \<and> \<not> AsConsumed (LsTokens s ! i)}"

text \<open>The lock is held exactly while one token is open, and the open token is fresh.\<close>

definition token_inv :: "runtime_bundle set \<Rightarrow> loader_sys \<Rightarrow> bool" where
  "token_inv U s \<longleftrightarrow>
     (if GlPublishing (LsLoader s) then \<exists>i. open_tokens s = {i} else open_tokens s = {}) \<and>
     (\<forall>i \<in> open_tokens s. \<exists>c. AsCandidate (LsTokens s ! i) = Some c \<and> AsLoader (LsTokens s ! i) \<noteq> None \<and>
        CcBaseGeneration c = GlGeneration (LsLoader s) \<and>
        (\<forall>k \<in> set (CcIds c). \<not> bundle_unbound k (candidate_bundle c k) \<and> candidate_bundle c k \<in> U))"

text \<open>Every bundle of the history is filed under its own problem and revision, and every active revision is there.\<close>

definition history_inv :: "runtime_bundle set \<Rightarrow> git_loader \<Rightarrow> bool" where
  "history_inv U l \<longleftrightarrow>
     (\<forall>i r b. GlHistory l i r = Some b \<longrightarrow>
        b \<in> cloneRuntimeBundle ` U \<and> PbID (RbProblem b) = i \<and> RbRevision b = r \<and> PbRevision (RbProblem b) = r) \<and>
     (\<forall>i r. GlActive l i = Some r \<longrightarrow> GlHistory l i r \<noteq> None)"

lemma history_invD:
  "history_inv U l \<Longrightarrow> GlHistory l i r = Some b \<Longrightarrow>
   b \<in> cloneRuntimeBundle ` U \<and> PbID (RbProblem b) = i \<and> RbRevision b = r \<and> PbRevision (RbProblem b) = r"
  unfolding history_inv_def by blast

lemma check_binding_None:
  "check_binding l c i = None \<Longrightarrow> \<not> bundle_unbound i (candidate_bundle c i)"
  by (auto simp: check_binding_def Let_def split: if_splits)

lemma clone_bundle_fields [simp]:
  "RbRevision (cloneRuntimeBundle b) = RbRevision b" "PbID (RbProblem (cloneRuntimeBundle b)) = PbID (RbProblem b)"
  "PbRevision (RbProblem (cloneRuntimeBundle b)) = PbRevision (RbProblem b)"
  by (simp_all add: cloneRuntimeBundle_def)

lemma history_inv_install:
  assumes "history_inv U l" and "\<forall>k \<in> set ids. \<not> bundle_unbound k (candidate_bundle c k) \<and> candidate_bundle c k \<in> U"
  shows "history_inv U (foldl (install_candidate c) (l \<lparr> GlActive := Map.empty \<rparr>) ids)"
  using assms by (auto simp: history_inv_def foldl_install bundle_unbound_def split: if_splits)

lemma open_tokens_append:
  "open_tokens \<lparr> LsLoader = l, LsTokens = ts @ [a] \<rparr> =
   open_tokens \<lparr> LsLoader = l', LsTokens = ts \<rparr> \<union> (if AsConsumed a then {} else {length ts})"
  by (auto simp: open_tokens_def nth_append less_Suc_eq)

lemma open_tokens_consume:
  "open_tokens \<lparr> LsLoader = l, LsTokens = ts[i := a \<lparr> AsConsumed := True \<rparr>] \<rparr> =
   open_tokens \<lparr> LsLoader = l', LsTokens = ts \<rparr> - {i}"
  by (cases "i < length ts") (auto simp: open_tokens_def nth_list_update split: if_splits)

lemma open_tokens_loader: "open_tokens \<lparr> LsLoader = l, LsTokens = LsTokens s \<rparr> = open_tokens s"
  by (simp add: open_tokens_def)

lemma token_inv_single: "token_inv U s \<Longrightarrow> i \<in> open_tokens s \<Longrightarrow> GlPublishing (LsLoader s) \<and> open_tokens s = {i}"
  by (auto simp: token_inv_def split: if_splits)

lemma loader_step_inv:
  assumes "loader_step U s t" and "token_inv U s" and "history_inv U (LsLoader s)"
  shows "token_inv U t \<and> history_inv U (LsLoader t)"
  using assms
proof cases
  case (prepared c target a l')
  note p = prepare_Inr [OF prepared(2)]
  have "open_tokens s = {}" using assms(2) p(1) by (simp add: token_inv_def)
  moreover have "open_tokens t = insert (length (LsTokens s)) (open_tokens s)"
    using open_tokens_append [of l' "LsTokens s" a "LsLoader s"] prepared(1) p(3)
    by (simp add: open_tokens_loader)
  moreover have "\<forall>k \<in> set (CcIds c). \<not> bundle_unbound k (candidate_bundle c k) \<and> candidate_bundle c k \<in> U"
    using p(5) prepared(3) check_binding_None by blast
  ultimately show ?thesis
    using p assms(3) prepared(1) by (simp add: token_inv_def history_inv_def)
next
  case (refused candidate target e l')
  then show ?thesis using assms(2,3) prepare_Inl [OF refused(2)] by (simp add: token_inv_def open_tokens_loader)
next
  case (committed i l' a')
  from committed(3) obtain c where c: "AsCandidate (LsTokens s ! i) = Some c" "\<not> AsConsumed (LsTokens s ! i)"
    "a' = (LsTokens s ! i) \<lparr> AsConsumed := True \<rparr>"
    and l': "l' = (foldl (install_candidate c) (LsLoader s \<lparr> GlActive := Map.empty \<rparr>) (CcIds c))
      \<lparr> GlGeneration := ChGeneration (AsTarget (LsTokens s ! i)), GlActiveHead := Some (AsTarget (LsTokens s ! i)),
        GlPublishing := False \<rparr>"
    by (rule commit_Inr)
  have i: "i \<in> open_tokens s" using c(2) committed(2) by (simp add: open_tokens_def)
  have "open_tokens t = open_tokens s - {i}"
    using open_tokens_consume [of l' "LsTokens s" i "LsTokens s ! i" "LsLoader s"] committed(1) c(3) open_tokens_loader by simp
  then have "open_tokens t = {}" using token_inv_single [OF assms(2) i] by simp
  moreover have "\<forall>k \<in> set (CcIds c). \<not> bundle_unbound k (candidate_bundle c k) \<and> candidate_bundle c k \<in> U"
    using assms(2) i c(1) by (auto simp: token_inv_def)
  from history_inv_install [OF assms(3) this] have "history_inv U l'" unfolding l' by (simp add: history_inv_def)
  ultimately show ?thesis using committed(1) l' by (simp add: token_inv_def)
next
  case (aborted i l' a')
  note a = abort_Inr [OF aborted(3)]
  have i: "i \<in> open_tokens s" using a aborted(2) by (simp add: open_tokens_def)
  have "open_tokens t = open_tokens s - {i}"
    using open_tokens_consume [of l' "LsTokens s" i "LsTokens s ! i" "LsLoader s"] aborted(1) a open_tokens_loader by simp
  then have "open_tokens t = {}" using token_inv_single [OF assms(2) i] by simp
  then show ?thesis using aborted(1) a assms(3) by (simp add: token_inv_def history_inv_def)
next
  case (installed b l')
  note b = install_Inr [OF installed(2)]
  then have "history_inv U l'" using assms(3) installed(3) by (auto simp: history_inv_def split: if_splits)
  moreover have "GlPublishing l' = GlPublishing (LsLoader s)" "GlGeneration l' = GlGeneration (LsLoader s)"
    using b by auto
  ultimately show ?thesis
    using installed(1) assms(2) by (simp add: token_inv_def open_tokens_loader)
qed

lemma initial_inv: "token_inv U (initial_sys n) \<and> history_inv U (LsLoader (initial_sys n))"
  by (simp add: token_inv_def history_inv_def initial_sys_def NewRuntimeGitLoader_def open_tokens_def)

lemma loader_run_inv:
  "loader_run U s t \<Longrightarrow> token_inv U s \<Longrightarrow> history_inv U (LsLoader s) \<Longrightarrow> token_inv U t \<and> history_inv U (LsLoader t)"
  by (induction rule: loader_run.induct) (auto dest: loader_step_inv)

lemma reached_inv:
  "loader_run U (initial_sys n) s \<Longrightarrow> token_inv U s \<and> history_inv U (LsLoader s)"
  using loader_run_inv initial_inv by blast

section \<open>Publications are serialized\<close>

text \<open>
  C15. Publications of one process are serialized: while a prepared activation is neither committed nor
  aborted, no other is open and none can be prepared, and its candidate was built from the generation that is still
  current, so no publication is lost. Committing it installs exactly its target as generation and head and
  exactly its problems, each at its candidate's revision, as the active map; after that the token is spent.
\<close>

theorem activation_serialized:
  assumes "loader_run U (initial_sys n) s" and "i < length (LsTokens s)" and "\<not> AsConsumed (LsTokens s ! i)"
  shows "(\<forall>j < length (LsTokens s). \<not> AsConsumed (LsTokens s ! j) \<longrightarrow> j = i) \<and>
    (\<forall>candidate target a l. prepareActivationAt (LsLoader s) candidate target \<noteq> Some (Inr a, l)) \<and>
    (\<exists>c l' a'. AsCandidate (LsTokens s ! i) = Some c \<and> CcBaseGeneration c = GlGeneration (LsLoader s) \<and>
       Commit (LsLoader s) (Some (LsTokens s ! i)) = Inr (l', a') \<and>
       GlGeneration l' = ChGeneration (AsTarget (LsTokens s ! i)) \<and> GlActiveHead l' = Some (AsTarget (LsTokens s ! i)) \<and>
       GlActive l' = (\<lambda>k. if k \<in> set (CcIds c) then Some (RbRevision (candidate_bundle c k)) else None) \<and>
       Commit l' (Some a') = Inl ErrCatalogActivationConsumed \<and> Abort l' (Some a') = Inl ErrCatalogActivationConsumed)"
proof -
  have inv: "token_inv U s" using reached_inv [OF assms(1)] by simp
  have i: "i \<in> open_tokens s" using assms(2,3) by (simp add: open_tokens_def)
  note single = token_inv_single [OF inv i]
  have "\<forall>j < length (LsTokens s). \<not> AsConsumed (LsTokens s ! j) \<longrightarrow> j = i"
    using single by (auto simp: open_tokens_def)
  moreover have "\<forall>candidate target a l. prepareActivationAt (LsLoader s) candidate target \<noteq> Some (Inr a, l)"
    using single prepare_blocked by blast
  moreover obtain c where c: "AsCandidate (LsTokens s ! i) = Some c" "AsLoader (LsTokens s ! i) \<noteq> None"
    "CcBaseGeneration c = GlGeneration (LsLoader s)"
    using inv i by (auto simp: token_inv_def)
  moreover obtain l' a' where l': "Commit (LsLoader s) (Some (LsTokens s ! i)) = Inr (l', a')"
    "GlGeneration l' = ChGeneration (AsTarget (LsTokens s ! i))" "GlActiveHead l' = Some (AsTarget (LsTokens s ! i))"
    "GlActive l' = (\<lambda>k. if k \<in> set (CcIds c) then Some (RbRevision (candidate_bundle c k)) else None)"
    "a' = (LsTokens s ! i) \<lparr> AsConsumed := True \<rparr>"
    using assms(3) c by (simp add: Commit_def Let_def fun_eq_iff foldl_install)
  moreover have "Commit l' (Some a') = Inl ErrCatalogActivationConsumed" "Abort l' (Some a') = Inl ErrCatalogActivationConsumed"
    using l'(5) c by (simp_all add: Commit_def Abort_def)
  ultimately show ?thesis by blast
qed

section \<open>The history is append-only\<close>

definition content_addressed :: "runtime_bundle set \<Rightarrow> bool" where
  "content_addressed U \<longleftrightarrow>
     (\<forall>b \<in> U. \<forall>b' \<in> U. PbID (RbProblem b) = PbID (RbProblem b') \<longrightarrow> RbRevision b = RbRevision b' \<longrightarrow>
        cloneRuntimeBundle b = cloneRuntimeBundle b')"

lemma content_addressedD:
  "content_addressed U \<Longrightarrow> b \<in> U \<Longrightarrow> b' \<in> U \<Longrightarrow> PbID (RbProblem b) = PbID (RbProblem b') \<Longrightarrow>
   RbRevision b = RbRevision b' \<Longrightarrow> cloneRuntimeBundle b = cloneRuntimeBundle b'"
  unfolding content_addressed_def by blast

lemma loader_step_history:
  assumes "loader_step U s t" and "token_inv U s" and "history_inv U (LsLoader s)" and "content_addressed U"
    and "GlHistory (LsLoader s) i r = Some b"
  shows "GlHistory (LsLoader t) i r = Some b"
  using assms(1)
proof cases
  case (prepared c target a l')
  then show ?thesis using assms(5) prepare_Inr(2) [OF prepared(2)] by simp
next
  case (refused candidate target e l')
  then show ?thesis using assms(5) prepare_Inl [OF refused(2)] by simp
next
  case (committed j l' a')
  from committed(3) obtain c where c: "AsCandidate (LsTokens s ! j) = Some c" "\<not> AsConsumed (LsTokens s ! j)"
    and l': "l' = (foldl (install_candidate c) (LsLoader s \<lparr> GlActive := Map.empty \<rparr>) (CcIds c))
      \<lparr> GlGeneration := ChGeneration (AsTarget (LsTokens s ! j)), GlActiveHead := Some (AsTarget (LsTokens s ! j)),
        GlPublishing := False \<rparr>"
    by (rule commit_Inr)
  have "j \<in> open_tokens s" using c(2) committed(2) by (simp add: open_tokens_def)
  then have U: "\<forall>k \<in> set (CcIds c). \<not> bundle_unbound k (candidate_bundle c k) \<and> candidate_bundle c k \<in> U"
    using assms(2) c(1) by (auto simp: token_inv_def)
  from history_invD [OF assms(3,5)]
  obtain b0 where b0: "b0 \<in> U" "b = cloneRuntimeBundle b0" "PbID (RbProblem b0) = i" "RbRevision b0 = r"
    by auto
  have "cloneRuntimeBundle (candidate_bundle c i) = b" if k: "i \<in> set (CcIds c)" "r = RbRevision (candidate_bundle c i)"
  proof -
    have "candidate_bundle c i \<in> U" "PbID (RbProblem (candidate_bundle c i)) = i"
      using U k(1) by (auto simp: bundle_unbound_def)
    from content_addressedD [OF assms(4) this(1) b0(1)] this(2) show ?thesis using b0(2-4) k(2) by metis
  qed
  then show ?thesis using committed(1) assms(5) unfolding l' by (simp add: foldl_install)
next
  case (aborted j l' a')
  then show ?thesis using assms(5) abort_Inr [OF aborted(3)] by simp
next
  case (installed b' l')
  then show ?thesis using assms(5) install_Inr [OF installed(2)] by auto
qed


text \<open>
  New sessions are admitted to the published catalog only, and to all of it: in every reachable state
  \<open>ResolveActiveProblem\<close> answers a valid reference exactly when its revision is the active one of that problem, and
  it then answers with that problem at that revision.
\<close>

theorem active_problems_resolve:
  assumes "loader_run U (initial_sys n) s" and "validProblemID (ProblemID ref)" and "Revision ref \<noteq> []"
    and "GlStrict (LsLoader s)"
  shows "if GlActive (LsLoader s) (ProblemID ref) = Some (Revision ref)
    then \<exists>p. ResolveActiveProblem get (LsLoader s) ref = Inr p \<and> PbID p = ProblemID ref \<and> PbRevision p = Revision ref
    else ResolveActiveProblem get (LsLoader s) ref = Inl ErrInvalidProblemRevision"
proof -
  have inv: "history_inv U (LsLoader s)" using reached_inv [OF assms(1)] by simp
  show ?thesis
  proof (cases "GlHistory (LsLoader s) (ProblemID ref) (Revision ref)")
    case None
    then have "GlActive (LsLoader s) (ProblemID ref) \<noteq> Some (Revision ref)"
      using inv unfolding history_inv_def by blast
    with None show ?thesis using assms by (simp add: ResolveActiveProblem_def)
  next
    case (Some b)
    then have "PbID (RbProblem b) = ProblemID ref" "PbRevision (RbProblem b) = Revision ref"
      using history_invD [OF inv Some] by simp_all
    with Some show ?thesis using assms(2-4) by (simp add: ResolveActiveProblem_def)
  qed
qed

section \<open>A concrete run\<close>

definition demo_ids :: "string list" where
  "demo_ids = [''a'', ''b'']"

definition demo_universe :: "runtime_bundle set" where
  "demo_universe = demo_catalog_bundle ` set demo_ids"

definition demo_target :: catalog_head where
  "demo_target = \<lparr> ChGeneration = 1, ChRef = (case Identity (demo_candidate demo_ids) of Inr r \<Rightarrow> r), ChEntryCount = 2 \<rparr>"

definition demo_token :: activation_state where
  "demo_token = \<lparr> AsLoader = Some 1, AsCandidate = Some (demo_candidate demo_ids), AsTarget = demo_target, AsConsumed = False \<rparr>"

definition demo_prepared :: loader_sys where
  "demo_prepared = \<lparr> LsLoader = (NewRuntimeGitLoader 1) \<lparr> GlPublishing := True \<rparr>, LsTokens = [demo_token] \<rparr>"

lemma demo_prepare:
  "prepareActivationAt (NewRuntimeGitLoader 1) (Some (demo_candidate demo_ids)) demo_target =
     Some (Inr demo_token, (NewRuntimeGitLoader 1) \<lparr> GlPublishing := True \<rparr>)"
proof -
  obtain r where r: "Identity (demo_candidate demo_ids) = Inr r"
    using demo_streams(2) by (auto simp: Identity_def demo_ids_def)
  have "check_binding (NewRuntimeGitLoader 1) (demo_candidate demo_ids) i = None" if "i \<in> set demo_ids" for i
    using that
    by (auto simp: check_binding_def candidate_bundle_def demo_candidate_def demo_ids_def bundle_unbound_def
        demo_catalog_bundle_def NewRuntimeGitLoader_def)
  then have "first_error (check_binding (NewRuntimeGitLoader 1) (demo_candidate demo_ids)) demo_ids = None"
    by (simp add: first_error_None)
  moreover have "CcIds (demo_candidate demo_ids) = demo_ids" "CcOwner (demo_candidate demo_ids) = 1"
    "CcBaseGeneration (demo_candidate demo_ids) = 0"
    by (simp_all add: demo_candidate_def)
  ultimately show ?thesis
    using r by (simp add: prepareActivationAt_def NewRuntimeGitLoader_def demo_target_def identity_matches_def
        demo_token_def demo_ids_def [THEN arg_cong [where f = length]])
qed

lemma demo_reached: "loader_run demo_universe (initial_sys 1) demo_prepared"
proof (rule more [OF stay])
  have "candidate_bundle (demo_candidate demo_ids) ` set (CcIds (demo_candidate demo_ids)) \<subseteq> demo_universe"
    by (auto simp: demo_universe_def candidate_bundle_def demo_candidate_def demo_ids_def)
  then show "loader_step demo_universe (initial_sys 1) demo_prepared"
    using prepared [of "initial_sys 1" "demo_candidate demo_ids" demo_target] demo_prepare
    by (simp add: initial_sys_def demo_prepared_def)
qed

definition demo_published :: loader_sys where
  "demo_published =
     (case Commit (LsLoader demo_prepared) (Some demo_token) of
        Inr (l, a) \<Rightarrow> \<lparr> LsLoader = l, LsTokens = [a] \<rparr>)"

lemma demo_commit:
  "Commit (LsLoader demo_prepared) (Some demo_token) = Inr (LsLoader demo_published, demo_token \<lparr> AsConsumed := True \<rparr>)"
  "LsTokens demo_published = [demo_token \<lparr> AsConsumed := True \<rparr>]"
  by (simp_all add: demo_published_def Commit_def demo_token_def Let_def)

lemma demo_catalog_run: "loader_run demo_universe (initial_sys 1) demo_published"
proof (rule more [OF demo_reached])
  have "loader_step demo_universe demo_prepared
      \<lparr> LsLoader = LsLoader demo_published, LsTokens = (LsTokens demo_prepared)[0 := demo_token \<lparr> AsConsumed := True \<rparr>] \<rparr>"
    using demo_commit(1) by (intro committed) (simp_all add: demo_prepared_def)
  moreover have "\<lparr> LsLoader = LsLoader demo_published, LsTokens = (LsTokens demo_prepared)[0 := demo_token \<lparr> AsConsumed := True \<rparr>] \<rparr> =
      demo_published"
    using demo_commit(2) by (intro loader_sys.equality) (simp_all add: demo_prepared_def)
  ultimately show "loader_step demo_universe demo_prepared demo_published" by simp
qed

lemma demo_published_state:
  "GlHistory (LsLoader demo_published) i r =
     (if i \<in> set demo_ids \<and> r = ''r'' @ i then Some (cloneRuntimeBundle (demo_catalog_bundle i)) else None)"
  "GlActive (LsLoader demo_published) i = (if i \<in> set demo_ids then Some (''r'' @ i) else None)"
  "GlStrict (LsLoader demo_published)"
proof -
  have b: "candidate_bundle (demo_candidate demo_ids) i = demo_catalog_bundle i" if "i \<in> set demo_ids" for i
    using that by (auto simp: candidate_bundle_def demo_candidate_def demo_ids_def)
  have c: "CcIds (demo_candidate demo_ids) = demo_ids" by (simp add: demo_candidate_def)
  have rv: "RbRevision (demo_catalog_bundle i) = ''r'' @ i" for i by (simp add: demo_catalog_bundle_def)
  show "GlHistory (LsLoader demo_published) i r =
     (if i \<in> set demo_ids \<and> r = ''r'' @ i then Some (cloneRuntimeBundle (demo_catalog_bundle i)) else None)"
    "GlActive (LsLoader demo_published) i = (if i \<in> set demo_ids then Some (''r'' @ i) else None)"
    "GlStrict (LsLoader demo_published)"
    using b rv
    by (auto simp: demo_published_def Commit_def demo_token_def Let_def demo_prepared_def foldl_install c NewRuntimeGitLoader_def)
qed

theorem activation_serialized_witness:
  "\<not> AsConsumed (LsTokens demo_prepared ! 0) \<and>
   (\<forall>candidate target a l. prepareActivationAt (LsLoader demo_prepared) candidate target \<noteq> Some (Inr a, l))"
proof -
  have "0 < length (LsTokens demo_prepared)" "\<not> AsConsumed (LsTokens demo_prepared ! 0)"
    by (simp_all add: demo_prepared_def demo_token_def)
  from activation_serialized [OF demo_reached this] this show ?thesis by blast
qed

lemma demo_universe_addressed: "content_addressed demo_universe"
  by (auto simp: content_addressed_def demo_universe_def demo_ids_def demo_catalog_bundle_def)


theorem active_problems_resolve_witness:
  "\<exists>p. ResolveActiveProblem (\<lambda>_. Inl ContextDone) (LsLoader demo_published) \<lparr> ProblemID = ''a'', Revision = ''ra'' \<rparr> = Inr p \<and>
     PbID p = ''a'' \<and> PbRevision p = ''ra''"
proof -
  have "validProblemID (ProblemID \<lparr> ProblemID = ''a'', Revision = ''ra'' \<rparr>)"
    "Revision \<lparr> ProblemID = ''a'', Revision = ''ra'' \<rparr> \<noteq> []"
    by (simp_all add: validProblemID_def id_byte_def is_lower_def)
  from active_problems_resolve [OF demo_catalog_run this demo_published_state(3), of "\<lambda>_. Inl ContextDone"] show ?thesis
    by (simp add: demo_published_state demo_ids_def)
qed

end
