(* ===== verification/Effects.thy ===== *)
theory Effects
  imports Prelude
begin

text \<open>
  Code that calls the outside world: an action runs on a world, may not return (\<open>None\<close>), and ends with an error or
  a value. The world is a type variable: whatever happens between two calls is in what the calls return.

  Two judgements carry the proofs: \<open>io_ensures\<close> says what a returned value satisfies in every world, \<open>io_total\<close> that
  the action returns from every world.
\<close>

type_synonym ('w, 'e, 'a) io = "'w \<Rightarrow> (('e + 'a) \<times> 'w) option"

named_theorems io_intros "rules for what a returned value satisfies"
named_theorems total_intros "rules for actions that always return"

definition io_return :: "'a \<Rightarrow> ('w, 'e, 'a) io" where
  "io_return a w = Some (Inr a, w)"

definition io_throw :: "'e \<Rightarrow> ('w, 'e, 'a) io" where
  "io_throw e w = Some (Inl e, w)"

definition io_bind :: "('w, 'e, 'a) io \<Rightarrow> ('a \<Rightarrow> ('w, 'e, 'b) io) \<Rightarrow> ('w, 'e, 'b) io" where
  "io_bind m k w =
     (case m w of None \<Rightarrow> None | Some (Inl e, w') \<Rightarrow> Some (Inl e, w') | Some (Inr a, w') \<Rightarrow> k a w')"

text \<open>The early return on a failed check, and a check whose outcome is inspected by the caller.\<close>

definition io_require :: "bool \<Rightarrow> 'e \<Rightarrow> ('w, 'e, unit) io" where
  "io_require b e = (if b then io_return () else io_throw e)"

definition io_try :: "('w, 'e, 'a) io \<Rightarrow> ('e + 'a \<Rightarrow> ('w, 'e, 'b) io) \<Rightarrow> ('w, 'e, 'b) io" where
  "io_try m k w = (case m w of None \<Rightarrow> None | Some (r, w') \<Rightarrow> k r w')"

text \<open>A deferred call that cannot change the result.\<close>

definition io_defer :: "('w \<Rightarrow> 'w) \<Rightarrow> ('w, 'e, 'a) io \<Rightarrow> ('w, 'e, 'a) io" where
  "io_defer c m w = (case m w of None \<Rightarrow> None | Some (r, w') \<Rightarrow> Some (r, c w'))"

text \<open>A clean-up that runs only when the action fails.\<close>

definition io_cleanup :: "('w \<Rightarrow> 'w) \<Rightarrow> ('w, 'e, 'a) io \<Rightarrow> ('w, 'e, 'a) io" where
  "io_cleanup c m w = (case m w of None \<Rightarrow> None | Some (Inl e, w') \<Rightarrow> Some (Inl e, c w') | Some (Inr a, w') \<Rightarrow> Some (Inr a, w'))"

text \<open>One call of the world whose answer is inspected, and one whose failure is translated.\<close>

definition io_sys :: "('w \<Rightarrow> 'r \<times> 'w) \<Rightarrow> ('r \<Rightarrow> ('w, 'e, 'a) io) \<Rightarrow> ('w, 'e, 'a) io" where
  "io_sys c k w = (case c w of (r, w') \<Rightarrow> k r w')"

definition io_call :: "('w \<Rightarrow> ('x + 'a) \<times> 'w) \<Rightarrow> ('x \<Rightarrow> 'e) \<Rightarrow> ('w, 'e, 'a) io" where
  "io_call c err w = (case c w of (Inl x, w') \<Rightarrow> Some (Inl (err x), w') | (Inr a, w') \<Rightarrow> Some (Inr a, w'))"

fun io_each :: "('a \<Rightarrow> 's \<Rightarrow> ('w, 'e, 's) io) \<Rightarrow> 'a list \<Rightarrow> 's \<Rightarrow> ('w, 'e, 's) io" where
  "io_each f [] s = io_return s"
| "io_each f (x # xs) s = io_bind (f x s) (io_each f xs)"

lemmas io_defs = io_return_def io_throw_def io_bind_def io_require_def io_try_def io_defer_def io_cleanup_def io_sys_def io_call_def

lemma io_bind_Inr:
  "io_bind m k w = Some (Inr b, w'') \<longleftrightarrow> (\<exists>a w'. m w = Some (Inr a, w') \<and> k a w' = Some (Inr b, w''))"
  by (auto simp: io_bind_def split: option.splits sum.splits prod.splits)

lemma io_require_Inr: "io_require b e w = Some (Inr u, w') \<longleftrightarrow> b \<and> w' = w"
  by (auto simp: io_defs)

section \<open>What a returned value satisfies\<close>

definition io_ensures :: "('w, 'e, 'a) io \<Rightarrow> ('a \<Rightarrow> bool) \<Rightarrow> bool" where
  "io_ensures m P \<longleftrightarrow> (\<forall>w a w'. m w = Some (Inr a, w') \<longrightarrow> P a)"

lemma io_ensuresD: "io_ensures m P \<Longrightarrow> m w = Some (Inr a, w') \<Longrightarrow> P a"
  by (auto simp: io_ensures_def)

lemma ensures_return [io_intros]: "P a \<Longrightarrow> io_ensures (io_return a) P"
  by (simp add: io_ensures_def io_return_def)

lemma ensures_throw [io_intros]: "io_ensures (io_throw e) P"
  by (simp add: io_ensures_def io_throw_def)

lemma ensures_bind: "io_ensures m Q \<Longrightarrow> (\<And>a. Q a \<Longrightarrow> io_ensures (k a) P) \<Longrightarrow> io_ensures (io_bind m k) P"
  unfolding io_ensures_def io_bind_Inr by blast

lemma ensures_then [io_intros]: "(\<And>a. io_ensures (k a) P) \<Longrightarrow> io_ensures (io_bind m k) P"
  by (rule ensures_bind [where Q = "\<lambda>_. True"]) (simp_all add: io_ensures_def)

lemma ensures_require: "(b \<Longrightarrow> io_ensures (k ()) P) \<Longrightarrow> io_ensures (io_bind (io_require b e) k) P"
  by (cases b) (auto simp: io_ensures_def io_bind_Inr io_require_Inr)

lemma ensures_each:
  assumes "I s" and "\<And>x s. I s \<Longrightarrow> io_ensures (f x s) I"
  shows "io_ensures (io_each f xs s) I"
  using assms(1)
proof (induction xs arbitrary: s)
  case (Cons x xs)
  then show ?case using ensures_bind [OF assms(2) Cons.IH] by simp
qed (simp add: ensures_return)

lemma ensures_try [io_intros]: "(\<And>r. io_ensures (k r) P) \<Longrightarrow> io_ensures (io_try m k) P"
  by (auto simp: io_ensures_def io_try_def split: option.splits)

lemma ensures_defer [io_intros]: "io_ensures m P \<Longrightarrow> io_ensures (io_defer c m) P"
  by (auto simp: io_ensures_def io_defer_def split: option.splits)

lemma ensures_cleanup [io_intros]: "io_ensures m P \<Longrightarrow> io_ensures (io_cleanup c m) P"
  by (auto simp: io_ensures_def io_cleanup_def split: option.splits sum.splits)

lemma ensures_sys [io_intros]: "(\<And>r. io_ensures (k r) P) \<Longrightarrow> io_ensures (io_sys c k) P"
  by (auto simp: io_ensures_def io_sys_def split: prod.splits)

lemma ensures_sum [io_intros]:
  "(\<And>e. io_ensures (f e) P) \<Longrightarrow> (\<And>a. io_ensures (g a) P) \<Longrightarrow> io_ensures (case r of Inl e \<Rightarrow> f e | Inr a \<Rightarrow> g a) P"
  by (cases r) simp_all

lemma ensures_prod [io_intros]:
  "(\<And>x y. r = (x, y) \<Longrightarrow> io_ensures (f x y) P) \<Longrightarrow> io_ensures (case r of (x, y) \<Rightarrow> f x y) P"
  by (cases r) simp

lemma ensures_option [io_intros]:
  "io_ensures n P \<Longrightarrow> (\<And>a. io_ensures (g a) P) \<Longrightarrow> io_ensures (case r of None \<Rightarrow> n | Some a \<Rightarrow> g a) P"
  by (cases r) simp_all

lemma ensures_if [io_intros]:
  "(b \<Longrightarrow> io_ensures m P) \<Longrightarrow> (\<not> b \<Longrightarrow> io_ensures m' P) \<Longrightarrow> io_ensures (if b then m else m') P"
  by simp

section \<open>Actions that return\<close>

definition io_total :: "('w, 'e, 'a) io \<Rightarrow> bool" where
  "io_total m \<longleftrightarrow> (\<forall>w. m w \<noteq> None)"

lemma io_totalD: "io_total m \<Longrightarrow> \<exists>r w'. m w = Some (r, w')"
  by (auto simp: io_total_def)

lemma total_return [total_intros]: "io_total (io_return a)"
  by (simp add: io_total_def io_return_def)

lemma total_throw [total_intros]: "io_total (io_throw e)"
  by (simp add: io_total_def io_throw_def)

lemma total_require [total_intros]: "io_total (io_require b e)"
  by (simp add: io_total_def io_defs)

lemma total_call [total_intros]: "io_total (io_call c err)"
  by (auto simp: io_total_def io_call_def split: prod.splits sum.splits)

lemma total_bind [total_intros]: "io_total m \<Longrightarrow> (\<And>a. io_total (k a)) \<Longrightarrow> io_total (io_bind m k)"
  by (auto simp: io_total_def io_bind_def split: option.splits sum.splits)

lemma total_try [total_intros]: "io_total m \<Longrightarrow> (\<And>r. io_total (k r)) \<Longrightarrow> io_total (io_try m k)"
  by (auto simp: io_total_def io_try_def split: option.splits)

lemma total_defer [total_intros]: "io_total m \<Longrightarrow> io_total (io_defer c m)"
  by (auto simp: io_total_def io_defer_def split: option.splits)

lemma total_cleanup [total_intros]: "io_total m \<Longrightarrow> io_total (io_cleanup c m)"
  by (auto simp: io_total_def io_cleanup_def split: option.splits sum.splits)

lemma total_sys [total_intros]: "(\<And>r. io_total (k r)) \<Longrightarrow> io_total (io_sys c k)"
  by (auto simp: io_total_def io_sys_def split: prod.splits)

lemma total_sum [total_intros]:
  "(\<And>e. io_total (f e)) \<Longrightarrow> (\<And>a. io_total (g a)) \<Longrightarrow> io_total (case r of Inl e \<Rightarrow> f e | Inr a \<Rightarrow> g a)"
  by (cases r) simp_all

lemma total_prod [total_intros]:
  "(\<And>x y. r = (x, y) \<Longrightarrow> io_total (f x y)) \<Longrightarrow> io_total (case r of (x, y) \<Rightarrow> f x y)"
  by (cases r) simp

lemma total_option [total_intros]:
  "io_total n \<Longrightarrow> (\<And>a. io_total (g a)) \<Longrightarrow> io_total (case r of None \<Rightarrow> n | Some a \<Rightarrow> g a)"
  by (cases r) simp_all

lemma total_if [total_intros]: "io_total m \<Longrightarrow> io_total m' \<Longrightarrow> io_total (if b then m else m')"
  by simp

lemma total_each [total_intros]: "(\<And>x s. io_total (f x s)) \<Longrightarrow> io_total (io_each f xs s)"
  by (induction xs arbitrary: s) (auto intro: total_intros)

section \<open>What an action leaves as it was\<close>

text \<open>A predicate on worlds that the action keeps, whatever it returns.\<close>

named_theorems keeps_intros "rules for predicates an action keeps"

definition io_keeps :: "('w \<Rightarrow> bool) \<Rightarrow> ('w, 'e, 'a) io \<Rightarrow> bool" where
  "io_keeps P m \<longleftrightarrow> (\<forall>w r w'. P w \<longrightarrow> m w = Some (r, w') \<longrightarrow> P w')"

definition call_keeps :: "('w \<Rightarrow> bool) \<Rightarrow> ('w \<Rightarrow> 'r \<times> 'w) \<Rightarrow> bool" where
  "call_keeps P c \<longleftrightarrow> (\<forall>w. P w \<longrightarrow> P (snd (c w)))"

definition fn_keeps :: "('w \<Rightarrow> bool) \<Rightarrow> ('w \<Rightarrow> 'w) \<Rightarrow> bool" where
  "fn_keeps P c \<longleftrightarrow> (\<forall>w. P w \<longrightarrow> P (c w))"

lemma io_keepsD: "io_keeps P m \<Longrightarrow> P w \<Longrightarrow> m w = Some (r, w') \<Longrightarrow> P w'"
  by (auto simp: io_keeps_def)

lemma keeps_return [keeps_intros]: "io_keeps P (io_return a)"
  by (simp add: io_keeps_def io_return_def)

lemma keeps_throw [keeps_intros]: "io_keeps P (io_throw e)"
  by (simp add: io_keeps_def io_throw_def)

lemma keeps_require [keeps_intros]: "io_keeps P (io_require b e)"
  by (simp add: io_keeps_def io_defs)

lemma keeps_bind [keeps_intros]: "io_keeps P m \<Longrightarrow> (\<And>a. io_keeps P (k a)) \<Longrightarrow> io_keeps P (io_bind m k)"
proof -
  assume m: "io_keeps P m" and k: "\<And>a. io_keeps P (k a)"
  show ?thesis
    unfolding io_keeps_def
  proof (intro allI impI)
    fix w r w' assume "P w" and run: "io_bind m k w = Some (r, w')"
    then obtain x w1 where "m w = Some (x, w1)" by (cases "m w") (auto simp: io_bind_def)
    moreover from this have "P w1" using io_keepsD [OF m \<open>P w\<close>] by blast
    ultimately show "P w'" using run io_keepsD [OF k \<open>P w1\<close>] by (cases x) (auto simp: io_bind_def)
  qed
qed

lemma keeps_bind_ensures:
  assumes "io_ensures m Q" and "io_keeps P m" and k: "\<And>a. Q a \<Longrightarrow> io_keeps P (k a)"
  shows "io_keeps P (io_bind m k)"
proof -
  have "io_bind m k = io_bind m (\<lambda>a. if Q a then k a else io_throw undefined)"
    using assms(1) by (auto simp: fun_eq_iff io_bind_def io_ensures_def split: option.splits sum.splits)
  moreover have "io_keeps P \<dots>" by (intro keeps_bind assms(2)) (simp add: k keeps_throw)
  ultimately show ?thesis by simp
qed

lemma keeps_try [keeps_intros]: "io_keeps P m \<Longrightarrow> (\<And>r. io_keeps P (k r)) \<Longrightarrow> io_keeps P (io_try m k)"
proof -
  assume m: "io_keeps P m" and k: "\<And>r. io_keeps P (k r)"
  show ?thesis
    unfolding io_keeps_def
  proof (intro allI impI)
    fix w r w' assume "P w" and run: "io_try m k w = Some (r, w')"
    then obtain x w1 where "m w = Some (x, w1)" by (cases "m w") (auto simp: io_try_def)
    moreover from this have "P w1" using io_keepsD [OF m \<open>P w\<close>] by blast
    ultimately show "P w'" using run io_keepsD [OF k \<open>P w1\<close>] by (auto simp: io_try_def)
  qed
qed

lemma keeps_defer [keeps_intros]: "io_keeps P m \<Longrightarrow> fn_keeps P c \<Longrightarrow> io_keeps P (io_defer c m)"
  by (auto simp: io_keeps_def fn_keeps_def io_defer_def split: option.splits)

lemma keeps_cleanup [keeps_intros]: "io_keeps P m \<Longrightarrow> fn_keeps P c \<Longrightarrow> io_keeps P (io_cleanup c m)"
  by (auto simp: io_keeps_def fn_keeps_def io_cleanup_def split: option.splits sum.splits)

lemma keeps_sys [keeps_intros]: "call_keeps P c \<Longrightarrow> (\<And>r. io_keeps P (k r)) \<Longrightarrow> io_keeps P (io_sys c k)"
  unfolding io_keeps_def call_keeps_def io_sys_def by (metis prod.case prod.collapse)

lemma keeps_call [keeps_intros]: "call_keeps P c \<Longrightarrow> io_keeps P (io_call c err)"
  unfolding io_keeps_def call_keeps_def io_call_def
  by (auto split: prod.splits sum.splits)

lemma keeps_sum [keeps_intros]:
  "(\<And>e. io_keeps P (f e)) \<Longrightarrow> (\<And>a. io_keeps P (g a)) \<Longrightarrow> io_keeps P (case r of Inl e \<Rightarrow> f e | Inr a \<Rightarrow> g a)"
  by (cases r) simp_all

lemma keeps_prod [keeps_intros]:
  "(\<And>x y. r = (x, y) \<Longrightarrow> io_keeps P (f x y)) \<Longrightarrow> io_keeps P (case r of (x, y) \<Rightarrow> f x y)"
  by (cases r) simp

lemma keeps_option [keeps_intros]:
  "io_keeps P n \<Longrightarrow> (\<And>a. io_keeps P (g a)) \<Longrightarrow> io_keeps P (case r of None \<Rightarrow> n | Some a \<Rightarrow> g a)"
  by (cases r) simp_all

lemma keeps_if [keeps_intros]: "io_keeps P m \<Longrightarrow> io_keeps P m' \<Longrightarrow> io_keeps P (if b then m else m')"
  by simp

lemma keeps_each [keeps_intros]:
  "(\<And>x s. x \<in> set xs \<Longrightarrow> io_keeps P (f x s)) \<Longrightarrow> io_keeps P (io_each f xs s)"
  by (induction xs arbitrary: s) (auto intro: keeps_intros)

section \<open>Actions that cannot succeed\<close>

named_theorems fails_intros "rules for actions that cannot succeed"

definition io_fails :: "('w \<Rightarrow> bool) \<Rightarrow> ('w, 'e, 'a) io \<Rightarrow> bool" where
  "io_fails P m \<longleftrightarrow> (\<forall>w a w'. P w \<longrightarrow> m w \<noteq> Some (Inr a, w'))"

lemma io_failsD: "io_fails P m \<Longrightarrow> P w \<Longrightarrow> m w \<noteq> Some (Inr a, w')"
  by (auto simp: io_fails_def)

lemma fails_throw [fails_intros]: "io_fails P (io_throw e)"
  by (simp add: io_fails_def io_throw_def)

lemma fails_bind_first: "io_fails P m \<Longrightarrow> io_fails P (io_bind m k)"
  by (auto simp: io_fails_def io_bind_Inr)

lemma fails_bind: "io_keeps P m \<Longrightarrow> (\<And>a. io_fails P (k a)) \<Longrightarrow> io_fails P (io_bind m k)"
  unfolding io_fails_def io_bind_Inr by (metis io_keepsD)

lemma fails_bind_ensures:
  "io_ensures m Q \<Longrightarrow> io_keeps P m \<Longrightarrow> (\<And>a. Q a \<Longrightarrow> io_fails P (k a)) \<Longrightarrow> io_fails P (io_bind m k)"
  unfolding io_fails_def io_bind_Inr by (metis io_keepsD io_ensuresD)

lemma fails_defer [fails_intros]: "io_fails P m \<Longrightarrow> io_fails P (io_defer c m)"
  by (auto simp: io_fails_def io_defer_def split: option.splits)

lemma fails_try:
  assumes "io_keeps P m" and "\<And>r. io_fails P (k r)"
  shows "io_fails P (io_try m k)"
  using assms unfolding io_fails_def io_try_def by (auto split: option.splits dest: io_keepsD)

lemma fails_try_failing:
  assumes "io_fails P m" and "io_keeps P m" and "\<And>e. io_fails P (k (Inl e))"
  shows "io_fails P (io_try m k)"
proof (unfold io_fails_def, intro allI impI notI)
  fix w a w' assume "P w" and "io_try m k w = Some (Inr a, w')"
  then obtain r w1 where m: "m w = Some (r, w1)" and k: "k r w1 = Some (Inr a, w')"
    by (auto simp: io_try_def split: option.splits)
  have "P w1" by (rule io_keepsD [OF assms(2) \<open>P w\<close> m])
  with m k \<open>P w\<close> show False using assms(1,3) unfolding io_fails_def by (cases r) blast+
qed

lemma fails_sys [fails_intros]: "call_keeps P c \<Longrightarrow> (\<And>r. io_fails P (k r)) \<Longrightarrow> io_fails P (io_sys c k)"
  unfolding io_fails_def call_keeps_def io_sys_def by (metis prod.case prod.collapse)

lemma fails_sum [fails_intros]:
  "(\<And>e. io_fails P (f e)) \<Longrightarrow> (\<And>a. io_fails P (g a)) \<Longrightarrow> io_fails P (case r of Inl e \<Rightarrow> f e | Inr a \<Rightarrow> g a)"
  by (cases r) simp_all

lemma fails_if [fails_intros]: "io_fails P m \<Longrightarrow> io_fails P m' \<Longrightarrow> io_fails P (if b then m else m')"
  by simp

end
