(* ===== verification/Artifact_Store.thy ===== *)
theory Artifact_Store
  imports Artifact_Roundtrip Effects
begin

text \<open>
  The filesystem store of runtime artifacts (\<open>src/backend/internal/problem/artifact_store.go\<close>): objects are named by
  the digest of their reference, written through a temporary file and installed without replacing.

  The operating system is the parameter \<open>os\<close>, a record of the calls the code makes on an arbitrary type of worlds. What
  other processes do between two calls is part of what the calls answer, so a result that holds for every \<open>os\<close> holds
  for files that change while they are read. A context is asked through \<open>UxCtxErr\<close>.
\<close>

unbundle bit_operations_syntax

section \<open>Errors\<close>

datatype store_error_kind =
    ArtifactStoreErrorNotFound
  | ArtifactStoreErrorIntegrity
  | ArtifactStoreErrorUnavailable
  | ArtifactStoreErrorConflict

text \<open>
  An error is the list of what \<open>errors.Join\<close> joined; the wrapped cause is left out. \<open>RuntimePanic\<close> is the slice
  expression of the write loop when the kernel claims to have written more than it was given.
\<close>

datatype store_error = ArtifactStoreError store_error_kind string | ContextError | RuntimePanic

definition artifactStoreError :: "store_error_kind \<Rightarrow> string \<Rightarrow> store_error list" where
  "artifactStoreError kind op = [ArtifactStoreError kind op]"

definition error_is :: "store_error_kind \<Rightarrow> store_error list \<Rightarrow> bool" where
  "error_is kind es \<longleftrightarrow> list_ex (\<lambda>e. case e of ArtifactStoreError k _ \<Rightarrow> k = kind | _ \<Rightarrow> False) es"

fun errors_join :: "store_error list + unit \<Rightarrow> store_error list + unit \<Rightarrow> store_error list + unit" where
  "errors_join (Inr _) r = r"
| "errors_join (Inl es) (Inr _) = Inl es"
| "errors_join (Inl es) (Inl fs) = Inl (es @ fs)"

section \<open>The operating system\<close>

datatype errno = EINTR | EEXIST | ENOENT | ELOOP | ENOTDIR | EOTHER nat

record stat =
  StMode :: "32 word"
  StNlink :: nat
  StUid :: nat
  StSize :: int
  StDev :: nat
  StIno :: nat

record 'w unix =
  UxGeteuid :: nat
  UxCtxErr :: "'w \<Rightarrow> bool \<times> 'w"
  UxOpenSlash :: "'w \<Rightarrow> (errno + int) \<times> 'w"
  UxOpenDirAt :: "int \<Rightarrow> string \<Rightarrow> 'w \<Rightarrow> (errno + int) \<times> 'w"
  UxOpenReadAt :: "int \<Rightarrow> string \<Rightarrow> 'w \<Rightarrow> (errno + int) \<times> 'w"
  UxCreateAt :: "int \<Rightarrow> string \<Rightarrow> 32 word \<Rightarrow> 'w \<Rightarrow> (errno + int) \<times> 'w"
  UxMkdirAt :: "int \<Rightarrow> string \<Rightarrow> 32 word \<Rightarrow> 'w \<Rightarrow> (errno + unit) \<times> 'w"
  UxDup :: "int \<Rightarrow> 'w \<Rightarrow> (errno + int) \<times> 'w"
  UxClose :: "int \<Rightarrow> 'w \<Rightarrow> (errno + unit) \<times> 'w"
  UxFsync :: "int \<Rightarrow> 'w \<Rightarrow> (errno + unit) \<times> 'w"
  UxFstat :: "int \<Rightarrow> 'w \<Rightarrow> (errno + stat) \<times> 'w"
  UxFstatAt :: "int \<Rightarrow> string \<Rightarrow> 'w \<Rightarrow> (errno + stat) \<times> 'w"
  UxRead :: "int \<Rightarrow> 'w \<Rightarrow> (string \<times> errno option) \<times> 'w"
  UxWrite :: "int \<Rightarrow> string \<Rightarrow> 'w \<Rightarrow> (int \<times> errno option) \<times> 'w"
  UxRenameNoReplace :: "int \<Rightarrow> string \<Rightarrow> string \<Rightarrow> 'w \<Rightarrow> (errno + unit) \<times> 'w"
  UxUnlinkAt :: "int \<Rightarrow> string \<Rightarrow> 'w \<Rightarrow> (errno + unit) \<times> 'w"
  UxRandom :: "'w \<Rightarrow> (errno + byte list) \<times> 'w"

type_synonym ('w, 'a) store_io = "('w, store_error list, 'a) io"

definition close_fd :: "'w unix \<Rightarrow> int \<Rightarrow> 'w \<Rightarrow> 'w" where
  "close_fd os fd w = snd (UxClose os fd w)"

definition ctx_check :: "'w unix \<Rightarrow> ('w, unit) store_io" where
  "ctx_check os = io_sys (UxCtxErr os) (\<lambda>cancelled. io_require (\<not> cancelled) [ContextError])"

text \<open>A call whose failure is reported as unavailable.\<close>

definition unavailable :: "string \<Rightarrow> ('w \<Rightarrow> (errno + 'a) \<times> 'w) \<Rightarrow> ('w, 'a) store_io" where
  "unavailable op c = io_call c (\<lambda>_. artifactStoreError ArtifactStoreErrorUnavailable op)"

definition path_error_kind :: "errno \<Rightarrow> store_error_kind" where
  "path_error_kind e = (if e = ELOOP \<or> e = ENOTDIR then ArtifactStoreErrorIntegrity else ArtifactStoreErrorUnavailable)"

section \<open>References and metadata\<close>

definition artifactStoreDirMode :: "32 word" where "artifactStoreDirMode = 0x1C0"
definition artifactStoreFileMode :: "32 word" where "artifactStoreFileMode = 0x180"

definition validateArtifactRef :: "artifact_ref \<Rightarrow> bool" where
  "validateArtifactRef ref \<longleftrightarrow>
     ArDigestSchema ref = ArtifactDigestSchemaV1 \<and> ArMediaType ref = RuntimeArtifactMediaTypeV1 \<and>
     \<not> (ArSize ref \<le> 0 \<or> ArSize ref > int maxRuntimeArtifactBytes) \<and> ArDigest ref \<noteq> replicate 32 0"

definition validateArtifactDirStat :: "'w unix \<Rightarrow> stat \<Rightarrow> bool" where
  "validateArtifactDirStat os st \<longleftrightarrow>
     StMode st AND 0xF000 = 0x4000 \<and> StUid st = UxGeteuid os \<and> StMode st AND 0xFFF = artifactStoreDirMode"

definition validateArtifactObjectStat :: "'w unix \<Rightarrow> stat \<Rightarrow> int \<Rightarrow> bool" where
  "validateArtifactObjectStat os st expectedSize \<longleftrightarrow>
     StMode st AND 0xF000 = 0x8000 \<and> StNlink st = 1 \<and> StUid st = UxGeteuid os \<and>
     StMode st AND 0xFFF = artifactStoreFileMode \<and> StSize st = expectedSize"

section \<open>Directories\<close>

text \<open>Inspect an open directory; the descriptor is closed when it is refused.\<close>

definition inspect_dir :: "'w unix \<Rightarrow> string \<Rightarrow> int \<Rightarrow> ('w, int) store_io" where
  "inspect_dir os op fd =
     io_cleanup (close_fd os fd)
       (io_bind (unavailable op (UxFstat os fd)) (\<lambda>st.
        io_bind (io_require (validateArtifactDirStat os st) (artifactStoreError ArtifactStoreErrorIntegrity op)) (\<lambda>_.
        io_return fd)))"

definition openArtifactDirAt :: "'w unix \<Rightarrow> int \<Rightarrow> string \<Rightarrow> ('w, int) store_io" where
  "openArtifactDirAt os parentFD name =
     io_bind (io_require (\<not> (name = '''' \<or> name = ''.'' \<or> name = ''..'' \<or> CHR ''/'' \<in> set name))
        (artifactStoreError ArtifactStoreErrorConflict ''open object directory'')) (\<lambda>_.
     io_bind (io_call (UxOpenDirAt os parentFD name)
        (\<lambda>e. artifactStoreError (if e = ENOENT then ArtifactStoreErrorNotFound else path_error_kind e) ''open object directory''))
     (inspect_dir os ''inspect object directory''))"

definition ensureArtifactDirAt :: "'w unix \<Rightarrow> int \<Rightarrow> string \<Rightarrow> ('w, int) store_io" where
  "ensureArtifactDirAt os parentFD name =
     io_sys (UxMkdirAt os parentFD name artifactStoreDirMode) (\<lambda>r. case r of
       Inl e \<Rightarrow> if e \<noteq> EEXIST then io_throw (artifactStoreError ArtifactStoreErrorUnavailable ''create object directory'')
                else openArtifactDirAt os parentFD name
     | Inr _ \<Rightarrow>
         io_bind (unavailable ''sync object directory parent'' (UxFsync os parentFD)) (\<lambda>_.
         openArtifactDirAt os parentFD name))"

text \<open>One segment of the object path; the state is the parent descriptor and whether it is ours to close.\<close>

definition object_dir_step :: "'w unix \<Rightarrow> bool \<Rightarrow> string \<Rightarrow> int \<times> bool \<Rightarrow> ('w, int \<times> bool) store_io" where
  "object_dir_step os create segment st =
     (case st of (parentFD, ownedParent) \<Rightarrow>
        (let release = (\<lambda>w. if ownedParent then close_fd os parentFD w else w) in
         io_bind (io_cleanup release (ctx_check os)) (\<lambda>_.
         io_try (io_defer release
             (if create then ensureArtifactDirAt os parentFD segment else openArtifactDirAt os parentFD segment)) (\<lambda>r. case r of
           Inl es \<Rightarrow> io_throw (if \<not> create \<and> error_is ArtifactStoreErrorNotFound es
                               then artifactStoreError ArtifactStoreErrorNotFound ''open object'' else es)
         | Inr nextFD \<Rightarrow> io_return (nextFD, True)))))"

definition object_segments :: "artifact_ref \<Rightarrow> string list" where
  "object_segments ref = [''objects'', ''sha256'', take 2 (hex_encode (ArDigest ref))]"

definition object_name :: "artifact_ref \<Rightarrow> string" where
  "object_name ref = drop 2 (hex_encode (ArDigest ref))"

definition openArtifactObjectDir :: "'w unix \<Rightarrow> int \<Rightarrow> artifact_ref \<Rightarrow> bool \<Rightarrow> ('w, int \<times> string) store_io" where
  "openArtifactObjectDir os rootFD ref create =
     io_bind (ctx_check os) (\<lambda>_.
     io_bind (io_each (object_dir_step os create) (object_segments ref) (rootFD, False)) (\<lambda>(parentFD, _).
     io_return (parentFD, object_name ref)))"

section \<open>The root\<close>

record artifact_store =
  FsRoot :: string
  FsRootFD :: int
  FsClosed :: bool

definition openRoot :: "'w unix \<Rightarrow> artifact_store option \<Rightarrow> ('w, int) store_io" where
  "openRoot os store =
     (case store of
        None \<Rightarrow> io_throw (artifactStoreError ArtifactStoreErrorUnavailable ''open root'')
      | Some s \<Rightarrow>
          if FsClosed s \<or> FsRootFD s < 0 then io_throw (artifactStoreError ArtifactStoreErrorUnavailable ''open root'')
          else io_bind (unavailable ''duplicate root'' (UxDup os (FsRootFD s))) (inspect_dir os ''inspect root''))"

text \<open>The store is closed even when the close of the descriptor fails.\<close>

definition Close :: "'w unix \<Rightarrow> artifact_store option \<Rightarrow> 'w \<Rightarrow> (store_error list + unit) \<times> artifact_store option \<times> 'w" where
  "Close os store w =
     (case store of
        None \<Rightarrow> (Inr (), None, w)
      | Some s \<Rightarrow>
          if FsClosed s then (Inr (), Some s, w)
          else if FsRootFD s < 0 then (Inr (), Some (s \<lparr> FsClosed := True \<rparr>), w)
          else (case UxClose os (FsRootFD s) w of (r, w') \<Rightarrow>
            (case r of Inl _ \<Rightarrow> Inl (artifactStoreError ArtifactStoreErrorUnavailable ''close root'') | Inr _ \<Rightarrow> Inr (),
             Some (s \<lparr> FsClosed := True, FsRootFD := -1 \<rparr>), w')))"

text \<open>One component of the root: opened, or created, its parent synced, and opened again.\<close>

definition root_opened :: "'w unix \<Rightarrow> int \<Rightarrow> errno + int \<Rightarrow> ('w, int) store_io" where
  "root_opened os currentFD r =
     (case r of
        Inl e \<Rightarrow> io_cleanup (close_fd os currentFD) (io_throw (artifactStoreError (path_error_kind e) ''open root component''))
      | Inr nextFD \<Rightarrow>
          io_cleanup (close_fd os nextFD)
            (io_bind (unavailable ''close root component'' (UxClose os currentFD)) (\<lambda>_. io_return nextFD)))"

definition root_step :: "'w unix \<Rightarrow> string \<Rightarrow> int \<Rightarrow> ('w, int) store_io" where
  "root_step os segment currentFD =
     io_bind (io_cleanup (close_fd os currentFD) (io_require (\<not> (segment = '''' \<or> segment = ''.'' \<or> segment = ''..''))
        (artifactStoreError ArtifactStoreErrorConflict ''open root''))) (\<lambda>_.
     io_sys (UxOpenDirAt os currentFD segment) (\<lambda>r.
       if r = Inl ENOENT then
         io_sys (UxMkdirAt os currentFD segment artifactStoreDirMode) (\<lambda>m.
           if m \<noteq> Inr () \<and> m \<noteq> Inl EEXIST
           then io_cleanup (close_fd os currentFD)
                  (io_throw (artifactStoreError ArtifactStoreErrorUnavailable ''create root component''))
           else io_bind (io_cleanup (close_fd os currentFD)
                  (unavailable ''sync root component parent'' (UxFsync os currentFD))) (\<lambda>_.
                io_sys (UxOpenDirAt os currentFD segment) (root_opened os currentFD)))
       else root_opened os currentFD r))"

text \<open>\<open>strings.Split(strings.TrimPrefix(root, "/"), "/")\<close>\<close>

definition root_segments :: "string \<Rightarrow> string list" where
  "root_segments root = Split (CHR ''/'') (if HasPrefix root ''/'' then drop 1 root else root)"

definition createAndOpenArtifactRoot :: "'w unix \<Rightarrow> string \<Rightarrow> ('w, int) store_io" where
  "createAndOpenArtifactRoot os root =
     io_bind (unavailable ''open root anchor'' (UxOpenSlash os)) (\<lambda>slash.
     io_bind (io_each (root_step os) (root_segments root) slash) (inspect_dir os ''inspect root''))"

text \<open>\<open>filepath.Clean\<close> on slash-separated paths.\<close>

fun clean_segments :: "bool \<Rightarrow> string list \<Rightarrow> string list \<Rightarrow> string list" where
  "clean_segments rooted out [] = out"
| "clean_segments rooted out (seg # segs) =
     clean_segments rooted
       (if seg = '''' \<or> seg = ''.'' then out
        else if seg = ''..'' then
          (if out \<noteq> [] \<and> last out \<noteq> ''..'' then butlast out else if rooted then out else out @ [seg])
        else out @ [seg]) segs"

fun join_segments :: "string list \<Rightarrow> string" where
  "join_segments [] = ''''"
| "join_segments [s] = s"
| "join_segments (s # ss) = s @ ''/'' @ join_segments ss"

definition filepath_Clean :: "string \<Rightarrow> string" where
  "filepath_Clean path =
     (let rooted = HasPrefix path ''/''; out = join_segments (clean_segments rooted [] (Split (CHR ''/'') path)) in
      if rooted then CHR ''/'' # out else if out = '''' then ''.'' else out)"

definition NewFilesystemArtifactStore :: "'w unix \<Rightarrow> string \<Rightarrow> ('w, artifact_store) store_io" where
  "NewFilesystemArtifactStore os root =
     io_bind (io_require (root \<noteq> '''') (artifactStoreError ArtifactStoreErrorConflict ''open root'')) (\<lambda>_.
     io_bind (io_require (HasPrefix (filepath_Clean root) ''/'') (artifactStoreError ArtifactStoreErrorConflict ''open root'')) (\<lambda>_.
     io_bind (createAndOpenArtifactRoot os (filepath_Clean root)) (\<lambda>fd.
     io_return \<lparr> FsRoot = filepath_Clean root, FsRootFD = fd, FsClosed = False \<rparr>)))"

section \<open>Reading an object\<close>

partial_function (option) read_loop :: "'w unix \<Rightarrow> int \<Rightarrow> int \<Rightarrow> string \<Rightarrow> 'w \<Rightarrow> ((store_error list + string) \<times> 'w) option" where
  "read_loop os fd refSize data w =
     (case UxCtxErr os w of (cancelled, w1) \<Rightarrow>
      if cancelled then Some (Inl [ContextError], w1)
      else (case UxRead os fd w1 of ((bytes, readErr), w2) \<Rightarrow>
        if readErr = Some EINTR then read_loop os fd refSize data w2
        else if int (length data) + int (length bytes) > refSize \<and> bytes \<noteq> []
          then Some (Inl (artifactStoreError ArtifactStoreErrorIntegrity ''read object''), w2)
        else if readErr \<noteq> None then Some (Inl (artifactStoreError ArtifactStoreErrorUnavailable ''read object''), w2)
        else if bytes = [] then Some (Inr data, w2)
        else read_loop os fd refSize (data @ bytes) w2))"

definition integrity :: "string \<Rightarrow> bool \<Rightarrow> ('w, unit) store_io" where
  "integrity op b = io_require b (artifactStoreError ArtifactStoreErrorIntegrity op)"

text \<open>The part of \<open>readArtifactObject\<close> that runs with the object open.\<close>

definition read_open_object :: "'w unix \<Rightarrow> int \<Rightarrow> string \<Rightarrow> artifact_ref \<Rightarrow> stat \<Rightarrow> int \<Rightarrow> ('w, string) store_io" where
  "read_open_object os dirFD name ref namedBefore fd =
     io_bind (unavailable ''inspect object'' (UxFstat os fd)) (\<lambda>before.
     io_bind (integrity ''inspect object'' (validateArtifactObjectStat os before (ArSize ref))) (\<lambda>_.
     io_bind (integrity ''inspect object''
        (\<not> (StDev namedBefore \<noteq> StDev before \<or> StIno namedBefore \<noteq> StIno before))) (\<lambda>_.
     io_bind (read_loop os fd (ArSize ref) []) (\<lambda>data.
     io_bind (unavailable ''reinspect object'' (UxFstat os fd)) (\<lambda>after.
     io_bind (integrity ''reinspect object'' (validateArtifactObjectStat os after (ArSize ref))) (\<lambda>_.
     io_bind (integrity ''reinspect object''
        (\<not> (StDev before \<noteq> StDev after \<or> StIno before \<noteq> StIno after \<or> StMode before \<noteq> StMode after \<or>
            StNlink before \<noteq> StNlink after \<or> StUid before \<noteq> StUid after \<or> StSize before \<noteq> StSize after))) (\<lambda>_.
     io_bind (integrity ''read object'' (int (length data) = ArSize ref)) (\<lambda>_.
     io_bind (integrity ''verify object'' (validateRuntimeArtifactRef ref data = Inr ())) (\<lambda>_.
     io_bind (io_call (UxFstatAt os dirFD name)
        (\<lambda>_. artifactStoreError ArtifactStoreErrorIntegrity ''reinspect object path'')) (\<lambda>named.
     io_bind (integrity ''reinspect object path'' (validateArtifactObjectStat os named (ArSize ref))) (\<lambda>_.
     io_bind (integrity ''reinspect object path''
        (\<not> (StDev named \<noteq> StDev after \<or> StIno named \<noteq> StIno after))) (\<lambda>_.
     io_return data))))))))))))"

definition readArtifactObject :: "'w unix \<Rightarrow> int \<Rightarrow> string \<Rightarrow> artifact_ref \<Rightarrow> ('w, string) store_io" where
  "readArtifactObject os dirFD name ref =
     io_bind (ctx_check os) (\<lambda>_.
     io_bind (io_call (UxFstatAt os dirFD name)
        (\<lambda>e. artifactStoreError (if e = ENOENT then ArtifactStoreErrorNotFound else ArtifactStoreErrorUnavailable) ''inspect object path'')) (\<lambda>namedBefore.
     io_bind (integrity ''inspect object path'' (validateArtifactObjectStat os namedBefore (ArSize ref))) (\<lambda>_.
     io_bind (io_call (UxOpenReadAt os dirFD name)
        (\<lambda>e. artifactStoreError (if e = ENOENT then ArtifactStoreErrorNotFound else path_error_kind e) ''open object'')) (\<lambda>fd.
     io_defer (close_fd os fd) (read_open_object os dirFD name ref namedBefore fd)))))"

section \<open>Get\<close>

definition Get :: "'w unix \<Rightarrow> artifact_store option \<Rightarrow> artifact_ref \<Rightarrow> ('w, string) store_io" where
  "Get os store ref =
     io_bind (ctx_check os) (\<lambda>_.
     io_bind (io_require (validateArtifactRef ref) (artifactStoreError ArtifactStoreErrorConflict ''validate reference'')) (\<lambda>_.
     io_bind (openRoot os store) (\<lambda>rootFD.
     io_defer (close_fd os rootFD)
      (io_bind (openArtifactObjectDir os rootFD ref False) (\<lambda>(dirFD, name).
       io_defer (close_fd os dirFD) (readArtifactObject os dirFD name ref))))))"

section \<open>Ensure\<close>

definition syncArtifactObjectDir :: "'w unix \<Rightarrow> int \<Rightarrow> ('w, unit) store_io" where
  "syncArtifactObjectDir os dirFD = unavailable ''sync object directory'' (UxFsync os dirFD)"

definition removeArtifactTemp :: "'w unix \<Rightarrow> int \<Rightarrow> string \<Rightarrow> ('w, unit) store_io" where
  "removeArtifactTemp os dirFD name =
     io_sys (UxUnlinkAt os dirFD name) (\<lambda>r. case r of
       Inl e \<Rightarrow> if e = ENOENT then io_return ()
                else io_throw (artifactStoreError ArtifactStoreErrorUnavailable ''remove temporary object'')
     | Inr _ \<Rightarrow> unavailable ''sync temporary object removal'' (UxFsync os dirFD))"

text \<open>The attempts that are left; the code starts with 32.\<close>

primrec createArtifactTemp :: "'w unix \<Rightarrow> int \<Rightarrow> nat \<Rightarrow> ('w, string \<times> int) store_io" where
  "createArtifactTemp os dirFD 0 =
     io_throw (artifactStoreError ArtifactStoreErrorUnavailable ''create temporary object'')"
| "createArtifactTemp os dirFD (Suc attempts) =
     io_bind (ctx_check os) (\<lambda>_.
     io_bind (unavailable ''name temporary object'' (UxRandom os)) (\<lambda>random.
     (let name = ''.tmp-'' @ hex_encode random in
      io_sys (UxCreateAt os dirFD name artifactStoreFileMode) (\<lambda>r. case r of
        Inl e \<Rightarrow> if e = EEXIST then createArtifactTemp os dirFD attempts
                 else io_throw (artifactStoreError ArtifactStoreErrorUnavailable ''create temporary object'')
      | Inr fd \<Rightarrow>
          io_cleanup (\<lambda>w. snd (UxUnlinkAt os dirFD name (close_fd os fd w)))
            (io_bind (unavailable ''inspect temporary object'' (UxFstat os fd)) (\<lambda>st.
             io_bind (integrity ''inspect temporary object'' (validateArtifactObjectStat os st 0)) (\<lambda>_.
             io_return (name, fd))))))))"

partial_function (option) write_loop :: "'w unix \<Rightarrow> int \<Rightarrow> string \<Rightarrow> 'w \<Rightarrow> ((store_error list + unit) \<times> 'w) option" where
  "write_loop os fd remaining w =
     (if remaining = [] then Some (Inr (), w)
      else (case UxCtxErr os w of (cancelled, w1) \<Rightarrow>
        if cancelled then Some (Inl [ContextError], w1)
        else (case UxWrite os fd remaining w1 of ((written, err), w2) \<Rightarrow>
          if err = Some EINTR then write_loop os fd remaining w2
          else if err \<noteq> None \<or> written \<le> 0
            then Some (Inl (artifactStoreError ArtifactStoreErrorUnavailable ''write temporary object''), w2)
          else if written > int (length remaining) then Some (Inl [RuntimePanic], w2)
          else write_loop os fd (drop (nat written) remaining) w2)))"

definition writeArtifactTemp :: "'w unix \<Rightarrow> int \<Rightarrow> string \<Rightarrow> ('w, unit) store_io" where
  "writeArtifactTemp os fd data =
     io_bind (write_loop os fd data) (\<lambda>_. unavailable ''sync temporary object'' (UxFsync os fd))"

text \<open>A deferred call whose error is joined to the result.\<close>

definition defer_join :: "('w, unit) store_io \<Rightarrow> ('w, unit) store_io \<Rightarrow> ('w, unit) store_io" where
  "defer_join c m = io_try m (\<lambda>r. io_try c (\<lambda>r'. \<lambda>w. Some (errors_join r r', w)))"

definition installArtifactNoReplace :: "'w unix \<Rightarrow> int \<Rightarrow> string \<Rightarrow> string \<Rightarrow> 'w \<Rightarrow> (errno + unit) \<times> 'w" where
  "installArtifactNoReplace os dirFD oldName newName = UxRenameNoReplace os dirFD oldName newName"

text \<open>The part of \<open>Ensure\<close> that runs when the object is absent. The temporary file is removed on every path on which it was not installed.\<close>

definition install_object :: "'w unix \<Rightarrow> int \<Rightarrow> string \<Rightarrow> artifact_ref \<Rightarrow> string \<Rightarrow> ('w, unit) store_io" where
  "install_object os dirFD name ref data =
     io_bind (createArtifactTemp os dirFD 32) (\<lambda>(tempName, tempFD).
     io_try (writeArtifactTemp os tempFD data) (\<lambda>written. case written of
       Inl es \<Rightarrow>
         defer_join (removeArtifactTemp os dirFD tempName)
          (defer_join (unavailable ''close temporary object'' (UxClose os tempFD)) (io_throw es))
     | Inr _ \<Rightarrow>
         io_sys (UxClose os tempFD) (\<lambda>closed. case closed of
           Inl _ \<Rightarrow>
             defer_join (removeArtifactTemp os dirFD tempName)
               (io_throw (artifactStoreError ArtifactStoreErrorUnavailable ''close temporary object''))
         | Inr _ \<Rightarrow>
             io_sys (installArtifactNoReplace os dirFD tempName name) (\<lambda>installed. case installed of
               Inl e \<Rightarrow>
                 defer_join (removeArtifactTemp os dirFD tempName)
                   (if e \<noteq> EEXIST then io_throw (artifactStoreError ArtifactStoreErrorUnavailable ''install object'')
                    else io_bind (readArtifactObject os dirFD name ref) (\<lambda>_. syncArtifactObjectDir os dirFD))
             | Inr _ \<Rightarrow>
                 io_bind (syncArtifactObjectDir os dirFD) (\<lambda>_.
                 io_bind (readArtifactObject os dirFD name ref) (\<lambda>_. io_return ()))))))"

definition Ensure :: "'w unix \<Rightarrow> artifact_store option \<Rightarrow> artifact_ref \<Rightarrow> string \<Rightarrow> ('w, unit) store_io" where
  "Ensure os store ref data =
     io_bind (ctx_check os) (\<lambda>_.
     io_bind (io_require (validateArtifactRef ref) (artifactStoreError ArtifactStoreErrorConflict ''validate reference'')) (\<lambda>_.
     io_bind (io_require (int (length data) = ArSize ref) (artifactStoreError ArtifactStoreErrorConflict ''validate input'')) (\<lambda>_.
     io_bind (io_require (validateRuntimeArtifactRef ref data = Inr ()) (artifactStoreError ArtifactStoreErrorConflict ''validate input'')) (\<lambda>_.
     io_bind (openRoot os store) (\<lambda>rootFD.
     io_defer (close_fd os rootFD)
      (io_bind (openArtifactObjectDir os rootFD ref True) (\<lambda>(dirFD, name).
       io_defer (close_fd os dirFD)
        (io_try (readArtifactObject os dirFD name ref) (\<lambda>r. case r of
           Inr _ \<Rightarrow> syncArtifactObjectDir os dirFD
         | Inl es \<Rightarrow>
             if \<not> error_is ArtifactStoreErrorNotFound es then io_throw es
             else install_object os dirFD name ref data)))))))))"

end
