(* ===== verification/Artifact_Store_Laws.thy ===== *)
theory Artifact_Store_Laws
  imports Artifact_Store
begin

text \<open>
  What the artifact store guarantees whatever the operating system does: bytes that are returned are the bytes of the
  reference, calls that change the file system are confined to temporary names and the no-replace installation, and the
  loops end once the signals do.
\<close>

section \<open>Authenticity\<close>

lemma ensures_integrity: "(b \<Longrightarrow> io_ensures (k ()) P) \<Longrightarrow> io_ensures (io_bind (integrity op b) k) P"
  unfolding integrity_def by (rule ensures_require)

lemma read_open_object_authentic: "io_ensures (read_open_object os dirFD name ref st fd) (\<lambda>data. ref = runtimeArtifactRef data)"
  unfolding read_open_object_def
  by ((rule ensures_integrity | rule io_intros)+) (simp add: validateRuntimeArtifactRef_iff)

lemma readArtifactObject_authentic: "io_ensures (readArtifactObject os dirFD name ref) (\<lambda>data. ref = runtimeArtifactRef data)"
  unfolding readArtifactObject_def by (intro io_intros read_open_object_authentic)

lemma get_ensures: "io_ensures (Get os store ref) (\<lambda>data. validateArtifactRef ref \<and> ref = runtimeArtifactRef data)"
  unfolding Get_def
proof (rule ensures_then, rule ensures_require, intro io_intros)
  fix dirFD name assume "validateArtifactRef ref"
  with readArtifactObject_authentic [of os dirFD name ref]
  show "io_ensures (readArtifactObject os dirFD name ref) (\<lambda>data. validateArtifactRef ref \<and> ref = runtimeArtifactRef data)"
    by (simp add: io_ensures_def)
qed

lemma validateArtifactRef_length:
  "validateArtifactRef (runtimeArtifactRef data) \<Longrightarrow> 0 < length data \<and> length data \<le> maxRuntimeArtifactBytes"
  by (auto simp: validateArtifactRef_def runtimeArtifactRef_def)

section \<open>The calls that change the file system\<close>

text \<open>The calls that read: none of them may change the predicate.\<close>

definition reads_keep :: "'w unix \<Rightarrow> ('w \<Rightarrow> bool) \<Rightarrow> bool" where
  "reads_keep os P \<longleftrightarrow>
     call_keeps P (UxCtxErr os) \<and>
     (\<forall>fd. call_keeps P (UxDup os fd) \<and> call_keeps P (UxClose os fd) \<and> call_keeps P (UxFstat os fd) \<and> call_keeps P (UxRead os fd)) \<and>
     (\<forall>fd name. call_keeps P (UxOpenDirAt os fd name) \<and> call_keeps P (UxOpenReadAt os fd name) \<and> call_keeps P (UxFstatAt os fd name))"

text \<open>The calls that change: the directories of the object path, temporary names, and the installation of the object.\<close>

definition changes_keep :: "'w unix \<Rightarrow> artifact_ref \<Rightarrow> ('w \<Rightarrow> bool) \<Rightarrow> bool" where
  "changes_keep os ref P \<longleftrightarrow>
     call_keeps P (UxRandom os) \<and>
     (\<forall>fd. call_keeps P (UxFsync os fd)) \<and>
     (\<forall>fd bytes. call_keeps P (UxWrite os fd bytes)) \<and>
     (\<forall>fd. \<forall>segment \<in> set (object_segments ref). call_keeps P (UxMkdirAt os fd segment artifactStoreDirMode)) \<and>
     (\<forall>fd random. call_keeps P (UxCreateAt os fd (''.tmp-'' @ hex_encode random) artifactStoreFileMode)) \<and>
     (\<forall>fd random. call_keeps P (UxUnlinkAt os fd (''.tmp-'' @ hex_encode random))) \<and>
     (\<forall>fd random. call_keeps P (UxRenameNoReplace os fd (''.tmp-'' @ hex_encode random) (object_name ref)))"

lemma call_keepsD: "call_keeps P c \<Longrightarrow> P w \<Longrightarrow> P (snd (c w))"
  by (simp add: call_keeps_def)

lemma call_keeps_case: "call_keeps P c \<Longrightarrow> P w \<Longrightarrow> c w = (r, w') \<Longrightarrow> P w'"
  by (metis call_keepsD snd_conv)

lemma close_fd_keeps [keeps_intros]: "reads_keep os P \<Longrightarrow> fn_keeps P (close_fd os fd)"
  by (simp add: reads_keep_def fn_keeps_def close_fd_def call_keeps_def)

lemma ctx_check_keeps [keeps_intros]: "reads_keep os P \<Longrightarrow> io_keeps P (ctx_check os)"
  unfolding ctx_check_def reads_keep_def by (intro keeps_intros) blast

lemma unavailable_keeps [keeps_intros]: "call_keeps P c \<Longrightarrow> io_keeps P (unavailable op c)"
  unfolding unavailable_def by (rule keeps_call)

lemma integrity_keeps [keeps_intros]: "io_keeps P (integrity op b)"
  unfolding integrity_def by (rule keeps_require)

lemma reads_keepD:
  assumes "reads_keep os P"
  shows "call_keeps P (UxCtxErr os)" "call_keeps P (UxDup os fd)" "call_keeps P (UxClose os fd)"
    "call_keeps P (UxFstat os fd)" "call_keeps P (UxRead os fd)" "call_keeps P (UxOpenDirAt os fd name)"
    "call_keeps P (UxOpenReadAt os fd name)" "call_keeps P (UxFstatAt os fd name)"
  using assms by (simp_all add: reads_keep_def)

lemma inspect_dir_keeps [keeps_intros]: "reads_keep os P \<Longrightarrow> io_keeps P (inspect_dir os op fd)"
  unfolding inspect_dir_def by (intro keeps_intros reads_keepD)

lemma openArtifactDirAt_keeps [keeps_intros]: "reads_keep os P \<Longrightarrow> io_keeps P (openArtifactDirAt os fd name)"
  unfolding openArtifactDirAt_def by (intro keeps_intros reads_keepD)

lemma openRoot_keeps [keeps_intros]: "reads_keep os P \<Longrightarrow> io_keeps P (openRoot os store)"
  unfolding openRoot_def by (cases store) (simp_all add: keeps_intros reads_keepD)

lemma read_loop_keeps [keeps_intros]:
  assumes os: "reads_keep os P" shows "io_keeps P (read_loop os fd refSize data)"
  unfolding io_keeps_def
proof (intro allI impI)
  fix w r w' assume "P w" and run: "read_loop os fd refSize data w = Some (r, w')"
  have "P w \<longrightarrow> P (snd (r, w'))"
  proof (rule read_loop.raw_induct [where P = "\<lambda>os fd refSize data w res. reads_keep os P \<longrightarrow> P w \<longrightarrow> P (snd res)", OF _ run, THEN mp])
    fix rl and os :: "'a unix" and fd refSize data w res
    assume IH: "\<And>os fd refSize data w res. rl os fd refSize data w = Some res \<Longrightarrow> reads_keep os P \<longrightarrow> P w \<longrightarrow> P (snd res)"
      and body: "(case UxCtxErr os w of (cancelled, w1) \<Rightarrow>
        if cancelled then Some (Inl [ContextError], w1)
        else (case UxRead os fd w1 of ((bytes, readErr), w2) \<Rightarrow>
          if readErr = Some EINTR then rl os fd refSize data w2
          else if int (length data) + int (length bytes) > refSize \<and> bytes \<noteq> []
            then Some (Inl (artifactStoreError ArtifactStoreErrorIntegrity ''read object''), w2)
          else if readErr \<noteq> None then Some (Inl (artifactStoreError ArtifactStoreErrorUnavailable ''read object''), w2)
          else if bytes = [] then Some (Inr data, w2)
          else rl os fd refSize (data @ bytes) w2)) = Some res"
    show "reads_keep os P \<longrightarrow> P w \<longrightarrow> P (snd res)"
    proof (intro impI)
      assume os: "reads_keep os P" and "P w"
      obtain c w1 where c: "UxCtxErr os w = (c, w1)" by (cases "UxCtxErr os w")
      obtain bytes err w2 where d: "UxRead os fd w1 = ((bytes, err), w2)" by (metis prod.exhaust)
      have "P w1" by (rule call_keeps_case [OF reads_keepD(1) [OF os] \<open>P w\<close> c])
      then have "P w2" by (rule call_keeps_case [OF reads_keepD(5) [OF os] _ d])
      with \<open>P w1\<close> body c d os show "P (snd res)" by (auto split: if_splits dest: IH)
    qed
  qed (rule os)
  then show "P w'" using \<open>P w\<close> by simp
qed

lemma readArtifactObject_keeps [keeps_intros]: "reads_keep os P \<Longrightarrow> io_keeps P (readArtifactObject os dirFD name ref)"
  unfolding readArtifactObject_def read_open_object_def by (intro keeps_intros reads_keepD)

lemma ensureArtifactDirAt_keeps [keeps_intros]:
  assumes "reads_keep os P" and "changes_keep os ref P" and "segment \<in> set (object_segments ref)"
  shows "io_keeps P (ensureArtifactDirAt os fd segment)"
proof -
  have "call_keeps P (UxMkdirAt os fd segment artifactStoreDirMode)" "call_keeps P (UxFsync os fd)"
    using assms(2,3) by (auto simp: changes_keep_def)
  then show ?thesis
    unfolding ensureArtifactDirAt_def
    by (intro keeps_sys) (auto split: sum.split intro!: keeps_intros assms(1))
qed

lemma object_dir_step_keeps:
  assumes "reads_keep os P" and "create \<longrightarrow> changes_keep os ref P" and "segment \<in> set (object_segments ref)"
  shows "io_keeps P (object_dir_step os create segment st)"
proof -
  obtain parentFD owned where st: "st = (parentFD, owned)" by (cases st)
  have "fn_keeps P (\<lambda>w. if owned then close_fd os parentFD w else w)"
    using close_fd_keeps [OF assms(1)] by (simp add: fn_keeps_def)
  moreover have "io_keeps P (if create then ensureArtifactDirAt os parentFD segment else openArtifactDirAt os parentFD segment)"
    using assms by (auto intro: ensureArtifactDirAt_keeps openArtifactDirAt_keeps)
  ultimately show ?thesis
    unfolding object_dir_step_def st Let_def prod.case
    by (intro keeps_bind keeps_try keeps_cleanup keeps_defer ctx_check_keeps assms(1))
      (auto split: sum.split intro: keeps_return keeps_throw)
qed

lemma openArtifactObjectDir_keeps:
  assumes "reads_keep os P" and "create \<longrightarrow> changes_keep os ref P"
  shows "io_keeps P (openArtifactObjectDir os rootFD ref create)"
  unfolding openArtifactObjectDir_def
  using assms(2)
  by (intro keeps_bind ctx_check_keeps keeps_each object_dir_step_keeps [where ref = ref] assms(1))
    (auto split: prod.split intro: keeps_return)

lemma get_keeps:
  assumes "reads_keep os P" shows "io_keeps P (Get os store ref)"
proof -
  have "io_keeps P (case dir of (dirFD, name) \<Rightarrow> io_defer (close_fd os dirFD) (readArtifactObject os dirFD name ref))" for dir
    by (cases dir) (simp add: keeps_intros assms)
  then show ?thesis
    unfolding Get_def by (intro keeps_intros openArtifactObjectDir_keeps assms) simp_all
qed

section \<open>Writing\<close>

definition temp_name :: "string \<Rightarrow> bool" where
  "temp_name name \<longleftrightarrow> (\<exists>random. name = ''.tmp-'' @ hex_encode random)"

lemma changes_keepD:
  assumes "changes_keep os ref P"
  shows "call_keeps P (UxRandom os)" "call_keeps P (UxFsync os fd)" "call_keeps P (UxWrite os fd bytes)"
    "temp_name name \<Longrightarrow> call_keeps P (UxCreateAt os fd name artifactStoreFileMode)"
    "temp_name name \<Longrightarrow> call_keeps P (UxUnlinkAt os fd name)"
    "temp_name name \<Longrightarrow> call_keeps P (UxRenameNoReplace os fd name (object_name ref))"
  using assms by (auto simp: changes_keep_def temp_name_def)

lemma createArtifactTemp_name: "io_ensures (createArtifactTemp os dirFD n) (\<lambda>(name, fd). temp_name name)"
proof (induction n)
  case (Suc n)
  then show ?case
    by (auto simp: Let_def temp_name_def intro!: io_intros split: sum.split)
qed (simp add: ensures_throw)

lemma createArtifactTemp_keeps:
  assumes r: "reads_keep os P" and c: "changes_keep os ref P"
  shows "io_keeps P (createArtifactTemp os dirFD n)"
proof (induction n)
  case (Suc n)
  have t: "temp_name (''.tmp-'' @ hex_encode random)" for random by (auto simp: temp_name_def)
  have "fn_keeps P (\<lambda>w. snd (UxUnlinkAt os dirFD (''.tmp-'' @ hex_encode random) (close_fd os fd w)))" for fd random
    using close_fd_keeps [OF r] changes_keepD(5) [OF c t] by (simp add: fn_keeps_def call_keeps_def)
  then show ?case
    unfolding createArtifactTemp.simps Let_def
    by (intro keeps_bind keeps_sys ctx_check_keeps r unavailable_keeps changes_keepD [OF c] t)
      (auto split: sum.split intro!: keeps_intros reads_keepD r Suc.IH)
qed (simp add: keeps_throw)

lemma write_loop_keeps:
  assumes "reads_keep os P" and "changes_keep os ref P"
  shows "io_keeps P (write_loop os fd remaining)"
  unfolding io_keeps_def
proof (intro allI impI)
  fix w r w' assume "P w" and run: "write_loop os fd remaining w = Some (r, w')"
  let ?Q = "\<lambda>os fd remaining w res. reads_keep os P \<and> changes_keep os ref P \<longrightarrow> P w \<longrightarrow> P (snd res)"
  have "?Q os fd remaining w (r, w')"
  proof (rule write_loop.raw_induct [where P = ?Q, OF _ run], intro impI, elim conjE)
    fix wl and os :: "'a unix" and fd remaining w res
    assume IH: "\<And>os fd remaining w res. wl os fd remaining w = Some res \<Longrightarrow> ?Q os fd remaining w res"
      and body: "(if remaining = [] then Some (Inr (), w)
        else (case UxCtxErr os w of (cancelled, w1) \<Rightarrow>
          if cancelled then Some (Inl [ContextError], w1)
          else (case UxWrite os fd remaining w1 of ((written, err), w2) \<Rightarrow>
            if err = Some EINTR then wl os fd remaining w2
            else if err \<noteq> None \<or> written \<le> 0
              then Some (Inl (artifactStoreError ArtifactStoreErrorUnavailable ''write temporary object''), w2)
            else if written > int (length remaining) then Some (Inl [RuntimePanic], w2)
            else wl os fd (drop (nat written) remaining) w2))) = Some res"
      and os: "reads_keep os P" "changes_keep os ref P" and "P w"
    obtain c w1 where c: "UxCtxErr os w = (c, w1)" by (cases "UxCtxErr os w")
    obtain written err w2 where d: "UxWrite os fd remaining w1 = ((written, err), w2)" by (metis prod.exhaust)
    have "P w1" by (rule call_keeps_case [OF reads_keepD(1) [OF os(1)] \<open>P w\<close> c])
    then have "P w2" by (rule call_keeps_case [OF changes_keepD(3) [OF os(2)] _ d])
    with \<open>P w\<close> \<open>P w1\<close> body c d os show "P (snd res)" by (auto split: if_splits dest: IH)
  qed
  then show "P w'" using \<open>P w\<close> assms by simp
qed

lemma writeArtifactTemp_keeps:
  "reads_keep os P \<Longrightarrow> changes_keep os ref P \<Longrightarrow> io_keeps P (writeArtifactTemp os fd data)"
  unfolding writeArtifactTemp_def by (intro keeps_bind unavailable_keeps write_loop_keeps changes_keepD)

lemma syncArtifactObjectDir_keeps: "changes_keep os ref P \<Longrightarrow> io_keeps P (syncArtifactObjectDir os fd)"
  unfolding syncArtifactObjectDir_def by (intro unavailable_keeps changes_keepD)

lemma removeArtifactTemp_keeps:
  "changes_keep os ref P \<Longrightarrow> temp_name name \<Longrightarrow> io_keeps P (removeArtifactTemp os fd name)"
  unfolding removeArtifactTemp_def
  by (intro keeps_sys changes_keepD) (auto split: sum.split intro!: keeps_intros changes_keepD)

lemma defer_join_keeps [keeps_intros]: "io_keeps P c \<Longrightarrow> io_keeps P m \<Longrightarrow> io_keeps P (defer_join c m)"
  unfolding defer_join_def by (rule keeps_try, assumption, rule keeps_try, assumption) (simp (no_asm) add: io_keeps_def)

lemma install_object_keeps:
  assumes r: "reads_keep os P" and c: "changes_keep os ref P"
  shows "io_keeps P (install_object os dirFD (object_name ref) ref data)"
  unfolding install_object_def installArtifactNoReplace_def
  by (rule keeps_bind_ensures [OF createArtifactTemp_name createArtifactTemp_keeps [OF r c]], clarify)
    (intro keeps_intros r writeArtifactTemp_keeps [OF r c] syncArtifactObjectDir_keeps [OF c] reads_keepD [OF r]
       removeArtifactTemp_keeps [OF c] changes_keepD(6) [OF c])

lemma ensure_keeps:
  assumes r: "reads_keep os P" and c: "changes_keep os ref P"
  shows "io_keeps P (Ensure os store ref data)"
proof -
  have dir: "io_ensures (openArtifactObjectDir os rootFD ref True) (\<lambda>(fd, name). name = object_name ref)" for rootFD
    unfolding openArtifactObjectDir_def by (intro io_intros) auto
  show ?thesis
    unfolding Ensure_def
    by (intro keeps_bind keeps_defer openRoot_keeps ctx_check_keeps keeps_require close_fd_keeps r
          keeps_bind_ensures [OF dir openArtifactObjectDir_keeps], use c in simp, clarify)
      (intro keeps_intros syncArtifactObjectDir_keeps [OF c] r install_object_keeps c)
qed

section \<open>Success means a verified, synced object\<close>

text \<open>The two obligations of a successful \<open>Ensure\<close>: the object reads back as the reference, and its directory was synced.\<close>

definition unverified_or_unsynced :: "'w unix \<Rightarrow> artifact_ref \<Rightarrow> ('w \<Rightarrow> bool) \<Rightarrow> bool" where
  "unverified_or_unsynced os ref P \<longleftrightarrow>
     (\<forall>fd. io_fails P (readArtifactObject os fd (object_name ref) ref)) \<or>
     (\<forall>fd w. P w \<longrightarrow> fst (UxFsync os fd w) \<noteq> Inr ())"

lemma sync_fails: "\<forall>fd w. P w \<longrightarrow> fst (UxFsync os fd w) \<noteq> Inr () \<Longrightarrow> io_fails P (syncArtifactObjectDir os fd)"
  unfolding io_fails_def syncArtifactObjectDir_def unavailable_def io_call_def
  by (auto split: prod.splits sum.splits) (metis fst_conv)

lemma fails_defer_join [fails_intros]:
  assumes "io_fails P m" shows "io_fails P (defer_join c m)"
proof (unfold io_fails_def, intro allI impI notI)
  fix w a w' assume "P w" and run: "defer_join c m w = Some (Inr a, w')"
  then obtain r w1 r' w2 where m: "m w = Some (r, w1)" and j: "errors_join r r' = Inr a"
    by (auto simp: defer_join_def io_try_def split: option.splits)
  then show False using io_failsD [OF assms \<open>P w\<close>] by (cases r; cases r') auto
qed

lemma ensure_fails:
  assumes r: "reads_keep os P" and c: "changes_keep os ref P" and u: "unverified_or_unsynced os ref P"
  shows "io_fails P (Ensure os store ref data)"
proof -
  have dir: "io_ensures (openArtifactObjectDir os rootFD ref True) (\<lambda>(fd, name). name = object_name ref)" for rootFD
    unfolding openArtifactObjectDir_def by (intro io_intros) auto
  let ?read = "\<lambda>fd. readArtifactObject os fd (object_name ref) ref"
  note keeps = readArtifactObject_keeps [OF r] syncArtifactObjectDir_keeps [OF c]
  have read_sync: "io_fails P (io_bind (?read fd) (\<lambda>_. syncArtifactObjectDir os fd))"
    and sync_read: "io_fails P (io_bind (syncArtifactObjectDir os fd) (\<lambda>_. io_bind (?read fd) (\<lambda>_. io_return ())))" for fd
    using u keeps unfolding unverified_or_unsynced_def by (metis fails_bind fails_bind_first sync_fails)+
  have try_sync: "io_fails P (io_try (?read fd) (\<lambda>r. case r of Inr _ \<Rightarrow> syncArtifactObjectDir os fd | Inl es \<Rightarrow> k es))"
    if "\<And>es. io_fails P (k es)" for fd k
  proof (cases "io_fails P (?read fd)")
    case True
    then show ?thesis using keeps that by (intro fails_try_failing) simp_all
  next
    case False
    then have "io_fails P (syncArtifactObjectDir os fd)"
      using u sync_fails unfolding unverified_or_unsynced_def by blast
    then show ?thesis using keeps that by (intro fails_try fails_sum) simp_all
  qed
  have install: "io_fails P (install_object os fd (object_name ref) ref data)" for fd
    unfolding install_object_def installArtifactNoReplace_def
    by (rule fails_bind_ensures [OF createArtifactTemp_name createArtifactTemp_keeps [OF r c]], clarify)
      (intro fails_try fails_intros read_sync sync_read writeArtifactTemp_keeps [OF r c] reads_keepD [OF r] changes_keepD(6) [OF c])
  show ?thesis
    unfolding Ensure_def
    by (intro fails_bind fails_defer openRoot_keeps ctx_check_keeps keeps_require r
          fails_bind_ensures [OF dir openArtifactObjectDir_keeps], use c in simp, clarify)
      (intro fails_defer try_sync fails_if fails_throw install)
qed

section \<open>The loops end\<close>

text \<open>
  An interrupted call leaves fewer interruptions to come: \<open>m\<close> counts the signals that are still to arrive. Other calls
  may let it grow, and a file may grow while it is read.
\<close>

definition interrupts_end :: "'w unix \<Rightarrow> ('w \<Rightarrow> nat) \<Rightarrow> bool" where
  "interrupts_end os m \<longleftrightarrow>
     (\<forall>fd w w1 bytes w2. UxCtxErr os w = (False, w1) \<longrightarrow> UxRead os fd w1 = ((bytes, Some EINTR), w2) \<longrightarrow> m w2 < m w) \<and>
     (\<forall>fd data w w1 n w2. UxCtxErr os w = (False, w1) \<longrightarrow> UxWrite os fd data w1 = ((n, Some EINTR), w2) \<longrightarrow> m w2 < m w)"

lemma read_loop_returns:
  assumes "interrupts_end os m"
  shows "read_loop os fd refSize data w \<noteq> None"
proof (induction "nat (refSize + 1 - int (length data))" arbitrary: data w rule: less_induct)
  case outer: less
  show ?case
  proof (induction "m w" arbitrary: w rule: less_induct)
    case inner: less
    obtain c w1 where c: "UxCtxErr os w = (c, w1)" by (cases "UxCtxErr os w")
    obtain bytes err w2 where d: "UxRead os fd w1 = ((bytes, err), w2)" by (metis prod.exhaust)
    have "read_loop os fd refSize data w2 \<noteq> None" if "\<not> c" "err = Some EINTR"
      using assms c d that by (intro inner) (auto simp: interrupts_end_def)
    moreover have "read_loop os fd refSize (data @ bytes) w2 \<noteq> None"
      if "bytes \<noteq> []" "\<not> int (length data) + int (length bytes) > refSize"
      using that by (intro outer) (simp add: nat_less_eq_zless)
    ultimately show ?case using c d by (subst read_loop.simps) auto
  qed
qed

lemma write_loop_returns:
  assumes "interrupts_end os m"
  shows "write_loop os fd remaining w \<noteq> None"
proof (induction "length remaining" arbitrary: remaining w rule: less_induct)
  case outer: less
  show ?case
  proof (induction "m w" arbitrary: w rule: less_induct)
    case inner: less
    obtain c w1 where c: "UxCtxErr os w = (c, w1)" by (cases "UxCtxErr os w")
    obtain written err w2 where d: "UxWrite os fd remaining w1 = ((written, err), w2)" by (metis prod.exhaust)
    have "write_loop os fd remaining w2 \<noteq> None" if "\<not> c" "err = Some EINTR"
      using assms c d that by (intro inner) (auto simp: interrupts_end_def)
    moreover have "write_loop os fd (drop (nat written) remaining) w2 \<noteq> None"
      if "remaining \<noteq> []" "\<not> written \<le> 0" "\<not> written > int (length remaining)"
      using that by (intro outer) simp
    ultimately show ?case using c d by (subst write_loop.simps) auto
  qed
qed

lemma ctx_check_total [total_intros]: "io_total (ctx_check os)"
  unfolding ctx_check_def by (intro total_intros)

lemma unavailable_total [total_intros]: "io_total (unavailable op c)"
  unfolding unavailable_def by (intro total_intros)

lemma integrity_total [total_intros]: "io_total (integrity op b)"
  unfolding integrity_def by (intro total_intros)

lemma inspect_dir_total [total_intros]: "io_total (inspect_dir os op fd)"
  unfolding inspect_dir_def by (intro total_intros)

lemma openArtifactDirAt_total [total_intros]: "io_total (openArtifactDirAt os fd name)"
  unfolding openArtifactDirAt_def by (intro total_intros)

lemma openArtifactObjectDir_total [total_intros]: "io_total (openArtifactObjectDir os rootFD ref create)"
  unfolding openArtifactObjectDir_def object_dir_step_def ensureArtifactDirAt_def Let_def by (intro total_intros)

lemma openRoot_total [total_intros]: "io_total (openRoot os store)"
  unfolding openRoot_def by (cases store) (simp_all add: total_intros)

lemma createArtifactTemp_total [total_intros]: "io_total (createArtifactTemp os dirFD n)"
  by (induction n) (auto simp: Let_def split: sum.split intro!: total_intros)

lemma readArtifactObject_total: "interrupts_end os m \<Longrightarrow> io_total (readArtifactObject os dirFD name ref)"
  unfolding readArtifactObject_def read_open_object_def
  by (intro total_intros) (simp add: io_total_def read_loop_returns)

lemma writeArtifactTemp_total: "interrupts_end os m \<Longrightarrow> io_total (writeArtifactTemp os fd data)"
  unfolding writeArtifactTemp_def by (intro total_intros) (simp add: io_total_def write_loop_returns)

lemma defer_join_total [total_intros]: "io_total c \<Longrightarrow> io_total d \<Longrightarrow> io_total (defer_join c d)"
  unfolding defer_join_def by (intro total_try) (simp_all add: io_total_def)

lemma install_object_total: "interrupts_end os m \<Longrightarrow> io_total (install_object os dirFD name ref data)"
  unfolding install_object_def installArtifactNoReplace_def syncArtifactObjectDir_def removeArtifactTemp_def
  by (intro total_intros readArtifactObject_total writeArtifactTemp_total)

lemma get_total: "interrupts_end os m \<Longrightarrow> io_total (Get os store ref)"
  unfolding Get_def by (intro total_intros readArtifactObject_total)

lemma ensure_total: "interrupts_end os m \<Longrightarrow> io_total (Ensure os store ref data)"
  unfolding Ensure_def syncArtifactObjectDir_def
  by (intro total_intros readArtifactObject_total install_object_total)

section \<open>A small operating system\<close>

text \<open>
  A store with one object whose content is the single byte \<open>k\<close>. The world counts the signals that will interrupt the next
  reads and writes, and says whether the object was read.
\<close>

definition demo_object_ref :: artifact_ref where
  "demo_object_ref = runtimeArtifactRef ''k''"

definition demo_dir_stat :: stat where
  "demo_dir_stat = \<lparr> StMode = 0x41C0, StNlink = 2, StUid = 7, StSize = 4096, StDev = 1, StIno = 10 \<rparr>"

definition demo_object_stat :: "int \<Rightarrow> stat" where
  "demo_object_stat n = \<lparr> StMode = 0x8180, StNlink = 1, StUid = 7, StSize = n, StDev = 1, StIno = 11 \<rparr>"

fun demo_read :: "nat \<times> bool \<Rightarrow> (string \<times> errno option) \<times> (nat \<times> bool)" where
  "demo_read (Suc n, b) = (([], Some EINTR), (n, b))"
| "demo_read (0, False) = ((''k'', None), (0, True))"
| "demo_read (0, True) = (([], None), (0, True))"

fun demo_write :: "string \<Rightarrow> nat \<times> bool \<Rightarrow> (int \<times> errno option) \<times> (nat \<times> bool)" where
  "demo_write data (Suc n, b) = ((-1, Some EINTR), (n, b))"
| "demo_write data (0, b) = ((int (length data), None), (0, b))"

definition demo_unix :: "(nat \<times> bool) unix" where
  "demo_unix = \<lparr> UxGeteuid = 7, UxCtxErr = Pair False, UxOpenSlash = Pair (Inr 3), UxOpenDirAt = (\<lambda>_ _. Pair (Inr 3)),
     UxOpenReadAt = (\<lambda>_ _. Pair (Inr 4)), UxCreateAt = (\<lambda>_ _ _. Pair (Inr 5)), UxMkdirAt = (\<lambda>_ _ _. Pair (Inl EEXIST)),
     UxDup = (\<lambda>_. Pair (Inr 3)), UxClose = (\<lambda>_. Pair (Inr ())), UxFsync = (\<lambda>_. Pair (Inr ())),
     UxFstat = (\<lambda>fd. Pair (Inr (if fd = 3 then demo_dir_stat else demo_object_stat (if fd = 4 then 1 else 0)))),
     UxFstatAt = (\<lambda>_ _. Pair (Inr (demo_object_stat 1))), UxRead = (\<lambda>_. demo_read), UxWrite = (\<lambda>_. demo_write),
     UxRenameNoReplace = (\<lambda>_ _ _. Pair (Inl EEXIST)), UxUnlinkAt = (\<lambda>_ _. Pair (Inr ())), UxRandom = Pair (Inr []) \<rparr>"

lemma demo_unix_sel [simp]:
  "UxGeteuid demo_unix = 7" "UxCtxErr demo_unix = Pair False" "UxOpenDirAt demo_unix fd name = Pair (Inr 3)"
  "UxOpenReadAt demo_unix fd name = Pair (Inr 4)" "UxDup demo_unix fd = Pair (Inr 3)" "UxClose demo_unix fd = Pair (Inr ())"
  "UxFstat demo_unix fd = Pair (Inr (if fd = 3 then demo_dir_stat else demo_object_stat (if fd = 4 then 1 else 0)))"
  "UxFstatAt demo_unix fd name = Pair (Inr (demo_object_stat 1))" "UxRead demo_unix fd = demo_read"
  by (simp_all add: demo_unix_def)

definition demo_store :: "artifact_store option" where
  "demo_store = Some \<lparr> FsRoot = ''/a'', FsRootFD = 3, FsClosed = False \<rparr>"

lemma demo_digest: "ArDigest demo_object_ref \<noteq> replicate 32 0"
proof -
  have "hd (sha256_string (runtimeArtifactMagic @ writeUint16 ArtifactDigestSchemaV1 @ ''k'')) \<noteq> 0"
    by code_simp
  then show ?thesis by (auto simp: demo_object_ref_def runtimeArtifactRef_def)
qed

lemma demo_ref_valid: "validateArtifactRef demo_object_ref"
  using demo_digest
  by (simp add: validateArtifactRef_def demo_object_ref_def runtimeArtifactRef_def maxRuntimeArtifactBytes_def)

lemma demo_stats:
  "validateArtifactDirStat demo_unix demo_dir_stat"
  "validateArtifactObjectStat demo_unix (demo_object_stat n) n"
  by (simp_all add: validateArtifactDirStat_def validateArtifactObjectStat_def demo_dir_stat_def demo_object_stat_def
      artifactStoreDirMode_def artifactStoreFileMode_def demo_unix_def)

lemma demo_keeps: "reads_keep demo_unix (\<lambda>w. fst w \<le> 2)" "changes_keep demo_unix ref (\<lambda>w. fst w \<le> 2)"
proof -
  have "fst w \<le> 2 \<Longrightarrow> fst (snd (demo_read w)) \<le> 2" "fst w \<le> 2 \<Longrightarrow> fst (snd (demo_write data w)) \<le> 2" for w data
    by (cases w rule: demo_read.cases; simp) (cases "fst w"; cases w; simp)
  then show "reads_keep demo_unix (\<lambda>w. fst w \<le> 2)" "changes_keep demo_unix ref (\<lambda>w. fst w \<le> 2)"
    by (simp_all add: reads_keep_def changes_keep_def call_keeps_def demo_unix_def)
qed

lemma demo_interrupts_end: "interrupts_end demo_unix fst"
proof -
  have "demo_read w = ((bytes, Some EINTR), w') \<Longrightarrow> fst w' < fst w" for w bytes w'
    by (cases w rule: demo_read.cases) auto
  moreover have "demo_write data w = ((n, Some EINTR), w') \<Longrightarrow> fst w' < fst w" for data w n w'
    by (cases "(data, w)" rule: demo_write.cases) auto
  ultimately show ?thesis by (simp add: interrupts_end_def demo_unix_def)
qed

lemma demo_read_loop: "read_loop demo_unix 4 1 [] (Suc (Suc 0), False) = Some (Inr ''k'', (0, True))"
  by (simp add: read_loop.simps [of demo_unix 4 1 "[]"] read_loop.simps [of demo_unix 4 1 "''k''"])

lemma demo_read_object:
  "readArtifactObject demo_unix 3 name demo_object_ref (Suc (Suc 0), False) = Some (Inr ''k'', (0, True))"
proof -
  have "validateRuntimeArtifactRef demo_object_ref ''k'' = Inr ()"
    by (simp add: validateRuntimeArtifactRef_iff demo_object_ref_def)
  moreover have "ArSize demo_object_ref = 1" by (simp add: demo_object_ref_def runtimeArtifactRef_def)
  ultimately show ?thesis
    by (simp add: readArtifactObject_def read_open_object_def ctx_check_def unavailable_def integrity_def io_defs
        demo_read_loop demo_stats close_fd_def)
qed

lemma demo_dir_step:
  assumes "segment \<noteq> []" and "\<forall>c \<in> set segment. c \<noteq> CHR ''.'' \<and> c \<noteq> CHR ''/''"
  shows "object_dir_step demo_unix False segment (3, b) w = Some (Inr (3, True), w)"
proof -
  have "\<not> (segment = [] \<or> segment = ''.'' \<or> segment = ''..'' \<or> CHR ''/'' \<in> set segment)"
    using assms by (metis list.set_intros(1))
  then show ?thesis
    by (cases b) (simp_all add: Let_def object_dir_step_def openArtifactDirAt_def inspect_dir_def ctx_check_def unavailable_def
        io_defs demo_stats close_fd_def)
qed

lemma demo_get: "Get demo_unix demo_store demo_object_ref (Suc (Suc 0), False) = Some (Inr ''k'', (0, True))"
proof -
  have "c \<noteq> CHR ''.'' \<and> c \<noteq> CHR ''/''" if "c \<in> set (take 2 (hex_encode (ArDigest demo_object_ref)))" for c
    using hex_encode_lower [OF in_set_takeD [OF that]]
    by (auto simp: is_lower_hex_def is_digit_def)
  moreover have "take 2 (hex_encode (ArDigest demo_object_ref)) \<noteq> []"
    by (simp add: demo_object_ref_def runtimeArtifactRef_def flip: length_greater_0_conv)
  ultimately have "object_dir_step demo_unix False segment (3, b) w = Some (Inr (3, True), w)"
    if "segment \<in> set (object_segments demo_object_ref)" for segment b w
    using that by (intro demo_dir_step) (auto simp: object_segments_def)
  then have "openArtifactObjectDir demo_unix 3 demo_object_ref False w = Some (Inr (3, object_name demo_object_ref), w)" for w
    by (simp add: openArtifactObjectDir_def object_segments_def ctx_check_def io_defs)
  then show ?thesis
    using demo_read_object [of "object_name demo_object_ref"]
    by (simp add: Get_def openRoot_def demo_store_def inspect_dir_def ctx_check_def unavailable_def io_defs close_fd_def
        demo_stats demo_ref_valid)
qed

section \<open>Properties\<close>

text \<open>
  C18. Whatever the operating system and other processes do while an object is read, the bytes \<open>Get\<close> returns have the
  digest, the size, the schema and the media type of the requested reference, and are never empty or too large.
\<close>

theorem stored_bytes_are_authentic:
  assumes "Get os store ref w = Some (Inr data, w')"
  shows "ref = runtimeArtifactRef data \<and> 0 < length data \<and> length data \<le> maxRuntimeArtifactBytes"
  using io_ensuresD [OF get_ensures assms] validateArtifactRef_length by blast

theorem stored_bytes_are_authentic_witness:
  "Get demo_unix demo_store demo_object_ref (Suc (Suc 0), False) = Some (Inr ''k'', (0, True)) \<and>
   demo_object_ref = runtimeArtifactRef ''k''"
  using stored_bytes_are_authentic [OF demo_get] demo_get by blast



text \<open>
  \<open>Ensure\<close> reports success only for an object that was read back and verified and whose directory was synced: if the
  object of the reference cannot be read back, or no directory can be synced, it does not succeed on any of its paths,
  the one where another writer installed the object first included.
\<close>

theorem ensure_success_is_verified:
  assumes "reads_keep os P" and "changes_keep os ref P" and "unverified_or_unsynced os ref P" and "P w"
  shows "Ensure os store ref data w \<noteq> Some (Inr (), w')"
  by (rule io_failsD [OF ensure_fails [OF assms(1-3)] assms(4)])

definition demo_broken_unix :: "(nat \<times> bool) unix" where
  "demo_broken_unix = demo_unix \<lparr> UxFsync := (\<lambda>_. Pair (Inl (EOTHER 5))) \<rparr>"

theorem ensure_success_is_verified_witness:
  "Ensure demo_broken_unix demo_store demo_object_ref ''k'' (2, False) \<noteq> Some (Inr (), (0, True))"
proof (rule ensure_success_is_verified [where P = "\<lambda>w. fst w \<le> 2"])
  show "reads_keep demo_broken_unix (\<lambda>w. fst w \<le> 2)" "changes_keep demo_broken_unix demo_object_ref (\<lambda>w. fst w \<le> 2)"
    using demo_keeps
    by (simp_all add: reads_keep_def changes_keep_def call_keeps_def demo_broken_unix_def demo_unix_def)
  show "unverified_or_unsynced demo_broken_unix demo_object_ref (\<lambda>w. fst w \<le> 2)"
    by (simp add: unverified_or_unsynced_def demo_broken_unix_def)
qed simp

text \<open>
  C39. \<open>Get\<close> and \<open>Ensure\<close> return as soon as only finitely many signals interrupt them: a file that grows while it is read is
  cut off by the size of the reference, a write makes progress or fails, and the search for a temporary name is bounded.
\<close>

theorem store_returns:
  assumes "interrupts_end os m"
  shows "(\<exists>r w'. Get os store ref w = Some (r, w')) \<and> (\<exists>r w'. Ensure os store ref data w = Some (r, w'))"
  using io_totalD [OF get_total [OF assms]] io_totalD [OF ensure_total [OF assms]] by blast

theorem store_returns_witness:
  "\<exists>r w'. Ensure demo_unix demo_store demo_object_ref ''k'' (5, False) = Some (r, w')"
  using store_returns [OF demo_interrupts_end] by blast

end
