(* ===== verification/Catalog_Build.thy ===== *)
theory Catalog_Build
  imports Catalog_Loader Artifact_Store
begin

text \<open>
  Building a candidate (\<open>src/backend/internal/problem/loader.go\<close>): the capture of the checkout, the bundle and the revision
  of one problem, the candidate of a whole catalog, and the candidate that is restored from the ledger and the artifact
  store.

  The checkout is the record \<open>ck\<close> of the calls the capture makes on an arbitrary world; the image resolver and
  the context are two of them, and the YAML parser is the parameter \<open>yaml\<close>. The artifact store is a pair of actions on
  the same world. A loader is strict exactly when it has an image resolver.
\<close>

unbundle bit_operations_syntax

section \<open>Paths\<close>

definition filepath_Base :: "string \<Rightarrow> string" where
  "filepath_Base path =
     (if path = [] then ''.''
      else (let base = rev (takeWhile (\<lambda>c. c \<noteq> CHR ''/'') (dropWhile (\<lambda>c. c = CHR ''/'') (rev path))) in
            if base = [] then ''/'' else base))"

definition canonical_name :: "string \<Rightarrow> bool" where
  "canonical_name name \<longleftrightarrow> \<not> (name = [] \<or> name = ''.'' \<or> name = ''..'' \<or> filepath_Base name \<noteq> name)"

text \<open>\<open>filepath.Join\<close>: the elements that are not empty, joined and cleaned.\<close>

definition filepath_Join :: "string list \<Rightarrow> string" where
  "filepath_Join elements =
     (let kept = dropWhile (\<lambda>e. e = []) elements in
      if kept = [] then [] else filepath_Clean (join_segments kept))"

definition safeJoin :: "string \<Rightarrow> string \<Rightarrow> string \<Rightarrow> catalog_error + string" where
  "safeJoin repoPath problemID file =
     (let full = filepath_Clean (filepath_Join [repoPath, problemID, file]) in
      if full \<noteq> filepath_Clean repoPath \<and> \<not> HasPrefix full (filepath_Clean repoPath @ ''/'')
        then Inl (CheckoutRejected ''problem path escapes repo root'')
      else Inr full)"

section \<open>The checkout\<close>

datatype entry_kind = EntrySymlink | EntryDir | EntryRegular | EntryOther

record file_stat =
  RfMode :: "32 word"
  RfNlink :: nat
  RfSize :: int
  RfDev :: nat
  RfIno :: nat
  RfMtim :: int
  RfCtim :: int

record 'w checkout =
  CkCtxErr :: "'w \<Rightarrow> bool \<times> 'w"
  CkOpenRoot :: "'w \<Rightarrow> (errno + int) \<times> 'w"
  CkOpenDirAt :: "int \<Rightarrow> string \<Rightarrow> 'w \<Rightarrow> (errno + int) \<times> 'w"
  CkOpenFileAt :: "int \<Rightarrow> string \<Rightarrow> 'w \<Rightarrow> (errno + int) \<times> 'w"
  CkFstat :: "int \<Rightarrow> 'w \<Rightarrow> (errno + file_stat) \<times> 'w"
  CkRead :: "int \<Rightarrow> 'w \<Rightarrow> (errno + string) \<times> 'w"
  CkReadDir :: "int \<Rightarrow> 'w \<Rightarrow> (errno + string list) \<times> 'w"
  CkInfo :: "int \<Rightarrow> string \<Rightarrow> 'w \<Rightarrow> (errno + entry_kind) \<times> 'w"
  CkClose :: "int \<Rightarrow> 'w \<Rightarrow> 'w"
  CkResolveImage :: "string \<Rightarrow> 'w \<Rightarrow> (errno + string) \<times> 'w"

type_synonym ('w, 'a) catalog_io = "('w, catalog_error, 'a) io"

definition rejected :: "string \<Rightarrow> ('w \<Rightarrow> (errno + 'a) \<times> 'w) \<Rightarrow> ('w, 'a) catalog_io" where
  "rejected what c = io_call c (\<lambda>_. CheckoutRejected what)"

definition accept :: "string \<Rightarrow> bool \<Rightarrow> ('w, unit) catalog_io" where
  "accept what b = io_require b (CheckoutRejected what)"

definition ck_check :: "'w checkout \<Rightarrow> ('w, unit) catalog_io" where
  "ck_check ck = io_sys (CkCtxErr ck) (\<lambda>cancelled. io_require (\<not> cancelled) ContextDone)"

definition openRuntimeDirectoryAt :: "'w checkout \<Rightarrow> int \<Rightarrow> string \<Rightarrow> ('w, int) catalog_io" where
  "openRuntimeDirectoryAt ck parentFD name =
     io_bind (accept ''runtime directory name is not canonical'' (canonical_name name)) (\<lambda>_.
     rejected ''open runtime directory'' (CkOpenDirAt ck parentFD name))"

text \<open>The read of an open file: \<open>io.ReadAll\<close> of a reader limited to one byte more than allowed, between two inspections.\<close>

definition read_regular :: "'w checkout \<Rightarrow> int \<Rightarrow> string \<Rightarrow> nat \<Rightarrow> ('w, string) catalog_io" where
  "read_regular ck fd name maxBytes =
     io_bind (rejected name (CkFstat ck fd)) (\<lambda>before.
     io_bind (accept name (RfMode before AND 0xF000 = 0x8000)) (\<lambda>_.
     io_bind (accept name (RfNlink before = 1)) (\<lambda>_.
     io_bind (accept name (\<not> (RfSize before < 0 \<or> RfSize before > int maxBytes))) (\<lambda>_.
     io_bind (rejected name (CkRead ck fd)) (\<lambda>content.
     io_bind (io_return (take (maxBytes + 1) content)) (\<lambda>data.
     io_bind (accept name (\<not> length data > maxBytes)) (\<lambda>_.
     io_bind (rejected name (CkFstat ck fd)) (\<lambda>after.
     io_bind (accept name
        (\<not> (RfDev before \<noteq> RfDev after \<or> RfIno before \<noteq> RfIno after \<or> RfMode before \<noteq> RfMode after \<or>
            RfNlink before \<noteq> RfNlink after \<or> RfSize before \<noteq> RfSize after \<or> RfMtim before \<noteq> RfMtim after \<or>
            RfCtim before \<noteq> RfCtim after))) (\<lambda>_.
     io_return data)))))))))"

definition readRuntimeRegularFile :: "'w checkout \<Rightarrow> int \<Rightarrow> string \<Rightarrow> bool \<Rightarrow> nat \<Rightarrow> ('w, string option) catalog_io" where
  "readRuntimeRegularFile ck parentFD name required maxBytes =
     io_bind (accept ''runtime file name is not canonical'' (canonical_name name)) (\<lambda>_.
     io_sys (CkOpenFileAt ck parentFD name) (\<lambda>r. case r of
       Inl e \<Rightarrow> if \<not> required \<and> e = ENOENT then io_return None else io_throw (CheckoutRejected name)
     | Inr fd \<Rightarrow> io_defer (CkClose ck fd) (io_bind (read_regular ck fd name maxBytes) (\<lambda>data. io_return (Some data)))))"

definition read_optional :: "'w checkout \<Rightarrow> int \<Rightarrow> string \<times> nat \<Rightarrow> problem_files \<Rightarrow> ('w, problem_files) catalog_io" where
  "read_optional ck dir nl files =
     (case nl of (name, limit) \<Rightarrow>
        io_bind (readRuntimeRegularFile ck dir name False limit) (\<lambda>data. io_return (files(name := data))))"

definition readRuntimeProblemFiles :: "'w checkout \<Rightarrow> int \<Rightarrow> string \<Rightarrow> ('w, problem_files) catalog_io" where
  "readRuntimeProblemFiles ck dir manifest =
     io_each (read_optional ck dir)
       [(''setup.sh'', maxProblemScriptBytes), (''verify.sh'', maxProblemScriptBytes), (''hint.md'', maxProblemHintBytes)]
       (Map.empty(''problem.yaml'' := copy_slice (Some manifest)))"

section \<open>The bundle of a problem\<close>

text \<open>The bytes of the revision digest; an absent file has length 0 and no data.\<close>

definition revision_file :: "problem_files \<Rightarrow> string \<Rightarrow> string" where
  "revision_file files name =
     name @ NUL @ (if files name \<noteq> None then ''1'' else ''0'') @ NUL @ dec_nat (length (file_text files name)) @ NUL @
     file_text files name @ NUL"

definition build_stream :: "problem_files \<Rightarrow> string option \<Rightarrow> string \<Rightarrow> string" where
  "build_stream files imageLock runtimeImage =
     concat (map (revision_file files) [''problem.yaml'', ''setup.sh'', ''verify.sh'', ''hint.md'']) @
     (case imageLock of None \<Rightarrow> [] | Some lock \<Rightarrow>
        ''images.lock'' @ NUL @ ''1'' @ NUL @ dec_nat (length lock) @ NUL @ lock @ NUL) @
     (if runtimeImage = [] then []
      else ''runtime-image-content-id'' @ NUL @ ''1'' @ NUL @ dec_nat (length runtimeImage) @ NUL @ runtimeImage @ NUL)"

definition resolve_runtime_image :: "'w checkout \<Rightarrow> bool \<Rightarrow> problem \<Rightarrow> ('w, string) catalog_io" where
  "resolve_runtime_image ck strict p =
     (if \<not> strict then io_return []
      else io_bind (rejected ''resolve image'' (CkResolveImage ck (EffectiveImage p))) (\<lambda>resolved.
           io_bind (accept ''non-content-addressed ID'' (validImageContentID resolved)) (\<lambda>_. io_return resolved)))"

definition buildRuntimeBundle ::
  "(string \<Rightarrow> problem_yaml option) \<Rightarrow> 'w checkout \<Rightarrow> bool \<Rightarrow> problem_files \<Rightarrow> string option \<Rightarrow> approvedImagePolicy \<Rightarrow>
   ('w, runtime_bundle) catalog_io" where
  "buildRuntimeBundle yaml ck strict files imageLock policy =
     (case yaml (file_text files ''problem.yaml'') of
        None \<Rightarrow> io_throw (CheckoutRejected ''parse problem.yaml'')
      | Some py \<Rightarrow>
          (let p = problem_of_yaml py (PyChoices py) (file_text files ''hint.md'') in
           io_bind (accept ''validate workload images'' (\<not> strict \<or> validateApprovedImagePolicy files policy = None)) (\<lambda>_.
           io_bind (accept ''script problem requires a non-empty verify.sh''
              (\<not> strict \<or> \<not> (PbVerifyType p = ''script'' \<and> TrimSpace (file_text files ''verify.sh'') = []))) (\<lambda>_.
           io_bind (resolve_runtime_image ck strict p) (\<lambda>runtimeImage.
           (let revision = hex_encode (sha256_string (build_stream files imageLock runtimeImage)) in
            io_return
              \<lparr> RbProblem = p \<lparr> PbRevision := revision \<rparr>, RbSetupScript = file_text files ''setup.sh'',
                RbVerifyScript = file_text files ''verify.sh'', RbRevision = revision, RbRuntimeImage = runtimeImage,
                RbSourceTrust = BundleSourceDevelopmentCheckout \<rparr>))))))"

section \<open>Capturing the catalog\<close>

definition maxRuntimeCatalogBytes :: nat where "maxRuntimeCatalogBytes = 33554432"
definition maxRuntimeCatalogCount :: nat where "maxRuntimeCatalogCount = 1024"

text \<open>The artifacts captured so far and the bytes read so far.\<close>

type_synonym capture_state = "(string \<times> captured_artifact) list \<times> nat"

definition files_bytes :: "problem_files \<Rightarrow> nat" where
  "files_bytes files = sum_list (map (\<lambda>name. length (file_text files name)) [''problem.yaml'', ''setup.sh'', ''verify.sh'', ''hint.md''])"

text \<open>The part of one directory entry that runs with the files of a problem in hand.\<close>

definition capture_problem ::
  "(string \<Rightarrow> problem_yaml option) \<Rightarrow> 'w checkout \<Rightarrow> bool \<Rightarrow> string \<Rightarrow> approvedImagePolicy \<Rightarrow> string \<Rightarrow> problem_files \<Rightarrow>
   capture_state \<Rightarrow> ('w, capture_state) catalog_io" where
  "capture_problem yaml ck strict imageLock policy name files st =
     (case st of (artifacts, totalBytes) \<Rightarrow>
        io_bind (accept ''runtime problem catalog exceeds its bytes''
          (\<not> totalBytes + files_bytes files > maxRuntimeCatalogBytes)) (\<lambda>_.
        io_bind (buildRuntimeBundle yaml ck strict files (Some imageLock) policy) (\<lambda>bundle.
        io_bind (accept ''directory contains another id'' (PbID (RbProblem bundle) = name)) (\<lambda>_.
        io_bind (accept ''runtime problem is invalid'' (validateLoadedProblem (RbProblem bundle) = [])) (\<lambda>_.
        (case NewCapturedRuntimeArtifact yaml files (Some imageLock) bundle of
           Inl e \<Rightarrow> io_throw (ArtifactRejected e)
         | Inr artifact \<Rightarrow>
             io_bind (accept ''runtime problem appears more than once'' (name \<notin> fst ` set artifacts)) (\<lambda>_.
             io_bind (accept ''runtime problem catalog exceeds its count'' (\<not> length artifacts + 1 > maxRuntimeCatalogCount)) (\<lambda>_.
             io_return (artifacts @ [(name, artifact)], totalBytes + files_bytes files)))))))))"

definition capture_directory ::
  "(string \<Rightarrow> problem_yaml option) \<Rightarrow> 'w checkout \<Rightarrow> bool \<Rightarrow> string \<Rightarrow> approvedImagePolicy \<Rightarrow> int \<Rightarrow> string \<Rightarrow>
   capture_state \<Rightarrow> ('w, capture_state) catalog_io" where
  "capture_directory yaml ck strict imageLock policy rootFD name st =
     io_bind (openRuntimeDirectoryAt ck rootFD name) (\<lambda>dir.
     io_bind (io_cleanup (CkClose ck dir)
        (readRuntimeRegularFile ck dir ''problem.yaml'' False maxProblemManifestBytes)) (\<lambda>manifest.
     (case manifest of
        None \<Rightarrow> io_defer (CkClose ck dir) (io_return st)
      | Some bytes \<Rightarrow>
          io_bind (io_defer (CkClose ck dir)
            (io_bind (accept ''directory is not a valid problem id'' (validProblemID name)) (\<lambda>_.
             readRuntimeProblemFiles ck dir bytes))) (\<lambda>files.
          capture_problem yaml ck strict imageLock policy name files st))))"

definition capture_entry ::
  "(string \<Rightarrow> problem_yaml option) \<Rightarrow> 'w checkout \<Rightarrow> bool \<Rightarrow> string \<Rightarrow> approvedImagePolicy \<Rightarrow> int \<Rightarrow> string \<Rightarrow>
   capture_state \<Rightarrow> ('w, capture_state) catalog_io" where
  "capture_entry yaml ck strict imageLock policy rootFD name st =
     io_bind (ck_check ck) (\<lambda>_.
     io_bind (rejected ''inspect runtime catalog entry'' (CkInfo ck rootFD name)) (\<lambda>kind.
     io_bind (accept ''entry must not be a symbolic link'' (kind \<noteq> EntrySymlink)) (\<lambda>_.
     if HasPrefix name ''.'' \<or> kind \<noteq> EntryDir then
       io_bind (accept ''unsupported file type'' (\<not> (kind \<noteq> EntryDir \<and> kind \<noteq> EntryRegular))) (\<lambda>_. io_return st)
     else capture_directory yaml ck strict imageLock policy rootFD name st)))"

text \<open>The lock file and its policy, which every capture reads first.\<close>

definition read_policy :: "'w checkout \<Rightarrow> int \<Rightarrow> ('w, string \<times> approvedImagePolicy) catalog_io" where
  "read_policy ck rootFD =
     io_bind (readRuntimeRegularFile ck rootFD ''images.lock'' True maxImageLockBytes) (\<lambda>imageLock.
     (case parseApprovedImagePolicy (elems imageLock) of
        Inl _ \<Rightarrow> io_throw (CheckoutRejected ''parse images.lock'')
      | Inr policy \<Rightarrow> io_return (elems imageLock, policy)))"

definition captureRuntimeCatalog ::
  "(string \<Rightarrow> problem_yaml option) \<Rightarrow> 'w checkout \<Rightarrow> git_loader \<Rightarrow> ('w, (string \<times> captured_artifact) list) catalog_io" where
  "captureRuntimeCatalog yaml ck l =
     io_bind (rejected ''open runtime problem catalog'' (CkOpenRoot ck)) (\<lambda>rootFD.
     io_defer (CkClose ck rootFD)
      (io_bind (read_policy ck rootFD) (\<lambda>(imageLock, policy).
       io_bind (rejected ''read runtime catalog directory'' (CkReadDir ck rootFD)) (\<lambda>entries.
       io_bind (io_each (capture_entry yaml ck (GlStrict l) imageLock policy rootFD) entries ([], length imageLock)) (\<lambda>(artifacts, _).
       io_return artifacts)))))"

definition captureRuntimeBundle ::
  "(string \<Rightarrow> problem_yaml option) \<Rightarrow> 'w checkout \<Rightarrow> git_loader \<Rightarrow> string \<Rightarrow> ('w, runtime_bundle) catalog_io" where
  "captureRuntimeBundle yaml ck l problemID =
     io_bind (rejected ''open runtime problem catalog'' (CkOpenRoot ck)) (\<lambda>rootFD.
     io_defer (CkClose ck rootFD)
      (io_bind (read_policy ck rootFD) (\<lambda>(imageLock, policy).
       io_bind (openRuntimeDirectoryAt ck rootFD problemID) (\<lambda>dir.
       io_defer (CkClose ck dir)
        (io_bind (readRuntimeRegularFile ck dir ''problem.yaml'' True maxProblemManifestBytes) (\<lambda>manifest.
         io_bind (readRuntimeProblemFiles ck dir (elems manifest)) (\<lambda>files.
         buildRuntimeBundle yaml ck (GlStrict l) files (Some imageLock) policy)))))))"

section \<open>The candidate of a checkout\<close>

text \<open>One problem of the candidate: its artifact is encoded and decoded again.\<close>

definition add_artifact ::
  "(string \<Rightarrow> problem_yaml option) \<Rightarrow> (string \<times> captured_artifact) list \<Rightarrow> string \<Rightarrow> catalog_candidate \<Rightarrow> catalog_error + catalog_candidate" where
  "add_artifact yaml captured i c =
     (case EncodeRuntimeArtifact yaml (the (map_of captured i)) of Inl e \<Rightarrow> Inl (ArtifactRejected e) | Inr (data, ref) \<Rightarrow>
      (case DecodeRuntimeArtifact yaml ref data of Inl e \<Rightarrow> Inl (ArtifactRejected e) | Inr (decoded, bundle) \<Rightarrow>
        Inr (c \<lparr> CcBundles := CcBundles c @ [(i, bundle)], CcArtifacts := CcArtifacts c @ [(i, decoded)],
                 CcArtifactBytes := CcArtifactBytes c @ [(i, data)], CcArtifactRefs := CcArtifactRefs c @ [(i, ref)] \<rparr>)))"

fun add_artifacts ::
  "(string \<Rightarrow> problem_yaml option) \<Rightarrow> (string \<times> captured_artifact) list \<Rightarrow> string list \<Rightarrow> catalog_candidate \<Rightarrow> catalog_error + catalog_candidate" where
  "add_artifacts yaml captured [] c = Inr c"
| "add_artifacts yaml captured (i # is) c =
     (case add_artifact yaml captured i c of Inl e \<Rightarrow> Inl e | Inr c' \<Rightarrow> add_artifacts yaml captured is c')"

definition empty_candidate :: "git_loader \<Rightarrow> string list \<Rightarrow> catalog_candidate" where
  "empty_candidate l ids =
     \<lparr> CcOwner = GlId l, CcBaseGeneration = GlGeneration l, CcIds = ids, CcBundles = [], CcArtifacts = [],
       CcArtifactBytes = [], CcArtifactRefs = [] \<rparr>"

definition BuildCandidate ::
  "(string \<Rightarrow> problem_yaml option) \<Rightarrow> 'w checkout \<Rightarrow> git_loader \<Rightarrow> ('w, catalog_candidate) catalog_io" where
  "BuildCandidate yaml ck l =
     io_bind (io_require (GlStrict l) LoaderNotStrict) (\<lambda>_.
     io_bind (ck_check ck) (\<lambda>_.
     io_bind (captureRuntimeCatalog yaml ck l) (\<lambda>first.
     io_bind (captureRuntimeCatalog yaml ck l) (\<lambda>second.
     io_bind (io_require (sort_key fst first = sort_key fst second) CaptureChanged) (\<lambda>_.
     io_bind (ck_check ck) (\<lambda>_.
     (let ids = sort (map fst first) in
      case add_artifacts yaml first ids (empty_candidate l ids) of
        Inl e \<Rightarrow> io_throw e
      | Inr c \<Rightarrow> io_return c)))))))"

section \<open>The artifact store of a candidate\<close>

text \<open>The interface \<open>ArtifactStore\<close>; an error of the store is a failure of the caller, a cancelled context is passed on.\<close>

record 'w artifact_cas =
  CasEnsure :: "artifact_ref \<Rightarrow> string \<Rightarrow> ('w, store_error list, unit) io"
  CasGet :: "artifact_ref \<Rightarrow> ('w, store_error list, string) io"

definition store_call :: "('w, store_error list, 'a) io \<Rightarrow> ('w, 'a) catalog_io" where
  "store_call m w =
     (case m w of
        None \<Rightarrow> None
      | Some (Inl es, w') \<Rightarrow> Some (Inl (if ContextError \<in> set es then ContextDone else StoreFailed), w')
      | Some (Inr a, w') \<Rightarrow> Some (Inr a, w'))"

definition ensure_artifact ::
  "(string \<Rightarrow> problem_yaml option) \<Rightarrow> 'w checkout \<Rightarrow> 'w artifact_cas \<Rightarrow> catalog_candidate \<Rightarrow> string \<Rightarrow> ('w, unit) catalog_io" where
  "ensure_artifact yaml ck cas c i =
     io_bind (ck_check ck) (\<lambda>_.
     (case (map_of (CcArtifactRefs c) i, map_of (CcArtifactBytes c) i, map_of (CcBundles c) i) of
        (Some ref, Some data, Some want) \<Rightarrow>
          io_bind (store_call (CasEnsure cas ref data)) (\<lambda>_.
          io_bind (store_call (CasGet cas ref)) (\<lambda>stored.
          (case DecodeRuntimeArtifact yaml ref stored of
             Inl e \<Rightarrow> io_throw (ArtifactRejected e)
           | Inr (_, got) \<Rightarrow> io_require (got = want) (ArtifactDiffers i))))
      | _ \<Rightarrow> io_throw (CandidateNoArtifact i)))"

definition ensureArtifacts ::
  "(string \<Rightarrow> problem_yaml option) \<Rightarrow> 'w checkout \<Rightarrow> 'w artifact_cas \<Rightarrow> catalog_candidate \<Rightarrow> ('w, unit) catalog_io" where
  "ensureArtifacts yaml ck cas c = io_each (\<lambda>i _. ensure_artifact yaml ck cas c i) (CcIds c) ()"

section \<open>The candidate of a persisted publication\<close>

definition sameRuntimeProblemProjection :: "problem \<Rightarrow> problem \<Rightarrow> bool" where
  "sameRuntimeProblemProjection runtime persisted \<longleftrightarrow>
     runtime = persisted \<lparr> PbCatalogActive := False, PbCreatedAt := PbCreatedAt runtime, PbUpdatedAt := PbUpdatedAt runtime \<rparr>"

definition restore_entry ::
  "(string \<Rightarrow> problem_yaml option) \<Rightarrow> 'w checkout \<Rightarrow> 'w artifact_cas \<Rightarrow> catalog_entry \<Rightarrow> catalog_candidate \<Rightarrow> ('w, catalog_candidate) catalog_io" where
  "restore_entry yaml ck cas entry c =
     (let i = PbID (CeProblem entry) in
      io_bind (ck_check ck) (\<lambda>_.
      io_bind (io_require (\<not> (\<not> validProblemID i \<or> PbRevision (CeProblem entry) = [] \<or>
          CeSourceTrust entry \<noteq> BundleSourceDevelopmentCheckout)) (EntryInvalid i)) (\<lambda>_.
      io_bind (io_require (map_of (CcBundles c) i = None) (EntryDuplicate i)) (\<lambda>_.
      io_bind (store_call (CasGet cas (CeArtifact entry))) (\<lambda>data.
      (case DecodeRuntimeArtifact yaml (CeArtifact entry) data of
         Inl e \<Rightarrow> io_throw (ArtifactRejected e)
       | Inr (artifact, bundle) \<Rightarrow>
           io_bind (io_require (\<not> (PbID (RbProblem bundle) \<noteq> i \<or> RbRevision bundle \<noteq> PbRevision (CeProblem entry) \<or>
               RbSourceTrust bundle \<noteq> CeSourceTrust entry \<or> \<not> sameRuntimeProblemProjection (RbProblem bundle) (CeProblem entry)))
             ErrCatalogStartupMismatch) (\<lambda>_.
           io_return (c \<lparr> CcIds := CcIds c @ [i], CcBundles := CcBundles c @ [(i, bundle)],
             CcArtifacts := CcArtifacts c @ [(i, artifact)], CcArtifactBytes := CcArtifactBytes c @ [(i, data)],
             CcArtifactRefs := CcArtifactRefs c @ [(i, CeArtifact entry)] \<rparr>))))))))"

definition candidateFromEntries ::
  "(string \<Rightarrow> problem_yaml option) \<Rightarrow> 'w checkout \<Rightarrow> 'w artifact_cas \<Rightarrow> git_loader \<Rightarrow> catalog_entry list \<Rightarrow> ('w, catalog_candidate) catalog_io" where
  "candidateFromEntries yaml ck cas l entries =
     io_bind (io_require (GlStrict l) LoaderNotStrict) (\<lambda>_.
     io_bind (io_require (\<not> (length entries = 0 \<or> length entries > maxRuntimeCatalogCount)) EntryCountInvalid) (\<lambda>_.
     io_bind (io_each (restore_entry yaml ck cas) entries (empty_candidate l [])) (\<lambda>c.
     io_return (c \<lparr> CcIds := sort (CcIds c) \<rparr>))))"

end
