(* ===== verification/Catalog_Ledger.thy ===== *)
theory Catalog_Ledger
  imports Catalog_Build
begin

text \<open>
  The durable publication ledger (\<open>src/backend/internal/problem/catalog_ledger.go\<close>, \<open>repository.go\<close> and the tables
  of migrations 010 to 012): publications and their entries, the head, the artifact bindings and the mutable identity rows.

  A transaction computes the new tables, with the constraints and triggers of the migrations as guards (\<open>SqlFailed\<close> with
  the name of the violated rule); the advisory lock makes the transactions of all writers serial. \<open>ledger_env\<close> is what the
  server decides: whether it takes the column values of a row (encodings and lengths), what a slice of choices reads back
  as after its JSONB column, its clock, the count of legacy sessions and which problem rows other tables refer to. A commit
  can also fail, with the transaction applied or not. Timestamps of publications, which nothing reads, are left out.
\<close>

section \<open>Tables\<close>

record publication_row =
  PwGeneration :: int
  PwPrevious :: "int option"
  PwSchema :: int
  PwDigest :: "byte list"
  PwCount :: int

text \<open>An entry with its projection as the selects return it: active, and with both timestamps the creation of the entry.\<close>

record entry_row =
  EwGeneration :: int
  EwProblem :: problem

record artifact_row =
  AwProblemID :: string
  AwRevision :: string
  AwSchema :: int
  AwDigest :: "byte list"
  AwMediaType :: string
  AwSize :: int
  AwTrust :: string

record ledger =
  LgPublications :: "publication_row list"
  LgEntries :: "entry_row list"
  LgHead :: "int option"
  LgArtifacts :: "artifact_row list"
  LgProblems :: "string \<Rightarrow> problem option"

record ledger_env =
  EvAccepts :: "problem \<Rightarrow> bool"
  EvJsonb :: "choice list option \<Rightarrow> choice list option"
  EvNow :: time
  EvLegacyActive :: nat
  EvReferenced :: "string \<Rightarrow> bool"

type_synonym 'a ledger_tx = "(ledger, catalog_error, 'a) tx"

definition sql_check :: "string \<Rightarrow> bool \<Rightarrow> unit ledger_tx" where
  "sql_check name b = tx_guard b (SqlFailed name)"

definition publication_at :: "int \<Rightarrow> ledger \<Rightarrow> publication_row option" where
  "publication_at g d = find (\<lambda>p. PwGeneration p = g) (LgPublications d)"

definition entries_at :: "int \<Rightarrow> ledger \<Rightarrow> entry_row list" where
  "entries_at g d = filter (\<lambda>e. EwGeneration e = g) (LgEntries d)"

definition binding_of :: "string \<Rightarrow> string \<Rightarrow> ledger \<Rightarrow> artifact_row option" where
  "binding_of i r d = find (\<lambda>a. AwProblemID a = i \<and> AwRevision a = r) (LgArtifacts d)"

section \<open>Reading heads and publications\<close>

definition scanCatalogHead :: "publication_row option \<Rightarrow> catalog_error + catalog_head option" where
  "scanCatalogHead row =
     (case row of
        None \<Rightarrow> Inr None
      | Some p \<Rightarrow>
          if PwGeneration p \<le> 0 \<or> PwSchema p \<le> 0 \<or> length (PwDigest p) \<noteq> 32 \<or> PwCount p \<le> 0
            then Inl (SqlFailed ''persisted problem catalog head is invalid'')
          else Inr (Some \<lparr> ChGeneration = uint64 (PwGeneration p),
                 ChRef = \<lparr> PrDigestSchema = word_of_int (PwSchema p), PrCandidateDigest = PwDigest p \<rparr>,
                 ChEntryCount = nat (PwCount p) \<rparr>))"

definition head_row :: "ledger \<Rightarrow> publication_row option" where
  "head_row d = (case LgHead d of None \<Rightarrow> None | Some g \<Rightarrow> publication_at g d)"

definition Head :: "ledger \<Rightarrow> catalog_error + catalog_head option" where
  "Head d = scanCatalogHead (head_row d)"

definition publication_by_ref :: "publication_ref \<Rightarrow> ledger \<Rightarrow> publication_row option" where
  "publication_by_ref ref d =
     find (\<lambda>p. PwSchema p = sint (PrDigestSchema ref) \<and> PwDigest p = PrCandidateDigest ref) (LgPublications d)"

definition FindPublication :: "ledger \<Rightarrow> publication_ref \<Rightarrow> catalog_error + catalog_head option" where
  "FindPublication d ref = scanCatalogHead (publication_by_ref ref d)"

text \<open>One row of the artifact join: the binding of an entry, whose columns are the defaults of \<open>COALESCE\<close> when it is absent.\<close>

definition scan_entry :: "ledger \<Rightarrow> entry_row \<Rightarrow> catalog_error + catalog_entry" where
  "scan_entry d e =
     (case binding_of (PbID (EwProblem e)) (PbRevision (EwProblem e)) d of
        None \<Rightarrow> Inl ErrCatalogArtifactBindingMissing
      | Some a \<Rightarrow>
          if AwSchema a \<le> 0 \<or> length (AwDigest a) \<noteq> 32 \<or> AwMediaType a = [] \<or> AwSize a \<le> 0 \<or> AwTrust a = []
            then Inl ErrCatalogArtifactBindingMissing
          else (let ref = \<lparr> ArDigestSchema = word_of_int (AwSchema a), ArDigest = AwDigest a, ArMediaType = AwMediaType a,
                            ArSize = AwSize a \<rparr> in
                if \<not> validateArtifactRef ref then Inl (SqlFailed ''invalid artifact binding'')
                else if AwTrust a \<noteq> BundleSourceDevelopmentCheckout then Inl (SqlFailed ''invalid source trust'')
                else Inr \<lparr> CeProblem = EwProblem e, CeArtifact = ref, CeSourceTrust = AwTrust a \<rparr>))"

fun scanCatalogEntries :: "ledger \<Rightarrow> entry_row list \<Rightarrow> catalog_error + catalog_entry list" where
  "scanCatalogEntries d [] = Inr []"
| "scanCatalogEntries d (e # es) =
     (case scan_entry d e of Inl x \<Rightarrow> Inl x | Inr entry \<Rightarrow>
      (case scanCatalogEntries d es of Inl x \<Rightarrow> Inl x | Inr entries \<Rightarrow> Inr (entry # entries)))"

text \<open>The rows of one generation, \<open>ORDER BY e.problem_id\<close>.\<close>

definition ordered_entries :: "int \<Rightarrow> ledger \<Rightarrow> entry_row list" where
  "ordered_entries g d = sort_key (\<lambda>e. PbID (EwProblem e)) (entries_at g d)"

definition read_head :: "ledger \<Rightarrow> u64 \<Rightarrow> catalog_error + catalog_head" where
  "read_head d generation =
     (if generation = 0 then Inl ErrCatalogPublicationMissing
      else (case scanCatalogHead (publication_at (int64 generation) d) of
          Inl e \<Rightarrow> Inl e
        | Inr None \<Rightarrow> Inl ErrCatalogPublicationMissing
        | Inr (Some head) \<Rightarrow> Inr head))"

definition ReadPublication :: "ledger \<Rightarrow> u64 \<Rightarrow> catalog_error + catalog_head \<times> catalog_entry list" where
  "ReadPublication d generation =
     (case read_head d generation of Inl e \<Rightarrow> Inl e | Inr head \<Rightarrow>
      (case scanCatalogEntries d (ordered_entries (int64 generation) d) of Inl e \<Rightarrow> Inl e | Inr entries \<Rightarrow>
        if length entries \<noteq> ChEntryCount head then Inl (SqlFailed ''persisted problem catalog entry count is inconsistent'')
        else Inr (head, entries)))"

definition ReadLegacyPublication :: "ledger \<Rightarrow> u64 \<Rightarrow> catalog_error + catalog_head \<times> problem list" where
  "ReadLegacyPublication d generation =
     (case read_head d generation of Inl e \<Rightarrow> Inl e | Inr head \<Rightarrow>
      (let problems = map EwProblem (ordered_entries (int64 generation) d) in
       if length problems \<noteq> ChEntryCount head
         then Inl (SqlFailed ''persisted legacy problem catalog entry count is inconsistent'')
       else Inr (head, problems)))"

definition FindActiveCatalogProblem :: "ledger \<Rightarrow> string \<Rightarrow> catalog_error + catalog_head \<times> problem" where
  "FindActiveCatalogProblem d i =
     (case LgHead d of
        None \<Rightarrow> Inl ErrInvalidProblemRevision
      | Some g \<Rightarrow>
          (case (publication_at g d, find (\<lambda>e. PbID (EwProblem e) = i) (entries_at g d)) of
             (Some p, Some e) \<Rightarrow>
               if binding_of i (PbRevision (EwProblem e)) d = None then Inl ErrInvalidProblemRevision
               else if PwGeneration p \<le> 0 \<or> PwSchema p \<le> 0 \<or> length (PwDigest p) \<noteq> 32
                 then Inl (SqlFailed ''active problem catalog head is invalid'')
               else Inr (\<lparr> ChGeneration = uint64 (PwGeneration p),
                           ChRef = \<lparr> PrDigestSchema = word_of_int (PwSchema p), PrCandidateDigest = PwDigest p \<rparr>,
                           ChEntryCount = nat (PwCount p) \<rparr>, EwProblem e)
           | _ \<Rightarrow> Inl ErrInvalidProblemRevision))"

text \<open>\<open>ORDER BY e.catalog_generation DESC LIMIT 1\<close>\<close>

definition latest_entry :: "ledger \<Rightarrow> problem_ref \<Rightarrow> entry_row list" where
  "latest_entry d ref =
     take 1 (rev (sort_key EwGeneration
       (filter (\<lambda>e. PbID (EwProblem e) = ProblemID ref \<and> PbRevision (EwProblem e) = Revision ref) (LgEntries d))))"

definition FindCatalogArtifact :: "ledger \<Rightarrow> problem_ref \<Rightarrow> catalog_error + catalog_entry" where
  "FindCatalogArtifact d ref =
     (if \<not> validProblemID (ProblemID ref) \<or> Revision ref = [] then Inl ErrInvalidProblemRevision
      else (case scanCatalogEntries d (latest_entry d ref) of
          Inl e \<Rightarrow> Inl e
        | Inr entries \<Rightarrow> if length entries \<noteq> 1 then Inl ErrInvalidProblemRevision else Inr (hd entries)))"

section \<open>Writing\<close>

definition lockCatalogHead :: "catalog_head option ledger_tx" where
  "lockCatalogHead = tx_bind (tx_get head_row) (\<lambda>row. tx_lift (scanCatalogHead row))"

definition findPublicationTx :: "publication_ref \<Rightarrow> catalog_head option ledger_tx" where
  "findPublicationTx ref = tx_bind (tx_get (publication_by_ref ref)) (\<lambda>row. tx_lift (scanCatalogHead row))"

definition sameCatalogHead :: "catalog_head option \<Rightarrow> catalog_head option \<Rightarrow> bool" where
  "sameCatalogHead l r \<longleftrightarrow> l = r"

text \<open>\<open>problem_revision ~ '^[0-9a-f]{64}$'\<close>\<close>

definition revision_text :: "string \<Rightarrow> bool" where
  "revision_text r \<longleftrightarrow> length r = 64 \<and> list_all is_lower_hex r"

text \<open>The generation that follows the head, as the insert guards demand it of a publication.\<close>

definition extends_head :: "ledger \<Rightarrow> int \<Rightarrow> int option \<Rightarrow> bool" where
  "extends_head d g previous \<longleftrightarrow>
     (case LgHead d of None \<Rightarrow> g = 1 \<and> previous = None | Some h \<Rightarrow> g = h + 1 \<and> previous = Some h)"

definition insert_publication :: "publication_row \<Rightarrow> unit ledger_tx" where
  "insert_publication p =
     tx_bind (tx_get id) (\<lambda>d.
     tx_block
       [sql_check ''problem_catalog_publications_insert_guard'' (extends_head d (PwGeneration p) (PwPrevious p)),
        sql_check ''generation'' (PwGeneration p > 0 \<and> publication_at (PwGeneration p) d = None),
        sql_check ''digest'' (PwSchema p > 0 \<and> length (PwDigest p) = 32),
        sql_check ''entry_count'' (PwCount p > 0),
        sql_check ''problem_catalog_publications_chain_shape''
          (PwGeneration p = 1 \<and> PwPrevious p = None \<or> PwGeneration p > 1 \<and> PwPrevious p = Some (PwGeneration p - 1)),
        sql_check ''problem_catalog_publications_previous_fk''
          (case PwPrevious p of None \<Rightarrow> True | Some g \<Rightarrow> publication_at g d \<noteq> None),
        sql_check ''unique digest''
          (\<not> list_ex (\<lambda>q. PwSchema q = PwSchema p \<and> PwDigest q = PwDigest p) (LgPublications d)),
        tx_modify (\<lambda>d. d \<lparr> LgPublications := LgPublications d @ [p] \<rparr>)])"

definition deactivate_problems :: "ledger_env \<Rightarrow> unit ledger_tx" where
  "deactivate_problems env =
     tx_modify (\<lambda>d. d \<lparr> LgProblems := (\<lambda>i. map_option
       (\<lambda>p. if PbCatalogActive p then p \<lparr> PbCatalogActive := False, PbUpdatedAt := EvNow env \<rparr> else p) (LgProblems d i)) \<rparr>)"

definition upsertCatalogProblem :: "ledger_env \<Rightarrow> problem \<Rightarrow> unit ledger_tx" where
  "upsertCatalogProblem env p =
     tx_block
       [sql_check ''problems row'' (EvAccepts env p),
        sql_check ''problems_active_revision_check'' (PbRevision p \<noteq> []),
        tx_modify (\<lambda>d. d \<lparr> LgProblems := (LgProblems d)(PbID p := Some
          (p \<lparr> PbCatalogActive := True, PbChoices := EvJsonb env (PbChoices p),
              PbCreatedAt := (case LgProblems d (PbID p) of Some old \<Rightarrow> PbCreatedAt old | None \<Rightarrow> EvNow env),
              PbUpdatedAt := EvNow env \<rparr>)) \<rparr>)]"

definition binding_row :: "catalog_entry \<Rightarrow> artifact_row" where
  "binding_row e =
     \<lparr> AwProblemID = PbID (CeProblem e), AwRevision = PbRevision (CeProblem e),
       AwSchema = sint (ArDigestSchema (CeArtifact e)), AwDigest = ArDigest (CeArtifact e),
       AwMediaType = ArMediaType (CeArtifact e), AwSize = ArSize (CeArtifact e), AwTrust = CeSourceTrust e \<rparr>"

text \<open>\<open>INSERT INTO problem_artifacts ... ON CONFLICT (problem_id, problem_revision) DO NOTHING\<close>\<close>

definition insert_binding :: "artifact_row \<Rightarrow> unit ledger_tx" where
  "insert_binding a =
     tx_bind (tx_get id) (\<lambda>d.
     if binding_of (AwProblemID a) (AwRevision a) d \<noteq> None then tx_return ()
     else tx_block
       [sql_check ''problem_artifacts row''
          (revision_text (AwRevision a) \<and> AwSchema a > 0 \<and> length (AwDigest a) = 32 \<and> AwMediaType a \<noteq> [] \<and>
           length (AwMediaType a) \<le> 255 \<and> AwSize a > 0 \<and> AwSize a \<le> 8388608 \<and> AwTrust a = BundleSourceDevelopmentCheckout),
        sql_check ''unique artifact digest''
          (\<not> list_ex (\<lambda>b. AwSchema b = AwSchema a \<and> AwDigest b = AwDigest a) (LgArtifacts d)),
        sql_check ''problem_artifacts_identity_fk'' (LgProblems d (AwProblemID a) \<noteq> None),
        tx_modify (\<lambda>d. d \<lparr> LgArtifacts := LgArtifacts d @ [a] \<rparr>)])"

definition insertArtifactBinding :: "catalog_entry \<Rightarrow> unit ledger_tx" where
  "insertArtifactBinding e =
     tx_block
       [sql_check ''incomplete identity'' (\<not> (PbID (CeProblem e) = [] \<or> PbRevision (CeProblem e) = [])),
        sql_check ''unsupported source trust'' (CeSourceTrust e = BundleSourceDevelopmentCheckout),
        sql_check ''artifact reference'' (validateArtifactRef (CeArtifact e)),
        insert_binding (binding_row e),
        tx_bind (tx_row (binding_of (PbID (CeProblem e)) (PbRevision (CeProblem e))) (SqlFailed ''no rows'')) (\<lambda>stored.
          sql_check ''bound to a different artifact'' (stored = binding_row e))]"

definition entry_row_of :: "ledger_env \<Rightarrow> int \<Rightarrow> problem \<Rightarrow> entry_row" where
  "entry_row_of env g p =
     \<lparr> EwGeneration = g,
       EwProblem = p \<lparr> PbCatalogActive := True, PbChoices := EvJsonb env (PbChoices p), PbCreatedAt := EvNow env,
                      PbUpdatedAt := EvNow env \<rparr> \<rparr>"

definition insertCatalogEntry :: "ledger_env \<Rightarrow> u64 \<Rightarrow> problem \<Rightarrow> unit ledger_tx" where
  "insertCatalogEntry env generation p =
     (let g = int64 generation in
      tx_bind (tx_get id) (\<lambda>d.
      tx_block
        [sql_check ''problem_catalog_entries_insert_guard''
           (case publication_at g d of None \<Rightarrow> False | Some q \<Rightarrow> extends_head d g (PwPrevious q)),
         sql_check ''problem_catalog_entries row''
           (EvAccepts env p \<and> revision_text (PbRevision p) \<and> 0 < int64 (PbTimeoutMinutes p) \<and>
            int64 (PbTimeoutMinutes p) \<le> 2147483647),
         sql_check ''problem_catalog_entries_pkey'' (\<not> list_ex (\<lambda>e. PbID (EwProblem e) = PbID p) (entries_at g d)),
         sql_check ''problem_catalog_entries_identity_fk'' (LgProblems d (PbID p) \<noteq> None),
         sql_check ''problem_catalog_entries_artifact_fk'' (binding_of (PbID p) (PbRevision p) d \<noteq> None),
         tx_modify (\<lambda>d. d \<lparr> LgEntries := LgEntries d @ [entry_row_of env g p] \<rparr>)]))"

text \<open>The trigger \<open>guard_problem_catalog_head\<close> for the new head \<open>g\<close> after \<open>previous\<close>.\<close>

definition head_guard :: "ledger \<Rightarrow> int option \<Rightarrow> int \<Rightarrow> bool" where
  "head_guard d previous g \<longleftrightarrow>
     (case previous of None \<Rightarrow> g = 1 | Some h \<Rightarrow> g = h + 1) \<and>
     (case publication_at g d of None \<Rightarrow> False | Some p \<Rightarrow>
        PwPrevious p = previous \<and> int (length (entries_at g d)) = PwCount p)"

definition insert_head :: "int \<Rightarrow> unit ledger_tx" where
  "insert_head g =
     tx_bind (tx_get id) (\<lambda>d.
     tx_block
       [sql_check ''problem_catalog_head_pkey'' (LgHead d = None),
        sql_check ''problem_catalog_head_guard'' (head_guard d None g),
        tx_modify (\<lambda>d. d \<lparr> LgHead := Some g \<rparr>)])"

text \<open>The compare-and-set of the head: the number of rows it changed.\<close>

definition execCatalogHeadCAS :: "int \<Rightarrow> int \<Rightarrow> nat ledger_tx" where
  "execCatalogHeadCAS expected target =
     tx_bind (tx_get id) (\<lambda>d.
     if LgHead d \<noteq> Some expected then tx_return 0
     else tx_seq (sql_check ''problem_catalog_head_guard'' (head_guard d (Some expected) target))
       (tx_seq (tx_modify (\<lambda>d. d \<lparr> LgHead := Some target \<rparr>)) (tx_return 1)))"

section \<open>Transactions\<close>

datatype commit_error = TxCommitRollback | PgErrorCode string | NotSent | OtherCommitError

definition classifyCatalogCommitError :: "commit_error \<Rightarrow> catalog_error" where
  "classifyCatalogCommitError e =
     (case e of
        TxCommitRollback \<Rightarrow> SqlFailed ''commit rolled back''
      | PgErrorCode code \<Rightarrow>
          if code = ''40001'' \<or> code = ''40P01'' then SqlFailed ''commit rolled back'' else ErrCatalogCommitUnknown
      | NotSent \<Rightarrow> SqlFailed ''commit was not sent''
      | OtherCommitError \<Rightarrow> ErrCatalogCommitUnknown)"

text \<open>The fate of a commit: a failed one may have been applied, but only when its error does not rule that out.\<close>

datatype commit_fate = CommitOk | CommitFails commit_error bool

text \<open>
  A transaction with its commit. \<open>deferred\<close> is the constraint the commit checks; its violation is an error of the server
  that \<open>classifyCatalogCommitError\<close> counts as unknown.
\<close>

definition run_ledger ::
  "commit_fate \<Rightarrow> (ledger \<Rightarrow> bool) \<Rightarrow> 'a ledger_tx \<Rightarrow> ledger \<Rightarrow> (catalog_error + 'a) \<times> ledger" where
  "run_ledger fate deferred m d =
     (case m d of
        Inl e \<Rightarrow> (Inl e, d)
      | Inr (x, d') \<Rightarrow>
          (case fate of
             CommitOk \<Rightarrow>
               if deferred d' then (Inr x, d') else (Inl (classifyCatalogCommitError (PgErrorCode ''23514'')), d)
           | CommitFails e applied \<Rightarrow>
               (Inl (classifyCatalogCommitError e),
                if applied \<and> deferred d' \<and> classifyCatalogCommitError e = ErrCatalogCommitUnknown then d' else d)))"

definition publication_complete :: "int \<Rightarrow> ledger \<Rightarrow> bool" where
  "publication_complete g d \<longleftrightarrow>
     (case publication_at g d of None \<Rightarrow> True | Some p \<Rightarrow> int (length (entries_at g d)) = PwCount p \<and> LgHead d = Some g)"

definition publish_entry :: "ledger_env \<Rightarrow> u64 \<Rightarrow> catalog_entry \<Rightarrow> unit ledger_tx" where
  "publish_entry env generation e =
     tx_block
       [sql_check ''incomplete identity'' (\<not> (PbID (CeProblem e) = [] \<or> PbRevision (CeProblem e) = [])),
        upsertCatalogProblem env (CeProblem e),
        insertArtifactBinding e,
        insertCatalogEntry env generation (CeProblem e)]"

definition next_generation :: "catalog_head option \<Rightarrow> u64" where
  "next_generation expected = (case expected of None \<Rightarrow> 1 | Some head \<Rightarrow> ChGeneration head + 1)"

definition publish_tx ::
  "ledger_env \<Rightarrow> catalog_head option \<Rightarrow> publication_ref \<Rightarrow> catalog_entry list \<Rightarrow> catalog_head ledger_tx" where
  "publish_tx env expected ref entries =
     (let generation = next_generation expected in
      tx_bind lockCatalogHead (\<lambda>current.
      tx_seq (tx_guard (sameCatalogHead current expected) ErrCatalogHeadConflict) (
      tx_seq (tx_guard (expected \<noteq> None \<or> EvLegacyActive env = 0) ErrCatalogLegacyActive) (
      tx_bind (findPublicationTx ref) (\<lambda>existing.
      tx_seq (tx_guard (existing = None) ErrCatalogRollback) (
      tx_seq (insert_publication
        \<lparr> PwGeneration = int64 generation, PwPrevious = map_option (\<lambda>head. int64 (ChGeneration head)) expected,
          PwSchema = sint (PrDigestSchema ref), PwDigest = PrCandidateDigest ref, PwCount = int (length entries) \<rparr>) (
      tx_seq (deactivate_problems env) (
      tx_seq (tx_each (publish_entry env generation) entries) (
      tx_seq
        (case expected of
           None \<Rightarrow> insert_head (int64 generation)
         | Some head \<Rightarrow>
             tx_bind (execCatalogHeadCAS (int64 (ChGeneration head)) (int64 generation)) (\<lambda>rows.
             tx_guard (rows = 1) ErrCatalogHeadConflict))
      (tx_return \<lparr> ChGeneration = generation, ChRef = ref, ChEntryCount = length entries \<rparr>))))))))))"

definition Publish ::
  "ledger_env \<Rightarrow> commit_fate \<Rightarrow> catalog_head option \<Rightarrow> publication_ref \<Rightarrow> catalog_entry list \<Rightarrow> ledger \<Rightarrow>
   (catalog_error + catalog_head) \<times> ledger" where
  "Publish env fate expected ref entries d =
     (if PrDigestSchema ref = 0 \<or> entries = [] then (Inl (SqlFailed ''publication is empty or has no identity''), d)
      else run_ledger fate (publication_complete (int64 (next_generation expected))) (publish_tx env expected ref entries) d)"

section \<open>Comparing projections\<close>

text \<open>The map of a slice by identifier: a later problem with the same identifier replaces an earlier one.\<close>

definition by_id :: "problem list \<Rightarrow> (string \<times> problem) list" where
  "by_id ps = rev (map (\<lambda>p. (PbID p, p)) ps)"

text \<open>Equality once the catalog state and the timestamps are levelled.\<close>

definition same_projection :: "problem \<Rightarrow> problem \<Rightarrow> bool" where
  "same_projection got want \<longleftrightarrow>
     got \<lparr> PbCatalogActive := True, PbCreatedAt := zero_time, PbUpdatedAt := zero_time \<rparr> =
     want \<lparr> PbCatalogActive := True, PbCreatedAt := zero_time, PbUpdatedAt := zero_time \<rparr>"

definition sameCatalogProjection :: "problem list \<Rightarrow> problem list \<Rightarrow> bool" where
  "sameCatalogProjection l r \<longleftrightarrow>
     length l = length r \<and>
     (\<forall>want \<in> set r. case map_of (by_id l) (PbID want) of None \<Rightarrow> False | Some got \<Rightarrow>
        same_projection got (the (map_of (by_id r) (PbID want))))"

definition catalogProblems :: "catalog_entry list \<Rightarrow> problem list" where
  "catalogProblems entries = map (\<lambda>e. cloneProblem (CeProblem e)) entries"

definition entry_by_id :: "catalog_entry list \<Rightarrow> string \<Rightarrow> catalog_entry option" where
  "entry_by_id entries i = find (\<lambda>e. PbID (CeProblem e) = i) entries"

definition sameCatalogEntries :: "catalog_entry list \<Rightarrow> catalog_entry list \<Rightarrow> bool" where
  "sameCatalogEntries l r \<longleftrightarrow>
     length l = length r \<and> distinct (map (\<lambda>e. PbID (CeProblem e)) l) \<and>
     (\<forall>want \<in> set r. case entry_by_id l (PbID (CeProblem want)) of None \<Rightarrow> False | Some got \<Rightarrow>
        CeArtifact got = CeArtifact want \<and> CeSourceTrust got = CeSourceTrust want \<and>
        sameCatalogProjection [CeProblem got] [CeProblem want])"

section \<open>Binding a legacy publication\<close>

definition bind_tx :: "catalog_head \<Rightarrow> catalog_entry list \<Rightarrow> unit ledger_tx" where
  "bind_tx expected entries =
     tx_bind lockCatalogHead (\<lambda>current.
     tx_seq (tx_guard (sameCatalogHead current (Some expected)) ErrCatalogHeadConflict) (
     tx_bind (tx_get (\<lambda>d. map EwProblem (ordered_entries (int64 (ChGeneration expected)) d))) (\<lambda>stored.
     tx_seq (tx_guard (sameCatalogProjection stored (catalogProblems entries)) ErrCatalogStartupMismatch)
       (tx_each insertArtifactBinding entries))))"

definition BindLegacyArtifacts ::
  "commit_fate \<Rightarrow> catalog_head \<Rightarrow> catalog_entry list \<Rightarrow> ledger \<Rightarrow> (catalog_error + unit) \<times> ledger" where
  "BindLegacyArtifacts fate expected entries d =
     (if ChGeneration expected = 0 \<or> PrDigestSchema (ChRef expected) \<noteq> legacyCatalogDigestSchema \<or>
         length entries \<noteq> ChEntryCount expected
        then (Inl ErrCatalogStartupMismatch, d)
      else run_ledger fate (\<lambda>_. True) (bind_tx expected entries) d)"

section \<open>Identity rows\<close>

definition managed :: "ledger \<Rightarrow> string \<Rightarrow> bool" where
  "managed d i \<longleftrightarrow> list_ex (\<lambda>e. PbID (EwProblem e) = i) (LgEntries d)"

text \<open>The plain \<open>tx.Commit\<close> of the repository, whose error is returned as it is.\<close>

definition run_plain :: "commit_fate \<Rightarrow> unit ledger_tx \<Rightarrow> ledger \<Rightarrow> (catalog_error + unit) \<times> ledger" where
  "run_plain fate m d =
     (case m d of
        Inl e \<Rightarrow> (Inl e, d)
      | Inr (x, d') \<Rightarrow>
          (case fate of CommitOk \<Rightarrow> (Inr x, d') | CommitFails e applied \<Rightarrow> (Inl (SqlFailed ''commit''), if applied then d' else d)))"

definition draft_row :: "ledger_env \<Rightarrow> problem option \<Rightarrow> problem \<Rightarrow> problem" where
  "draft_row env old p =
     p \<lparr> PbRevision := [], PbCatalogActive := False, PbChoices := EvJsonb env (PbChoices p),
        PbCreatedAt := (case old of Some q \<Rightarrow> PbCreatedAt q | None \<Rightarrow> EvNow env), PbUpdatedAt := EvNow env \<rparr>"

definition Upsert :: "ledger_env \<Rightarrow> commit_fate \<Rightarrow> problem \<Rightarrow> ledger \<Rightarrow> (catalog_error + unit) \<times> ledger" where
  "Upsert env fate p =
     run_plain fate (tx_bind (tx_get id) (\<lambda>d.
       tx_block
         [tx_guard (\<not> managed d (PbID p)) (SqlFailed ''ErrCatalogManagedProblem''),
          sql_check ''problems row'' (EvAccepts env p),
          tx_modify (\<lambda>d. d \<lparr> LgProblems := (LgProblems d)(PbID p := Some (draft_row env (LgProblems d (PbID p)) p)) \<rparr>)]))"

definition Delete :: "ledger_env \<Rightarrow> commit_fate \<Rightarrow> string \<Rightarrow> ledger \<Rightarrow> (catalog_error + unit) \<times> ledger" where
  "Delete env fate i =
     run_plain fate (tx_bind (tx_get id) (\<lambda>d.
       tx_block
         [sql_check ''no rows'' (LgProblems d i \<noteq> None),
          tx_guard (\<not> managed d i) (SqlFailed ''ErrCatalogManagedProblem''),
          sql_check ''foreign keys'' (\<not> EvReferenced env i \<and> \<not> list_ex (\<lambda>a. AwProblemID a = i) (LgArtifacts d)),
          tx_modify (\<lambda>d. d \<lparr> LgProblems := (LgProblems d)(i := None) \<rparr>)]))"

definition ReplaceActiveCatalog ::
  "ledger_env \<Rightarrow> commit_fate \<Rightarrow> problem list \<Rightarrow> ledger \<Rightarrow> (catalog_error + unit) \<times> ledger" where
  "ReplaceActiveCatalog env fate problems =
     run_ledger fate (\<lambda>_. True) (tx_seq (deactivate_problems env)
       (tx_each (\<lambda>p. tx_seq (sql_check ''no runtime revision'' (PbRevision p \<noteq> [])) (upsertCatalogProblem env p)) problems))"

text \<open>The public read of one problem: the entry of the head that has an artifact.\<close>

definition FindByID :: "ledger \<Rightarrow> string \<Rightarrow> catalog_error + problem" where
  "FindByID d i =
     (let rows = (case LgHead d of None \<Rightarrow> [] | Some g \<Rightarrow>
          filter (\<lambda>e. PbID (EwProblem e) = i \<and> binding_of i (PbRevision (EwProblem e)) d \<noteq> None) (entries_at g d)) in
      if length rows \<noteq> 1 then Inl (SqlFailed ''no rows'') else Inr (EwProblem (hd rows)))"

end
