(* ===== verification/Catalog_Sync.thy ===== *)
theory Catalog_Sync
  imports Catalog_Ledger
begin

text \<open>
  The catalog coordinator (\<open>src/backend/internal/problem/catalog_sync.go\<close>): start-up, synchronisation, the reconciliation of
  ambiguous commits, admission and historical lookup.

  A coordinator is its loader and its poison beside two arbitrary worlds, the files and the database. The calls on them are
  those of the interfaces the code uses: the checkout, the artifact store, and the repository with its publication
  leases, which are numbered. Every
  call of the repository can fail. A gate is a call too: waiting for it fails when the context is done; releasing it has no
  effect the model could see, since an operation that holds the gate runs to its end. Of a wrapped error the model keeps the
  value that the callers ask for with \<open>errors.Is\<close>.
\<close>

section \<open>The coordinator and its world\<close>

type_synonym ('w, 'a) repo_call = "'w \<Rightarrow> (catalog_error + 'a) \<times> 'w"

record 'w catalog_repo =
  RpSyncGate :: "('w, unit) repo_call"
  RpAdmissionGate :: "int \<Rightarrow> ('w, unit) repo_call"
  RpAcquireCatalogPublicationLease :: "('w, nat) repo_call"
  RpHead :: "nat \<Rightarrow> ('w, catalog_head option) repo_call"
  RpReadPublication :: "nat \<Rightarrow> u64 \<Rightarrow> ('w, catalog_head \<times> catalog_entry list) repo_call"
  RpReadLegacyPublication :: "nat \<Rightarrow> u64 \<Rightarrow> ('w, catalog_head \<times> problem list) repo_call"
  RpBindLegacyArtifacts :: "nat \<Rightarrow> catalog_head \<Rightarrow> catalog_entry list \<Rightarrow> ('w, unit) repo_call"
  RpFindPublication :: "nat \<Rightarrow> publication_ref \<Rightarrow> ('w, catalog_head option) repo_call"
  RpPublish :: "nat \<Rightarrow> catalog_head option \<Rightarrow> publication_ref \<Rightarrow> catalog_entry list \<Rightarrow> ('w, catalog_head) repo_call"
  RpClose :: "nat \<Rightarrow> ('w, unit) repo_call"
  RpDiscard :: "nat \<Rightarrow> ('w, unit) repo_call"
  RpFindActiveCatalogProblem :: "string \<Rightarrow> ('w, catalog_head \<times> problem) repo_call"
  RpFindCatalogArtifact :: "problem_ref \<Rightarrow> ('w, catalog_entry) repo_call"

record ('f, 'w) site =
  SiYaml :: "string \<Rightarrow> problem_yaml option"
  SiCheckout :: "'f checkout"
  SiStore :: "'f artifact_cas"
  SiRepo :: "'w catalog_repo"

record ('f, 'w) coordinator =
  CoLoader :: git_loader
  CoPoisoned :: "catalog_error option"
  CoFiles :: 'f
  CoDatabase :: 'w

type_synonym ('f, 'w, 'a) co_io = "(('f, 'w) coordinator, catalog_error, 'a) io"

definition NewCatalogCoordinator :: "git_loader option \<Rightarrow> bool \<Rightarrow> bool \<Rightarrow> 'f \<Rightarrow> 'w \<Rightarrow> catalog_error + ('f, 'w) coordinator" where
  "NewCatalogCoordinator loader hasStore hasRepo f w =
     (case loader of
        None \<Rightarrow> Inl LoaderNotStrict
      | Some l \<Rightarrow>
          if \<not> GlStrict l then Inl LoaderNotStrict
          else if \<not> hasStore then Inl StoreFailed
          else if \<not> hasRepo then Inl (SqlFailed ''catalog coordinator requires a repository'')
          else Inr \<lparr> CoLoader = l, CoPoisoned = None, CoFiles = f, CoDatabase = w \<rparr>)"

text \<open>A call of the repository, an action of the checkout or the store, and a look at the coordinator itself.\<close>

definition ask :: "('w, 'a) repo_call \<Rightarrow> ('f, 'w, 'a) co_io" where
  "ask c s = (case c (CoDatabase s) of (r, w') \<Rightarrow> Some (r, s \<lparr> CoDatabase := w' \<rparr>))"

definition act :: "('f, 'a) catalog_io \<Rightarrow> ('f, 'w, 'a) co_io" where
  "act m s = (case m (CoFiles s) of None \<Rightarrow> None | Some (r, f') \<Rightarrow> Some (r, s \<lparr> CoFiles := f' \<rparr>))"

definition peek :: "(('f, 'w) coordinator \<Rightarrow> 'x) \<Rightarrow> ('x \<Rightarrow> ('f, 'w, 'a) co_io) \<Rightarrow> ('f, 'w, 'a) co_io" where
  "peek f k s = k (f s) s"

definition from_sum :: "catalog_error + 'a \<Rightarrow> ('f, 'w, 'a) co_io" where
  "from_sum r = (case r of Inl e \<Rightarrow> io_throw e | Inr a \<Rightarrow> io_return a)"

definition catalogHead :: "git_loader \<Rightarrow> catalog_head option" where
  "catalogHead l = GlActiveHead l"

section \<open>Health\<close>

definition healthError :: "('f, 'w) coordinator \<Rightarrow> catalog_error option" where
  "healthError s = CoPoisoned s"

definition Healthy :: "('f, 'w) coordinator \<Rightarrow> bool" where
  "Healthy s \<longleftrightarrow> healthError s = None"

definition poison :: "catalog_error \<Rightarrow> ('f, 'w) coordinator \<Rightarrow> ('f, 'w) coordinator" where
  "poison e s = (if CoPoisoned s = None then s \<lparr> CoPoisoned := Some e \<rparr> else s)"

definition poisonedError :: "string \<Rightarrow> ('f, 'w, 'a) co_io" where
  "poisonedError operation s =
     (let e = ErrCatalogAdmissionUnavailable operation in Some (Inl e, poison e s))"

definition check_health :: "('f, 'w, unit) co_io" where
  "check_health s = (case healthError s of None \<Rightarrow> Some (Inr (), s) | Some e \<Rightarrow> Some (Inl e, s))"

section \<open>Candidates and activation\<close>

definition build :: "('f, 'w) site \<Rightarrow> ('f, 'w, catalog_candidate) co_io" where
  "build site = peek CoLoader (\<lambda>l. act (BuildCandidate (SiYaml site) (SiCheckout site) l))"

definition ensure_candidate :: "('f, 'w) site \<Rightarrow> catalog_candidate \<Rightarrow> ('f, 'w, unit) co_io" where
  "ensure_candidate site c = act (ensureArtifacts (SiYaml site) (SiCheckout site) (SiStore site) c)"

definition prepare :: "catalog_candidate \<Rightarrow> catalog_head \<Rightarrow> ('f, 'w, activation_state) co_io" where
  "prepare c target s =
     (case prepareActivationAt (CoLoader s) (Some c) target of None \<Rightarrow> None | Some (r, l) \<Rightarrow> Some (r, s \<lparr> CoLoader := l \<rparr>))"

definition commit_token :: "activation_state \<Rightarrow> ('f, 'w, unit) co_io" where
  "commit_token a s =
     (case Commit (CoLoader s) (Some a) of
        Inl e \<Rightarrow> Some (Inl e, s)
      | Inr (l, _) \<Rightarrow> Some (Inr (), s \<lparr> CoLoader := l \<rparr>))"

definition abort_token :: "activation_state \<Rightarrow> ('f, 'w) coordinator \<Rightarrow> ('f, 'w) coordinator" where
  "abort_token a s = (case Abort (CoLoader s) (Some a) of Inl _ \<Rightarrow> s | Inr (l, _) \<Rightarrow> s \<lparr> CoLoader := l \<rparr>)"

definition activateCandidate :: "catalog_candidate \<Rightarrow> catalog_head \<Rightarrow> string \<Rightarrow> ('f, 'w, unit) co_io" where
  "activateCandidate c target operation =
     io_bind (prepare c target) (\<lambda>activation.
     io_try (commit_token activation) (\<lambda>r. case r of
       Inr _ \<Rightarrow> io_return ()
     | Inl _ \<Rightarrow> io_cleanup (abort_token activation) (poisonedError operation)))"

definition commit_or_poison :: "activation_state \<Rightarrow> string \<Rightarrow> nat \<Rightarrow> ('f, 'w, nat) co_io" where
  "commit_or_poison activation operation n =
     io_try (commit_token activation) (\<lambda>r. case r of Inr _ \<Rightarrow> io_return n | Inl _ \<Rightarrow> poisonedError operation)"

text \<open>A deferred close, whose error is dropped.\<close>

definition close_lease :: "('f, 'w) site \<Rightarrow> nat \<Rightarrow> ('f, 'w) coordinator \<Rightarrow> ('f, 'w) coordinator" where
  "close_lease site lease s = s \<lparr> CoDatabase := snd (RpClose (SiRepo site) lease (CoDatabase s)) \<rparr>"

definition close_then :: "('f, 'w) site \<Rightarrow> nat \<Rightarrow> ('f, 'w, 'a) co_io \<Rightarrow> ('f, 'w, 'a) co_io" where
  "close_then site lease m s = m (close_lease site lease s)"

section \<open>Publishing a candidate\<close>

text \<open>After an ambiguous commit: what the head and the publication read through a fresh lease say of it.\<close>

definition reconcile_outcome ::
  "('f, 'w) site \<Rightarrow> nat \<Rightarrow> catalog_head option \<Rightarrow> catalog_head \<Rightarrow> catalog_entry list \<Rightarrow> activation_state \<Rightarrow>
   catalog_head option \<Rightarrow> catalog_head option \<Rightarrow> ('f, 'w, nat) co_io" where
  "reconcile_outcome site fresh expected target entries activation current found =
     (case found of
        None \<Rightarrow>
          if \<not> sameCatalogHead current expected
            then poisonedError ''ambiguous catalog commit was not recorded but the head changed''
          else io_throw ErrCatalogCommitNotApplied
      | Some candidateHead \<Rightarrow>
          io_try (ask (RpReadPublication (SiRepo site) fresh (ChGeneration candidateHead))) (\<lambda>readR. case readR of
            Inl _ \<Rightarrow> poisonedError ''ambiguous catalog commit produced a divergent or superseded publication''
          | Inr (storedHead, storedEntries) \<Rightarrow>
              if storedHead \<noteq> target \<or> candidateHead \<noteq> target \<or> \<not> sameCatalogEntries storedEntries entries \<or>
                 \<not> sameCatalogHead current (Some target)
                then poisonedError ''ambiguous catalog commit produced a divergent or superseded publication''
              else commit_or_poison activation ''activate reconciled problem catalog'' (length entries)))"

definition reconcile_reading ::
  "('f, 'w) site \<Rightarrow> nat \<Rightarrow> catalog_head option \<Rightarrow> publication_ref \<Rightarrow> catalog_head \<Rightarrow> catalog_entry list \<Rightarrow> activation_state \<Rightarrow>
   ('f, 'w, nat) co_io" where
  "reconcile_reading site fresh expected identity target entries activation =
     io_try (ask (RpHead (SiRepo site) fresh)) (\<lambda>headR.
     io_try (ask (RpFindPublication (SiRepo site) fresh identity)) (\<lambda>findR.
     (case headR of
        Inl _ \<Rightarrow> poisonedError ''reconcile ambiguous problem catalog commit''
      | Inr current \<Rightarrow>
          (case findR of
             Inl _ \<Rightarrow> poisonedError ''reconcile ambiguous problem catalog commit''
           | Inr found \<Rightarrow> reconcile_outcome site fresh expected target entries activation current found))))"

definition reconcile_commit ::
  "('f, 'w) site \<Rightarrow> nat \<Rightarrow> catalog_head option \<Rightarrow> publication_ref \<Rightarrow> catalog_head \<Rightarrow> catalog_entry list \<Rightarrow> activation_state \<Rightarrow>
   ('f, 'w, nat) co_io" where
  "reconcile_commit site lease expected identity target entries activation =
     io_try (ask (RpDiscard (SiRepo site) lease)) (\<lambda>r. case r of
       Inl _ \<Rightarrow> poisonedError ''discard ambiguous publication connection''
     | Inr _ \<Rightarrow>
         io_try (ask (RpAcquireCatalogPublicationLease (SiRepo site))) (\<lambda>r. case r of
           Inl _ \<Rightarrow> poisonedError ''reacquire publication lease after ambiguous commit''
         | Inr fresh \<Rightarrow>
             io_defer (close_lease site fresh)
               (reconcile_reading site fresh expected identity target entries activation)))"

text \<open>The publication itself, with the activation prepared.\<close>

definition publish_prepared ::
  "('f, 'w) site \<Rightarrow> nat \<Rightarrow> catalog_head option \<Rightarrow> publication_ref \<Rightarrow> catalog_head \<Rightarrow> catalog_entry list \<Rightarrow> activation_state \<Rightarrow>
   ('f, 'w, nat) co_io" where
  "publish_prepared site lease expected identity target entries activation =
     io_try (ask (RpPublish (SiRepo site) lease expected identity entries)) (\<lambda>r. case r of
       Inr published \<Rightarrow>
         if published \<noteq> target then poisonedError ''persisted publication identity changed''
         else commit_or_poison activation ''publish committed problem catalog'' (length entries)
     | Inl e \<Rightarrow>
         if e \<noteq> ErrCatalogCommitUnknown then io_throw e
         else reconcile_commit site lease expected identity target entries activation)"

definition publishCandidate :: "('f, 'w) site \<Rightarrow> nat \<Rightarrow> catalog_head option \<Rightarrow> catalog_candidate \<Rightarrow> ('f, 'w, nat) co_io" where
  "publishCandidate site lease expected c =
     io_bind (from_sum (Identity c)) (\<lambda>identity.
     (let entries = Entries c;
          target = \<lparr> ChGeneration = next_generation expected, ChRef = identity, ChEntryCount = length entries \<rparr> in
      io_bind (prepare c target) (\<lambda>activation.
      io_cleanup (abort_token activation) (publish_prepared site lease expected identity target entries activation))))"

section \<open>Binding a legacy catalog\<close>

text \<open>Activation, if wanted, and the close of the lease that proved the binding.\<close>

definition finish_binding ::
  "('f, 'w) site \<Rightarrow> nat \<Rightarrow> catalog_head \<Rightarrow> catalog_candidate \<Rightarrow> bool \<Rightarrow> string \<Rightarrow> string \<Rightarrow> ('f, 'w, bool) co_io" where
  "finish_binding site lease expected c activate operation closing =
     io_bind (if activate then io_cleanup (close_lease site lease) (activateCandidate c expected operation) else io_return ()) (\<lambda>_.
     io_try (ask (RpClose (SiRepo site) lease)) (\<lambda>r. case r of Inl _ \<Rightarrow> poisonedError closing | Inr _ \<Rightarrow> io_return True))"

text \<open>
  One round of the loop on the current lease, from its discard on: the binding is settled, or the commit on the fresh lease is
  ambiguous too.
\<close>

definition bind_again ::
  "('f, 'w) site \<Rightarrow> catalog_head \<Rightarrow> catalog_candidate \<Rightarrow> bool \<Rightarrow> string \<Rightarrow> nat \<Rightarrow> ('f, 'w, nat + unit) co_io" where
  "bind_again site expected c activate operation fresh =
     io_try (ask (RpBindLegacyArtifacts (SiRepo site) fresh expected (Entries c))) (\<lambda>r. case r of
       Inr _ \<Rightarrow> io_bind (finish_binding site fresh expected c activate operation ''close retried legacy artifact binding lease'')
         (\<lambda>_. io_return (Inr ()))
     | Inl e \<Rightarrow>
         if e \<noteq> ErrCatalogCommitUnknown then close_then site fresh (io_throw e)
         else io_return (Inl fresh))"

definition bind_observed ::
  "('f, 'w) site \<Rightarrow> catalog_head \<Rightarrow> catalog_candidate \<Rightarrow> bool \<Rightarrow> string \<Rightarrow> nat \<Rightarrow> ('f, 'w, nat + unit) co_io" where
  "bind_observed site expected c activate operation fresh =
     io_try (ask (RpReadPublication (SiRepo site) fresh (ChGeneration expected))) (\<lambda>readR. case readR of
       Inr (storedHead, storedEntries) \<Rightarrow>
         if storedHead \<noteq> expected \<or> \<not> sameCatalogEntries storedEntries (Entries c)
           then close_then site fresh (poisonedError ''ambiguous legacy artifact binding diverged'')
         else io_bind (finish_binding site fresh expected c activate operation ''close reconciled legacy artifact binding lease'')
           (\<lambda>_. io_return (Inr ()))
     | Inl readErr \<Rightarrow>
         if readErr \<noteq> ErrCatalogArtifactBindingMissing
           then close_then site fresh (poisonedError ''read ambiguous legacy artifact binding'')
         else bind_again site expected c activate operation fresh)"

definition bind_fresh ::
  "('f, 'w) site \<Rightarrow> catalog_head \<Rightarrow> catalog_candidate \<Rightarrow> bool \<Rightarrow> string \<Rightarrow> nat \<Rightarrow> ('f, 'w, nat + unit) co_io" where
  "bind_fresh site expected c activate operation fresh =
     io_try (ask (RpHead (SiRepo site) fresh)) (\<lambda>headR. case headR of
       Inl _ \<Rightarrow> close_then site fresh (poisonedError ''reconcile ambiguous legacy artifact binding head'')
     | Inr current \<Rightarrow>
         if \<not> sameCatalogHead current (Some expected)
           then close_then site fresh (poisonedError ''reconcile ambiguous legacy artifact binding head'')
         else bind_observed site expected c activate operation fresh)"

definition bind_round ::
  "('f, 'w) site \<Rightarrow> catalog_head \<Rightarrow> catalog_candidate \<Rightarrow> bool \<Rightarrow> string \<Rightarrow> nat \<Rightarrow> ('f, 'w, nat + unit) co_io" where
  "bind_round site expected c activate operation lease =
     io_try (ask (RpDiscard (SiRepo site) lease)) (\<lambda>r. case r of
       Inl _ \<Rightarrow> poisonedError ''discard ambiguous legacy artifact binding connection''
     | Inr _ \<Rightarrow>
         io_try (ask (RpAcquireCatalogPublicationLease (SiRepo site))) (\<lambda>r. case r of
           Inl _ \<Rightarrow> poisonedError ''reacquire publication lease after ambiguous legacy binding''
         | Inr fresh \<Rightarrow> bind_fresh site expected c activate operation fresh))"

partial_function (option) bind_loop ::
  "('f, 'w) site \<Rightarrow> catalog_head \<Rightarrow> catalog_candidate \<Rightarrow> bool \<Rightarrow> string \<Rightarrow> nat \<Rightarrow> ('f, 'w) coordinator \<Rightarrow>
   ((catalog_error + unit) \<times> ('f, 'w) coordinator) option" where
  "bind_loop site expected c activate operation lease s =
     Option.bind (bind_round site expected c activate operation lease s) (\<lambda>rs.
       case fst rs of
         Inl e \<Rightarrow> Some (Inl e, snd rs)
       | Inr next_lease \<Rightarrow>
           (case next_lease of
              Inl fresh \<Rightarrow> bind_loop site expected c activate operation fresh (snd rs)
            | Inr _ \<Rightarrow> Some (Inr (), snd rs)))"

text \<open>Whether the loop has settled the binding, and activated it when asked to.\<close>

definition bindLegacyArtifacts ::
  "('f, 'w) site \<Rightarrow> nat \<Rightarrow> catalog_head \<Rightarrow> catalog_candidate \<Rightarrow> bool \<Rightarrow> string \<Rightarrow> ('f, 'w, bool) co_io" where
  "bindLegacyArtifacts site lease expected c activate operation =
     io_try (ask (RpBindLegacyArtifacts (SiRepo site) lease expected (Entries c))) (\<lambda>r. case r of
       Inr _ \<Rightarrow> io_return False
     | Inl e \<Rightarrow>
         if e \<noteq> ErrCatalogCommitUnknown then io_throw e
         else io_bind (bind_loop site expected c activate operation lease) (\<lambda>_. io_return True))"

section \<open>Synchronisation\<close>

text \<open>The persisted head has the identity of the candidate: nothing is published.\<close>

definition adopt_unchanged :: "('f, 'w) site \<Rightarrow> nat \<Rightarrow> catalog_head option \<Rightarrow> catalog_head \<Rightarrow> catalog_candidate \<Rightarrow> ('f, 'w, nat) co_io" where
  "adopt_unchanged site lease localHead persisted c =
     io_try (ask (RpReadPublication (SiRepo site) lease (ChGeneration persisted))) (\<lambda>r. case r of
       Inl _ \<Rightarrow> io_throw ErrCatalogStartupMismatch
     | Inr (storedHead, stored) \<Rightarrow>
         if storedHead \<noteq> persisted \<or> \<not> sameCatalogEntries stored (Entries c) then io_throw ErrCatalogStartupMismatch
         else if localHead = None
           then io_bind (activateCandidate c storedHead ''adopt unchanged problem catalog'') (\<lambda>_. io_return (length stored))
         else io_return (length stored))"

definition adopt_upgraded :: "('f, 'w) site \<Rightarrow> nat \<Rightarrow> catalog_head option \<Rightarrow> catalog_head \<Rightarrow> catalog_candidate \<Rightarrow> ('f, 'w, nat) co_io" where
  "adopt_upgraded site lease localHead persisted c =
     io_try (ask (RpReadLegacyPublication (SiRepo site) lease (ChGeneration persisted))) (\<lambda>r. case r of
       Inl _ \<Rightarrow> io_throw ErrCatalogStartupMismatch
     | Inr (storedHead, stored) \<Rightarrow>
         if storedHead \<noteq> persisted \<or> \<not> sameCatalogProjection stored (Problems c) then io_throw ErrCatalogStartupMismatch
         else
           io_bind (bindLegacyArtifacts site lease persisted c (localHead = None) ''adopt upgraded legacy problem catalog'') (\<lambda>handled.
           if localHead = None \<and> \<not> handled
             then io_bind (activateCandidate c persisted ''adopt upgraded legacy problem catalog'') (\<lambda>_. io_return (length stored))
           else io_return (length stored)))"

text \<open>An identity that was published before is not published again.\<close>

definition refuse_rollback :: "('f, 'w) site \<Rightarrow> nat \<Rightarrow> publication_ref \<Rightarrow> ('f, 'w, unit) co_io" where
  "refuse_rollback site lease ref =
     io_bind (ask (RpFindPublication (SiRepo site) lease ref)) (\<lambda>prior. io_require (prior = None) ErrCatalogRollback)"

definition publish_new ::
  "('f, 'w) site \<Rightarrow> nat \<Rightarrow> catalog_head option \<Rightarrow> publication_ref \<Rightarrow> catalog_candidate \<Rightarrow> ('f, 'w, nat) co_io" where
  "publish_new site lease persistedHead identity c =
     io_bind (refuse_rollback site lease identity) (\<lambda>_.
     io_bind (case legacyIdentity c of Inl _ \<Rightarrow> io_return () | Inr legacy \<Rightarrow> refuse_rollback site lease legacy) (\<lambda>_.
     publishCandidate site lease persistedHead c))"

definition sync_identified ::
  "('f, 'w) site \<Rightarrow> nat \<Rightarrow> catalog_candidate \<Rightarrow> catalog_head option \<Rightarrow> catalog_head option \<Rightarrow> publication_ref \<Rightarrow> ('f, 'w, nat) co_io" where
  "sync_identified site lease c localHead persistedHead identity =
     (case persistedHead of
        Some persisted \<Rightarrow>
          if ChRef persisted = identity then adopt_unchanged site lease localHead persisted c
          else if legacyIdentity c = Inr (ChRef persisted) then adopt_upgraded site lease localHead persisted c
          else publish_new site lease persistedHead identity c
      | None \<Rightarrow> publish_new site lease persistedHead identity c)"

definition sync_compared ::
  "('f, 'w) site \<Rightarrow> nat \<Rightarrow> catalog_candidate \<Rightarrow> catalog_head option \<Rightarrow> catalog_head option \<Rightarrow> ('f, 'w, nat) co_io" where
  "sync_compared site lease c persistedHead localHead =
     (if localHead \<noteq> None \<and> \<not> sameCatalogHead localHead persistedHead
        then poisonedError ''local and persisted catalog heads differ''
      else io_bind (from_sum (Identity c)) (sync_identified site lease c localHead persistedHead))"

definition syncCandidateUnderLease :: "('f, 'w) site \<Rightarrow> nat \<Rightarrow> catalog_candidate \<Rightarrow> ('f, 'w, nat) co_io" where
  "syncCandidateUnderLease site lease c =
     io_bind (ask (RpHead (SiRepo site) lease)) (\<lambda>persistedHead.
     peek (\<lambda>s. catalogHead (CoLoader s)) (sync_compared site lease c persistedHead))"

definition catalogAdmissionCapacity :: int where "catalogAdmissionCapacity = 2 ^ 62"

text \<open>Under the whole admission gate, with a lease that is closed in the end.\<close>

definition with_lease :: "('f, 'w) site \<Rightarrow> (nat \<Rightarrow> ('f, 'w, 'a) co_io) \<Rightarrow> ('f, 'w, 'a) co_io" where
  "with_lease site k =
     io_bind (ask (RpAdmissionGate (SiRepo site) catalogAdmissionCapacity)) (\<lambda>_.
     io_bind (ask (RpAcquireCatalogPublicationLease (SiRepo site))) (\<lambda>lease.
     io_defer (close_lease site lease) (k lease)))"

definition Sync :: "('f, 'w) site \<Rightarrow> ('f, 'w, nat) co_io" where
  "Sync site =
     io_bind (ask (RpSyncGate (SiRepo site))) (\<lambda>_.
     io_bind check_health (\<lambda>_.
     io_bind (build site) (\<lambda>c.
     io_bind (ensure_candidate site c) (\<lambda>_.
     with_lease site (\<lambda>lease. syncCandidateUnderLease site lease c)))))"

section \<open>Start-up\<close>

record startup_snapshot =
  SsHead :: catalog_head
  SsEntries :: "catalog_entry list"
  SsLegacyProblems :: "problem list"
  SsLegacy :: bool

definition cloneStartupCatalogProblems :: "problem list \<Rightarrow> problem list" where
  "cloneStartupCatalogProblems ps = map cloneProblem ps"

definition cloneStartupCatalogEntries :: "catalog_entry list \<Rightarrow> catalog_entry list" where
  "cloneStartupCatalogEntries es = map (\<lambda>e. e \<lparr> CeProblem := cloneProblem (CeProblem e) \<rparr>) es"

text \<open>The snapshot of a head, read on the lease: complete, or without artifacts for the metadata-only schema.\<close>

definition read_snapshot :: "('f, 'w) site \<Rightarrow> nat \<Rightarrow> catalog_head \<Rightarrow> ('f, 'w, startup_snapshot) co_io" where
  "read_snapshot site lease head =
     io_try (ask (RpReadPublication (SiRepo site) lease (ChGeneration head))) (\<lambda>r. case r of
       Inr (storedHead, entries) \<Rightarrow>
         io_bind (io_require (storedHead = head) ErrCatalogStartupMismatch) (\<lambda>_.
         io_return \<lparr> SsHead = head, SsEntries = cloneStartupCatalogEntries entries, SsLegacyProblems = [], SsLegacy = False \<rparr>)
     | Inl readErr \<Rightarrow>
         if readErr = ErrCatalogArtifactBindingMissing \<and> PrDigestSchema (ChRef head) = legacyCatalogDigestSchema then
           io_bind (ask (RpReadLegacyPublication (SiRepo site) lease (ChGeneration head))) (\<lambda>(legacyHead, problems).
           io_bind (io_require (legacyHead = head) ErrCatalogStartupMismatch) (\<lambda>_.
           io_return \<lparr> SsHead = head, SsEntries = [], SsLegacyProblems = cloneStartupCatalogProblems problems, SsLegacy = True \<rparr>))
         else io_throw readErr)"

text \<open>Of a failed read and a failed close the first error is kept; after a successful read the close decides.\<close>

definition readStartupSnapshot :: "('f, 'w) site \<Rightarrow> ('f, 'w, startup_snapshot option) co_io" where
  "readStartupSnapshot site =
     io_bind (ask (RpAcquireCatalogPublicationLease (SiRepo site))) (\<lambda>lease.
     io_bind (io_cleanup (close_lease site lease)
       (io_bind (ask (RpHead (SiRepo site) lease)) (\<lambda>head. case head of
          None \<Rightarrow> io_return None
        | Some h \<Rightarrow> io_bind (read_snapshot site lease h) (\<lambda>snapshot. io_return (Some snapshot))))) (\<lambda>result.
     io_bind (ask (RpClose (SiRepo site) lease)) (\<lambda>_. io_return result)))"

definition shouldPoisonCatalogValidation :: "catalog_error \<Rightarrow> bool" where
  "shouldPoisonCatalogValidation e \<longleftrightarrow> e \<noteq> ContextDone"

definition prepare_legacy :: "('f, 'w) site \<Rightarrow> startup_snapshot \<Rightarrow> ('f, 'w, catalog_candidate) co_io" where
  "prepare_legacy site snapshot =
     io_bind (build site) (\<lambda>c.
     io_bind (ensure_candidate site c) (\<lambda>_.
     io_bind (io_require (\<not> (legacyIdentity c \<noteq> Inr (ChRef (SsHead snapshot)) \<or>
         \<not> sameCatalogProjection (SsLegacyProblems snapshot) (Problems c))) ErrCatalogStartupMismatch) (\<lambda>_.
     io_return c)))"

definition snapshot_identity :: "catalog_candidate \<Rightarrow> publication_ref \<Rightarrow> bool" where
  "snapshot_identity c ref \<longleftrightarrow>
     Identity c = Inr ref \<or> PrDigestSchema ref = legacyCatalogDigestSchema \<and> legacyIdentity c = Inr ref"

definition prepareStartupSnapshot :: "('f, 'w) site \<Rightarrow> startup_snapshot \<Rightarrow> ('f, 'w, catalog_candidate) co_io" where
  "prepareStartupSnapshot site snapshot =
     peek CoLoader (\<lambda>l.
     if catalogHead l \<noteq> None \<and> \<not> sameCatalogHead (catalogHead l) (Some (SsHead snapshot))
       then poisonedError ''local and persisted catalog heads differ''
     else if SsLegacy snapshot then prepare_legacy site snapshot
     else
       io_try (act (candidateFromEntries (SiYaml site) (SiCheckout site) (SiStore site) l (SsEntries snapshot))) (\<lambda>r. case r of
         Inl e \<Rightarrow>
           if catalogHead l \<noteq> None \<and> shouldPoisonCatalogValidation e
             then poisonedError ''revalidate active problem catalog artifacts''
           else io_throw e
       | Inr c \<Rightarrow>
           if \<not> snapshot_identity c (ChRef (SsHead snapshot)) \<or> \<not> sameCatalogEntries (SsEntries snapshot) (Entries c) then
             if catalogHead l \<noteq> None then poisonedError ''revalidate active problem catalog identity''
             else io_throw ErrCatalogStartupMismatch
           else io_return c))"

text \<open>The final phases return the number of problems and whether to take another snapshot.\<close>

definition finalizeEmptyStartup :: "('f, 'w) site \<Rightarrow> catalog_candidate \<Rightarrow> ('f, 'w, nat \<times> bool) co_io" where
  "finalizeEmptyStartup site c =
     with_lease site (\<lambda>lease.
     io_bind (ask (RpHead (SiRepo site) lease)) (\<lambda>head.
     if head \<noteq> None then io_return (0, True)
     else io_bind (publishCandidate site lease None c) (\<lambda>count. io_return (count, False))))"

definition finalize_legacy :: "('f, 'w) site \<Rightarrow> nat \<Rightarrow> startup_snapshot \<Rightarrow> catalog_candidate \<Rightarrow> ('f, 'w, nat \<times> bool) co_io" where
  "finalize_legacy site lease snapshot c =
     io_try (ask (RpReadLegacyPublication (SiRepo site) lease (ChGeneration (SsHead snapshot)))) (\<lambda>r. case r of
       Inl _ \<Rightarrow> io_throw ErrCatalogStartupMismatch
     | Inr (storedHead, problems) \<Rightarrow>
         if storedHead \<noteq> SsHead snapshot \<or> \<not> sameCatalogProjection problems (SsLegacyProblems snapshot)
           then io_throw ErrCatalogStartupMismatch
         else
           io_bind (bindLegacyArtifacts site lease (SsHead snapshot) c True ''adopt artifact-bound legacy problem catalog'') (\<lambda>handled.
           io_bind (if handled then io_return ()
                    else activateCandidate c (SsHead snapshot) ''adopt artifact-bound legacy problem catalog'') (\<lambda>_.
           io_return (length (CcIds c), False))))"

definition finalize_bound :: "('f, 'w) site \<Rightarrow> nat \<Rightarrow> startup_snapshot \<Rightarrow> catalog_candidate \<Rightarrow> ('f, 'w, nat \<times> bool) co_io" where
  "finalize_bound site lease snapshot c =
     io_try (ask (RpReadPublication (SiRepo site) lease (ChGeneration (SsHead snapshot)))) (\<lambda>r. case r of
       Inl _ \<Rightarrow> io_throw ErrCatalogStartupMismatch
     | Inr (storedHead, entries) \<Rightarrow>
         if storedHead \<noteq> SsHead snapshot \<or> \<not> sameCatalogEntries entries (SsEntries snapshot) then io_throw ErrCatalogStartupMismatch
         else peek (\<lambda>s. catalogHead (CoLoader s)) (\<lambda>localHead.
           if localHead \<noteq> None then io_return (length entries, False)
           else io_bind (activateCandidate c (SsHead snapshot) ''adopt persisted problem catalog'') (\<lambda>_.
                io_return (length entries, False))))"

definition finalizeStartupSnapshot :: "('f, 'w) site \<Rightarrow> startup_snapshot \<Rightarrow> catalog_candidate \<Rightarrow> ('f, 'w, nat \<times> bool) co_io" where
  "finalizeStartupSnapshot site snapshot c =
     with_lease site (\<lambda>lease.
     io_bind (ask (RpHead (SiRepo site) lease)) (\<lambda>current.
     if \<not> sameCatalogHead current (Some (SsHead snapshot)) then
       peek (\<lambda>s. catalogHead (CoLoader s)) (\<lambda>localHead.
         if localHead \<noteq> None then poisonedError ''persisted catalog head changed while revalidating active artifacts''
         else io_return (0, True))
     else if SsLegacy snapshot then finalize_legacy site lease snapshot c
     else finalize_bound site lease snapshot c))"

definition catalogStartupSnapshotAttempts :: nat where "catalogStartupSnapshotAttempts = 3"

definition startup_attempt :: "('f, 'w) site \<Rightarrow> ('f, 'w, nat \<times> bool) co_io" where
  "startup_attempt site =
     io_bind (readStartupSnapshot site) (\<lambda>snapshot. case snapshot of
       None \<Rightarrow>
         io_bind (build site) (\<lambda>c.
         io_bind (ensure_candidate site c) (\<lambda>_.
         finalizeEmptyStartup site c))
     | Some sn \<Rightarrow>
         io_bind (prepareStartupSnapshot site sn) (\<lambda>c.
         finalizeStartupSnapshot site sn c))"

fun startup_attempts :: "nat \<Rightarrow> ('f, 'w) site \<Rightarrow> ('f, 'w, nat) co_io" where
  "startup_attempts 0 site = io_throw ErrCatalogHeadConflict"
| "startup_attempts (Suc n) site =
     io_bind (startup_attempt site) (\<lambda>(count, retry). if retry then startup_attempts n site else io_return count)"

definition Startup :: "('f, 'w) site \<Rightarrow> ('f, 'w, nat) co_io" where
  "Startup site =
     io_bind (ask (RpSyncGate (SiRepo site))) (\<lambda>_.
     io_bind check_health (\<lambda>_.
     startup_attempts catalogStartupSnapshotAttempts site))"

section \<open>Lookups\<close>

definition install_historical :: "runtime_bundle \<Rightarrow> ('f, 'w, unit) co_io" where
  "install_historical b s =
     (case installHistoricalBundle (CoLoader s) b of
        Inl e \<Rightarrow> Some (Inl e, s)
      | Inr l \<Rightarrow> Some (Inr (), s \<lparr> CoLoader := l \<rparr>))"

definition loadHistoricalBundle :: "('f, 'w) site \<Rightarrow> problem_ref \<Rightarrow> ('f, 'w, runtime_bundle) co_io" where
  "loadHistoricalBundle site ref =
     io_bind (act (ck_check (SiCheckout site))) (\<lambda>_.
     io_bind (ask (RpFindCatalogArtifact (SiRepo site) ref)) (\<lambda>entry.
     io_bind (act (store_call (CasGet (SiStore site) (CeArtifact entry)))) (\<lambda>data.
     (case DecodeRuntimeArtifact (SiYaml site) (CeArtifact entry) data of
        Inl e \<Rightarrow> io_throw (ArtifactRejected e)
      | Inr (_, b) \<Rightarrow>
          io_bind (io_require (\<not> (PbID (RbProblem b) \<noteq> ProblemID ref \<or> RbRevision b \<noteq> Revision ref \<or>
              RbSourceTrust b \<noteq> CeSourceTrust entry \<or> \<not> sameRuntimeProblemProjection (RbProblem b) (CeProblem entry)))
            ErrInvalidProblemRevision) (\<lambda>_.
          io_bind (install_historical b) (\<lambda>_. io_return (cloneRuntimeBundle b)))))))"

text \<open>A strict loader never calls the file-only lookup.\<close>

definition no_files :: "string \<Rightarrow> catalog_error + runtime_bundle" where
  "no_files _ = Inl ErrInvalidProblemRevision"

definition from_history :: "('f, 'w) site \<Rightarrow> (git_loader \<Rightarrow> problem_ref \<Rightarrow> catalog_error + 'a) \<Rightarrow> (runtime_bundle \<Rightarrow> 'a) \<Rightarrow> problem_ref \<Rightarrow> ('f, 'w, 'a) co_io" where
  "from_history site lookup project ref =
     peek CoLoader (\<lambda>l. case lookup l ref of
       Inr x \<Rightarrow> io_return x
     | Inl e \<Rightarrow>
         if e \<noteq> ErrInvalidProblemRevision then io_throw e
         else io_bind (loadHistoricalBundle site ref) (\<lambda>b. io_return (project b)))"

definition CoordinatorResolveProblem :: "('f, 'w) site \<Rightarrow> problem_ref \<Rightarrow> ('f, 'w, problem) co_io" where
  "CoordinatorResolveProblem site = from_history site (ResolveProblem no_files) (\<lambda>b. cloneProblem (RbProblem b))"

definition CoordinatorResolveRuntime :: "('f, 'w) site \<Rightarrow> problem_ref \<Rightarrow> ('f, 'w, local_docker_runtime) co_io" where
  "CoordinatorResolveRuntime site = from_history site (ResolveRuntime no_files) localRuntimeFromBundle"

text \<open>A fresh session must prove that its recovery source is intact.\<close>

definition validate_source_artifact :: "('f, 'w) site \<Rightarrow> problem_ref \<Rightarrow> problem \<Rightarrow> ('f, 'w, unit) co_io" where
  "validate_source_artifact site ref trusted =
     io_try (loadHistoricalBundle site ref) (\<lambda>r. case r of
       Inl _ \<Rightarrow> poisonedError ''validate active problem artifact before admission''
     | Inr b \<Rightarrow>
         if \<not> sameRuntimeProblemProjection (RbProblem b) trusted
           then poisonedError ''validate active problem artifact before admission''
         else io_return ())"

definition AcquireActiveProblem :: "('f, 'w) site \<Rightarrow> string \<Rightarrow> ('f, 'w, problem \<times> catalog_selection) co_io" where
  "AcquireActiveProblem site problemID =
     io_bind (act (ck_check (SiCheckout site))) (\<lambda>_.
     io_bind (ask (RpAdmissionGate (SiRepo site) 1)) (\<lambda>_.
     io_bind check_health (\<lambda>_.
     io_bind (ask (RpFindActiveCatalogProblem (SiRepo site) problemID)) (\<lambda>(head, row).
     io_bind (io_require (\<not> (PbRevision row = [] \<or> \<not> PbCatalogActive row)) ErrInvalidProblemRevision) (\<lambda>_.
     (let ref = \<lparr> ProblemID = problemID, Revision = PbRevision row \<rparr> in
      io_bind (peek CoLoader (\<lambda>l. from_sum (ResolveActiveProblem no_files l ref))) (\<lambda>trusted.
      io_bind (validate_source_artifact site ref trusted) (\<lambda>_.
      io_return (trusted, \<lparr> SelGeneration = ChGeneration head, SelProblem = ref \<rparr>)))))))))"

end
