(* ===== verification/Catalog_Ledger_Laws.thy ===== *)
theory Catalog_Ledger_Laws
  imports Catalog_Ledger
begin

text \<open>
  What the ledger guarantees. Every writer's transaction keeps the shape of the ledger: publications are numbered from one
  without gaps, each identity is published once, the head is the last of them, and bindings are unique. The abstract ledger
  is a log of publications, to which a transaction appends at most one; a publication that was once read is read
  the same ever after.
\<close>

section \<open>The log\<close>

type_synonym published = "publication_ref \<times> nat \<times> problem list"

definition row_ref :: "publication_row \<Rightarrow> publication_ref" where
  "row_ref p = \<lparr> PrDigestSchema = word_of_int (PwSchema p), PrCandidateDigest = PwDigest p \<rparr>"

definition row_key :: "publication_row \<Rightarrow> int \<times> byte list" where
  "row_key p = (PwSchema p, PwDigest p)"

definition abs_ledger :: "ledger \<Rightarrow> published list" where
  "abs_ledger d = map (\<lambda>p. (row_ref p, nat (PwCount p), map EwProblem (entries_at (PwGeneration p) d))) (LgPublications d)"

section \<open>The invariant\<close>

definition binding_key :: "artifact_row \<Rightarrow> string \<times> string" where
  "binding_key a = (AwProblemID a, AwRevision a)"

text \<open>One binding for each revision, with a digest of the right length.\<close>

definition bindings_ok :: "artifact_row list \<Rightarrow> bool" where
  "bindings_ok as \<longleftrightarrow> distinct (map binding_key as) \<and> (\<forall>a \<in> set as. length (AwDigest a) = 32)"

definition chained :: "ledger \<Rightarrow> bool" where
  "chained d \<longleftrightarrow>
     map PwGeneration (LgPublications d) = map int [1..<Suc (length (LgPublications d))] \<and>
     LgHead d = (if LgPublications d = [] then None else Some (int (length (LgPublications d))))"

definition row_ok :: "ledger \<Rightarrow> publication_row \<Rightarrow> bool" where
  "row_ok d p \<longleftrightarrow>
     0 < PwSchema p \<and> PwSchema p < 2 ^ 15 \<and> length (PwDigest p) = 32 \<and> 0 < PwCount p \<and> PwGeneration p < 2 ^ 63 \<and>
     int (length (entries_at (PwGeneration p) d)) = PwCount p"

definition ledger_wf :: "ledger \<Rightarrow> bool" where
  "ledger_wf d \<longleftrightarrow>
     chained d \<and> (\<forall>p \<in> set (LgPublications d). row_ok d p) \<and> distinct (map row_key (LgPublications d)) \<and>
     (\<forall>e \<in> set (LgEntries d). EwGeneration e \<le> int (length (LgPublications d))) \<and>
     distinct (map (\<lambda>e. (EwGeneration e, PbID (EwProblem e))) (LgEntries d)) \<and>
     bindings_ok (LgArtifacts d)"

definition ledger_init :: ledger where
  "ledger_init = \<lparr> LgPublications = [], LgEntries = [], LgHead = None, LgArtifacts = [], LgProblems = Map.empty \<rparr>"

lemma ledger_init_wf: "ledger_wf ledger_init"
  by (simp add: ledger_wf_def chained_def ledger_init_def bindings_ok_def)

section \<open>Steps of a transaction\<close>

text \<open>Rows are never changed or removed: publications, entries and bindings only grow at their end.\<close>

definition grows :: "ledger \<Rightarrow> ledger \<Rightarrow> bool" where
  "grows d d' \<longleftrightarrow>
     (\<exists>ps es as. LgPublications d' = LgPublications d @ ps \<and> LgEntries d' = LgEntries d @ es \<and> LgArtifacts d' = LgArtifacts d @ as)"

interpretation growing: tx_preorder grows
proof
  show "grows d d" for d by (auto simp: grows_def)
  show "grows d d' \<Longrightarrow> grows d' d'' \<Longrightarrow> grows d d''" for d d' d'' by (auto simp: grows_def)
qed

text \<open>The rows of the publication tables, apart from the bindings and the mutable identity rows.\<close>

definition same_log :: "ledger \<Rightarrow> ledger \<Rightarrow> bool" where
  "same_log d d' \<longleftrightarrow>
     LgPublications d' = LgPublications d \<and> LgEntries d' = LgEntries d \<and> LgHead d' = LgHead d \<and>
     (\<exists>as. LgArtifacts d' = LgArtifacts d @ as) \<and>
     (bindings_ok (LgArtifacts d) \<longrightarrow> bindings_ok (LgArtifacts d'))"

interpretation quiet: tx_preorder same_log
proof
  show "same_log d d" for d by (auto simp: same_log_def)
  show "same_log d d' \<Longrightarrow> same_log d' d'' \<Longrightarrow> same_log d d''" for d d' d'' by (auto simp: same_log_def)
qed

lemma find_mono: "find P xs = Some x \<Longrightarrow> find P (xs @ ys) = Some x"
  by (simp add: find_append)

lemma find_SomeD: "find P xs = Some x \<Longrightarrow> x \<in> set xs \<and> P x"
  by (auto simp: find_Some_iff)

lemma binding_of_mono: "binding_of i r d = Some a \<Longrightarrow> same_log d d' \<or> grows d d' \<Longrightarrow> binding_of i r d' = Some a"
  by (auto simp: binding_of_def same_log_def grows_def find_mono)

lemma binding_absent: "binding_of i r d = None \<longleftrightarrow> (i, r) \<notin> set (map binding_key (LgArtifacts d))"
  by (auto simp: binding_of_def find_None_iff binding_key_def)

lemma quiet_check: "tx_rel same_log (sql_check name b)"
  unfolding sql_check_def by (rule quiet.rel_guard)

lemma insert_binding_quiet: "tx_rel same_log (insert_binding a)"
proof (rule tx_relI)
  fix d x d' assume "insert_binding a d = Inr (x, d')"
  then show "same_log d d'"
    by (auto simp: insert_binding_def tx_Inr sql_check_def binding_absent binding_key_def same_log_def bindings_ok_def split: if_splits)
qed

lemma insertArtifactBinding_quiet: "tx_rel same_log (insertArtifactBinding e)"
  unfolding insertArtifactBinding_def
  by (intro quiet.rel_intros quiet_check insert_binding_quiet)

lemma upsert_quiet: "tx_rel same_log (upsertCatalogProblem env p)"
  unfolding upsertCatalogProblem_def
  by (intro quiet.rel_intros quiet_check quiet.rel_modify) (simp add: same_log_def)

lemma deactivate_quiet: "tx_rel same_log (deactivate_problems env)"
  unfolding deactivate_problems_def by (rule quiet.rel_modify) (simp add: same_log_def)

lemma insertArtifactBinding_bound:
  assumes "insertArtifactBinding e d = Inr (x, d')"
  shows "binding_of (PbID (CeProblem e)) (PbRevision (CeProblem e)) d' = Some (binding_row e)"
    and "validateArtifactRef (CeArtifact e)" and "CeSourceTrust e = BundleSourceDevelopmentCheckout"
    and "PbID (CeProblem e) \<noteq> []" and "PbRevision (CeProblem e) \<noteq> []"
  using assms by (auto simp: insertArtifactBinding_def tx_Inr sql_check_def)

lemma insertCatalogEntry_Inr:
  assumes "insertCatalogEntry env generation p d = Inr (x, d')"
  shows "d' = d \<lparr> LgEntries := LgEntries d @ [entry_row_of env (int64 generation) p] \<rparr>"
    and "PbID p \<notin> (\<lambda>e. PbID (EwProblem e)) ` set (entries_at (int64 generation) d)"
    and "revision_text (PbRevision p)"
  using assms by (auto simp: insertCatalogEntry_def Let_def tx_Inr sql_check_def list_ex_iff image_iff)

section \<open>Publishing\<close>

text \<open>What the loop over the entries has done: the entries are appended and bound, the log is otherwise the same.\<close>

definition entries_added :: "ledger_env \<Rightarrow> int \<Rightarrow> catalog_entry list \<Rightarrow> ledger \<Rightarrow> ledger \<Rightarrow> bool" where
  "entries_added env g es d d' \<longleftrightarrow>
     LgPublications d' = LgPublications d \<and> LgHead d' = LgHead d \<and>
     LgEntries d' = LgEntries d @ map (\<lambda>e. entry_row_of env g (CeProblem e)) es \<and>
     (\<exists>as. LgArtifacts d' = LgArtifacts d @ as) \<and>
     (bindings_ok (LgArtifacts d) \<longrightarrow> bindings_ok (LgArtifacts d')) \<and>
     distinct (map (\<lambda>e. PbID (CeProblem e)) es) \<and>
     (\<forall>e \<in> set es. PbID (CeProblem e) \<notin> (\<lambda>e. PbID (EwProblem e)) ` set (entries_at g d) \<and>
        binding_of (PbID (CeProblem e)) (PbRevision (CeProblem e)) d' = Some (binding_row e) \<and>
        validateArtifactRef (CeArtifact e) \<and> CeSourceTrust e = BundleSourceDevelopmentCheckout)"

lemma entry_row_of_simps [simp]:
  "EwGeneration (entry_row_of env g p) = g" "PbID (EwProblem (entry_row_of env g p)) = PbID p"
  "PbRevision (EwProblem (entry_row_of env g p)) = PbRevision p"
  by (simp_all add: entry_row_of_def)

lemma entries_at_append: "LgEntries d' = LgEntries d @ es \<Longrightarrow> entries_at g d' = entries_at g d @ filter (\<lambda>e. EwGeneration e = g) es"
  by (simp add: entries_at_def)

lemma publish_entry_added:
  assumes "publish_entry env generation e d = Inr (x, d')"
  shows "entries_added env (int64 generation) [e] d d'"
proof -
  from assms obtain d1 d2 where u: "upsertCatalogProblem env (CeProblem e) d = Inr ((), d1)"
      and b: "insertArtifactBinding e d1 = Inr ((), d2)" and i: "insertCatalogEntry env generation (CeProblem e) d2 = Inr ((), d')"
    by (auto simp: publish_entry_def tx_Inr sql_check_def)
  have log: "same_log d d2"
    using quiet.trans_step [OF tx_relD [OF upsert_quiet u] tx_relD [OF insertArtifactBinding_quiet b]] .
  note ins = insertCatalogEntry_Inr [OF i] and bound = insertArtifactBinding_bound [OF b]
  have "entries_at (int64 generation) d2 = entries_at (int64 generation) d" using log by (simp add: same_log_def entries_at_def)
  then show ?thesis
    using log ins bound by (auto simp: entries_added_def same_log_def binding_of_def)
qed

lemma entries_added_trans:
  assumes "entries_added env g es d d1" and "entries_added env g fs d1 d2"
  shows "entries_added env g (es @ fs) d d2"
proof -
  have at: "entries_at g d1 = entries_at g d @ map (\<lambda>e. entry_row_of env g (CeProblem e)) es"
    using assms(1) by (simp add: entries_added_def entries_at_append filter_map o_def)
  have "PbID (CeProblem f) \<notin> (\<lambda>e. PbID (EwProblem e)) ` set (entries_at g d1)" if "f \<in> set fs" for f
    using assms(2) that by (auto simp: entries_added_def)
  moreover have "(\<lambda>e. PbID (EwProblem e)) ` set (entries_at g d1) =
      (\<lambda>e. PbID (EwProblem e)) ` set (entries_at g d) \<union> (\<lambda>e. PbID (CeProblem e)) ` set es"
    by (simp add: at image_Un image_image)
  ultimately have apart: "PbID (CeProblem f) \<notin> (\<lambda>e. PbID (EwProblem e)) ` set (entries_at g d)"
      "PbID (CeProblem f) \<notin> (\<lambda>e. PbID (CeProblem e)) ` set es" if "f \<in> set fs" for f
    using that by auto
  have kept: "binding_of i r d2 = Some a" if "binding_of i r d1 = Some a" for i r a
    using that assms(2) by (auto simp: entries_added_def binding_of_def find_mono)
  have "(\<lambda>e. PbID (CeProblem e)) ` set es \<inter> (\<lambda>e. PbID (CeProblem e)) ` set fs = {}"
  proof (rule equals0I)
    fix i assume "i \<in> (\<lambda>e. PbID (CeProblem e)) ` set es \<inter> (\<lambda>e. PbID (CeProblem e)) ` set fs"
    then obtain f where "f \<in> set fs" "PbID (CeProblem f) = i" "i \<in> (\<lambda>e. PbID (CeProblem e)) ` set es" by auto
    then show False using apart(2) [of f] by blast
  qed
  then show ?thesis
    using assms apart(1) unfolding entries_added_def by (auto simp del: disjoint_iff dest: kept)
qed

lemma publish_loop_added:
  "tx_each (publish_entry env generation) es d = Inr (x, d') \<Longrightarrow> entries_added env (int64 generation) es d d'"
proof (induction es arbitrary: d)
  case (Cons e es)
  then obtain d1 where "publish_entry env generation e d = Inr ((), d1)" "tx_each (publish_entry env generation) es d1 = Inr (x, d')"
    by (auto simp: tx_Inr)
  then show ?case using entries_added_trans [OF publish_entry_added Cons.IH] by fastforce
qed (auto simp: entries_added_def tx_Inr)

definition new_row :: "catalog_head option \<Rightarrow> publication_ref \<Rightarrow> catalog_entry list \<Rightarrow> publication_row" where
  "new_row expected ref entries =
     \<lparr> PwGeneration = int64 (next_generation expected), PwPrevious = map_option (\<lambda>head. int64 (ChGeneration head)) expected,
       PwSchema = sint (PrDigestSchema ref), PwDigest = PrCandidateDigest ref, PwCount = int (length entries) \<rparr>"

text \<open>What a publication transaction has done when it reaches its commit.\<close>

lemma publish_tx_Inr:
  assumes "publish_tx env expected ref entries d = Inr (h, d')"
  obtains d1 where "Head d = Inr expected" and "FindPublication d ref = Inr None"
    and "h = \<lparr> ChGeneration = next_generation expected, ChRef = ref, ChEntryCount = length entries \<rparr>"
    and "extends_head d (int64 (next_generation expected)) (PwPrevious (new_row expected ref entries))"
    and "0 < sint (PrDigestSchema ref)" and "length (PrCandidateDigest ref) = 32" and "entries \<noteq> []"
    and "row_key (new_row expected ref entries) \<notin> row_key ` set (LgPublications d)"
    and "LgPublications d1 = LgPublications d @ [new_row expected ref entries]" and "LgEntries d1 = LgEntries d"
    and "LgArtifacts d1 = LgArtifacts d"
    and "entries_added env (int64 (next_generation expected)) entries d1 (d' \<lparr> LgHead := LgHead d1 \<rparr>)"
    and "LgHead d' = Some (int64 (next_generation expected))"
proof -
  let ?g = "int64 (next_generation expected)" and ?row = "new_row expected ref entries"
  from assms obtain d1 d2 d3 where
      head: "Head d = Inr expected" and free: "FindPublication d ref = Inr None"
    and h: "h = \<lparr> ChGeneration = next_generation expected, ChRef = ref, ChEntryCount = length entries \<rparr>"
    and ins: "insert_publication ?row d = Inr ((), d1)" and de: "deactivate_problems env d1 = Inr ((), d2)"
    and loop: "tx_each (publish_entry env (next_generation expected)) entries d2 = Inr ((), d3)"
    and move: "(case expected of None \<Rightarrow> insert_head ?g | Some head \<Rightarrow>
             tx_bind (execCatalogHeadCAS (int64 (ChGeneration head)) ?g) (\<lambda>rows. tx_guard (rows = 1) ErrCatalogHeadConflict)) d3
           = Inr ((), d')"
    unfolding publish_tx_def Let_def lockCatalogHead_def findPublicationTx_def new_row_def [symmetric]
    by (auto simp: tx_Inr Head_def FindPublication_def sameCatalogHead_def)
  from ins have row: "extends_head d ?g (PwPrevious ?row)" "0 < sint (PrDigestSchema ref)" "length (PrCandidateDigest ref) = 32"
      "entries \<noteq> []" "row_key ?row \<notin> row_key ` set (LgPublications d)" "d1 = d \<lparr> LgPublications := LgPublications d @ [?row] \<rparr>"
    by (auto simp: insert_publication_def tx_Inr sql_check_def new_row_def row_key_def list_ex_iff)
  from move have d': "d' = d3 \<lparr> LgHead := Some ?g \<rparr>"
    by (cases expected) (auto simp: insert_head_def execCatalogHeadCAS_def tx_Inr sql_check_def split: if_splits)
  have log: "LgPublications d2 = LgPublications d1" "LgEntries d2 = LgEntries d1" "LgArtifacts d2 = LgArtifacts d1" "LgHead d2 = LgHead d1"
    using de by (auto simp: deactivate_problems_def tx_Inr)
  have "entries_added env ?g entries d1 (d' \<lparr> LgHead := LgHead d1 \<rparr>)"
    using publish_loop_added [OF loop] log unfolding d' by (simp add: entries_added_def entries_at_def binding_of_def)
  then show thesis
    using that [OF head free h row(1-5), of d1] row(6) d' by simp
qed

lemma chained_generation: "chained d \<Longrightarrow> p \<in> set (LgPublications d) \<Longrightarrow> 1 \<le> PwGeneration p \<and> PwGeneration p \<le> int (length (LgPublications d))"
proof -
  assume "chained d" and "p \<in> set (LgPublications d)"
  then have "PwGeneration p \<in> set (map int [1..<Suc (length (LgPublications d))])" by (metis chained_def image_eqI list.set_map)
  then show ?thesis by auto
qed

lemma chained_next: "chained d \<Longrightarrow> extends_head d g previous \<Longrightarrow> g = int (length (LgPublications d)) + 1"
  by (auto simp: chained_def extends_head_def split: if_splits)

lemma sint_schema: "sint (s :: 16 word) < 2 ^ 15"
  using sint_lt [of s] by simp

lemma schema_back: "0 \<le> i \<Longrightarrow> i < 2 ^ 15 \<Longrightarrow> sint (word_of_int i :: 16 word) = i"
  by (simp add: sint_uint uint_word_of_int take_bit_int_eq_self signed_take_bit_int_eq_self)

lemma int64_bounds: "int64 g < 2 ^ 63"
  using sint_lt [of g] by (simp add: int64_def)

definition log_entry :: "ledger_env \<Rightarrow> publication_ref \<Rightarrow> catalog_entry list \<Rightarrow> published" where
  "log_entry env ref entries = (ref, length entries, map (\<lambda>e. EwProblem (entry_row_of env 0 (CeProblem e))) entries)"

lemma publish_tx_appends:
  assumes wf: "ledger_wf d" and run: "publish_tx env expected ref entries d = Inr (h, d')"
  shows "ledger_wf d'" and "abs_ledger d' = abs_ledger d @ [log_entry env ref entries]"
    and "int64 (next_generation expected) = int (length (LgPublications d)) + 1"
    and "entries_at (int64 (next_generation expected)) d' = map (\<lambda>e. entry_row_of env (int64 (next_generation expected)) (CeProblem e)) entries"
    and "grows d d'"
proof -
  let ?g = "int64 (next_generation expected)" and ?new = "new_row expected ref entries" and ?n = "length (LgPublications d)"
  obtain d1 where ext: "extends_head d ?g (PwPrevious ?new)" and row: "0 < sint (PrDigestSchema ref)" "length (PrCandidateDigest ref) = 32"
      "entries \<noteq> []" "row_key ?new \<notin> row_key ` set (LgPublications d)"
    and d1: "LgPublications d1 = LgPublications d @ [?new]" "LgEntries d1 = LgEntries d" "LgArtifacts d1 = LgArtifacts d"
    and added: "entries_added env ?g entries d1 (d' \<lparr> LgHead := LgHead d1 \<rparr>)" and head: "LgHead d' = Some ?g"
    using run by (rule publish_tx_Inr) blast
  have w: "chained d" "\<forall>p \<in> set (LgPublications d). row_ok d p" "distinct (map row_key (LgPublications d))"
      "\<forall>e \<in> set (LgEntries d). EwGeneration e \<le> int ?n" "distinct (map (\<lambda>e. (EwGeneration e, PbID (EwProblem e))) (LgEntries d))"
      "bindings_ok (LgArtifacts d)"
    using wf by (simp_all add: ledger_wf_def)
  show g: "?g = int ?n + 1" by (rule chained_next [OF w(1) ext])
  have pubs: "LgPublications d' = LgPublications d @ [?new]"
    and es: "LgEntries d' = LgEntries d @ map (\<lambda>e. entry_row_of env ?g (CeProblem e)) entries"
    and ids: "distinct (map (\<lambda>e. PbID (CeProblem e)) entries)"
    and arts: "bindings_ok (LgArtifacts d')" "\<exists>as. LgArtifacts d' = LgArtifacts d @ as"
    using added d1 w(6) by (auto simp: entries_added_def)
  show "grows d d'" using pubs es arts(2) by (auto simp: grows_def)
  have none: "entries_at ?g d = []" using w(4) g by (auto simp: entries_at_def filter_empty_conv)
  show new_at: "entries_at ?g d' = map (\<lambda>e. entry_row_of env ?g (CeProblem e)) entries"
    using none entries_at_append [OF es, of ?g] by (simp add: filter_map o_def)
  have old_at: "entries_at (PwGeneration p) d' = entries_at (PwGeneration p) d" if "p \<in> set (LgPublications d)" for p
    using entries_at_append [OF es, of "PwGeneration p"] chained_generation [OF w(1) that] g by (simp add: filter_empty_conv)
  have new_row: "row_ok d' ?new" "PwGeneration ?new = ?g"
    using row new_at sint_schema [of "PrDigestSchema ref"] int64_bounds by (simp_all add: row_ok_def new_row_def)
  have "chained d'" using w(1) head g new_row(2) pubs by (simp add: chained_def)
  moreover have "row_ok d' p" if "p \<in> set (LgPublications d)" for p
    using w(2) that old_at [OF that] by (simp add: row_ok_def)
  moreover have "distinct (map (\<lambda>e. (EwGeneration e, PbID (EwProblem e))) (LgEntries d'))"
  proof -
    have "distinct (map (\<lambda>e. (?g, PbID (CeProblem e))) entries)" using ids by (auto simp: distinct_map inj_on_def)
    then show ?thesis using w(4,5) g by (force simp: es o_def)
  qed
  ultimately show "ledger_wf d'"
    using w(3,4) row(4) new_row(1) arts(1) g pubs es by (auto simp: ledger_wf_def)
  have "row_ref ?new = ref" "nat (PwCount ?new) = length entries" by (simp_all add: row_ref_def new_row_def)
  then show "abs_ledger d' = abs_ledger d @ [log_entry env ref entries]"
    using old_at new_at new_row(2) by (simp add: abs_ledger_def pubs log_entry_def entry_row_of_def o_def cong: map_cong)
qed

section \<open>Every writer\<close>

datatype ledger_op =
    OpPublish ledger_env commit_fate "catalog_head option" publication_ref "catalog_entry list"
  | OpBind commit_fate catalog_head "catalog_entry list"
  | OpUpsert ledger_env commit_fate problem
  | OpDelete ledger_env commit_fate string
  | OpReplace ledger_env commit_fate "problem list"

fun ledger_exec :: "ledger_op \<Rightarrow> ledger \<Rightarrow> ledger" where
  "ledger_exec (OpPublish env fate expected ref entries) d = snd (Publish env fate expected ref entries d)"
| "ledger_exec (OpBind fate expected entries) d = snd (BindLegacyArtifacts fate expected entries d)"
| "ledger_exec (OpUpsert env fate p) d = snd (Upsert env fate p d)"
| "ledger_exec (OpDelete env fate i) d = snd (Delete env fate i d)"
| "ledger_exec (OpReplace env fate ps) d = snd (ReplaceActiveCatalog env fate ps d)"

definition ledger_execs :: "ledger_op list \<Rightarrow> ledger \<Rightarrow> ledger" where
  "ledger_execs ops d = fold ledger_exec ops d"

lemma run_ledger_cases:
  assumes "run_ledger fate deferred m d = (r, d')"
  obtains "d' = d" and "\<And>x. r \<noteq> Inr x" | x where "m d = Inr (x, d')" and "deferred d'" and "r = Inr x \<or> r = Inl ErrCatalogCommitUnknown"
  using assms by (auto simp: run_ledger_def split: sum.splits commit_fate.splits if_splits prod.splits)

lemma run_plain_cases:
  assumes "run_plain fate m d = (r, d')"
  obtains "d' = d" | x where "m d = Inr (x, d')"
  using assms by (auto simp: run_plain_def split: sum.splits commit_fate.splits if_splits prod.splits)

lemma bind_tx_quiet: "tx_rel same_log (bind_tx expected entries)"
  unfolding bind_tx_def lockCatalogHead_def
  by (intro quiet.rel_intros insertArtifactBinding_quiet)

lemma same_log_abs: "same_log d d' \<Longrightarrow> abs_ledger d' = abs_ledger d"
  by (simp add: same_log_def abs_ledger_def entries_at_def)

lemma same_log_wf: "same_log d d' \<Longrightarrow> ledger_wf d \<Longrightarrow> ledger_wf d'"
  by (auto simp: same_log_def ledger_wf_def chained_def row_ok_def entries_at_def)

lemma same_log_grows: "same_log d d' \<Longrightarrow> grows d d'"
  by (auto simp: same_log_def grows_def)

lemma run_ledger_quiet:
  assumes "tx_rel same_log m" shows "same_log d (snd (run_ledger fate deferred m d))"
proof -
  obtain r d' where r: "run_ledger fate deferred m d = (r, d')" by (cases "run_ledger fate deferred m d")
  then show ?thesis by (rule run_ledger_cases) (auto simp: r quiet.refl_step dest: tx_relD [OF assms])
qed

lemma run_plain_quiet:
  assumes "tx_rel same_log m" shows "same_log d (snd (run_plain fate m d))"
proof -
  obtain r d' where r: "run_plain fate m d = (r, d')" by (cases "run_plain fate m d")
  then show ?thesis by (rule run_plain_cases) (auto simp: r quiet.refl_step dest: tx_relD [OF assms])
qed

text \<open>Everything but a publication leaves the log as it is.\<close>

lemma other_writers_quiet:
  "same_log d (snd (BindLegacyArtifacts fate expected entries d))" "same_log d (snd (Upsert env fate p d))"
  "same_log d (snd (Delete env fate i d))" "same_log d (snd (ReplaceActiveCatalog env fate ps d))"
proof -
  show "same_log d (snd (BindLegacyArtifacts fate expected entries d))"
    by (auto simp: BindLegacyArtifacts_def quiet.refl_step intro: run_ledger_quiet bind_tx_quiet)
  show "same_log d (snd (Upsert env fate p d))" "same_log d (snd (Delete env fate i d))"
    unfolding Upsert_def Delete_def
    by (intro run_plain_quiet quiet.rel_intros quiet_check quiet.rel_modify; simp add: same_log_def)+
  show "same_log d (snd (ReplaceActiveCatalog env fate ps d))"
    unfolding ReplaceActiveCatalog_def
    by (intro run_ledger_quiet quiet.rel_intros quiet_check deactivate_quiet upsert_quiet)
qed

section \<open>The head and the publications\<close>

lemma publication_at_nth:
  assumes "chained d" and "i < length (LgPublications d)"
  shows "publication_at (int i + 1) d = Some (LgPublications d ! i)"
proof -
  have gen: "PwGeneration (LgPublications d ! j) = int j + 1" if "j < length (LgPublications d)" for j
  proof -
    have "map PwGeneration (LgPublications d) ! j = map int [1..<Suc (length (LgPublications d))] ! j"
      using assms(1) by (simp add: chained_def)
    then show ?thesis using that by (simp del: upt_Suc)
  qed
  show ?thesis
    using assms(2) gen unfolding publication_at_def find_Some_iff by (intro exI [of _ i]) auto
qed

lemma scan_row_ok:
  assumes "row_ok d p" and "1 \<le> PwGeneration p"
  shows "scanCatalogHead (Some p) =
    Inr (Some \<lparr> ChGeneration = uint64 (PwGeneration p), ChRef = row_ref p, ChEntryCount = nat (PwCount p) \<rparr>)"
  using assms by (auto simp: scanCatalogHead_def row_ok_def row_ref_def)

lemma abs_ledger_nth:
  "i < length (LgPublications d) \<Longrightarrow> abs_ledger d ! i =
     (row_ref (LgPublications d ! i), nat (PwCount (LgPublications d ! i)),
      map EwProblem (entries_at (PwGeneration (LgPublications d ! i)) d))"
  by (simp add: abs_ledger_def)

lemma length_abs_ledger [simp]: "length (abs_ledger d) = length (LgPublications d)"
  by (simp add: abs_ledger_def)

text \<open>The head of a log: its last publication, numbered by its position.\<close>

definition log_head :: "published list \<Rightarrow> catalog_head option" where
  "log_head h =
     (if h = [] then None
      else Some \<lparr> ChGeneration = uint64 (int (length h)), ChRef = fst (last h), ChEntryCount = fst (snd (last h)) \<rparr>)"

lemma last_row:
  assumes "ledger_wf d" and "LgPublications d \<noteq> []"
  shows "publication_at (int (length (LgPublications d))) d = Some (last (LgPublications d))"
    and "row_ok d (last (LgPublications d))" and "PwGeneration (last (LgPublications d)) = int (length (LgPublications d))"
proof -
  have c: "chained d" using assms(1) by (simp add: ledger_wf_def)
  let ?i = "length (LgPublications d) - 1"
  have i: "?i < length (LgPublications d)" "int ?i + 1 = int (length (LgPublications d))" using assms(2) by (cases "LgPublications d"; simp)+
  show at: "publication_at (int (length (LgPublications d))) d = Some (last (LgPublications d))"
    using publication_at_nth [OF c i(1)] i(2) assms(2) by (simp add: last_conv_nth)
  show "row_ok d (last (LgPublications d))" using assms by (simp add: ledger_wf_def)
  show "PwGeneration (last (LgPublications d)) = int (length (LgPublications d))"
    using at by (auto simp: publication_at_def find_Some_iff)
qed

lemma Head_log:
  assumes "ledger_wf d" shows "Head d = Inr (log_head (abs_ledger d))"
proof (cases "LgPublications d = []")
  case True
  then show ?thesis using assms
    by (simp add: Head_def head_row_def ledger_wf_def chained_def scanCatalogHead_def log_head_def abs_ledger_def)
next
  case False
  note last = last_row [OF assms False]
  have "LgHead d = Some (int (length (LgPublications d)))" using assms False by (simp add: ledger_wf_def chained_def)
  then show ?thesis
    using scan_row_ok [OF last(2)] last False
    by (cases "LgPublications d") (simp_all add: Head_def head_row_def log_head_def abs_ledger_def last_map)
qed

lemma FindPublication_fresh:
  assumes "ledger_wf d" and "FindPublication d ref = Inr None"
  shows "ref \<notin> fst ` set (abs_ledger d)"
proof
  assume "ref \<in> fst ` set (abs_ledger d)"
  then obtain p where p: "p \<in> set (LgPublications d)" "ref = row_ref p" by (auto simp: abs_ledger_def)
  have ok: "row_ok d q" "1 \<le> PwGeneration q" if "q \<in> set (LgPublications d)" for q
    using assms(1) chained_generation [of d q] that by (simp_all add: ledger_wf_def)
  have "sint (word_of_int (PwSchema p) :: 16 word) = PwSchema p"
    using ok [OF p(1)] by (simp add: row_ok_def schema_back)
  then have "publication_by_ref ref d \<noteq> None"
    using p by (auto simp: publication_by_ref_def find_None_iff row_ref_def)
  then obtain q where q: "publication_by_ref ref d = Some q" by blast
  then have "q \<in> set (LgPublications d)" by (auto simp: publication_by_ref_def find_Some_iff)
  then show False using assms(2) q scan_row_ok [OF ok] by (simp add: FindPublication_def)
qed

section \<open>Properties of the ledger\<close>

text \<open>The abstract ledger: a log that grows by publications whose identity is new, each with distinct problems.\<close>

inductive log_step :: "published list \<Rightarrow> published list \<Rightarrow> bool" where
  idle: "log_step h h"
| append: "ref \<notin> fst ` set h \<Longrightarrow> ps \<noteq> [] \<Longrightarrow> distinct (map PbID ps) \<Longrightarrow> log_step h (h @ [(ref, length ps, ps)])"

lemma publish_tx_log_step:
  assumes "ledger_wf d" and "publish_tx env expected ref entries d = Inr (h, d')"
  shows "log_step (abs_ledger d) (abs_ledger d')"
proof -
  obtain d1 where "FindPublication d ref = Inr None" "entries \<noteq> []"
      "entries_added env (int64 (next_generation expected)) entries d1 (d' \<lparr> LgHead := LgHead d1 \<rparr>)"
    using assms(2) by (rule publish_tx_Inr) blast
  moreover from this have "distinct (map PbID (map (\<lambda>e. EwProblem (entry_row_of env 0 (CeProblem e))) entries))"
    by (simp add: entries_added_def o_def)
  ultimately show ?thesis
    using log_step.append [of ref "abs_ledger d" "map (\<lambda>e. EwProblem (entry_row_of env 0 (CeProblem e))) entries"]
      FindPublication_fresh [OF assms(1)] publish_tx_appends(2) [OF assms] by (simp add: log_entry_def)
qed

lemma Publish_cases:
  assumes "Publish env fate expected ref entries d = (r, d')"
  obtains "d' = d" and "\<And>h. r \<noteq> Inr h"
  | h where "publish_tx env expected ref entries d = Inr (h, d')" and "r = Inr h \<or> r = Inl ErrCatalogCommitUnknown"
proof (cases "PrDigestSchema ref = 0 \<or> entries = []")
  case True
  then show thesis using that(1) assms by (auto simp: Publish_def)
next
  case False
  then have "run_ledger fate (publication_complete (int64 (next_generation expected))) (publish_tx env expected ref entries) d = (r, d')"
    using assms unfolding Publish_def by (simp only: if_False)
  then show thesis by (rule run_ledger_cases) (use that in blast)+
qed

lemma ledger_exec_step:
  assumes "ledger_wf d"
  shows "ledger_wf (ledger_exec op d)" and "log_step (abs_ledger d) (abs_ledger (ledger_exec op d))" and "grows d (ledger_exec op d)"
proof -
  have quiet: "ledger_wf d' \<and> log_step (abs_ledger d) (abs_ledger d') \<and> grows d d'" if "same_log d d'" for d'
    using same_log_wf [OF that assms] same_log_abs [OF that] same_log_grows [OF that] by (simp add: log_step.idle)
  have "ledger_wf (ledger_exec op d) \<and> log_step (abs_ledger d) (abs_ledger (ledger_exec op d)) \<and> grows d (ledger_exec op d)"
  proof (cases op)
    case (OpPublish env fate expected ref entries)
    obtain r d' where p: "Publish env fate expected ref entries d = (r, d')" by (cases "Publish env fate expected ref entries d")
    then show ?thesis
      by (rule Publish_cases)
        (use OpPublish p quiet [OF quiet.refl_step] publish_tx_appends [OF assms] publish_tx_log_step [OF assms] in auto)
  qed (simp_all add: quiet other_writers_quiet)
  then show "ledger_wf (ledger_exec op d)" "log_step (abs_ledger d) (abs_ledger (ledger_exec op d))" "grows d (ledger_exec op d)"
    by simp_all
qed

lemma ledger_execs_run:
  "ledger_wf d \<Longrightarrow> ledger_wf (ledger_execs ops d) \<and> log_step\<^sup>*\<^sup>* (abs_ledger d) (abs_ledger (ledger_execs ops d)) \<and> grows d (ledger_execs ops d)"
proof (induction ops arbitrary: d)
  case (Cons op ops)
  note step = ledger_exec_step [OF Cons.prems, of op]
  from Cons.IH [OF step(1)] step show ?case
    unfolding ledger_execs_def by (simp add: converse_rtranclp_into_rtranclp) (meson growing.trans_step)
qed (simp add: ledger_execs_def growing.refl_step)

text \<open>
  C7. The database refines an append-only log: from a ledger in good order, whatever publications, legacy bindings,
  edits and deletions any number of writers run, and whatever becomes of their commits, the ledger stays in good order
  and its publications change only by log steps: a new one is appended when its identity was never published, and
  nothing else changes. The persisted head is at all times the last publication, numbered by its position.
\<close>

theorem ledger_refines_log:
  assumes "ledger_wf d"
  shows "log_step\<^sup>*\<^sup>* (abs_ledger d) (abs_ledger (ledger_execs ops d)) \<and> ledger_wf (ledger_execs ops d) \<and>
    Head (ledger_execs ops d) = Inr (log_head (abs_ledger (ledger_execs ops d)))"
  using ledger_execs_run [OF assms] Head_log by blast

lemma sort_key_map: "sort_key f (map h xs) = map h (sort_key (\<lambda>x. f (h x)) xs)"
proof (induction xs)
  case (Cons x xs)
  have "insort_key f (h y) (map h ys) = map h (insort_key (\<lambda>x. f (h x)) y ys)" for y ys by (induction ys) auto
  then show ?case using Cons by (simp add: sort_key_simps)
qed simp

text \<open>An entry as it is read back: its projection has gone through the JSON column and carries the server's time.\<close>

definition stored_entry :: "ledger_env \<Rightarrow> catalog_entry \<Rightarrow> catalog_entry" where
  "stored_entry env e =
     e \<lparr> CeProblem := (CeProblem e) \<lparr> PbCatalogActive := True, PbChoices := EvJsonb env (PbChoices (CeProblem e)),
          PbCreatedAt := EvNow env, PbUpdatedAt := EvNow env \<rparr> \<rparr>"

lemma scan_entry_bound:
  assumes "binding_of (PbID (CeProblem e)) (PbRevision (CeProblem e)) d = Some (binding_row e)"
    and "validateArtifactRef (CeArtifact e)" and "CeSourceTrust e = BundleSourceDevelopmentCheckout" and "bindings_ok (LgArtifacts d)"
  shows "scan_entry d (entry_row_of env g (CeProblem e)) = Inr (stored_entry env e)"
proof -
  have "length (ArDigest (CeArtifact e)) = 32"
    using assms(1,4) by (auto simp: binding_of_def bindings_ok_def binding_row_def dest!: find_SomeD)
  then show ?thesis
    using assms(1-3)
    by (simp add: scan_entry_def binding_row_def Let_def validateArtifactRef_def ArtifactDigestSchemaV1_def stored_entry_def entry_row_of_def
        RuntimeArtifactMediaTypeV1_def BundleSourceDevelopmentCheckout_def)
qed

lemma scanCatalogEntries_map:
  "(\<And>x. x \<in> set xs \<Longrightarrow> scan_entry d (f x) = Inr (h x)) \<Longrightarrow> scanCatalogEntries d (map f xs) = Inr (map h xs)"
  by (induction xs) simp_all

lemma scanCatalogEntries_length: "scanCatalogEntries d es = Inr xs \<Longrightarrow> length xs = length es"
  by (induction es arbitrary: xs) (auto split: sum.splits)

definition published_entries :: "ledger_env \<Rightarrow> catalog_entry list \<Rightarrow> catalog_entry list" where
  "published_entries env entries = map (stored_entry env) (sort_key (\<lambda>e. PbID (CeProblem e)) entries)"

lemma publish_tx_readable:
  assumes wf: "ledger_wf d" and run: "publish_tx env expected ref entries d = Inr (h, d')"
  shows "h = \<lparr> ChGeneration = next_generation expected, ChRef = ref, ChEntryCount = length entries \<rparr>"
    and "Head d = Inr expected" and "Head d' = Inr (Some h)"
    and "ReadPublication d' (next_generation expected) = Inr (h, published_entries env entries)"
proof -
  let ?g = "next_generation expected"
  obtain d1 where "Head d = Inr expected" and h: "h = \<lparr> ChGeneration = ?g, ChRef = ref, ChEntryCount = length entries \<rparr>"
    and added: "entries_added env (int64 ?g) entries d1 (d' \<lparr> LgHead := LgHead d1 \<rparr>)"
    using run by (rule publish_tx_Inr) blast
  then show "Head d = Inr expected" "h = \<lparr> ChGeneration = ?g, ChRef = ref, ChEntryCount = length entries \<rparr>" by simp_all
  note app = publish_tx_appends [OF wf run]
  have n: "length (LgPublications d') = Suc (length (LgPublications d))" using arg_cong [OF app(2), of length] by simp
  have "?g = uint64 (1 + int (length (LgPublications d)))" by (metis add.commute app(3) uint64_int64)
  then have "log_head (abs_ledger d') = Some h" using h n unfolding log_head_def app(2) by (simp add: log_entry_def)
  then show head: "Head d' = Inr (Some h)" using Head_log [OF app(1)] by simp
  have arts: "bindings_ok (LgArtifacts d')" using app(1) by (simp add: ledger_wf_def)
  have "binding_of (PbID (CeProblem e)) (PbRevision (CeProblem e)) d' = Some (binding_row e)" "validateArtifactRef (CeArtifact e)"
      "CeSourceTrust e = BundleSourceDevelopmentCheckout" if "e \<in> set entries" for e
    using added that by (auto simp: entries_added_def binding_of_def)
  then have "scanCatalogEntries d' (ordered_entries (int64 ?g) d') = Inr (published_entries env entries)"
    using arts unfolding ordered_entries_def app(4) sort_key_map published_entries_def entry_row_of_simps
    by (intro scanCatalogEntries_map) (simp add: scan_entry_bound)
  moreover have "read_head d' ?g = Inr h"
  proof -
    have "LgHead d' = Some (int64 ?g)" using app(1,3) n by (auto simp: ledger_wf_def chained_def)
    moreover have "?g \<noteq> 0" using app(3) by auto
    ultimately show ?thesis using head by (simp add: read_head_def Head_def head_row_def)
  qed
  ultimately show "ReadPublication d' ?g = Inr (h, published_entries env entries)"
    by (simp add: ReadPublication_def h published_entries_def)
qed

text \<open>
  C8. What is published is what is read: when \<open>Publish\<close> returns a head, the ledger had exactly the expected head, the returned
  head is now the persisted one, and reading that generation gives back every entry with its artifact, ordered by
  identifier. An ambiguous commit either did nothing or did exactly that, and any other error changed nothing at all.
\<close>

theorem publish_then_read:
  assumes "ledger_wf d" and "Publish env fate expected ref entries d = (r, d')"
    and "target = \<lparr> ChGeneration = next_generation expected, ChRef = ref, ChEntryCount = length entries \<rparr>"
    and "effect = (Head d = Inr expected \<and> Head d' = Inr (Some target) \<and>
      ReadPublication d' (ChGeneration target) = Inr (target, published_entries env entries))"
  shows "case r of
      Inr h \<Rightarrow> h = target \<and> effect
    | Inl e \<Rightarrow> if e = ErrCatalogCommitUnknown then d' = d \<or> effect else d' = d"
  using assms(2)
proof (rule Publish_cases)
  assume "d' = d" and "\<And>h. r \<noteq> Inr h"
  then obtain e where "r = Inl e" by (metis sum.exhaust)
  then show ?thesis using \<open>d' = d\<close> by simp
next
  fix h assume run: "publish_tx env expected ref entries d = Inr (h, d')" and r: "r = Inr h \<or> r = Inl ErrCatalogCommitUnknown"
  note pub = publish_tx_readable [OF assms(1) run]
  from r pub assms(3,4) show ?thesis by auto
qed

text \<open>
  C19. A publication is immutable: once a generation of a ledger in good order has been read, every later read of
  it gives the same head, entries and artifacts, whatever the writers did in between.
\<close>

theorem published_is_immutable:
  assumes wf: "ledger_wf d" and read: "ReadPublication d g = Inr publication"
  shows "ReadPublication (ledger_execs ops d) g = Inr publication"
proof -
  let ?d = "ledger_execs ops d"
  have grown: "grows d ?d" and wf': "ledger_wf ?d" using ledger_execs_run [OF wf] by auto
  from read obtain head es where h: "read_head d g = Inr head" and s: "scanCatalogEntries d (ordered_entries (int64 g) d) = Inr es"
      and out: "publication = (head, es)" "length es = ChEntryCount head"
    by (auto simp: ReadPublication_def split: sum.splits if_splits)
  from h obtain p where p: "publication_at (int64 g) d = Some p" and g: "g \<noteq> 0"
    by (auto simp: read_head_def scanCatalogHead_def split: if_splits sum.splits option.splits)
  have p': "publication_at (int64 g) ?d = Some p" using p grown by (auto simp: publication_at_def grows_def find_mono)
  have at: "entries_at (int64 g) ?d = entries_at (int64 g) d"
  proof -
    have "row_ok d p" "row_ok ?d p" "PwGeneration p = int64 g"
      using p p' wf wf' by (auto simp: ledger_wf_def publication_at_def dest!: find_SomeD)
    then have "length (entries_at (int64 g) ?d) = length (entries_at (int64 g) d)" by (simp add: row_ok_def)
    then show ?thesis using grown by (auto simp: grows_def entries_at_def)
  qed
  have scan: "scan_entry ?d e = Inr x" if "scan_entry d e = Inr x" for e x
    using that grown by (auto simp: scan_entry_def dest: binding_of_mono split: option.splits)
  have "scanCatalogEntries ?d es' = Inr xs" if "scanCatalogEntries d es' = Inr xs" for es' xs
    using that by (induction es' arbitrary: xs) (auto dest: scan split: sum.splits)
  then have "scanCatalogEntries ?d (ordered_entries (int64 g) ?d) = Inr es" using s at by (simp add: ordered_entries_def)
  moreover have "read_head ?d g = Inr head" using h p p' g by (simp add: read_head_def)
  ultimately show ?thesis using out by (simp add: ReadPublication_def)
qed

section \<open>A first publication\<close>

definition demo_env :: ledger_env where
  "demo_env = \<lparr> EvAccepts = (\<lambda>_. True), EvJsonb = id, EvNow = zero_time, EvLegacyActive = 0, EvReferenced = (\<lambda>_. False) \<rparr>"

definition demo_entry :: catalog_entry where
  "demo_entry =
     \<lparr> CeProblem =
         \<lparr> PbID = ''pod-basics'', PbRevision = replicate 64 (CHR ''a''), PbCatalogActive = False, PbTitle = ''t'', PbDescription = [],
           PbCategory = ''pod'', PbDifficulty = ''easy'', PbType = ''fix'', PbTimeoutMinutes = 5, PbVerifyType = ''text'',
           PbBaseImage = [], PbImage = [], PbChoices = None, PbCorrectChoice = [], PbHint = [], PbGradingPrompt = [],
           PbCreatedAt = zero_time, PbUpdatedAt = zero_time \<rparr>,
       CeArtifact = \<lparr> ArDigestSchema = 1, ArDigest = replicate 32 7, ArMediaType = RuntimeArtifactMediaTypeV1, ArSize = 10 \<rparr>,
       CeSourceTrust = BundleSourceDevelopmentCheckout \<rparr>"

definition demo_ref :: publication_ref where
  "demo_ref = \<lparr> PrDigestSchema = 2, PrCandidateDigest = replicate 32 9 \<rparr>"

definition demo_publish :: ledger_op where
  "demo_publish = OpPublish demo_env CommitOk None demo_ref [demo_entry]"

lemma demo_publish_runs:
  "\<exists>d. Publish demo_env CommitOk None demo_ref [demo_entry] ledger_init =
     (Inr \<lparr> ChGeneration = 1, ChRef = demo_ref, ChEntryCount = 1 \<rparr>, d)"
  by (simp add: Publish_def run_ledger_def publish_tx_def Let_def next_generation_def tx_defs lockCatalogHead_def head_row_def
      scanCatalogHead_def sameCatalogHead_def findPublicationTx_def publication_by_ref_def insert_publication_def sql_check_def
      extends_head_def publication_at_def deactivate_problems_def publish_entry_def upsertCatalogProblem_def
      insertArtifactBinding_def insert_binding_def binding_row_def binding_of_def insertCatalogEntry_def entries_at_def
      insert_head_def head_guard_def publication_complete_def entry_row_of_def revision_text_def demo_env_def demo_entry_def
      demo_ref_def ledger_init_def validateArtifactRef_def ArtifactDigestSchemaV1_def RuntimeArtifactMediaTypeV1_def limit_defs
      BundleSourceDevelopmentCheckout_def is_lower_hex_def is_digit_def int64_def list_all_iff less_eq_char_def)

theorem ledger_refines_log_witness:
  "log_step\<^sup>*\<^sup>* [] (abs_ledger (ledger_execs [demo_publish] ledger_init)) \<and>
   Head (ledger_execs [demo_publish] ledger_init) = Inr (log_head (abs_ledger (ledger_execs [demo_publish] ledger_init)))"
  using ledger_refines_log [OF ledger_init_wf, of "[demo_publish]"] by (simp add: ledger_init_def abs_ledger_def)

theorem publish_then_read_witness:
  "\<exists>d. Publish demo_env CommitOk None demo_ref [demo_entry] ledger_init =
       (Inr \<lparr> ChGeneration = 1, ChRef = demo_ref, ChEntryCount = 1 \<rparr>, d) \<and>
     ReadPublication d 1 = Inr (\<lparr> ChGeneration = 1, ChRef = demo_ref, ChEntryCount = 1 \<rparr>, [stored_entry demo_env demo_entry])"
proof -
  obtain d where d: "Publish demo_env CommitOk None demo_ref [demo_entry] ledger_init =
      (Inr \<lparr> ChGeneration = 1, ChRef = demo_ref, ChEntryCount = 1 \<rparr>, d)"
    using demo_publish_runs by blast
  from publish_then_read [OF ledger_init_wf d refl refl] d show ?thesis
    by (auto simp: next_generation_def published_entries_def)
qed

theorem published_is_immutable_witness:
  "\<exists>d publication. ReadPublication d 1 = Inr publication \<and> ReadPublication (ledger_execs [demo_publish, OpDelete demo_env CommitOk ''pod-basics''] d) 1 = Inr publication"
proof -
  obtain d where d: "Publish demo_env CommitOk None demo_ref [demo_entry] ledger_init =
      (Inr \<lparr> ChGeneration = 1, ChRef = demo_ref, ChEntryCount = 1 \<rparr>, d)"
    using demo_publish_runs by blast
  from d obtain h where run: "publish_tx demo_env None demo_ref [demo_entry] ledger_init = Inr (h, d)"
    by (rule Publish_cases) auto
  note wf = publish_tx_appends(1) [OF ledger_init_wf run] and read = publish_tx_readable(4) [OF ledger_init_wf run]
  then have "ReadPublication d 1 = Inr (h, published_entries demo_env [demo_entry])" by (simp add: next_generation_def)
  with published_is_immutable [OF wf this] show ?thesis by blast
qed

end
