(* ===== verification/Effect_Conditions.thy ===== *)
theory Effect_Conditions
  imports Effects
begin

text \<open>
  Weakest preconditions of actions: what must hold of a world for an action to return there, with a result and a world that
  satisfy a condition. The rules are equations, so that the simplifier computes the condition of a composed action from
  those of its calls.
\<close>

named_theorems wp_simps "equations for the condition of an action"

definition io_wp :: "('w, 'e, 'a) io \<Rightarrow> ('e + 'a \<Rightarrow> 'w \<Rightarrow> bool) \<Rightarrow> 'w \<Rightarrow> bool" where
  "io_wp m Q w \<longleftrightarrow> (case m w of None \<Rightarrow> False | Some (r, w') \<Rightarrow> Q r w')"

lemma io_wpD: "io_wp m Q w \<Longrightarrow> m w = Some (r, w') \<Longrightarrow> Q r w'"
  by (simp add: io_wp_def)

lemma io_wp_returns: "io_wp m Q w \<Longrightarrow> \<exists>r w'. m w = Some (r, w') \<and> Q r w'"
  by (auto simp: io_wp_def split: option.splits)

lemma io_wpI: "io_total m \<Longrightarrow> (\<And>r w'. m w = Some (r, w') \<Longrightarrow> Q r w') \<Longrightarrow> io_wp m Q w"
  by (auto simp: io_wp_def io_total_def split: option.split)

lemma wp_mono: "io_wp m Q w \<Longrightarrow> (\<And>r w'. Q r w' \<Longrightarrow> Q' r w') \<Longrightarrow> io_wp m Q' w"
  by (auto simp: io_wp_def split: option.splits)

lemma wp_conj: "io_wp m Q w \<Longrightarrow> (\<And>r w'. m w = Some (r, w') \<Longrightarrow> R r w') \<Longrightarrow> io_wp m (\<lambda>r w'. Q r w' \<and> R r w') w"
  by (auto simp: io_wp_def split: option.splits)

lemma wp_return [wp_simps]: "io_wp (io_return a) Q w = Q (Inr a) w"
  by (simp add: io_wp_def io_return_def)

lemma wp_throw [wp_simps]: "io_wp (io_throw e) Q w = Q (Inl e) w"
  by (simp add: io_wp_def io_throw_def)

lemma wp_require [wp_simps]: "io_wp (io_require b e) Q w = (if b then Q (Inr ()) w else Q (Inl e) w)"
  by (simp add: io_require_def wp_return wp_throw)

lemma wp_bind [wp_simps]: "io_wp (io_bind m k) Q w = io_wp m (\<lambda>r. case r of Inl e \<Rightarrow> Q (Inl e) | Inr a \<Rightarrow> io_wp (k a) Q) w"
  by (auto simp: io_wp_def io_bind_def split: option.splits sum.splits prod.splits)

lemma wp_try [wp_simps]: "io_wp (io_try m k) Q w = io_wp m (\<lambda>r. io_wp (k r) Q) w"
  by (auto simp: io_wp_def io_try_def split: option.splits prod.splits)

lemma wp_defer [wp_simps]: "io_wp (io_defer c m) Q w = io_wp m (\<lambda>r w. Q r (c w)) w"
  by (auto simp: io_wp_def io_defer_def split: option.splits prod.splits)

lemma wp_cleanup [wp_simps]:
  "io_wp (io_cleanup c m) Q w = io_wp m (\<lambda>r w. case r of Inl e \<Rightarrow> Q (Inl e) (c w) | Inr a \<Rightarrow> Q (Inr a) w) w"
  by (auto simp: io_wp_def io_cleanup_def split: option.splits sum.splits prod.splits)

lemma wp_bindI:
  "io_wp m (\<lambda>r w. case r of Inl e \<Rightarrow> Q (Inl e) w | Inr a \<Rightarrow> io_wp (k a) Q w) w \<Longrightarrow> io_wp (io_bind m k) Q w"
  unfolding wp_bind by (erule wp_mono) (auto split: sum.splits)

end
