(* ===== verification/Catalog_Repository.thy ===== *)
theory Catalog_Repository
  imports Catalog_Sync Catalog_Ledger_Laws Effect_Conditions
begin

text \<open>
  The interface between the coordinator and the ledger. \<open>publication_ledger\<close> states what the coordinator relies on: under a lease
  a call reads or changes the ledger as \<open>Catalog_Ledger\<close> says, or fails; taking a lease, other writers may have run.
  The database that provides it answers from a list of events: for every call whether it fails, what other writers
  did before it, and what becomes of its commit. Once the list is used up, the database works.
\<close>

section \<open>The database\<close>

record pg_event =
  PgOthers :: "ledger_op list"
  PgFault :: "catalog_error option"
  PgEnv :: ledger_env
  PgFate :: commit_fate

record pg =
  PgLedger :: ledger
  PgEvents :: "pg_event list"

definition calm :: pg_event where
  "calm =
     \<lparr> PgOthers = [], PgFault = None,
       PgEnv = \<lparr> EvAccepts = (\<lambda>_. True), EvJsonb = id, EvNow = zero_time, EvLegacyActive = 0, EvReferenced = (\<lambda>_. False) \<rparr>,
       PgFate = CommitOk \<rparr>"

definition event_of :: "pg \<Rightarrow> pg_event" where
  "event_of w = (case PgEvents w of [] \<Rightarrow> calm | e # _ \<Rightarrow> e)"

text \<open>A call under a lease, and one that other writers may precede.\<close>

definition pg_call :: "(pg_event \<Rightarrow> ledger \<Rightarrow> (catalog_error + 'a) \<times> ledger) \<Rightarrow> (pg, 'a) repo_call" where
  "pg_call f w =
     (case PgFault (event_of w) of
        Some e \<Rightarrow> (Inl e, w \<lparr> PgEvents := tl (PgEvents w) \<rparr>)
      | None \<Rightarrow> (case f (event_of w) (PgLedger w) of (r, d) \<Rightarrow> (r, w \<lparr> PgLedger := d, PgEvents := tl (PgEvents w) \<rparr>)))"

definition pg_shared :: "(ledger \<Rightarrow> catalog_error + 'a) \<Rightarrow> (pg, 'a) repo_call" where
  "pg_shared f w = pg_call (\<lambda>_ d. (f d, d)) (w \<lparr> PgLedger := ledger_execs (PgOthers (event_of w)) (PgLedger w) \<rparr>)"

definition pg_repo :: "pg catalog_repo" where
  "pg_repo =
     \<lparr> RpSyncGate = pg_call (\<lambda>_ d. (Inr (), d)), RpAdmissionGate = (\<lambda>_. pg_call (\<lambda>_ d. (Inr (), d))),
       RpAcquireCatalogPublicationLease = pg_shared (\<lambda>_. Inr 0),
       RpHead = (\<lambda>_. pg_call (\<lambda>_ d. (Head d, d))),
       RpReadPublication = (\<lambda>_ g. pg_call (\<lambda>_ d. (ReadPublication d g, d))),
       RpReadLegacyPublication = (\<lambda>_ g. pg_call (\<lambda>_ d. (ReadLegacyPublication d g, d))),
       RpBindLegacyArtifacts = (\<lambda>_ h es. pg_call (\<lambda>ev. BindLegacyArtifacts (PgFate ev) h es)),
       RpFindPublication = (\<lambda>_ ref. pg_call (\<lambda>_ d. (FindPublication d ref, d))),
       RpPublish = (\<lambda>_ expected ref es. pg_call (\<lambda>ev. Publish (PgEnv ev) (PgFate ev) expected ref es)),
       RpClose = (\<lambda>_. pg_call (\<lambda>_ d. (Inr (), d))), RpDiscard = (\<lambda>_. pg_call (\<lambda>_ d. (Inr (), d))),
       RpFindActiveCatalogProblem = (\<lambda>i. pg_shared (\<lambda>d. FindActiveCatalogProblem d i)),
       RpFindCatalogArtifact = (\<lambda>ref. pg_shared (\<lambda>d. FindCatalogArtifact d ref)) \<rparr>"

section \<open>The interface\<close>

text \<open>A call leaves the ledger as it is, and a result is what the function reads from it.\<close>

definition reads :: "('w \<Rightarrow> ledger) \<Rightarrow> (ledger \<Rightarrow> catalog_error + 'a) \<Rightarrow> ('w, 'a) repo_call \<Rightarrow> bool" where
  "reads ledger_of f c \<longleftrightarrow>
     (\<forall>w r w'. c w = (r, w') \<longrightarrow> ledger_of w' = ledger_of w \<and> (\<forall>x. r = Inr x \<longrightarrow> f (ledger_of w) = Inr x))"

definition leaves :: "('w \<Rightarrow> ledger) \<Rightarrow> ('w, 'a) repo_call \<Rightarrow> bool" where
  "leaves ledger_of c \<longleftrightarrow> (\<forall>w. ledger_of (snd (c w)) = ledger_of w)"

text \<open>Other writers may have run: the ledger is in good order and has at most grown.\<close>

definition advanced :: "ledger \<Rightarrow> ledger \<Rightarrow> bool" where
  "advanced d d' \<longleftrightarrow> (ledger_wf d \<longrightarrow> ledger_wf d' \<and> grows d d')"

definition advances :: "('w \<Rightarrow> ledger) \<Rightarrow> ('w, 'a) repo_call \<Rightarrow> bool" where
  "advances ledger_of c \<longleftrightarrow> (\<forall>w. advanced (ledger_of w) (ledger_of (snd (c w))))"

text \<open>
  The repository makes progress: no call adds to what may still go wrong, a discarded connection takes something from it, and
  once nothing is left a commit is not ambiguous.
\<close>

definition settles :: "('w \<Rightarrow> nat) \<Rightarrow> ('w, 'a) repo_call \<Rightarrow> bool" where
  "settles pending c \<longleftrightarrow> (\<forall>w. pending (snd (c w)) \<le> pending w)"

locale publication_ledger =
  fixes repo :: "'w catalog_repo" and ledger_of :: "'w \<Rightarrow> ledger" and pending :: "'w \<Rightarrow> nat"
  assumes gates: "leaves ledger_of (RpSyncGate repo)" "leaves ledger_of (RpAdmissionGate repo n)"
    and acquire: "advances ledger_of (RpAcquireCatalogPublicationLease repo)"
    and head: "reads ledger_of Head (RpHead repo lease)"
    and read: "reads ledger_of (\<lambda>d. ReadPublication d g) (RpReadPublication repo lease g)"
    and read_legacy: "reads ledger_of (\<lambda>d. ReadLegacyPublication d g) (RpReadLegacyPublication repo lease g)"
    and find_publication: "reads ledger_of (\<lambda>d. FindPublication d ref) (RpFindPublication repo lease ref)"
    and bind_legacy: "RpBindLegacyArtifacts repo lease h entries w = (bound, w') \<Longrightarrow> same_log (ledger_of w) (ledger_of w')"
    and publish: "RpPublish repo lease expected ref entries w = (r, w') \<Longrightarrow>
      (\<exists>env fate. Publish env fate expected ref entries (ledger_of w) = (r, ledger_of w')) \<or>
      (\<exists>e. r = Inl e \<and> ledger_of w' = ledger_of w)"
    and close: "leaves ledger_of (RpClose repo lease)" "leaves ledger_of (RpDiscard repo lease)"
    and find_active: "advances ledger_of (RpFindActiveCatalogProblem repo i)"
    and find_artifact: "advances ledger_of (RpFindCatalogArtifact repo pref)"
    and progress: "settles pending (RpAcquireCatalogPublicationLease repo)" "settles pending (RpHead repo lease)"
      "settles pending (RpReadPublication repo lease g)" "settles pending (RpBindLegacyArtifacts repo lease h entries)"
    and discards: "pending w \<noteq> 0 \<Longrightarrow> pending (snd (RpDiscard repo lease w)) < pending w" "settles pending (RpDiscard repo lease)"
    and calm_commit: "pending w = 0 \<Longrightarrow> fst (RpBindLegacyArtifacts repo lease h entries w) \<noteq> Inl ErrCatalogCommitUnknown"

lemma advanced_refl: "advanced d d"
  by (simp add: advanced_def growing.refl_step)

lemma advanced_execs: "advanced d (ledger_execs ops d)"
  using ledger_execs_run by (auto simp: advanced_def)

lemma pg_call_reads: "reads PgLedger f (pg_call (\<lambda>_ d. (f d, d)))"
  by (auto simp: reads_def pg_call_def split: option.splits)

lemma pg_call_leaves: "leaves PgLedger (pg_call (\<lambda>_ d. (f d, d)))"
  by (auto simp: leaves_def pg_call_def split: option.splits)

lemma pg_shared_advances: "advances PgLedger (pg_shared f)"
  by (auto simp: advances_def pg_shared_def pg_call_def event_of_def advanced_execs split: option.splits)

lemma pg_call_settles: "settles (\<lambda>w. length (PgEvents w)) (pg_call f)"
  by (auto simp: settles_def pg_call_def split: option.splits prod.splits)

lemma pg_shared_settles: "settles (\<lambda>w. length (PgEvents w)) (pg_shared f)"
  unfolding settles_def pg_shared_def
proof
  fix w
  have "length (PgEvents (snd (pg_call (\<lambda>_ d. (f d, d)) v))) \<le> length (PgEvents v)" for v
    using pg_call_settles by (auto simp: settles_def)
  from this [of "w \<lparr> PgLedger := ledger_execs (PgOthers (event_of w)) (PgLedger w) \<rparr>"]
  show "length (PgEvents (snd (pg_call (\<lambda>_ d. (f d, d)) (w \<lparr> PgLedger := ledger_execs (PgOthers (event_of w)) (PgLedger w) \<rparr>))))
      \<le> length (PgEvents w)" by simp
qed

text \<open>A transaction that cannot end with a given error.\<close>

definition never :: "'e \<Rightarrow> ('s, 'e, 'a) tx \<Rightarrow> bool" where
  "never e m \<longleftrightarrow> (\<forall>d. m d \<noteq> Inl e)"

lemma never_bind: "never e m \<Longrightarrow> (\<And>x. never e (k x)) \<Longrightarrow> never e (tx_bind m k)"
  by (auto simp: never_def tx_bind_def split: sum.splits)

lemma never_seq: "never e m \<Longrightarrow> never e k \<Longrightarrow> never e (tx_seq m k)"
  by (simp add: tx_seq_def never_bind)

lemma never_steps:
  "e' \<noteq> e \<Longrightarrow> never e (tx_guard b e')" "never e (tx_get p)" "e' \<noteq> e \<Longrightarrow> never e (tx_row q e')" "never e (tx_return x)"
  "never e (tx_modify f)" "r \<noteq> Inl e \<Longrightarrow> never e (tx_lift r)" "SqlFailed name \<noteq> e'' \<Longrightarrow> never e'' (sql_check name b)"
  by (auto simp: never_def tx_defs sql_check_def split: option.splits sum.splits)

lemma never_block: "never e (tx_block [])" "never e m \<Longrightarrow> never e (tx_block ms) \<Longrightarrow> never e (tx_block (m # ms))"
  by (auto intro: never_seq never_steps)

lemma never_if: "never e m \<Longrightarrow> never e k \<Longrightarrow> never e (if b then m else k)"
  by simp

lemma never_each: "(\<And>x. never e (f x)) \<Longrightarrow> never e (tx_each f xs)"
  by (induction xs) (auto intro: never_seq never_steps)

lemma insertArtifactBinding_never: "never ErrCatalogCommitUnknown (insertArtifactBinding e)"
proof -
  have "never ErrCatalogCommitUnknown (insert_binding a)" for a
    unfolding insert_binding_def by (intro never_bind never_if never_steps never_block) simp_all
  then show ?thesis
    unfolding insertArtifactBinding_def by (intro never_bind never_steps never_block) simp_all
qed

lemma bind_tx_never: "never ErrCatalogCommitUnknown (bind_tx h entries)"
proof -
  have "scanCatalogHead row \<noteq> Inl ErrCatalogCommitUnknown" for row by (simp add: scanCatalogHead_def split: option.split)
  then show ?thesis
    unfolding bind_tx_def lockCatalogHead_def
    by (intro never_bind never_seq never_steps never_each insertArtifactBinding_never) simp_all
qed

lemma BindLegacyArtifacts_calm: "fst (BindLegacyArtifacts CommitOk h entries d) \<noteq> Inl ErrCatalogCommitUnknown"
  using bind_tx_never [of h entries]
  by (auto simp: BindLegacyArtifacts_def run_ledger_def never_def split: sum.splits prod.splits)

interpretation pgl: publication_ledger pg_repo PgLedger "\<lambda>w. length (PgEvents w)"
proof
  show "leaves PgLedger (RpSyncGate pg_repo)" "leaves PgLedger (RpAdmissionGate pg_repo n)" for n
    by (simp_all add: pg_repo_def pg_call_leaves)
  show "advances PgLedger (RpAcquireCatalogPublicationLease pg_repo)" by (simp add: pg_repo_def pg_shared_advances)
  show "reads PgLedger Head (RpHead pg_repo lease)" for lease by (simp add: pg_repo_def pg_call_reads)
  show "reads PgLedger (\<lambda>d. ReadPublication d g) (RpReadPublication pg_repo lease g)" for lease g
    by (simp add: pg_repo_def pg_call_reads)
  show "reads PgLedger (\<lambda>d. ReadLegacyPublication d g) (RpReadLegacyPublication pg_repo lease g)" for lease g
    by (simp add: pg_repo_def pg_call_reads)
  show "reads PgLedger (\<lambda>d. FindPublication d ref) (RpFindPublication pg_repo lease ref)" for lease ref
    by (simp add: pg_repo_def pg_call_reads)
  show "leaves PgLedger (RpClose pg_repo lease)" "leaves PgLedger (RpDiscard pg_repo lease)" for lease
    by (simp_all add: pg_repo_def pg_call_leaves)
  show "advances PgLedger (RpFindActiveCatalogProblem pg_repo i)" "advances PgLedger (RpFindCatalogArtifact pg_repo pref)" for i pref
    by (simp_all add: pg_repo_def pg_shared_advances)
  show "same_log (PgLedger w) (PgLedger w')" if "RpBindLegacyArtifacts pg_repo lease h es w = (r, w')" for lease h es w r w'
    using that other_writers_quiet(1) [of "PgLedger w" "PgFate (event_of w)" h es]
    by (auto simp: pg_repo_def pg_call_def quiet.refl_step split: option.splits prod.splits)
  show "(\<exists>env fate. Publish env fate expected ref es (PgLedger w) = (r, PgLedger w')) \<or> (\<exists>e. r = Inl e \<and> PgLedger w' = PgLedger w)"
    if "RpPublish pg_repo lease expected ref es w = (r, w')" for lease expected ref es w r w'
    using that by (auto simp: pg_repo_def pg_call_def split: option.splits prod.splits)
  show "settles (\<lambda>w. length (PgEvents w)) (RpAcquireCatalogPublicationLease pg_repo)"
    by (simp add: pg_repo_def pg_shared_settles)
  show "settles (\<lambda>w. length (PgEvents w)) (RpHead pg_repo lease)" "settles (\<lambda>w. length (PgEvents w)) (RpReadPublication pg_repo lease g)"
    "settles (\<lambda>w. length (PgEvents w)) (RpBindLegacyArtifacts pg_repo lease h es)" "settles (\<lambda>w. length (PgEvents w)) (RpDiscard pg_repo lease)"
    for lease g h es by (simp_all add: pg_repo_def pg_call_settles)
  show "length (PgEvents (snd (RpDiscard pg_repo lease w))) < length (PgEvents w)" if "length (PgEvents w) \<noteq> 0" for lease w
    using that by (auto simp: pg_repo_def pg_call_def split: option.split)
  show "fst (RpBindLegacyArtifacts pg_repo lease h es w) \<noteq> Inl ErrCatalogCommitUnknown" if "length (PgEvents w) = 0" for lease h es w
    using that BindLegacyArtifacts_calm [of h es "PgLedger w"]
    by (auto simp: pg_repo_def pg_call_def event_of_def calm_def split: prod.splits)
qed

end
