(* ===== verification/Catalog_Sync_Laws.thy ===== *)
theory Catalog_Sync_Laws
  imports Catalog_Repository
begin

text \<open>
  What the coordinator guarantees on top of any ledger that keeps the interface: under a lease it either follows the persisted
  head exactly, or leaves both heads alone, or closes itself to further work. The local catalog is a published one at all times.
\<close>

section \<open>Conditions of the coordinator's steps\<close>

lemma wp_ask: "io_wp (ask c) Q s = (case c (CoDatabase s) of (r, w') \<Rightarrow> Q r (s \<lparr> CoDatabase := w' \<rparr>))"
  by (auto simp: io_wp_def ask_def split: prod.splits)

lemma wp_actI: "io_total m \<Longrightarrow> (\<And>r f. Q r (s \<lparr> CoFiles := f \<rparr>)) \<Longrightarrow> io_wp (act m) Q s"
  by (auto simp: io_wp_def act_def io_total_def split: option.splits prod.splits)

lemma wp_peek [wp_simps]: "io_wp (peek f k) Q s = io_wp (k (f s)) Q s"
  by (simp add: io_wp_def peek_def)

lemma wp_from_sum [wp_simps]: "io_wp (from_sum r) Q s = Q r s"
  by (cases r) (simp_all add: from_sum_def wp_simps)

lemma wp_poisoned [wp_simps]:
  "io_wp (poisonedError op) Q s = Q (Inl (ErrCatalogAdmissionUnavailable op)) (poison (ErrCatalogAdmissionUnavailable op) s)"
  by (simp add: io_wp_def poisonedError_def Let_def)

lemma wp_check_health [wp_simps]: "io_wp check_health Q s = (case CoPoisoned s of None \<Rightarrow> Q (Inr ()) s | Some e \<Rightarrow> Q (Inl e) s)"
  by (simp add: io_wp_def check_health_def healthError_def split: option.splits)

lemma wp_close_then [wp_simps]: "io_wp (close_then site lease m) Q s = io_wp m Q (close_lease site lease s)"
  by (simp add: io_wp_def close_then_def)

lemma wp_split [wp_simps]:
  "io_wp (if b then m else m') Q s = (if b then io_wp m Q s else io_wp m' Q s)"
  "io_wp (case r of Inl e \<Rightarrow> f e | Inr a \<Rightarrow> g a) Q s = (case r of Inl e \<Rightarrow> io_wp (f e) Q s | Inr a \<Rightarrow> io_wp (g a) Q s)"
  "io_wp (case p of (x, y) \<Rightarrow> k x y) Q s = (case p of (x, y) \<Rightarrow> io_wp (k x y) Q s)"
  by (simp_all split: sum.split prod.split)

lemma poison_simps [simp]:
  "CoLoader (poison e s) = CoLoader s" "CoDatabase (poison e s) = CoDatabase s" "CoFiles (poison e s) = CoFiles s"
  "CoPoisoned (poison e s) \<noteq> None"
  by (auto simp: poison_def)

text \<open>An open activation of a candidate at a head, and the loader once it is committed.\<close>

definition open_token :: "catalog_candidate \<Rightarrow> catalog_head \<Rightarrow> activation_state \<Rightarrow> bool" where
  "open_token c target a \<longleftrightarrow>
     AsLoader a \<noteq> None \<and> AsCandidate a = Some c \<and> AsTarget a = target \<and> \<not> AsConsumed a \<and> ChEntryCount target = length (CcIds c)"

lemma wp_prepareI:
  assumes free: "\<not> GlPublishing (CoLoader s)" and failed: "\<And>e. Q (Inl e) s"
    and opened: "\<And>a. open_token c target a \<Longrightarrow> Q (Inr a) (s \<lparr> CoLoader := (CoLoader s) \<lparr> GlPublishing := True \<rparr> \<rparr>)"
  shows "io_wp (prepare c target) Q s"
proof -
  have "prepareActivationAt (CoLoader s) (Some c) target \<noteq> None"
    using free by (simp add: prepareActivationAt_def split: sum.split option.split)
  then obtain r l where p: "prepareActivationAt (CoLoader s) (Some c) target = Some (r, l)" by (auto simp: not_None_eq)
  have "Q r (s \<lparr> CoLoader := l \<rparr>)"
  proof (cases r)
    case (Inl e)
    then have "l = CoLoader s"
      using p by (auto simp: prepareActivationAt_def split: if_splits sum.splits option.splits)
    then show ?thesis using Inl failed by simp
  next
    case (Inr a)
    then have "l = (CoLoader s) \<lparr> GlPublishing := True \<rparr>" "open_token c target a"
      using p by (auto simp: prepareActivationAt_def open_token_def split: if_splits sum.splits option.splits)
    then show ?thesis using Inr opened by simp
  qed
  then show ?thesis using p by (simp add: io_wp_def prepare_def)
qed

lemma install_heads:
  "GlActiveHead (foldl (install_candidate c) l ids) = GlActiveHead l" "GlId (foldl (install_candidate c) l ids) = GlId l"
  "GlStrict (foldl (install_candidate c) l ids) = GlStrict l"
  by (induction ids arbitrary: l) (simp_all add: install_candidate_def Let_def)

lemma wp_commit_tokenI:
  assumes "open_token c target a"
    and "\<And>l. GlActiveHead l = Some target \<Longrightarrow> \<not> GlPublishing l \<Longrightarrow> Q (Inr ()) (s \<lparr> CoLoader := l \<rparr>)"
  shows "io_wp (commit_token a) Q s"
  using assms by (auto simp: io_wp_def commit_token_def Commit_def open_token_def Let_def)

lemma abort_open:
  "open_token c target a \<Longrightarrow> abort_token a s = s \<lparr> CoLoader := (CoLoader s) \<lparr> GlPublishing := False \<rparr> \<rparr>"
  by (auto simp: abort_token_def Abort_def open_token_def)

lemma wp_commit_or_poisonI:
  assumes "open_token c target a"
    and "\<And>l. GlActiveHead l = Some target \<Longrightarrow> \<not> GlPublishing l \<Longrightarrow> Q (Inr n) (s \<lparr> CoLoader := l \<rparr>)"
  shows "io_wp (commit_or_poison a op n) Q s"
  unfolding commit_or_poison_def wp_try
  by (rule wp_commit_tokenI [OF assms(1)]) (simp add: wp_simps assms(2))

lemma wp_activateI:
  assumes free: "\<not> GlPublishing (CoLoader s)" and failed: "\<And>e. Q (Inl e) s"
    and active: "\<And>l. GlActiveHead l = Some target \<Longrightarrow> \<not> GlPublishing l \<Longrightarrow> ChEntryCount target = length (CcIds c) \<Longrightarrow> Q (Inr ()) (s \<lparr> CoLoader := l \<rparr>)"
  shows "io_wp (activateCandidate c target op) Q s"
  unfolding activateCandidate_def wp_bind
  by (rule wp_prepareI [OF free], simp add: failed, unfold sum.case wp_try, rule wp_commit_tokenI, assumption)
    (simp add: wp_simps open_token_def active)

text \<open>The actions on files return when the calls of the store do; the calls of the checkout always return.\<close>

definition store_answers :: "'f artifact_cas \<Rightarrow> bool" where
  "store_answers cas \<longleftrightarrow> (\<forall>ref data. io_total (CasEnsure cas ref data)) \<and> (\<forall>ref. io_total (CasGet cas ref))"

lemma total_accept [total_intros]: "io_total (accept what b)"
  unfolding accept_def by (rule total_require)

lemma total_rejected [total_intros]: "io_total (rejected what c)"
  unfolding rejected_def by (rule total_call)

lemma total_ck_check [total_intros]: "io_total (ck_check ck)"
  unfolding ck_check_def by (intro total_intros)

lemma total_store_call: "io_total m \<Longrightarrow> io_total (store_call m)"
  by (auto simp: io_total_def store_call_def split: option.splits sum.splits)

lemma total_read [total_intros]: "io_total (readRuntimeRegularFile ck fd name required n)"
  unfolding readRuntimeRegularFile_def read_regular_def by (intro total_intros)

lemma total_capture: "io_total (captureRuntimeCatalog yaml ck l)"
  unfolding captureRuntimeCatalog_def read_policy_def capture_entry_def capture_directory_def openRuntimeDirectoryAt_def
    readRuntimeProblemFiles_def read_optional_def capture_problem_def buildRuntimeBundle_def resolve_runtime_image_def Let_def
  by (intro total_intros)

lemma total_BuildCandidate: "io_total (BuildCandidate yaml ck l)"
  unfolding BuildCandidate_def Let_def by (intro total_intros total_capture)

lemma total_ensureArtifacts: "store_answers cas \<Longrightarrow> io_total (ensureArtifacts yaml ck cas c)"
  unfolding ensureArtifacts_def ensure_artifact_def
  by (intro total_intros total_store_call) (simp_all add: store_answers_def)

lemma total_candidateFromEntries: "store_answers cas \<Longrightarrow> io_total (candidateFromEntries yaml ck cas l entries)"
  unfolding candidateFromEntries_def restore_entry_def Let_def
  by (intro total_intros total_store_call) (simp_all add: store_answers_def)

section \<open>Heads\<close>

definition published_head :: "ledger \<Rightarrow> catalog_head \<Rightarrow> bool" where
  "published_head d h \<longleftrightarrow> read_head d (ChGeneration h) = Inr h"

lemma Head_published:
  assumes "ledger_wf d" and "Head d = Inr (Some h)" shows "published_head d h"
proof -
  have ne: "LgPublications d \<noteq> []"
  proof
    assume "LgPublications d = []"
    then have "Head d = Inr None"
      using assms(1) by (simp add: Head_def head_row_def ledger_wf_def chained_def scanCatalogHead_def)
    with assms(2) show False by simp
  qed
  note last = last_row [OF assms(1) ne]
  let ?g = "int (length (LgPublications d))"
  have "LgHead d = Some ?g" using assms(1) ne by (simp add: ledger_wf_def chained_def)
  then have "scanCatalogHead (publication_at ?g d) = Inr (Some h)" using assms(2) by (simp add: Head_def head_row_def)
  moreover have "ChGeneration h = uint64 ?g"
    using calculation last by (auto simp: scanCatalogHead_def split: if_splits)
  moreover have "int64 (uint64 ?g) = ?g" "0 < ?g"
    using last(2,3) ne by (auto simp: row_ok_def intro!: int64_uint64)
  ultimately show ?thesis by (auto simp: published_head_def read_head_def)
qed

lemma published_head_mono: "published_head d h \<Longrightarrow> grows d d' \<Longrightarrow> published_head d' h"
  unfolding published_head_def read_head_def
  by (auto simp: grows_def publication_at_def scanCatalogHead_def find_mono split: if_splits sum.splits option.splits)

text \<open>The local catalog, if any, is a published one, and the ledger is in good order.\<close>

definition local_known :: "('w \<Rightarrow> ledger) \<Rightarrow> ('f, 'w) coordinator \<Rightarrow> bool" where
  "local_known L s \<longleftrightarrow>
     ledger_wf (L (CoDatabase s)) \<and>
     (\<forall>h. catalogHead (CoLoader s) = Some h \<longrightarrow> published_head (L (CoDatabase s)) h)"

text \<open>
  How an operation under a lease ends, when the persisted head was \<open>expected\<close> and the local one \<open>own\<close>: as long as the coordinator
  is healthy, success means that both heads agree and failure that neither has moved.
\<close>

definition in_step ::
  "('w \<Rightarrow> ledger) \<Rightarrow> catalog_head option \<Rightarrow> catalog_head option \<Rightarrow> catalog_error + nat \<Rightarrow> ('f, 'w) coordinator \<Rightarrow> bool" where
  "in_step L expected own r s \<longleftrightarrow>
     local_known L s \<and>
     (CoPoisoned s = None \<longrightarrow>
       (case r of
          Inr n \<Rightarrow> \<exists>h. catalogHead (CoLoader s) = Some h \<and> Head (L (CoDatabase s)) = Inr (Some h) \<and> n = ChEntryCount h
        | Inl _ \<Rightarrow> catalogHead (CoLoader s) = own \<and> Head (L (CoDatabase s)) = Inr expected))"

definition settled where
  "settled L expected own r s \<longleftrightarrow> in_step L expected own r s \<and> \<not> GlPublishing (CoLoader s)"

definition under_lease :: "('w \<Rightarrow> ledger) \<Rightarrow> catalog_head option \<Rightarrow> catalog_head option \<Rightarrow> ('f, 'w) coordinator \<Rightarrow> bool" where
  "under_lease L expected own s \<longleftrightarrow>
     local_known L s \<and> \<not> GlPublishing (CoLoader s) \<and> catalogHead (CoLoader s) = own \<and> Head (L (CoDatabase s)) = Inr expected"

lemma leavesD: "leaves L c \<Longrightarrow> c w = (r, w') \<Longrightarrow> L w' = L w"
  unfolding leaves_def by (metis snd_conv)

lemma wp_leavesI:
  assumes "leaves L c" and "\<And>r w'. L w' = L (CoDatabase s) \<Longrightarrow> Q r (s \<lparr> CoDatabase := w' \<rparr>)"
  shows "io_wp (ask c) Q s"
  using assms(2) leavesD [OF assms(1)] by (auto simp: wp_ask split: prod.splits)

lemma wp_readsI:
  assumes "reads L f c"
    and "\<And>r w'. L w' = L (CoDatabase s) \<Longrightarrow> (\<And>x. r = Inr x \<Longrightarrow> f (L (CoDatabase s)) = Inr x) \<Longrightarrow> Q r (s \<lparr> CoDatabase := w' \<rparr>)"
  shows "io_wp (ask c) Q s"
  using assms unfolding reads_def wp_ask by (auto split: prod.splits)

lemma wp_advancesI:
  assumes "advances L c" and "\<And>r w'. advanced (L (CoDatabase s)) (L w') \<Longrightarrow> Q r (s \<lparr> CoDatabase := w' \<rparr>)"
  shows "io_wp (ask c) Q s"
  using assms unfolding advances_def wp_ask by (auto split: prod.splits) (metis snd_conv)

lemma local_known_advanced:
  "local_known L s \<Longrightarrow> advanced (L (CoDatabase s)) (L w') \<Longrightarrow> local_known L (s \<lparr> CoDatabase := w' \<rparr>)"
  by (auto simp: local_known_def advanced_def intro: published_head_mono)

lemma local_known_same:
  "L w' = L (CoDatabase s) \<Longrightarrow> local_known L (s \<lparr> CoDatabase := w' \<rparr>) = local_known L s"
  by (simp add: local_known_def)

lemma local_known_poison [simp]: "local_known L (poison e s) = local_known L s"
  by (simp add: local_known_def)

lemma in_step_poison: "local_known L s \<Longrightarrow> in_step L expected own r (poison e s)"
  by (simp add: in_step_def)

text \<open>The loop, with an invariant of its rounds and a measure that each repetition decreases.\<close>

lemma bind_loop_rule:
  assumes step: "\<And>lease s. I s \<Longrightarrow> io_wp (bind_round site expected c activate op lease)
      (\<lambda>r s'. case r of Inl e \<Rightarrow> Q (Inl e) s' | Inr x \<Rightarrow> (case x of Inl _ \<Rightarrow> I s' \<and> f s' < (f s :: nat) | Inr _ \<Rightarrow> Q (Inr ()) s')) s"
    and "I s"
  shows "io_wp (bind_loop site expected c activate op lease) Q s"
  using \<open>I s\<close>
proof (induction "f s" arbitrary: s lease rule: less_induct)
  case less
  from io_wp_returns [OF step [OF less.prems, of lease]] obtain r s' where
      r: "bind_round site expected c activate op lease s = Some (r, s')"
    and post: "case r of Inl e \<Rightarrow> Q (Inl e) s' | Inr x \<Rightarrow> (case x of Inl _ \<Rightarrow> I s' \<and> f s' < f s | Inr _ \<Rightarrow> Q (Inr ()) s')"
    by blast
  have again: "io_wp (bind_loop site expected c activate op fresh) Q s'" if "r = Inr (Inl fresh)" for fresh
    using less.hyps [of s'] post that by simp
  show ?case
    using post again unfolding io_wp_def
    by (subst bind_loop.simps) (auto simp: r split: sum.splits)
qed

context publication_ledger
begin

lemma close_lease_simps:
  assumes "SiRepo site = repo"
  shows "CoLoader (close_lease site lease s) = CoLoader s" "CoPoisoned (close_lease site lease s) = CoPoisoned s"
    "ledger_of (CoDatabase (close_lease site lease s)) = ledger_of (CoDatabase s)"
  using close(1) assms by (simp_all add: close_lease_def leaves_def)

lemma in_step_close:
  "SiRepo site = repo \<Longrightarrow> in_step ledger_of expected own r (close_lease site lease s) = in_step ledger_of expected own r s"
  "SiRepo site = repo \<Longrightarrow> local_known ledger_of (close_lease site lease s) = local_known ledger_of s"
  by (simp_all add: in_step_def local_known_def close_lease_simps split: sum.split)

text \<open>How publishing ends before a failed activation is aborted.\<close>

definition mid_publish where
  "mid_publish expected own r s \<longleftrightarrow> in_step ledger_of expected own r s \<and> (\<forall>n. r = Inr n \<longrightarrow> \<not> GlPublishing (CoLoader s))"

lemma mid_poison: "local_known ledger_of s \<Longrightarrow> mid_publish expected own (Inl e) (poison e' s)"
  by (simp add: mid_publish_def in_step_poison)

lemma reconcile_outcome_in_step:
  assumes site: "SiRepo site = repo" and token: "open_token c target a" and known: "local_known ledger_of s"
    and own: "catalogHead (CoLoader s) = own" and count: "ChEntryCount target = length entries"
    and current: "Head (ledger_of (CoDatabase s)) = Inr current"
  shows "io_wp (reconcile_outcome site fresh expected target entries a current found) (mid_publish expected own) s"
proof (cases found)
  case None
  then show ?thesis
    using known own current
    by (simp add: reconcile_outcome_def wp_simps mid_poison) (simp add: mid_publish_def in_step_def sameCatalogHead_def)
next
  case (Some h)
  have committed: "mid_publish expected own (Inr (length entries)) (s \<lparr> CoDatabase := w, CoLoader := l \<rparr>)"
    if "ledger_of w = ledger_of (CoDatabase s)" "GlActiveHead l = Some target" "\<not> GlPublishing l" "current = Some target" for w l
    using that known current count Head_published
    by (auto simp: mid_publish_def in_step_def local_known_def catalogHead_def)
  show ?thesis
    unfolding reconcile_outcome_def Some option.case wp_try site
  proof (rule wp_readsI [OF read])
    fix r w assume w: "ledger_of w = ledger_of (CoDatabase s)"
    then have known': "local_known ledger_of (s \<lparr> CoDatabase := w \<rparr>)" using known by (simp add: local_known_same)
    show "io_wp (case r of
        Inl _ \<Rightarrow> poisonedError ''ambiguous catalog commit produced a divergent or superseded publication''
      | Inr (storedHead, storedEntries) \<Rightarrow>
          if storedHead \<noteq> target \<or> h \<noteq> target \<or> \<not> sameCatalogEntries storedEntries entries \<or> \<not> sameCatalogHead current (Some target)
            then poisonedError ''ambiguous catalog commit produced a divergent or superseded publication''
          else commit_or_poison a ''activate reconciled problem catalog'' (length entries)) (mid_publish expected own) (s \<lparr> CoDatabase := w \<rparr>)"
      using known' committed [OF w]
      by (auto simp: wp_simps mid_poison sameCatalogHead_def split: sum.split intro!: wp_commit_or_poisonI [OF token])
  qed
qed

lemma reconcile_reading_in_step:
  assumes site: "SiRepo site = repo" and token: "open_token c target a" and known: "local_known ledger_of s"
    and own: "catalogHead (CoLoader s) = own" and count: "ChEntryCount target = length entries"
  shows "io_wp (reconcile_reading site fresh expected identity target entries a) (mid_publish expected own) s"
  unfolding reconcile_reading_def site wp_try
proof (rule wp_readsI [OF head], rule wp_readsI [OF find_publication])
  fix hr w1 fr w2
  assume w1: "ledger_of w1 = ledger_of (CoDatabase s)" and hr: "\<And>x. hr = Inr x \<Longrightarrow> Head (ledger_of (CoDatabase s)) = Inr x"
    and w2: "ledger_of w2 = ledger_of (CoDatabase (s \<lparr> CoDatabase := w1 \<rparr>))"
  let ?s = "s \<lparr> CoDatabase := w1, CoDatabase := w2 \<rparr>"
  have "local_known ledger_of ?s" "\<And>x. hr = Inr x \<Longrightarrow> Head (ledger_of (CoDatabase ?s)) = Inr x" "catalogHead (CoLoader ?s) = own"
    using known w1 w2 hr own by (simp_all add: local_known_def)
  then show "io_wp (case hr of Inl _ \<Rightarrow> poisonedError ''reconcile ambiguous problem catalog commit'' | Inr current \<Rightarrow>
      (case fr of Inl _ \<Rightarrow> poisonedError ''reconcile ambiguous problem catalog commit''
       | Inr found \<Rightarrow> reconcile_outcome site fresh expected target entries a current found)) (mid_publish expected own) ?s"
    using reconcile_outcome_in_step [OF site token _ _ count, of ?s own]
    by (cases hr; cases fr) (simp_all add: wp_simps mid_poison)
qed

lemma mid_close:
  "SiRepo site = repo \<Longrightarrow> mid_publish expected own r (close_lease site lease s) = mid_publish expected own r s"
  by (simp add: mid_publish_def in_step_close close_lease_simps)

lemma reconcile_commit_in_step:
  assumes site: "SiRepo site = repo" and token: "open_token c target a" and known: "local_known ledger_of s"
    and own: "catalogHead (CoLoader s) = own" and count: "ChEntryCount target = length entries"
  shows "io_wp (reconcile_commit site lease expected identity target entries a) (mid_publish expected own) s"
  unfolding reconcile_commit_def site wp_try
proof (rule wp_leavesI [OF close(2)])
  fix r w1 assume "ledger_of w1 = ledger_of (CoDatabase s)"
  then have known1: "local_known ledger_of (s \<lparr> CoDatabase := w1 \<rparr>)" using known by (simp add: local_known_same)
  have acquired: "io_wp (ask (RpAcquireCatalogPublicationLease repo)) (\<lambda>r. io_wp (case r of
        Inl _ \<Rightarrow> poisonedError ''reacquire publication lease after ambiguous commit''
      | Inr fresh \<Rightarrow> io_defer (close_lease site fresh) (reconcile_reading site fresh expected identity target entries a))
      (mid_publish expected own)) (s \<lparr> CoDatabase := w1 \<rparr>)"
  proof (rule wp_advancesI [OF acquire])
    fix r w2 assume "advanced (ledger_of (CoDatabase (s \<lparr> CoDatabase := w1 \<rparr>))) (ledger_of w2)"
    then have known2: "local_known ledger_of (s \<lparr> CoDatabase := w1, CoDatabase := w2 \<rparr>)" by (rule local_known_advanced [OF known1])
    show "io_wp (case r of
        Inl _ \<Rightarrow> poisonedError ''reacquire publication lease after ambiguous commit''
      | Inr fresh \<Rightarrow> io_defer (close_lease site fresh) (reconcile_reading site fresh expected identity target entries a))
      (mid_publish expected own) (s \<lparr> CoDatabase := w1, CoDatabase := w2 \<rparr>)"
      using known2 own reconcile_reading_in_step [OF site token known2 _ count]
      by (cases r) (simp_all add: wp_simps mid_poison mid_close [OF site])
  qed
  show "io_wp (case r of
        Inl _ \<Rightarrow> poisonedError ''discard ambiguous publication connection''
      | Inr _ \<Rightarrow> io_try (ask (RpAcquireCatalogPublicationLease repo)) (\<lambda>r. case r of
          Inl _ \<Rightarrow> poisonedError ''reacquire publication lease after ambiguous commit''
        | Inr fresh \<Rightarrow> io_defer (close_lease site fresh) (reconcile_reading site fresh expected identity target entries a)))
      (mid_publish expected own) (s \<lparr> CoDatabase := w1 \<rparr>)"
    using known1 acquired by (cases r) (simp_all add: wp_simps mid_poison)
qed

lemma mid_aborted:
  assumes "open_token c target a" and "mid_publish expected own (Inl e) s"
  shows "settled ledger_of expected own (Inl e) (abort_token a s)"
  using assms by (simp add: abort_open mid_publish_def settled_def in_step_def local_known_def catalogHead_def)

lemma mid_committed: "mid_publish expected own (Inr n) s \<Longrightarrow> settled ledger_of expected own (Inr n) s"
  by (simp add: mid_publish_def settled_def)

text \<open>The call of \<open>Publish\<close>: the target is now the persisted head, or nothing was done, or nobody knows.\<close>

lemma publish_call:
  assumes wf: "ledger_wf (ledger_of w)" and call: "RpPublish repo lease expected ref entries w = (r, w')"
    and expected: "Head (ledger_of w) = Inr expected"
  shows "ledger_wf (ledger_of w') \<and> grows (ledger_of w) (ledger_of w') \<and>
    (case r of
       Inr h \<Rightarrow> h = \<lparr> ChGeneration = next_generation expected, ChRef = ref, ChEntryCount = length entries \<rparr> \<and>
         Head (ledger_of w') = Inr (Some h)
     | Inl e \<Rightarrow> e = ErrCatalogCommitUnknown \<or> Head (ledger_of w') = Inr expected)"
  using publish [OF call]
proof
  assume "\<exists>env fate. Publish env fate expected ref entries (ledger_of w) = (r, ledger_of w')"
  then obtain env fate where "Publish env fate expected ref entries (ledger_of w) = (r, ledger_of w')" by blast
  then show ?thesis
  proof (rule Publish_cases)
    assume "ledger_of w' = ledger_of w" and "\<And>h. r \<noteq> Inr h"
    then show ?thesis using wf expected growing.refl_step by (cases r) auto
  next
    fix h assume run: "publish_tx env expected ref entries (ledger_of w) = Inr (h, ledger_of w')"
      and "r = Inr h \<or> r = Inl ErrCatalogCommitUnknown"
    then show ?thesis
      using publish_tx_appends(1,5) [OF wf run] publish_tx_readable(1,3) [OF wf run] by auto
  qed
qed (use wf expected growing.refl_step in auto)

lemma publish_prepared_in_step:
  assumes site: "SiRepo site = repo" and token: "open_token c target a" and known: "local_known ledger_of s"
    and own: "catalogHead (CoLoader s) = own" and hd: "Head (ledger_of (CoDatabase s)) = Inr expected"
    and target: "target = \<lparr> ChGeneration = next_generation expected, ChRef = identity, ChEntryCount = length entries \<rparr>"
  shows "io_wp (publish_prepared site lease expected identity target entries a) (mid_publish expected own) s"
  unfolding publish_prepared_def site wp_try wp_ask
proof (split prod.split, intro allI impI)
  fix r w assume call: "RpPublish repo lease expected identity entries (CoDatabase s) = (r, w)"
  have wf: "ledger_wf (ledger_of (CoDatabase s))" using known by (simp add: local_known_def)
  note out = publish_call [OF wf call hd]
  have known': "local_known ledger_of (s \<lparr> CoDatabase := w \<rparr>)" and own': "catalogHead (CoLoader (s \<lparr> CoDatabase := w \<rparr>)) = own"
    using out known own published_head_mono by (auto simp: local_known_def)
  have failed: "mid_publish expected own (Inl e) (s \<lparr> CoDatabase := w \<rparr>)" if "r = Inl e" "e \<noteq> ErrCatalogCommitUnknown" for e
    using known' own' out that by (simp add: mid_publish_def in_step_def)
  have committed: "mid_publish expected own (Inr (length entries)) (s \<lparr> CoDatabase := w, CoLoader := l \<rparr>)"
    if "r = Inr h" "GlActiveHead l = Some target" "\<not> GlPublishing l" for l h
    using that out target Head_published by (auto simp: mid_publish_def in_step_def local_known_def catalogHead_def)
  show "io_wp (case r of
       Inl e \<Rightarrow> if e \<noteq> ErrCatalogCommitUnknown then io_throw e else reconcile_commit site lease expected identity target entries a
     | Inr published \<Rightarrow> if published \<noteq> target then poisonedError ''persisted publication identity changed''
         else commit_or_poison a ''publish committed problem catalog'' (length entries))
     (mid_publish expected own) (s \<lparr> CoDatabase := w \<rparr>)"
    using reconcile_commit_in_step [OF site token known' own'] target failed committed out
    by (cases r) (auto simp: wp_simps intro!: wp_commit_or_poisonI [OF token])
qed

lemma publishCandidate_settled:
  assumes site: "SiRepo site = repo" and start: "under_lease ledger_of expected own s"
  shows "io_wp (publishCandidate site lease expected c) (settled ledger_of expected own) s"
proof (cases "Identity c")
  case (Inl e)
  then show ?thesis
    using start by (simp add: publishCandidate_def wp_simps settled_def in_step_def under_lease_def)
next
  case (Inr identity)
  show ?thesis
    unfolding publishCandidate_def Let_def wp_bind wp_from_sum Inr sum.case
  proof (rule wp_prepareI)
    show "\<not> GlPublishing (CoLoader s)" using start by (simp add: under_lease_def)
  next
    fix a assume token: "open_token c \<lparr> ChGeneration = next_generation expected, ChRef = identity, ChEntryCount = length (Entries c) \<rparr> a"
    have "io_wp (publish_prepared site lease expected identity
        \<lparr> ChGeneration = next_generation expected, ChRef = identity, ChEntryCount = length (Entries c) \<rparr> (Entries c) a)
      (mid_publish expected own) (s \<lparr> CoLoader := (CoLoader s) \<lparr> GlPublishing := True \<rparr> \<rparr>)"
      using start by (intro publish_prepared_in_step [OF site token]) (simp_all add: under_lease_def local_known_def catalogHead_def)
    then show "(case Inr a of Inl e \<Rightarrow> settled ledger_of expected own (Inl e)
      | Inr activation \<Rightarrow> io_wp (io_cleanup (abort_token activation) (publish_prepared site lease expected identity
          \<lparr> ChGeneration = next_generation expected, ChRef = identity, ChEntryCount = length (Entries c) \<rparr> (Entries c) activation))
        (settled ledger_of expected own)) (s \<lparr> CoLoader := (CoLoader s) \<lparr> GlPublishing := True \<rparr> \<rparr>)"
      unfolding sum.case wp_cleanup
      by (rule wp_mono) (auto split: sum.split intro: mid_aborted [OF token] mid_committed)
  qed (use start in \<open>simp add: settled_def in_step_def under_lease_def\<close>)
qed

text \<open>How a round on a fresh lease, and the loop, end.\<close>

definition bound_to ::
  "catalog_head \<Rightarrow> catalog_head option \<Rightarrow> catalog_candidate \<Rightarrow> bool \<Rightarrow> catalog_error + 'x \<Rightarrow> ('f, 'w) coordinator \<Rightarrow> bool" where
  "bound_to expected own c activate r s \<longleftrightarrow>
     local_known ledger_of s \<and> \<not> GlPublishing (CoLoader s) \<and>
     (CoPoisoned s = None \<longrightarrow> Head (ledger_of (CoDatabase s)) = Inr (Some expected) \<and>
       (case r of
          Inr _ \<Rightarrow> (if activate then catalogHead (CoLoader s) = Some expected \<and> ChEntryCount expected = length (CcIds c)
                    else catalogHead (CoLoader s) = own)
        | Inl _ \<Rightarrow> catalogHead (CoLoader s) = own))"

lemma bound_poison:
  "local_known ledger_of s \<Longrightarrow> \<not> GlPublishing (CoLoader s) \<Longrightarrow> bound_to expected own c activate r (poison e s)"
  by (simp add: bound_to_def)

lemma bound_close:
  "SiRepo site = repo \<Longrightarrow> bound_to expected own c activate r (close_lease site lease s) = bound_to expected own c activate r s"
  by (simp add: bound_to_def in_step_close close_lease_simps split: sum.split)

lemma bound_same:
  "ledger_of w = ledger_of (CoDatabase s) \<Longrightarrow>
   bound_to expected own c activate r (s \<lparr> CoDatabase := w \<rparr>) = bound_to expected own c activate r s"
  by (simp add: bound_to_def local_known_def split: sum.split)

lemma finish_binding_bound:
  assumes site: "SiRepo site = repo" and start: "under_lease ledger_of (Some expected) own s"
  shows "io_wp (finish_binding site lease expected c activate op closing) (bound_to expected own c activate) s"
proof -
  have closing: "io_wp (io_try (ask (RpClose repo lease)) (\<lambda>r. case r of Inl _ \<Rightarrow> poisonedError closing | Inr _ \<Rightarrow> io_return True))
      (bound_to expected own c activate) s'"
    if "bound_to expected own c activate (Inr ()) s'" for s'
    unfolding wp_try
  proof (rule wp_leavesI [OF close(1)])
    fix r w assume w: "ledger_of w = ledger_of (CoDatabase s')"
    then show "io_wp (case r of Inl _ \<Rightarrow> poisonedError closing | Inr _ \<Rightarrow> io_return True) (bound_to expected own c activate)
        (s' \<lparr> CoDatabase := w \<rparr>)"
      using that by (cases r) (auto simp: wp_simps bound_to_def local_known_def)
  qed
  have failed: "bound_to expected own c activate (Inl e) (close_lease site lease s)" for e
    using start site by (simp add: bound_close) (simp add: bound_to_def under_lease_def)
  have active: "bound_to expected own c True (Inr ()) (s \<lparr> CoLoader := l \<rparr>)"
    if "GlActiveHead l = Some expected" "\<not> GlPublishing l" "ChEntryCount expected = length (CcIds c)" for l
    using that start Head_published by (auto simp: bound_to_def under_lease_def local_known_def catalogHead_def)
  show ?thesis
  proof (cases activate)
    case True
    show ?thesis
      unfolding finish_binding_def site wp_bind if_P [OF True] wp_cleanup
      by (rule wp_activateI) (use failed active closing True start in \<open>auto simp: under_lease_def\<close>)
  next
    case False
    then show ?thesis
      unfolding finish_binding_def site using start closing [of s]
      by (simp add: wp_bind wp_return) (simp add: bound_to_def under_lease_def)
  qed
qed

text \<open>After a round: settled, failed, or to be repeated with both heads where they were.\<close>

definition round_to ::
  "catalog_head \<Rightarrow> catalog_head option \<Rightarrow> catalog_candidate \<Rightarrow> bool \<Rightarrow> catalog_error + (nat + unit) \<Rightarrow> ('f, 'w) coordinator \<Rightarrow> bool" where
  "round_to expected own c activate r s \<longleftrightarrow>
     (case r of
        Inl e \<Rightarrow> bound_to expected own c activate (Inl e :: catalog_error + unit) s
      | Inr x \<Rightarrow> (case x of
          Inl _ \<Rightarrow> local_known ledger_of s \<and> \<not> GlPublishing (CoLoader s) \<and> catalogHead (CoLoader s) = own
        | Inr _ \<Rightarrow> bound_to expected own c activate (Inr ()) s))"

lemma finish_round:
  assumes "SiRepo site = repo" and "under_lease ledger_of (Some expected) own s"
  shows "io_wp (io_bind (finish_binding site fresh expected c activate op closing) (\<lambda>_. io_return (Inr ())))
    (round_to expected own c activate) s"
  unfolding wp_bind
  by (rule wp_mono [OF finish_binding_bound [OF assms]]) (auto simp: round_to_def wp_simps bound_to_def split: sum.split)

lemma under_lease_same_log:
  assumes "under_lease ledger_of h own s" and "same_log (ledger_of (CoDatabase s)) (ledger_of w)"
  shows "under_lease ledger_of h own (s \<lparr> CoDatabase := w \<rparr>)"
proof -
  have "ledger_wf (ledger_of w)" using assms by (auto simp: under_lease_def local_known_def intro: same_log_wf)
  moreover have "Head (ledger_of w) = Head (ledger_of (CoDatabase s))"
    using assms by (simp add: same_log_def Head_def head_row_def publication_at_def split: option.split)
  ultimately show ?thesis
    using assms same_log_grows published_head_mono by (auto simp: under_lease_def local_known_def)
qed

lemma under_lease_same: "ledger_of w = ledger_of (CoDatabase s) \<Longrightarrow> under_lease ledger_of h own (s \<lparr> CoDatabase := w \<rparr>) = under_lease ledger_of h own s"
  by (simp add: under_lease_def local_known_def)

lemma round_poison:
  "local_known ledger_of s \<Longrightarrow> \<not> GlPublishing (CoLoader s) \<Longrightarrow> round_to expected own c activate (Inl e) (poison e' s)"
  by (simp add: round_to_def bound_poison)

lemma round_close_poison:
  assumes "SiRepo site = repo" and "local_known ledger_of s" and "\<not> GlPublishing (CoLoader s)"
  shows "round_to expected own c activate (Inl e) (poison e' (close_lease site lease s))"
  using assms by (intro round_poison) (simp_all add: in_step_close close_lease_simps)

lemma bind_again_round:
  assumes site: "SiRepo site = repo" and start: "under_lease ledger_of (Some expected) own s"
  shows "io_wp (bind_again site expected c activate op fresh) (round_to expected own c activate) s"
  unfolding bind_again_def site wp_try wp_ask
proof (split prod.split, intro allI impI)
  fix r w assume "RpBindLegacyArtifacts repo fresh expected (Entries c) (CoDatabase s) = (r, w)"
  then have start': "under_lease ledger_of (Some expected) own (s \<lparr> CoDatabase := w \<rparr>)" (is "under_lease _ _ _ ?s")
    using under_lease_same_log [OF start] bind_legacy by blast
  have "round_to expected own c activate (Inl e) (close_lease site fresh ?s)" for e
    using start' site by (simp add: round_to_def bound_close) (simp add: bound_to_def under_lease_def)
  moreover have "round_to expected own c activate (Inr (Inl fresh)) ?s" using start' by (simp add: round_to_def under_lease_def)
  ultimately show "io_wp (case r of
       Inl e \<Rightarrow> if e \<noteq> ErrCatalogCommitUnknown then close_then site fresh (io_throw e) else io_return (Inl fresh)
     | Inr _ \<Rightarrow> io_bind (finish_binding site fresh expected c activate op ''close retried legacy artifact binding lease'') (\<lambda>_. io_return (Inr ())))
     (round_to expected own c activate) ?s"
    using finish_round [OF site start'] by (cases r) (simp_all only: sum.case, simp_all add: wp_split wp_close_then wp_throw wp_return)
qed

lemma bind_observed_round:
  assumes site: "SiRepo site = repo" and start: "under_lease ledger_of (Some expected) own s"
  shows "io_wp (bind_observed site expected c activate op fresh) (round_to expected own c activate) s"
  unfolding bind_observed_def site wp_try
proof (rule wp_readsI [OF read])
  fix r w assume w: "ledger_of w = ledger_of (CoDatabase s)"
  then have start': "under_lease ledger_of (Some expected) own (s \<lparr> CoDatabase := w \<rparr>)" (is "under_lease _ _ _ ?s")
    using start by (simp add: under_lease_same)
  have poisoned: "round_to expected own c activate (Inl e) (poison e' (close_lease site fresh ?s))" for e e'
    using start' by (intro round_close_poison [OF site]) (simp_all add: under_lease_def)
  show "io_wp (case r of
      Inl readErr \<Rightarrow>
        if readErr \<noteq> ErrCatalogArtifactBindingMissing
          then close_then site fresh (poisonedError ''read ambiguous legacy artifact binding'')
        else bind_again site expected c activate op fresh
    | Inr (storedHead, storedEntries) \<Rightarrow>
        if storedHead \<noteq> expected \<or> \<not> sameCatalogEntries storedEntries (Entries c)
          then close_then site fresh (poisonedError ''ambiguous legacy artifact binding diverged'')
        else io_bind (finish_binding site fresh expected c activate op ''close reconciled legacy artifact binding lease'')
          (\<lambda>_. io_return (Inr ()))) (round_to expected own c activate) ?s"
    using finish_round [OF site start'] bind_again_round [OF site start'] poisoned
    by (cases r) (auto simp only: sum.case wp_split wp_close_then wp_poisoned split: prod.split if_splits)
qed

lemma bind_fresh_round:
  assumes site: "SiRepo site = repo" and known: "local_known ledger_of s" "\<not> GlPublishing (CoLoader s)" "catalogHead (CoLoader s) = own"
  shows "io_wp (bind_fresh site expected c activate op fresh) (round_to expected own c activate) s"
  unfolding bind_fresh_def site wp_try
proof (rule wp_readsI [OF head])
  fix r w assume w: "ledger_of w = ledger_of (CoDatabase s)" and r: "\<And>x. r = Inr x \<Longrightarrow> Head (ledger_of (CoDatabase s)) = Inr x"
  let ?s = "s \<lparr> CoDatabase := w \<rparr>"
  have poisoned: "round_to expected own c activate (Inl e) (poison e' (close_lease site fresh ?s))" for e e'
    using known w by (intro round_close_poison [OF site]) (simp_all add: local_known_same)
  have "under_lease ledger_of (Some expected) own ?s" if "r = Inr (Some expected)"
    using known w r that by (simp add: under_lease_def local_known_same)
  then show "io_wp (case r of
      Inl _ \<Rightarrow> close_then site fresh (poisonedError ''reconcile ambiguous legacy artifact binding head'')
    | Inr current \<Rightarrow> if \<not> sameCatalogHead current (Some expected)
          then close_then site fresh (poisonedError ''reconcile ambiguous legacy artifact binding head'')
        else bind_observed site expected c activate op fresh) (round_to expected own c activate) ?s"
    using bind_observed_round [OF site] poisoned
    by (cases r) (auto simp: wp_split wp_close_then wp_poisoned sameCatalogHead_def)
qed

lemma bind_round_round:
  assumes site: "SiRepo site = repo" and known: "local_known ledger_of s" "\<not> GlPublishing (CoLoader s)" "catalogHead (CoLoader s) = own"
  shows "io_wp (bind_round site expected c activate op lease) (round_to expected own c activate) s"
  unfolding bind_round_def site wp_try
proof (rule wp_leavesI [OF close(2)])
  fix r w assume w: "ledger_of w = ledger_of (CoDatabase s)"
  let ?s = "s \<lparr> CoDatabase := w \<rparr>"
  have known1: "local_known ledger_of ?s" "\<not> GlPublishing (CoLoader ?s)" "catalogHead (CoLoader ?s) = own"
    using known w by (simp_all add: local_known_same)
  have acquired: "io_wp (io_try (ask (RpAcquireCatalogPublicationLease repo)) (\<lambda>r. case r of
        Inl _ \<Rightarrow> poisonedError ''reacquire publication lease after ambiguous legacy binding''
      | Inr fresh \<Rightarrow> bind_fresh site expected c activate op fresh)) (round_to expected own c activate) ?s"
    unfolding wp_try
  proof (rule wp_advancesI [OF acquire])
    fix r w' assume "advanced (ledger_of (CoDatabase ?s)) (ledger_of w')"
    then have known2: "local_known ledger_of (?s \<lparr> CoDatabase := w' \<rparr>)" by (rule local_known_advanced [OF known1(1)])
    show "io_wp (case r of Inl _ \<Rightarrow> poisonedError ''reacquire publication lease after ambiguous legacy binding''
        | Inr fresh \<Rightarrow> bind_fresh site expected c activate op fresh) (round_to expected own c activate) (?s \<lparr> CoDatabase := w' \<rparr>)"
      using known2 known1 bind_fresh_round [OF site known2] by (cases r) (simp_all add: wp_poisoned round_poison)
  qed
  show "io_wp (case r of Inl _ \<Rightarrow> poisonedError ''discard ambiguous legacy artifact binding connection''
      | Inr _ \<Rightarrow> io_try (ask (RpAcquireCatalogPublicationLease repo)) (\<lambda>r. case r of
          Inl _ \<Rightarrow> poisonedError ''reacquire publication lease after ambiguous legacy binding''
        | Inr fresh \<Rightarrow> bind_fresh site expected c activate op fresh)) (round_to expected own c activate) ?s"
    using acquired known1 by (cases r) (simp_all add: wp_poisoned round_poison)
qed

lemma try_succeeds:
  assumes "io_try m (\<lambda>r. case r of Inl e \<Rightarrow> f e | Inr a \<Rightarrow> g a) s = Some (Inr x, s')" and "\<And>e s1. f e s1 \<noteq> Some (Inr x, s')"
  obtains a s1 where "m s = Some (Inr a, s1)" and "g a s1 = Some (Inr x, s')"
  using assms by (auto simp: io_try_def split: option.splits sum.splits)

lemma bind_again_ambiguous:
  assumes "SiRepo site = repo" and "bind_again site expected c activate op lease s = Some (Inr (Inl fresh), s')"
  shows "pending (CoDatabase s') \<le> pending (CoDatabase s)" and "pending (CoDatabase s) \<noteq> 0"
proof -
  obtain r w where r: "RpBindLegacyArtifacts repo lease expected (Entries c) (CoDatabase s) = (r, w)" by fastforce
  have "r = Inl ErrCatalogCommitUnknown \<and> s' = s \<lparr> CoDatabase := w \<rparr>"
    using assms(2)
    by (cases r) (auto simp: bind_again_def io_try_def ask_def r assms(1) close_then_def io_throw_def io_return_def io_bind_def
        split: option.splits sum.splits if_splits prod.splits)
  moreover have "pending w \<le> pending (CoDatabase s)" using progress(4) [of lease expected "Entries c"] r unfolding settles_def by (metis snd_conv)
  moreover have "pending (CoDatabase s) \<noteq> 0" if "r = Inl ErrCatalogCommitUnknown"
    using calm_commit [of "CoDatabase s" lease expected "Entries c"] r that by auto
  ultimately show "pending (CoDatabase s') \<le> pending (CoDatabase s)" "pending (CoDatabase s) \<noteq> 0" by simp_all
qed

lemma ask_settles:
  assumes "settles pending call" and "ask call s = Some (r, s')"
  shows "pending (CoDatabase s') \<le> pending (CoDatabase s)"
  using assms by (auto simp: ask_def settles_def split: prod.splits) (metis snd_conv)

lemma bind_round_progress:
  assumes site: "SiRepo site = repo" and run: "bind_round site expected c activate op lease s = Some (Inr (Inl fresh), s')"
  shows "pending (CoDatabase s') < pending (CoDatabase s)"
proof -
  have no: "poisonedError e s \<noteq> Some (Inr x, s')" "close_then site l (poisonedError e) s \<noteq> Some (Inr x, s')" for e s x s' l
    by (simp_all add: poisonedError_def Let_def close_then_def)
  from run obtain u s1 where d: "ask (RpDiscard repo lease) s = Some (Inr u, s1)"
    and r1: "io_try (ask (RpAcquireCatalogPublicationLease repo)) (\<lambda>r. case r of
        Inl _ \<Rightarrow> poisonedError ''reacquire publication lease after ambiguous legacy binding''
      | Inr fresh \<Rightarrow> bind_fresh site expected c activate op fresh) s1 = Some (Inr (Inl fresh), s')"
    unfolding bind_round_def site by (rule try_succeeds) (rule no)
  from r1 obtain l2 s2 where a: "ask (RpAcquireCatalogPublicationLease repo) s1 = Some (Inr l2, s2)"
      and r2: "bind_fresh site expected c activate op l2 s2 = Some (Inr (Inl fresh), s')"
    by (rule try_succeeds) (rule no)
  from r2 obtain h s3 where hd: "ask (RpHead repo l2) s2 = Some (Inr h, s3)"
      and "(if \<not> sameCatalogHead h (Some expected)
           then close_then site l2 (poisonedError ''reconcile ambiguous legacy artifact binding head'')
         else bind_observed site expected c activate op l2) s3 = Some (Inr (Inl fresh), s')"
    unfolding bind_fresh_def site by (rule try_succeeds) (rule no)
  then have r3: "bind_observed site expected c activate op l2 s3 = Some (Inr (Inl fresh), s')" by (auto simp: no split: if_splits)
  then obtain x s4 where rd: "ask (RpReadPublication repo l2 (ChGeneration expected)) s3 = Some (x, s4)"
    and last: "bind_again site expected c activate op l2 s4 = Some (Inr (Inl fresh), s')"
    unfolding bind_observed_def site
    by (auto simp: no io_try_def io_bind_def io_return_def split: sum.splits if_splits option.splits prod.splits)
  have "pending (CoDatabase s4) \<le> pending (CoDatabase s1)"
    using ask_settles [OF progress(1) a] ask_settles [OF progress(2) hd] ask_settles [OF progress(3) rd] by simp
  moreover have "pending (CoDatabase s1) < pending (CoDatabase s) \<or> pending (CoDatabase s1) = 0"
  proof (cases "pending (CoDatabase s) = 0")
    case True
    then show ?thesis using ask_settles [OF discards(2) d] by simp
  next
    case False
    then show ?thesis using discards(1) [of "CoDatabase s" lease] d by (auto simp: ask_def split: prod.splits)
  qed
  ultimately show ?thesis using bind_again_ambiguous [OF site last] by linarith
qed

lemma bind_loop_bound:
  fixes site :: "('f, 'w) site"
  assumes site: "SiRepo site = repo" and known: "local_known ledger_of s" "\<not> GlPublishing (CoLoader s)" "catalogHead (CoLoader s) = own"
  shows "io_wp (bind_loop site expected c activate op lease) (bound_to expected own c activate) s"
proof (rule bind_loop_rule [where I = "\<lambda>s. local_known ledger_of s \<and> \<not> GlPublishing (CoLoader s) \<and> catalogHead (CoLoader s) = own"
      and f = "\<lambda>s. pending (CoDatabase s)"])
  fix lease and s :: "('f, 'w) coordinator"
  assume "local_known ledger_of s \<and> \<not> GlPublishing (CoLoader s) \<and> catalogHead (CoLoader s) = own"
  then have "io_wp (bind_round site expected c activate op lease) (round_to expected own c activate) s"
    by (intro bind_round_round [OF site]) simp_all
  from wp_conj [OF this, of "\<lambda>r s'. \<forall>x. r = Inr (Inl x) \<longrightarrow> pending (CoDatabase s') < pending (CoDatabase s)"]
  have "io_wp (bind_round site expected c activate op lease) (\<lambda>r s'. round_to expected own c activate r s' \<and>
      (\<forall>x. r = Inr (Inl x) \<longrightarrow> pending (CoDatabase s') < pending (CoDatabase s))) s"
    using bind_round_progress [OF site] by blast
  then show "io_wp (bind_round site expected c activate op lease) (\<lambda>r s'. case r of
      Inl e \<Rightarrow> bound_to expected own c activate (Inl e :: catalog_error + unit) s'
    | Inr x \<Rightarrow> (case x of
        Inl _ \<Rightarrow> (local_known ledger_of s' \<and> \<not> GlPublishing (CoLoader s') \<and> catalogHead (CoLoader s') = own) \<and>
          pending (CoDatabase s') < pending (CoDatabase s)
      | Inr _ \<Rightarrow> bound_to expected own c activate (Inr ()) s')) s"
    by (rule wp_mono) (auto simp: round_to_def split: sum.splits)
qed (use known in simp)

text \<open>The result says whether the loop has settled the binding; without it the lease is still the one of the caller.\<close>

definition legacy_bound ::
  "catalog_head \<Rightarrow> catalog_head option \<Rightarrow> catalog_candidate \<Rightarrow> bool \<Rightarrow> catalog_error + bool \<Rightarrow> ('f, 'w) coordinator \<Rightarrow> bool" where
  "legacy_bound expected own c activate r s \<longleftrightarrow>
     (case r of
        Inl e \<Rightarrow> bound_to expected own c activate (Inl e :: catalog_error + unit) s
      | Inr handled \<Rightarrow> if handled then bound_to expected own c activate (Inr ()) s else under_lease ledger_of (Some expected) own s)"

lemma bindLegacyArtifacts_bound:
  assumes site: "SiRepo site = repo" and start: "under_lease ledger_of (Some expected) own s"
  shows "io_wp (bindLegacyArtifacts site lease expected c activate op) (legacy_bound expected own c activate) s"
  unfolding bindLegacyArtifacts_def site wp_try wp_ask
proof (split prod.split, intro allI impI)
  fix r w assume "RpBindLegacyArtifacts repo lease expected (Entries c) (CoDatabase s) = (r, w)"
  then have start': "under_lease ledger_of (Some expected) own (s \<lparr> CoDatabase := w \<rparr>)" (is "under_lease _ _ _ ?s")
    using under_lease_same_log [OF start] bind_legacy by blast
  have "io_wp (bind_loop site expected c activate op lease) (bound_to expected own c activate) ?s"
    using start' by (intro bind_loop_bound [OF site]) (simp_all add: under_lease_def)
  then have loop: "io_wp (io_bind (bind_loop site expected c activate op lease) (\<lambda>_. io_return True)) (legacy_bound expected own c activate) ?s"
    unfolding wp_bind by (rule wp_mono) (auto simp: legacy_bound_def wp_return split: sum.split)
  have failed: "legacy_bound expected own c activate (Inl e) ?s" for e using start' by (simp add: legacy_bound_def bound_to_def under_lease_def)
  show "io_wp (case r of
      Inl e \<Rightarrow> if e \<noteq> ErrCatalogCommitUnknown then io_throw e
        else io_bind (bind_loop site expected c activate op lease) (\<lambda>_. io_return True)
    | Inr _ \<Rightarrow> io_return False) (legacy_bound expected own c activate) ?s"
    using loop failed start' by (cases r) (simp_all only: sum.case wp_split wp_throw wp_return, simp_all add: legacy_bound_def)
qed

section \<open>Synchronisation\<close>

lemma settled_failed: "under_lease ledger_of expected own s \<Longrightarrow> settled ledger_of expected own (Inl e) s"
  by (simp add: under_lease_def settled_def in_step_def)

lemma settled_poison: "local_known ledger_of s \<Longrightarrow> \<not> GlPublishing (CoLoader s) \<Longrightarrow> settled ledger_of expected own r (poison e s)"
  by (simp add: settled_def in_step_poison)

lemma settled_current:
  "under_lease ledger_of (Some h) (Some h) s \<Longrightarrow> settled ledger_of expected own (Inr (ChEntryCount h)) s"
  by (simp add: under_lease_def settled_def in_step_def)

lemma activate_settled:
  assumes "under_lease ledger_of (Some h) own s"
  shows "io_wp (io_bind (activateCandidate c h op) (\<lambda>_. io_return (ChEntryCount h))) (settled ledger_of (Some h) own) s"
  unfolding wp_bind
proof (rule wp_activateI)
  show "\<not> GlPublishing (CoLoader s)" using assms by (simp add: under_lease_def)
next
  fix l :: git_loader assume "GlActiveHead l = Some h" "\<not> GlPublishing l"
  then show "(case Inr () of Inl e \<Rightarrow> settled ledger_of (Some h) own (Inl e)
      | Inr a \<Rightarrow> io_wp (io_return (ChEntryCount h)) (settled ledger_of (Some h) own)) (s \<lparr> CoLoader := l \<rparr>)"
    using assms Head_published
    by (auto simp: wp_return under_lease_def settled_def in_step_def local_known_def catalogHead_def)
qed (simp add: settled_failed [OF assms])

lemma adopt_unchanged_settled:
  assumes site: "SiRepo site = repo" and start: "under_lease ledger_of (Some h) own s" and own: "own = None \<or> own = Some h"
  shows "io_wp (adopt_unchanged site lease own h c) (settled ledger_of (Some h) own) s"
  unfolding adopt_unchanged_def site wp_try
proof (rule wp_readsI [OF read])
  fix r w assume "ledger_of w = ledger_of (CoDatabase s)" and r: "\<And>x. r = Inr x \<Longrightarrow> ReadPublication (ledger_of (CoDatabase s)) (ChGeneration h) = Inr x"
  then have start': "under_lease ledger_of (Some h) own (s \<lparr> CoDatabase := w \<rparr>)" (is "under_lease _ _ _ ?s")
    using start by (simp add: under_lease_same)
  have count: "length stored = ChEntryCount stored_head" if "r = Inr (stored_head, stored)" for stored_head stored
    using r [OF that] by (auto simp: ReadPublication_def split: sum.splits if_splits)
  show "io_wp (case r of Inl _ \<Rightarrow> io_throw ErrCatalogStartupMismatch | Inr (storedHead, stored) \<Rightarrow>
         if storedHead \<noteq> h \<or> \<not> sameCatalogEntries stored (Entries c) then io_throw ErrCatalogStartupMismatch
         else if own = None
           then io_bind (activateCandidate c storedHead ''adopt unchanged problem catalog'') (\<lambda>_. io_return (length stored))
         else io_return (length stored)) (settled ledger_of (Some h) own) ?s"
  proof (cases r)
    case (Inr x)
    then show ?thesis
      using own start' count activate_settled [OF start'] settled_failed [OF start'] settled_current
      by (cases x) (auto simp: wp_split wp_throw wp_return)
  qed (simp add: wp_throw settled_failed [OF start'])
qed

lemma adopt_upgraded_settled:
  assumes site: "SiRepo site = repo" and start: "under_lease ledger_of (Some h) own s" and own: "own = None \<or> own = Some h"
  shows "io_wp (adopt_upgraded site lease own h c) (settled ledger_of (Some h) own) s"
  unfolding adopt_upgraded_def site wp_try
proof (rule wp_readsI [OF read_legacy])
  fix r w assume "ledger_of w = ledger_of (CoDatabase s)" and r: "\<And>x. r = Inr x \<Longrightarrow> ReadLegacyPublication (ledger_of (CoDatabase s)) (ChGeneration h) = Inr x"
  then have start': "under_lease ledger_of (Some h) own (s \<lparr> CoDatabase := w \<rparr>)" (is "under_lease _ _ _ ?s")
    using start by (simp add: under_lease_same)
  have count: "length stored = ChEntryCount stored_head" if "r = Inr (stored_head, stored)" for stored_head stored
    using r [OF that] by (auto simp: ReadLegacyPublication_def Let_def split: sum.splits if_splits)
  have bound: "io_wp (io_bind (bindLegacyArtifacts site lease h c (own = None) op) (\<lambda>handled.
      if own = None \<and> \<not> handled then io_bind (activateCandidate c h op) (\<lambda>_. io_return (ChEntryCount h))
      else io_return (ChEntryCount h))) (settled ledger_of (Some h) own) ?s" for op
    unfolding wp_bind [of "bindLegacyArtifacts site lease h c (own = None) op"]
  proof (rule wp_mono [OF bindLegacyArtifacts_bound [OF site start']])
    fix b s' assume b: "legacy_bound h own c (own = None) b s'"
    show "(case b of Inl e \<Rightarrow> settled ledger_of (Some h) own (Inl e) | Inr handled \<Rightarrow>
        io_wp (if own = None \<and> \<not> handled then io_bind (activateCandidate c h op) (\<lambda>_. io_return (ChEntryCount h))
          else io_return (ChEntryCount h)) (settled ledger_of (Some h) own)) s'"
    proof (cases b)
      case (Inl e)
      then show ?thesis using b by (auto simp: legacy_bound_def bound_to_def settled_def in_step_def)
    next
      case (Inr handled)
      then show ?thesis
        using b own activate_settled [of h own s'] settled_current [of h s']
        by (auto simp: legacy_bound_def bound_to_def settled_def in_step_def wp_return split: if_splits)
    qed
  qed
  show "io_wp (case r of Inl _ \<Rightarrow> io_throw ErrCatalogStartupMismatch | Inr (storedHead, stored) \<Rightarrow>
         if storedHead \<noteq> h \<or> \<not> sameCatalogProjection stored (Problems c) then io_throw ErrCatalogStartupMismatch
         else io_bind (bindLegacyArtifacts site lease h c (own = None) ''adopt upgraded legacy problem catalog'') (\<lambda>handled.
           if own = None \<and> \<not> handled
             then io_bind (activateCandidate c h ''adopt upgraded legacy problem catalog'') (\<lambda>_. io_return (length stored))
           else io_return (length stored))) (settled ledger_of (Some h) own) ?s"
  proof (cases r)
    case (Inr x)
    then show ?thesis
      using count bound settled_failed [OF start'] by (cases x) (simp only: sum.case prod.case wp_split(1) wp_throw, auto)
  qed (simp add: wp_throw settled_failed [OF start'])
qed

lemma refuse_rollback_settled:
  assumes site: "SiRepo site = repo" and start: "under_lease ledger_of expected own s"
    and k: "\<And>s'. under_lease ledger_of expected own s' \<Longrightarrow> io_wp (k ()) (settled ledger_of expected own) s'"
  shows "io_wp (io_bind (refuse_rollback site lease ref) k) (settled ledger_of expected own) s"
  unfolding refuse_rollback_def site wp_bind
proof (rule wp_readsI [OF find_publication])
  fix r w assume "ledger_of w = ledger_of (CoDatabase s)"
  then have start': "under_lease ledger_of expected own (s \<lparr> CoDatabase := w \<rparr>)" using start by (simp add: under_lease_same)
  show "(case r of
      Inl e \<Rightarrow> (case Inl e of Inl e \<Rightarrow> settled ledger_of expected own (Inl e) | Inr a \<Rightarrow> io_wp (k a) (settled ledger_of expected own))
    | Inr prior \<Rightarrow> io_wp (io_require (prior = None) ErrCatalogRollback) (\<lambda>r. case r of
        Inl e \<Rightarrow> settled ledger_of expected own (Inl e) | Inr a \<Rightarrow> io_wp (k a) (settled ledger_of expected own))) (s \<lparr> CoDatabase := w \<rparr>)"
    using settled_failed [OF start'] k [OF start'] by (cases r) (simp_all add: wp_require)
qed

lemma publish_new_settled:
  fixes site :: "('f, 'w) site"
  assumes site: "SiRepo site = repo" and start: "under_lease ledger_of expected own s"
  shows "io_wp (publish_new site lease expected identity c) (settled ledger_of expected own) s"
  unfolding publish_new_def
proof (rule refuse_rollback_settled [OF site start])
  fix s' :: "('f, 'w) coordinator" assume start': "under_lease ledger_of expected own s'"
  show "io_wp (io_bind (case legacyIdentity c of Inl _ \<Rightarrow> io_return () | Inr legacy \<Rightarrow> refuse_rollback site lease legacy) (\<lambda>_.
      publishCandidate site lease expected c)) (settled ledger_of expected own) s'"
    using publishCandidate_settled [OF site start'] refuse_rollback_settled [OF site start' publishCandidate_settled [OF site]]
    by (cases "legacyIdentity c") (simp_all add: wp_bind [of "io_return ()"] wp_return)
qed

lemma sync_compared_settled:
  assumes site: "SiRepo site = repo" and start: "under_lease ledger_of expected own s"
  shows "io_wp (sync_compared site lease c expected own) (settled ledger_of expected own) s"
proof (cases "own \<noteq> None \<and> own \<noteq> expected")
  case True
  then show ?thesis
    using start by (simp add: sync_compared_def sameCatalogHead_def wp_poisoned settled_poison under_lease_def)
next
  case False
  have "io_wp (sync_identified site lease c own expected identity) (settled ledger_of expected own) s" for identity
  proof (cases expected)
    case None
    then show ?thesis unfolding sync_identified_def using publish_new_settled [OF site start] by simp
  next
    case (Some h)
    then have own: "own = None \<or> own = Some h" and "under_lease ledger_of (Some h) own s" using False start by auto
    then show ?thesis
      unfolding sync_identified_def Some option.case wp_split
      using publish_new_settled [OF site start] adopt_unchanged_settled [OF site _ own] adopt_upgraded_settled [OF site _ own]
      by (simp add: Some)
  qed
  then show ?thesis
    using False settled_failed [OF start] unfolding sync_compared_def
    by (cases "Identity c") (auto simp: sameCatalogHead_def wp_bind wp_from_sum)
qed

lemma syncCandidateUnderLease_settled:
  assumes site: "SiRepo site = repo" and start: "under_lease ledger_of expected own s"
  shows "io_wp (syncCandidateUnderLease site lease c) (settled ledger_of expected own) s"
  unfolding syncCandidateUnderLease_def site wp_bind
proof (rule wp_readsI [OF head])
  fix r :: "catalog_error + catalog_head option" and w
  assume w: "ledger_of w = ledger_of (CoDatabase s)" and r: "\<And>x. r = Inr x \<Longrightarrow> Head (ledger_of (CoDatabase s)) = Inr x"
  have start': "under_lease ledger_of expected own (s \<lparr> CoDatabase := w \<rparr>)" using start w by (simp add: under_lease_same)
  then have "\<And>x. r = Inr x \<Longrightarrow> x = expected" "catalogHead (CoLoader (s \<lparr> CoDatabase := w \<rparr>)) = own"
    using start r by (auto simp: under_lease_def)
  then show "(case r of Inl e \<Rightarrow> settled ledger_of expected own (Inl e) | Inr persistedHead \<Rightarrow>
      io_wp (peek (\<lambda>s. catalogHead (CoLoader s)) (sync_compared site lease c persistedHead)) (settled ledger_of expected own))
      (s \<lparr> CoDatabase := w \<rparr>)"
    using settled_failed [OF start'] sync_compared_settled [OF site start'] by (cases r) (auto simp: wp_peek)
qed

section \<open>Whole operations\<close>

text \<open>
  How an operation ends that took its lease itself, so that other writers may have run before: a result of \<open>None\<close> asks for another
  attempt.
\<close>

definition finished :: "catalog_head option \<Rightarrow> catalog_error + nat option \<Rightarrow> ('f, 'w) coordinator \<Rightarrow> bool" where
  "finished own r s \<longleftrightarrow>
     local_known ledger_of s \<and> \<not> GlPublishing (CoLoader s) \<and> (r = Inr None \<longrightarrow> catalogHead (CoLoader s) = own) \<and>
     (CoPoisoned s = None \<longrightarrow>
       (case r of
          Inr (Some n) \<Rightarrow> \<exists>h. catalogHead (CoLoader s) = Some h \<and> Head (ledger_of (CoDatabase s)) = Inr (Some h) \<and> n = ChEntryCount h
        | _ \<Rightarrow> catalogHead (CoLoader s) = own))"

definition idle :: "catalog_head option \<Rightarrow> ('f, 'w) coordinator \<Rightarrow> bool" where
  "idle own s \<longleftrightarrow> local_known ledger_of s \<and> \<not> GlPublishing (CoLoader s) \<and> catalogHead (CoLoader s) = own"

lemma idle_failed: "idle own s \<Longrightarrow> finished own (Inl e) s" and idle_retry: "idle own s \<Longrightarrow> finished own (Inr None) s"
  by (simp_all add: idle_def finished_def)

lemma idle_files [simp]: "idle own (s \<lparr> CoFiles := f \<rparr>) = idle own s"
  by (simp add: idle_def local_known_def)

lemma idle_same: "ledger_of w = ledger_of (CoDatabase s) \<Longrightarrow> idle own (s \<lparr> CoDatabase := w \<rparr>) = idle own s"
  by (simp add: idle_def local_known_def)

lemma idle_advanced: "idle own s \<Longrightarrow> advanced (ledger_of (CoDatabase s)) (ledger_of w) \<Longrightarrow> idle own (s \<lparr> CoDatabase := w \<rparr>)"
  using local_known_advanced by (auto simp: idle_def)

lemma idle_leased: "idle own s \<Longrightarrow> \<exists>expected. under_lease ledger_of expected own s"
  using Head_log by (auto simp: idle_def under_lease_def local_known_def)

lemma idle_poison: "idle own s \<Longrightarrow> finished own r (poison e s)"
  by (simp add: idle_def finished_def)

lemma finished_close:
  assumes "SiRepo site = repo" shows "finished own r (close_lease site lease s) = finished own r s"
  unfolding finished_def in_step_close(2) [OF assms] close_lease_simps [OF assms] by (rule refl)

lemma settled_finished: "settled ledger_of expected own (map_sum id f r) s \<Longrightarrow> finished own (map_sum id (\<lambda>x. Some (f x)) r) s"
  by (cases r) (auto simp: settled_def in_step_def finished_def)

text \<open>A call before the lease, and the lease.\<close>

lemma wp_callI:
  assumes "leaves ledger_of call" and "idle own s"
    and "\<And>s'. idle own s' \<Longrightarrow> CoPoisoned s' = CoPoisoned s \<Longrightarrow> io_wp (k x) Q s'" and "\<And>e s'. idle own s' \<Longrightarrow> Q (Inl e) s'"
  shows "io_wp (io_bind (ask call) (\<lambda>_. k x)) Q s"
  unfolding wp_bind
proof (rule wp_leavesI [OF assms(1)])
  fix r w assume "ledger_of w = ledger_of (CoDatabase s)"
  then have "idle own (s \<lparr> CoDatabase := w \<rparr>)" using assms(2) by (simp add: idle_same)
  then show "(case r of Inl e \<Rightarrow> Q (Inl e) | Inr a \<Rightarrow> io_wp (k x) Q) (s \<lparr> CoDatabase := w \<rparr>)"
    using assms(3,4) by (cases r) simp_all
qed

lemma wp_acquireI:
  assumes "idle own s" and "\<And>lease s'. idle own s' \<Longrightarrow> io_wp (k lease) Q s'" and "\<And>e s'. idle own s' \<Longrightarrow> Q (Inl e) s'"
  shows "io_wp (io_bind (ask (RpAcquireCatalogPublicationLease repo)) k) Q s"
  unfolding wp_bind
proof (rule wp_advancesI [OF acquire])
  fix r w assume "advanced (ledger_of (CoDatabase s)) (ledger_of w)"
  then have "idle own (s \<lparr> CoDatabase := w \<rparr>)" by (rule idle_advanced [OF assms(1)])
  then show "(case r of Inl e \<Rightarrow> Q (Inl e) | Inr a \<Rightarrow> io_wp (k a) Q) (s \<lparr> CoDatabase := w \<rparr>)"
    using assms(2,3) by (cases r) simp_all
qed

lemma wp_headI:
  assumes "idle own s"
    and "\<And>h s'. under_lease ledger_of h own s' \<Longrightarrow> io_wp (k h) Q s'" and "\<And>e s'. idle own s' \<Longrightarrow> Q (Inl e) s'"
  shows "io_wp (io_bind (ask (RpHead repo lease)) k) Q s"
  unfolding wp_bind
proof (rule wp_readsI [OF head])
  fix r :: "catalog_error + catalog_head option" and w
  assume w: "ledger_of w = ledger_of (CoDatabase s)" and r: "\<And>x. r = Inr x \<Longrightarrow> Head (ledger_of (CoDatabase s)) = Inr x"
  have "under_lease ledger_of h own (s \<lparr> CoDatabase := w \<rparr>)" if "r = Inr h" for h
    using assms(1) w r that by (simp add: idle_def under_lease_def local_known_same)
  moreover have "idle own (s \<lparr> CoDatabase := w \<rparr>)" using assms(1) w by (simp add: idle_same)
  ultimately show "(case r of Inl e \<Rightarrow> Q (Inl e) | Inr a \<Rightarrow> io_wp (k a) Q) (s \<lparr> CoDatabase := w \<rparr>)"
    using assms(2,3) by (cases r) simp_all
qed

lemma with_lease_finished:
  fixes site :: "('f, 'w) site"
  assumes site: "SiRepo site = repo" and "idle own s"
    and k: "\<And>lease s'. idle own s' \<Longrightarrow> io_wp (k lease) (\<lambda>r. finished own (map_sum id f r)) s'"
  shows "io_wp (with_lease site k) (\<lambda>r. finished own (map_sum id f r)) s"
  unfolding with_lease_def site
  by (rule wp_callI [OF gates(2) assms(2)], rule wp_acquireI)
    (auto simp: wp_defer finished_close [OF site] intro: k idle_failed)

text \<open>The result of a final phase: a count, or another attempt.\<close>

definition tries :: "nat \<times> bool \<Rightarrow> nat option" where
  "tries r = (if snd r then None else Some (fst r))"

lemma sync_under_lease_finished:
  assumes "SiRepo site = repo" and "idle own s"
  shows "io_wp (syncCandidateUnderLease site lease c) (\<lambda>r. finished own (map_sum id Some r)) s"
proof -
  obtain expected where "under_lease ledger_of expected own s" using idle_leased [OF assms(2)] by blast
  from syncCandidateUnderLease_settled [OF assms(1) this] show ?thesis
    by (rule wp_mono) (use settled_finished [where f = id] in \<open>simp add: sum.map_id\<close>)
qed

lemma wp_buildI:
  assumes store: "store_answers (SiStore site)" and idle: "idle own s" and "\<And>c s'. idle own s' \<Longrightarrow> io_wp (k c) Q s'" and "\<And>e s'. idle own s' \<Longrightarrow> Q (Inl e) s'"
  shows "io_wp (io_bind (build site) (\<lambda>c. io_bind (ensure_candidate site c) (\<lambda>_. k c))) Q s"
  unfolding build_def ensure_candidate_def wp_bind wp_peek
proof (rule wp_actI [OF total_BuildCandidate])
  fix r f show "(case r of Inl e \<Rightarrow> Q (Inl e) | Inr c \<Rightarrow> io_wp (act (ensureArtifacts (SiYaml site) (SiCheckout site) (SiStore site) c))
      (\<lambda>r. case r of Inl e \<Rightarrow> Q (Inl e) | Inr _ \<Rightarrow> io_wp (k c) Q)) (s \<lparr> CoFiles := f \<rparr>)"
    using assms by (cases r) (auto intro!: wp_actI total_ensureArtifacts split: sum.split)
qed

lemma Sync_finished:
  fixes site :: "('f, 'w) site"
  assumes site: "SiRepo site = repo" and store: "store_answers (SiStore site)" and "idle own s"
  shows "io_wp (Sync site) (\<lambda>r. finished own (map_sum id Some r)) s"
  unfolding Sync_def site
proof (rule wp_callI [OF gates(1) assms(3)])
  fix s' :: "('f, 'w) coordinator" assume "idle own s'"
  then show "io_wp (io_bind check_health (\<lambda>_. io_bind (build site) (\<lambda>c. io_bind (ensure_candidate site c) (\<lambda>_.
      with_lease site (\<lambda>lease. syncCandidateUnderLease site lease c))))) (\<lambda>r. finished own (map_sum id Some r)) s'"
    unfolding wp_bind [of check_health] wp_check_health
    by (auto split: option.split intro!: wp_buildI [OF store] with_lease_finished [OF site] sync_under_lease_finished [OF site] simp: idle_failed)
qed (simp add: idle_failed)

subsection \<open>Start-up\<close>

lemma read_snapshot_idle:
  assumes "SiRepo site = repo" and "idle own s" shows "io_wp (read_snapshot site lease h) (\<lambda>_. idle own) s"
proof -
  have legacy: "io_wp (ask (RpReadLegacyPublication repo lease g)) (\<lambda>_. idle own) s'" if "idle own s'" for g s'
    by (rule wp_readsI [OF read_legacy]) (use that in \<open>simp add: idle_same\<close>)
  have "io_wp (ask (RpReadPublication repo lease (ChGeneration h))) (\<lambda>_. idle own) s"
    by (rule wp_readsI [OF read]) (use assms(2) in \<open>simp add: idle_same\<close>)
  then show ?thesis
    unfolding read_snapshot_def assms(1) wp_try
    by (rule wp_mono) (auto simp: wp_simps split: sum.split prod.split intro: wp_mono [OF legacy])
qed

lemma readStartupSnapshot_idle:
  fixes site :: "('f, 'w) site"
  assumes site: "SiRepo site = repo" and "idle own s" shows "io_wp (readStartupSnapshot site) (\<lambda>_. idle own) s"
proof -
  have shut: "idle own (close_lease site lease s') = idle own s'" for lease s'
    by (simp add: idle_def in_step_close [OF site] close_lease_simps [OF site])
  have closing: "io_wp (io_bind (ask (RpClose repo lease)) (\<lambda>_. io_return r)) (\<lambda>_. idle own) s'" if "idle own s'" for lease r s'
    by (rule wp_callI [OF close(1) that, where k = "\<lambda>_. io_return r"]) (simp_all add: wp_return)
  have body: "io_wp (io_cleanup (close_lease site lease) (io_bind (ask (RpHead repo lease)) (\<lambda>head. case head of
        None \<Rightarrow> io_return None
      | Some h \<Rightarrow> io_bind (read_snapshot site lease h) (\<lambda>snapshot. io_return (Some snapshot))))) (\<lambda>_. idle own) s'"
    if "idle own s'" for lease s'
  proof -
    have "io_wp (io_bind (ask (RpHead repo lease)) (\<lambda>head. case head of
        None \<Rightarrow> io_return None
      | Some h \<Rightarrow> io_bind (read_snapshot site lease h) (\<lambda>snapshot. io_return (Some snapshot)))) (\<lambda>_. idle own) s'"
    proof (rule wp_headI [OF that])
      fix h :: "catalog_head option" and s'' :: "('f, 'w) coordinator"
      assume "under_lease ledger_of h own s''"
      then have "idle own s''" by (simp add: idle_def under_lease_def)
      then show "io_wp (case h of None \<Rightarrow> io_return None
          | Some h \<Rightarrow> io_bind (read_snapshot site lease h) (\<lambda>snapshot. io_return (Some snapshot))) (\<lambda>_. idle own) s''"
        by (cases h) (auto simp: wp_simps split: sum.split intro: wp_mono [OF read_snapshot_idle [OF site]])
    qed
    then show ?thesis unfolding wp_cleanup by (rule wp_mono) (auto simp: shut split: sum.split)
  qed
  show ?thesis
    unfolding readStartupSnapshot_def site
  proof (rule wp_acquireI [OF assms(2)])
    fix lease and s' :: "('f, 'w) coordinator" assume "idle own s'"
    from body [OF this, of lease] show "io_wp (io_bind (io_cleanup (close_lease site lease)
        (io_bind (ask (RpHead repo lease)) (\<lambda>head. case head of
          None \<Rightarrow> io_return None | Some h \<Rightarrow> io_bind (read_snapshot site lease h) (\<lambda>snapshot. io_return (Some snapshot)))))
        (\<lambda>result. io_bind (ask (RpClose repo lease)) (\<lambda>_. io_return result))) (\<lambda>_. idle own) s'"
      unfolding wp_bind [of "io_cleanup _ _"] by (rule wp_mono) (auto split: sum.split intro: closing)
  qed simp
qed

lemma prepareStartupSnapshot_finished:
  assumes site: "SiRepo site = repo" and store: "store_answers (SiStore site)" and s: "idle own s"
  shows "io_wp (prepareStartupSnapshot site snapshot) (\<lambda>r s'. case r of
      Inl e \<Rightarrow> finished own (Inl e) s'
    | Inr _ \<Rightarrow> idle own s' \<and> (own = None \<or> own = Some (SsHead snapshot))) s"
    (is "io_wp _ ?Q s")
proof (cases "own = None \<or> own = Some (SsHead snapshot)")
  case True
  have legacy: "io_wp (prepare_legacy site snapshot) ?Q s"
    unfolding prepare_legacy_def by (rule wp_buildI [OF store s]) (use True in \<open>auto simp: wp_simps idle_failed split: sum.split\<close>)
  have bound: "io_wp (io_try (act m) (\<lambda>r. case r of
         Inl e \<Rightarrow> if b e then poisonedError op else io_throw e
       | Inr c \<Rightarrow> if p c then (if q then poisonedError op' else io_throw e') else io_return c)) ?Q s" if "io_total m" for m b op p q op' e'
    unfolding wp_try by (rule wp_actI [OF that]) (use s True in \<open>auto simp: wp_simps idle_failed idle_poison split: sum.split\<close>)
  show ?thesis
    unfolding prepareStartupSnapshot_def wp_peek wp_split(1)
    by (simp only: wp_poisoned bound [OF total_candidateFromEntries [OF store]] legacy sum.case idle_poison [OF s] if_cancel)
next
  case False
  then show ?thesis
    using s by (auto simp: prepareStartupSnapshot_def wp_peek wp_poisoned idle_poison sameCatalogHead_def idle_def)
qed

lemma finalizeEmptyStartup_finished:
  fixes site :: "('f, 'w) site"
  assumes site: "SiRepo site = repo" and s: "idle own s"
  shows "io_wp (finalizeEmptyStartup site c) (\<lambda>r. finished own (map_sum id tries r)) s"
  unfolding finalizeEmptyStartup_def site
proof (rule with_lease_finished [OF site s])
  fix lease and s' :: "('f, 'w) coordinator" assume "idle own s'"
  then show "io_wp (io_bind (ask (RpHead repo lease)) (\<lambda>head. if head \<noteq> None then io_return (0, True)
      else io_bind (publishCandidate site lease None c) (\<lambda>count. io_return (count, False)))) (\<lambda>r. finished own (map_sum id tries r)) s'"
  proof (rule wp_headI)
    fix h and s'' :: "('f, 'w) coordinator" assume lease: "under_lease ledger_of h own s''"
    have "idle own s''" using lease by (simp add: idle_def under_lease_def)
    then have "finished own (Inr (tries (0, True))) s''" by (simp add: tries_def idle_retry)
    moreover have "io_wp (io_bind (publishCandidate site lease None c) (\<lambda>count. io_return (count, False)))
        (\<lambda>r. finished own (map_sum id tries r)) s''" if "h = None"
      using publishCandidate_settled [OF site lease [unfolded that]] unfolding wp_bind
      by (rule wp_mono) (auto simp: wp_return tries_def settled_def in_step_def finished_def split: sum.splits)
    ultimately show "io_wp (if h \<noteq> None then io_return (0, True)
        else io_bind (publishCandidate site lease None c) (\<lambda>count. io_return (count, False))) (\<lambda>r. finished own (map_sum id tries r)) s''"
      by (simp add: wp_return)
  qed (simp add: idle_failed)
qed

lemma finalize_bound_finished:
  assumes site: "SiRepo site = repo" and lease: "under_lease ledger_of (Some h) own s" and h: "SsHead snapshot = h"
    and own: "own = None \<or> own = Some h"
  shows "io_wp (finalize_bound site lease' snapshot c) (\<lambda>r. finished own (map_sum id tries r)) s"
  unfolding finalize_bound_def site wp_try h
proof (rule wp_readsI [OF read])
  fix r :: "catalog_error + catalog_head \<times> catalog_entry list" and w
  assume w: "ledger_of w = ledger_of (CoDatabase s)"
    and r: "\<And>x. r = Inr x \<Longrightarrow> ReadPublication (ledger_of (CoDatabase s)) (ChGeneration h) = Inr x"
  let ?s = "s \<lparr> CoDatabase := w \<rparr>"
  have lease': "under_lease ledger_of (Some h) own ?s" using lease w by (simp add: under_lease_same)
  then have failed: "finished own (Inl e) ?s" for e by (intro idle_failed) (simp add: idle_def under_lease_def)
  have count: "length es = ChEntryCount sh" if "r = Inr (sh, es)" for sh es
    using r [OF that] by (auto simp: ReadPublication_def split: sum.splits if_splits)
  have current: "finished own (Inr (Some (ChEntryCount h))) ?s" if "own = Some h"
    using lease' that by (simp add: finished_def under_lease_def)
  have active: "io_wp (io_bind (activateCandidate c h op) (\<lambda>_. io_return (ChEntryCount h, False))) (\<lambda>r. finished own (map_sum id tries r)) ?s" for op
    using activate_settled [OF lease', of c op] unfolding wp_bind wp_return
    by (rule wp_mono) (auto simp: tries_def settled_def in_step_def finished_def split: sum.splits)
  show "io_wp (case r of Inl _ \<Rightarrow> io_throw ErrCatalogStartupMismatch | Inr (storedHead, entries) \<Rightarrow>
      if storedHead \<noteq> h \<or> \<not> sameCatalogEntries entries (SsEntries snapshot) then io_throw ErrCatalogStartupMismatch
      else peek (\<lambda>s. catalogHead (CoLoader s)) (\<lambda>localHead.
        if localHead \<noteq> None then io_return (length entries, False)
        else io_bind (activateCandidate c h ''adopt persisted problem catalog'') (\<lambda>_. io_return (length entries, False))))
      (\<lambda>r. finished own (map_sum id tries r)) ?s"
  proof (cases r)
    case (Inr x)
    have "catalogHead (CoLoader ?s) = own" using lease' by (simp add: under_lease_def)
    then show ?thesis
      unfolding Inr sum.case
      using count [of "fst x" "snd x"] Inr failed current active own
      by (cases x) (auto simp: wp_split(1,3) wp_throw wp_return wp_peek tries_def)
  qed (simp add: wp_throw failed)
qed

lemma finalize_legacy_finished:
  assumes site: "SiRepo site = repo" and lease: "under_lease ledger_of (Some h) own s" and h: "SsHead snapshot = h"
  shows "io_wp (finalize_legacy site lease' snapshot c) (\<lambda>r. finished own (map_sum id tries r)) s"
  unfolding finalize_legacy_def site wp_try h
proof (rule wp_readsI [OF read_legacy])
  fix r :: "catalog_error + catalog_head \<times> problem list" and w
  assume w: "ledger_of w = ledger_of (CoDatabase s)"
  let ?s = "s \<lparr> CoDatabase := w \<rparr>"
  have lease': "under_lease ledger_of (Some h) own ?s" using lease w by (simp add: under_lease_same)
  then have failed: "finished own (Inl e) ?s" for e by (intro idle_failed) (simp add: idle_def under_lease_def)
  have active: "io_wp (io_bind (activateCandidate c h op) (\<lambda>_. io_return (length (CcIds c), False))) (\<lambda>r. finished own (map_sum id tries r)) s'"
    if lease: "under_lease ledger_of (Some h) own s'" for op s'
    unfolding wp_bind wp_return
    by (rule wp_activateI) (use lease Head_published in \<open>auto simp: finished_def under_lease_def local_known_def tries_def catalogHead_def\<close>)
  have bound: "io_wp (io_bind (bindLegacyArtifacts site lease'' h c True op) (\<lambda>handled.
      io_bind (if handled then io_return () else activateCandidate c h op') (\<lambda>_. io_return (length (CcIds c), False))))
      (\<lambda>r. finished own (map_sum id tries r)) ?s" for lease'' op op'
    unfolding wp_bind [of "bindLegacyArtifacts site lease'' h c True op"]
  proof (rule wp_mono [OF bindLegacyArtifacts_bound [OF site lease']])
    fix b s' assume b: "legacy_bound h own c True b s'"
    show "(case b of Inl e \<Rightarrow> (\<lambda>s'. finished own (map_sum id tries (Inl e)) s') | Inr handled \<Rightarrow>
        io_wp (io_bind (if handled then io_return () else activateCandidate c h op') (\<lambda>_. io_return (length (CcIds c), False)))
          (\<lambda>r. finished own (map_sum id tries r))) s'"
      using b active
      by (auto simp: legacy_bound_def bound_to_def finished_def tries_def wp_bind [of "io_return ()"] wp_return split: sum.split if_splits)
  qed
  show "io_wp (case r of Inl _ \<Rightarrow> io_throw ErrCatalogStartupMismatch | Inr (storedHead, problems) \<Rightarrow>
      if storedHead \<noteq> h \<or> \<not> sameCatalogProjection problems (SsLegacyProblems snapshot) then io_throw ErrCatalogStartupMismatch
      else io_bind (bindLegacyArtifacts site lease' h c True ''adopt artifact-bound legacy problem catalog'') (\<lambda>handled.
        io_bind (if handled then io_return () else activateCandidate c h ''adopt artifact-bound legacy problem catalog'') (\<lambda>_.
        io_return (length (CcIds c), False)))) (\<lambda>r. finished own (map_sum id tries r)) ?s"
    using bound failed by (cases r) (auto simp only: sum.case wp_split(1,3) wp_throw map_sum.simps id_apply split: prod.split if_splits)
qed

lemma finalizeStartupSnapshot_finished:
  fixes site :: "('f, 'w) site"
  assumes site: "SiRepo site = repo" and s: "idle own s" and own: "own = None \<or> own = Some (SsHead snapshot)"
  shows "io_wp (finalizeStartupSnapshot site snapshot c) (\<lambda>r. finished own (map_sum id tries r)) s"
  unfolding finalizeStartupSnapshot_def site
proof (rule with_lease_finished [OF site s], rule wp_headI, assumption)
  fix lease h and s' :: "('f, 'w) coordinator" assume lease: "under_lease ledger_of h own s'"
  then have "idle own s'" "catalogHead (CoLoader s') = own" by (simp_all add: idle_def under_lease_def)
  then show "io_wp (if \<not> sameCatalogHead h (Some (SsHead snapshot)) then
       peek (\<lambda>s. catalogHead (CoLoader s)) (\<lambda>localHead.
         if localHead \<noteq> None then poisonedError ''persisted catalog head changed while revalidating active artifacts''
         else io_return (0, True))
     else if SsLegacy snapshot then finalize_legacy site lease snapshot c
     else finalize_bound site lease snapshot c) (\<lambda>r. finished own (map_sum id tries r)) s'"
    using finalize_legacy_finished [OF site _ refl] finalize_bound_finished [OF site _ refl own] lease
    by (auto simp: wp_split(1) wp_peek wp_poisoned wp_return sameCatalogHead_def idle_poison idle_retry tries_def)
qed (simp add: idle_failed)

lemma startup_attempt_finished:
  fixes site :: "('f, 'w) site"
  assumes site: "SiRepo site = repo" and store: "store_answers (SiStore site)" and s: "idle own s"
  shows "io_wp (startup_attempt site) (\<lambda>r. finished own (map_sum id tries r)) s"
  unfolding startup_attempt_def wp_bind [of "readStartupSnapshot site"]
proof (rule wp_mono [OF readStartupSnapshot_idle [OF site s]])
  fix r and s' :: "('f, 'w) coordinator" assume idle: "idle own s'"
  have empty: "io_wp (io_bind (build site) (\<lambda>c. io_bind (ensure_candidate site c) (\<lambda>_. finalizeEmptyStartup site c)))
      (\<lambda>r. finished own (map_sum id tries r)) s'"
    by (rule wp_buildI [OF store idle]) (auto intro: finalizeEmptyStartup_finished [OF site] idle_failed)
  have snap: "io_wp (io_bind (prepareStartupSnapshot site sn) (\<lambda>c. finalizeStartupSnapshot site sn c))
      (\<lambda>r. finished own (map_sum id tries r)) s'" for sn
    using prepareStartupSnapshot_finished [OF site store idle] unfolding wp_bind
    by (rule wp_mono) (auto split: sum.splits intro: finalizeStartupSnapshot_finished [OF site])
  show "(case r of Inl e \<Rightarrow> (\<lambda>s'. finished own (map_sum id tries (Inl e)) s') | Inr snapshot \<Rightarrow>
      io_wp (case snapshot of None \<Rightarrow> io_bind (build site) (\<lambda>c. io_bind (ensure_candidate site c) (\<lambda>_. finalizeEmptyStartup site c))
        | Some sn \<Rightarrow> io_bind (prepareStartupSnapshot site sn) (finalizeStartupSnapshot site sn))
        (\<lambda>r. finished own (map_sum id tries r))) s'"
    using empty snap idle by (cases r) (simp_all add: idle_failed split: option.split)
qed

lemma startup_attempts_finished:
  fixes site :: "('f, 'w) site"
  assumes site: "SiRepo site = repo" and store: "store_answers (SiStore site)"
  shows "idle own s \<Longrightarrow> io_wp (startup_attempts n site) (\<lambda>r. finished own (map_sum id Some r)) s"
proof (induction n arbitrary: s)
  case 0
  then show ?case by (simp add: wp_throw idle_failed)
next
  case (Suc n)
  show ?case
    unfolding startup_attempts.simps wp_bind
  proof (rule wp_mono [OF startup_attempt_finished [OF site store Suc.prems]])
    fix r and s' :: "('f, 'w) coordinator" assume r: "finished own (map_sum id tries r) s'"
    show "(case r of Inl e \<Rightarrow> (\<lambda>s'. finished own (map_sum id Some (Inl e)) s') | Inr a \<Rightarrow>
        io_wp (case a of (count, retry) \<Rightarrow> if retry then startup_attempts n site else io_return count)
          (\<lambda>r. finished own (map_sum id Some r))) s'"
    proof (cases "r")
      case (Inr a)
      obtain count retry where a: "a = (count, retry)" by (cases a)
      have "idle own s'" if retry using r that by (simp add: Inr a tries_def finished_def idle_def)
      then show ?thesis using r by (cases retry) (simp_all add: Inr a tries_def wp_return Suc.IH)
    qed (use r in simp)
  qed
qed

lemma Startup_finished:
  fixes site :: "('f, 'w) site"
  assumes site: "SiRepo site = repo" and store: "store_answers (SiStore site)" and "idle own s"
  shows "io_wp (Startup site) (\<lambda>r. finished own (map_sum id Some r)) s"
  unfolding Startup_def site
proof (rule wp_callI [OF gates(1) assms(3)])
  fix s' :: "('f, 'w) coordinator" assume "idle own s'"
  then show "io_wp (io_bind check_health (\<lambda>_. startup_attempts catalogStartupSnapshotAttempts site))
      (\<lambda>r. finished own (map_sum id Some r)) s'"
    using startup_attempts_finished [OF site store]
    by (auto simp: wp_bind [of check_health] wp_check_health idle_failed split: option.split)
qed (simp add: idle_failed)

subsection \<open>Lookups\<close>

text \<open>A lookup leaves the local head alone.\<close>

lemma install_historical_idle: "idle own s \<Longrightarrow> io_wp (install_historical b) (\<lambda>_. idle own) s"
  by (auto simp: io_wp_def install_historical_def installHistoricalBundle_def Let_def idle_def local_known_def catalogHead_def
      split: if_splits option.splits)

lemma wp_thenI:
  "io_wp m (\<lambda>_. idle own) s \<Longrightarrow> (\<And>a s'. idle own s' \<Longrightarrow> io_wp (k a) (\<lambda>_. idle own) s') \<Longrightarrow> io_wp (io_bind m k) (\<lambda>_. idle own) s"
  unfolding wp_bind by (erule wp_mono) (auto split: sum.split)

lemma act_idle: "io_total m \<Longrightarrow> idle own s \<Longrightarrow> io_wp (act m) (\<lambda>_. idle own) s"
  by (rule wp_actI) simp_all

lemma advancing_idle: "advances ledger_of call \<Longrightarrow> idle own s \<Longrightarrow> io_wp (ask call) (\<lambda>_. idle own) s"
  by (rule wp_advancesI) (auto intro: idle_advanced)

lemma loadHistoricalBundle_idle:
  assumes site: "SiRepo site = repo" and store: "store_answers (SiStore site)" and "idle own s"
  shows "io_wp (loadHistoricalBundle site ref) (\<lambda>_. idle own) s"
proof -
  have "io_total (store_call (CasGet (SiStore site) r))" for r using store by (simp add: store_answers_def total_store_call)
  then show ?thesis
    unfolding loadHistoricalBundle_def site
    by (intro wp_thenI act_idle total_ck_check advancing_idle [OF find_artifact] assms(3); assumption?)
      (auto simp: wp_simps split: sum.split prod.split intro!: wp_mono [OF install_historical_idle])
qed

lemma from_history_idle:
  assumes "SiRepo site = repo" and "store_answers (SiStore site)" and "idle own s"
  shows "io_wp (from_history site lookup project ref) (\<lambda>_. idle own) s"
  using assms(3)
  by (auto simp: from_history_def wp_simps split: sum.split intro!: wp_mono [OF loadHistoricalBundle_idle [OF assms]])

lemma idle_poisoned [simp]: "idle own (poison e s) = idle own s"
  by (simp add: idle_def)

lemma AcquireActiveProblem_idle:
  assumes site: "SiRepo site = repo" and store: "store_answers (SiStore site)" and "idle own s"
  shows "io_wp (AcquireActiveProblem site i) (\<lambda>_. idle own) s"
proof -
  have gate: "io_wp (ask (RpAdmissionGate repo 1)) (\<lambda>_. idle own) s'" if "idle own s'" for s'
    by (rule wp_leavesI [OF gates(2)]) (use that in \<open>simp add: idle_same\<close>)
  have health: "io_wp check_health (\<lambda>_. idle own) s'" if "idle own s'" for s'
    using that by (simp add: wp_check_health split: option.split)
  have source: "io_wp (validate_source_artifact site ref trusted) (\<lambda>_. idle own) s'" if "idle own s'" for ref trusted s'
    unfolding validate_source_artifact_def wp_try
    by (rule wp_mono [OF loadHistoricalBundle_idle [OF site store that]]) (auto simp: wp_simps split: sum.split)
  show ?thesis
    unfolding AcquireActiveProblem_def site
    by (rule wp_thenI, rule act_idle [OF total_ck_check assms(3)], rule wp_thenI, erule gate, rule wp_thenI, erule health,
        rule wp_thenI, erule advancing_idle [OF find_active])
      (auto simp: Let_def wp_simps split: prod.split sum.split intro!: wp_mono [OF source])
qed

end

end
