(* ===== verification/Catalog_Build_Laws.thy ===== *)
theory Catalog_Build_Laws
  imports Catalog_Build Catalog_Identity "HOL-Library.Multiset"
begin

text \<open>
  What a candidate guarantees: the loader's revision is the frozen one of the artifact codec, every bundle of a built or
  restored candidate is the decoding of its artifact, and such a candidate has an identity and can be activated.
\<close>

section \<open>The revision\<close>

lemma revision_file_legacy:
  "revision_file files name =
     legacy_revision_file name (OfPresent (captureArtifactOptional files name)) (OfData (captureArtifactOptional files name))"
  by (auto simp: revision_file_def legacy_revision_file_def captureArtifactOptional_def file_text_def split: option.splits)

lemma build_stream_frozen:
  assumes "files ''problem.yaml'' = Some manifest" and "runtimeImage \<noteq> []"
  shows "build_stream files (Some lock) runtimeImage =
    revision_stream manifest (captureArtifactOptional files ''setup.sh'') (captureArtifactOptional files ''verify.sh'')
      (captureArtifactOptional files ''hint.md'') lock runtimeImage"
proof -
  have "captureArtifactOptional files ''problem.yaml'' = \<lparr> OfPresent = True, OfData = manifest \<rparr>"
    using assms(1) by (simp add: captureArtifactOptional_def)
  with assms(2) show ?thesis by (simp add: build_stream_def revision_stream_def revision_file_legacy)
qed

lemma validImageContentID_nonempty: "validImageContentID img \<Longrightarrow> img \<noteq> []"
  by (auto simp: validImageContentID_def)

lemma buildRuntimeBundle_Inr:
  assumes "buildRuntimeBundle yaml ck strict files imageLock policy w = Some (Inr bundle, w')"
  obtains py img where "yaml (file_text files ''problem.yaml'') = Some py"
    and "strict \<longrightarrow> validateApprovedImagePolicy files policy = None \<and> validImageContentID img"
    and "\<not> strict \<longrightarrow> img = []"
    and "RbRuntimeImage bundle = img" and "RbSourceTrust bundle = BundleSourceDevelopmentCheckout"
    and "RbRevision bundle = hex_encode (sha256_string (build_stream files imageLock img))"
    and "RbProblem bundle = problem_of_yaml py (PyChoices py) (file_text files ''hint.md'') \<lparr> PbRevision := RbRevision bundle \<rparr>"
  using assms
  by (auto simp: buildRuntimeBundle_def Let_def accept_def resolve_runtime_image_def io_bind_Inr io_require_Inr io_return_def
      io_throw_def split: option.splits if_splits)

section \<open>Sound candidates\<close>

text \<open>One problem of a candidate: its four maps agree, and its bundle is the decoding of its bytes.\<close>

definition entry_sound :: "(string \<Rightarrow> problem_yaml option) \<Rightarrow> catalog_candidate \<Rightarrow> string \<Rightarrow> bool" where
  "entry_sound yaml c i \<longleftrightarrow>
     (\<exists>bundle artifact data ref. map_of (CcBundles c) i = Some bundle \<and> map_of (CcArtifacts c) i = Some artifact \<and>
        map_of (CcArtifactBytes c) i = Some data \<and> map_of (CcArtifactRefs c) i = Some ref \<and>
        DecodeRuntimeArtifact yaml ref data = Inr (artifact, bundle) \<and> PbID (RbProblem bundle) = i)"

definition maps_over :: "catalog_candidate \<Rightarrow> string list \<Rightarrow> bool" where
  "maps_over c ids \<longleftrightarrow>
     distinct ids \<and> map fst (CcBundles c) = ids \<and> map fst (CcArtifacts c) = ids \<and> map fst (CcArtifactBytes c) = ids \<and>
     map fst (CcArtifactRefs c) = ids"

definition extend_candidate ::
  "catalog_candidate \<Rightarrow> string \<Rightarrow> runtime_bundle \<Rightarrow> captured_artifact \<Rightarrow> string \<Rightarrow> artifact_ref \<Rightarrow> catalog_candidate" where
  "extend_candidate c i bundle artifact data ref =
     c \<lparr> CcBundles := CcBundles c @ [(i, bundle)], CcArtifacts := CcArtifacts c @ [(i, artifact)],
        CcArtifactBytes := CcArtifactBytes c @ [(i, data)], CcArtifactRefs := CcArtifactRefs c @ [(i, ref)] \<rparr>"

lemma map_of_snoc: "map_of (xs @ [(k, v)]) i = (case map_of xs i of Some u \<Rightarrow> Some u | None \<Rightarrow> if i = k then Some v else None)"
  by (auto simp: map_add_def split: option.splits)

lemma extend_sound:
  assumes "maps_over c ids" and "\<forall>i \<in> set ids. entry_sound yaml c i" and "k \<notin> set ids"
    and "DecodeRuntimeArtifact yaml ref data = Inr (artifact, bundle)" and "PbID (RbProblem bundle) = k"
  shows "maps_over (extend_candidate c k bundle artifact data ref) (ids @ [k]) \<and>
    (\<forall>i \<in> set (ids @ [k]). entry_sound yaml (extend_candidate c k bundle artifact data ref) i)"
proof -
  have none: "map_of (CcBundles c) k = None" "map_of (CcArtifacts c) k = None" "map_of (CcArtifactBytes c) k = None"
    "map_of (CcArtifactRefs c) k = None"
    using assms(1,3) unfolding maps_over_def map_of_eq_None_iff by (metis set_map)+
  then have "entry_sound yaml (extend_candidate c k bundle artifact data ref) k"
    using assms(4,5) by (simp add: entry_sound_def extend_candidate_def map_of_snoc del: map_of_append)
  moreover have "entry_sound yaml (extend_candidate c k bundle artifact data ref) i" if "i \<in> set ids" for i
    using assms(2) that unfolding entry_sound_def
    by (fastforce simp: extend_candidate_def map_of_snoc simp del: map_of_append)
  ultimately show ?thesis using assms(1,3) by (auto simp: maps_over_def extend_candidate_def)
qed

lemma add_artifact_Inr:
  "add_artifact yaml captured i c = Inr c' \<longleftrightarrow>
     (\<exists>data ref artifact bundle. EncodeRuntimeArtifact yaml (the (map_of captured i)) = Inr (data, ref) \<and>
        DecodeRuntimeArtifact yaml ref data = Inr (artifact, bundle) \<and> c' = extend_candidate c i bundle artifact data ref)"
  by (auto simp: add_artifact_def extend_candidate_def split: sum.splits prod.splits)

lemma decoded_bundle:
  assumes "DecodeRuntimeArtifact yaml ref data = Inr (artifact, bundle)"
  shows "PbID (RbProblem bundle) = PbID (AcProblem artifact)" "PbRevision (RbProblem bundle) = RbRevision bundle"
    "length (RbRevision bundle) = 64" "validProblemID (PbID (RbProblem bundle))" "RbSourceTrust bundle = BundleSourceDevelopmentCheckout"
    "ref = runtimeArtifactRef data" "0 < length data"
proof -
  note v = decoded_canonical(1) [OF assms]
  show "ref = runtimeArtifactRef data" "0 < length data"
    using decoded_canonical(2) [OF assms] unfolding encode_Inr by (auto simp: artifact_bytes_def runtimeArtifactMagic_def)
  from v obtain py where b: "validateLoadedProblem (sourced_problem artifact py) = []"
      "runtimeProblemProjectionEqual (sourced_problem artifact py) (AcProblem artifact)"
      "RbProblem bundle = sourced_problem artifact py" "RbRevision bundle = artifact_revision artifact"
    unfolding validate_Inr by auto
  then show "PbID (RbProblem bundle) = PbID (AcProblem artifact)" "length (RbRevision bundle) = 64"
    "validProblemID (PbID (RbProblem bundle))" "PbRevision (RbProblem bundle) = RbRevision bundle"
    using projection_equal_fields(1) [OF b(2)]
    by (simp_all add: validateLoadedProblem_Nil validateProblem_Nil sourced_problem_def)
  show "RbSourceTrust bundle = BundleSourceDevelopmentCheckout"
    using v validated_sizes(10) [OF v] unfolding validate_Inr by auto
qed

lemma encoded_then_decoded_id:
  assumes "EncodeRuntimeArtifact yaml a = Inr (data, ref)" and "DecodeRuntimeArtifact yaml ref data = Inr (artifact, bundle)"
  shows "PbID (RbProblem bundle) = PbID (AcProblem a)"
proof -
  have "artifact = cloneCapturedRuntimeArtifact a"
    using assms(2) unfolding decode_encoded [OF assms(1)]
    by (auto split: sum.splits simp: map_sum_def)
  then show ?thesis using decoded_bundle(1) [OF assms(2)] by (simp add: cloneCapturedRuntimeArtifact_def)
qed

lemma add_artifacts_sound:
  assumes "add_artifacts yaml captured ids c = Inr c'" and "maps_over c done_ids" and "\<forall>i \<in> set done_ids. entry_sound yaml c i"
    and "distinct (done_ids @ ids)" and "\<forall>i \<in> set ids. PbID (AcProblem (the (map_of captured i))) = i"
  shows "maps_over c' (done_ids @ ids) \<and> (\<forall>i \<in> set (done_ids @ ids). entry_sound yaml c' i) \<and>
    CcIds c' = CcIds c \<and> CcOwner c' = CcOwner c \<and> CcBaseGeneration c' = CcBaseGeneration c"
  using assms
proof (induction ids arbitrary: c done_ids)
  case (Cons i ids)
  then obtain data ref artifact bnd where
      e: "EncodeRuntimeArtifact yaml (the (map_of captured i)) = Inr (data, ref)"
    and d: "DecodeRuntimeArtifact yaml ref data = Inr (artifact, bnd)"
    and rest: "add_artifacts yaml captured ids (extend_candidate c i bnd artifact data ref) = Inr c'"
    by (auto simp: add_artifact_Inr split: sum.splits)
  have k: "PbID (RbProblem bnd) = i" using encoded_then_decoded_id [OF e d] Cons.prems(5) by simp
  have i: "i \<notin> set done_ids" using Cons.prems(4) by auto
  from Cons.IH [OF rest conjunct1 conjunct2, OF extend_sound extend_sound, OF Cons.prems(2,3) i d k Cons.prems(2,3) i d k]
  show ?case using Cons.prems(4,5) by (simp add: extend_candidate_def)
qed simp

definition candidate_sound :: "(string \<Rightarrow> problem_yaml option) \<Rightarrow> catalog_candidate \<Rightarrow> bool" where
  "candidate_sound yaml c \<longleftrightarrow>
     sorted (CcIds c) \<and> (\<exists>ids. maps_over c ids \<and> mset ids = mset (CcIds c)) \<and> (\<forall>i \<in> set (CcIds c). entry_sound yaml c i)"

lemma candidate_sound_facts:
  assumes "candidate_sound yaml c"
  shows "distinct (CcIds c)" "length (CcBundles c) = length (CcIds c)" "i \<in> set (CcIds c) \<Longrightarrow> entry_sound yaml c i"
proof -
  obtain ids where ids: "maps_over c ids" "mset ids = mset (CcIds c)" using assms by (auto simp: candidate_sound_def)
  then show "distinct (CcIds c)" by (metis maps_over_def distinct_count_atmost_1 set_mset_mset mset_eq_imp_distinct_iff)
  show "length (CcBundles c) = length (CcIds c)" using ids by (metis length_map maps_over_def size_mset)
qed (use assms in \<open>auto simp: candidate_sound_def\<close>)

subsection \<open>Building\<close>

definition captured_ok :: "(string \<times> captured_artifact) list \<Rightarrow> bool" where
  "captured_ok as \<longleftrightarrow>
     distinct (map fst as) \<and> length as \<le> maxRuntimeCatalogCount \<and> (\<forall>(name, a) \<in> set as. PbID (AcProblem a) = name)"

lemma new_captured_id:
  "NewCapturedRuntimeArtifact yaml files lock bundle = Inr a \<Longrightarrow> PbID (AcProblem a) = PbID (RbProblem bundle)"
  by (auto simp: NewCapturedRuntimeArtifact_def cloneCapturedRuntimeArtifact_def Let_def split: if_splits sum.splits)

lemma ensures_accept: "(b \<Longrightarrow> io_ensures (k ()) P) \<Longrightarrow> io_ensures (io_bind (accept what b) k) P"
  unfolding accept_def by (rule ensures_require)

lemma capture_problem_ok:
  assumes "captured_ok (fst st)"
  shows "io_ensures (capture_problem yaml ck strict lock policy name files st) (\<lambda>st. captured_ok (fst st))"
proof -
  obtain artifacts total where st: "st = (artifacts, total)" by (cases st)
  have ok: "captured_ok (artifacts @ [(name, a)])"
    if "NewCapturedRuntimeArtifact yaml files (Some lock) bnd = Inr a" "PbID (RbProblem bnd) = name"
      "name \<notin> fst ` set artifacts" "\<not> maxRuntimeCatalogCount < Suc (length artifacts)" for a bnd name
    using assms that new_captured_id [OF that(1)] by (auto simp: captured_ok_def st)
  show ?thesis
    unfolding capture_problem_def st prod.case
    by (rule ensures_accept, rule ensures_then, rule ensures_accept, rule ensures_accept)
      (auto split: sum.split intro!: ensures_accept ensures_return ensures_throw intro: ok)
qed

lemma captureRuntimeCatalog_ok: "io_ensures (captureRuntimeCatalog yaml ck l) captured_ok"
proof -
  have entry: "io_ensures (capture_entry yaml ck strict lock policy fd name st) (\<lambda>st. captured_ok (fst st))"
    if "captured_ok (fst st)" for strict lock policy fd name st
    unfolding capture_entry_def capture_directory_def
    by (intro io_intros capture_problem_ok that)
  have each: "io_ensures (io_each (capture_entry yaml ck strict lock policy fd) entries ([], n)) (\<lambda>st. captured_ok (fst st))"
    for strict lock policy fd entries n
    by (rule ensures_each [OF _ entry]) (simp_all add: captured_ok_def)
  show ?thesis
    unfolding captureRuntimeCatalog_def
    by (rule ensures_then, rule ensures_defer, rule ensures_then, rule ensures_prod, rule ensures_then,
        rule ensures_bind [OF each]) (auto intro: ensures_return)
qed

lemma BuildCandidate_sound:
  "io_ensures (BuildCandidate yaml ck l)
     (\<lambda>c. GlStrict l \<and> candidate_sound yaml c \<and> CcOwner c = GlId l \<and> CcBaseGeneration c = GlGeneration l \<and>
       length (CcIds c) \<le> maxRuntimeCatalogCount)"
  unfolding BuildCandidate_def
proof (rule ensures_require, rule ensures_then, rule ensures_bind [OF captureRuntimeCatalog_ok], (rule ensures_then)+)
  fix captured assume strict: "GlStrict l" and captured: "captured_ok captured"
  let ?ids = "sort (map fst captured)"
  have "PbID (AcProblem (the (map_of captured i))) = i" if "i \<in> set ?ids" for i
  proof -
    obtain a where "(i, a) \<in> set captured" using \<open>i \<in> set ?ids\<close> by auto
    then show ?thesis using captured by (auto simp: captured_ok_def)
  qed
  moreover have "distinct ?ids" "maps_over (empty_candidate l ?ids) []"
    using captured by (simp_all add: captured_ok_def maps_over_def empty_candidate_def)
  ultimately have "candidate_sound yaml c \<and> CcOwner c = GlId l \<and> CcBaseGeneration c = GlGeneration l \<and>
      length (CcIds c) \<le> maxRuntimeCatalogCount"
    if "add_artifacts yaml captured ?ids (empty_candidate l ?ids) = Inr c" for c
    using add_artifacts_sound [OF that, of "[]"] captured by (auto simp: candidate_sound_def empty_candidate_def captured_ok_def)
  then show "io_ensures (let ids = ?ids in case add_artifacts yaml captured ids (empty_candidate l ids) of
        Inl e \<Rightarrow> io_throw e | Inr c \<Rightarrow> io_return c)
     (\<lambda>c. GlStrict l \<and> candidate_sound yaml c \<and> CcOwner c = GlId l \<and> CcBaseGeneration c = GlGeneration l \<and>
       length (CcIds c) \<le> maxRuntimeCatalogCount)"
    using strict by (auto simp: Let_def intro!: io_intros split: sum.split)
qed

subsection \<open>Restoring\<close>

text \<open>The loop invariant: the maps cover the entries read so far, and agree with them.\<close>

definition restored :: "(string \<Rightarrow> problem_yaml option) \<Rightarrow> git_loader \<Rightarrow> catalog_entry list \<Rightarrow> catalog_candidate \<Rightarrow> bool" where
  "restored yaml l entries c \<longleftrightarrow>
     maps_over c (CcIds c) \<and> (\<forall>i \<in> set (CcIds c). entry_sound yaml c i) \<and> CcOwner c = GlId l \<and>
     CcBaseGeneration c = GlGeneration l \<and> CcIds c = map (\<lambda>e. PbID (CeProblem e)) entries \<and>
     (\<forall>e \<in> set entries. map_of (CcArtifactRefs c) (PbID (CeProblem e)) = Some (CeArtifact e) \<and>
        (\<exists>b. map_of (CcBundles c) (PbID (CeProblem e)) = Some b \<and> RbRevision b = PbRevision (CeProblem e) \<and>
           RbSourceTrust b = CeSourceTrust e \<and> sameRuntimeProblemProjection (RbProblem b) (CeProblem e)))"

lemma extend_candidate_lookup:
  assumes "maps_over c ids" and "k \<notin> set ids" and "i \<in> set (ids @ [k])"
  shows "map_of (CcBundles (extend_candidate c k b a d r)) i = (if i = k then Some b else map_of (CcBundles c) i)"
    "map_of (CcArtifactRefs (extend_candidate c k b a d r)) i = (if i = k then Some r else map_of (CcArtifactRefs c) i)"
proof -
  have "map_of (CcBundles c) k = None" "map_of (CcArtifactRefs c) k = None"
    using assms(1,2) unfolding maps_over_def map_of_eq_None_iff by (metis set_map)+
  then show "map_of (CcBundles (extend_candidate c k b a d r)) i = (if i = k then Some b else map_of (CcBundles c) i)"
    "map_of (CcArtifactRefs (extend_candidate c k b a d r)) i = (if i = k then Some r else map_of (CcArtifactRefs c) i)"
    by (auto simp: extend_candidate_def map_of_snoc simp del: map_of_append split: option.splits)
qed

lemma restore_entry_restored:
  assumes "restored yaml l es c"
  shows "io_ensures (restore_entry yaml ck cas e c) (restored yaml l (es @ [e]))"
proof -
  let ?k = "PbID (CeProblem e)"
  have ids: "maps_over c (CcIds c)" "\<forall>i \<in> set (CcIds c). entry_sound yaml c i" "CcIds c = map (\<lambda>e. PbID (CeProblem e)) es"
    using assms by (auto simp: restored_def)
  have comm: "extend_candidate (c \<lparr> CcIds := y \<rparr>) k b a d r = extend_candidate c k b a d r \<lparr> CcIds := y \<rparr>" for y k b a d r
    by (cases c) (simp add: extend_candidate_def)
  have step: "restored yaml l (es @ [e]) (extend_candidate (c \<lparr> CcIds := CcIds c @ [?k] \<rparr>) ?k b a d (CeArtifact e))"
    if new: "map_of (CcBundles c) ?k = None" and dec: "DecodeRuntimeArtifact yaml (CeArtifact e) d = Inr (a, b)"
      and fits: "PbID (RbProblem b) = ?k" "RbRevision b = PbRevision (CeProblem e)" "RbSourceTrust b = CeSourceTrust e"
        "sameRuntimeProblemProjection (RbProblem b) (CeProblem e)" for a b d
  proof -
    have k: "?k \<notin> set (CcIds c)" using new ids(1) unfolding maps_over_def map_of_eq_None_iff by (metis set_map)
    note sound = extend_sound [OF ids(1,2) k dec fits(1)] and look = extend_candidate_lookup [OF ids(1) k]
    have lift: "entry_sound yaml (x \<lparr> CcIds := y \<rparr>) i = entry_sound yaml x i" "maps_over (x \<lparr> CcIds := y \<rparr>) z = maps_over x z" for x y z i
      by (simp_all add: entry_sound_def maps_over_def)
    have old: "PbID (CeProblem f) \<in> set (CcIds c @ [?k])" if "f \<in> set (es @ [e])" for f using that ids(3) by auto
    have "PbID (CeProblem f) \<noteq> ?k" if "f \<in> set es" for f
      using k ids(3) that by (metis (no_types, lifting) image_eqI list.set_map)
    then show ?thesis
      using assms sound fits ids(3) look [OF old]
      unfolding restored_def comm lift by (auto simp: extend_candidate_def)
  qed
  show ?thesis
    unfolding restore_entry_def Let_def
    by (rule ensures_then, rule ensures_require, rule ensures_require, rule ensures_then)
      (auto split: sum.split prod.split intro!: ensures_require ensures_return ensures_throw
        dest!: step simp: extend_candidate_def)
qed

lemma restore_entries:
  "restored yaml l done_entries c \<Longrightarrow>
   io_ensures (io_each (restore_entry yaml ck cas) entries c) (restored yaml l (done_entries @ entries))"
proof (induction entries arbitrary: c done_entries)
  case (Cons e entries)
  have "io_ensures (io_each (restore_entry yaml ck cas) entries c') (restored yaml l (done_entries @ e # entries))"
    if "restored yaml l (done_entries @ [e]) c'" for c'
    using Cons.IH [OF that] by simp
  then show ?case
    unfolding io_each.simps by (rule ensures_bind [OF restore_entry_restored [OF Cons.prems]])
qed (simp add: ensures_return)

lemma candidateFromEntries_restored:
  "io_ensures (candidateFromEntries yaml ck cas l entries) (\<lambda>c.
     candidate_sound yaml c \<and> CcOwner c = GlId l \<and> CcBaseGeneration c = GlGeneration l \<and>
     CcIds c = sort (map (\<lambda>e. PbID (CeProblem e)) entries) \<and>
     (\<forall>e \<in> set entries. map_of (CcArtifactRefs c) (PbID (CeProblem e)) = Some (CeArtifact e) \<and>
        (\<exists>b. map_of (CcBundles c) (PbID (CeProblem e)) = Some b \<and> RbRevision b = PbRevision (CeProblem e) \<and>
           RbSourceTrust b = CeSourceTrust e \<and> sameRuntimeProblemProjection (RbProblem b) (CeProblem e))))"
proof -
  have start: "restored yaml l [] (empty_candidate l [])"
    by (simp add: restored_def maps_over_def empty_candidate_def)
  have sorted_sound: "candidate_sound yaml (c \<lparr> CcIds := sort (CcIds c) \<rparr>)" if "restored yaml l entries c" for c
    using that by (auto simp: restored_def candidate_sound_def maps_over_def entry_sound_def)
  show ?thesis
    unfolding candidateFromEntries_def
  proof (rule ensures_then, rule ensures_then, rule ensures_bind [OF restore_entries [OF start]], rule ensures_return)
    fix c assume "restored yaml l ([] @ entries) c"
    then have r: "restored yaml l entries c" by simp
    show "candidate_sound yaml (c \<lparr> CcIds := sort (CcIds c) \<rparr>) \<and> CcOwner (c \<lparr> CcIds := sort (CcIds c) \<rparr>) = GlId l \<and>
      CcBaseGeneration (c \<lparr> CcIds := sort (CcIds c) \<rparr>) = GlGeneration l \<and>
      CcIds (c \<lparr> CcIds := sort (CcIds c) \<rparr>) = sort (map (\<lambda>e. PbID (CeProblem e)) entries) \<and>
      (\<forall>e \<in> set entries. map_of (CcArtifactRefs (c \<lparr> CcIds := sort (CcIds c) \<rparr>)) (PbID (CeProblem e)) = Some (CeArtifact e) \<and>
        (\<exists>b. map_of (CcBundles (c \<lparr> CcIds := sort (CcIds c) \<rparr>)) (PbID (CeProblem e)) = Some b \<and>
           RbRevision b = PbRevision (CeProblem e) \<and> RbSourceTrust b = CeSourceTrust e \<and>
           sameRuntimeProblemProjection (RbProblem b) (CeProblem e)))"
      using sorted_sound [OF r] r by (simp add: restored_def)
  qed
qed

section \<open>Sound candidates have an identity and can be activated\<close>

lemma entry_sound_bound:
  assumes "entry_sound yaml c i"
  obtains b r where "map_of (CcBundles c) i = Some b" and "map_of (CcArtifactRefs c) i = Some r" and "\<not> bundle_unbound i b"
    and "\<not> (ArDigestSchema r = 0 \<or> ArMediaType r = [] \<or> ArSize r \<le> 0)" and "validProblemID i" and "candidate_bundle c i = b"
proof -
  from assms obtain b a data r where b: "map_of (CcBundles c) i = Some b" "map_of (CcArtifactRefs c) i = Some r"
      "DecodeRuntimeArtifact yaml r data = Inr (a, b)" "PbID (RbProblem b) = i"
    by (auto simp: entry_sound_def)
  note d = decoded_bundle [OF b(3)]
  have "RbRevision b \<noteq> []" using d(3) by auto
  then have "\<not> bundle_unbound i b" using d(2) b(4) by (simp add: bundle_unbound_def)
  moreover have "\<not> (ArDigestSchema r = 0 \<or> ArMediaType r = [] \<or> ArSize r \<le> 0)"
    using d(6,7) by (simp add: runtimeArtifactRef_def ArtifactDigestSchemaV1_def RuntimeArtifactMediaTypeV1_def)
  ultimately show thesis using that b(1,2) d(4) b(4) by (simp add: candidate_bundle_def)
qed

lemma identity_loop_total:
  "\<forall>i \<in> set is. entry_sound yaml c i \<Longrightarrow> distinct is \<Longrightarrow> prev \<notin> Some ` set is \<Longrightarrow>
   \<exists>body. identity_loop c prev is = Inr body"
proof (induction "is" arbitrary: prev)
  case (Cons i ids)
  have "entry_sound yaml c i" using Cons.prems(1) by simp
  then obtain b r where "map_of (CcBundles c) i = Some b" "map_of (CcArtifactRefs c) i = Some r" "\<not> bundle_unbound i b"
      "\<not> (ArDigestSchema r = 0 \<or> ArMediaType r = [] \<or> ArSize r \<le> 0)"
    by (rule entry_sound_bound)
  moreover obtain body where "identity_loop c (Some i) ids = Inr body"
    using Cons.IH [of "Some i"] Cons.prems by auto
  ultimately show ?case using Cons.prems(3) by auto
qed simp

lemma candidate_sound_identity: "candidate_sound yaml c \<Longrightarrow> \<exists>ref. Identity c = Inr ref"
  using identity_loop_total [of "sort (CcIds c)" yaml c None] candidate_sound_facts [of yaml c]
  by (auto simp: Identity_def identity_stream_def)

text \<open>
  C40. What the loader builds can be published: a candidate built from the checkout, whatever the checkout did meanwhile, has
  distinct sorted problems, each bundle is the decoding of its artifact, it has an identity, and as long as the loader
  has the same generation and no open activation, preparing it at any generation succeeds unless the history binds one of
  its revisions to another bundle.
\<close>

theorem built_candidate_publishable:
  assumes built: "BuildCandidate yaml ck l w = Some (Inr c, w')"
    and current: "GlId now = GlId l" "GlGeneration now = GlGeneration l" "GlStrict now" "\<not> GlPublishing now"
    and fresh: "\<forall>i \<in> set (CcIds c). \<forall>b. GlHistory now i (RbRevision (candidate_bundle c i)) = Some b \<longrightarrow> b = candidate_bundle c i"
    and "g \<noteq> 0"
  shows "\<exists>ref a. Identity c = Inr ref \<and> sorted (CcIds c) \<and> distinct (CcIds c) \<and> (\<forall>i \<in> set (CcIds c). entry_sound yaml c i) \<and>
    prepareActivationAt now (Some c) \<lparr> ChGeneration = g, ChRef = ref, ChEntryCount = length (CcIds c) \<rparr> =
      Some (Inr a, now \<lparr> GlPublishing := True \<rparr>) \<and> AsCandidate a = Some c"
proof -
  from io_ensuresD [OF BuildCandidate_sound built]
  have sound: "candidate_sound yaml c" and own: "CcOwner c = GlId l" "CcBaseGeneration c = GlGeneration l" by auto
  obtain ref where ref: "Identity c = Inr ref" using candidate_sound_identity [OF sound] by blast
  have "check_binding now c i = None" if "i \<in> set (CcIds c)" for i
    using entry_sound_bound [OF candidate_sound_facts(3) [OF sound that]] fresh that
    by (auto simp: check_binding_def Let_def split: option.splits)
  then have "first_error (check_binding now c) (CcIds c) = None" by (simp add: first_error_None)
  then show ?thesis
    using sound ref own current \<open>g \<noteq> 0\<close> candidate_sound_facts [OF sound]
    by (simp add: prepareActivationAt_def identity_matches_def candidate_sound_def)
qed

lemma optional_no_revision: "validateArtifactOptional name f n \<noteq> Inl RevisionMismatch"
  by (simp add: validateArtifactOptional_def)

lemma step_neq:
  "m \<noteq> Inl e \<Longrightarrow> (\<And>x. k x \<noteq> Inl e) \<Longrightarrow> (case m of Inl e' \<Rightarrow> Inl e' | Inr x \<Rightarrow> k x) \<noteq> Inl e"
  "r \<noteq> Inl e \<Longrightarrow> s \<noteq> Inl e \<Longrightarrow> (if b then r else s) \<noteq> Inl e"
  by (cases m) simp_all

lemma validate_source_no_revision: "validate_source a \<noteq> Inl RevisionMismatch"
  unfolding validate_source_def by (intro step_neq optional_no_revision) simp_all

lemma validate_revision:
  assumes "AcRevision a = artifact_revision a" and "PbRevision (AcProblem a) = artifact_revision a"
  shows "validateCapturedRuntimeArtifact yaml a \<noteq> Inl RevisionMismatch"
proof (cases "validate_source a")
  case (Inl e)
  then show ?thesis using validate_source_no_revision [of a] by (simp add: validateCapturedRuntimeArtifact_def)
next
  case (Inr u)
  then show ?thesis
    using assms by (simp add: validateCapturedRuntimeArtifact_def Let_def split: option.split sum.split)
qed

lemma new_captured_revision:
  assumes "files ''problem.yaml'' = Some manifest"
    and "RbRevision bndl = frozenLegacyRuntimeRevision manifest (captureArtifactOptional files ''setup.sh'')
      (captureArtifactOptional files ''verify.sh'') (captureArtifactOptional files ''hint.md'') lock (RbRuntimeImage bndl)"
    and "PbRevision (RbProblem bndl) = RbRevision bndl"
  shows "NewCapturedRuntimeArtifact yaml files (Some lock) bndl \<noteq> Inl RevisionMismatch"
proof -
  let ?a = "\<lparr> AcManifest = files ''problem.yaml'', AcSetup = captureArtifactOptional files ''setup.sh'',
    AcVerify = captureArtifactOptional files ''verify.sh'', AcHint = captureArtifactOptional files ''hint.md'',
    AcImagesLock = Some lock, AcProblem = cloneProblem (RbProblem bndl), AcRevision = RbRevision bndl,
    AcRuntimeImage = RbRuntimeImage bndl, AcSourceTrust = RbSourceTrust bndl \<rparr>"
  have "validateCapturedRuntimeArtifact yaml ?a \<noteq> Inl RevisionMismatch"
    using assms by (intro validate_revision) (simp_all add: artifact_revision_def)
  then show ?thesis
    unfolding NewCapturedRuntimeArtifact_def Let_def by (intro step_neq) simp_all
qed

text \<open>
  The loader and the artifact codec agree on revisions: the revision a strict loader computes for the files of a
  problem is the frozen revision of the codec for the same bytes, so the artifact that captures the files never
  fails validation because of its revision.
\<close>

theorem build_revision_is_frozen:
  assumes "buildRuntimeBundle yaml ck True files (Some lock) policy w = Some (Inr bndl, w')"
    and "files ''problem.yaml'' = Some manifest"
  shows "RbRevision bndl = frozenLegacyRuntimeRevision manifest (captureArtifactOptional files ''setup.sh'')
      (captureArtifactOptional files ''verify.sh'') (captureArtifactOptional files ''hint.md'') lock (RbRuntimeImage bndl) \<and>
    PbRevision (RbProblem bndl) = RbRevision bndl \<and>
    NewCapturedRuntimeArtifact yaml files (Some lock) bndl \<noteq> Inl RevisionMismatch"
proof -
  obtain py img where b: "validImageContentID img" "RbRuntimeImage bndl = img"
      "RbRevision bndl = hex_encode (sha256_string (build_stream files (Some lock) img))"
      "RbProblem bndl = problem_of_yaml py (PyChoices py) (file_text files ''hint.md'') \<lparr> PbRevision := RbRevision bndl \<rparr>"
    using assms(1) by (rule buildRuntimeBundle_Inr) auto
  have rev: "RbRevision bndl = frozenLegacyRuntimeRevision manifest (captureArtifactOptional files ''setup.sh'')
      (captureArtifactOptional files ''verify.sh'') (captureArtifactOptional files ''hint.md'') lock (RbRuntimeImage bndl)"
    using b(2,3) build_stream_frozen [where files = files, OF assms(2) validImageContentID_nonempty [OF b(1)]]
    by (simp add: frozenLegacyRuntimeRevision_def)
  moreover have "PbRevision (RbProblem bndl) = RbRevision bndl" by (subst b(4)) simp
  moreover have "NewCapturedRuntimeArtifact yaml files (Some lock) bndl \<noteq> Inl RevisionMismatch"
    by (rule new_captured_revision [OF assms(2) rev calculation(2)])
  ultimately show ?thesis by simp
qed

section \<open>A small checkout\<close>

definition demo_checkout :: "unit checkout" where
  "demo_checkout =
     \<lparr> CkCtxErr = Pair False, CkOpenRoot = Pair (Inr 3), CkOpenDirAt = (\<lambda>_ _. Pair (Inr 4)),
       CkOpenFileAt = (\<lambda>_ name. Pair (if name = ''images.lock'' then Inr 5 else if name = ''problem.yaml'' then Inr 6 else Inl ENOENT)),
       CkFstat = (\<lambda>fd. Pair (Inr \<lparr> RfMode = 0x8180, RfNlink = 1, RfSize = 2, RfDev = 1, RfIno = nat fd, RfMtim = 0, RfCtim = 0 \<rparr>)),
       CkRead = (\<lambda>fd. Pair (Inr (if fd = 5 then demo_lock else ''#x''))),
       CkReadDir = (\<lambda>_. Pair (Inr [''images.lock'', ''pod-basics''])),
       CkInfo = (\<lambda>_ name. Pair (Inr (if name = ''images.lock'' then EntryRegular else EntryDir))),
       CkClose = (\<lambda>_ w. w), CkResolveImage = (\<lambda>_. Pair (Inr demo_runtime_image)) \<rparr>"

definition demo_bundle :: runtime_bundle where
  "demo_bundle =
     \<lparr> RbProblem = AcProblem demo_artifact, RbSetupScript = [], RbVerifyScript = [], RbRevision = demo_revision,
       RbRuntimeImage = demo_runtime_image, RbSourceTrust = BundleSourceDevelopmentCheckout \<rparr>"

lemma demo_names:
  "canonical_name ''images.lock''" "canonical_name ''problem.yaml''" "canonical_name ''setup.sh''" "canonical_name ''verify.sh''"
  "canonical_name ''hint.md''" "canonical_name ''pod-basics''" "validProblemID ''pod-basics''"
  "\<not> HasPrefix ''pod-basics'' ''.''"
  by code_simp+

lemma demo_lengths: "length demo_lock = 79" "take (Suc maxImageLockBytes) demo_lock = demo_lock"
  by (simp_all add: demo_lock_def demo_image_def limit_defs)

lemma demo_image_valid: "validImageContentID demo_runtime_image"
  by (simp add: validImageContentID_iff sha256ContentIDPattern_def demo_runtime_image_def is_lower_hex_def is_digit_def list_all_iff)

lemma demo_read_policy:
  "read_policy demo_checkout 3 () = Some (Inr (demo_lock, \<lparr> refs = [demo_image], aliases = [(''web'', demo_image)] \<rparr>), ())"
  by (simp add: read_policy_def readRuntimeRegularFile_def read_regular_def accept_def rejected_def io_defs demo_names
      demo_policy demo_lengths limit_defs demo_checkout_def)

lemma demo_build:
  "buildRuntimeBundle demo_yaml demo_checkout True [''problem.yaml'' \<mapsto> ''#x''] (Some demo_lock)
     \<lparr> refs = [demo_image], aliases = [(''web'', demo_image)] \<rparr> () = Some (Inr demo_bundle, ())"
proof -
  have "captureArtifactOptional [''problem.yaml'' \<mapsto> ''#x''] name = demo_absent" if "name \<noteq> ''problem.yaml''" for name
    using that by (simp add: captureArtifactOptional_def demo_absent_def)
  then have "build_stream [''problem.yaml'' \<mapsto> ''#x''] (Some demo_lock) demo_runtime_image =
      revision_stream ''#x'' demo_absent demo_absent demo_absent demo_lock demo_runtime_image"
    by (subst build_stream_frozen [where manifest = "''#x''"]) (simp_all add: validImageContentID_nonempty [OF demo_image_valid])
  then show ?thesis
    using demo_artifact_review demo_image_valid
    by (simp add: buildRuntimeBundle_def demo_yaml_def Let_def accept_def io_defs resolve_runtime_image_def rejected_def
        demo_checkout_def demo_bundle_def demo_artifact_def demo_revision_def frozenLegacyRuntimeRevision_def file_text_def
        problem_of_yaml_def)
qed

lemma demo_capture:
  "NewCapturedRuntimeArtifact demo_yaml [''problem.yaml'' \<mapsto> ''#x''] (Some demo_lock) demo_bundle = Inr demo_artifact"
proof -
  have absent: "captureArtifactOptional [''problem.yaml'' \<mapsto> ''#x''] name = demo_absent" if "name \<noteq> ''problem.yaml''" for name
    using that by (simp add: captureArtifactOptional_def demo_absent_def)
  have none: "PbChoices (AcProblem demo_artifact) = None" by (simp add: demo_artifact_def problem_of_yaml_def)
  then have clone: "cloneProblem (AcProblem demo_artifact) = AcProblem demo_artifact"
    by (simp add: cloneProblem_def copy_slice_def)
  have a: "\<lparr> AcManifest = Some ''#x'', AcSetup = demo_absent, AcVerify = demo_absent, AcHint = demo_absent,
      AcImagesLock = Some demo_lock, AcProblem = AcProblem demo_artifact, AcRevision = demo_revision,
      AcRuntimeImage = demo_runtime_image, AcSourceTrust = BundleSourceDevelopmentCheckout \<rparr> = demo_artifact"
    by (simp add: demo_artifact_def)
  obtain b where v: "validateCapturedRuntimeArtifact demo_yaml demo_artifact = Inr b" using demo_validated by blast
  then obtain py where "RbProblem b = sourced_problem demo_artifact py" "RbSetupScript b = file_text (artifact_files demo_artifact) ''setup.sh''"
      "RbVerifyScript b = file_text (artifact_files demo_artifact) ''verify.sh''" "RbRevision b = demo_revision"
      "RbRuntimeImage b = demo_runtime_image" "RbSourceTrust b = BundleSourceDevelopmentCheckout"
      "runtimeProblemProjectionEqual (sourced_problem demo_artifact py) (AcProblem demo_artifact)"
    unfolding validate_Inr demo_artifact_revision by (auto simp: demo_artifact_def)
  then show ?thesis
    by (simp add: NewCapturedRuntimeArtifact_def demo_bundle_def Let_def absent clone a v demo_artifact_files file_text_def
        cloneCapturedRuntimeArtifact_def)
qed

lemma demo_manifest:
  "readRuntimeRegularFile demo_checkout fd ''problem.yaml'' req maxProblemManifestBytes () = Some (Inr (Some ''#x''), ())"
  by (simp add: readRuntimeRegularFile_def read_regular_def accept_def rejected_def io_defs demo_names limit_defs demo_checkout_def)

lemma demo_missing:
  "canonical_name name \<Longrightarrow> name \<noteq> ''images.lock'' \<Longrightarrow> name \<noteq> ''problem.yaml'' \<Longrightarrow>
   readRuntimeRegularFile demo_checkout fd name False n () = Some (Inr None, ())"
  by (simp add: readRuntimeRegularFile_def accept_def io_defs demo_checkout_def)

lemma demo_files: "readRuntimeProblemFiles demo_checkout fd ''#x'' () = Some (Inr [''problem.yaml'' \<mapsto> ''#x''], ())"
  by (simp add: readRuntimeProblemFiles_def read_optional_def io_bind_def io_return_def demo_missing demo_names copy_slice_def
      fun_upd_idem)

lemma demo_loaded: "validateLoadedProblem (RbProblem demo_bundle) = []"
  by (simp add: demo_bundle_def demo_artifact_def validateLoadedProblem_Nil validateProblem_Nil problem_of_yaml_def demo_yaml_def
      demo_names validCategory_def validDifficulty_def validType_def validVerify_def)

lemma demo_problem:
  "capture_problem demo_yaml demo_checkout True demo_lock \<lparr> refs = [demo_image], aliases = [(''web'', demo_image)] \<rparr>
     ''pod-basics'' [''problem.yaml'' \<mapsto> ''#x''] ([], 79) () = Some (Inr ([(''pod-basics'', demo_artifact)], 81), ())"
proof -
  have "PbID (RbProblem demo_bundle) = ''pod-basics''"
    by (simp add: demo_bundle_def demo_artifact_def problem_of_yaml_def demo_yaml_def)
  moreover have "files_bytes [''problem.yaml'' \<mapsto> ''#x''] = 2" by (simp add: files_bytes_def file_text_def)
  ultimately show ?thesis
    by (simp add: capture_problem_def accept_def io_bind_def io_require_def io_return_def demo_build demo_capture demo_loaded
        maxRuntimeCatalogBytes_def maxRuntimeCatalogCount_def)
qed

lemma demo_check: "ck_check demo_checkout () = Some (Inr (), ())"
  by (simp add: ck_check_def io_defs demo_checkout_def)

lemma demo_directory:
  "capture_entry demo_yaml demo_checkout True demo_lock \<lparr> refs = [demo_image], aliases = [(''web'', demo_image)] \<rparr> 3
     ''pod-basics'' ([], 79) () = Some (Inr ([(''pod-basics'', demo_artifact)], 81), ())"
proof -
  have "openRuntimeDirectoryAt demo_checkout 3 ''pod-basics'' () = Some (Inr 4, ())"
    by (simp add: openRuntimeDirectoryAt_def accept_def rejected_def io_defs demo_names demo_checkout_def)
  moreover have "CkInfo demo_checkout 3 ''pod-basics'' () = (Inr EntryDir, ())" "\<And>fd w. CkClose demo_checkout fd w = w"
    by (simp_all add: demo_checkout_def)
  ultimately show ?thesis
    by (simp add: capture_entry_def capture_directory_def accept_def rejected_def io_defs demo_manifest demo_names demo_files
        demo_problem demo_check)
qed

lemma demo_lock_entry:
  "capture_entry demo_yaml demo_checkout True demo_lock policy 3 ''images.lock'' st () = Some (Inr st, ())"
  by (simp add: capture_entry_def accept_def rejected_def ck_check_def io_defs demo_checkout_def)

lemma demo_captured:
  "captureRuntimeCatalog demo_yaml demo_checkout (NewRuntimeGitLoader n) () = Some (Inr [(''pod-basics'', demo_artifact)], ())"
proof -
  have "CkOpenRoot demo_checkout () = (Inr 3, ())" "CkReadDir demo_checkout 3 () = (Inr [''images.lock'', ''pod-basics''], ())"
    by (simp_all add: demo_checkout_def)
  then show ?thesis
    by (simp add: captureRuntimeCatalog_def rejected_def io_defs demo_read_policy demo_lengths demo_lock_entry demo_directory
        NewRuntimeGitLoader_def)
qed

lemma demo_built:
  "\<exists>c. BuildCandidate demo_yaml demo_checkout (NewRuntimeGitLoader n) () = Some (Inr c, ()) \<and> CcIds c = [''pod-basics'']"
proof -
  have strict: "GlStrict (NewRuntimeGitLoader n)" by (simp add: NewRuntimeGitLoader_def)
  obtain data where e: "EncodeRuntimeArtifact demo_yaml demo_artifact = Inr (data, runtimeArtifactRef data)"
    using demo_encoded by blast
  obtain a b where "artifact_of_records (records_of demo_artifact (projection_bytes (AcProblem demo_artifact))) = Inr a"
    "validateCapturedRuntimeArtifact demo_yaml demo_artifact = Inr b"
    using encoded_decodable [OF e] demo_fits demo_validated by blast
  then have "DecodeRuntimeArtifact demo_yaml (runtimeArtifactRef data) data = Inr (cloneCapturedRuntimeArtifact demo_artifact, b)"
    using decode_encoded [OF e] by simp
  then show ?thesis
    using e by (simp add: BuildCandidate_def io_bind_def io_require_def io_return_def demo_check demo_captured add_artifact_def
      empty_candidate_def Let_def strict)
qed

theorem built_candidate_publishable_witness:
  "\<exists>c ref a. BuildCandidate demo_yaml demo_checkout (NewRuntimeGitLoader 1) () = Some (Inr c, ()) \<and> Identity c = Inr ref \<and>
     prepareActivationAt (NewRuntimeGitLoader 1) (Some c) \<lparr> ChGeneration = 1, ChRef = ref, ChEntryCount = 1 \<rparr> =
       Some (Inr a, NewRuntimeGitLoader 1 \<lparr> GlPublishing := True \<rparr>)"
proof -
  obtain c where c: "BuildCandidate demo_yaml demo_checkout (NewRuntimeGitLoader 1) () = Some (Inr c, ())" "CcIds c = [''pod-basics'']"
    using demo_built by blast
  show ?thesis
    using built_candidate_publishable [OF c(1) refl refl, of 1] c by (auto simp: NewRuntimeGitLoader_def)
qed

theorem build_revision_is_frozen_witness:
  "RbRevision demo_bundle = frozenLegacyRuntimeRevision ''#x'' demo_absent demo_absent demo_absent demo_lock demo_runtime_image"
proof -
  have absent: "captureArtifactOptional [''problem.yaml'' \<mapsto> ''#x''] name = demo_absent" if "name \<noteq> ''problem.yaml''" for name
    using that by (simp add: captureArtifactOptional_def demo_absent_def)
  show ?thesis
    using build_revision_is_frozen [OF demo_build, of "''#x''"] by (simp add: absent) (simp add: demo_bundle_def)
qed

end
