(* ===== verification/Catalog_Coordinator.thy ===== *)
theory Catalog_Coordinator
  imports Catalog_Sync_Laws Catalog_Build_Laws
begin

text \<open>
  The coordinator on the modelled database, in every order of its operations and with other writers in between: which catalog it
  serves, what an ambiguous commit can leave behind, and that its operations return.
\<close>

section \<open>Runs\<close>

text \<open>The operations of one coordinator, and writes of others to the same database.\<close>

inductive co_step :: "('f, pg) site \<Rightarrow> ('f, pg) coordinator \<Rightarrow> ('f, pg) coordinator \<Rightarrow> bool" for site where
  startup: "Startup site s = Some (r, s') \<Longrightarrow> co_step site s s'"
| sync: "Sync site s = Some (r, s') \<Longrightarrow> co_step site s s'"
| admission: "AcquireActiveProblem site i s = Some (q, s') \<Longrightarrow> co_step site s s'"
| problem: "CoordinatorResolveProblem site ref s = Some (p, s') \<Longrightarrow> co_step site s s'"
| runtime: "CoordinatorResolveRuntime site ref s = Some (l, s') \<Longrightarrow> co_step site s s'"
| elsewhere: "co_step site s (s \<lparr> CoDatabase := (CoDatabase s) \<lparr> PgLedger := ledger_execs ops (PgLedger (CoDatabase s)) \<rparr> \<rparr>)"

definition co_ready :: "('f, pg) coordinator \<Rightarrow> bool" where
  "co_ready s \<longleftrightarrow> local_known PgLedger s \<and> \<not> GlPublishing (CoLoader s)"

lemma co_ready_idle: "co_ready s \<longleftrightarrow> pgl.idle (catalogHead (CoLoader s)) s"
  by (simp add: co_ready_def pgl.idle_def)

lemma idle_ready: "pgl.idle own s \<Longrightarrow> co_ready s"
  by (simp add: co_ready_def pgl.idle_def)

lemma finished_ready: "pgl.finished own r s \<Longrightarrow> co_ready s"
  by (simp add: co_ready_def pgl.finished_def)

lemma co_step_ready:
  assumes step: "co_step site s s'" and site: "SiRepo site = pg_repo" "store_answers (SiStore site)" and ready: "co_ready s"
  shows "co_ready s'"
proof -
  have idle: "pgl.idle (catalogHead (CoLoader s)) s" using ready by (simp add: co_ready_idle)
  show ?thesis
    using step
  proof cases
    case startup
    show ?thesis by (rule finished_ready [OF io_wpD [OF pgl.Startup_finished [OF site idle] startup]])
  next
    case sync
    show ?thesis by (rule finished_ready [OF io_wpD [OF pgl.Sync_finished [OF site idle] sync]])
  next
    case admission
    show ?thesis by (rule idle_ready [OF io_wpD [OF pgl.AcquireActiveProblem_idle [OF site idle] admission]])
  next
    case problem
    show ?thesis by (rule idle_ready [OF io_wpD [OF pgl.from_history_idle [OF site idle] problem [unfolded CoordinatorResolveProblem_def]]])
  next
    case runtime
    show ?thesis by (rule idle_ready [OF io_wpD [OF pgl.from_history_idle [OF site idle] runtime [unfolded CoordinatorResolveRuntime_def]]])
  next
    case (elsewhere ops)
    then show ?thesis
      using ready local_known_advanced [of PgLedger s] advanced_execs [of "PgLedger (CoDatabase s)" ops]
      by (simp add: co_ready_def)
  qed
qed

lemma co_run_ready:
  assumes "(co_step site)\<^sup>*\<^sup>* s s'" and "SiRepo site = pg_repo" and "store_answers (SiStore site)" and "co_ready s"
  shows "co_ready s'"
  using assms(1,4) by (induction rule: rtranclp_induct) (auto intro: co_step_ready [OF _ assms(2,3)])

section \<open>Properties\<close>

text \<open>
  C9. A coordinator serves published catalogs only: from a fresh loader on a ledger in good order, after any operations of the
  coordinator and any writes of others, whatever failed on the way, the head it serves is recorded in the ledger under its
  generation, and no activation is left open.
\<close>

theorem coordinator_serves_published:
  assumes "NewCatalogCoordinator (Some (NewRuntimeGitLoader n)) True True f w = Inr s0" and "ledger_wf (PgLedger w)"
    and "SiRepo site = pg_repo" and "store_answers (SiStore site)" and "(co_step site)\<^sup>*\<^sup>* s0 s"
  shows "ledger_wf (PgLedger (CoDatabase s)) \<and> \<not> GlPublishing (CoLoader s) \<and>
    (\<forall>h. catalogHead (CoLoader s) = Some h \<longrightarrow> read_head (PgLedger (CoDatabase s)) (ChGeneration h) = Inr h)"
proof -
  have "co_ready s0"
    using assms(1,2) by (auto simp: NewCatalogCoordinator_def NewRuntimeGitLoader_def co_ready_def local_known_def catalogHead_def)
  from co_run_ready [OF assms(5,3,4) this] show ?thesis
    by (simp add: co_ready_def local_known_def published_head_def)
qed

text \<open>
  C2. An ambiguous commit leaves no doubt behind: under a lease, whatever the database answers, including commits whose
  outcome is unknown, lost connections, and others publishing while the lease is taken again, a coordinator that is still
  healthy afterwards has either succeeded, with its own head equal to the persisted one and the number of its entries
  returned, or failed with both heads exactly where they were.
\<close>

theorem sync_all_or_nothing:
  assumes "SiRepo site = pg_repo" and "co_ready s" and "syncCandidateUnderLease site lease c s = Some (r, s')" and "Healthy s'"
  shows "case r of
      Inr n \<Rightarrow> \<exists>h. catalogHead (CoLoader s') = Some h \<and> Head (PgLedger (CoDatabase s')) = Inr (Some h) \<and> n = ChEntryCount h
    | Inl _ \<Rightarrow> catalogHead (CoLoader s') = catalogHead (CoLoader s) \<and> Head (PgLedger (CoDatabase s')) = Head (PgLedger (CoDatabase s))"
proof -
  obtain expected where start: "under_lease PgLedger expected (catalogHead (CoLoader s)) s"
    using pgl.idle_leased assms(2) by (auto simp: co_ready_idle)
  from io_wpD [OF pgl.syncCandidateUnderLease_settled [OF assms(1) start] assms(3)]
  have "in_step PgLedger expected (catalogHead (CoLoader s)) r s'" by (simp add: settled_def)
  moreover have "Head (PgLedger (CoDatabase s)) = Inr expected" using start by (simp add: under_lease_def)
  ultimately show ?thesis using assms(4) by (auto simp: in_step_def Healthy_def healthError_def split: sum.splits)
qed

text \<open>
  C10. The coordinator does not hang: when the store answers and the database stops failing in the end, \<open>Startup\<close> and \<open>Sync\<close>
  return, however often commits of a legacy binding are ambiguous before; and when one of them succeeds and the coordinator
  is healthy, it serves exactly the persisted head.
\<close>

theorem coordinator_returns:
  assumes "SiRepo site = pg_repo" and "store_answers (SiStore site)" and "co_ready s" and "operation \<in> {Startup site, Sync site}"
  shows "\<exists>r s'. operation s = Some (r, s') \<and> co_ready s' \<and>
    (\<forall>n. r = Inr n \<longrightarrow> Healthy s' \<longrightarrow>
      (\<exists>h. catalogHead (CoLoader s') = Some h \<and> Head (PgLedger (CoDatabase s')) = Inr (Some h) \<and> n = ChEntryCount h))"
proof -
  have "pgl.idle (catalogHead (CoLoader s)) s" using assms(3) by (simp add: co_ready_idle)
  then have "io_wp operation (\<lambda>r. pgl.finished (catalogHead (CoLoader s)) (map_sum id Some r)) s"
    using assms(4) pgl.Startup_finished [OF assms(1,2)] pgl.Sync_finished [OF assms(1,2)] by auto
  from io_wp_returns [OF this] obtain r s' where
      r: "operation s = Some (r, s')" and f: "pgl.finished (catalogHead (CoLoader s)) (map_sum id Some r) s'" by blast
  have "\<exists>h. catalogHead (CoLoader s') = Some h \<and> Head (PgLedger (CoDatabase s')) = Inr (Some h) \<and> n = ChEntryCount h"
    if "r = Inr n" "Healthy s'" for n
    using f that by (simp add: pgl.finished_def Healthy_def healthError_def)
  with r finished_ready [OF f] show ?thesis by blast
qed

section \<open>A small site\<close>

definition demo_store :: "unit artifact_cas" where
  "demo_store = \<lparr> CasEnsure = (\<lambda>_ _. io_return ()), CasGet = (\<lambda>_. io_return []) \<rparr>"

definition demo_site :: "(unit, pg) site" where
  "demo_site = \<lparr> SiYaml = demo_yaml, SiCheckout = demo_checkout, SiStore = demo_store, SiRepo = pg_repo \<rparr>"

definition demo_pg :: pg where
  "demo_pg = \<lparr> PgLedger = ledger_init, PgEvents = [calm \<lparr> PgFate := CommitFails OtherCommitError True \<rparr>] \<rparr>"

definition demo_coordinator :: "(unit, pg) coordinator" where
  "demo_coordinator = \<lparr> CoLoader = NewRuntimeGitLoader 1, CoPoisoned = None, CoFiles = (), CoDatabase = demo_pg \<rparr>"

lemma demo_site_facts: "SiRepo demo_site = pg_repo" "store_answers (SiStore demo_site)" "co_ready demo_coordinator"
  by (simp_all add: demo_site_def demo_store_def store_answers_def total_return demo_coordinator_def co_ready_def local_known_def
      demo_pg_def ledger_init_wf catalogHead_def NewRuntimeGitLoader_def)

lemma demo_new: "NewCatalogCoordinator (Some (NewRuntimeGitLoader 1)) True True () demo_pg = Inr demo_coordinator"
  by (simp add: NewCatalogCoordinator_def demo_coordinator_def NewRuntimeGitLoader_def)

theorem coordinator_serves_published_witness:
  "\<exists>r s. Sync demo_site demo_coordinator = Some (r, s) \<and> \<not> GlPublishing (CoLoader s) \<and>
     (\<forall>h. catalogHead (CoLoader s) = Some h \<longrightarrow> read_head (PgLedger (CoDatabase s)) (ChGeneration h) = Inr h)"
proof -
  obtain r s where run: "Sync demo_site demo_coordinator = Some (r, s)"
    using io_wp_returns [OF pgl.Sync_finished [OF demo_site_facts(1,2)]] demo_site_facts(3) unfolding co_ready_idle by blast
  have "ledger_wf (PgLedger demo_pg)" by (simp add: demo_pg_def ledger_init_wf)
  from coordinator_serves_published [OF demo_new this demo_site_facts(1,2) r_into_rtranclp, OF co_step.sync, OF run] run
  show ?thesis by blast
qed

theorem sync_all_or_nothing_witness:
  "\<exists>r s. syncCandidateUnderLease demo_site 0 (demo_candidate [''a'']) demo_coordinator = Some (r, s) \<and>
     (Healthy s \<longrightarrow> (case r of
        Inr n \<Rightarrow> \<exists>h. catalogHead (CoLoader s) = Some h \<and> n = ChEntryCount h
      | Inl _ \<Rightarrow> Head (PgLedger (CoDatabase s)) = Inr None))"
proof -
  obtain expected where "under_lease PgLedger expected (catalogHead (CoLoader demo_coordinator)) demo_coordinator"
    using pgl.idle_leased demo_site_facts(3) by (auto simp: co_ready_idle)
  then obtain r s where run: "syncCandidateUnderLease demo_site 0 (demo_candidate [''a'']) demo_coordinator = Some (r, s)"
    using io_wp_returns [OF pgl.syncCandidateUnderLease_settled [OF demo_site_facts(1)]] by blast
  have "Head (PgLedger (CoDatabase demo_coordinator)) = Inr None"
    by (simp add: demo_coordinator_def demo_pg_def ledger_init_def Head_def head_row_def scanCatalogHead_def)
  then show ?thesis
    using run sync_all_or_nothing [OF demo_site_facts(1,3) run] by (auto split: sum.splits)
qed

theorem coordinator_returns_witness:
  "\<exists>r s. Startup demo_site demo_coordinator = Some (r, s) \<and>
     (\<forall>n. r = Inr n \<longrightarrow> Healthy s \<longrightarrow> (\<exists>h. catalogHead (CoLoader s) = Some h \<and> n = ChEntryCount h))"
  using coordinator_returns [OF demo_site_facts, of "Startup demo_site"] by blast

end
