(* ===== verification/Catalog_Restart.thy ===== *)
theory Catalog_Restart
  imports Catalog_Sync_Laws Catalog_Build_Laws Catalog_Activation
begin

text \<open>
  From one process to the next: a catalog that one coordinator published is served again, bundle by bundle, by a fresh coordinator
  that starts on the same ledger and the same artifact store, whatever has become of the checkout.
\<close>

section \<open>A database that works\<close>

text \<open>Once its events are used up, the database answers every call.\<close>

lemma calm_call: "PgEvents w = [] \<Longrightarrow> pg_call f w = (case f calm (PgLedger w) of (r, d) \<Rightarrow> (r, w \<lparr> PgLedger := d \<rparr>))"
  by (cases w) (simp add: pg_call_def event_of_def calm_def)

lemma calm_shared: "PgEvents w = [] \<Longrightarrow> pg_shared f w = (f (PgLedger w), w)"
  by (cases w) (simp add: pg_shared_def calm_call event_of_def calm_def ledger_execs_def)

lemma ask_const: "c (CoDatabase s) = (r, CoDatabase s) \<Longrightarrow> ask c s = Some (r, s)"
  by (simp add: ask_def)

lemma calm_asks:
  assumes "PgEvents (CoDatabase s) = []"
  shows "ask (RpSyncGate pg_repo) s = Some (Inr (), s)" "ask (RpAdmissionGate pg_repo n) s = Some (Inr (), s)"
    "ask (RpAcquireCatalogPublicationLease pg_repo) s = Some (Inr 0, s)"
    "ask (RpHead pg_repo lease) s = Some (Head (PgLedger (CoDatabase s)), s)"
    "ask (RpReadPublication pg_repo lease g) s = Some (ReadPublication (PgLedger (CoDatabase s)) g, s)"
    "ask (RpFindPublication pg_repo lease ref) s = Some (FindPublication (PgLedger (CoDatabase s)) ref, s)"
    "ask (RpClose pg_repo lease) s = Some (Inr (), s)" "ask (RpDiscard pg_repo lease) s = Some (Inr (), s)"
  using assms by (simp_all add: pg_repo_def calm_call calm_shared ask_def)

lemma calm_close: "PgEvents (CoDatabase s) = [] \<Longrightarrow> SiRepo site = pg_repo \<Longrightarrow> close_lease site lease s = s"
  by (simp add: close_lease_def pg_repo_def calm_call)

section \<open>Entries of a candidate\<close>

text \<open>A ledger entry that describes a problem of a candidate, as a restart reads it.\<close>

definition entry_of :: "catalog_candidate \<Rightarrow> catalog_entry \<Rightarrow> bool" where
  "entry_of c e \<longleftrightarrow>
     (let i = PbID (CeProblem e); b = candidate_bundle c i in
      i \<in> set (CcIds c) \<and> PbRevision (CeProblem e) = RbRevision b \<and> map_of (CcArtifactRefs c) i = Some (CeArtifact e) \<and>
      CeSourceTrust e = RbSourceTrust b \<and> sameRuntimeProblemProjection (RbProblem b) (CeProblem e))"

text \<open>The store gives the bytes of a candidate back and leaves the files alone.\<close>

definition store_holds :: "'f artifact_cas \<Rightarrow> catalog_candidate \<Rightarrow> bool" where
  "store_holds cas c \<longleftrightarrow>
     (\<forall>i r data f. map_of (CcArtifactRefs c) i = Some r \<longrightarrow> map_of (CcArtifactBytes c) i = Some data \<longrightarrow>
        CasGet cas r f = Some (Inr data, f))"

lemma decoded_clone:
  assumes "DecodeRuntimeArtifact yaml ref data = Inr (artifact, bnd)"
  shows "cloneProblem (RbProblem bnd) = RbProblem bnd" "PbCatalogActive (RbProblem bnd) = False"
    "PbRevision (RbProblem bnd) = RbRevision bnd"
proof -
  from decoded_canonical(1) [OF assms] obtain py where "RbProblem bnd = sourced_problem artifact py"
    unfolding validate_Inr by auto
  then show "cloneProblem (RbProblem bnd) = RbProblem bnd" "PbCatalogActive (RbProblem bnd) = False"
    by (simp_all add: cloneProblem_def sourced_problem_def problem_of_yaml_def copy_slice_def)
  show "PbRevision (RbProblem bnd) = RbRevision bnd" by (rule decoded_bundle(2) [OF assms])
qed

lemma entry_sound_cases:
  assumes "entry_sound yaml c i"
  obtains b a data r where "map_of (CcBundles c) i = Some b" "map_of (CcArtifactBytes c) i = Some data"
    "map_of (CcArtifactRefs c) i = Some r" "DecodeRuntimeArtifact yaml r data = Inr (a, b)" "PbID (RbProblem b) = i"
    "candidate_bundle c i = b"
  using assms by (auto simp: entry_sound_def candidate_bundle_def)

text \<open>What the restored part of a candidate looks like: the same bundles and references, for the identifiers read so far.\<close>

definition mirrors :: "catalog_candidate \<Rightarrow> catalog_candidate \<Rightarrow> bool" where
  "mirrors c x \<longleftrightarrow>
     (\<forall>i. map_of (CcBundles x) i = (if i \<in> set (CcIds x) then map_of (CcBundles c) i else None)) \<and>
     (\<forall>i. map_of (CcArtifactRefs x) i = (if i \<in> set (CcIds x) then map_of (CcArtifactRefs c) i else None)) \<and>
     length (CcBundles x) = length (CcIds x)"

definition restored_as :: "catalog_candidate \<Rightarrow> catalog_candidate \<Rightarrow> string list \<Rightarrow> catalog_candidate \<Rightarrow> bool" where
  "restored_as c x ids x' \<longleftrightarrow>
     mirrors c x' \<and> CcIds x' = CcIds x @ ids \<and> CcOwner x' = CcOwner x \<and> CcBaseGeneration x' = CcBaseGeneration x"

lemma restore_known:
  assumes sound: "candidate_sound yaml c" and holds: "store_holds cas c" and ctx: "CkCtxErr ck = Pair False"
    and e: "entry_of c e" "PbID (CeProblem e) \<notin> set (CcIds x)" and x: "mirrors c x"
  shows "\<exists>x'. restore_entry yaml ck cas e x f = Some (Inr x', f) \<and> restored_as c x [PbID (CeProblem e)] x'"
proof -
  let ?i = "PbID (CeProblem e)"
  have i: "?i \<in> set (CcIds c)" using e(1) by (simp add: entry_of_def Let_def)
  from candidate_sound_facts(3) [OF sound i] obtain b a data r where
      b: "map_of (CcBundles c) ?i = Some b" "map_of (CcArtifactBytes c) ?i = Some data" "map_of (CcArtifactRefs c) ?i = Some r"
        "DecodeRuntimeArtifact yaml r data = Inr (a, b)" "PbID (RbProblem b) = ?i" "candidate_bundle c ?i = b"
    by (rule entry_sound_cases)
  note d = decoded_bundle [OF b(4)]
  have r: "CeArtifact e = r" using e(1) b(3) by (simp add: entry_of_def Let_def)
  have rev: "RbRevision b \<noteq> []" using d(3) by auto
  have get: "CasGet cas r f = Some (Inr data, f)" using holds b(2,3) by (auto simp: store_holds_def)
  have new: "map_of (CcBundles x) ?i = None" "map_of (CcArtifactRefs x) ?i = None" using x e(2) by (simp_all add: mirrors_def)
  let ?x = "x \<lparr> CcIds := CcIds x @ [?i], CcBundles := CcBundles x @ [(?i, b)], CcArtifacts := CcArtifacts x @ [(?i, a)],
      CcArtifactBytes := CcArtifactBytes x @ [(?i, data)], CcArtifactRefs := CcArtifactRefs x @ [(?i, r)] \<rparr>"
  have "restore_entry yaml ck cas e x f = Some (Inr ?x, f)"
    using e(1) b d(4,5) new rev get r
    by (simp add: restore_entry_def Let_def io_defs ck_check_def ctx entry_of_def store_call_def)
  moreover have "restored_as c x [?i] ?x"
    using x new b(1,3) by (simp add: restored_as_def mirrors_def map_of_snoc del: map_of_append) (auto split: option.splits)
  ultimately show ?thesis by blast
qed

lemma restore_all:
  assumes "candidate_sound yaml c" and "store_holds cas c" and "CkCtxErr ck = Pair False"
  shows "mirrors c x \<Longrightarrow> \<forall>e \<in> set es. entry_of c e \<Longrightarrow> distinct (CcIds x @ map (\<lambda>e. PbID (CeProblem e)) es) \<Longrightarrow>
    \<exists>x'. io_each (restore_entry yaml ck cas) es x f = Some (Inr x', f) \<and> restored_as c x (map (\<lambda>e. PbID (CeProblem e)) es) x'"
proof (induction es arbitrary: x)
  case Nil
  then show ?case by (simp add: io_return_def restored_as_def)
next
  case (Cons e es)
  then obtain y where y: "restore_entry yaml ck cas e x f = Some (Inr y, f)" "restored_as c x [PbID (CeProblem e)] y"
    using restore_known [OF assms, of e x f] by auto
  have "\<exists>x'. io_each (restore_entry yaml ck cas) es y f = Some (Inr x', f) \<and> restored_as c y (map (\<lambda>e. PbID (CeProblem e)) es) x'"
    using y(2) Cons.prems by (intro Cons.IH) (auto simp: restored_as_def)
  then show ?case using y by (auto simp: io_bind_def restored_as_def)
qed


section \<open>The restored candidate\<close>

lemma identity_loop_cong:
  assumes "\<And>i. i \<in> set ids \<Longrightarrow> map_of (CcBundles x) i = map_of (CcBundles c) i \<and> map_of (CcArtifactRefs x) i = map_of (CcArtifactRefs c) i"
  shows "identity_loop x prev ids = identity_loop c prev ids"
  using assms by (induction ids arbitrary: prev) (auto split: option.splits)

lemma mirror_same:
  assumes x: "mirrors c x" "CcIds x = CcIds c" and sound: "candidate_sound yaml c"
  shows "Identity x = Identity c" "Entries x = Entries c" "i \<in> set (CcIds c) \<Longrightarrow> candidate_bundle x i = candidate_bundle c i"
proof -
  have look: "map_of (CcBundles x) i = map_of (CcBundles c) i" "map_of (CcArtifactRefs x) i = map_of (CcArtifactRefs c) i"
    if "i \<in> set (CcIds c)" for i
    using x that by (simp_all add: mirrors_def)
  have "identity_loop x None (sort (CcIds c)) = identity_loop c None (sort (CcIds c))"
    by (rule identity_loop_cong) (simp add: look)
  moreover have "length (CcBundles x) = length (CcBundles c)" using x candidate_sound_facts(2) [OF sound] by (simp add: mirrors_def)
  ultimately show "Identity x = Identity c" using x(2) by (simp add: Identity_def identity_stream_def split: sum.split)
  show same: "candidate_bundle x i = candidate_bundle c i" if "i \<in> set (CcIds c)" for i
    using look(1) [OF that] by (simp add: candidate_bundle_def)
  show "Entries x = Entries c" using look(2) same x(2) by (simp add: Entries_def)
qed

lemma candidate_restored:
  assumes sound: "candidate_sound yaml c" and holds: "store_holds cas c" and ctx: "CkCtxErr ck = Pair False"
    and l: "GlStrict l" and count: "entries \<noteq> []" "length entries \<le> maxRuntimeCatalogCount"
    and entries: "\<forall>e \<in> set entries. entry_of c e" "map (\<lambda>e. PbID (CeProblem e)) entries = CcIds c"
  shows "\<exists>x. candidateFromEntries yaml ck cas l entries f = Some (Inr x, f) \<and> mirrors c x \<and> CcIds x = CcIds c \<and>
    CcOwner x = GlId l \<and> CcBaseGeneration x = GlGeneration l"
proof -
  have "mirrors c (empty_candidate l [])" by (simp add: mirrors_def empty_candidate_def)
  moreover have "distinct (CcIds (empty_candidate l []) @ map (\<lambda>e. PbID (CeProblem e)) entries)"
    using entries(2) candidate_sound_facts(1) [OF sound] by (simp add: empty_candidate_def)
  ultimately obtain x where x: "io_each (restore_entry yaml ck cas) entries (empty_candidate l []) f = Some (Inr x, f)"
      "restored_as c (empty_candidate l []) (CcIds c) x"
    using restore_all [OF sound holds ctx _ entries(1)] entries(2) by metis
  have ids: "CcIds x = CcIds c" "CcOwner x = GlId l" "CcBaseGeneration x = GlGeneration l" "mirrors c x"
    using x(2) by (simp_all add: restored_as_def empty_candidate_def)
  have "sorted (CcIds c)" using sound by (simp add: candidate_sound_def)
  then have "x \<lparr> CcIds := sort (CcIds x) \<rparr> = x" using ids(1) by (simp add: sorted_sort_id)
  then have "candidateFromEntries yaml ck cas l entries f = Some (Inr x, f)"
    using x(1) l count by (simp add: candidateFromEntries_def io_defs)
  then show ?thesis using ids by blast
qed

section \<open>The entries a restart reads\<close>

text \<open>The JSON column returns the choices it was given.\<close>

definition choices_kept :: "ledger_env \<Rightarrow> catalog_candidate \<Rightarrow> bool" where
  "choices_kept env c \<longleftrightarrow>
     (\<forall>i \<in> set (CcIds c). EvJsonb env (PbChoices (RbProblem (candidate_bundle c i))) = PbChoices (RbProblem (candidate_bundle c i)))"

lemma published_in_order:
  assumes "candidate_sound yaml c"
  shows "published_entries env (Entries c) = map (stored_entry env) (Entries c)"
    "map (\<lambda>e. PbID (CeProblem e)) (published_entries env (Entries c)) = CcIds c"
proof -
  have id: "PbID (cloneProblem (RbProblem (candidate_bundle c i))) = i" if "i \<in> set (CcIds c)" for i
    using candidate_sound_facts(3) [OF assms that] by (auto simp: cloneProblem_def elim: entry_sound_cases)
  then have ids: "map (\<lambda>e. PbID (CeProblem e)) (Entries c) = CcIds c"
    by (simp add: Entries_def o_def map_idI)
  then have "sorted (map (\<lambda>e. PbID (CeProblem e)) (Entries c))" using assms by (simp add: candidate_sound_def)
  then show "published_entries env (Entries c) = map (stored_entry env) (Entries c)"
    by (simp add: published_entries_def sort_key_id_if_sorted)
  then show "map (\<lambda>e. PbID (CeProblem e)) (published_entries env (Entries c)) = CcIds c"
    using ids by (simp add: stored_entry_def o_def)
qed

text \<open>One stored entry: it describes its problem, is its own clone, and has the projection that was published.\<close>

lemma stored_entry_facts:
  assumes sound: "candidate_sound yaml c" and kept: "choices_kept env c" and e: "e \<in> set (Entries c)"
  shows "entry_of c (stored_entry env e)"
    and "stored_entry env e \<lparr> CeProblem := cloneProblem (CeProblem (stored_entry env e)) \<rparr> = stored_entry env e"
    and "sameCatalogProjection [CeProblem (stored_entry env e)] [CeProblem e]"
proof -
  obtain i where i: "i \<in> set (CcIds c)"
      "e = \<lparr> CeProblem = cloneProblem (RbProblem (candidate_bundle c i)),
             CeArtifact = (case map_of (CcArtifactRefs c) i of None \<Rightarrow> zero_ref | Some r \<Rightarrow> r),
             CeSourceTrust = RbSourceTrust (candidate_bundle c i) \<rparr>"
    using e by (auto simp: Entries_def)
  from candidate_sound_facts(3) [OF sound i(1)] obtain b a data r where
      b: "map_of (CcArtifactRefs c) i = Some r" "DecodeRuntimeArtifact yaml r data = Inr (a, b)" "PbID (RbProblem b) = i"
        "candidate_bundle c i = b"
    by (rule entry_sound_cases)
  note d = decoded_clone [OF b(2)]
  have ch: "EvJsonb env (PbChoices (RbProblem b)) = PbChoices (RbProblem b)"
    using kept i(1) b(4) by (auto simp: choices_kept_def)
  have copy: "copy_slice (PbChoices (RbProblem b)) = PbChoices (RbProblem b)"
    using arg_cong [OF d(1), of PbChoices] by (simp add: cloneProblem_def)
  have e': "stored_entry env e = \<lparr> CeProblem = (RbProblem b) \<lparr> PbCatalogActive := True, PbCreatedAt := EvNow env, PbUpdatedAt := EvNow env \<rparr>,
      CeArtifact = r, CeSourceTrust = RbSourceTrust b \<rparr>"
    using i(2) b ch d(1) by (simp add: stored_entry_def)
  show "entry_of c (stored_entry env e)"
    using i(1) b d by (simp add: e' entry_of_def Let_def sameRuntimeProblemProjection_def)
  show "stored_entry env e \<lparr> CeProblem := cloneProblem (CeProblem (stored_entry env e)) \<rparr> = stored_entry env e"
    using copy by (simp add: e' cloneProblem_def)
  show "sameCatalogProjection [CeProblem (stored_entry env e)] [CeProblem e]"
    unfolding e' using d(1) b(4) i(2) by (simp add: sameCatalogProjection_def by_id_def same_projection_def)
qed

lemma stored_entries_same:
  assumes sound: "candidate_sound yaml c" and kept: "choices_kept env c"
  shows "sameCatalogEntries (published_entries env (Entries c)) (Entries c)"
    and "sameCatalogEntries (published_entries env (Entries c)) (published_entries env (Entries c))"
    and "cloneStartupCatalogEntries (published_entries env (Entries c)) = published_entries env (Entries c)"
proof -
  let ?es = "Entries c" and ?ps = "published_entries env (Entries c)"
  note order = published_in_order [OF sound, of env]
  note fact = stored_entry_facts [OF sound kept]
  have dist: "distinct (map (\<lambda>e. PbID (CeProblem e)) ?ps)" using order(2) candidate_sound_facts(1) [OF sound] by simp
  have find: "entry_by_id ?ps (PbID (CeProblem p)) = Some p" if "p \<in> set ?ps" for p
  proof -
    have "find (\<lambda>e. PbID (CeProblem e) = PbID (CeProblem p)) ps = Some p" if "p \<in> set ps" "distinct (map (\<lambda>e. PbID (CeProblem e)) ps)" for ps
      using that by (induction ps) (auto simp: image_iff)
    then show ?thesis using that dist by (simp add: entry_by_id_def)
  qed
  have id: "PbID (CeProblem (stored_entry env e)) = PbID (CeProblem e)" "CeArtifact (stored_entry env e) = CeArtifact e"
      "CeSourceTrust (stored_entry env e) = CeSourceTrust e" for e
    by (simp_all add: stored_entry_def)
  have "entry_by_id ?ps (PbID (CeProblem e)) = Some (stored_entry env e)" if "e \<in> set ?es" for e
    using find [of "stored_entry env e"] that by (simp add: order(1) id)
  then show "sameCatalogEntries ?ps ?es"
    using dist fact(3) by (simp add: sameCatalogEntries_def published_entries_def id)
  have "sameCatalogProjection [p] [p]" for p by (simp add: sameCatalogProjection_def by_id_def same_projection_def)
  then show "sameCatalogEntries ?ps ?ps" using dist find by (simp add: sameCatalogEntries_def)
  show "cloneStartupCatalogEntries ?ps = ?ps"
    using fact(2) by (simp add: cloneStartupCatalogEntries_def order(1))
qed


section \<open>Start-up\<close>

text \<open>What a loader serves once a candidate is active.\<close>

definition serves :: "git_loader \<Rightarrow> catalog_head \<Rightarrow> catalog_candidate \<Rightarrow> bool" where
  "serves l h c \<longleftrightarrow>
     GlStrict l \<and> catalogHead l = Some h \<and>
     (\<forall>i \<in> set (CcIds c). GlActive l i = Some (RbRevision (candidate_bundle c i)) \<and>
        GlHistory l i (RbRevision (candidate_bundle c i)) = Some (cloneRuntimeBundle (candidate_bundle c i)))"

lemma prepare_runs:
  assumes "GlStrict (CoLoader s)" and "CcOwner x = GlId (CoLoader s)" and "Identity x = Inr (ChRef h)" and "ChGeneration h \<noteq> 0"
    and "ChEntryCount h = length (CcIds x)" and "\<not> GlPublishing (CoLoader s)" and "CcBaseGeneration x = GlGeneration (CoLoader s)"
    and "\<forall>i \<in> set (CcIds x). check_binding (CoLoader s) x i = None"
  shows "\<exists>a. prepare x h s = Some (Inr a, s \<lparr> CoLoader := (CoLoader s) \<lparr> GlPublishing := True \<rparr> \<rparr>) \<and> open_token x h a"
proof -
  have "first_error (check_binding (CoLoader s) x) (CcIds x) = None" using assms(8) by (simp add: first_error_None)
  then show ?thesis
    using assms by (simp add: prepare_def prepareActivationAt_def identity_matches_def open_token_def)
qed

lemma commit_runs:
  assumes "open_token x h a" and "GlStrict (CoLoader s)"
  shows "\<exists>l. commit_token a s = Some (Inr (), s \<lparr> CoLoader := l \<rparr>) \<and> serves l h x"
proof -
  let ?l = "foldl (install_candidate x) ((CoLoader s) \<lparr> GlActive := Map.empty \<rparr>) (CcIds x)
    \<lparr> GlGeneration := ChGeneration h, GlActiveHead := Some h, GlPublishing := False \<rparr>"
  have "commit_token a s = Some (Inr (), s \<lparr> CoLoader := ?l \<rparr>)"
    using assms(1) by (simp add: commit_token_def Commit_def open_token_def Let_def)
  moreover have "serves ?l h x" using assms(2) by (simp add: serves_def catalogHead_def foldl_install)
  ultimately show ?thesis by blast
qed

lemma activate_runs:
  fixes s :: "('f, 'w) coordinator"
  assumes "GlStrict (CoLoader s)" and "CcOwner x = GlId (CoLoader s)" and "Identity x = Inr (ChRef h)" and "ChGeneration h \<noteq> 0"
    and "ChEntryCount h = length (CcIds x)" and "\<not> GlPublishing (CoLoader s)" and "CcBaseGeneration x = GlGeneration (CoLoader s)"
    and "\<forall>i \<in> set (CcIds x). check_binding (CoLoader s) x i = None"
  shows "\<exists>l. activateCandidate x h op s = Some (Inr (), s \<lparr> CoLoader := l \<rparr>) \<and> serves l h x"
proof -
  obtain a where a: "prepare x h s = Some (Inr a, s \<lparr> CoLoader := (CoLoader s) \<lparr> GlPublishing := True \<rparr> \<rparr>)" "open_token x h a"
    using prepare_runs [OF assms] by blast
  obtain l where "commit_token a (s \<lparr> CoLoader := (CoLoader s) \<lparr> GlPublishing := True \<rparr> \<rparr>) = Some (Inr (), s \<lparr> CoLoader := l \<rparr>)"
      "serves l h x"
    using commit_runs [OF a(2), of "s \<lparr> CoLoader := (CoLoader s) \<lparr> GlPublishing := True \<rparr> \<rparr>"] assms(1) by auto
  then show ?thesis using a(1) by (auto simp: activateCandidate_def io_defs)
qed

text \<open>A database at rest whose head is the publication of a candidate.\<close>

definition at_rest :: "pg \<Rightarrow> catalog_head \<Rightarrow> catalog_entry list \<Rightarrow> bool" where
  "at_rest w h entries \<longleftrightarrow>
     PgEvents w = [] \<and> Head (PgLedger w) = Inr (Some h) \<and> ReadPublication (PgLedger w) (ChGeneration h) = Inr (h, entries)"

lemma startup_runs:
  fixes s :: "('f, pg) coordinator"
  assumes site: "SiRepo site = pg_repo" "SiYaml site = yaml" "CkCtxErr (SiCheckout site) = Pair False" "store_holds (SiStore site) c"
    and c: "candidate_sound yaml c" "Identity c = Inr (ChRef h)" "ChEntryCount h = length (CcIds c)" "CcIds c \<noteq> []"
      "length (CcIds c) \<le> maxRuntimeCatalogCount" "choices_kept env c"
    and s: "CoPoisoned s = None" "CoLoader s = NewRuntimeGitLoader n"
    and rest: "at_rest (CoDatabase s) h (published_entries env (Entries c))" "ChGeneration h \<noteq> 0"
  shows "\<exists>l. Startup site s = Some (Inr (length (CcIds c)), s \<lparr> CoLoader := l \<rparr>) \<and> serves l h c"
proof -
  let ?ps = "published_entries env (Entries c)"
  have calm: "PgEvents (CoDatabase s) = []" and head: "Head (PgLedger (CoDatabase s)) = Inr (Some h)"
    and read: "ReadPublication (PgLedger (CoDatabase s)) (ChGeneration h) = Inr (h, ?ps)"
    using rest(1) by (simp_all add: at_rest_def)
  note same = stored_entries_same [OF c(1,6)] and asks = calm_asks [OF calm] and ids = published_in_order(2) [OF c(1), of env]
  have fresh: "catalogHead (CoLoader s) = None" "GlStrict (CoLoader s)" "\<not> GlPublishing (CoLoader s)"
      "\<And>i r. GlHistory (CoLoader s) i r = None"
    by (simp_all add: s(2) NewRuntimeGitLoader_def catalogHead_def)
  have count: "length ?ps = length (CcIds c)" using arg_cong [OF ids, of length] by simp
  let ?snap = "\<lparr> SsHead = h, SsEntries = ?ps, SsLegacyProblems = [], SsLegacy = False \<rparr>"
  have snapshot: "readStartupSnapshot site s = Some (Inr (Some ?snap), s)"
    by (simp add: readStartupSnapshot_def read_snapshot_def io_defs site(1) asks head read same(3))
  have "\<forall>e \<in> set ?ps. entry_of c e"
    using stored_entry_facts(1) [OF c(1,6)] by (simp add: published_in_order(1) [OF c(1)])
  then obtain x where x: "candidateFromEntries yaml (SiCheckout site) (SiStore site) (CoLoader s) ?ps (CoFiles s) = Some (Inr x, CoFiles s)"
      "mirrors c x" "CcIds x = CcIds c" "CcOwner x = GlId (CoLoader s)" "CcBaseGeneration x = GlGeneration (CoLoader s)"
    using candidate_restored [OF c(1) site(4,3) fresh(2), of ?ps "CoFiles s"] count c(4,5) ids by fastforce
  note mirror = mirror_same [OF x(2,3) c(1)]
  have prepared: "prepareStartupSnapshot site ?snap s = Some (Inr x, s)"
    using x(1) fresh(1) mirror(1,2) c(2) same(1)
    by (simp add: prepareStartupSnapshot_def peek_def io_defs act_def site(2) snapshot_identity_def)
  have "check_binding (CoLoader s) x i = None" if "i \<in> set (CcIds x)" for i
    using that x(3) mirror(3) fresh(4) entry_sound_bound [OF candidate_sound_facts(3) [OF c(1)], of i]
    by (auto simp: check_binding_def Let_def)
  then obtain l where l: "activateCandidate x h ''adopt persisted problem catalog'' s = Some (Inr (), s \<lparr> CoLoader := l \<rparr>)" "serves l h x"
    using activate_runs [of s x h "''adopt persisted problem catalog''"] fresh x(3-5) mirror(1) c(2,3) rest(2) by auto
  have closed: "close_lease site lease (s \<lparr> CoLoader := l \<rparr>) = s \<lparr> CoLoader := l \<rparr>" for lease
    by (rule calm_close) (simp_all add: calm site(1))
  have final: "finalizeStartupSnapshot site ?snap x s = Some (Inr (length (CcIds c), False), s \<lparr> CoLoader := l \<rparr>)"
    using l(1) fresh(1) count
    by (simp add: finalizeStartupSnapshot_def finalize_bound_def with_lease_def io_defs peek_def site(1) asks head read same(2)
        sameCatalogHead_def closed)
  have "serves l h c" using l(2) x(3) mirror(3) by (simp add: serves_def)
  moreover have "Startup site s = Some (Inr (length (CcIds c)), s \<lparr> CoLoader := l \<rparr>)"
    by (simp add: Startup_def io_defs site(1) asks check_health_def healthError_def s(1) catalogStartupSnapshotAttempts_def
        numeral_3_eq_3 startup_attempt_def snapshot prepared final)
  ultimately show ?thesis by blast
qed


section \<open>Publishing\<close>

lemma publish_tx_found:
  assumes wf: "ledger_wf d" and run: "publish_tx env expected ref entries d = Inr (h, d')"
  shows "FindPublication d' ref = Inr (Some h)"
proof -
  let ?new = "new_row expected ref entries"
  obtain d1 where h: "h = \<lparr> ChGeneration = next_generation expected, ChRef = ref, ChEntryCount = length entries \<rparr>"
      and row: "row_key ?new \<notin> row_key ` set (LgPublications d)"
      and d1: "LgPublications d1 = LgPublications d @ [?new]"
      and added: "entries_added env (int64 (next_generation expected)) entries d1 (d' \<lparr> LgHead := LgHead d1 \<rparr>)"
    using run by (rule publish_tx_Inr) blast
  note app = publish_tx_appends [OF wf run]
  have pubs: "LgPublications d' = LgPublications d @ [?new]" using added d1 by (simp add: entries_added_def)
  have "find (\<lambda>p. PwSchema p = sint (PrDigestSchema ref) \<and> PwDigest p = PrCandidateDigest ref) (LgPublications d) = None"
    using row by (force simp: find_None_iff row_key_def new_row_def image_iff)
  then have at: "publication_by_ref ref d' = Some ?new" by (simp add: publication_by_ref_def pubs find_append new_row_def)
  have "row_ok d' ?new" using app(1) pubs by (simp add: ledger_wf_def)
  moreover have "PwGeneration ?new = int64 (next_generation expected)" by (simp add: new_row_def)
  moreover have "row_ref ?new = ref" "nat (PwCount ?new) = length entries" by (simp_all add: row_ref_def new_row_def)
  moreover have "uint64 (int64 (next_generation expected)) = next_generation expected" by (rule uint64_int64)
  moreover have "1 \<le> int64 (next_generation expected)" using app(3) by simp
  ultimately show ?thesis using scan_row_ok [of d' ?new] at h by (simp add: FindPublication_def)
qed

lemma calm_choices: "choices_kept (PgEnv calm) c"
  by (simp add: choices_kept_def calm_def)

text \<open>A database with nothing left to go wrong but, at most, the answer to the next commit.\<close>

definition nearly_calm :: "pg_event list \<Rightarrow> bool" where
  "nearly_calm evs \<longleftrightarrow> evs = [] \<or> evs = [calm \<lparr> PgFate := CommitFails OtherCommitError True \<rparr>]"

lemma nearly_calm_publish:
  assumes evs: "nearly_calm (PgEvents w)" and run: "publish_tx (PgEnv calm) expected ref entries (PgLedger w) = Inr (h, d)"
    and wf: "ledger_wf (PgLedger w)" and schema: "PrDigestSchema ref \<noteq> 0"
  shows "RpPublish pg_repo lease expected ref entries w =
    (if PgEvents w = [] then Inr h else Inl ErrCatalogCommitUnknown, \<lparr> PgLedger = d, PgEvents = [] \<rparr>)"
proof -
  note read = publish_tx_readable [OF wf run] and app = publish_tx_appends [OF wf run]
  have "entries \<noteq> []" using run by (rule publish_tx_Inr)
  moreover have "publication_complete (int64 (next_generation expected)) d"
  proof -
    have head: "LgHead d = Some (int64 (next_generation expected))" using run by (rule publish_tx_Inr)
    show ?thesis
    proof (cases "publication_at (int64 (next_generation expected)) d")
      case (Some p)
      then have "row_ok d p" "PwGeneration p = int64 (next_generation expected)"
        using app(1) by (auto simp: ledger_wf_def publication_at_def dest!: find_SomeD)
      then show ?thesis using Some head by (simp add: publication_complete_def row_ok_def)
    qed (simp add: publication_complete_def)
  qed
  ultimately show ?thesis
    using evs run schema
    by (cases w)
      (auto simp: pg_repo_def pg_call_def event_of_def nearly_calm_def Publish_def run_ledger_def calm_def classifyCatalogCommitError_def)
qed

text \<open>A publication that the database accepts becomes the catalog of the coordinator, also when its commit looks lost.\<close>

lemma publish_runs:
  fixes s :: "('f, pg) coordinator"
  assumes site: "SiRepo site = pg_repo" and evs: "nearly_calm (PgEvents (CoDatabase s))" and wf: "ledger_wf (PgLedger (CoDatabase s))"
    and run: "publish_tx (PgEnv calm) expected ref (Entries c) (PgLedger (CoDatabase s)) = Inr (h, d)"
    and c: "candidate_sound yaml c" "Identity c = Inr ref" "CcOwner c = GlId (CoLoader s)"
      "CcBaseGeneration c = GlGeneration (CoLoader s)" "\<forall>i \<in> set (CcIds c). check_binding (CoLoader s) c i = None"
    and l: "GlStrict (CoLoader s)" "\<not> GlPublishing (CoLoader s)"
  shows "\<exists>l. publishCandidate site lease expected c s =
      Some (Inr (length (CcIds c)), s \<lparr> CoLoader := l, CoDatabase := \<lparr> PgLedger = d, PgEvents = [] \<rparr> \<rparr>) \<and> serves l h c"
proof -
  note read = publish_tx_readable [OF wf run] and found = publish_tx_found [OF wf run]
  have count: "length (Entries c) = length (CcIds c)" by (simp add: Entries_def)
  have h: "h = \<lparr> ChGeneration = next_generation expected, ChRef = ref, ChEntryCount = length (CcIds c) \<rparr>" using read(1) count by simp
  have g: "next_generation expected \<noteq> 0" using publish_tx_appends(3) [OF wf run] by auto
  have schema: "PrDigestSchema ref \<noteq> 0" using c(2) by (auto simp: Identity_def catalogCandidateDigestSchema_def split: sum.splits)
  obtain a where a: "prepare c h s = Some (Inr a, s \<lparr> CoLoader := (CoLoader s) \<lparr> GlPublishing := True \<rparr> \<rparr>)" "open_token c h a"
    using prepare_runs [of s c h] c l g h by auto
  let ?s = "s \<lparr> CoLoader := (CoLoader s) \<lparr> GlPublishing := True \<rparr>, CoDatabase := \<lparr> PgLedger = d, PgEvents = [] \<rparr> \<rparr>"
  obtain l where l: "commit_token a ?s = Some (Inr (), s \<lparr> CoLoader := l, CoDatabase := \<lparr> PgLedger = d, PgEvents = [] \<rparr> \<rparr>)" "serves l h c"
  proof -
    have "?s \<lparr> CoLoader := k \<rparr> = s \<lparr> CoLoader := k, CoDatabase := \<lparr> PgLedger = d, PgEvents = [] \<rparr> \<rparr>" for k by (cases s) simp
    moreover have "\<exists>k. commit_token a ?s = Some (Inr (), ?s \<lparr> CoLoader := k \<rparr>) \<and> serves k h c"
      by (rule commit_runs [OF a(2)]) (simp add: l(1))
    ultimately show thesis using that by metis
  qed
  have calm: "PgEvents (CoDatabase ?s) = []" by simp
  note asks = calm_asks [OF calm]
  have commit: "commit_or_poison a op m ?s = Some (Inr m, s \<lparr> CoLoader := l, CoDatabase := \<lparr> PgLedger = d, PgEvents = [] \<rparr> \<rparr>)" for op m
    using l(1) by (simp add: commit_or_poison_def io_defs)
  have "reconcile_reading site 0 expected ref h (Entries c) a ?s =
      Some (Inr (length (CcIds c)), s \<lparr> CoLoader := l, CoDatabase := \<lparr> PgLedger = d, PgEvents = [] \<rparr> \<rparr>)"
    using read(3,4) found stored_entries_same(1) [OF c(1) calm_choices] h commit count
    by (simp add: reconcile_reading_def reconcile_outcome_def io_defs site asks sameCatalogHead_def)
  moreover have "close_lease site m (s \<lparr> CoLoader := l, CoDatabase := \<lparr> PgLedger = d, PgEvents = [] \<rparr> \<rparr>) =
      s \<lparr> CoLoader := l, CoDatabase := \<lparr> PgLedger = d, PgEvents = [] \<rparr> \<rparr>" for m
    by (rule calm_close) (simp_all add: site)
  ultimately have reconciled: "reconcile_commit site lease expected ref h (Entries c) a ?s =
      Some (Inr (length (CcIds c)), s \<lparr> CoLoader := l, CoDatabase := \<lparr> PgLedger = d, PgEvents = [] \<rparr> \<rparr>)"
    by (simp add: reconcile_commit_def io_defs site asks)
  have call: "ask (RpPublish pg_repo lease expected ref (Entries c)) (s \<lparr> CoLoader := (CoLoader s) \<lparr> GlPublishing := True \<rparr> \<rparr>) =
      Some (if PgEvents (CoDatabase s) = [] then Inr h else Inl ErrCatalogCommitUnknown, ?s)"
    using nearly_calm_publish [OF evs run wf schema, of lease] by (simp add: ask_def)
  have "publish_prepared site lease expected ref h (Entries c) a (s \<lparr> CoLoader := (CoLoader s) \<lparr> GlPublishing := True \<rparr> \<rparr>) =
      Some (Inr (length (CcIds c)), s \<lparr> CoLoader := l, CoDatabase := \<lparr> PgLedger = d, PgEvents = [] \<rparr> \<rparr>)"
    using commit reconciled count by (simp add: publish_prepared_def io_defs site call)
  then show ?thesis
    using a(1) l(2) h count by (auto simp: publishCandidate_def Let_def io_defs from_sum_def c(2))
qed

section \<open>Properties\<close>

lemma served_bundle:
  assumes "serves l h c" and "candidate_sound yaml c" and "i \<in> set (CcIds c)"
  shows "resolveCatalogBundle l \<lparr> ProblemID = i, Revision = RbRevision (candidate_bundle c i) \<rparr> = Some (candidate_bundle c i)"
    and "ResolveActiveProblem files l \<lparr> ProblemID = i, Revision = RbRevision (candidate_bundle c i) \<rparr> =
      Inr (RbProblem (candidate_bundle c i))"
proof -
  from candidate_sound_facts(3) [OF assms(2,3)] obtain b a data r where
      b: "DecodeRuntimeArtifact yaml r data = Inr (a, b)" "PbID (RbProblem b) = i" "candidate_bundle c i = b"
    by (rule entry_sound_cases)
  note d = decoded_bundle [OF b(1)] and clone = decoded_clone(1) [OF b(1)]
  have "cloneRuntimeBundle b = b" using clone by (simp add: cloneRuntimeBundle_def)
  then have "GlStrict l" "GlActive l i = Some (RbRevision b)" "GlHistory l i (RbRevision b) = Some b"
    using assms(1,3) b(3) by (auto simp: serves_def)
  moreover have "RbRevision b \<noteq> []" using d(3) by auto
  ultimately show "resolveCatalogBundle l \<lparr> ProblemID = i, Revision = RbRevision (candidate_bundle c i) \<rparr> = Some (candidate_bundle c i)"
    "ResolveActiveProblem files l \<lparr> ProblemID = i, Revision = RbRevision (candidate_bundle c i) \<rparr> =
      Inr (RbProblem (candidate_bundle c i))"
    using b(2,3) d(4) clone by (simp_all add: resolveCatalogBundle_def ResolveActiveProblem_def cloneRuntimeBundle_def)
qed

text \<open>
  A restart serves what was published: when a candidate that was built from a checkout has been published, and another
  process starts a fresh coordinator on the resulting ledger with a store that still holds the artifacts, \<open>Startup\<close> succeeds
  with the published head and number of problems, the coordinator is healthy, the ledger is unchanged, and every problem
  resolves to exactly the bundle that was captured, as the active one. Nothing is assumed of the second process's checkout but
  that its context is not cancelled.
\<close>

theorem restart_serves_published:
  fixes w :: pg and f :: 'f
  assumes built: "BuildCandidate yaml ck l v = Some (Inr c, v')" and identity: "Identity c = Inr ref"
    and published: "ledger_wf d" "Publish env fate expected ref (Entries c) d = (Inr h, PgLedger w)" "choices_kept env c"
    and site: "SiRepo site = pg_repo" "SiYaml site = yaml" "CkCtxErr (SiCheckout site) = Pair False" "store_holds (SiStore site) c"
    and fresh: "PgEvents w = []" "NewCatalogCoordinator (Some (NewRuntimeGitLoader n)) True True f w = Inr s"
  shows "\<exists>s'. Startup site s = Some (Inr (length (CcIds c)), s') \<and> Healthy s' \<and> catalogHead (CoLoader s') = Some h \<and>
    CoDatabase s' = w \<and>
    (\<forall>i \<in> set (CcIds c). \<forall>q. q = \<lparr> ProblemID = i, Revision = RbRevision (candidate_bundle c i) \<rparr> \<longrightarrow>
       resolveCatalogBundle (CoLoader s') q = Some (candidate_bundle c i) \<and>
       ResolveActiveProblem no_files (CoLoader s') q = Inr (RbProblem (candidate_bundle c i)))"
proof -
  have c: "candidate_sound yaml c" "length (CcIds c) \<le> maxRuntimeCatalogCount" using io_ensuresD [OF BuildCandidate_sound built] by auto
  have run: "publish_tx env expected ref (Entries c) d = Inr (h, PgLedger w)"
    using published(2) by (rule Publish_cases) auto
  note read = publish_tx_readable [OF published(1) run]
  have count: "length (Entries c) = length (CcIds c)" by (simp add: Entries_def)
  have "Entries c \<noteq> []" using run by (rule publish_tx_Inr)
  then have ne: "CcIds c \<noteq> []" by (simp add: Entries_def)
  have h: "ChGeneration h = next_generation expected" "ChRef h = ref" "ChEntryCount h = length (CcIds c)" using read(1) count by simp_all
  have g: "ChGeneration h \<noteq> 0" using publish_tx_appends(3) [OF published(1) run] h(1) by auto
  have s: "s = \<lparr> CoLoader = NewRuntimeGitLoader n, CoPoisoned = None, CoFiles = f, CoDatabase = w \<rparr>"
    using fresh(2) by (simp add: NewCatalogCoordinator_def NewRuntimeGitLoader_def)
  have "at_rest (CoDatabase s) h (published_entries env (Entries c))"
    using fresh(1) read(3,4) h(1) s by (simp add: at_rest_def)
  then obtain l' where l: "Startup site s = Some (Inr (length (CcIds c)), s \<lparr> CoLoader := l' \<rparr>)" "serves l' h c"
    using startup_runs [OF site c(1) _ h(3) ne c(2) published(3), of s n] identity h(2) g s by auto
  then show ?thesis
    using served_bundle [OF l(2) c(1)] s by (auto simp: serves_def Healthy_def healthError_def)
qed

end
