(* ===== verification/Lifecycle_Reader.thy ===== *)
theory Lifecycle_Reader
  imports Store_System
begin

text \<open>
  The reader behind the browser's lifecycle stream: \<open>backend/internal/runner/lifecycle.go\<close>. Both entry points run
  one repeatable-read, read-only transaction, so they are queries on one state of the database
  (\<open>run_query\<close>); \<open>outage\<close> says which of its statements the server fails, by the text the error is wrapped
  in. An error that wraps a sentinel is that sentinel.

  A browser's cursor is an untrusted text. A UUID parameter is compared with the column after
  PostgreSQL has read it, so upper-case hexadecimal digits match (\<open>pg_uuid\<close>); the comparisons Go makes are
  on the texts.
\<close>

section \<open>Values\<close>

definition maxLifecycleBootstrapReplay :: int where
  "maxLifecycleBootstrapReplay = 256"

record lifecycle_cursor =
  LcSessionID :: string
  LcGeneration :: u64
  LcEventSequence :: u64

record lifecycle_verify_result =
  LvSuccess :: bool
  LvLog :: string

record lifecycle_snapshot =
  LsSessionID :: string
  LsProblemID :: string
  LsGeneration :: u64
  LsOperationID :: string
  LsStatus :: string
  LsTimeoutAt :: time
  LsCleanupPending :: bool
  LsTerminalReason :: string
  LsEventSequence :: u64
  LsLatestVerifyResult :: "lifecycle_verify_result option"

definition Cursor :: "lifecycle_snapshot \<Rightarrow> lifecycle_cursor" where
  "Cursor s = \<lparr>LcSessionID = LsSessionID s, LcGeneration = LsGeneration s, LcEventSequence = LsEventSequence s\<rparr>"

record lifecycle_bootstrap =
  LbSnapshot :: "lifecycle_snapshot option"
  LbEvents :: "durable_event list"
  LbResync :: bool

record lifecycle_delta =
  LdSnapshot :: "lifecycle_snapshot option"
  LdSnapshotChanged :: bool
  LdEvents :: "durable_event list"

record lifecycle_snapshot_record =
  SrSnapshot :: lifecycle_snapshot
  SrDesiredState :: string

definition validLifecycleCursorIdentity :: "lifecycle_cursor \<Rightarrow> bool" where
  "validLifecycleCursorIdentity cursor \<longleftrightarrow> validLifecycleUUID (LcSessionID cursor) \<and> LcGeneration cursor > 0"

section \<open>Queries\<close>

text \<open>A text parameter as PostgreSQL's \<open>uuid\<close> type prints it.\<close>

definition pg_uuid :: "string \<Rightarrow> string" where
  "pg_uuid v = map (\<lambda>c. if is_upper c then char_of (of_char c + 32 :: nat) else c) v"

definition reach_db :: "(string \<Rightarrow> bool) \<Rightarrow> string \<Rightarrow> unit stmt" where
  "reach_db outage what = tx_guard (\<not> outage what) (ErrDB what)"

definition owned_session :: "string \<Rightarrow> string \<Rightarrow> session_row \<Rightarrow> bool" where
  "owned_session userID sessionID s \<longleftrightarrow> s_id s = pg_uuid sessionID \<and> s_user_id s = pg_uuid userID"

definition lifecycleOwnedGeneration :: "(string \<Rightarrow> bool) \<Rightarrow> string \<Rightarrow> string \<Rightarrow> u64 stmt" where
  "lifecycleOwnedGeneration outage userID sessionID =
     tx_seq (reach_db outage ''authorize lifecycle session'')
     (tx_bind (tx_row (\<lambda>d. find (owned_session userID sessionID) (sessions d)) ErrLifecycleNotFoundOrForbidden) (\<lambda>s.
      tx_seq (tx_guard (s_current_generation s > 0) ErrLifecycleCursorUnavailable)
      (tx_return (uint64 (s_current_generation s)))))"

definition allocation_outstanding :: "allocation_row \<Rightarrow> bool" where
  "allocation_outstanding a \<longleftrightarrow> a_desired_state a \<noteq> ''absent'' \<or> a_observed_state a \<noteq> ''absent''"

definition session_outstanding :: "db \<Rightarrow> session_row \<Rightarrow> bool" where
  "session_outstanding d s \<longleftrightarrow> list_ex (\<lambda>a. a_session_id a = s_id s \<and> allocation_outstanding a) (allocations d)"

text \<open>\<open>ORDER BY s.queued_at DESC,s.created_at DESC,s.id DESC LIMIT 1\<close>\<close>

definition active_lifecycle_session :: "string \<Rightarrow> db \<Rightarrow> string option" where
  "active_lifecycle_session userID d =
     (case rev (sort_key (\<lambda>s. (s_queued_at s, s_created_at s, s_id s))
        (filter (\<lambda>s. s_user_id s = pg_uuid userID \<and> session_outstanding d s) (sessions d))) of
        [] \<Rightarrow> None | s # _ \<Rightarrow> Some (s_id s))"

definition lifecycleActiveSessionID :: "(string \<Rightarrow> bool) \<Rightarrow> string \<Rightarrow> string option stmt" where
  "lifecycleActiveSessionID outage userID =
     tx_seq (reach_db outage ''resolve active lifecycle session'') (tx_get (active_lifecycle_session userID))"

section \<open>The snapshot\<close>

text \<open>The columns of the snapshot query that come from sub-queries.\<close>

definition snapshot_cleanup_pending :: "db \<Rightarrow> session_row \<Rightarrow> allocation_row \<Rightarrow> bool" where
  "snapshot_cleanup_pending d s a \<longleftrightarrow>
     list_ex (\<lambda>p. a_session_id p = s_id s \<and> (s_desired_state s = ''absent'' \<or> a_generation p < a_generation a) \<and>
       allocation_outstanding p) (allocations d)"

definition terminal_reason :: "db \<Rightarrow> allocation_row \<Rightarrow> string" where
  "terminal_reason d a =
     (case sort_key e_sequence (filter (\<lambda>e. e_allocation_id e = a_id a \<and>
          e_type e \<in> {''failed'', ''timed_out'', ''provider_lost'', ''destroying''}) (events d)) of
        [] \<Rightarrow> ''''
      | e # _ \<Rightarrow> if e_type e \<in> {''failed'', ''timed_out'', ''provider_lost''} then e_type e
                 else (case e_reason_code e of None \<Rightarrow> '''' | Some c \<Rightarrow> c))"

text \<open>\<open>ORDER BY verify.completed_at DESC,...\<close>: NULL sorts first in descending order.\<close>

definition verify_order :: "operation_row \<Rightarrow> (bool \<times> time) \<times> time \<times> string" where
  "verify_order r = ((case o_completed_at r of None \<Rightarrow> (True, 0) | Some t \<Rightarrow> (False, t)), o_created_at r, o_id r)"

definition latest_verify :: "db \<Rightarrow> allocation_row \<Rightarrow> json_doc" where
  "latest_verify d a =
     (case rev (sort_key verify_order (filter (\<lambda>r. o_allocation_id r = a_id a \<and> o_provider_id r = a_provider_id a \<and>
          o_kind r = ''verify'' \<and> o_state r = ''succeeded'') (operations d))) of
        [] \<Rightarrow> [] | r # _ \<Rightarrow> o_result_metadata r)"

text \<open>The rows of \<open>sessions JOIN runner_allocations JOIN runner_operations\<close>.\<close>

definition snapshot_rows :: "string \<Rightarrow> string \<Rightarrow> db \<Rightarrow> (session_row \<times> allocation_row \<times> operation_row) list" where
  "snapshot_rows userID sessionID d =
     concat (map (\<lambda>s. concat (map (\<lambda>a. map (\<lambda>r. (s, a, r))
         (filter (\<lambda>r. o_allocation_id r = a_id a \<and> o_kind r = ''create'') (operations d)))
       (filter (\<lambda>a. a_session_id a = s_id s \<and> a_generation a = s_current_generation s) (allocations d))))
     (filter (owned_session userID sessionID) (sessions d)))"

definition snapshot_verify_result :: "json_doc \<Rightarrow> runner_error + lifecycle_verify_result option" where
  "snapshot_verify_result doc =
     (if doc = [] then Inr None
      else case unmarshal_metadata doc of None \<Rightarrow> Inl ErrLifecycleCursorUnavailable
      | Some result \<Rightarrow>
          (case (vm_Success result, vm_Log result) of
             (Some success, Some log) \<Rightarrow>
               if vm_InfrastructureError result then Inl ErrLifecycleCursorUnavailable
               else Inr (Some \<lparr>LvSuccess = success, LvLog = boundedDurableMessage log\<rparr>)
           | _ \<Rightarrow> Inl ErrLifecycleCursorUnavailable))"

definition snapshot_of :: "db \<Rightarrow> session_row \<Rightarrow> allocation_row \<Rightarrow> operation_row \<Rightarrow> lifecycle_verify_result option \<Rightarrow> lifecycle_snapshot" where
  "snapshot_of d s a r latest =
     \<lparr>LsSessionID = s_id s, LsProblemID = s_problem_id s, LsGeneration = uint64 (a_generation a), LsOperationID = o_id r,
      LsStatus = s_state s, LsTimeoutAt = s_expires_at s, LsCleanupPending = snapshot_cleanup_pending d s a,
      LsTerminalReason = terminal_reason d a, LsEventSequence = uint64 (a_last_event_sequence a),
      LsLatestVerifyResult = latest\<rparr>"

text \<open>\<open>COUNT(*) OVER ()\<close> counts the joined rows before \<open>LIMIT 1\<close> takes the first.\<close>

definition snapshot_of_rows :: "(session_row \<times> allocation_row \<times> operation_row) list \<Rightarrow> lifecycle_snapshot_record stmt" where
  "snapshot_of_rows rows =
     (case rows of [] \<Rightarrow> tx_fail ErrLifecycleCursorUnavailable
      | (s, a, r) # _ \<Rightarrow>
          tx_seq (tx_guard (\<not> (a_generation a \<le> 0 \<or> a_last_event_sequence a < 0 \<or> length rows \<noteq> 1)) ErrLifecycleCursorUnavailable)
          (tx_bind (tx_get (\<lambda>d. latest_verify d a)) (\<lambda>verifyResult.
           tx_bind (tx_lift (snapshot_verify_result verifyResult)) (\<lambda>latest.
           tx_bind (tx_get (\<lambda>d. snapshot_of d s a r latest)) (\<lambda>snapshot.
           tx_return \<lparr>SrSnapshot = snapshot, SrDesiredState = s_desired_state s\<rparr>)))))"

definition loadLifecycleSnapshot :: "(string \<Rightarrow> bool) \<Rightarrow> string \<Rightarrow> string \<Rightarrow> lifecycle_snapshot_record stmt" where
  "loadLifecycleSnapshot outage userID sessionID =
     tx_seq (reach_db outage ''load lifecycle snapshot'')
     (tx_bind (tx_get (\<lambda>d. sort_key (\<lambda>(s, a, r). (o_created_at r, o_id r)) (snapshot_rows userID sessionID d)))
       snapshot_of_rows)"

section \<open>Events\<close>

text \<open>
  The events joined with an owned session's allocation. Allocations and sessions have unique ids, so an
  event joins with at most one of each.
\<close>

definition owned_event :: "string \<Rightarrow> string \<Rightarrow> u64 \<Rightarrow> db \<Rightarrow> event_row \<Rightarrow> bool" where
  "owned_event userID sessionID generation d e \<longleftrightarrow>
     list_ex (\<lambda>a. a_id a = e_allocation_id e \<and> a_generation a = int64 generation \<and>
       list_ex (\<lambda>s. s_id s = a_session_id a \<and> owned_session userID sessionID s) (sessions d)) (allocations d)"

definition lifecycleEventExists :: "(string \<Rightarrow> bool) \<Rightarrow> string \<Rightarrow> string \<Rightarrow> u64 \<Rightarrow> u64 \<Rightarrow> bool stmt" where
  "lifecycleEventExists outage userID sessionID generation seqno =
     tx_seq (reach_db outage ''validate lifecycle cursor event'')
     (tx_get (\<lambda>d. list_ex (\<lambda>e. owned_event userID sessionID generation d e \<and> e_sequence e = int64 seqno) (events d)))"

text \<open>The allocation id is not selected.\<close>

definition public_event :: "event_row \<Rightarrow> durable_event" where
  "public_event e = (event_of_row e)\<lparr>de_AllocationID := ''''\<rparr>"

definition readOwnedLifecycleEvents :: "(string \<Rightarrow> bool) \<Rightarrow> string \<Rightarrow> string \<Rightarrow> u64 \<Rightarrow> u64 \<Rightarrow> u64 \<Rightarrow> int \<Rightarrow> durable_event list stmt" where
  "readOwnedLifecycleEvents outage userID sessionID generation after through limit =
     tx_seq (reach_db outage ''read owned lifecycle events'')
     (tx_bind (tx_get (\<lambda>d. take (nat limit) (sort_key e_sequence (filter (\<lambda>e. owned_event userID sessionID generation d e \<and>
         e_sequence e > int64 after \<and> e_sequence e \<le> int64 through) (events d))))) (\<lambda>rows.
      tx_seq (if rows = [] then tx_return () else reach_db outage ''scan owned lifecycle event'')
     (tx_seq (tx_guard (list_all (\<lambda>e. e_sequence e > 0) rows) ErrLifecycleCursorUnavailable)
     (tx_seq (reach_db outage ''iterate owned lifecycle events'')
     (tx_return (map public_event rows))))))"

text \<open>The loop over the events with \<open>expectedSequence\<close>.\<close>

fun contiguous :: "u64 \<Rightarrow> durable_event list \<Rightarrow> bool" where
  "contiguous expected [] = True"
| "contiguous expected (event # rest) = (de_Sequence event = expected \<and> contiguous (expected + 1) rest)"

definition lifecycleReplayToWatermark :: "(string \<Rightarrow> bool) \<Rightarrow> string \<Rightarrow> lifecycle_snapshot \<Rightarrow> u64 \<Rightarrow> (durable_event list \<times> bool) stmt" where
  "lifecycleReplayToWatermark outage userID snapshot after =
     (let watermark = LsEventSequence snapshot in
      if after = 0 \<or> after > watermark \<or> uint (watermark - after) > maxLifecycleBootstrapReplay then tx_return ([], True)
      else tx_bind (lifecycleEventExists outage userID (LsSessionID snapshot) (LsGeneration snapshot) after) (\<lambda>cursorExists.
        if \<not> cursorExists then tx_return ([], True)
        else tx_bind (readOwnedLifecycleEvents outage userID (LsSessionID snapshot) (LsGeneration snapshot) after watermark
               maxLifecycleBootstrapReplay) (\<lambda>es.
          if \<not> contiguous (after + 1) es then tx_return ([], True)
          else if word_of_nat (length es) \<noteq> watermark - after then tx_return ([], True)
          else tx_return (es, False))))"

section \<open>Entry points\<close>

definition bootstrap_tx :: "(string \<Rightarrow> bool) \<Rightarrow> string \<Rightarrow> lifecycle_cursor option \<Rightarrow> lifecycle_bootstrap stmt" where
  "bootstrap_tx outage userID resume =
     tx_seq (reach_db outage ''begin lifecycle bootstrap'')
     (tx_bind (case resume of None \<Rightarrow> tx_return 0
               | Some cursor \<Rightarrow> lifecycleOwnedGeneration outage userID (LcSessionID cursor)) (\<lambda>resumedGeneration.
      tx_bind (lifecycleActiveSessionID outage userID) (\<lambda>current.
      case (case current of Some i \<Rightarrow> Some i | None \<Rightarrow> map_option LcSessionID resume) of
        None \<Rightarrow>
          tx_seq (reach_db outage ''commit empty lifecycle bootstrap'')
          (tx_return \<lparr>LbSnapshot = None, LbEvents = [], LbResync = False\<rparr>)
      | Some targetSessionID \<Rightarrow>
          tx_bind (loadLifecycleSnapshot outage userID targetSessionID) (\<lambda>record.
          tx_bind (case resume of None \<Rightarrow> tx_return ([], False)
            | Some cursor \<Rightarrow>
                if \<not> (LcSessionID cursor = LsSessionID (SrSnapshot record) \<and>
                      LcGeneration cursor = LsGeneration (SrSnapshot record) \<and>
                      resumedGeneration = LsGeneration (SrSnapshot record))
                then tx_return ([], True)
                else lifecycleReplayToWatermark outage userID (SrSnapshot record) (LcEventSequence cursor)) (\<lambda>(es, resync).
          tx_seq (reach_db outage ''commit lifecycle bootstrap'')
          (tx_return \<lparr>LbSnapshot = Some (SrSnapshot record), LbEvents = es, LbResync = resync\<rparr>))))))"

definition BootstrapLifecycle :: "(string \<Rightarrow> bool) \<Rightarrow> string \<Rightarrow> lifecycle_cursor option \<Rightarrow> db \<Rightarrow> runner_error + lifecycle_bootstrap" where
  "BootstrapLifecycle outage userID resume d =
     (if \<not> validLifecycleUUID userID then Inl (ErrText ''lifecycle reader requires a valid user id'')
      else if (case resume of None \<Rightarrow> False | Some cursor \<Rightarrow> \<not> validLifecycleCursorIdentity cursor)
      then Inl ErrLifecycleNotFoundOrForbidden
      else run_query (bootstrap_tx outage userID resume) d)"

definition switched :: "(string \<Rightarrow> bool) \<Rightarrow> string \<Rightarrow> lifecycle_snapshot option \<Rightarrow> lifecycle_delta stmt" where
  "switched outage what snapshot =
     tx_seq (reach_db outage what) (tx_return \<lparr>LdSnapshot = snapshot, LdSnapshotChanged = True, LdEvents = []\<rparr>)"

text \<open>The tail read on the cursor's own session, after its snapshot was loaded.\<close>

definition tail_tx :: "(string \<Rightarrow> bool) \<Rightarrow> string \<Rightarrow> lifecycle_cursor \<Rightarrow> int \<Rightarrow> lifecycle_snapshot_record \<Rightarrow> lifecycle_delta stmt" where
  "tail_tx outage userID cursor limit record =
     (let snapshot = SrSnapshot record in
      tx_seq (tx_guard (\<not> LcEventSequence cursor > LsEventSequence snapshot) ErrLifecycleCursorUnavailable)
     (tx_bind (lifecycleEventExists outage userID (LsSessionID snapshot) (LsGeneration snapshot) (LcEventSequence cursor)) (\<lambda>cursorExists.
      tx_seq (tx_guard cursorExists ErrLifecycleCursorUnavailable)
     (tx_bind (readOwnedLifecycleEvents outage userID (LsSessionID snapshot) (LsGeneration snapshot)
         (LcEventSequence cursor) (LsEventSequence snapshot) limit) (\<lambda>es.
      tx_seq (tx_guard (contiguous (LcEventSequence cursor + 1) es) ErrLifecycleCursorUnavailable)
     (tx_seq (tx_guard (\<not> (es = [] \<and> LcEventSequence cursor < LsEventSequence snapshot)) ErrLifecycleCursorUnavailable)
     (if es = [] \<and> SrDesiredState record = ''absent'' \<and> \<not> LsCleanupPending snapshot
      then switched outage ''commit lifecycle no-session snapshot'' None
      else tx_seq (reach_db outage ''commit lifecycle delta'')
        (tx_return \<lparr>LdSnapshot = None, LdSnapshotChanged = False, LdEvents = es\<rparr>))))))))"

definition delta_tx :: "(string \<Rightarrow> bool) \<Rightarrow> string \<Rightarrow> lifecycle_cursor \<Rightarrow> int \<Rightarrow> lifecycle_delta stmt" where
  "delta_tx outage userID cursor limit =
     tx_seq (reach_db outage ''begin lifecycle delta'')
     (tx_bind (lifecycleOwnedGeneration outage userID (LcSessionID cursor)) (\<lambda>ownedGeneration.
      tx_bind (lifecycleActiveSessionID outage userID) (\<lambda>active.
      if (case active of None \<Rightarrow> False | Some i \<Rightarrow> i \<noteq> LcSessionID cursor) then
        tx_bind (loadLifecycleSnapshot outage userID (the active)) (\<lambda>record.
        switched outage ''commit lifecycle session switch'' (Some (SrSnapshot record)))
      else
        tx_bind (loadLifecycleSnapshot outage userID (LcSessionID cursor)) (\<lambda>record.
        if ownedGeneration \<noteq> LsGeneration (SrSnapshot record) \<or> LcGeneration cursor \<noteq> LsGeneration (SrSnapshot record)
        then switched outage ''commit lifecycle generation switch'' (Some (SrSnapshot record))
        else tail_tx outage userID cursor limit record))))"

definition ReadLifecycleDelta :: "(string \<Rightarrow> bool) \<Rightarrow> string \<Rightarrow> lifecycle_cursor \<Rightarrow> int \<Rightarrow> db \<Rightarrow> runner_error + lifecycle_delta" where
  "ReadLifecycleDelta outage userID cursor limit d =
     (if \<not> validLifecycleUUID userID then Inl (ErrText ''lifecycle reader requires a valid user id'')
      else if \<not> validLifecycleCursorIdentity cursor then Inl ErrLifecycleNotFoundOrForbidden
      else if LcEventSequence cursor = 0 \<or> limit \<le> 0 \<or> limit > maxLifecycleBootstrapReplay
      then Inl ErrLifecycleCursorUnavailable
      else run_query (delta_tx outage userID cursor limit) d)"

end
