(* ===== verification/Lifecycle_Socket.thy ===== *)
theory Lifecycle_Socket
  imports Lifecycle_Reader Effect_Conditions
begin

text \<open>
  The browser's lifecycle channel: \<open>backend/internal/ws/lifecycle.go\<close> after the upgrade of the connection. A
  connection reads the user's stream and writes frames; it runs in a world that holds what was written, says
  which write fails, and counts the reads. The reader is the interface \<open>LifecycleReader\<close>: it answers the \<open>n\<close>-th
  read, so that the database may change in any way between two reads. The select loop consumes the list of
  the cases the Go scheduler picked.

  JSON decoding of the first message is done by \<open>encoding/json\<close>; \<open>parseLifecycleSubscribe\<close> takes its outcome.
\<close>

section \<open>Frames\<close>

definition lifecycleReplayLimit :: int where
  "lifecycleReplayLimit = 256"

record lifecycle_session_frame =
  SfSessionID :: string
  SfProblemID :: string
  SfGeneration :: u64
  SfOperationID :: string
  SfStatus :: string
  SfTimeoutAt :: "time option"
  SfCleanupPending :: bool
  SfTerminalReason :: "string option"
  SfLatestVerifyResult :: "lifecycle_verify_result option"

record lifecycle_event_frame =
  EfSessionID :: string
  EfGeneration :: u64
  EfEventSequence :: u64
  EfEventType :: string
  EfReasonCode :: string
  EfMessage :: string
  EfOccurredAt :: time
  EfPayload :: json_doc

datatype lifecycle_frame =
    SnapshotFrame "lifecycle_session_frame option" "lifecycle_cursor option"
  | EventFrame lifecycle_event_frame
  | ResyncFrame string
  | ErrorFrame string

section \<open>The world of a connection\<close>

record lifecycle_reader =
  RdBootstrap :: "nat \<Rightarrow> string \<Rightarrow> lifecycle_cursor option \<Rightarrow> runner_error + lifecycle_bootstrap"
  RdDelta :: "nat \<Rightarrow> string \<Rightarrow> lifecycle_cursor \<Rightarrow> int \<Rightarrow> runner_error + lifecycle_delta"

record lifecycle_socket =
  SoSent :: "lifecycle_frame list"
  SoWriteFails :: "nat \<Rightarrow> bool"
  SoReads :: nat

type_synonym 'a sock = "(lifecycle_socket, runner_error, 'a) io"

definition write_error :: runner_error where
  "write_error = ErrText ''websocket write''"

definition writeJSON :: "lifecycle_frame \<Rightarrow> unit sock" where
  "writeJSON frame = (\<lambda>w. if SoWriteFails w (length (SoSent w)) then Some (Inl write_error, w)
     else Some (Inr (), w\<lparr>SoSent := SoSent w @ [frame]\<rparr>))"

definition read_call :: "(nat \<Rightarrow> runner_error + 'a) \<Rightarrow> 'a sock" where
  "read_call f = (\<lambda>w. Some (f (SoReads w), w\<lparr>SoReads := SoReads w + 1\<rparr>))"

section \<open>Subscribe\<close>

record lifecycle_subscribe =
  SbType :: string
  SbCursor :: "lifecycle_cursor option"

text \<open>
  \<open>decoded\<close> is \<open>None\<close> when the strict decoder refuses the message; otherwise the value and whether nothing follows
  it. The result is \<open>None\<close> when the connection is closed.
\<close>

definition parseLifecycleSubscribe :: "(lifecycle_subscribe \<times> bool) option \<Rightarrow> lifecycle_cursor option option" where
  "parseLifecycleSubscribe decoded =
     (case decoded of None \<Rightarrow> None
      | Some (subscribe, at_end) \<Rightarrow>
          if \<not> at_end \<or> SbType subscribe \<noteq> ''lifecycle_subscribe'' then None
          else (case SbCursor subscribe of None \<Rightarrow> Some None
            | Some cursor \<Rightarrow>
                if LcSessionID cursor = '''' \<or> length (LcSessionID cursor) > 128 \<or> LcGeneration cursor = 0 \<or>
                   LcEventSequence cursor = 0
                then None else Some (Some cursor)))"

text \<open>What the select of \<open>readOptionalSubscribe\<close> picked; a read result is \<open>None\<close> when the read failed.\<close>

datatype subscribe_event =
    SubscribeCtxDone
  | SubscribeReadDone "(lifecycle_subscribe \<times> bool) option option option"
  | SubscribeFirst "(lifecycle_subscribe \<times> bool) option option"
  | SubscribeTimer

fun readOptionalSubscribe :: "subscribe_event \<Rightarrow> lifecycle_cursor option option" where
  "readOptionalSubscribe SubscribeCtxDone = None"
| "readOptionalSubscribe (SubscribeReadDone pending) =
     (case pending of Some (Some decoded) \<Rightarrow> parseLifecycleSubscribe decoded | _ \<Rightarrow> None)"
| "readOptionalSubscribe (SubscribeFirst result) =
     (case result of None \<Rightarrow> None | Some decoded \<Rightarrow> parseLifecycleSubscribe decoded)"
| "readOptionalSubscribe SubscribeTimer = Some None"

section \<open>Checks\<close>

fun replay_steps :: "u64 \<Rightarrow> u64 \<Rightarrow> durable_event list \<Rightarrow> u64 option" where
  "replay_steps expected watermark [] = Some expected"
| "replay_steps expected watermark (event # rest) =
     (if de_Sequence event \<noteq> expected \<or> de_Sequence event > watermark then None
      else replay_steps (expected + 1) watermark rest)"

definition validLifecycleReplay :: "lifecycle_cursor option \<Rightarrow> lifecycle_snapshot option \<Rightarrow> durable_event list \<Rightarrow> bool" where
  "validLifecycleReplay resume snapshot es \<longleftrightarrow>
     (case resume of None \<Rightarrow> es = []
      | Some cursor \<Rightarrow>
          (case snapshot of None \<Rightarrow> False
           | Some s \<Rightarrow>
               if LcSessionID cursor \<noteq> LsSessionID s \<or> LcGeneration cursor \<noteq> LsGeneration s \<or>
                  LcEventSequence cursor > LsEventSequence s
               then False
               else if LcEventSequence cursor = LsEventSequence s then es = []
               else replay_steps (LcEventSequence cursor + 1) (LsEventSequence s) es = Some (LsEventSequence s + 1)))"

definition validLifecycleTail :: "lifecycle_cursor option \<Rightarrow> durable_event list \<Rightarrow> bool" where
  "validLifecycleTail cursor es \<longleftrightarrow>
     (case cursor of None \<Rightarrow> False | Some c \<Rightarrow> contiguous (LcEventSequence c + 1) es)"

definition lifecycleCursorForSnapshot :: "lifecycle_snapshot option \<Rightarrow> lifecycle_cursor option" where
  "lifecycleCursorForSnapshot snapshot = map_option Cursor snapshot"

section \<open>Writing\<close>

definition event_frame :: "lifecycle_cursor \<Rightarrow> durable_event \<Rightarrow> lifecycle_event_frame" where
  "event_frame cursor event =
     \<lparr>EfSessionID = LcSessionID cursor, EfGeneration = LcGeneration cursor, EfEventSequence = de_Sequence event,
      EfEventType = de_Type event, EfReasonCode = de_ReasonCode event, EfMessage = de_Message event,
      EfOccurredAt = de_CreatedAt event, EfPayload = de_Payload event\<rparr>"

fun write_event_frames :: "lifecycle_cursor \<Rightarrow> durable_event list \<Rightarrow> unit sock" where
  "write_event_frames cursor [] = io_return ()"
| "write_event_frames cursor (event # rest) =
     io_bind (writeJSON (EventFrame (event_frame cursor event))) (\<lambda>_. write_event_frames cursor rest)"

definition writeEvents :: "lifecycle_cursor option \<Rightarrow> durable_event list \<Rightarrow> unit sock" where
  "writeEvents cursor es =
     (if es = [] then io_return ()
      else case cursor of None \<Rightarrow> io_throw (ErrText ''lifecycle events have no session cursor'')
      | Some c \<Rightarrow> write_event_frames c es)"

definition session_frame :: "lifecycle_snapshot \<Rightarrow> lifecycle_session_frame" where
  "session_frame s =
     \<lparr>SfSessionID = LsSessionID s, SfProblemID = LsProblemID s, SfGeneration = LsGeneration s, SfOperationID = LsOperationID s,
      SfStatus = LsStatus s, SfTimeoutAt = (if LsTimeoutAt s = zero_time then None else Some (LsTimeoutAt s)),
      SfCleanupPending = LsCleanupPending s,
      SfTerminalReason = (if LsTerminalReason s = '''' then None else Some (LsTerminalReason s)),
      SfLatestVerifyResult = LsLatestVerifyResult s\<rparr>"

definition writeSnapshot :: "lifecycle_snapshot option \<Rightarrow> unit sock" where
  "writeSnapshot snapshot = writeJSON (SnapshotFrame (map_option session_frame snapshot) (lifecycleCursorForSnapshot snapshot))"

definition resync_frame :: lifecycle_frame where
  "resync_frame = ResyncFrame ''cursor_unavailable''"

definition writeBootstrap :: "lifecycle_cursor option \<Rightarrow> lifecycle_bootstrap \<Rightarrow> lifecycle_cursor option sock" where
  "writeBootstrap resume bootstrap =
     (let cursor = lifecycleCursorForSnapshot (LbSnapshot bootstrap);
          resync = (LbResync bootstrap \<or> \<not> validLifecycleReplay resume (LbSnapshot bootstrap) (LbEvents bootstrap)) in
      io_bind (if resync then writeJSON resync_frame else writeEvents cursor (LbEvents bootstrap)) (\<lambda>_.
      io_bind (writeSnapshot (LbSnapshot bootstrap)) (\<lambda>_. io_return cursor)))"

definition writeResyncSnapshot :: "lifecycle_reader \<Rightarrow> string \<Rightarrow> lifecycle_cursor option \<Rightarrow> lifecycle_cursor option sock" where
  "writeResyncSnapshot rd userID cursor =
     io_bind (read_call (\<lambda>n. RdBootstrap rd n userID cursor)) (\<lambda>fresh.
     io_bind (writeJSON resync_frame) (\<lambda>_.
     io_bind (writeSnapshot (LbSnapshot fresh)) (\<lambda>_.
     io_return (lifecycleCursorForSnapshot (LbSnapshot fresh)))))"

definition writeDelta :: "lifecycle_reader \<Rightarrow> string \<Rightarrow> lifecycle_cursor option \<Rightarrow> lifecycle_delta \<Rightarrow> lifecycle_cursor option sock" where
  "writeDelta rd userID cursor delta =
     (if LdSnapshotChanged delta then
        io_bind (writeSnapshot (LdSnapshot delta)) (\<lambda>_. io_return (lifecycleCursorForSnapshot (LdSnapshot delta)))
      else if LdEvents delta = [] then io_return cursor
      else if \<not> validLifecycleTail cursor (LdEvents delta) then writeResyncSnapshot rd userID cursor
      else io_bind (writeEvents cursor (LdEvents delta)) (\<lambda>_.
        io_return (map_option (\<lambda>c. c\<lparr>LcEventSequence := de_Sequence (last (LdEvents delta))\<rparr>) cursor)))"

section \<open>The connection\<close>

text \<open>One tick of the poll timer; an error ends the connection.\<close>

definition poll :: "lifecycle_reader \<Rightarrow> string \<Rightarrow> lifecycle_cursor option \<Rightarrow> lifecycle_cursor option sock" where
  "poll rd userID cursor =
     (case cursor of
        None \<Rightarrow>
          io_bind (read_call (\<lambda>n. RdBootstrap rd n userID None)) (\<lambda>next.
          if LbSnapshot next = None then io_return None else writeBootstrap None next)
      | Some c \<Rightarrow>
          io_try (read_call (\<lambda>n. RdDelta rd n userID c lifecycleReplayLimit)) (\<lambda>r.
          case r of
            Inr delta \<Rightarrow> writeDelta rd userID cursor delta
          | Inl e \<Rightarrow>
              if e = ErrLifecycleCursorUnavailable then writeResyncSnapshot rd userID cursor
              else if e = ErrLifecycleNotFoundOrForbidden
              then io_bind (writeJSON (ErrorFrame ''not_found_or_forbidden'')) (\<lambda>_. io_throw e)
              else io_throw e))"

text \<open>The cases of the select loop; a ping carries whether its write succeeded.\<close>

datatype select = CtxDone | ReadDone | PingTick bool | PollTick

fun serve :: "lifecycle_reader \<Rightarrow> string \<Rightarrow> select list \<Rightarrow> lifecycle_cursor option \<Rightarrow> lifecycle_cursor option sock" where
  "serve rd userID [] cursor = io_return cursor"
| "serve rd userID (CtxDone # rest) cursor = io_throw ErrContextCanceled"
| "serve rd userID (ReadDone # rest) cursor = io_throw ErrContextCanceled"
| "serve rd userID (PingTick ok # rest) cursor = (if ok then serve rd userID rest cursor else io_throw write_error)"
| "serve rd userID (PollTick # rest) cursor = io_bind (poll rd userID cursor) (serve rd userID rest)"

text \<open>\<open>HandleWebSocket\<close> from the first message on; the value is the cursor while the loop has not ended.\<close>

definition HandleWebSocket :: "lifecycle_reader \<Rightarrow> string \<Rightarrow> subscribe_event \<Rightarrow> select list \<Rightarrow> lifecycle_cursor option sock" where
  "HandleWebSocket rd userID subscribe selects =
     (case readOptionalSubscribe subscribe of None \<Rightarrow> io_throw ErrContextCanceled
      | Some resume \<Rightarrow>
          io_try (read_call (\<lambda>n. RdBootstrap rd n userID resume)) (\<lambda>r.
          case r of
            Inl e \<Rightarrow>
              if e = ErrLifecycleNotFoundOrForbidden
              then io_bind (writeJSON (ErrorFrame ''not_found_or_forbidden'')) (\<lambda>_. io_throw e)
              else io_throw e
          | Inr bootstrap \<Rightarrow> io_bind (writeBootstrap resume bootstrap) (serve rd userID selects)))"

section \<open>Registration\<close>

text \<open>One connection per user: a new one replaces the previous, and only its own exit removes it.\<close>

type_synonym 'c connections = "string \<Rightarrow> 'c option"

definition register :: "string \<Rightarrow> 'c \<Rightarrow> 'c connections \<Rightarrow> 'c option \<times> 'c connections" where
  "register userID connection m = (m userID, m(userID \<mapsto> connection))"

definition unregister :: "string \<Rightarrow> 'c \<Rightarrow> 'c connections \<Rightarrow> 'c connections" where
  "unregister userID connection m = (if m userID = Some connection then m(userID := None) else m)"

lemma unregister_replaced:
  "connection \<noteq> current \<Longrightarrow> unregister userID connection (snd (register userID current m)) = snd (register userID current m)"
  by (simp add: unregister_def register_def)

end
