(* ===== verification/Lifecycle_Rows.thy ===== *)
theory Lifecycle_Rows
  imports Lifecycle_Reader
begin

text \<open>
  What the reader relies on besides the constraints of the schema: every allocation has exactly one create
  operation and at least one event, and the result of a succeeded verification is a grade with its log. \<open>snap_step\<close> says
  that a transaction keeps this; it is a \<open>store_relation\<close>, so every run of the store keeps it.
\<close>

section \<open>The invariant\<close>

definition creates_of :: "string \<Rightarrow> operation_row list \<Rightarrow> operation_row list" where
  "creates_of i ops = filter (\<lambda>r. o_allocation_id r = i \<and> o_kind r = ''create'') ops"

definition graded :: "json_doc \<Rightarrow> bool" where
  "graded doc \<longleftrightarrow> doc = [] \<or> (\<exists>ok log. doc = metadata_doc (grade_metadata ok log))"

definition readable_verify :: "operation_row \<Rightarrow> bool" where
  "readable_verify r \<longleftrightarrow> o_kind r = ''verify'' \<longrightarrow>
     (if o_state r = ''succeeded'' then graded (o_result_metadata r)
      else o_state r \<in> {''failed'', ''cancelled''} \<or> o_result_metadata r = [])"

definition snap_inv :: "db \<Rightarrow> bool" where
  "snap_inv d \<longleftrightarrow> schema_ok d \<and> list_all (\<lambda>a. length (creates_of (a_id a) (operations d)) = 1 \<and>
       a_last_event_sequence a > 0) (allocations d) \<and>
     list_all readable_verify (operations d)"

definition snap_step :: "db \<Rightarrow> db \<Rightarrow> bool" where
  "snap_step d d' \<longleftrightarrow> (snap_inv d \<longrightarrow> snap_inv d')"

interpretation snap: tx_preorder snap_step
  by unfold_locales (auto simp: snap_step_def)

lemma graded_simps [simp]: "graded []" "graded (metadata_doc (grade_metadata ok log))"
  by (auto simp: graded_def)

lemma graded_readable: "graded doc \<Longrightarrow> \<exists>latest. snapshot_verify_result doc = Inr latest"
  by (auto simp: graded_def snapshot_verify_result_def unmarshal_metadata_def metadata_doc_def grade_metadata_def)

section \<open>Statements\<close>

named_theorems snap_intros "rules that put a transaction inside snap_step"

lemma snap_other_tables [snap_intros]:
  "tx_rel snap_step (update_sessions PS fs)" "tx_rel snap_step (update_attempts PT ft)"
  "tx_rel snap_step (insert_session s)" "tx_rel snap_step (insert_events es)" "tx_rel snap_step (insert_attempt t)"
  by (rule tx_relI, auto simp: sql_Inr snap_step_def snap_inv_def)+

lemma snap_update_allocations [snap_intros]:
  "(\<And>a. P a \<Longrightarrow> a_id (f a) = a_id a \<and> a_last_event_sequence a \<le> a_last_event_sequence (f a)) \<Longrightarrow>
   tx_rel snap_step (update_allocations P f)"
  by (rule tx_relI) (fastforce simp: sql_Inr snap_step_def snap_inv_def list_all_iff set_update_where)

lemma creates_of_update:
  assumes "\<And>r. P r \<Longrightarrow> o_kind (f r) = o_kind r \<and> o_allocation_id (f r) = o_allocation_id r"
  shows "length (creates_of i (update_where P f ops)) = length (creates_of i ops)"
  using assms by (induction ops) (auto simp: creates_of_def update_where_def)

lemma snap_update_operations_at:
  assumes "update_operations P f d = Inr (n, d')"
    and "\<And>r. P r \<Longrightarrow> o_kind (f r) = o_kind r \<and> o_allocation_id (f r) = o_allocation_id r"
    and "\<And>r. r \<in> set (operations d) \<Longrightarrow> P r \<Longrightarrow> readable_verify r \<Longrightarrow> readable_verify (f r)"
  shows "snap_step d d'"
  using assms by (auto simp: sql_Inr snap_step_def snap_inv_def list_all_iff set_update_where creates_of_update)

lemma snap_update_operations [snap_intros]:
  "(\<And>r. P r \<Longrightarrow> o_kind (f r) = o_kind r \<and> o_allocation_id (f r) = o_allocation_id r \<and> (readable_verify r \<longrightarrow> readable_verify (f r))) \<Longrightarrow>
   tx_rel snap_step (update_operations P f)"
  by (rule tx_relI) (metis snap_update_operations_at)

lemma snap_insert_operation [snap_intros]:
  "o_kind r \<noteq> ''create'' \<Longrightarrow> readable_verify r \<Longrightarrow> tx_rel snap_step (insert_operation r)"
  by (rule tx_relI) (auto simp: sql_Inr snap_step_def snap_inv_def creates_of_def)

lemma snap_exec [snap_intros]: "tx_rel snap_step m \<Longrightarrow> tx_rel snap_step (exec_any m)"
  "tx_rel snap_step m \<Longrightarrow> tx_rel snap_step (exec_one m e)"
  unfolding exec_any_def exec_one_def by (intro snap.rel_intros; assumption)+

text \<open>An update by operation id that cannot hit a verification.\<close>

lemma snap_update_by_id:
  assumes upd: "update_operations (\<lambda>r. o_id r = o_id c) f d = Inr (n, d')"
    and c: "c \<in> set (operations d)" "o_kind c \<noteq> ''verify''"
    and f: "\<And>r. o_id (f r) = o_id r \<and> o_kind (f r) = o_kind r \<and> o_allocation_id (f r) = o_allocation_id r"
  shows "snap_step d d'"
proof (rule snap_update_operations_at [OF upd])
  have "unique_by o_id (update_where (\<lambda>r. o_id r = o_id c) f (operations d))"
    using upd schema_okD(12) by (fastforce simp: sql_Inr)
  then have uniq: "unique_by o_id (operations d)" using f by (subst (asm) unique_by_update_where) auto
  show "readable_verify (f r)" if "r \<in> set (operations d)" "o_id r = o_id c" for r
    using unique_byD [OF uniq that(1) c(1)] that(2) c(2) f by (simp add: readable_verify_def)
qed (use f in auto)

text \<open>A new allocation and its create operation.\<close>

lemma readable_new [simp]: "readable_verify (new_operation env oid i p k key h s t)"
  by (simp add: readable_verify_def new_operation_def)

lemma snap_new_allocation:
  assumes "a_id a = i" and pos: "a_last_event_sequence a > 0" and k: "\<And>oid. tx_rel snap_step (k oid)"
  shows "tx_rel snap_step (tx_seq (tx_map_error g (insert_allocation a))
     (tx_bind (tx_map_error g (fresh_operation env i p ''create'' key h s t)) k))"
proof (rule tx_relI)
  fix d x d'
  assume "tx_seq (tx_map_error g (insert_allocation a))
     (tx_bind (tx_map_error g (fresh_operation env i p ''create'' key h s t)) k) d = Inr (x, d')"
  then obtain oid r d1 where ok1: "schema_ok (d\<lparr>allocations := allocations d @ [a]\<rparr>)"
    and r: "r = new_operation env oid i p ''create'' key h s t"
    and d1: "d1 = d\<lparr>allocations := allocations d @ [a], operations := operations d @ [r]\<rparr>"
    and ok2: "schema_ok d1" and run: "k oid d1 = Inr (x, d')"
    by (auto simp: tx_Inr sql_Inr fresh_operation_def)
  have "snap_step d d1" unfolding snap_step_def
  proof
    assume inv: "snap_inv d"
    have new: "\<forall>b \<in> set (allocations d). a_id b \<noteq> i"
      using schema_okD(5) [OF ok1] assms(1) by (auto simp: unique_by_snoc)
    then have "o_allocation_id q \<noteq> i" if "q \<in> set (operations d)" for q
      using inv that schema_okD(15) [of d] by (fastforce simp: snap_inv_def list_all_iff)
    then have none: "creates_of i (operations d) = []" by (auto simp: creates_of_def filter_empty_conv)
    have "length (creates_of (a_id b) (operations d1)) = 1 \<and> a_last_event_sequence b > 0" if "b \<in> set (allocations d1)" for b
      using that new inv none assms(1) pos by (auto simp: d1 r creates_of_def new_operation_def snap_inv_def list_all_iff)
    then show "snap_inv d1" using inv ok2 by (simp add: snap_inv_def list_all_iff d1 r)
  qed
  then show "snap_step d d'" using tx_relD [OF k run] by (rule snap.trans_step)
qed

section \<open>Transactions\<close>

lemma snap_base [snap_intros]:
  "tx_rel snap_step (lockControllerEpochTx st)" "tx_rel snap_step (lockExactAllocation ref)"
  "tx_rel snap_step (destroyOutcomeTx i)" "tx_rel snap_step (attemptStatusTx sref)"
  unfolding lockControllerEpochTx_def lockExactAllocation_def destroyOutcomeTx_def attemptStatusTx_def
  by (intro snap.rel_intros)+

lemma snap_enter [snap_intros]: "tx_rel snap_step (enter_exact st ref)" "tx_rel snap_step (lock_user u e)"
  unfolding enter_exact_def lock_user_def by (intro snap.rel_intros snap_intros)+

lemma snap_log_event [snap_intros]: "tx_rel snap_step (log_event env i k ty rc msg doc)"
  unfolding log_event_def reserve_sequence_def by (intro snap.rel_intros snap_intros) simp

lemma snap_events [snap_intros]:
  "tx_rel snap_step (ensureEventTx env i ty rc msg)" "tx_rel snap_step (ensure_event env i ty rc msg)"
  "tx_rel snap_step (ensureKeyedEventTx env i k ty rc msg doc)" "tx_rel snap_step (ensure_keyed_event env i k ty rc msg doc)"
  unfolding ensure_event_def ensureEventTx_def appendEventTx_def ensure_keyed_event_def ensureKeyedEventTx_def
  by (intro snap.rel_intros snap_intros)+

lemma snap_fresh [snap_intros]: "k \<noteq> ''create'' \<Longrightarrow> tx_rel snap_step (fresh_operation env i p k key h s t)"
  unfolding fresh_operation_def by (intro snap.rel_intros snap_intros) (simp_all add: new_operation_def readable_verify_def)

lemma snap_ensure_destroy [snap_intros]:
  "tx_rel snap_step (ensureDestroyOperationTx env i p)" "tx_rel snap_step (ensure_destroy env i p)"
  unfolding ensure_destroy_def ensureDestroyOperationTx_def Let_def by (intro snap.rel_intros snap_intros; simp)+

lemma snap_load [snap_intros]: "tx_rel snap_step (loadReservationByOperation p k)"
  "tx_rel snap_step (validateCatalogSelectionTx sel)" "tx_rel snap_step (create_admission env ref p c s)"
  "tx_rel snap_step (require_current ref)" "tx_rel snap_step (loadVerifyDecisionTx ref p i)"
  unfolding loadReservationByOperation_def validateCatalogSelectionTx_def create_admission_def require_current_def
    loadVerifyDecisionTx_def
  by (intro snap.rel_intros)+

lemmas verify_row_defs = row_change_defs readable_verify_def

lemma snap_reserve: "tx_rel snap_step (reserve_tx st env p)"
  unfolding reserve_tx_def reserve_rows_def Let_def
  by (intro snap_new_allocation snap.rel_intros snap_intros) (simp_all add: new_allocation_def)

lemma snap_reset: "tx_rel snap_step (reset_tx st env p)"
  unfolding reset_tx_def reset_replay_def reset_fresh_def reset_source_guards_def retire_source_def
    reserve_replacement_def Let_def
  by (intro snap_new_allocation snap.rel_intros snap_intros) (simp_all add: new_allocation_def row_change_defs)

lemma snap_append: "tx_rel snap_step (append_event_tx st env i ty rc msg doc)"
  unfolding append_event_tx_def by (intro snap.rel_intros snap_intros)

lemma snap_create: "tx_rel snap_step (create_succeeded_tx st env ref c)" "tx_rel snap_step (create_failed_tx st env ref code msg c)"
  unfolding create_succeeded_tx_def create_succeeded_rows_def create_failed_tx_def create_failed_rows_def
  by (intro snap.rel_intros snap_intros; simp add: verify_row_defs)+

lemma snap_setup: "tx_rel snap_step (ready_tx st env ref)" "tx_rel snap_step (setting_up_tx st env ref)"
  unfolding ready_tx_def setting_up_tx_def by (intro snap.rel_intros snap_intros; simp)+

lemma snap_destroy: "tx_rel snap_step (destroy_tx st env ref out a l)" "tx_rel snap_step (destroyed_tx st env ref c')"
  unfolding destroy_tx_def destroy_current_def destroyed_tx_def destroyed_rows_def predecessor_destroyed_def Let_def
  by (intro snap.rel_intros snap_intros; simp add: verify_row_defs)+

lemma snap_converge: "tx_rel snap_step (converge_tx st env p rec)"
  unfolding converge_tx_def converge_rows_def Let_def
  by (intro snap.rel_intros snap_intros) (auto simp: verify_row_defs)


lemma snap_grading [snap_intros]:
  "tx_rel snap_step (grade_passed env ref p l)" "tx_rel snap_step (grade_failed ref l)"
  "tx_rel snap_step (restore_ready ref)" "tx_rel snap_step (ensureVerifyOperationTx env ref p i)"
  unfolding grade_passed_def grade_failed_def restore_ready_def ensureVerifyOperationTx_def
  by (intro snap.rel_intros snap_intros; simp add: row_change_defs)+

lemma snap_finish [snap_intros]:
  "s = ''failed'' \<or> s = ''succeeded'' \<and> graded doc \<Longrightarrow> tx_rel snap_step (finish_operation env p k s c doc)"
  unfolding finish_operation_def by (intro snap_intros) (auto simp: readable_verify_def graded_def)

lemma snap_begin_verify: "tx_rel snap_step (begin_verify_tx st env u ref i)"
  unfolding begin_verify_tx_def start_verify_def by (intro snap.rel_intros snap_intros)

lemma snap_verify_result:
  assumes "recordable vm" and "doc = metadata_doc vm"
  shows "tx_rel snap_step (verify_result_tx st env ref i vm doc)"
proof -
  have "graded doc" if "\<not> vm_InfrastructureError vm"
    using assms that unfolding recordable_def by (metis graded_simps(2))
  then show ?thesis
    unfolding verify_result_tx_def verify_result_rows_def by (intro snap.rel_intros snap_intros) auto
qed

lemma snap_choice:
  assumes "doc = metadata_doc (grade_metadata ok l)"
  shows "tx_rel snap_step (choice_tx st env u ref sub i ok l doc)"
  unfolding choice_tx_def choice_rows_def rejectChoiceReplayAfterSessionAdvance_def Let_def
  by (intro snap.rel_intros snap_intros) (simp add: assms)

lemma snap_prepare: "tx_rel snap_step (prepare_recovery_tx st env p)"
  unfolding prepare_recovery_tx_def convergeInterruptedVerificationsTx_def converge_interrupted_def
  by (intro snap.rel_intros snap_intros) (auto simp: verify_row_defs)

lemma snap_retry: "tx_rel snap_step (retry_destroy_tx st env c t n)"
  unfolding retry_destroy_tx_def by (intro snap.rel_intros snap_intros) (simp add: verify_row_defs)

text \<open>Claims update the row of their candidate, which is a destroy or create operation.\<close>

lemma snap_claimed:
  assumes "update_operations (\<lambda>r. o_id r = o_id c) (claimed_row env owner lease) d = Inr (n, d')"
    and "c \<in> set (operations d)" and "o_kind c \<noteq> ''verify''"
  shows "snap_step d d'"
  by (rule snap_update_by_id [OF assms]) (simp add: claimed_row_def)

lemma snap_claim_destroy: "tx_rel snap_step (claim_destroy_tx st env p i owner lease)"
proof (rule tx_relI)
  fix d x d' assume run: "claim_destroy_tx st env p i owner lease d = Inr (x, d')"
  show "snap_step d d'"
  proof (cases "sort_key (\<lambda>r. (case o_next_attempt_at r of None \<Rightarrow> o_created_at r | Some t \<Rightarrow> t, o_created_at r, o_id r))
      (filter (destroy_candidate env p i d) (operations d))")
    case Nil
    with run show ?thesis by (auto simp: claim_destroy_tx_def tx_Inr guard_Inrs snap.refl_step)
  next
    case (Cons c cs)
    with run obtain n where "update_operations (\<lambda>r. o_id r = o_id c) (claimed_row env owner lease) d = Inr (n, d')"
      by (auto simp: claim_destroy_tx_def tx_Inr guard_Inrs exec_Inr)
    then show ?thesis
      using candidate_in [OF Cons] by (intro snap_claimed) (auto simp: destroy_candidate_def)
  qed
qed

lemma snap_claim_create: "tx_rel snap_step (claim_create_tx st env p i owner lease resetOnly)"
proof (rule tx_relI)
  fix d x d' assume run: "claim_create_tx st env p i owner lease resetOnly d = Inr (x, d')"
  let ?min = "if resetOnly then 1 else 0 :: int"
  show "snap_step d d'"
  proof (cases "sort_key (\<lambda>r. (o_created_at r, o_id r)) (filter (create_candidate env p i ?min d) (operations d))")
    case Nil
    with run show ?thesis by (auto simp: claim_create_tx_def tx_Inr guard_Inrs snap.refl_step)
  next
    case (Cons c cs)
    with run obtain n where "update_operations (\<lambda>r. o_id r = o_id c) (claimed_row env owner lease) d = Inr (n, d')"
      by (auto simp: claim_create_tx_def tx_Inr guard_Inrs exec_Inr dest!: load_reservation_state)
    then show ?thesis
      using candidate_in [OF Cons] by (intro snap_claimed) (auto simp: create_candidate_def)
  qed
qed

text \<open>Ending an allocation completes the destroy operation it has just looked up or reserved.\<close>

lemma ensured_destroy_row:
  "ensureDestroyOperationTx env i p d = Inr (oid, d') \<Longrightarrow> \<exists>r \<in> set (operations d'). o_id r = oid \<and> o_kind r = ''destroy''"
  by (auto simp: ensureDestroyOperationTx_def fresh_operation_def tx_Inr sql_Inr Let_def new_operation_def operation_by_key_def
      dest!: find_Some_iff_in split: option.splits)

lemma snap_end_allocation [snap_intros]: "tx_rel snap_step (end_allocation env p item)"
proof -
  let ?f = "\<lambda>r. (operation_succeeded env r)\<lparr>o_next_attempt_at := None\<rparr>"
  let ?complete = "tx_bind (ensureDestroyOperationTx env (a_id item) p) (\<lambda>oid. tx_block
     [if a_observed_state item = ''absent'' then exec_any (update_operations (\<lambda>r. o_id r = oid) ?f) else tx_return (),
      ensure_event env (a_id item) ''destroying'' ''failed'' ''Environment cleanup started.''])"
  have "tx_rel snap_step ?complete"
  proof (rule tx_relI)
    fix d x d' assume "?complete d = Inr (x, d')"
    then obtain oid d1 d2 where run: "ensureDestroyOperationTx env (a_id item) p d = Inr (oid, d1)"
      and upd: "d2 = d1 \<or> (\<exists>n. update_operations (\<lambda>r. o_id r = oid) ?f d1 = Inr (n, d2))"
      and event: "tx_block [ensure_event env (a_id item) ''destroying'' ''failed'' ''Environment cleanup started.''] d2 = Inr (x, d')"
      by (auto simp: tx_Inr exec_Inr split: if_splits)
    obtain r where "r \<in> set (operations d1)" "o_id r = oid" "o_kind r = ''destroy''"
      using ensured_destroy_row [OF run] by blast
    with upd have "snap_step d1 d2"
      by (auto simp: snap.refl_step row_change_defs intro: snap_update_by_id [where c = r])
    moreover have "snap_step d d1" using snap_ensure_destroy(1) run by (rule tx_relD)
    moreover have "snap_step d2 d'" using event by (rule tx_relD [rotated]) (intro snap.rel_intros snap_intros)
    ultimately show "snap_step d d'" by (metis snap.trans_step)
  qed
  then show ?thesis
    unfolding end_allocation_def
    by (intro snap.rel_seq [OF snap_exec(1) [OF snap_update_allocations]]) (simp_all add: row_change_defs)
qed

lemma snap_end_remaining [snap_intros]: "tx_rel snap_step (end_remaining p refs)"
  by (induction refs) (auto intro!: snap.rel_intros)

lemma snap_end: "tx_rel snap_step (end_tx st env u ref i)"
  unfolding end_tx_def loadEndOperationTx_def createEndOperationTx_def reconcileEndOperationTx_def Let_def
  by (intro snap.rel_intros snap_intros) (auto simp: row_change_defs readable_verify_def)

section \<open>Runs\<close>

interpretation snap: store_relation snap_step
  by unfold_locales
    (rule snap_reserve snap_reset snap_append snap_create snap_setup snap_begin_verify snap_verify_result snap_choice
      snap_destroy snap_converge snap_prepare snap_claim_destroy snap_retry snap_claim_create snap_end | assumption)+

lemma snap_frame:
  "snap_inv d \<Longrightarrow> snap_inv (d\<lparr>users := u # users d\<rparr>)" "snap_inv d \<Longrightarrow> snap_inv (issue_epoch p d)"
  "snap_inv d \<Longrightarrow> snap_inv (d\<lparr>catalog_head := x3, catalog_entries := x4, problem_artifacts := x5\<rparr>)"
  using schema_ok_frame by (auto simp: snap_inv_def issue_epoch_def split: option.splits)

lemma store_run_snap: "store_run d d' \<Longrightarrow> snap_inv d \<Longrightarrow> snap_inv d'"
proof (induction rule: store_run.induct)
  case (step d d' d'')
  then show ?case using snap.exec_step by (auto elim!: store_stepE simp: snap_step_def intro: snap_frame)
qed

lemma empty_snap_inv: "snap_inv empty_db"
  using empty_log_inv by (simp add: snap_inv_def log_inv_def) (simp add: empty_db_def)

end
