(* ===== verification/Lifecycle_Confinement.thy ===== *)
theory Lifecycle_Confinement
  imports Lifecycle_Rows
begin

text \<open>
  What a user can learn from the lifecycle reader. \<open>owned_view\<close> is the part of the database that belongs to a
  user: the sessions of the user, their allocations, and the operations and events of those. A read is
  \<open>blind\<close> to the rest: it answers on the database as it answers on the view.
\<close>

section \<open>The view of a user\<close>

definition owned_view :: "string \<Rightarrow> db \<Rightarrow> db" where
  "owned_view userID d =
     (let mine = filter (\<lambda>s. s_user_id s = pg_uuid userID) (sessions d);
          held = filter (\<lambda>a. a_session_id a \<in> set (map s_id mine)) (allocations d)
      in empty_db\<lparr>sessions := mine, allocations := held,
           operations := filter (\<lambda>r. o_allocation_id r \<in> set (map a_id held)) (operations d),
           events := filter (\<lambda>e. e_allocation_id e \<in> set (map a_id held)) (events d)\<rparr>)"

definition blind :: "string \<Rightarrow> 'a stmt \<Rightarrow> bool" where
  "blind userID m \<longleftrightarrow> (\<forall>d. case m d of
       Inl e \<Rightarrow> m (owned_view userID d) = Inl e
     | Inr (x, d') \<Rightarrow> d' = d \<and> m (owned_view userID d) = Inr (x, owned_view userID d))"

named_theorems blind_intros "rules for reads that only depend on the user's own rows"

lemma blind_run_query: "blind u m \<Longrightarrow> run_query m (owned_view u d) = run_query m d"
  by (auto simp: blind_def run_query_def split: sum.splits prod.splits dest!: spec [of _ d])

lemma blind_return [blind_intros]: "blind u (tx_return x)"
  by (simp add: blind_def tx_return_def)

lemma blind_fail [blind_intros]: "blind u (tx_fail e)"
  by (simp add: blind_def tx_fail_def)

lemma blind_guard [blind_intros]: "blind u (tx_guard b e)"
  by (simp add: tx_guard_def blind_return blind_fail)

lemma blind_lift [blind_intros]: "blind u (tx_lift r)"
  by (simp add: tx_lift_def blind_return blind_fail split: sum.split)

lemma blind_get [blind_intros]: "(\<And>d. q (owned_view u d) = q d) \<Longrightarrow> blind u (tx_get q)"
  by (simp add: blind_def tx_get_def)

lemma blind_row [blind_intros]: "(\<And>d. q (owned_view u d) = q d) \<Longrightarrow> blind u (tx_row q e)"
  by (simp add: blind_def tx_row_def split: option.split)

lemma blind_bind [blind_intros]:
  assumes "blind u m" and "\<And>x. blind u (k x)"
  shows "blind u (tx_bind m k)"
  unfolding blind_def
proof
  fix d
  show "case tx_bind m k d of Inl e \<Rightarrow> tx_bind m k (owned_view u d) = Inl e
      | Inr (x, d') \<Rightarrow> d' = d \<and> tx_bind m k (owned_view u d) = Inr (x, owned_view u d)"
  proof (cases "m d")
    case (Inl e)
    with spec [OF assms(1) [unfolded blind_def], of d] show ?thesis by (simp add: tx_bind_def)
  next
    case (Inr r)
    obtain x d' where r: "r = (x, d')" by (cases r)
    have "m d = Inr (x, d)" "m (owned_view u d) = Inr (x, owned_view u d)"
      using spec [OF assms(1) [unfolded blind_def], of d] Inr r by simp_all
    then show ?thesis using spec [OF assms(2) [unfolded blind_def], of x d] by (simp only: tx_bind_step)
  qed
qed

lemma blind_seq [blind_intros]: "blind u m \<Longrightarrow> blind u k \<Longrightarrow> blind u (tx_seq m k)"
  by (simp add: tx_seq_def blind_bind)

lemma blind_if [blind_intros]: "blind u m \<Longrightarrow> blind u k \<Longrightarrow> blind u (if b then m else k)"
  by simp

lemma blind_option [blind_intros]: "blind u m \<Longrightarrow> (\<And>y. blind u (k y)) \<Longrightarrow> blind u (case x of None \<Rightarrow> m | Some y \<Rightarrow> k y)"
  by (simp split: option.split)

lemma blind_prod [blind_intros]: "(\<And>a b. blind u (k a b)) \<Longrightarrow> blind u (case x of (a, b) \<Rightarrow> k a b)"
  by (simp split: prod.split)

lemma blind_reach [blind_intros]: "blind u (reach_db outage what)"
  unfolding reach_db_def by (rule blind_guard)

section \<open>Queries on the view\<close>

lemma filter_implied: "(\<And>x. x \<in> set xs \<Longrightarrow> P x \<Longrightarrow> Q x) \<Longrightarrow> filter P (filter Q xs) = filter P xs"
  by (auto intro!: filter_cong)

lemma find_implied: "(\<And>x. P x \<Longrightarrow> Q x) \<Longrightarrow> find P (filter Q xs) = find P xs"
  by (induction xs) auto

lemma list_ex_implied: "(\<And>x. x \<in> set xs \<Longrightarrow> P x \<Longrightarrow> Q x) \<Longrightarrow> list_ex P (filter Q xs) = list_ex P xs"
  by (auto simp: list_ex_iff)

definition user_session :: "string \<Rightarrow> db \<Rightarrow> session_row \<Rightarrow> bool" where
  "user_session u d s \<longleftrightarrow> s \<in> set (sessions d) \<and> s_user_id s = pg_uuid u"

definition user_allocation :: "string \<Rightarrow> db \<Rightarrow> allocation_row \<Rightarrow> bool" where
  "user_allocation u d a \<longleftrightarrow> a \<in> set (allocations d) \<and> (\<exists>s. user_session u d s \<and> a_session_id a = s_id s)"

lemma view_sessions: "sessions (owned_view u d) = filter (\<lambda>s. s_user_id s = pg_uuid u) (sessions d)"
  by (simp add: owned_view_def Let_def)

lemma view_allocations: "allocations (owned_view u d) = filter (user_allocation u d) (allocations d)"
  by (auto simp: owned_view_def Let_def user_allocation_def user_session_def intro!: filter_cong)

lemma view_operations:
  "operations (owned_view u d) = filter (\<lambda>r. \<exists>a. user_allocation u d a \<and> o_allocation_id r = a_id a) (operations d)"
  by (auto simp: owned_view_def Let_def user_allocation_def user_session_def intro!: filter_cong)

lemma view_events:
  "events (owned_view u d) = filter (\<lambda>e. \<exists>a. user_allocation u d a \<and> e_allocation_id e = a_id a) (events d)"
  by (auto simp: owned_view_def Let_def user_allocation_def user_session_def intro!: filter_cong)

lemma view_find: "find (owned_session u i) (sessions (owned_view u d)) = find (owned_session u i) (sessions d)"
  unfolding view_sessions by (rule find_implied) (simp add: owned_session_def)

lemma view_outstanding: "user_session u d s \<Longrightarrow> session_outstanding (owned_view u d) s = session_outstanding d s"
  unfolding session_outstanding_def view_allocations by (rule list_ex_implied) (auto simp: user_allocation_def)

lemma view_active: "active_lifecycle_session u (owned_view u d) = active_lifecycle_session u d"
proof -
  have "filter (\<lambda>s. s_user_id s = pg_uuid u \<and> session_outstanding (owned_view u d) s) (sessions (owned_view u d)) =
    filter (\<lambda>s. s_user_id s = pg_uuid u \<and> session_outstanding d s) (sessions d)"
    unfolding view_sessions filter_filter by (rule filter_cong) (auto simp: view_outstanding user_session_def)
  then show ?thesis by (simp add: active_lifecycle_session_def)
qed

lemma view_cleanup: "user_session u d s \<Longrightarrow> snapshot_cleanup_pending (owned_view u d) s a = snapshot_cleanup_pending d s a"
  unfolding snapshot_cleanup_pending_def view_allocations by (rule list_ex_implied) (auto simp: user_allocation_def)

lemma view_terminal: "user_allocation u d a \<Longrightarrow> terminal_reason (owned_view u d) a = terminal_reason d a"
  unfolding terminal_reason_def view_events by (subst filter_implied) auto

lemma view_verify: "user_allocation u d a \<Longrightarrow> latest_verify (owned_view u d) a = latest_verify d a"
  unfolding latest_verify_def view_operations by (subst filter_implied) auto

lemma snapshot_rows_user:
  "(s, a, r) \<in> set (snapshot_rows u i d) \<Longrightarrow> user_session u d s \<and> user_allocation u d a"
  by (auto simp: snapshot_rows_def user_allocation_def user_session_def owned_session_def)

lemma view_rows: "snapshot_rows u i (owned_view u d) = snapshot_rows u i d"
proof -
  have s: "filter (owned_session u i) (sessions (owned_view u d)) = filter (owned_session u i) (sessions d)"
    unfolding view_sessions by (rule filter_implied) (simp add: owned_session_def)
  have a: "filter (\<lambda>a. a_session_id a = s_id s \<and> a_generation a = s_current_generation s) (allocations (owned_view u d)) =
      filter (\<lambda>a. a_session_id a = s_id s \<and> a_generation a = s_current_generation s) (allocations d)" if "user_session u d s" for s
    unfolding view_allocations using that by (intro filter_implied) (auto simp: user_allocation_def)
  have r: "filter (\<lambda>r. o_allocation_id r = a_id a \<and> o_kind r = ''create'') (operations (owned_view u d)) =
      filter (\<lambda>r. o_allocation_id r = a_id a \<and> o_kind r = ''create'') (operations d)" if "user_allocation u d a" for a
    unfolding view_operations using that by (intro filter_implied) auto
  have t: "concat (map (\<lambda>a. map (\<lambda>r. (s, a, r)) (filter (\<lambda>r. o_allocation_id r = a_id a \<and> o_kind r = ''create'') (operations (owned_view u d))))
        (filter (\<lambda>a. a_session_id a = s_id s \<and> a_generation a = s_current_generation s) (allocations (owned_view u d)))) =
      concat (map (\<lambda>a. map (\<lambda>r. (s, a, r)) (filter (\<lambda>r. o_allocation_id r = a_id a \<and> o_kind r = ''create'') (operations d)))
        (filter (\<lambda>a. a_session_id a = s_id s \<and> a_generation a = s_current_generation s) (allocations d)))" if "user_session u d s" for s
    unfolding a [OF that] by (intro arg_cong [of _ _ concat] map_cong refl r) (use that in \<open>auto simp: user_allocation_def\<close>)
  show ?thesis
    unfolding snapshot_rows_def s
    by (intro arg_cong [of _ _ concat] map_cong refl t) (simp add: user_session_def owned_session_def)
qed

lemma view_owned_event: "owned_event u i g (owned_view u d) e = owned_event u i g d e"
proof -
  have s: "list_ex (\<lambda>s. s_id s = k \<and> owned_session u i s) (sessions (owned_view u d)) =
      list_ex (\<lambda>s. s_id s = k \<and> owned_session u i s) (sessions d)" for k
    unfolding view_sessions by (rule list_ex_implied) (simp add: owned_session_def)
  show ?thesis unfolding owned_event_def s view_allocations
    by (rule list_ex_implied) (auto simp: user_allocation_def user_session_def list_ex_iff owned_session_def)
qed

lemma owned_event_user: "owned_event u i g d e \<Longrightarrow> \<exists>a. user_allocation u d a \<and> e_allocation_id e = a_id a"
  by (fastforce simp: owned_event_def list_ex_iff user_allocation_def user_session_def owned_session_def)

lemma view_event_filter:
  "filter (\<lambda>e. owned_event u i g (owned_view u d) e \<and> P e) (events (owned_view u d)) =
   filter (\<lambda>e. owned_event u i g d e \<and> P e) (events d)"
  unfolding view_owned_event view_events by (rule filter_implied) (auto dest: owned_event_user)

section \<open>Reads\<close>

lemma tx_get_run: "tx_get q d = Inr (q d, d)"
  by (simp add: tx_get_def)

lemma blind_snapshot [blind_intros]: "blind u (loadLifecycleSnapshot outage u i)"
  unfolding loadLifecycleSnapshot_def
proof (rule blind_seq [OF blind_reach])
  let ?rows = "\<lambda>d. sort_key (\<lambda>(s, a, r). (o_created_at r, o_id r)) (snapshot_rows u i d)"
  have own: "user_session u d s \<and> user_allocation u d a" if "?rows d = (s, a, r) # rest" for d s a r rest
  proof -
    have "(s, a, r) \<in> set (?rows d)" unfolding that by simp
    then show ?thesis by (simp add: snapshot_rows_user)
  qed
  show "blind u (tx_bind (tx_get ?rows) snapshot_of_rows)"
    unfolding blind_def tx_bind_step [OF tx_get_run] view_rows
  proof
    fix d
    show "case snapshot_of_rows (?rows d) d of Inl e \<Rightarrow> snapshot_of_rows (?rows d) (owned_view u d) = Inl e
        | Inr (x, d') \<Rightarrow> d' = d \<and> snapshot_of_rows (?rows d) (owned_view u d) = Inr (x, owned_view u d)"
    proof (cases "?rows d")
      case Nil
      then show ?thesis by (simp add: snapshot_of_rows_def tx_defs)
    next
      case (Cons t rest)
      obtain s a r where "t = (s, a, r)" by (metis prod_cases3)
      with Cons own [of d s a r rest] show ?thesis
        by (auto simp: snapshot_of_rows_def tx_defs view_verify view_terminal view_cleanup snapshot_of_def split: sum.splits)
    qed
  qed
qed

lemma blind_queries [blind_intros]:
  "blind u (lifecycleOwnedGeneration outage u i)" "blind u (lifecycleActiveSessionID outage u)"
  "blind u (lifecycleEventExists outage u i g n)" "blind u (readOwnedLifecycleEvents outage u i g after through limit)"
proof -
  show "blind u (lifecycleOwnedGeneration outage u i)"
    unfolding lifecycleOwnedGeneration_def by (intro blind_intros view_find)
  show "blind u (lifecycleActiveSessionID outage u)"
    unfolding lifecycleActiveSessionID_def by (intro blind_intros view_active)
  have "list_ex (\<lambda>e. owned_event u i g (owned_view u d) e \<and> e_sequence e = k) (events (owned_view u d)) =
      list_ex (\<lambda>e. owned_event u i g d e \<and> e_sequence e = k) (events d)" for d k
    unfolding view_owned_event view_events by (rule list_ex_implied) (auto dest: owned_event_user)
  then show "blind u (lifecycleEventExists outage u i g n)"
    unfolding lifecycleEventExists_def by (intro blind_intros)
  show "blind u (readOwnedLifecycleEvents outage u i g after through limit)"
    unfolding readOwnedLifecycleEvents_def by (intro blind_intros) (simp add: view_event_filter)
qed

lemma blind_entry: "blind u (bootstrap_tx outage u resume)" "blind u (delta_tx outage u cursor limit)"
  unfolding bootstrap_tx_def lifecycleReplayToWatermark_def delta_tx_def switched_def tail_tx_def Let_def
  by (intro blind_intros)+

text \<open>
  C21. Confinement: whatever a browser sends as its cursor, and whichever statements fail, both reads of the
  lifecycle stream answer as if the database held nothing but the user's own sessions with their
  allocations, operations and events. In particular the answers for a session of another user and for a
  session that does not exist are the same.
\<close>

theorem lifecycle_reads_confined:
  "BootstrapLifecycle outage u resume d = BootstrapLifecycle outage u resume (owned_view u d) \<and>
   ReadLifecycleDelta outage u cursor limit d = ReadLifecycleDelta outage u cursor limit (owned_view u d)"
  by (simp add: BootstrapLifecycle_def ReadLifecycleDelta_def blind_run_query blind_entry)

end
