(* ===== verification/Lifecycle_Reader_Laws.thy ===== *)
theory Lifecycle_Reader_Laws
  imports Lifecycle_Confinement Store_Outcomes
begin

text \<open>
  What the lifecycle reader answers on the states the store can reach. The log of an allocation is gapless
  and every snapshot can be loaded, so a cursor that was valid once is never refused: it continues with the
  next events, or the answer is the snapshot of the session or generation that took over.
\<close>

section \<open>States\<close>

text \<open>
  The values of the columns are those of their PostgreSQL types: UUIDs in canonical text, generations and
  sequence numbers in the range of \<open>bigint\<close>.
\<close>

definition canonical_uuid :: "string \<Rightarrow> bool" where
  "canonical_uuid v \<longleftrightarrow> validLifecycleUUID v \<and> pg_uuid v = v"

definition typed_columns :: "db \<Rightarrow> bool" where
  "typed_columns d \<longleftrightarrow>
     list_all (\<lambda>s. canonical_uuid (s_id s) \<and> canonical_uuid (s_user_id s)) (sessions d) \<and>
     list_all (\<lambda>a. a_generation a \<le> 9223372036854775807 \<and> a_last_event_sequence a \<le> 9223372036854775807) (allocations d)"

definition lifecycle_state :: "db \<Rightarrow> bool" where
  "lifecycle_state d \<longleftrightarrow> log_inv d \<and> snap_inv d \<and> deferred_ok d \<and> typed_columns d"

lemma reachable_lifecycle_state: "store_run empty_db d \<Longrightarrow> typed_columns d \<Longrightarrow> lifecycle_state d"
  using store_run_log [OF _ empty_log_inv] store_run_snap [OF _ empty_snap_inv] store_run_deferred [of empty_db d]
  by (auto simp: lifecycle_state_def) (simp add: deferred_ok_def empty_db_def)

definition no_outage :: "string \<Rightarrow> bool" where
  "no_outage what = False"

text \<open>The log of an allocation and a cursor behind its first \<open>k\<close> events.\<close>

definition log_of :: "db \<Rightarrow> allocation_row \<Rightarrow> event_row list" where
  "log_of d a = filter (\<lambda>e. e_allocation_id e = a_id a) (events d)"

definition cursor_at :: "session_row \<Rightarrow> allocation_row \<Rightarrow> nat \<Rightarrow> lifecycle_cursor" where
  "cursor_at s a k = \<lparr>LcSessionID = s_id s, LcGeneration = uint64 (a_generation a), LcEventSequence = uint64 (int k)\<rparr>"

lemma cursor_at_sel [simp]: "LcSessionID (cursor_at s a k) = s_id s" "LcGeneration (cursor_at s a k) = uint64 (a_generation a)"
  "LcEventSequence (cursor_at s a k) = uint64 (int k)"
  by (simp_all add: cursor_at_def)

section \<open>Words\<close>

lemma uint_uint64: "0 \<le> i \<Longrightarrow> i \<le> 9223372036854775807 \<Longrightarrow> uint (uint64 i) = i"
  by (simp add: uint64_def uint_word_of_int)

lemma uint64_order:
  assumes "0 \<le> i" "i \<le> 9223372036854775807" "0 \<le> j" "j \<le> 9223372036854775807"
  shows "uint64 i < uint64 j \<longleftrightarrow> i < j" and "uint64 i = uint64 j \<longleftrightarrow> i = j"
  using assms by (simp_all add: word_less_def word_uint_eq_iff uint_uint64)

lemma uint64_Suc: "uint64 (i + 1) = uint64 i + 1"
  by (simp add: uint64_def)

section \<open>Rows of a session\<close>

lemma filter_single:
  assumes "unique_by k xs" and "x \<in> set xs" and "P x" and "\<And>y. y \<in> set xs \<Longrightarrow> P y \<Longrightarrow> k y = k x"
  shows "filter P xs = [x]"
  using assms
proof (induction xs)
  case (Cons z zs)
  have out: "k z \<noteq> k y" if "y \<in> set zs" for y using Cons.prems(1) that by (auto simp: unique_by_def)
  show ?case
  proof (cases "z = x")
    case True
    have "\<not> P y" if "y \<in> set zs" for y using out [OF that] Cons.prems(4) [of y] that True by auto
    then show ?thesis using True Cons.prems(3) by (simp add: filter_empty_conv)
  next
    case False
    then have x: "x \<in> set zs" using Cons.prems(2) by simp
    then have "\<not> P z" using out Cons.prems(4) [of z] by auto
    moreover have "filter P zs = [x]"
      by (rule Cons.IH [OF _ x Cons.prems(3)]) (use Cons.prems(1,4) in \<open>simp_all add: unique_by_def\<close>)
    ultimately show ?thesis by simp
  qed
qed simp

lemma state_columns:
  assumes "lifecycle_state d"
  shows "schema_ok d" and "log_inv d"
    and "s \<in> set (sessions d) \<Longrightarrow> canonical_uuid (s_id s) \<and> canonical_uuid (s_user_id s) \<and> s_current_generation s > 0"
    and "a \<in> set (allocations d) \<Longrightarrow> 0 < a_generation a \<and> a_generation a \<le> 9223372036854775807 \<and>
      0 \<le> a_last_event_sequence a \<and> a_last_event_sequence a \<le> 9223372036854775807"
proof -
  show ok: "schema_ok d" and "log_inv d" using assms by (simp_all add: lifecycle_state_def log_inv_def)
  show "s \<in> set (sessions d) \<Longrightarrow> canonical_uuid (s_id s) \<and> canonical_uuid (s_user_id s) \<and> s_current_generation s > 0"
    using assms schema_okD(1) [OF ok] by (auto simp: lifecycle_state_def typed_columns_def list_all_iff session_check_def)
  show "a \<in> set (allocations d) \<Longrightarrow> 0 < a_generation a \<and> a_generation a \<le> 9223372036854775807 \<and>
      0 \<le> a_last_event_sequence a \<and> a_last_event_sequence a \<le> 9223372036854775807"
    using assms schema_okD(4) [OF ok] by (auto simp: lifecycle_state_def typed_columns_def list_all_iff allocation_check_def)
qed

lemma owned_self:
  assumes "lifecycle_state d" and "s \<in> set (sessions d)"
  shows "owned_session (s_user_id s) (s_id s) s" and "filter (owned_session (s_user_id s) (s_id s)) (sessions d) = [s]"
    and "find (owned_session (s_user_id s) (s_id s)) (sessions d) = Some s"
proof -
  show own: "owned_session (s_user_id s) (s_id s) s"
    using state_columns(3) [OF assms] by (simp add: owned_session_def canonical_uuid_def)
  have "k = s" if "k \<in> set (sessions d)" "owned_session (s_user_id s) (s_id s) k" for k
    using that own unique_rows(1) [OF state_columns(1) [OF assms(1)] assms(2)] by (simp add: owned_session_def)
  then show one: "filter (owned_session (s_user_id s) (s_id s)) (sessions d) = [s]"
    using own assms(2) by (intro filter_single [OF schema_okD(2) [OF state_columns(1) [OF assms(1)]]]) auto
  then show "find (owned_session (s_user_id s) (s_id s)) (sessions d) = Some s" by (simp add: find_filter)
qed

lemma current_allocation:
  assumes "lifecycle_state d" and "s \<in> set (sessions d)"
  obtains a where "a \<in> set (allocations d)" "a_session_id a = s_id s" "a_generation a = s_current_generation s"
  using assms by (auto simp: lifecycle_state_def deferred_ok_def list_all_iff)

lemma snapshot_rows_current:
  assumes "lifecycle_state d" and "s \<in> set (sessions d)"
    and a: "a \<in> set (allocations d)" "a_session_id a = s_id s" "a_generation a = s_current_generation s"
  obtains r where "snapshot_rows (s_user_id s) (s_id s) d = [(s, a, r)]"
proof -
  have "length (creates_of (a_id a) (operations d)) = 1"
    using assms(1) a(1) by (simp add: lifecycle_state_def snap_inv_def list_all_iff)
  then obtain r where r: "creates_of (a_id a) (operations d) = [r]"
    by (cases "creates_of (a_id a) (operations d)") auto
  have "filter (\<lambda>b. a_session_id b = s_id s \<and> a_generation b = s_current_generation s) (allocations d) = [a]"
    using a by (intro filter_single [OF schema_okD(6) [OF state_columns(1) [OF assms(1)]]]) auto
  with r show ?thesis
    using that [of r] by (simp add: snapshot_rows_def owned_self(2) [OF assms(1,2)] creates_of_def)
qed

lemma latest_verify_graded:
  assumes "snap_inv d" and "schema_ok d"
  shows "graded (latest_verify d a)"
proof (cases "rev (sort_key verify_order (filter (\<lambda>r. o_allocation_id r = a_id a \<and> o_provider_id r = a_provider_id a \<and>
      o_kind r = ''verify'' \<and> o_state r = ''succeeded'') (operations d)))")
  case Nil
  then show ?thesis by (simp add: latest_verify_def)
next
  case (Cons r rest)
  let ?rows = "filter (\<lambda>r. o_allocation_id r = a_id a \<and> o_provider_id r = a_provider_id a \<and>
      o_kind r = ''verify'' \<and> o_state r = ''succeeded'') (operations d)"
  have "r \<in> set (rev (sort_key verify_order ?rows))" unfolding Cons by simp
  then have "r \<in> set (operations d)" "o_kind r = ''verify''" "o_state r = ''succeeded''" by auto
  then have "graded (o_result_metadata r)" using assms(1) by (auto simp: snap_inv_def list_all_iff readable_verify_def)
  then show ?thesis by (simp add: latest_verify_def Cons)
qed

lemma reach_calm [simp]: "reach_db no_outage what = tx_return ()"
  by (simp add: reach_db_def tx_guard_def no_outage_def)

lemma snapshot_loads:
  assumes "lifecycle_state d" and "s \<in> set (sessions d)"
    and a: "a \<in> set (allocations d)" "a_session_id a = s_id s" "a_generation a = s_current_generation s"
  obtains r latest where "loadLifecycleSnapshot no_outage (s_user_id s) (s_id s) d =
    Inr (\<lparr>SrSnapshot = snapshot_of d s a r latest, SrDesiredState = s_desired_state s\<rparr>, d)"
proof -
  obtain r where r: "snapshot_rows (s_user_id s) (s_id s) d = [(s, a, r)]" using snapshot_rows_current [OF assms] .
  obtain latest where l: "snapshot_verify_result (latest_verify d a) = Inr latest"
    using graded_readable [OF latest_verify_graded] assms(1) state_columns(1) [OF assms(1)] by (auto simp: lifecycle_state_def)
  show ?thesis
    using that [of r latest] state_columns(4) [OF assms(1) a(1)]
    by (simp add: loadLifecycleSnapshot_def snapshot_of_rows_def tx_defs r l)
qed

section \<open>The log\<close>

lemma log_sequences:
  assumes "lifecycle_state d" and "a \<in> set (allocations d)"
  shows "map e_sequence (log_of d a) = [1..int (length (log_of d a))]" and "a_last_event_sequence a = int (length (log_of d a))"
proof -
  have seqs: "map e_sequence (log_of d a) = [1..a_last_event_sequence a]" and pos: "0 \<le> a_last_event_sequence a"
    using assms by (simp_all add: lifecycle_state_def log_inv_def gapless_def list_all_iff allocation_gapless_def
        sequences_of_def log_of_def)
  show "a_last_event_sequence a = int (length (log_of d a))" using pos seqs length_map [of e_sequence "log_of d a"] by simp
  with seqs show "map e_sequence (log_of d a) = [1..int (length (log_of d a))]" by simp
qed

lemma owned_event_iff:
  assumes "lifecycle_state d" and "s \<in> set (sessions d)" and a: "a \<in> set (allocations d)" "a_session_id a = s_id s"
  shows "owned_event (s_user_id s) (s_id s) (uint64 (a_generation a)) d e \<longleftrightarrow> e_allocation_id e = a_id a"
proof -
  note ok = state_columns(1) [OF assms(1)]
  have g: "int64 (uint64 (a_generation a)) = a_generation a"
    using state_columns(4) [OF assms(1) a(1)] by (intro int64_uint64) auto
  have id: "pg_uuid (s_id s) = s_id s" using state_columns(3) [OF assms(1,2)] by (simp add: canonical_uuid_def)
  have "b = a" if "b \<in> set (allocations d)" "a_generation b = a_generation a" "a_session_id b = s_id s" for b
    using unique_rows(3) [OF ok a(1) that(1)] that a(2) by simp
  then have "e_allocation_id e = a_id a" if "owned_event (s_user_id s) (s_id s) (uint64 (a_generation a)) d e"
    using that by (fastforce simp: owned_event_def list_ex_iff g id owned_session_def)
  moreover have "owned_event (s_user_id s) (s_id s) (uint64 (a_generation a)) d e" if "e_allocation_id e = a_id a"
    using a that assms(2) owned_self(1) [OF assms(1,2)] unfolding owned_event_def list_ex_iff g by metis
  ultimately show ?thesis by blast
qed

lemma log_after:
  assumes "lifecycle_state d" and "s \<in> set (sessions d)" and a: "a \<in> set (allocations d)" "a_session_id a = s_id s"
  shows "sort_key e_sequence (filter (\<lambda>e. owned_event (s_user_id s) (s_id s) (uint64 (a_generation a)) d e \<and>
      e_sequence e > int k \<and> e_sequence e \<le> int (length (log_of d a))) (events d)) = drop k (log_of d a)"
proof -
  have mem: "e_sequence e \<le> int (length (log_of d a))" if "e \<in> set (events d)" "e_allocation_id e = a_id a" for e
  proof -
    have "e_sequence e \<in> set (map e_sequence (log_of d a))" using that by (simp add: log_of_def)
    then show ?thesis by (simp add: log_sequences(1) [OF assms(1) a(1)])
  qed
  have "filter (\<lambda>e. owned_event (s_user_id s) (s_id s) (uint64 (a_generation a)) d e \<and>
      e_sequence e > int k \<and> e_sequence e \<le> int (length (log_of d a))) (events d) =
    filter (\<lambda>e. e_allocation_id e = a_id a \<and> e_sequence e > int k) (events d)"
    using mem by (intro filter_cong) (auto simp: owned_event_iff [OF assms])
  moreover have "\<dots> = drop k (log_of d a)"
    using filter_after [OF log_sequences(1) [OF assms(1) a(1)], of k] by (simp add: log_of_def conj_commute)
  ultimately show ?thesis
    using sort_events_id [OF state_columns(2) [OF assms(1)] a(1), of "\<lambda>e. e_sequence e > int k"] by simp
qed

lemma cursor_event_exists:
  assumes "lifecycle_state d" and "s \<in> set (sessions d)" and a: "a \<in> set (allocations d)" "a_session_id a = s_id s"
    and k: "0 < k" "k \<le> length (log_of d a)"
  shows "list_ex (\<lambda>e. owned_event (s_user_id s) (s_id s) (uint64 (a_generation a)) d e \<and> e_sequence e = int k) (events d)"
proof -
  have "int k \<in> set (map e_sequence (log_of d a))" using k by (simp add: log_sequences(1) [OF assms(1) a(1)])
  then show ?thesis by (auto simp: list_ex_iff log_of_def owned_event_iff [OF assms(1-4)])
qed

lemma de_Sequence_public: "de_Sequence (public_event e) = uint64 (e_sequence e)"
  by (simp add: public_event_def event_of_row_def)

lemma contiguous_sequences:
  "map e_sequence es = [i + 1..i + int (length es)] \<Longrightarrow> contiguous (uint64 (i + 1)) (map public_event es)"
proof (induction es arbitrary: i)
  case (Cons e es)
  have "[i + 1..i + int (length (e # es))] = (i + 1) # [i + 1 + 1..i + 1 + int (length es)]"
    by (subst upto_rec1) (simp_all add: algebra_simps)
  with Cons.prems have e: "e_sequence e = i + 1" and es: "map e_sequence es = [i + 1 + 1..i + 1 + int (length es)]" by simp_all
  have "contiguous (uint64 (i + 1) + 1) (map public_event es)" using Cons.IH [OF es] unfolding uint64_Suc [of "i + 1"] .
  with e show ?case by (simp add: de_Sequence_public)
qed simp

lemma slice_sequences:
  assumes "map e_sequence es = [1..int (length es)]" and "k \<le> length es"
  shows "map e_sequence (take n (drop k es)) = [int k + 1..int k + int (length (take n (drop k es)))]"
proof (rule nth_equalityI)
  have nth: "e_sequence (es ! j) = int j + 1" if "j < length es" for j
  proof -
    have "e_sequence (es ! j) = map e_sequence es ! j" using that by simp
    also have "\<dots> = int j + 1" using that by (simp only: assms(1)) simp
    finally show ?thesis .
  qed
  show "length (map e_sequence (take n (drop k es))) = length [int k + 1..int k + int (length (take n (drop k es)))]"
    by simp
  show "map e_sequence (take n (drop k es)) ! j = [int k + 1..int k + int (length (take n (drop k es)))] ! j"
    if "j < length (map e_sequence (take n (drop k es)))" for j
  proof -
    have j: "j < length (take n (drop k es))" "k + j < length es" "j < n" using that by auto
    then have "[int k + 1..int k + int (length (take n (drop k es)))] ! j = int k + 1 + int j" by (intro nth_upto) linarith
    with j show ?thesis using nth [of "k + j"] assms(2) by simp
  qed
qed

lemma contiguous_slice:
  assumes "lifecycle_state d" and "a \<in> set (allocations d)" and "k \<le> length (log_of d a)"
  shows "contiguous (uint64 (int k) + 1) (map public_event (take n (drop k (log_of d a))))"
  using contiguous_sequences [OF slice_sequences [OF log_sequences(1) [OF assms(1,2)] assms(3)]] by (simp add: uint64_Suc)


section \<open>Reads\<close>

lemma event_queries:
  assumes "lifecycle_state d" and "s \<in> set (sessions d)" and a: "a \<in> set (allocations d)" "a_session_id a = s_id s"
    and k: "0 < k" "k \<le> length (log_of d a)"
  shows "lifecycleEventExists no_outage (s_user_id s) (s_id s) (uint64 (a_generation a)) (uint64 (int k)) d = Inr (True, d)"
    and "readOwnedLifecycleEvents no_outage (s_user_id s) (s_id s) (uint64 (a_generation a)) (uint64 (int k))
      (uint64 (a_last_event_sequence a)) limit d = Inr (map public_event (take (nat limit) (drop k (log_of d a))), d)"
proof -
  note len = log_sequences(2) [OF assms(1) a(1)] and bound = state_columns(4) [OF assms(1) a(1)]
  have i: "int64 (uint64 (int k)) = int k" "int64 (uint64 (a_last_event_sequence a)) = int (length (log_of d a))"
    using k bound len by (simp_all add: int64_uint64)
  show "lifecycleEventExists no_outage (s_user_id s) (s_id s) (uint64 (a_generation a)) (uint64 (int k)) d = Inr (True, d)"
    using cursor_event_exists [OF assms] by (simp add: lifecycleEventExists_def tx_defs i)
  have "list_all (\<lambda>e. 0 < e_sequence e) (take (nat limit) (drop k (log_of d a)))"
    using schema_okD(16) [OF state_columns(1) [OF assms(1)]]
    by (auto simp: list_all_iff log_of_def event_check_def dest!: in_set_takeD in_set_dropD)
  then show "readOwnedLifecycleEvents no_outage (s_user_id s) (s_id s) (uint64 (a_generation a)) (uint64 (int k))
      (uint64 (a_last_event_sequence a)) limit d = Inr (map public_event (take (nat limit) (drop k (log_of d a))), d)"
    by (simp add: readOwnedLifecycleEvents_def tx_defs i log_after [OF assms(1-4)])
qed

lemma tail_reads:
  assumes st: "lifecycle_state d" "s \<in> set (sessions d)" and a: "a \<in> set (allocations d)" "a_session_id a = s_id s"
    and k: "0 < k" "k \<le> length (log_of d a)" and "0 < limit"
  shows "tail_tx no_outage (s_user_id s) (cursor_at s a k) limit
      \<lparr>SrSnapshot = snapshot_of d s a r latest, SrDesiredState = s_desired_state s\<rparr> d =
    Inr (if k = length (log_of d a) \<and> s_desired_state s = ''absent'' \<and> \<not> snapshot_cleanup_pending d s a
      then \<lparr>LdSnapshot = None, LdSnapshotChanged = True, LdEvents = []\<rparr>
      else \<lparr>LdSnapshot = None, LdSnapshotChanged = False,
             LdEvents = map public_event (take (nat limit) (drop k (log_of d a)))\<rparr>, d)"
proof -
  note len = log_sequences(2) [OF st(1) a(1)] and bound = state_columns(4) [OF st(1) a(1)]
  have order: "\<not> uint64 (a_last_event_sequence a) < uint64 (int k)"
    "uint64 (int k) < uint64 (a_last_event_sequence a) \<longleftrightarrow> k < length (log_of d a)"
    using k bound len by (simp_all add: uint64_order)
  have none: "take (nat limit) (drop k (log_of d a)) = [] \<longleftrightarrow> k = length (log_of d a)" using assms(7) k by auto
  show ?thesis
    using contiguous_slice [OF st(1) a(1) k(2), of "nat limit"] k assms(7)
    by (auto simp: tail_tx_def Let_def snapshot_of_def tx_defs event_queries [OF st a k] order none switched_def)
qed

lemma sort_key_Nil: "sort_key f xs = [] \<longleftrightarrow> xs = []"
  by (metis length_0_conv length_sort)

lemma active_is_own:
  assumes "active_lifecycle_session u d = Some i"
  obtains s where "s \<in> set (sessions d)" "s_user_id s = pg_uuid u" "s_id s = i" "session_outstanding d s"
proof -
  let ?c = "filter (\<lambda>s. s_user_id s = pg_uuid u \<and> session_outstanding d s) (sessions d)"
  from assms obtain s rest where row: "rev (sort_key (\<lambda>s. (s_queued_at s, s_created_at s, s_id s)) ?c) = s # rest" "s_id s = i"
    by (auto simp: active_lifecycle_session_def split: list.splits)
  have "s \<in> set (rev (sort_key (\<lambda>s. (s_queued_at s, s_created_at s, s_id s)) ?c))" unfolding row(1) by simp
  then show ?thesis using that [of s] row(2) by simp
qed

text \<open>The snapshot of a session's current generation, and the two shapes of an answer.\<close>

definition current_snapshot :: "db \<Rightarrow> session_row \<Rightarrow> lifecycle_snapshot \<Rightarrow> bool" where
  "current_snapshot d s snapshot \<longleftrightarrow>
     (\<exists>a r latest. s \<in> set (sessions d) \<and> a \<in> set (allocations d) \<and> a_session_id a = s_id s \<and>
        a_generation a = s_current_generation s \<and> snapshot = snapshot_of d s a r latest)"

definition takes_over :: "lifecycle_snapshot option \<Rightarrow> lifecycle_delta" where
  "takes_over snapshot = \<lparr>LdSnapshot = snapshot, LdSnapshotChanged = True, LdEvents = []\<rparr>"

definition continues :: "event_row list \<Rightarrow> lifecycle_delta" where
  "continues es = \<lparr>LdSnapshot = None, LdSnapshotChanged = False, LdEvents = map public_event es\<rparr>"

lemma session_snapshot:
  assumes "lifecycle_state d" and "s \<in> set (sessions d)"
  obtains snapshot where "current_snapshot d s snapshot"
    and "loadLifecycleSnapshot no_outage (s_user_id s) (s_id s) d =
      Inr (\<lparr>SrSnapshot = snapshot, SrDesiredState = s_desired_state s\<rparr>, d)"
  using current_allocation [OF assms] snapshot_loads [OF assms] assms(2) unfolding current_snapshot_def by metis

lemma read_steps:
  assumes "lifecycle_state d" and "s \<in> set (sessions d)"
  shows "lifecycleOwnedGeneration no_outage (s_user_id s) (s_id s) d = Inr (uint64 (s_current_generation s), d)"
    and "lifecycleActiveSessionID no_outage u d = Inr (active_lifecycle_session u d, d)"
  using state_columns(3) [OF assms] owned_self(3) [OF assms]
  by (simp_all add: lifecycleOwnedGeneration_def lifecycleActiveSessionID_def tx_defs)

lemma valid_cursor_at:
  assumes "lifecycle_state d" "s \<in> set (sessions d)" "a \<in> set (allocations d)" "0 < k" "k \<le> length (log_of d a)"
  shows "validLifecycleUUID (s_user_id s)" and "validLifecycleCursorIdentity (cursor_at s a k)" and "uint64 (int k) \<noteq> 0"
proof -
  note s = state_columns(3) [OF assms(1,2)] and bound = state_columns(4) [OF assms(1,3)] and len = log_sequences(2) [OF assms(1,3)]
  have "uint64 (a_generation a) \<noteq> uint64 0" "uint64 (int k) \<noteq> uint64 0"
    using uint64_order(2) [of "a_generation a" 0] uint64_order(2) [of "int k" 0] bound assms(4,5) len by simp_all
  then show "validLifecycleUUID (s_user_id s)" "validLifecycleCursorIdentity (cursor_at s a k)" "uint64 (int k) \<noteq> 0"
    using s by (simp_all add: validLifecycleCursorIdentity_def canonical_uuid_def word_gt_0 uint64_def)
qed

lemma other_active:
  assumes "lifecycle_state d" "s \<in> set (sessions d)" "active_lifecycle_session (s_user_id s) d = Some i"
  obtains s' where "s' \<in> set (sessions d)" "s_user_id s' = s_user_id s" "s_id s' = i"
  using active_is_own [OF assms(3)] state_columns(3) [OF assms(1,2)] by (metis canonical_uuid_def)

lemma delta_reads:
  assumes st: "lifecycle_state d" "s \<in> set (sessions d)" and a: "a \<in> set (allocations d)" "a_session_id a = s_id s"
    and k: "0 < k" "k \<le> length (log_of d a)" and limit: "0 < limit" "limit \<le> 256"
  defines "answer \<equiv> ReadLifecycleDelta no_outage (s_user_id s) (cursor_at s a k) limit d"
  shows "active_lifecycle_session (s_user_id s) d = Some i \<Longrightarrow> i \<noteq> s_id s \<Longrightarrow>
      \<exists>s' snapshot. s_user_id s' = s_user_id s \<and> s_id s' = i \<and> current_snapshot d s' snapshot \<and> answer = Inr (takes_over (Some snapshot))"
    and "active_lifecycle_session (s_user_id s) d \<in> {None, Some (s_id s)} \<Longrightarrow> a_generation a \<noteq> s_current_generation s \<Longrightarrow>
      \<exists>snapshot. current_snapshot d s snapshot \<and> answer = Inr (takes_over (Some snapshot))"
    and "active_lifecycle_session (s_user_id s) d \<in> {None, Some (s_id s)} \<Longrightarrow> a_generation a = s_current_generation s \<Longrightarrow>
      answer = Inr (if k = length (log_of d a) \<and> s_desired_state s = ''absent'' \<and> \<not> session_outstanding d s
        then takes_over None else continues (take (nat limit) (drop k (log_of d a))))"
proof -
  let ?u = "s_user_id s" and ?c = "cursor_at s a k"
  note bound = state_columns(4) [OF st(1) a(1)] and valid = valid_cursor_at [OF st a(1) k]
  have read: "answer = run_query (delta_tx no_outage ?u ?c limit) d"
    using valid limit by (simp add: answer_def ReadLifecycleDelta_def maxLifecycleBootstrapReplay_def)
  note steps = delta_tx_def tx_defs read_steps [OF st] run_query_def switched_def takes_over_def continues_def
  show "\<exists>s' snapshot. s_user_id s' = s_user_id s \<and> s_id s' = i \<and> current_snapshot d s' snapshot \<and> answer = Inr (takes_over (Some snapshot))"
    if i: "active_lifecycle_session ?u d = Some i" "i \<noteq> s_id s"
  proof -
    obtain s' where s': "s' \<in> set (sessions d)" "s_user_id s' = ?u" "s_id s' = i" using other_active [OF st i(1)] .
    obtain snapshot where snap: "current_snapshot d s' snapshot"
      "loadLifecycleSnapshot no_outage ?u i d = Inr (\<lparr>SrSnapshot = snapshot, SrDesiredState = s_desired_state s'\<rparr>, d)"
      using session_snapshot [OF st(1) s'(1)] s' by metis
    have "answer = Inr (takes_over (Some snapshot))" using i snap(2) by (simp add: read steps)
    with s' snap(1) show ?thesis by blast
  qed
  obtain b where b: "b \<in> set (allocations d)" "a_session_id b = s_id s" "a_generation b = s_current_generation s"
    using current_allocation [OF st] .
  obtain r latest where load: "loadLifecycleSnapshot no_outage ?u (s_id s) d =
      Inr (\<lparr>SrSnapshot = snapshot_of d s b r latest, SrDesiredState = s_desired_state s\<rparr>, d)"
    using snapshot_loads [OF st b] .
  show "\<exists>snapshot. current_snapshot d s snapshot \<and> answer = Inr (takes_over (Some snapshot))"
    if act: "active_lifecycle_session ?u d \<in> {None, Some (s_id s)}" and g: "a_generation a \<noteq> s_current_generation s"
  proof -
    have "uint64 (a_generation a) \<noteq> uint64 (a_generation b)"
      using g b(3) bound state_columns(4) [OF st(1) b(1)] by (simp add: uint64_order)
    then have "answer = Inr (takes_over (Some (snapshot_of d s b r latest)))"
      using act load b(3) by (auto simp: read steps snapshot_of_def)
    moreover have "current_snapshot d s (snapshot_of d s b r latest)" using b st(2) by (auto simp: current_snapshot_def)
    ultimately show ?thesis by blast
  qed
  show "answer = Inr (if k = length (log_of d a) \<and> s_desired_state s = ''absent'' \<and> \<not> session_outstanding d s
        then takes_over None else continues (take (nat limit) (drop k (log_of d a))))"
    if act: "active_lifecycle_session ?u d \<in> {None, Some (s_id s)}" and g: "a_generation a = s_current_generation s"
  proof -
    have ba: "b = a" using g unique_rows(3) [OF state_columns(1) [OF st(1)] a(1) b(1)] a b by simp
    have "snapshot_cleanup_pending d s a \<longleftrightarrow> session_outstanding d s" if "s_desired_state s = ''absent''"
      using that by (simp add: snapshot_cleanup_pending_def session_outstanding_def)
    then show ?thesis
      using g act tail_reads [OF st a k limit(1), of r latest] load by (auto simp: read steps ba snapshot_of_def)
  qed
qed


section \<open>Bootstraps\<close>

lemma bootstrap_fresh:
  assumes st: "lifecycle_state d" and u: "canonical_uuid u"
  shows "active_lifecycle_session u d = None \<Longrightarrow>
      BootstrapLifecycle no_outage u None d = Inr \<lparr>LbSnapshot = None, LbEvents = [], LbResync = False\<rparr>"
    and "active_lifecycle_session u d = Some i \<Longrightarrow> \<exists>s snapshot. s_user_id s = u \<and> s_id s = i \<and> current_snapshot d s snapshot \<and>
      BootstrapLifecycle no_outage u None d = Inr \<lparr>LbSnapshot = Some snapshot, LbEvents = [], LbResync = False\<rparr>"
proof -
  have act: "lifecycleActiveSessionID no_outage u d = Inr (active_lifecycle_session u d, d)"
    by (simp add: lifecycleActiveSessionID_def tx_defs)
  note steps = BootstrapLifecycle_def bootstrap_tx_def run_query_def tx_defs act u [unfolded canonical_uuid_def]
  show "BootstrapLifecycle no_outage u None d = Inr \<lparr>LbSnapshot = None, LbEvents = [], LbResync = False\<rparr>"
    if "active_lifecycle_session u d = None"
    using that by (simp add: steps)
  show "\<exists>s snapshot. s_user_id s = u \<and> s_id s = i \<and> current_snapshot d s snapshot \<and>
      BootstrapLifecycle no_outage u None d = Inr \<lparr>LbSnapshot = Some snapshot, LbEvents = [], LbResync = False\<rparr>"
    if i: "active_lifecycle_session u d = Some i"
  proof -
    obtain s where s: "s \<in> set (sessions d)" "s_user_id s = u" "s_id s = i"
      using active_is_own [OF i] u by (metis canonical_uuid_def)
    obtain snapshot where snap: "current_snapshot d s snapshot"
      "loadLifecycleSnapshot no_outage u i d = Inr (\<lparr>SrSnapshot = snapshot, SrDesiredState = s_desired_state s\<rparr>, d)"
      using session_snapshot [OF st s(1)] s by metis
    then have "BootstrapLifecycle no_outage u None d = Inr \<lparr>LbSnapshot = Some snapshot, LbEvents = [], LbResync = False\<rparr>"
      using i by (simp add: steps)
    with s snap(1) show ?thesis by blast
  qed
qed

lemma uint64_diff: "k \<le> n \<Longrightarrow> uint64 (int n) - uint64 (int k) = word_of_nat (n - k)"
  by (simp add: uint64_def of_nat_diff)

lemma replay_reads:
  assumes st: "lifecycle_state d" "s \<in> set (sessions d)" and a: "a \<in> set (allocations d)" "a_session_id a = s_id s"
    and k: "0 < k" "k \<le> length (log_of d a)"
  shows "lifecycleReplayToWatermark no_outage (s_user_id s) (snapshot_of d s a r latest) (uint64 (int k)) d =
    Inr (if length (log_of d a) - k \<le> 256 then (map public_event (drop k (log_of d a)), False) else ([], True), d)"
proof -
  note len = log_sequences(2) [OF st(1) a(1)] and bound = state_columns(4) [OF st(1) a(1)]
  have order: "\<not> uint64 (int (length (log_of d a))) < uint64 (int k)" "uint64 (int k) \<noteq> 0"
    using k bound len valid_cursor_at(3) [OF st a(1) k] by (simp_all add: uint64_order)
  have diff: "uint64 (int (length (log_of d a))) - uint64 (int k) = word_of_nat (length (log_of d a) - k)"
    using uint64_diff [OF k(2)] .
  have "int (length (log_of d a) - k) \<le> 9223372036854775807" using bound len by linarith
  then have gap: "uint (word_of_nat (length (log_of d a) - k) :: u64) = int (length (log_of d a) - k)"
    using uint_uint64 [of "int (length (log_of d a) - k)"] by (simp add: uint64_def)
  note q = event_queries [OF st a k, unfolded len]
  have full: "take 256 (drop k (log_of d a)) = drop k (log_of d a)" if "length (log_of d a) - k \<le> 256" using that by simp
  have con: "contiguous (uint64 (int k) + 1) (map public_event (drop k (log_of d a)))"
    using contiguous_slice [OF st(1) a(1) k(2), of "length (log_of d a)"] by simp
  show ?thesis
    using con by (auto simp: lifecycleReplayToWatermark_def Let_def snapshot_of_def maxLifecycleBootstrapReplay_def tx_defs q
        order diff gap len full)
qed

lemma bootstrap_resume:
  assumes st: "lifecycle_state d" "s \<in> set (sessions d)" and a: "a \<in> set (allocations d)" "a_session_id a = s_id s"
    and k: "0 < k" "k \<le> length (log_of d a)"
  shows "\<exists>s' snapshot es resync. s_user_id s' = s_user_id s \<and> current_snapshot d s' snapshot \<and>
    BootstrapLifecycle no_outage (s_user_id s) (Some (cursor_at s a k)) d =
      Inr \<lparr>LbSnapshot = Some snapshot, LbEvents = es, LbResync = resync\<rparr>"
proof -
  let ?u = "s_user_id s" and ?c = "cursor_at s a k"
  note valid = valid_cursor_at [OF st a(1) k]
  note steps = BootstrapLifecycle_def bootstrap_tx_def run_query_def tx_defs read_steps [OF st] valid
  define i where "i = (case active_lifecycle_session ?u d of Some j \<Rightarrow> j | None \<Rightarrow> s_id s)"
  obtain s' where s': "s' \<in> set (sessions d)" "s_user_id s' = ?u" "s_id s' = i"
  proof (cases "active_lifecycle_session ?u d")
    case None
    then show ?thesis using that [of s] st(2) by (simp add: i_def)
  next
    case (Some j)
    then show ?thesis using other_active [OF st Some] that by (metis i_def option.simps(5))
  qed
  obtain b where b: "b \<in> set (allocations d)" "a_session_id b = s_id s'" "a_generation b = s_current_generation s'"
    using current_allocation [OF st(1) s'(1)] .
  obtain r latest where load: "loadLifecycleSnapshot no_outage ?u i d =
      Inr (\<lparr>SrSnapshot = snapshot_of d s' b r latest, SrDesiredState = s_desired_state s'\<rparr>, d)"
    using snapshot_loads [OF st(1) s'(1) b] s' by metis
  have target: "(case active_lifecycle_session ?u d of Some j \<Rightarrow> Some j | None \<Rightarrow> map_option LcSessionID (Some ?c)) = Some i"
    by (simp add: i_def split: option.split)
  have "\<exists>es resync. BootstrapLifecycle no_outage ?u (Some ?c) d =
      Inr \<lparr>LbSnapshot = Some (snapshot_of d s' b r latest), LbEvents = es, LbResync = resync\<rparr>"
  proof (cases "s_id s = s_id s' \<and> uint64 (a_generation a) = uint64 (a_generation b) \<and>
      uint64 (s_current_generation s) = uint64 (a_generation b)")
    case False
    then show ?thesis by (auto simp: steps target load snapshot_of_def)
  next
    case True
    then have ss: "s' = s" using unique_rows(1) [OF state_columns(1) [OF st(1)] st(2) s'(1)] by simp
    have "a_generation b = a_generation a"
      using True state_columns(4) [OF st(1) a(1)] state_columns(4) [OF st(1) b(1)] by (simp add: uint64_order)
    then have "b = a" using unique_rows(3) [OF state_columns(1) [OF st(1)] a(1) b(1)] a b ss by simp
    with True ss show ?thesis
      using replay_reads [OF st a k, of r latest] by (auto simp: steps target load snapshot_of_def)
  qed
  moreover have "current_snapshot d s' (snapshot_of d s' b r latest)" using b s'(1) by (auto simp: current_snapshot_def)
  ultimately show ?thesis using s'(2) by blast
qed


section \<open>A cursor is never lost\<close>

lemma active_outstanding:
  assumes "lifecycle_state d" and "s \<in> set (sessions d)" and "active_lifecycle_session (s_user_id s) d \<in> {None, Some (s_id s)}"
  shows "session_outstanding d s \<longleftrightarrow> active_lifecycle_session (s_user_id s) d = Some (s_id s)"
proof
  assume out: "session_outstanding d s"
  then have "s \<in> set (filter (\<lambda>s'. s_user_id s' = pg_uuid (s_user_id s) \<and> session_outstanding d s') (sessions d))"
    using assms(2) state_columns(3) [OF assms(1,2)] by (simp add: canonical_uuid_def)
  then have "active_lifecycle_session (s_user_id s) d \<noteq> None"
    by (auto simp: active_lifecycle_session_def sort_key_Nil filter_empty_conv split: list.splits)
  then show "active_lifecycle_session (s_user_id s) d = Some (s_id s)" using assms(3) by auto
next
  assume "active_lifecycle_session (s_user_id s) d = Some (s_id s)"
  then obtain s' where "s' \<in> set (sessions d)" "s_id s' = s_id s" "session_outstanding d s'" by (rule active_is_own)
  then show "session_outstanding d s" using unique_rows(1) [OF state_columns(1) [OF assms(1)] assms(2)] by metis
qed

text \<open>
  C22. Tail reads are complete: on every database a run of the store can reach, a cursor behind the first \<open>k\<close>
  events of any allocation of the user's session is answered. When another session of the user has become the
  active one, or the session has moved to another generation, the answer is the current snapshot of that
  session. Otherwise it is exactly the next events of the log, in order, none skipped or repeated, at most
  \<open>limit\<close> of them; only when the log is read to its end, the session is to be absent and none of its allocations
  is left, it is the empty snapshot.
\<close>

theorem lifecycle_delta_complete:
  assumes "store_run empty_db d" and "typed_columns d" and "s \<in> set (sessions d)"
    and "a \<in> set (allocations d)" and "a_session_id a = s_id s"
    and "0 < k" and "k \<le> length (log_of d a)" and "0 < limit" and "limit \<le> 256"
  shows "case active_lifecycle_session (s_user_id s) d of
      Some i \<Rightarrow> if i \<noteq> s_id s
        then \<exists>s' snapshot. s_user_id s' = s_user_id s \<and> s_id s' = i \<and> current_snapshot d s' snapshot \<and>
          ReadLifecycleDelta no_outage (s_user_id s) (cursor_at s a k) limit d = Inr (takes_over (Some snapshot))
        else if a_generation a \<noteq> s_current_generation s
        then \<exists>snapshot. current_snapshot d s snapshot \<and>
          ReadLifecycleDelta no_outage (s_user_id s) (cursor_at s a k) limit d = Inr (takes_over (Some snapshot))
        else ReadLifecycleDelta no_outage (s_user_id s) (cursor_at s a k) limit d =
          Inr (continues (take (nat limit) (drop k (log_of d a))))
    | None \<Rightarrow> if a_generation a \<noteq> s_current_generation s
        then \<exists>snapshot. current_snapshot d s snapshot \<and>
          ReadLifecycleDelta no_outage (s_user_id s) (cursor_at s a k) limit d = Inr (takes_over (Some snapshot))
        else ReadLifecycleDelta no_outage (s_user_id s) (cursor_at s a k) limit d =
          Inr (if k = length (log_of d a) \<and> s_desired_state s = ''absent''
            then takes_over None else continues (take (nat limit) (drop k (log_of d a))))"
proof -
  have st: "lifecycle_state d" by (rule reachable_lifecycle_state [OF assms(1,2)])
  note reads = delta_reads [OF st assms(3-9)]
  show ?thesis
    using reads(1) reads(2,3) active_outstanding [OF st assms(3)]
    by (cases "active_lifecycle_session (s_user_id s) d") auto
qed

text \<open>A reservation whose session and user are UUIDs.\<close>

definition life_sid :: string where
  "life_sid = ''00000000-0000-4000-8000-000000000001''"

definition life_uid :: string where
  "life_uid = ''00000000-0000-4000-8000-000000000002''"

definition life_params :: reserve_session_params where
  "life_params = demo_params\<lparr>rp_SessionID := life_sid, rp_UserID := life_uid\<rparr>"

definition life_published :: db where
  "life_published = demo_published\<lparr>users := [life_uid, ''u1'']\<rparr>"

definition life_alloc :: string where
  "life_alloc = AllocationIDForSession (SessionRef life_sid 1)"

definition life_session :: session_row where
  "life_session = (demo_session ''queued'' ''active'')\<lparr>s_id := life_sid, s_user_id := life_uid, s_queued_at := 100,
     s_expires_at := 1000000, s_created_at := 100\<rparr>"

definition life_allocation :: allocation_row where
  "life_allocation = new_allocation demo_env life_alloc life_sid 1 ''local-docker'' ''local'' ''small'' 1000000 1"

definition life_event :: event_row where
  "life_event = new_event life_alloc 1 ''allocation_reserved'' ''create_requested'' ''Environment reservation accepted.'' 100"

definition life_reserved :: db where
  "life_reserved = life_published\<lparr>
     sessions := [life_session], allocations := [life_allocation],
     operations := [new_operation demo_env ''op-'' life_alloc ''local'' ''create'' ''create:s1:1''
       (hashReservation life_params life_alloc) ''pending'' None],
     events := [life_event], attempts := [new_attempt life_sid life_uid ''p1'' 100 life_sid 1]\<rparr>"

lemma life_reserve:
  "ReserveSession demo_store demo_env [] life_params life_published =
     (Inr (reservationValue life_params life_alloc ''op-'' (hashReservation life_params life_alloc) 100), life_reserved)"
proof -
  have valid: "validateReservation life_params = Inr ()"
    by (simp add: validateReservation_def life_params_def demo_params_def ValidateProviderOperationKey_def
        providerOperationKeyPattern_def op_key_char_def char_class_defs MaxDurableValue_eq zero_time_def life_uid_def)
  have params: "complete_params [] life_params = life_params" "life_params\<lparr>rp_ExpiresAt := truncate_us (rp_ExpiresAt life_params)\<rparr> = life_params"
    by (simp_all add: complete_params_def life_params_def demo_params_def truncate_us_def life_sid_def)
  have len: "length (hashReservation p i) = 32" for p i by (simp add: hashReservation_def)
  have tx: "reserve_tx demo_store demo_env life_params life_published =
      Inr (reservationValue life_params life_alloc ''op-'' (hashReservation life_params life_alloc) 100, life_reserved)"
    by (simp add: reserve_tx_def reserve_rows_def validateCatalogSelectionTx_def loadReservationByOperation_def
        reservation_join_def demo_eval Let_def life_published_def demo_published_def empty_db_def life_params_def demo_params_def
        len initialGeneration_def life_reserved_def life_allocation_def life_event_def life_session_def new_allocation_def
        life_alloc_def)
  have fk: "deferred_ok life_reserved"
    by (simp add: deferred_ok_def life_reserved_def life_session_def life_allocation_def demo_eval new_allocation_def)
  have prov: "requireProvider demo_store (rp_ProviderID life_params) = Inr ()" "env_commit demo_env = Committed"
    by (simp_all add: requireProvider_def life_params_def demo_params_def demo_store_def demo_env_def)
  show ?thesis by (simp add: ReserveSession_def prov params valid run_tx_def run_tx_or_def tx fk Let_def)
qed

lemma life_reserved_run: "store_run empty_db life_reserved"
proof -
  have "store_run empty_db life_published"
    using store_run.step [OF demo_published_run store_step.user [of demo_published life_uid]]
    by (simp add: life_published_def demo_published_def)
  moreover have "snd (store_exec demo_store demo_env (CReserveSession [] life_params) life_published) = life_reserved"
    by (simp add: life_reserve)
  then have "store_step life_published life_reserved" by (metis store_step.call)
  ultimately show ?thesis by (rule store_run.step)
qed

lemma life_typed: "typed_columns life_reserved"
  by (simp add: typed_columns_def life_reserved_def life_session_def life_allocation_def demo_eval new_allocation_def canonical_uuid_def
      life_sid_def life_uid_def validLifecycleUUID_def pg_uuid_def is_hex_def is_digit_def is_upper_def upt_rec)

theorem lifecycle_delta_complete_witness:
  "ReadLifecycleDelta no_outage life_uid (cursor_at life_session life_allocation 1) 10 life_reserved = Inr (continues [])"
proof -
  have rows: "sessions life_reserved = [life_session]" "allocations life_reserved = [life_allocation]" "events life_reserved = [life_event]"
    by (simp_all add: life_reserved_def)
  have s: "s_id life_session = life_sid" "s_user_id life_session = life_uid" "s_current_generation life_session = 1"
    and a: "a_session_id life_allocation = life_sid" "a_generation life_allocation = 1" "a_id life_allocation = life_alloc"
      "a_desired_state life_allocation = ''active''"
    and e: "e_allocation_id life_event = life_alloc"
    by (simp_all add: life_session_def demo_session_def life_allocation_def new_allocation_def life_event_def new_event_def)
  have log: "log_of life_reserved life_allocation = [life_event]" by (simp add: log_of_def rows a e)
  have "pg_uuid life_uid = life_uid" using life_typed by (simp add: typed_columns_def rows s canonical_uuid_def)
  then have "active_lifecycle_session life_uid life_reserved = Some life_sid"
    by (simp add: active_lifecycle_session_def session_outstanding_def allocation_outstanding_def rows s a)
  with lifecycle_delta_complete [OF life_reserved_run life_typed, of life_session life_allocation 1 10]
  show ?thesis by (simp add: rows s a log)
qed

end
