(* ===== verification/Lifecycle_Stream.thy ===== *)
theory Lifecycle_Stream
  imports Lifecycle_Socket Lifecycle_Reader_Laws
begin

text \<open>
  What the browser sees. \<open>follow\<close> is a client that only trusts its cursor: it accepts an event only as the direct
  successor of the last one. The handler keeps such a client in step with its own cursor, whatever the reader
  answers. The locale \<open>lifecycle_source\<close> is the contract of the reader the handler relies on for the contents;
  the durable store fulfils it.
\<close>

section \<open>The client\<close>

fun follow :: "lifecycle_cursor option \<Rightarrow> lifecycle_frame list \<Rightarrow> lifecycle_cursor option option" where
  "follow c [] = Some c"
| "follow c (SnapshotFrame s c' # rest) = follow c' rest"
| "follow c (EventFrame e # rest) =
     (case c of None \<Rightarrow> None
      | Some k \<Rightarrow> if EfSessionID e = LcSessionID k \<and> EfGeneration e = LcGeneration k \<and> EfEventSequence e = LcEventSequence k + 1
          then follow (Some (k\<lparr>LcEventSequence := EfEventSequence e\<rparr>)) rest else None)"
| "follow c (ResyncFrame reason # rest) = follow c rest"
| "follow c (ErrorFrame error # rest) = follow c rest"

lemma follow_append: "follow c (xs @ ys) = Option.bind (follow c xs) (\<lambda>c'. follow c' ys)"
  by (induction c xs rule: follow.induct) (auto split: option.splits)

lemma follow_events:
  "contiguous (LcEventSequence k + 1) es \<Longrightarrow> LcSessionID k = LcSessionID k' \<Longrightarrow> LcGeneration k = LcGeneration k' \<Longrightarrow>
   follow (Some k) (map (\<lambda>e. EventFrame (event_frame k' e)) es) =
     Some (Some (if es = [] then k else k\<lparr>LcEventSequence := de_Sequence (last es)\<rparr>))"
proof (induction es arbitrary: k)
  case (Cons e es)
  then show ?case
    using Cons.IH [of "k\<lparr>LcEventSequence := de_Sequence e\<rparr>"] by (auto simp: event_frame_def)
qed simp

section \<open>What an action writes\<close>

text \<open>
  From every world the action appends frames that satisfy \<open>P\<close> and that a client at \<open>c\<close> can follow; when it
  succeeds, its value and the client's new cursor satisfy \<open>Q\<close>.
\<close>

definition reached :: "(lifecycle_frame \<Rightarrow> bool) \<Rightarrow> lifecycle_cursor option \<Rightarrow> ('a \<Rightarrow> lifecycle_cursor option \<Rightarrow> bool) \<Rightarrow> lifecycle_socket \<Rightarrow>
    runner_error + 'a \<Rightarrow> lifecycle_socket \<Rightarrow> bool" where
  "reached P c Q w r w' \<longleftrightarrow> (\<exists>new c'. SoSent w' = SoSent w @ new \<and> list_all P new \<and> follow c new = Some c' \<and>
     (case r of Inl e \<Rightarrow> True | Inr x \<Rightarrow> Q x c'))"

definition writes :: "(lifecycle_frame \<Rightarrow> bool) \<Rightarrow> lifecycle_cursor option \<Rightarrow> 'a sock \<Rightarrow> ('a \<Rightarrow> lifecycle_cursor option \<Rightarrow> bool) \<Rightarrow> bool" where
  "writes P c m Q \<longleftrightarrow> (\<forall>w. io_wp m (reached P c Q w) w)"

named_theorems writes_intros "rules for the frames an action writes"

lemma reached_same: "SoSent w' = SoSent w \<Longrightarrow> (case r of Inl e \<Rightarrow> True | Inr x \<Rightarrow> Q x c) \<Longrightarrow> reached P c Q w r w'"
  by (auto simp: reached_def intro!: exI [of _ "[]"])

lemma reached_then:
  assumes "SoSent w' = SoSent w @ new" "list_all P new" "follow c new = Some c'" "reached P c' R w' r w''"
  shows "reached P c R w r w''"
proof -
  obtain new' c'' where "SoSent w'' = SoSent w' @ new'" "list_all P new'" "follow c' new' = Some c''"
      "case r of Inl e \<Rightarrow> True | Inr x \<Rightarrow> R x c''"
    using assms(4) by (auto simp: reached_def)
  then show ?thesis using assms(1-3) unfolding reached_def
    by (intro exI [of _ "new @ new'"] exI [of _ c'']) (simp add: follow_append)
qed

lemma writes_return [writes_intros]: "Q x c \<Longrightarrow> writes P c (io_return x) Q"
  by (simp add: writes_def wp_simps reached_same)

lemma writes_throw [writes_intros]: "writes P c (io_throw e) Q"
  by (simp add: writes_def wp_simps reached_same)

lemma writes_frame: "P f \<Longrightarrow> follow c [f] = Some c' \<Longrightarrow> Q () c' \<Longrightarrow> writes P c (writeJSON f) Q"
  by (auto simp: writes_def writeJSON_def io_wp_def reached_same) (auto simp: reached_def)

lemma writes_read: "(\<And>n x. f n = Inr x \<Longrightarrow> Q x c) \<Longrightarrow> writes P c (read_call f) Q"
  by (auto simp: writes_def read_call_def io_wp_def intro!: reached_same split: sum.splits)

lemma writes_bind:
  assumes m: "writes P c m Q" and k: "\<And>x c'. Q x c' \<Longrightarrow> writes P c' (k x) R"
  shows "writes P c (io_bind m k) R"
  unfolding writes_def
proof
  fix w
  have "io_wp m (reached P c Q w) w" using m by (simp add: writes_def)
  then show "io_wp (io_bind m k) (reached P c R w) w"
  proof (rule wp_bindI [OF wp_mono])
    fix r w' assume "reached P c Q w r w'"
    then obtain new c' where step: "SoSent w' = SoSent w @ new" "list_all P new" "follow c new = Some c'"
        "case r of Inl e \<Rightarrow> True | Inr x \<Rightarrow> Q x c'"
      by (auto simp: reached_def)
    show "case r of Inl e \<Rightarrow> reached P c R w (Inl e) w' | Inr a \<Rightarrow> io_wp (k a) (reached P c R w) w'"
    proof (cases r)
      case (Inl e)
      then show ?thesis using step by (auto simp: reached_def)
    next
      case (Inr a)
      then have "io_wp (k a) (reached P c' R w') w'" using k step(4) by (simp add: writes_def)
      then have "io_wp (k a) (reached P c R w) w'" by (rule wp_mono) (rule reached_then [OF step(1-3)])
      then show ?thesis using Inr by simp
    qed
  qed
qed

lemma writes_weaken:
  assumes "writes P c m Q" and "\<And>x c'. Q x c' \<Longrightarrow> R x c'"
  shows "writes P c m R"
  using assms unfolding writes_def reached_def by (fastforce elim!: wp_mono split: sum.splits)

lemma writes_then:
  assumes "writes P c m (\<lambda>_. Q)" and "\<And>c'. Q c' \<Longrightarrow> writes P c' k R"
  shows "writes P c (io_bind m (\<lambda>_. k)) R"
  using assms(1) by (rule writes_bind) (rule assms(2))

text \<open>A read whose error is inspected: it writes nothing.\<close>

lemma writes_try_read:
  assumes "\<And>n. writes P c (k (f n)) R"
  shows "writes P c (io_try (read_call f) k) R"
  unfolding writes_def
proof
  fix w :: lifecycle_socket
  let ?w = "w\<lparr>SoReads := SoReads w + 1\<rparr>"
  have "io_wp (k (f (SoReads w))) (reached P c R ?w) ?w" using assms by (simp add: writes_def)
  then have "io_wp (k (f (SoReads w))) (reached P c R w) ?w" by (rule wp_mono) (simp add: reached_def)
  then show "io_wp (io_try (read_call f) k) (reached P c R w) w" by (simp add: io_wp_def io_try_def read_call_def)
qed

section \<open>The contract of a reader\<close>

text \<open>
  \<open>own\<close> says which snapshots, \<open>ev\<close> which events of a session's generation the reader may hand out to the user.
\<close>

definition genuine :: "(lifecycle_snapshot \<Rightarrow> bool) \<Rightarrow> (string \<Rightarrow> u64 \<Rightarrow> durable_event \<Rightarrow> bool) \<Rightarrow> lifecycle_frame \<Rightarrow> bool" where
  "genuine own ev f \<longleftrightarrow> (case f of
       SnapshotFrame frame c \<Rightarrow> (\<exists>s. (\<forall>x. s = Some x \<longrightarrow> own x) \<and> frame = map_option session_frame s \<and> c = lifecycleCursorForSnapshot s)
     | EventFrame frame \<Rightarrow> (\<exists>c e. ev (LcSessionID c) (LcGeneration c) e \<and> frame = event_frame c e)
     | _ \<Rightarrow> True)"

lemma genuine_simps [simp]:
  "(\<And>x. s = Some x \<Longrightarrow> own x) \<Longrightarrow> genuine own ev (SnapshotFrame (map_option session_frame s) (lifecycleCursorForSnapshot s))"
  "ev (LcSessionID c) (LcGeneration c) e \<Longrightarrow> genuine own ev (EventFrame (event_frame c e))"
  "genuine own ev (ResyncFrame reason)" "genuine own ev (ErrorFrame text)"
  by (auto simp: genuine_def)

locale lifecycle_source =
  fixes rd :: lifecycle_reader and userID :: string
    and own :: "lifecycle_snapshot \<Rightarrow> bool" and ev :: "string \<Rightarrow> u64 \<Rightarrow> durable_event \<Rightarrow> bool"
  assumes bootstrap_snapshot: "RdBootstrap rd n userID resume = Inr b \<Longrightarrow> LbSnapshot b = Some s \<Longrightarrow> own s"
    and bootstrap_events: "RdBootstrap rd n userID resume = Inr b \<Longrightarrow> LbSnapshot b = Some s \<Longrightarrow> e \<in> set (LbEvents b) \<Longrightarrow>
      ev (LsSessionID s) (LsGeneration s) e"
    and delta_snapshot: "RdDelta rd n userID c limit = Inr d \<Longrightarrow> LdSnapshot d = Some s \<Longrightarrow> own s"
    and delta_events: "RdDelta rd n userID c limit = Inr d \<Longrightarrow> e \<in> set (LdEvents d) \<Longrightarrow> ev (LcSessionID c) (LcGeneration c) e"
begin

lemma snapshot_written:
  assumes "\<And>x. s = Some x \<Longrightarrow> own x"
  shows "writes (genuine own ev) c (writeSnapshot s) (\<lambda>_ c'. c' = lifecycleCursorForSnapshot s)"
  unfolding writeSnapshot_def by (rule writes_frame) (use assms in auto)

lemma resync_written: "writes (genuine own ev) c (writeJSON resync_frame) (\<lambda>_ _. True)"
  by (rule writes_frame) (simp_all add: resync_frame_def)

lemma error_written: "writes (genuine own ev) c (io_bind (writeJSON (ErrorFrame text)) (\<lambda>_. io_throw e)) Q"
  by (rule writes_then [OF writes_frame [where Q = "\<lambda>_ _. True"] writes_throw]) simp_all

lemma events_written:
  assumes "contiguous (LcEventSequence k + 1) es" and "LcSessionID k = LcSessionID k'" and "LcGeneration k = LcGeneration k'"
    and "\<And>e. e \<in> set es \<Longrightarrow> ev (LcSessionID k') (LcGeneration k') e"
  shows "writes (genuine own ev) (Some k) (write_event_frames k' es)
    (\<lambda>_ c'. c' = Some (if es = [] then k else k\<lparr>LcEventSequence := de_Sequence (last es)\<rparr>))"
  using assms
proof (induction es arbitrary: k)
  case (Cons e es)
  let ?k = "k\<lparr>LcEventSequence := de_Sequence e\<rparr>"
  have first: "writes (genuine own ev) (Some k) (writeJSON (EventFrame (event_frame k' e))) (\<lambda>_ c'. c' = Some ?k)"
    using Cons.prems by (intro writes_frame genuine_simps(2)) (simp_all add: event_frame_def)
  have "writes (genuine own ev) (Some ?k) (write_event_frames k' es)
      (\<lambda>_ c'. c' = Some (if es = [] then ?k else ?k\<lparr>LcEventSequence := de_Sequence (last es)\<rparr>))"
    using Cons.prems by (intro Cons.IH) auto
  then have rest: "writes (genuine own ev) (Some ?k) (write_event_frames k' es)
      (\<lambda>_ c'. c' = Some (k\<lparr>LcEventSequence := de_Sequence (last (e # es))\<rparr>))"
    by (rule writes_weaken) simp
  have "writes (genuine own ev) (Some k) (write_event_frames k' (e # es))
      (\<lambda>_ c'. c' = Some (k\<lparr>LcEventSequence := de_Sequence (last (e # es))\<rparr>))"
    unfolding write_event_frames.simps using first by (rule writes_then) (simp only: rest)
  then show ?case by simp
qed (simp add: writes_return)

lemma replay_contiguous:
  "replay_steps expected watermark es = Some final \<Longrightarrow> contiguous expected es \<and> final = expected + word_of_nat (length es)"
  by (induction expected watermark es rule: replay_steps.induct) (auto split: if_splits)

lemma resync_snapshot_written:
  "writes (genuine own ev) c (writeResyncSnapshot rd userID c') (\<lambda>cursor c''. c'' = cursor)"
  unfolding writeResyncSnapshot_def
proof (rule writes_bind [OF writes_read])
  fix b d
  let ?Q = "\<lambda>(b :: lifecycle_bootstrap) (_ :: lifecycle_cursor option). \<forall>s. LbSnapshot b = Some s \<longrightarrow> own s"
  show "?Q x c" if "RdBootstrap rd n userID c' = Inr x" for n x using bootstrap_snapshot [OF that] by simp
  assume "?Q b d"
  then show "writes (genuine own ev) d (io_bind (writeJSON resync_frame) (\<lambda>_. io_bind (writeSnapshot (LbSnapshot b)) (\<lambda>_.
      io_return (lifecycleCursorForSnapshot (LbSnapshot b))))) (\<lambda>cursor c''. c'' = cursor)"
    by (auto intro!: writes_then [OF resync_written] writes_then [OF snapshot_written] writes_return)
qed

lemma bootstrap_written:
  assumes "RdBootstrap rd n userID resume' = Inr b"
  shows "writes (genuine own ev) resume (writeBootstrap resume b) (\<lambda>cursor c'. c' = cursor)"
proof -
  let ?cursor = "lifecycleCursorForSnapshot (LbSnapshot b)"
  have snapshot: "writes (genuine own ev) c (io_bind (writeSnapshot (LbSnapshot b)) (\<lambda>_. io_return ?cursor)) (\<lambda>cursor c'. c' = cursor)" for c
    using bootstrap_snapshot [OF assms] by (auto intro!: writes_then [OF snapshot_written] writes_return)
  have "writes (genuine own ev) resume (writeEvents ?cursor (LbEvents b)) (\<lambda>_ _. True)"
    if valid: "validLifecycleReplay resume (LbSnapshot b) (LbEvents b)" "LbEvents b \<noteq> []"
  proof -
    obtain k s where k: "resume = Some k" "LbSnapshot b = Some s" "LcSessionID k = LsSessionID s" "LcGeneration k = LsGeneration s"
        "contiguous (LcEventSequence k + 1) (LbEvents b)"
      using valid by (auto simp: validLifecycleReplay_def dest: replay_contiguous split: option.splits if_splits)
    have "writes (genuine own ev) (Some k) (write_event_frames (Cursor s) (LbEvents b)) (\<lambda>_ _. True)"
      by (rule writes_weaken [OF events_written]) (use k bootstrap_events [OF assms k(2)] in \<open>auto simp: Cursor_def\<close>)
    then show ?thesis using valid(2) k by (simp add: writeEvents_def lifecycleCursorForSnapshot_def)
  qed
  then have "writes (genuine own ev) resume
      (if LbResync b \<or> \<not> validLifecycleReplay resume (LbSnapshot b) (LbEvents b) then writeJSON resync_frame
       else writeEvents ?cursor (LbEvents b)) (\<lambda>_ _. True)"
    using resync_written by (cases "LbEvents b = []") (auto simp: writeEvents_def writes_return)
  then show ?thesis unfolding writeBootstrap_def Let_def by (rule writes_then) (rule snapshot)
qed

lemma delta_written:
  assumes "RdDelta rd n userID k limit = Inr d"
  shows "writes (genuine own ev) (Some k) (writeDelta rd userID (Some k) d) (\<lambda>cursor c'. c' = cursor)"
proof -
  have "writes (genuine own ev) (Some k) (io_bind (writeEvents (Some k) (LdEvents d)) (\<lambda>_.
      io_return (Some (k\<lparr>LcEventSequence := de_Sequence (last (LdEvents d))\<rparr>)))) (\<lambda>cursor c'. c' = cursor)"
    if "LdEvents d \<noteq> []" "contiguous (LcEventSequence k + 1) (LdEvents d)"
    using that delta_events [OF assms]
    by (auto simp: writeEvents_def intro!: writes_then [OF events_written] writes_return)
  then show ?thesis
    using delta_snapshot [OF assms] resync_snapshot_written
    by (auto simp: writeDelta_def validLifecycleTail_def intro!: writes_then [OF snapshot_written] writes_return)
qed

lemma poll_written: "writes (genuine own ev) c (poll rd userID c) (\<lambda>cursor c'. c' = cursor)"
proof (cases c)
  case None
  have "writes (genuine own ev) None (if LbSnapshot b = None then io_return None else writeBootstrap None b) (\<lambda>cursor c'. c' = cursor)"
    if "\<exists>n. RdBootstrap rd n userID None = Inr b" for b
    using that bootstrap_written by (auto intro: writes_return)
  then have "writes (genuine own ev) None (io_bind (read_call (\<lambda>n. RdBootstrap rd n userID None)) (\<lambda>next.
      if LbSnapshot next = None then io_return None else writeBootstrap None next)) (\<lambda>cursor c'. c' = cursor)"
    by (intro writes_bind [OF writes_read [where Q = "\<lambda>b c'. (\<exists>n. RdBootstrap rd n userID None = Inr b) \<and> c' = None"]]) auto
  with None show ?thesis by (simp add: poll_def)
next
  case (Some k)
  have "writes (genuine own ev) (Some k) (case RdDelta rd n userID k lifecycleReplayLimit of
        Inr delta \<Rightarrow> writeDelta rd userID (Some k) delta
      | Inl e \<Rightarrow> if e = ErrLifecycleCursorUnavailable then writeResyncSnapshot rd userID (Some k)
          else if e = ErrLifecycleNotFoundOrForbidden
          then io_bind (writeJSON (ErrorFrame ''not_found_or_forbidden'')) (\<lambda>_. io_throw e)
          else io_throw e) (\<lambda>cursor c'. c' = cursor)" for n
    using delta_written resync_snapshot_written error_written by (auto intro: writes_throw split: sum.split)
  with Some show ?thesis by (simp add: poll_def writes_try_read)
qed

lemma serve_written: "writes (genuine own ev) c (serve rd userID selects c) (\<lambda>cursor c'. c' = cursor)"
proof (induction selects arbitrary: c)
  case (Cons x selects)
  have "writes (genuine own ev) c (io_bind (poll rd userID c) (serve rd userID selects)) (\<lambda>cursor c'. c' = cursor)"
    using poll_written by (rule writes_bind) (simp add: Cons.IH)
  then show ?case using Cons.IH by (cases x) (auto intro: writes_throw)
qed (simp add: writes_return)

lemma connection_written:
  "writes (genuine own ev) (Option.bind (readOptionalSubscribe subscribe) id) (HandleWebSocket rd userID subscribe selects)
     (\<lambda>cursor c'. c' = cursor)"
proof (cases "readOptionalSubscribe subscribe")
  case None
  then show ?thesis by (simp add: HandleWebSocket_def writes_throw)
next
  case (Some resume)
  have "writes (genuine own ev) resume (case RdBootstrap rd n userID resume of
        Inl e \<Rightarrow> if e = ErrLifecycleNotFoundOrForbidden
          then io_bind (writeJSON (ErrorFrame ''not_found_or_forbidden'')) (\<lambda>_. io_throw e) else io_throw e
      | Inr bootstrap \<Rightarrow> io_bind (writeBootstrap resume bootstrap) (serve rd userID selects)) (\<lambda>cursor c'. c' = cursor)" for n
    using error_written
    by (auto intro: writes_throw writes_bind [OF bootstrap_written] serve_written split: sum.split)
  then show ?thesis using Some by (simp add: HandleWebSocket_def writes_try_read)
qed

end


section \<open>The store as the reader\<close>

text \<open>The \<open>n\<close>-th read sees the database and the failing statements of that moment.\<close>

definition store_reader :: "(nat \<Rightarrow> db \<times> (string \<Rightarrow> bool)) \<Rightarrow> lifecycle_reader" where
  "store_reader view =
     \<lparr>RdBootstrap = (\<lambda>n userID resume. BootstrapLifecycle (snd (view n)) userID resume (fst (view n))),
      RdDelta = (\<lambda>n userID cursor limit. ReadLifecycleDelta (snd (view n)) userID cursor limit (fst (view n)))\<rparr>"

text \<open>A snapshot of a current generation of the user, and an event in the log of one of the user's generations.\<close>

definition shown_snapshot :: "(nat \<Rightarrow> db \<times> (string \<Rightarrow> bool)) \<Rightarrow> string \<Rightarrow> lifecycle_snapshot \<Rightarrow> bool" where
  "shown_snapshot view userID snapshot \<longleftrightarrow>
     (\<exists>n s. s_user_id s = pg_uuid userID \<and> current_snapshot (fst (view n)) s snapshot)"

definition shown_event :: "(nat \<Rightarrow> db \<times> (string \<Rightarrow> bool)) \<Rightarrow> string \<Rightarrow> string \<Rightarrow> u64 \<Rightarrow> durable_event \<Rightarrow> bool" where
  "shown_event view userID sessionID generation event \<longleftrightarrow>
     (\<exists>n row. row \<in> set (events (fst (view n))) \<and> owned_event userID sessionID generation (fst (view n)) row \<and> event = public_event row)"

lemma pg_uuid_idem [simp]: "pg_uuid (pg_uuid v) = pg_uuid v"
proof -
  have "\<not> is_upper (char_of (of_char c + 32 :: nat))" if "is_upper c" for c
  proof -
    have "65 \<le> (of_char c :: nat)" "(of_char c :: nat) \<le> 90"
      using that by (simp_all add: is_upper_def less_eq_char_def)
    then show ?thesis by (simp add: is_upper_def less_eq_char_def)
  qed
  then show ?thesis by (auto simp: pg_uuid_def)
qed

lemma owned_event_text: "pg_uuid i = pg_uuid j \<Longrightarrow> owned_event u i g d e = owned_event u j g d e"
  by (simp add: owned_event_def owned_session_def)

lemma snapshot_of_rows_Inr:
  "snapshot_of_rows rows d = Inr (loaded, d') \<Longrightarrow> d' = d \<and> (\<exists>s a r latest. (s, a, r) \<in> set rows \<and> SrSnapshot loaded = snapshot_of d s a r latest)"
  by (fastforce simp: snapshot_of_rows_def tx_Inr split: list.splits prod.splits)

lemma load_Inr:
  assumes "loadLifecycleSnapshot outage u i d = Inr (loaded, d')"
  shows "d' = d" and "\<exists>s. s_user_id s = pg_uuid u \<and> s_id s = pg_uuid i \<and> current_snapshot d s (SrSnapshot loaded)"
proof -
  let ?rows = "sort_key (\<lambda>(s, a, r). (o_created_at r, o_id r)) (snapshot_rows u i d)"
  have "snapshot_of_rows ?rows d = Inr (loaded, d')"
    using assms by (auto simp: loadLifecycleSnapshot_def reach_db_def tx_Inr)
  from snapshot_of_rows_Inr [OF this] obtain s a r latest where row: "d' = d" "(s, a, r) \<in> set (snapshot_rows u i d)"
      "SrSnapshot loaded = snapshot_of d s a r latest"
    by auto
  then have "s \<in> set (sessions d)" "a \<in> set (allocations d)" "a_session_id a = s_id s" "a_generation a = s_current_generation s"
      and s: "s_user_id s = pg_uuid u" "s_id s = pg_uuid i"
    by (auto simp: snapshot_rows_def owned_session_def)
  then have "current_snapshot d s (SrSnapshot loaded)" using row(3) unfolding current_snapshot_def by blast
  with s row(1) show "d' = d" "\<exists>s. s_user_id s = pg_uuid u \<and> s_id s = pg_uuid i \<and> current_snapshot d s (SrSnapshot loaded)"
    by blast+
qed

lemma read_Inr:
  "readOwnedLifecycleEvents outage u i g after through limit d = Inr (es, d') \<Longrightarrow>
   d' = d \<and> (\<forall>e \<in> set es. \<exists>row \<in> set (events d). owned_event u i g d row \<and> e = public_event row)"
  by (auto simp: readOwnedLifecycleEvents_def reach_db_def tx_Inr dest!: in_set_takeD split: if_splits)

lemma query_Inr:
  "lifecycleOwnedGeneration outage u i d = Inr (g, d') \<Longrightarrow> d' = d"
  "lifecycleActiveSessionID outage u d = Inr (c, d') \<Longrightarrow> d' = d"
  "lifecycleEventExists outage u i g' n d = Inr (b, d') \<Longrightarrow> d' = d"
  by (auto simp: lifecycleOwnedGeneration_def lifecycleActiveSessionID_def lifecycleEventExists_def reach_db_def tx_Inr)

lemma replay_Inr:
  "lifecycleReplayToWatermark outage u snapshot after d = Inr ((es, resync), d') \<Longrightarrow>
   d' = d \<and> (\<forall>e \<in> set es. \<exists>row \<in> set (events d). owned_event u (LsSessionID snapshot) (LsGeneration snapshot) d row \<and> e = public_event row)"
  by (auto simp: lifecycleReplayToWatermark_def Let_def tx_Inr dest!: query_Inr read_Inr split: if_splits)

lemma bootstrap_Inr:
  assumes "bootstrap_tx outage u resume d = Inr (b, d')" and "LbSnapshot b = Some snapshot"
  shows "\<exists>s. s_user_id s = pg_uuid u \<and> current_snapshot d s snapshot"
    and "e \<in> set (LbEvents b) \<Longrightarrow>
      \<exists>row \<in> set (events d). owned_event u (LsSessionID snapshot) (LsGeneration snapshot) d row \<and> e = public_event row"
proof -
  obtain i loaded es resync d1 where load: "loadLifecycleSnapshot outage u i d = Inr (loaded, d)"
    and es: "es = [] \<or> (\<exists>k. lifecycleReplayToWatermark outage u (SrSnapshot loaded) k d = Inr ((es, resync), d1))"
    and b: "b = \<lparr>LbSnapshot = Some (SrSnapshot loaded), LbEvents = es, LbResync = resync\<rparr>"
    using assms
    by (auto simp: bootstrap_tx_def reach_db_def tx_Inr dest!: query_Inr split: option.splits if_splits prod.splits)
      (metis load_Inr(1))+
  show "\<exists>s. s_user_id s = pg_uuid u \<and> current_snapshot d s snapshot" using load_Inr(2) [OF load] b assms(2) by auto
  show "\<exists>row \<in> set (events d). owned_event u (LsSessionID snapshot) (LsGeneration snapshot) d row \<and> e = public_event row"
    if "e \<in> set (LbEvents b)"
    using that es b assms(2) by (auto dest!: replay_Inr)
qed


lemma tail_Inr:
  assumes "tail_tx outage u cursor limit loaded d = Inr (x, d')"
  shows "LdSnapshot x = None" and "e \<in> set (LdEvents x) \<Longrightarrow>
    \<exists>row \<in> set (events d). owned_event u (LsSessionID (SrSnapshot loaded)) (LsGeneration (SrSnapshot loaded)) d row \<and> e = public_event row"
  using assms by (auto simp: tail_tx_def Let_def switched_def reach_db_def tx_Inr dest!: query_Inr read_Inr split: if_splits)

lemma delta_tx_cases:
  assumes "delta_tx outage u cursor limit d = Inr (x, d')"
  obtains i loaded where "loadLifecycleSnapshot outage u i d = Inr (loaded, d)"
    and "x = \<lparr>LdSnapshot = Some (SrSnapshot loaded), LdSnapshotChanged = True, LdEvents = []\<rparr> \<or>
      i = LcSessionID cursor \<and> LcGeneration cursor = LsGeneration (SrSnapshot loaded) \<and>
      (\<exists>d1. tail_tx outage u cursor limit loaded d = Inr (x, d1))"
proof -
  obtain g active where rest: "(if (case active of None \<Rightarrow> False | Some i \<Rightarrow> i \<noteq> LcSessionID cursor) then
        tx_bind (loadLifecycleSnapshot outage u (the active)) (\<lambda>record.
        switched outage ''commit lifecycle session switch'' (Some (SrSnapshot record)))
      else
        tx_bind (loadLifecycleSnapshot outage u (LcSessionID cursor)) (\<lambda>record.
        if g \<noteq> LsGeneration (SrSnapshot record) \<or> LcGeneration cursor \<noteq> LsGeneration (SrSnapshot record)
        then switched outage ''commit lifecycle generation switch'' (Some (SrSnapshot record))
        else tail_tx outage u cursor limit record)) d = Inr (x, d')"
    using assms unfolding delta_tx_def reach_db_def tx_Inr by (blast dest: query_Inr)
  then obtain i loaded d1 where load: "loadLifecycleSnapshot outage u i d = Inr (loaded, d1)"
    and x: "(\<exists>what. switched outage what (Some (SrSnapshot loaded)) d1 = Inr (x, d')) \<or>
      i = LcSessionID cursor \<and> LcGeneration cursor = LsGeneration (SrSnapshot loaded) \<and>
      tail_tx outage u cursor limit loaded d1 = Inr (x, d')"
    by (auto simp: tx_bind_Inr split: if_splits)
  then show ?thesis
    using that [of i loaded] load_Inr(1) [OF load] by (auto simp: switched_def reach_db_def tx_Inr)
qed

lemma delta_Inr:
  assumes "delta_tx outage u cursor limit d = Inr (x, d')"
  shows "LdSnapshot x = Some snapshot \<Longrightarrow> \<exists>s. s_user_id s = pg_uuid u \<and> current_snapshot d s snapshot"
    and "e \<in> set (LdEvents x) \<Longrightarrow>
      \<exists>row \<in> set (events d). owned_event u (LcSessionID cursor) (LcGeneration cursor) d row \<and> e = public_event row"
proof -
  obtain i loaded where load: "loadLifecycleSnapshot outage u i d = Inr (loaded, d)"
    and x: "x = \<lparr>LdSnapshot = Some (SrSnapshot loaded), LdSnapshotChanged = True, LdEvents = []\<rparr> \<or>
      i = LcSessionID cursor \<and> LcGeneration cursor = LsGeneration (SrSnapshot loaded) \<and>
      (\<exists>d1. tail_tx outage u cursor limit loaded d = Inr (x, d1))"
    using delta_tx_cases [OF assms] .
  obtain s where s: "s_user_id s = pg_uuid u" "s_id s = pg_uuid i" "current_snapshot d s (SrSnapshot loaded)"
    using load_Inr(2) [OF load] by blast
  then have sid: "LsSessionID (SrSnapshot loaded) = pg_uuid i" by (auto simp: current_snapshot_def snapshot_of_def)
  show "\<exists>s. s_user_id s = pg_uuid u \<and> current_snapshot d s snapshot" if "LdSnapshot x = Some snapshot"
    using x
  proof
    assume "x = \<lparr>LdSnapshot = Some (SrSnapshot loaded), LdSnapshotChanged = True, LdEvents = []\<rparr>"
    then show ?thesis using that s by auto
  next
    assume "i = LcSessionID cursor \<and> LcGeneration cursor = LsGeneration (SrSnapshot loaded) \<and>
      (\<exists>d1. tail_tx outage u cursor limit loaded d = Inr (x, d1))"
    then show ?thesis using that tail_Inr(1) by force
  qed
  show "\<exists>row \<in> set (events d). owned_event u (LcSessionID cursor) (LcGeneration cursor) d row \<and> e = public_event row"
    if "e \<in> set (LdEvents x)"
  proof -
    from x that obtain d1 where t: "i = LcSessionID cursor" "LcGeneration cursor = LsGeneration (SrSnapshot loaded)"
        "tail_tx outage u cursor limit loaded d = Inr (x, d1)"
      by auto
    then show ?thesis
      using tail_Inr(2) [OF t(3) that] owned_event_text [of "LsSessionID (SrSnapshot loaded)" "LcSessionID cursor"] sid by auto
  qed
qed

lemma run_query_Inr: "run_query m d = Inr x \<longleftrightarrow> (\<exists>d'. m d = Inr (x, d'))"
  by (auto simp: run_query_def split: sum.splits)

interpretation durable: lifecycle_source "store_reader view" u "shown_snapshot view u" "shown_event view u" for view u
proof
  fix n resume b s
  assume "RdBootstrap (store_reader view) n u resume = Inr b" and s: "LbSnapshot b = Some s"
  then obtain d' where run: "bootstrap_tx (snd (view n)) u resume (fst (view n)) = Inr (b, d')"
    by (auto simp: store_reader_def BootstrapLifecycle_def run_query_Inr split: if_splits)
  show "shown_snapshot view u s" using bootstrap_Inr(1) [OF run s] by (auto simp: shown_snapshot_def)
  show "shown_event view u (LsSessionID s) (LsGeneration s) e" if "e \<in> set (LbEvents b)" for e
    using bootstrap_Inr(2) [OF run s that] by (auto simp: shown_event_def)
next
  fix n c limit x
  assume "RdDelta (store_reader view) n u c limit = Inr x"
  then obtain d' where run: "delta_tx (snd (view n)) u c limit (fst (view n)) = Inr (x, d')"
    by (auto simp: store_reader_def ReadLifecycleDelta_def run_query_Inr split: if_splits)
  show "shown_snapshot view u s" if "LdSnapshot x = Some s" for s
    using delta_Inr(1) [OF run that] by (auto simp: shown_snapshot_def)
  show "shown_event view u (LcSessionID c) (LcGeneration c) e" if "e \<in> set (LdEvents x)" for e
    using delta_Inr(2) [OF run that] by (auto simp: shown_event_def)
qed

section \<open>The stream\<close>

definition new_socket :: "(nat \<Rightarrow> bool) \<Rightarrow> lifecycle_socket" where
  "new_socket fails = \<lparr>SoSent = [], SoWriteFails = fails, SoReads = 0\<rparr>"

text \<open>
  C13. The stream is the log: whatever the browser sent first, whatever the databases are at the moments of the
  reads, whichever statements and writes fail, and whenever the connection ends, a client that starts at its
  resume cursor can follow every frame: each event is the direct successor of the last one it holds, and while
  the connection lasts its cursor is the handler's. Every snapshot is one of a current generation of the
  user's own sessions, and every event is in the log of the generation it is labelled with, of a session of the user.
\<close>

theorem lifecycle_stream_follows_log:
  "\<exists>r w cursor. HandleWebSocket (store_reader view) u subscribe selects (new_socket fails) = Some (r, w) \<and>
     follow (Option.bind (readOptionalSubscribe subscribe) id) (SoSent w) = Some cursor \<and>
     (\<forall>c. r = Inr c \<longrightarrow> c = cursor) \<and>
     list_all (genuine (shown_snapshot view u) (shown_event view u)) (SoSent w)"
proof -
  let ?Q = "\<lambda>cursor c'. c' = cursor" and ?w = "new_socket fails"
  have "io_wp (HandleWebSocket (store_reader view) u subscribe selects)
      (reached (genuine (shown_snapshot view u) (shown_event view u)) (Option.bind (readOptionalSubscribe subscribe) id) ?Q ?w) ?w"
    using durable.connection_written [of view u subscribe selects] by (simp add: writes_def)
  from io_wp_returns [OF this] obtain r w new c' where
      "HandleWebSocket (store_reader view) u subscribe selects ?w = Some (r, w)" "SoSent w = SoSent ?w @ new"
      "list_all (genuine (shown_snapshot view u) (shown_event view u)) new"
      "follow (Option.bind (readOptionalSubscribe subscribe) id) new = Some c'" "case r of Inl e \<Rightarrow> True | Inr x \<Rightarrow> c' = x"
    by (auto simp: reached_def)
  then show ?thesis
    by (intro exI [of _ r] exI [of _ w] exI [of _ c']) (auto simp: new_socket_def)
qed

end
