(* ===== verification/Lifecycle_Liveness.thy ===== *)
theory Lifecycle_Liveness
  imports Lifecycle_Stream
begin

text \<open>
  A connection that stays open catches up. While the store runs, a cursor that is on track stays on track, so
  polls never resynchronise; once the database rests, every poll brings the client closer to the end of the
  active session's log, or to the empty snapshot when no session is active, and there it stays.
\<close>

section \<open>Positions\<close>

definition on_track :: "db \<Rightarrow> string \<Rightarrow> lifecycle_cursor option \<Rightarrow> bool" where
  "on_track d u cursor \<longleftrightarrow> (case cursor of None \<Rightarrow> True
     | Some c \<Rightarrow> \<exists>s a k. s \<in> set (sessions d) \<and> s_user_id s = u \<and> a \<in> set (allocations d) \<and> a_session_id a = s_id s \<and>
         0 < k \<and> k \<le> length (log_of d a) \<and> c = cursor_at s a k)"

definition settled :: "db \<Rightarrow> string \<Rightarrow> lifecycle_cursor option \<Rightarrow> bool" where
  "settled d u cursor \<longleftrightarrow> (case active_lifecycle_session u d of None \<Rightarrow> cursor = None
     | Some i \<Rightarrow> \<exists>s a. s \<in> set (sessions d) \<and> s_user_id s = u \<and> s_id s = i \<and> a \<in> set (allocations d) \<and>
         a_session_id a = s_id s \<and> a_generation a = s_current_generation s \<and> cursor = Some (cursor_at s a (length (log_of d a))))"

text \<open>Settled, or at most \<open>n\<close> polls away.\<close>

definition within :: "db \<Rightarrow> string \<Rightarrow> nat \<Rightarrow> lifecycle_cursor option \<Rightarrow> bool" where
  "within d u n cursor \<longleftrightarrow> settled d u cursor \<or> cursor = None \<and> 0 < n \<or>
     (\<exists>s a k. s \<in> set (sessions d) \<and> s_user_id s = u \<and> a \<in> set (allocations d) \<and> a_session_id a = s_id s \<and>
        0 < k \<and> k \<le> length (log_of d a) \<and> cursor = Some (cursor_at s a k) \<and>
        length (log_of d a) - k + (if a_generation a = s_current_generation s then 1 else 2) \<le> n)"

definition reader_state :: "db \<Rightarrow> bool" where
  "reader_state d \<longleftrightarrow> lifecycle_state d \<and> coherent d"

lemma reachable_reader_state: "store_run empty_db d \<Longrightarrow> typed_columns d \<Longrightarrow> reader_state d"
  using reachable_lifecycle_state store_run_inv [OF _ empty_store_inv] by (simp add: reader_state_def store_inv_def)

lemma log_nonempty: "lifecycle_state d \<Longrightarrow> a \<in> set (allocations d) \<Longrightarrow> 0 < length (log_of d a)"
  using log_sequences(2) [of d a] by (auto simp: lifecycle_state_def snap_inv_def list_all_iff)

lemma log_bound: "length (log_of d a) \<le> length (events d)"
  by (simp add: log_of_def)

lemma snapshot_position:
  assumes "lifecycle_state d" and "current_snapshot d s snapshot"
  obtains a where "s \<in> set (sessions d)" "a \<in> set (allocations d)" "a_session_id a = s_id s" "a_generation a = s_current_generation s"
    "Cursor snapshot = cursor_at s a (length (log_of d a))" "0 < length (log_of d a)"
proof -
  obtain a r latest where a: "s \<in> set (sessions d)" "a \<in> set (allocations d)" "a_session_id a = s_id s"
      "a_generation a = s_current_generation s" "snapshot = snapshot_of d s a r latest"
    using assms(2) by (auto simp: current_snapshot_def)
  then have "Cursor snapshot = cursor_at s a (length (log_of d a))"
    using log_sequences(2) [OF assms(1) a(2)] by (simp add: Cursor_def cursor_at_def snapshot_of_def)
  then show ?thesis using that [of a] a log_nonempty [OF assms(1) a(2)] by blast
qed

lemma on_track_within: "on_track d u cursor \<Longrightarrow> length (events d) < n \<Longrightarrow> within d u n cursor"
proof (cases cursor)
  case (Some c)
  assume "on_track d u cursor" and n: "length (events d) < n"
  then obtain s a k where p: "s \<in> set (sessions d)" "s_user_id s = u" "a \<in> set (allocations d)" "a_session_id a = s_id s"
      "0 < k" "k \<le> length (log_of d a)" "c = cursor_at s a k"
    using Some by (auto simp: on_track_def)
  moreover have "length (log_of d a) - k + (if a_generation a = s_current_generation s then 1 else 2) \<le> n"
  proof -
    have "length (log_of d a) - k < length (log_of d a)" using p(5,6) by simp
    then show ?thesis using log_bound [of d a] n by auto
  qed
  ultimately show ?thesis using Some unfolding within_def by blast
qed (simp add: within_def)

lemma on_trackI:
  "s \<in> set (sessions d) \<Longrightarrow> s_user_id s = u \<Longrightarrow> a \<in> set (allocations d) \<Longrightarrow> a_session_id a = s_id s \<Longrightarrow> 0 < k \<Longrightarrow>
   k \<le> length (log_of d a) \<Longrightarrow> on_track d u (Some (cursor_at s a k))"
  by (auto simp: on_track_def)

lemma cursor_at_inj:
  assumes "lifecycle_state d" "a \<in> set (allocations d)" "b \<in> set (allocations d)" "s \<in> set (sessions d)" "t \<in> set (sessions d)"
    "a_session_id a = s_id s" "a_session_id b = s_id t" "k \<le> length (log_of d a)" "j \<le> length (log_of d b)"
    "cursor_at s a k = cursor_at t b j"
  shows "s = t" and "a = b" and "k = j"
proof -
  note ok = state_columns(1) [OF assms(1)]
  note ba = state_columns(4) [OF assms(1,2)] and bb = state_columns(4) [OF assms(1,3)]
  note la = log_sequences(2) [OF assms(1,2)] and lb = log_sequences(2) [OF assms(1,3)]
  have eq: "s_id s = s_id t" "uint64 (a_generation a) = uint64 (a_generation b)" "uint64 (int k) = uint64 (int j)"
    using assms(10) by (simp_all add: cursor_at_def)
  show st: "s = t" using unique_rows(1) [OF ok assms(5,4) eq(1)] .
  have "a_generation a = a_generation b" using eq(2) ba bb by (simp add: uint64_order)
  then show "a = b" using unique_rows(3) [OF ok assms(3,2)] assms(6,7) st by simp
  show "k = j" using eq(3) uint64_order(2) [of "int k" "int j"] ba bb la lb assms(8,9) by simp
qed

section \<open>Polls on a database\<close>

definition calm_socket :: "lifecycle_socket \<Rightarrow> bool" where
  "calm_socket w \<longleftrightarrow> (\<forall>n. \<not> SoWriteFails w n)"

definition plain :: "lifecycle_frame \<Rightarrow> bool" where
  "plain f \<longleftrightarrow> (case f of ResyncFrame _ \<Rightarrow> False | ErrorFrame _ \<Rightarrow> False | _ \<Rightarrow> True)"

lemma write_calm: "calm_socket w \<Longrightarrow> writeJSON f w = Some (Inr (), w\<lparr>SoSent := SoSent w @ [f]\<rparr>)"
  by (simp add: writeJSON_def calm_socket_def)

lemma calm_update [simp]: "calm_socket (w\<lparr>SoSent := x\<rparr>) = calm_socket w" "calm_socket (w\<lparr>SoReads := n\<rparr>) = calm_socket w"
  by (simp_all add: calm_socket_def)

lemma write_events_calm:
  "calm_socket w \<Longrightarrow> write_event_frames c es w = Some (Inr (), w\<lparr>SoSent := SoSent w @ map (\<lambda>e. EventFrame (event_frame c e)) es\<rparr>)"
proof (induction es arbitrary: w)
  case (Cons e es)
  then show ?case by (simp add: io_bind_def write_calm)
qed (simp add: io_return_def)

text \<open>A poll that returns \<open>c'\<close> and writes only snapshots and events, with one read.\<close>

definition polled :: "lifecycle_reader \<Rightarrow> string \<Rightarrow> lifecycle_cursor option \<Rightarrow> lifecycle_socket \<Rightarrow> lifecycle_cursor option \<Rightarrow> bool" where
  "polled rd u c w c' \<longleftrightarrow> (\<exists>new. list_all plain new \<and>
     poll rd u c w = Some (Inr c', w\<lparr>SoSent := SoSent w @ new, SoReads := SoReads w + 1\<rparr>))"

lemma polled_snapshot:
  assumes "calm_socket w" and "RdDelta rd (SoReads w) u k lifecycleReplayLimit = Inr (takes_over s)"
  shows "polled rd u (Some k) w (lifecycleCursorForSnapshot s)"
  using assms by (auto simp: polled_def poll_def takes_over_def writeDelta_def writeSnapshot_def io_defs read_call_def write_calm plain_def
      intro!: exI [of _ "[SnapshotFrame (map_option session_frame s) (lifecycleCursorForSnapshot s)]"])

lemma polled_events:
  assumes "calm_socket w" and "RdDelta rd (SoReads w) u k lifecycleReplayLimit = Inr (continues es)"
    and "contiguous (LcEventSequence k + 1) (map public_event es)"
  shows "polled rd u (Some k) w (Some (if es = [] then k else k\<lparr>LcEventSequence := uint64 (e_sequence (last es))\<rparr>))"
proof (cases "es = []")
  case True
  then show ?thesis using assms(2)
    by (auto simp: polled_def poll_def continues_def writeDelta_def io_defs read_call_def intro!: exI [of _ "[]"])
next
  case False
  let ?new = "map (\<lambda>e. EventFrame (event_frame k e)) (map public_event es)"
  have "list_all plain ?new" by (simp add: list_all_iff plain_def)
  then show ?thesis using assms False
    by (auto simp: polled_def poll_def continues_def writeDelta_def validLifecycleTail_def writeEvents_def io_defs read_call_def
        write_events_calm last_map de_Sequence_public intro!: exI [of _ ?new])
qed

lemma polled_bootstrap:
  assumes "calm_socket w" and "RdBootstrap rd (SoReads w) u None = Inr \<lparr>LbSnapshot = s, LbEvents = [], LbResync = False\<rparr>"
  shows "polled rd u None w (lifecycleCursorForSnapshot s)"
proof (cases s)
  case None
  then show ?thesis using assms(2)
    by (auto simp: polled_def poll_def io_defs read_call_def lifecycleCursorForSnapshot_def intro!: exI [of _ "[]"])
next
  case (Some x)
  then show ?thesis using assms
    by (auto simp: polled_def poll_def writeBootstrap_def validLifecycleReplay_def writeEvents_def writeSnapshot_def io_defs read_call_def
        write_calm plain_def intro!: exI [of _ "[SnapshotFrame (Some (session_frame x)) (lifecycleCursorForSnapshot (Some x))]"])
qed


section \<open>The next position\<close>

text \<open>The reader of a connection whose next read sees \<open>d\<close> without an outage.\<close>

definition reads_from :: "lifecycle_reader \<Rightarrow> lifecycle_socket \<Rightarrow> db \<Rightarrow> bool" where
  "reads_from rd w d \<longleftrightarrow> (\<forall>u c limit. RdDelta rd (SoReads w) u c limit = ReadLifecycleDelta no_outage u c limit d) \<and>
     (\<forall>u r. RdBootstrap rd (SoReads w) u r = BootstrapLifecycle no_outage u r d)"

lemma snapshot_cursor:
  assumes "lifecycle_state d" and "current_snapshot d s snapshot" and "s_user_id s = u"
  shows "on_track d u (Some (Cursor snapshot))" and "0 < n \<Longrightarrow> within d u n (Some (Cursor snapshot))"
    and "active_lifecycle_session u d = Some (s_id s) \<Longrightarrow> settled d u (Some (Cursor snapshot))"
proof -
  obtain a where a: "s \<in> set (sessions d)" "a \<in> set (allocations d)" "a_session_id a = s_id s" "a_generation a = s_current_generation s"
      "Cursor snapshot = cursor_at s a (length (log_of d a))" "0 < length (log_of d a)"
    using snapshot_position [OF assms(1,2)] .
  show "on_track d u (Some (Cursor snapshot))" using a assms(3) by (simp add: on_trackI)
  show "within d u n (Some (Cursor snapshot))" if "0 < n"
  proof -
    have "length (log_of d a) - length (log_of d a) + (if a_generation a = s_current_generation s then 1 else 2) \<le> n"
      using that a(4) by simp
    then show ?thesis using a assms(3) unfolding within_def by (metis order_refl)
  qed
  show "settled d u (Some (Cursor snapshot))" if "active_lifecycle_session u d = Some (s_id s)"
    using that a assms(3) by (auto simp: settled_def)
qed

text \<open>From no session at all.\<close>

lemma poll_from_none:
  assumes st: "lifecycle_state d" "canonical_uuid u" and w: "calm_socket w" "reads_from rd w d"
  shows "\<exists>c'. polled rd u None w c' \<and> on_track d u c' \<and> settled d u c'"
proof (cases "active_lifecycle_session u d")
  case None
  have "polled rd u None w None"
    using polled_bootstrap [OF w(1), of rd u None] bootstrap_fresh(1) [OF st None] w(2)
    by (simp add: reads_from_def lifecycleCursorForSnapshot_def)
  then show ?thesis using None by (auto simp: on_track_def settled_def)
next
  case (Some i)
  obtain s snapshot where s: "s_user_id s = u" "s_id s = i" "current_snapshot d s snapshot"
      "BootstrapLifecycle no_outage u None d = Inr \<lparr>LbSnapshot = Some snapshot, LbEvents = [], LbResync = False\<rparr>"
    using bootstrap_fresh(2) [OF st Some] by blast
  have "polled rd u None w (Some (Cursor snapshot))"
    using polled_bootstrap [OF w(1), of rd u "Some snapshot"] s(4) w(2) by (simp add: reads_from_def lifecycleCursorForSnapshot_def)
  then show ?thesis using snapshot_cursor(1,3) [OF st(1) s(3,1)] Some s(2) by auto
qed

text \<open>A session without outstanding allocations is desired absent.\<close>

lemma inactive_absent:
  assumes "reader_state d" and "s \<in> set (sessions d)" and "\<not> session_outstanding d s"
  shows "s_desired_state s = ''absent''"
proof -
  have st: "lifecycle_state d" and coh: "coherent d" using assms(1) by (simp_all add: reader_state_def)
  obtain a where a: "a \<in> set (allocations d)" "a_session_id a = s_id s" "a_generation a = s_current_generation s"
    using current_allocation [OF st assms(2)] .
  have "\<not> active_allocation a"
    using assms(3) a by (auto simp: session_outstanding_def allocation_outstanding_def list_ex_iff active_allocation_def)
  then have "\<not> active_session s" using coherentD(1) [OF coh assms(2) a(1)] a by (simp add: allocation_agrees_def)
  moreover have "session_check s" using schema_okD(1) [OF state_columns(1) [OF st]] assms(2) by (simp add: list_all_iff)
  ultimately show ?thesis by (auto simp: active_session_def session_check_def)
qed

text \<open>From a position in a log.\<close>

lemma settled_position:
  assumes "lifecycle_state d" "s \<in> set (sessions d)" "a \<in> set (allocations d)" "a_session_id a = s_id s" "k \<le> length (log_of d a)"
    and "settled d u (Some (cursor_at s a k))"
  shows "k = length (log_of d a)" and "a_generation a = s_current_generation s" and "active_lifecycle_session u d = Some (s_id s)"
proof -
  obtain t b where t: "t \<in> set (sessions d)" "b \<in> set (allocations d)" "a_session_id b = s_id t" "a_generation b = s_current_generation t"
      "cursor_at s a k = cursor_at t b (length (log_of d b))" "active_lifecycle_session u d = Some (s_id t)"
    using assms(6) by (auto simp: settled_def split: option.splits)
  note same = cursor_at_inj [OF assms(1,3) t(2) assms(2) t(1) assms(4) t(3) assms(5) order_refl t(5)]
  show "k = length (log_of d a)" "a_generation a = s_current_generation s" "active_lifecycle_session u d = Some (s_id s)"
    using same t by simp_all
qed

lemma within_position:
  assumes "lifecycle_state d" "s \<in> set (sessions d)" "a \<in> set (allocations d)" "a_session_id a = s_id s" "k \<le> length (log_of d a)"
    and "within d u n (Some (cursor_at s a k))" and "\<not> settled d u (Some (cursor_at s a k))"
  shows "length (log_of d a) - k + (if a_generation a = s_current_generation s then 1 else 2) \<le> n"
proof -
  obtain t b j where t: "t \<in> set (sessions d)" "b \<in> set (allocations d)" "a_session_id b = s_id t" "j \<le> length (log_of d b)"
      "cursor_at s a k = cursor_at t b j" "length (log_of d b) - j + (if a_generation b = s_current_generation t then 1 else 2) \<le> n"
    using assms(6,7) by (auto simp: within_def split: option.splits)
  note same = cursor_at_inj [OF assms(1,3) t(2) assms(2) t(1) assms(4) t(3) assms(5) t(4,5)]
  show ?thesis using t(6) same by simp
qed

lemma next_position:
  assumes "lifecycle_state d" "a \<in> set (allocations d)" "k \<le> length (log_of d a)" and "take n (drop k (log_of d a)) \<noteq> []"
  shows "(cursor_at s a k)\<lparr>LcEventSequence := uint64 (e_sequence (last (take n (drop k (log_of d a)))))\<rparr> =
    cursor_at s a (k + length (take n (drop k (log_of d a))))"
proof -
  let ?es = "take n (drop k (log_of d a))"
  have "e_sequence (last ?es) = last (map e_sequence ?es)" using assms(4) by (simp add: last_map)
  also have "\<dots> = last [int k + 1..int k + int (length ?es)]"
    using slice_sequences [OF log_sequences(1) [OF assms(1,2)] assms(3), of n] by (simp only:)
  also have "\<dots> = int (k + length ?es)"
    using assms(4) upto_rec2 [of "int k + 1" "int k + int (length ?es)"] by (cases ?es) simp_all
  finally show ?thesis by (simp add: cursor_at_def)
qed

lemma poll_from_tail:
  assumes st: "reader_state d" and s: "s \<in> set (sessions d)" and a: "a \<in> set (allocations d)" "a_session_id a = s_id s"
    "a_generation a = s_current_generation s" and k: "0 < k" "k \<le> length (log_of d a)" and w: "calm_socket w" "reads_from rd w d"
    and act: "active_lifecycle_session (s_user_id s) d \<in> {None, Some (s_id s)}"
  shows "\<exists>c'. polled rd (s_user_id s) (Some (cursor_at s a k)) w c' \<and> on_track d (s_user_id s) c' \<and>
    (\<forall>n. within d (s_user_id s) (Suc n) (Some (cursor_at s a k)) \<longrightarrow> within d (s_user_id s) n c')"
proof -
  let ?u = "s_user_id s" and ?log = "log_of d a"
  have ls: "lifecycle_state d" using st by (simp add: reader_state_def)
  note out = active_outstanding [OF ls s act]
  have read: "RdDelta rd (SoReads w) ?u (cursor_at s a k) lifecycleReplayLimit =
      Inr (if k = length ?log \<and> \<not> session_outstanding d s then takes_over None else continues (take 256 (drop k ?log)))"
    using delta_reads(3) [OF ls s a(1,2) k _ _ act a(3), of 256] inactive_absent [OF st s] w(2)
    by (simp add: reads_from_def lifecycleReplayLimit_def)
  show ?thesis
  proof (cases "k = length ?log \<and> \<not> session_outstanding d s")
    case True
    then have "settled d ?u None" using out act by (simp add: settled_def)
    moreover have "polled rd ?u (Some (cursor_at s a k)) w None"
      using polled_snapshot [OF w(1), of rd ?u "cursor_at s a k" None] read True by (simp add: lifecycleCursorForSnapshot_def)
    ultimately show ?thesis by (auto simp: on_track_def within_def)
  next
    case False
    let ?es = "take 256 (drop k ?log)" and ?c' = "cursor_at s a (k + length (take 256 (drop k ?log)))"
    have con: "contiguous (LcEventSequence (cursor_at s a k) + 1) (map public_event ?es)"
      using contiguous_slice [OF ls a(1) k(2)] by simp
    have eq: "(if ?es = [] then cursor_at s a k else (cursor_at s a k)\<lparr>LcEventSequence := uint64 (e_sequence (last ?es))\<rparr>) = ?c'"
      using next_position [OF ls a(1) k(2), of 256 s] by simp
    have "RdDelta rd (SoReads w) ?u (cursor_at s a k) lifecycleReplayLimit = Inr (continues ?es)" using read False by simp
    from polled_events [OF w(1) this con] have p: "polled rd ?u (Some (cursor_at s a k)) w (Some ?c')" unfolding eq .
    have k': "0 < k + length ?es" "k + length ?es \<le> length ?log" using k by auto
    then have "on_track d ?u (Some ?c')" using s a(1,2) by (intro on_trackI) simp_all
    moreover have "within d ?u n (Some ?c')" if "within d ?u (Suc n) (Some (cursor_at s a k))" for n
    proof (cases "k = length ?log")
      case True
      then have "session_outstanding d s" using False by simp
      then have "settled d ?u (Some (cursor_at s a k))" using out s a True by (auto simp: settled_def)
      then show ?thesis using True by (simp add: within_def)
    next
      case False
      then have "\<not> settled d ?u (Some (cursor_at s a k))" using settled_position(1) [OF ls s a(1,2) k(2)] by blast
      from within_position [OF ls s a(1,2) k(2) that this] have "length ?log - k + 1 \<le> Suc n" using a(3) by simp
      moreover have "0 < length ?es" using False k(2) by simp
      ultimately have "length ?log - (k + length ?es) + 1 \<le> n" using k'(2) by linarith
      then have "length ?log - (k + length ?es) + (if a_generation a = s_current_generation s then 1 else 2) \<le> n"
        using a(3) by simp
      then show ?thesis using s a(1,2) k' unfolding within_def by blast
    qed
    ultimately show ?thesis using p by blast
  qed
qed

lemma poll_step:
  assumes st: "reader_state d" and u: "canonical_uuid u" and w: "calm_socket w" "reads_from rd w d" and c: "on_track d u c"
  shows "\<exists>c'. polled rd u c w c' \<and> on_track d u c' \<and> (\<forall>n. within d u (Suc n) c \<longrightarrow> within d u n c')"
proof (cases c)
  case None
  have "lifecycle_state d" using st by (simp add: reader_state_def)
  from poll_from_none [OF this u w] None show ?thesis by (auto simp: within_def)
next
  case (Some cur)
  have ls: "lifecycle_state d" using st by (simp add: reader_state_def)
  obtain s a k where p: "s \<in> set (sessions d)" "s_user_id s = u" "a \<in> set (allocations d)" "a_session_id a = s_id s"
      "0 < k" "k \<le> length (log_of d a)" "cur = cursor_at s a k"
    using c Some by (auto simp: on_track_def)
  note reads = delta_reads [OF ls p(1,3,4,5,6), of 256, simplified]
  have rd: "RdDelta rd (SoReads w) u cur lifecycleReplayLimit = ReadLifecycleDelta no_outage u cur 256 d"
    using w(2) by (simp add: reads_from_def lifecycleReplayLimit_def)
  have snap: "polled rd u c w (Some (Cursor snapshot))"
    if "ReadLifecycleDelta no_outage u cur 256 d = Inr (takes_over (Some snapshot))" for snapshot
    using polled_snapshot [OF w(1), of rd u cur "Some snapshot"] that rd Some by (simp add: lifecycleCursorForSnapshot_def)
  show ?thesis
  proof (cases "\<exists>i. active_lifecycle_session u d = Some i \<and> i \<noteq> s_id s")
    case True
    then obtain s' snapshot where s': "s_user_id s' = u" "active_lifecycle_session u d = Some (s_id s')" "current_snapshot d s' snapshot"
        "ReadLifecycleDelta no_outage u cur 256 d = Inr (takes_over (Some snapshot))"
      using reads(1) p(2,7) by metis
    then show ?thesis
      using snap [OF s'(4)] snapshot_cursor(1,3) [OF ls s'(3,1)] by (auto simp: within_def)
  next
    case False
    then have act: "active_lifecycle_session (s_user_id s) d \<in> {None, Some (s_id s)}"
      using p(2) by (cases "active_lifecycle_session u d") auto
    show ?thesis
    proof (cases "a_generation a = s_current_generation s")
      case True
      from poll_from_tail [OF st p(1,3,4) True p(5,6) w act] show ?thesis using p(2,7) Some by simp
    next
      case False
      obtain snapshot where s': "current_snapshot d s snapshot" "ReadLifecycleDelta no_outage u cur 256 d = Inr (takes_over (Some snapshot))"
        using reads(2) act False p(2,7) by auto
      have "within d u n (Some (Cursor snapshot))" if "within d u (Suc n) c" for n
      proof -
        have "\<not> settled d u (Some (cursor_at s a k))" using settled_position(2) [OF ls p(1,3,4,6)] False by blast
        from within_position [OF ls p(1,3,4,6) _ this, of "Suc n"] have "0 < n" using that Some p(7) False by simp
        then show ?thesis using snapshot_cursor(2) [OF ls s'(1) p(2)] by simp
      qed
      then show ?thesis using snap [OF s'(2)] snapshot_cursor(1) [OF ls s'(1) p(2)] by blast
    qed
  qed
qed


section \<open>Open connections\<close>

text \<open>A cursor stays on track while the store runs.\<close>

lemma on_track_run:
  assumes "store_run d d'" and "on_track d u c"
  shows "on_track d' u c"
proof (cases c)
  case (Some cur)
  obtain s a k where p: "s \<in> set (sessions d)" "s_user_id s = u" "a \<in> set (allocations d)" "a_session_id a = s_id s"
      "0 < k" "k \<le> length (log_of d a)" "cur = cursor_at s a k"
    using assms(2) Some by (auto simp: on_track_def)
  have le: "table_le session_le (sessions d) (sessions d')" "table_le allocation_le (allocations d) (allocations d')"
      "table_le (=) (events d) (events d')"
    using store_run_rows [OF assms(1)] by (simp_all add: rows_le_def)
  obtain s' where s': "s' \<in> set (sessions d')" "session_le s s'" using table_le_row [OF le(1) p(1)] by blast
  obtain a' where a': "a' \<in> set (allocations d')" "allocation_le a a'" using table_le_row [OF le(2) p(3)] by blast
  obtain es where "events d' = events d @ es" using table_le_eq_prefix [OF le(3)] by blast
  then have "length (log_of d a) \<le> length (log_of d' a')" using a'(2) by (simp add: log_of_def allocation_le_def)
  moreover have "cur = cursor_at s' a' k" using p(7) s'(2) a'(2) by (simp add: cursor_at_def session_le_def allocation_le_def)
  ultimately show ?thesis
    using Some p s' a' by (auto simp: session_le_def allocation_le_def intro!: on_trackI)
qed (simp add: on_track_def)

definition quiet :: "select \<Rightarrow> bool" where
  "quiet x \<longleftrightarrow> x = PollTick \<or> x = PingTick True"

definition polls :: "select list \<Rightarrow> nat" where
  "polls selects = length (filter (\<lambda>x. x = PollTick) selects)"

text \<open>The databases of the successive reads.\<close>

definition history_of :: "(nat \<Rightarrow> db) \<Rightarrow> bool" where
  "history_of dbs \<longleftrightarrow> store_run empty_db (dbs 0) \<and> (\<forall>n. store_run (dbs n) (dbs (Suc n))) \<and> (\<forall>n. typed_columns (dbs n))"

definition calm_reader :: "(nat \<Rightarrow> db) \<Rightarrow> lifecycle_reader" where
  "calm_reader dbs = store_reader (\<lambda>n. (dbs n, no_outage))"

lemma history_state: "history_of dbs \<Longrightarrow> reader_state (dbs n)"
proof -
  assume h: "history_of dbs"
  have "store_run empty_db (dbs n)"
    by (induction n) (use h in \<open>auto simp: history_of_def intro: store_run_trans\<close>)
  then show ?thesis using h by (intro reachable_reader_state) (simp_all add: history_of_def)
qed

lemma calm_reads: "reads_from (calm_reader dbs) w (dbs (SoReads w))"
  by (simp add: reads_from_def calm_reader_def store_reader_def)

lemma serve_catches_up:
  assumes h: "history_of dbs" and u: "canonical_uuid u" and rest: "\<And>n. m \<le> n \<Longrightarrow> dbs n = dbs m"
  shows "list_all quiet selects \<Longrightarrow> calm_socket w \<Longrightarrow> on_track (dbs (SoReads w)) u c \<Longrightarrow>
    (m - SoReads w) + length (events (dbs m)) < polls selects \<or> m \<le> SoReads w \<and> within (dbs m) u (polls selects) c \<Longrightarrow>
    \<exists>c' new reads. serve (calm_reader dbs) u selects c w = Some (Inr c', w\<lparr>SoSent := SoSent w @ new, SoReads := reads\<rparr>) \<and>
      list_all plain new \<and> settled (dbs m) u c'"
proof (induction selects arbitrary: c w)
  case Nil
  then have "within (dbs m) u 0 c" by (simp add: polls_def)
  then have "settled (dbs m) u c" by (auto simp: within_def split: if_splits)
  then show ?case by (auto simp: io_return_def intro!: exI [of _ "[]"] exI [of _ "SoReads w"])
next
  case (Cons x selects)
  show ?case
  proof (cases "x = PollTick")
    case False
    then have "x = PingTick True" using Cons.prems(1) by (simp add: quiet_def)
    then show ?thesis using Cons.IH [OF _ Cons.prems(2,3)] Cons.prems(1,4) by (simp add: polls_def)
  next
    case True
    let ?n = "SoReads w"
    obtain c1 where c1: "polled (calm_reader dbs) u c w c1" "on_track (dbs ?n) u c1"
        "\<And>n. within (dbs ?n) u (Suc n) c \<Longrightarrow> within (dbs ?n) u n c1"
      using poll_step [OF history_state [OF h, of ?n] u Cons.prems(2) calm_reads [of dbs w] Cons.prems(3)] by blast
    then obtain new where new: "list_all plain new"
        "poll (calm_reader dbs) u c w = Some (Inr c1, w\<lparr>SoSent := SoSent w @ new, SoReads := ?n + 1\<rparr>)"
      by (auto simp: polled_def)
    let ?w = "w\<lparr>SoSent := SoSent w @ new, SoReads := ?n + 1\<rparr>"
    have count: "polls (x # selects) = Suc (polls selects)" using True by (simp add: polls_def)
    have "on_track (dbs (SoReads ?w)) u c1" using on_track_run [OF _ c1(2)] h by (simp add: history_of_def)
    moreover have "(m - SoReads ?w) + length (events (dbs m)) < polls selects \<or> m \<le> SoReads ?w \<and> within (dbs m) u (polls selects) c1"
    proof (cases "m \<le> ?n")
      case late: True
      have "within (dbs m) u (Suc (polls selects)) c"
        using Cons.prems(3,4) late rest [OF late] count by (auto intro: on_track_within)
      then show ?thesis using c1(3) rest [OF late] late by simp
    next
      case early: False
      then show ?thesis using Cons.prems(4) count by auto
    qed
    ultimately obtain c' new' reads where
        "serve (calm_reader dbs) u selects c1 ?w = Some (Inr c', ?w\<lparr>SoSent := SoSent ?w @ new', SoReads := reads\<rparr>)"
        "list_all plain new'" "settled (dbs m) u c'"
      using Cons.IH [of ?w c1] Cons.prems(1,2) by auto
    then show ?thesis
      using True new by (auto simp: io_bind_def intro!: exI [of _ "new @ new'"] exI [of _ reads])
  qed
qed


lemma bootstrap_calm:
  assumes "calm_socket w"
  shows "\<exists>new. writeBootstrap resume \<lparr>LbSnapshot = Some snapshot, LbEvents = es, LbResync = resync\<rparr> w =
      Some (Inr (Some (Cursor snapshot)), w\<lparr>SoSent := SoSent w @ new\<rparr>) \<and> list_all plain (tl new) \<and> (SoSent w @ new \<noteq> [])"
proof -
  let ?b = "\<lparr>LbSnapshot = Some snapshot, LbEvents = es, LbResync = resync\<rparr>"
  let ?snap = "SnapshotFrame (Some (session_frame snapshot)) (Some (Cursor snapshot))"
  let ?first = "if resync \<or> \<not> validLifecycleReplay resume (Some snapshot) es then [resync_frame]
    else map (\<lambda>e. EventFrame (event_frame (Cursor snapshot) e)) es"
  have "writeBootstrap resume ?b w = Some (Inr (Some (Cursor snapshot)), w\<lparr>SoSent := SoSent w @ ?first @ [?snap]\<rparr>)"
    using assms by (auto simp: writeBootstrap_def Let_def lifecycleCursorForSnapshot_def writeSnapshot_def writeEvents_def io_defs write_calm
        write_events_calm)
  moreover have "list_all plain (tl (?first @ [?snap]))"
    by (cases es) (auto simp: plain_def list_all_iff)
  ultimately show ?thesis by (intro exI [of _ "?first @ [?snap]"]) simp
qed

lemma bootstrap_on_track:
  assumes h: "history_of dbs" and u: "canonical_uuid u" and c: "on_track (dbs 0) u resume"
  shows "\<exists>b cursor new. RdBootstrap (calm_reader dbs) 0 u resume = Inr b \<and>
    writeBootstrap resume b (new_socket (\<lambda>_. False)\<lparr>SoReads := 1\<rparr>) =
      Some (Inr cursor, new_socket (\<lambda>_. False)\<lparr>SoSent := new, SoReads := 1\<rparr>) \<and>
    on_track (dbs 0) u cursor \<and> list_all plain (tl new) \<and> new \<noteq> []"
proof -
  let ?d = "dbs 0" and ?w = "new_socket (\<lambda>_. False)\<lparr>SoReads := 1\<rparr>"
  have st: "lifecycle_state ?d" using history_state [OF h] by (simp add: reader_state_def)
  have rd: "RdBootstrap (calm_reader dbs) 0 u resume = BootstrapLifecycle no_outage u resume ?d"
    by (simp add: calm_reader_def store_reader_def)
  have w: "calm_socket ?w" "SoSent ?w = []" by (simp_all add: calm_socket_def new_socket_def)
  have "(\<exists>s snapshot es resync. s_user_id s = u \<and> current_snapshot ?d s snapshot \<and>
      BootstrapLifecycle no_outage u resume ?d = Inr \<lparr>LbSnapshot = Some snapshot, LbEvents = es, LbResync = resync\<rparr>) \<or>
    resume = None \<and> BootstrapLifecycle no_outage u resume ?d = Inr \<lparr>LbSnapshot = None, LbEvents = [], LbResync = False\<rparr>"
  proof (cases resume)
    case None
    then show ?thesis using bootstrap_fresh [OF st u] by (cases "active_lifecycle_session u ?d") blast+
  next
    case (Some cur)
    then obtain s a k where "s \<in> set (sessions ?d)" "s_user_id s = u" "a \<in> set (allocations ?d)" "a_session_id a = s_id s"
        "0 < k" "k \<le> length (log_of ?d a)" "cur = cursor_at s a k"
      using c by (auto simp: on_track_def)
    then show ?thesis using bootstrap_resume [OF st, of s a k] Some by blast
  qed
  then show ?thesis
  proof (elim disjE exE conjE)
    fix s snapshot es resync
    assume s: "s_user_id s = u" "current_snapshot ?d s snapshot"
      "BootstrapLifecycle no_outage u resume ?d = Inr \<lparr>LbSnapshot = Some snapshot, LbEvents = es, LbResync = resync\<rparr>"
    obtain new where "writeBootstrap resume \<lparr>LbSnapshot = Some snapshot, LbEvents = es, LbResync = resync\<rparr> ?w =
        Some (Inr (Some (Cursor snapshot)), ?w\<lparr>SoSent := new\<rparr>)" "list_all plain (tl new)" "new \<noteq> []"
      using bootstrap_calm [OF w(1), of resume snapshot es resync] w(2) by auto
    then have "RdBootstrap (calm_reader dbs) 0 u resume = Inr \<lparr>LbSnapshot = Some snapshot, LbEvents = es, LbResync = resync\<rparr> \<and>
        writeBootstrap resume \<lparr>LbSnapshot = Some snapshot, LbEvents = es, LbResync = resync\<rparr> ?w =
          Some (Inr (Some (Cursor snapshot)), new_socket (\<lambda>_. False)\<lparr>SoSent := new, SoReads := 1\<rparr>) \<and>
        on_track ?d u (Some (Cursor snapshot)) \<and> list_all plain (tl new) \<and> new \<noteq> []"
      using rd s snapshot_cursor(1) [OF st s(2,1)] by simp
    then show ?thesis by blast
  next
    assume none: "resume = None" "BootstrapLifecycle no_outage u resume ?d = Inr \<lparr>LbSnapshot = None, LbEvents = [], LbResync = False\<rparr>"
    have "writeBootstrap None \<lparr>LbSnapshot = None, LbEvents = [], LbResync = False\<rparr> ?w =
        Some (Inr None, ?w\<lparr>SoSent := [SnapshotFrame None None]\<rparr>)"
      using w by (simp add: writeBootstrap_def validLifecycleReplay_def lifecycleCursorForSnapshot_def writeSnapshot_def writeEvents_def
          io_defs write_calm)
    then have "RdBootstrap (calm_reader dbs) 0 u resume = Inr \<lparr>LbSnapshot = None, LbEvents = [], LbResync = False\<rparr> \<and>
        writeBootstrap resume \<lparr>LbSnapshot = None, LbEvents = [], LbResync = False\<rparr> ?w =
          Some (Inr None, new_socket (\<lambda>_. False)\<lparr>SoSent := [SnapshotFrame None None], SoReads := 1\<rparr>) \<and>
        on_track ?d u None \<and> list_all plain (tl [SnapshotFrame None None]) \<and> [SnapshotFrame None None] \<noteq> []"
      using rd none by (simp add: on_track_def)
    then show ?thesis by blast
  qed
qed

lemma connection_starts:
  assumes "history_of dbs" and "canonical_uuid u" and "readOptionalSubscribe subscribe = Some resume" and "on_track (dbs 0) u resume"
  shows "\<exists>cursor new. on_track (dbs 1) u cursor \<and> list_all plain (tl new) \<and> new \<noteq> [] \<and>
    (\<forall>selects. HandleWebSocket (calm_reader dbs) u subscribe selects (new_socket (\<lambda>_. False)) =
       serve (calm_reader dbs) u selects cursor (new_socket (\<lambda>_. False)\<lparr>SoSent := new, SoReads := 1\<rparr>))"
proof -
  let ?init = "new_socket (\<lambda>_. False)"
  obtain b cursor new where boot: "RdBootstrap (calm_reader dbs) 0 u resume = Inr b"
      "writeBootstrap resume b (?init\<lparr>SoReads := 1\<rparr>) = Some (Inr cursor, ?init\<lparr>SoSent := new, SoReads := 1\<rparr>)"
      "on_track (dbs 0) u cursor" "list_all plain (tl new)" "new \<noteq> []"
    using bootstrap_on_track [OF assms(1,2,4)] by blast
  have "on_track (dbs 1) u cursor" using on_track_run [OF _ boot(3)] assms(1) by (simp add: history_of_def)
  moreover have "HandleWebSocket (calm_reader dbs) u subscribe selects ?init =
      serve (calm_reader dbs) u selects cursor (?init\<lparr>SoSent := new, SoReads := 1\<rparr>)" for selects
    using boot(1,2) assms(3) by (simp add: HandleWebSocket_def io_try_def read_call_def io_bind_def new_socket_def)
  ultimately show ?thesis using boot(4,5) by blast
qed

text \<open>
  C20. Catching up: a connection reads the databases of an arbitrary run of the store, in which no statement of a
  read and no write fails and which rests from its \<open>m\<close>-th read on; it resumes at a position the log once had, or
  without one. When it has been polled more often than there are events, it is still open, its cursor is at the
  end of the log of the user's active session, in its current generation, or empty when the user has no active
  session; and no frame after the first told the client to resynchronise or reported an error.
\<close>

theorem lifecycle_stream_catches_up:
  assumes "history_of dbs" and "canonical_uuid u" and "\<And>n. m \<le> n \<Longrightarrow> dbs n = dbs m"
    and "readOptionalSubscribe subscribe = Some resume" and "on_track (dbs 0) u resume"
    and "list_all quiet selects" and "m + length (events (dbs m)) < polls selects"
  shows "\<exists>cursor w. HandleWebSocket (calm_reader dbs) u subscribe selects (new_socket (\<lambda>_. False)) = Some (Inr cursor, w) \<and>
    settled (dbs m) u cursor \<and> list_all plain (tl (SoSent w))"
proof -
  let ?init = "new_socket (\<lambda>_. False)"
  obtain cursor new where start: "on_track (dbs 1) u cursor" "list_all plain (tl new)" "new \<noteq> []"
      "HandleWebSocket (calm_reader dbs) u subscribe selects ?init =
         serve (calm_reader dbs) u selects cursor (?init\<lparr>SoSent := new, SoReads := 1\<rparr>)"
    using connection_starts [OF assms(1,2,4,5)] by blast
  let ?w = "?init\<lparr>SoSent := new, SoReads := 1\<rparr>"
  have "calm_socket ?w" by (simp add: calm_socket_def new_socket_def)
  then obtain c' more reads where "serve (calm_reader dbs) u selects cursor ?w =
        Some (Inr c', ?w\<lparr>SoSent := SoSent ?w @ more, SoReads := reads\<rparr>)" "list_all plain more" "settled (dbs m) u c'"
    using serve_catches_up [OF assms(1,2,3,6), of ?w cursor] start(1) assms(7) by fastforce
  then show ?thesis using start by (auto simp: tl_append split: list.split)
qed

text \<open>The run of the witnesses: one reserved session with one event.\<close>

lemma life_rows:
  "sessions life_reserved = [life_session]" "allocations life_reserved = [life_allocation]" "events life_reserved = [life_event]"
  "s_user_id life_session = life_uid" "s_id life_session = life_sid" "a_session_id life_allocation = life_sid"
  "a_id life_allocation = life_alloc" "a_desired_state life_allocation = ''active''" "e_allocation_id life_event = life_alloc"
  by (simp_all add: life_reserved_def life_session_def demo_session_def life_allocation_def new_allocation_def life_event_def new_event_def)

lemma life_user: "canonical_uuid life_uid"
  using life_typed by (simp add: typed_columns_def life_rows)

lemma life_history: "history_of (\<lambda>_. life_reserved)"
  using life_reserved_run life_typed by (simp add: history_of_def store_run.stay)

lemma life_settled: "settled life_reserved life_uid cursor \<Longrightarrow> cursor = Some (cursor_at life_session life_allocation 1)"
proof -
  have "active_lifecycle_session life_uid life_reserved = Some life_sid"
    using life_user
    by (simp add: active_lifecycle_session_def session_outstanding_def allocation_outstanding_def life_rows canonical_uuid_def)
  then show "settled life_reserved life_uid cursor \<Longrightarrow> cursor = Some (cursor_at life_session life_allocation 1)"
    by (auto simp: settled_def life_rows log_of_def)
qed

theorem lifecycle_stream_catches_up_witness:
  "\<exists>w. HandleWebSocket (calm_reader (\<lambda>_. life_reserved)) life_uid SubscribeTimer [PollTick, PingTick True, PollTick]
      (new_socket (\<lambda>_. False)) = Some (Inr (Some (cursor_at life_session life_allocation 1)), w) \<and> list_all plain (tl (SoSent w))"
proof -
  from lifecycle_stream_catches_up [OF life_history life_user, of 0 SubscribeTimer None "[PollTick, PingTick True, PollTick]"]
  obtain cursor w where "HandleWebSocket (calm_reader (\<lambda>_. life_reserved)) life_uid SubscribeTimer [PollTick, PingTick True, PollTick]
      (new_socket (\<lambda>_. False)) = Some (Inr cursor, w)" "settled life_reserved life_uid cursor" "list_all plain (tl (SoSent w))"
    by (auto simp: on_track_def quiet_def polls_def life_rows)
  then show ?thesis using life_settled by blast
qed

text \<open>
  The same session seen by its user: the connection is open, so the client's cursor is the handler's, which is at
  the one event of the log.
\<close>

theorem lifecycle_stream_follows_log_witness:
  "\<exists>w. HandleWebSocket (store_reader (\<lambda>_. (life_reserved, no_outage))) life_uid SubscribeTimer [PollTick, PollTick]
      (new_socket (\<lambda>_. False)) = Some (Inr (Some (cursor_at life_session life_allocation 1)), w) \<and> SoSent w \<noteq> [] \<and>
     follow None (SoSent w) = Some (Some (cursor_at life_session life_allocation 1)) \<and>
     list_all (genuine (shown_snapshot (\<lambda>_. (life_reserved, no_outage)) life_uid) (shown_event (\<lambda>_. (life_reserved, no_outage)) life_uid))
       (SoSent w)"
proof -
  let ?view = "\<lambda>_::nat. (life_reserved, no_outage)" and ?init = "new_socket (\<lambda>_. False)" and ?ticks = "[PollTick, PollTick]"
  have first: "readOptionalSubscribe SubscribeTimer = Some None" "on_track life_reserved life_uid None"
    by (simp_all add: on_track_def)
  obtain cursor new where start: "on_track life_reserved life_uid cursor" "new \<noteq> []"
      "HandleWebSocket (calm_reader (\<lambda>_. life_reserved)) life_uid SubscribeTimer ?ticks ?init =
         serve (calm_reader (\<lambda>_. life_reserved)) life_uid ?ticks cursor (?init\<lparr>SoSent := new, SoReads := 1\<rparr>)"
    using connection_starts [OF life_history life_user first] by blast
  let ?w = "?init\<lparr>SoSent := new, SoReads := 1\<rparr>"
  have "calm_socket ?w" by (simp add: calm_socket_def new_socket_def)
  then obtain c' more reads where "serve (calm_reader (\<lambda>_. life_reserved)) life_uid ?ticks cursor ?w =
        Some (Inr c', ?w\<lparr>SoSent := SoSent ?w @ more, SoReads := reads\<rparr>)" "settled life_reserved life_uid c'"
    using serve_catches_up [OF life_history life_user, of 0 ?ticks ?w cursor] start(1) by (auto simp: quiet_def polls_def life_rows)
  then have run: "HandleWebSocket (store_reader ?view) life_uid SubscribeTimer ?ticks ?init =
      Some (Inr (Some (cursor_at life_session life_allocation 1)), ?w\<lparr>SoSent := new @ more, SoReads := reads\<rparr>)"
    using start(3) life_settled by (simp add: calm_reader_def)
  show ?thesis
    using lifecycle_stream_follows_log [of ?view life_uid SubscribeTimer ?ticks "\<lambda>_. False"] start(2) unfolding run first by auto
qed

end
