(* ===== verification/Spec2Isabelle.thy ===== *)
theory Spec2Isabelle
  imports Authority Store_Outcomes Store_Replay Catalog_Activation Artifact_Store_Laws Catalog_Coordinator Catalog_Restart
    Lifecycle_Liveness
begin

text \<open>
  \<^bold>\<open>The program.\<close> k8s-quiz runs Kubernetes exercises. Its Go backend (\<open>src/backend\<close>, \<open>src/runnerprotocol\<close>) keeps the
  sessions of users in PostgreSQL, drives a provider that runs their environments, grades them, and publishes the catalog
  of problems from a checkout. This development models its two stateful cores, what they stand on,
  and the channel that tells a browser how its session goes.

  \<^item> The durable runner. A controller holds a lease on its provider, whose epoch fences every write. The store records
    sessions, allocations, operations, attempts and an event log in transactions; workers claim destroy and create work
    from it under leases; the authority gate stands between the process and the provider and mirrors the lease.
  \<^item> The problem catalog. The loader captures the checkout into candidates of runtime artifacts; the artifact store keeps
    their bytes under their digests; the ledger records publications in PostgreSQL; the coordinator moves a candidate
    through store and ledger into the loader's active catalog, reconciles ambiguous commits, and serves problems to the
    sessions. A reservation of the store refers to a catalog entry by generation, identifier and revision.
  \<^item> The lifecycle channel. A browser subscribes over a WebSocket with the last event it has seen. The reader takes consistent
    snapshots of one session and its event log out of the store's tables, checks them, and the channel sends what is new.

  \<^bold>\<open>Theories and sources.\<close> A definition has the name of the Go function or type it models; a local helper in lower case
  is a part of the function whose definition follows it. Runner files are under \<open>src/backend/internal/runner\<close>, catalog
  files under \<open>src/backend/internal/problem\<close>.

  \<^item> \<open>Prelude\<close>: 64-bit integers and times, transactions (\<open>tx_bind\<close> and the like: a function of the tables that returns an error or a
    result with the new tables), rules for what a transaction may change, and the locale \<open>tx_preorder\<close> that lifts a relation
    from steps to transactions. \<open>Effects\<close>: actions on an outside world that may fail or not return. \<open>Effect_Conditions\<close>: their
    total weakest preconditions as rewrite rules.
  \<^item> \<open>Go_Text\<close>, \<open>Go_Strings\<close>, \<open>Sha256\<close>, \<open>Byte_Codec\<close>: the parts of Go's library the code uses: UTF-8, JSON strings, package
    strings, a matcher for the regular expressions of the source, SHA-256, big-endian integers, and the locales
    \<open>delimited\<close> and \<open>codec\<close> for formats.
  \<^item> \<open>Runner_Contract\<close> (\<open>runner.go\<close>, \<open>runnerprotocol/v1/identity.go\<close>): references, errors, derived identities, verification requests,
    results and receipts.
  \<^item> \<open>Authority\<close> (\<open>authority.go\<close>): the gate as a state machine and every call of \<open>AuthorityRunner\<close>, with the gate as it is seen
    at each of the call's checks.
  \<^item> \<open>Store_Schema\<close> (migrations 006 to 014), \<open>Store_Base\<close>, \<open>Store_Reserve\<close>, \<open>Store_Lifecycle\<close>, \<open>Store_Verify\<close>, \<open>Store_Work\<close>, \<open>Store_End\<close>
    (\<open>postgres_store.go\<close>, \<open>postgres_reset.go\<close>, \<open>postgres_lifecycle.go\<close>, \<open>postgres_choice.go\<close>, \<open>postgres_work.go\<close>, \<open>postgres_end.go\<close>): the tables with their
    constraints as the record \<open>db\<close> and every method of the store as a function of it. The server's clock and generated values
    and the fate of the commit are arguments.
  \<^item> \<open>Store_System\<close> (with the epoch of \<open>controller_lease.go\<close>): all mutating methods as one type of calls, runs of any controllers,
    and the locale \<open>store_relation\<close> for what every call keeps.
  \<^item> \<open>Problem_Model\<close> (\<open>models.go\<close>, \<open>handler.go\<close>), \<open>Image_Policy\<close> and \<open>Catalog_Loader\<close> and \<open>Catalog_Build\<close> (\<open>loader.go\<close>), \<open>Artifact_Codec\<close>
    (\<open>artifact_codec.go\<close>), \<open>Artifact_Store\<close> (\<open>artifact_store.go\<close>, \<open>artifact_install_linux.go\<close>).
  \<^item> \<open>Catalog_Ledger\<close> (\<open>catalog_ledger.go\<close>, \<open>repository.go\<close>, migrations 011 and 012): the publication tables, their readers and writers.
    \<open>Catalog_Sync\<close> (\<open>catalog_sync.go\<close>): the coordinator, over the interfaces it calls.
  \<^item> \<open>Catalog_Repository\<close>: the interface of the coordinator to the ledger as the locale \<open>publication_ledger\<close>, interpreted by the ledger
    behind a database that fails as it likes.
  \<^item> \<open>Lifecycle_Reader\<close> (\<open>lifecycle.go\<close>): the reader's two read-only transactions as functions of the record \<open>db\<close>.
    \<open>Lifecycle_Socket\<close> (\<open>src/backend/internal/ws/lifecycle.go\<close>): the subscribe message and the loop that polls the reader and sends
    messages. \<open>Lifecycle_Stream\<close> states what the channel needs of the reader as the locale \<open>lifecycle_source\<close>, interpreted by the
    reader over any run of the store.

  \<^bold>\<open>What is shown.\<close>

  \<^item> \<open>Store_History\<close>, \<open>Store_Events\<close>, \<open>Store_Coherence\<close>, \<open>Store_Guarantees\<close>: on every run of the store a superseded controller is inert, rows
    only move forward, event logs have no gaps, and the desired states of sessions, allocations and attempts agree.
  \<^item> \<open>Store_Grades\<close>, \<open>Store_Claims\<close>, \<open>Store_Outcomes\<close>, \<open>Store_Replay\<close>: a verification executes once and its grade is replayed, claims are
    exclusive, the first outcome wins, an end completes exactly when everything is absent, reservations are idempotent;
    and two ways in which the recovery of a controller gets stuck. \<open>Store_Demo\<close> has the states of the witnesses.
  \<^item> \<open>Authority\<close>, \<open>Runner_Contract\<close>: no stale success, no verdict without its receipt, no replay of a receipt.
  \<^item> \<open>Image_Policy\<close>, \<open>Artifact_Roundtrip\<close>, \<open>Catalog_Identity\<close>, \<open>Catalog_Activation\<close>, \<open>Artifact_Store_Laws\<close>: locked images are pinned, the artifact
    format is canonical and round-trips, digests identify their content up to collisions, activation is serial and history
    append-only, stored bytes are authentic and the store's loops end.
  \<^item> \<open>Catalog_Build_Laws\<close>, \<open>Catalog_Ledger_Laws\<close>, \<open>Catalog_Sync_Laws\<close>, \<open>Catalog_Coordinator\<close>: what the loader builds can be published; the
    tables refine an append-only log of publications; the coordinator on top of them serves published catalogs only, leaves
    no doubt behind after an ambiguous commit, and returns. \<open>Catalog_Restart\<close>: a process that starts anew serves what was published.
  \<^item> \<open>Lifecycle_Rows\<close>, \<open>Lifecycle_Confinement\<close>, \<open>Lifecycle_Reader_Laws\<close>: every run of the store keeps the rows the reader insists on; a
    read depends on the rows of the owner's own session only; a delta is the whole log after the cursor.
    \<open>Lifecycle_Stream\<close>, \<open>Lifecycle_Liveness\<close>: what a client receives is the session's log in order without gap or repetition, and
    when the store comes to rest the client catches up with it.

  \<^bold>\<open>Errors, bounds and loops.\<close> Errors are values: \<open>runner_error\<close>, \<open>catalog_error\<close>, \<open>store_error\<close>. Of a wrapped error the value is kept that
  callers test with \<open>errors.Is\<close>. A commit has three fates: it succeeds, it fails and nothing is applied, or it fails and the
  transaction may be applied. Integers that can wrap are words; PostgreSQL integers are unbounded with the checks of their
  columns. Loops that may run for ever are partial functions with \<open>None\<close> for a run without end: the read and write loops of the
  artifact store, which a finite number of interrupts lets end, and the retry loop of the legacy binding, which ends once the
  database stops failing (a database answers from a list of events and works when the list is used up). Loops with a bound keep the bound of the code: 32
  temporary names, 3 start-up attempts. No proof rests on fuel.

  \<^bold>\<open>Parameters.\<close> The YAML parser, the image resolver, the operating system under the artifact store and the checkout, the provider, and
  the attestation verifier are arguments of the definitions that use them, and arbitrary unless a theorem says otherwise. So are
  the statements that fail in a read of the lifecycle reader and what the JSON library makes of a subscribe message.

  \<^bold>\<open>Not modelled.\<close> Transactions are serial, as row locks, the advisory locks and the deferred constraints make them, so \<open>SKIP LOCKED\<close> and
  lock waits do not appear. The session service and the WebSocket hub with its terminal drive timers, goroutines and
  connections; their durable state is the store's. Of the lifecycle channel the admission of the HTTP request, the timers, the
  pump that reads frames and the encoding of messages as JSON are left out. \<open>local_docker.go\<close>, \<open>container\<close> and \<open>private_vm_lifecycle.go\<close> translate provider calls into those of the Docker
  library and an HTTP client. The HTTP handlers, authentication (JWT and bcrypt libraries), the configuration, migration and grants
  tools and the process wiring are input and output around libraries. Of the controller lease only the epoch is modelled, not
  the connection it lives on, nor the one-time proofs derived from it. The catalog's file-only operations for
  authoring tools, attempt rows and listing queries of \<open>repository.go\<close> are left out.
\<close>

end
